(* ===== verification/Prelude.thy ===== *)
theory Prelude
  imports
    Main
    "HOL-Library.Char_ord"
    "HOL-Library.List_Lexorder"
    "HOL-Library.Product_Lexorder"
    "HOL-Library.Multiset"
begin

text \<open>
  The prelude of the TradeOps Sentinel development: the theorem collections, the result
  type that stands for a Python call which may raise, the first-failing-check combinator
  that every pydantic \<open>model_validator\<close> is written with, Python's string and list
  operations as far as the sources use them, and the generic lemmas the component theories
  share.

  Python strings are lists of code points, here of the code points below 256
  (\<^typ>\<open>string\<close>): every identifier, version, currency, hash and path that the code
  compares is constrained to ASCII by a pattern. Python's ordering of strings and tuples is the lexicographic one, which
  \<open>List_Lexorder\<close>, \<open>Char_ord\<close> and \<open>Product_Lexorder\<close> provide.
\<close>

named_theorems result_simps \<open>computation rules of the result monad\<close>
named_theorems check_simps \<open>when a chain of raising checks passes\<close>
named_theorems str_simps \<open>rendering of literals\<close>

section \<open>Calls that may raise\<close>

text \<open>
  \<open>'e result\<close> values: \<open>Inl e\<close> is the raised exception and \<open>Inr v\<close> the returned value.
\<close>

datatype py_error =
    ValueError string
  | KeyError string
  | TypeError string
  | AssertionError string
  | OverflowError string
  | IndexError string
  | AttributeError string
  | InvalidOperation string

definition ebind :: "'e + 'a \<Rightarrow> ('a \<Rightarrow> 'e + 'b) \<Rightarrow> 'e + 'b" where
  "ebind m f = (case m of Inl e \<Rightarrow> Inl e | Inr x \<Rightarrow> f x)"

lemma ebind_simps [simp, result_simps]:
  "ebind (Inl e) f = Inl e"
  "ebind (Inr x) f = f x"
  by (simp_all add: ebind_def)

lemma ebind_eq_Inr [result_simps]:
  "ebind m f = Inr y \<longleftrightarrow> (\<exists>x. m = Inr x \<and> f x = Inr y)"
  by (cases m) auto

lemma ebind_eq_Inl [result_simps]:
  "ebind m f = Inl e \<longleftrightarrow> m = Inl e \<or> (\<exists>x. m = Inr x \<and> f x = Inl e)"
  by (cases m) auto

lemma ebind_assoc: "ebind (ebind m f) g = ebind m (\<lambda>x. ebind (f x) g)"
  by (cases m) auto

lemma ebind_cong [fundef_cong]:
  "m = m' \<Longrightarrow> (\<And>x. m' = Inr x \<Longrightarrow> f x = f' x) \<Longrightarrow> ebind m f = ebind m' f'"
  by (cases m') auto

text \<open>A comprehension or loop over a call that may raise: stop at the first exception.\<close>

fun emap :: "('a \<Rightarrow> 'e + 'b) \<Rightarrow> 'a list \<Rightarrow> 'e + 'b list" where
  "emap f [] = Inr []"
| "emap f (x # xs) = ebind (f x) (\<lambda>y. ebind (emap f xs) (\<lambda>ys. Inr (y # ys)))"

fun efold :: "('a \<Rightarrow> 's \<Rightarrow> 'e + 's) \<Rightarrow> 'a list \<Rightarrow> 's \<Rightarrow> 'e + 's" where
  "efold f [] s = Inr s"
| "efold f (x # xs) s = ebind (f x s) (efold f xs)"

lemma emap_Inr_iff:
  "emap f xs = Inr ys \<longleftrightarrow> list_all2 (\<lambda>x y. f x = Inr y) xs ys"
proof (induction xs arbitrary: ys)
  case Nil
  then show ?case by auto
next
  case (Cons x xs)
  then show ?case by (cases ys) (auto simp: result_simps)
qed

lemma emap_Inr_length: "emap f xs = Inr ys \<Longrightarrow> length ys = length xs"
  by (auto simp: emap_Inr_iff dest: list_all2_lengthD)

lemma emap_total: "(\<And>x. x \<in> set xs \<Longrightarrow> f x = Inr (g x)) \<Longrightarrow> emap f xs = Inr (map g xs)"
  by (induction xs) auto

lemma emap_Inr_mem:
  "emap f xs = Inr ys \<Longrightarrow> y \<in> set ys \<Longrightarrow> \<exists>x\<in>set xs. f x = Inr y"
  by (induction xs arbitrary: ys) (auto simp: result_simps)

lemma emap_cong [fundef_cong]:
  "xs = ys \<Longrightarrow> (\<And>x. x \<in> set ys \<Longrightarrow> f x = g x) \<Longrightarrow> emap f xs = emap g ys"
  by (induction ys arbitrary: xs) auto

text \<open>\<open>for x in xs: if p(x): ...; break\<close> with a test that may raise: the first element that passes.\<close>

fun efind :: "('a \<Rightarrow> 'e + bool) \<Rightarrow> 'a list \<Rightarrow> 'e + 'a option" where
  "efind p [] = Inr None"
| "efind p (x # xs) = ebind (p x) (\<lambda>b. if b then Inr (Some x) else efind p xs)"

lemma efind_total: "(\<And>x. x \<in> set xs \<Longrightarrow> p x = Inr (q x)) \<Longrightarrow> efind p xs = Inr (List.find q xs)"
  by (induction xs) auto

lemma efind_cong [fundef_cong]:
  "xs = ys \<Longrightarrow> (\<And>x. x \<in> set ys \<Longrightarrow> p x = q x) \<Longrightarrow> efind p xs = efind q ys"
  by (induction ys arbitrary: xs) (auto intro!: ebind_cong)

lemma efind_Some: "efind p xs = Inr (Some x) \<Longrightarrow> x \<in> set xs \<and> p x = Inr True"
  by (induction xs) (auto simp: result_simps split: if_splits)

lemma efind_None: "efind p xs = Inr None \<Longrightarrow> x \<in> set xs \<Longrightarrow> p x = Inr False"
  by (induction xs) (auto simp: result_simps split: if_splits)

lemma efold_append: "efold f (xs @ ys) s = ebind (efold f xs s) (efold f ys)"
proof (induction xs arbitrary: s)
  case Nil
  then show ?case by simp
next
  case (Cons x xs)
  then show ?case by (cases "f x s") auto
qed

text \<open>
  Invariant rule for \<open>efold\<close>: what every successful step keeps, the whole loop keeps.
\<close>

lemma efold_invariant:
  assumes "efold f xs s = Inr t" and "P s"
    and "\<And>x s t. x \<in> set xs \<Longrightarrow> P s \<Longrightarrow> f x s = Inr t \<Longrightarrow> P t"
  shows "P t"
  using assms
proof (induction xs arbitrary: s)
  case Nil
  then show ?case by simp
next
  case (Cons x xs)
  then obtain u where u: "f x s = Inr u" "efold f xs u = Inr t"
    by (auto simp: result_simps)
  with Cons.prems(2,3) have "P u" by (meson list.set_intros(1))
  with u(2) show ?case
    by (rule Cons.IH) (use Cons.prems(3) in \<open>meson list.set_intros(2)\<close>)
qed

section \<open>Calls that change state and may raise\<close>

text \<open>
  A call that writes to a store and may raise keeps what it wrote before it raised: every
  store call of the program commits its own transaction. So the state is returned on both
  outcomes.
\<close>

type_synonym ('s, 'e, 'a) call = "'s \<Rightarrow> ('e + 'a) \<times> 's"

definition ret :: "'a \<Rightarrow> ('s, 'e, 'a) call" where
  "ret x = (\<lambda>s. (Inr x, s))"

definition raise :: "'e \<Rightarrow> ('s, 'e, 'a) call" where
  "raise e = (\<lambda>s. (Inl e, s))"

definition get :: "('s \<Rightarrow> 'a) \<Rightarrow> ('s, 'e, 'a) call" where
  "get f = (\<lambda>s. (Inr (f s), s))"

definition lift_result :: "'e + 'a \<Rightarrow> ('s, 'e, 'a) call" where
  "lift_result r = (\<lambda>s. (r, s))"

definition andthen :: "('s, 'e, 'a) call \<Rightarrow> ('a \<Rightarrow> ('s, 'e, 'b) call) \<Rightarrow> ('s, 'e, 'b) call" where
  "andthen m f = (\<lambda>s. case m s of (Inl e, t) \<Rightarrow> (Inl e, t) | (Inr x, t) \<Rightarrow> f x t)"

lemma call_simps [simp, result_simps]:
  "ret x s = (Inr x, s)"
  "raise e s = (Inl e, s)"
  "get g s = (Inr (g s), s)"
  "lift_result r s = (r, s)"
  by (simp_all add: ret_def raise_def get_def lift_result_def)

lemma andthen_ret [simp, result_simps]: "andthen (ret x) f s = f x s"
  by (simp add: andthen_def)

lemma andthen_raise [simp, result_simps]: "andthen (raise e) f s = (Inl e, s)"
  by (simp add: andthen_def)

lemma andthen_get [simp, result_simps]: "andthen (get g) f s = f (g s) s"
  by (simp add: andthen_def)

lemma andthen_lift [simp, result_simps]:
  "andthen (lift_result r) f s = (case r of Inl e \<Rightarrow> (Inl e, s) | Inr x \<Rightarrow> f x s)"
  by (simp add: andthen_def split: sum.split)

lemma andthen_step: "m s = (Inr x, t) \<Longrightarrow> andthen m f s = f x t"
  by (simp add: andthen_def)

lemma andthen_stop: "m s = (Inl e, t) \<Longrightarrow> andthen m f s = (Inl e, t)"
  by (simp add: andthen_def)

lemma andthen_Inr [result_simps]:
  "andthen m f s = (Inr y, u) \<longleftrightarrow> (\<exists>x t. m s = (Inr x, t) \<and> f x t = (Inr y, u))"
  by (auto simp: andthen_def split: prod.splits sum.splits)

lemma andthen_Inl [result_simps]:
  "andthen m f s = (Inl e, u) \<longleftrightarrow>
     m s = (Inl e, u) \<or> (\<exists>x t. m s = (Inr x, t) \<and> f x t = (Inl e, u))"
  by (auto simp: andthen_def split: prod.splits sum.splits)

text \<open>\<open>except E as error: raise F from error\<close>.\<close>

definition translate :: "('e \<Rightarrow> 'f) \<Rightarrow> ('s, 'e, 'a) call \<Rightarrow> ('s, 'f, 'a) call" where
  "translate f m = (\<lambda>s. case m s of (Inl e, t) \<Rightarrow> (Inl (f e), t) | (Inr x, t) \<Rightarrow> (Inr x, t))"

lemma translate_state: "translate f m s = (r, t) \<Longrightarrow> \<exists>q. m s = (q, t)"
  by (auto simp: translate_def split: prod.splits sum.splits)

lemma translate_Inr [result_simps]: "translate f m s = (Inr x, t) \<longleftrightarrow> m s = (Inr x, t)"
  by (auto simp: translate_def split: prod.splits sum.splits)

text \<open>What both parts of a sequence keep, the sequence keeps, whatever it returns.\<close>

lemma andthen_keeps:
  assumes "\<And>r t. m s = (r, t) \<Longrightarrow> P t"
    and "\<And>x t r u. m s = (Inr x, t) \<Longrightarrow> f x t = (r, u) \<Longrightarrow> P u"
    and "andthen m f s = (r, u)"
  shows "P u"
  using assms by (auto simp: andthen_def split: prod.splits sum.splits)

section \<open>Chains of raising checks\<close>

text \<open>
  A validator body \<open>if c1: raise E1; if c2: raise E2; ...\<close> is the list of its conditions
  with what each raises, in the order of the source; its value is the first one raised.
\<close>

fun first_error :: "(bool \<times> 'e) list \<Rightarrow> 'e option" where
  "first_error [] = None"
| "first_error ((c, e) # rest) = (if c then Some e else first_error rest)"

definition checked :: "(bool \<times> 'e) list \<Rightarrow> 'a \<Rightarrow> 'e + 'a" where
  "checked cs x = (case first_error cs of Some e \<Rightarrow> Inl e | None \<Rightarrow> Inr x)"

lemma first_error_None:
  "first_error cs = None \<longleftrightarrow> (\<forall>(c, e) \<in> set cs. \<not> c)"
  by (induction cs rule: first_error.induct) auto

lemma first_error_Nil [check_simps]: "first_error [] = None"
  by simp

lemma first_error_Cons_None [check_simps]:
  "first_error ((c, e) # cs) = None \<longleftrightarrow> \<not> c \<and> first_error cs = None"
  by simp

lemma first_error_append:
  "first_error (xs @ ys) = (case first_error xs of None \<Rightarrow> first_error ys | Some e \<Rightarrow> Some e)"
  by (induction xs rule: first_error.induct) auto

lemma first_error_Some: "first_error cs = Some e \<Longrightarrow> (True, e) \<in> set cs"
  by (induction cs rule: first_error.induct) (auto split: if_splits)

declare first_error.simps [simp del]

lemma first_error_map_None:
  "first_error (map (\<lambda>x. (c x, e x)) xs) = None \<longleftrightarrow> (\<forall>x \<in> set xs. \<not> c x)"
  by (auto simp: first_error_None)

lemma first_error_append_None [check_simps]:
  "first_error (xs @ ys) = None \<longleftrightarrow> first_error xs = None \<and> first_error ys = None"
  by (auto simp: first_error_None)

lemma first_error_concat_None:
  "first_error (concat (map f xs)) = None \<longleftrightarrow> (\<forall>x \<in> set xs. first_error (f x) = None)"
  by (auto simp: first_error_None)

lemma checked_Inr [check_simps]:
  "checked cs x = Inr y \<longleftrightarrow> y = x \<and> first_error cs = None"
  by (auto simp: checked_def split: option.splits)

lemma checked_Inl [check_simps]: "checked cs x = Inl e \<longleftrightarrow> first_error cs = Some e"
  by (auto simp: checked_def split: option.splits)

section \<open>Lists as the code uses them\<close>

text \<open>\<open>len(xs) != len(set(xs))\<close>.\<close>

definition has_dups :: "'a list \<Rightarrow> bool" where
  "has_dups xs \<longleftrightarrow> length xs \<noteq> length (remdups xs)"

lemma has_dups_iff [simp]: "has_dups xs \<longleftrightarrow> \<not> distinct xs"
  unfolding has_dups_def
  by (metis distinct_card distinct_remdups card_distinct length_remdups_card_conv)

text \<open>A list that lists exactly the elements of a duplicate-free list of its length has no duplicates.\<close>

lemma distinct_if_covers:
  "set xs = set ys \<Longrightarrow> length xs = length ys \<Longrightarrow> distinct ys \<Longrightarrow> distinct xs"
  by (metis card_distinct distinct_card)

lemma distinct_map_unique_index:
  assumes "distinct (map f xs)" and "y \<in> set (map f xs)"
  shows "\<exists>!i. i < length xs \<and> f (xs ! i) = y"
  using assms by (fastforce simp: in_set_conv_nth nth_eq_iff_index_eq distinct_conv_nth)

lemma find_by_key:
  assumes "k \<in> f ` set xs"
  obtains r where "List.find (\<lambda>r. f r = k) xs = Some r" "r \<in> set xs" "f r = k"
proof -
  have "List.find (\<lambda>r. f r = k) xs \<noteq> None" using assms by (auto simp: find_None_iff)
  then obtain r where r: "List.find (\<lambda>r. f r = k) xs = Some r" by blast
  then have "r \<in> set xs" "f r = k" by (auto simp: find_Some_iff)
  with r show thesis by (rule that)
qed

text \<open>\<open>next((x for x in xs if p(x)), None)\<close> is \<^const>\<open>List.find\<close>.\<close>

lemma find_Some_D: "List.find p xs = Some x \<Longrightarrow> x \<in> set xs \<and> p x"
  by (induction xs) (auto split: if_splits)

lemma find_snoc:
  "List.find p (xs @ [x]) =
     (case List.find p xs of Some y \<Rightarrow> Some y | None \<Rightarrow> if p x then Some x else None)"
  by (induction xs) simp_all

lemma find_None_D: "List.find p xs = None \<Longrightarrow> x \<in> set xs \<Longrightarrow> \<not> p x"
  by (simp add: find_None_iff)

text \<open>
  Python's \<open>sorted(xs, key=k)\<close> is stable, as \<^const>\<open>sort_key\<close> is. With a key that tells
  the elements apart, the result does not depend on the order of the input.
\<close>

lemma sort_key_permutation:
  assumes "mset xs = mset ys" and "inj_on k (set xs)"
  shows "sort_key k xs = sort_key k ys"
proof (rule properties_for_sort_key)
  show "mset (sort_key k ys) = mset xs" using assms(1) by simp
  show "sorted (map k (sort_key k ys))" by simp
  fix x assume x: "x \<in> set (sort_key k ys)"
  have ss: "set ys = set xs" using assms(1) by (metis mset_eq_setD)
  have eq: "k y = k x \<longleftrightarrow> y = x" if "y \<in> set xs" for y
    using assms(2) that x ss by (auto dest: inj_onD)
  have f: "filter (\<lambda>y. k x = k y) zs = filter (\<lambda>y. x = y) zs" if "set zs = set xs" for zs
    using eq that by (intro filter_cong) (auto dest: sym)
  have c: "filter (\<lambda>y. x = y) zs = replicate (count (mset zs) x) x" for zs
    by (induction zs) auto
  show "filter (\<lambda>y. k x = k y) (sort_key k ys) = filter (\<lambda>y. k x = k y) xs"
    using assms(1) ss by (simp add: f c)
qed

lemma hd_sort_key_min:
  assumes "xs \<noteq> []" and "x \<in> set xs"
  shows "k (hd (sort_key k xs)) \<le> k x"
proof -
  have ne: "sort_key k xs \<noteq> []" using assms(1) by (metis mset_sort mset_zero_iff)
  have s: "sorted (map k (sort_key k xs))" by simp
  have "x \<in> set (sort_key k xs)" using assms(2) by simp
  with ne s show ?thesis by (cases "sort_key k xs") auto
qed

lemma hd_sort_key_mem: "xs \<noteq> [] \<Longrightarrow> hd (sort_key k xs) \<in> set xs"
  by (metis hd_in_set set_sort mset_sort mset_zero_iff)

lemma sort_key_nonempty [simp]: "sort_key k xs = [] \<longleftrightarrow> xs = []"
  by (metis mset_sort mset_zero_iff)

text \<open>An association list with distinct keys is determined by its keys and its map.\<close>

lemma assoc_list_eqI:
  assumes "map fst xs = map fst ys" and "distinct (map fst xs)" and "map_of xs = map_of ys"
  shows "xs = ys"
proof (rule nth_equalityI)
  show len: "length xs = length ys" using assms(1) map_eq_imp_length_eq by blast
  fix i assume i: "i < length xs"
  have k: "fst (xs ! i) = fst (ys ! i)"
    using arg_cong [where f = "\<lambda>zs. zs ! i", OF assms(1)] i len by simp
  have "map_of xs (fst (xs ! i)) = Some (snd (xs ! i))"
    using assms(2) i by (simp add: map_of_eq_Some_iff)
  moreover have "map_of ys (fst (ys ! i)) = Some (snd (ys ! i))"
    using assms(1,2) i len by (simp add: map_of_eq_Some_iff)
  ultimately have "snd (xs ! i) = snd (ys ! i)" using assms(3) k by simp
  with k show "xs ! i = ys ! i" by (simp add: prod_eq_iff)
qed

section \<open>Strings\<close>

definition starts_with :: "string \<Rightarrow> string \<Rightarrow> bool" where
  "starts_with s p \<longleftrightarrow> take (length p) s = p"

text \<open>\<open>s.removeprefix(p)\<close>.\<close>

definition remove_prefix :: "string \<Rightarrow> string \<Rightarrow> string" where
  "remove_prefix s p = (if starts_with s p then drop (length p) s else s)"

text \<open>\<open>sep.join(xs)\<close>.\<close>

fun str_join :: "string \<Rightarrow> string list \<Rightarrow> string" where
  "str_join sep [] = []"
| "str_join sep [x] = x"
| "str_join sep (x # y # ys) = x @ sep @ str_join sep (y # ys)"

text \<open>\<open>s.rsplit("/", 1)[1]\<close> for a string with a slash: what follows the last one.\<close>

definition after_last_slash :: "string \<Rightarrow> string" where
  "after_last_slash s = rev (takeWhile (\<lambda>c. c \<noteq> CHR ''/'') (rev s))"

text \<open>\<open>s.partition(".")[2]\<close>: what follows the first point, empty when there is none.\<close>

definition after_point :: "string \<Rightarrow> string" where
  "after_point s = tl (dropWhile (\<lambda>c. c \<noteq> CHR ''.'') s)"

text \<open>
  What \<open>str_strip_whitespace=True\<close> applies to every string field: strip the Unicode
  white space characters (those below 256) from both ends.
\<close>

definition is_space :: "char \<Rightarrow> bool" where
  "is_space c \<longleftrightarrow> of_char c \<in> {9, 10, 11, 12, 13, 32, 133, 160 :: nat}"

definition py_strip :: "string \<Rightarrow> string" where
  "py_strip s = rev (dropWhile is_space (rev (dropWhile is_space s)))"

lemma dropWhile_idem_rev:
  "dropWhile p (rev (dropWhile p (rev (dropWhile p s)))) = rev (dropWhile p (rev (dropWhile p s)))"
proof (cases "dropWhile p s")
  case Nil
  then show ?thesis unfolding Nil by simp
next
  case (Cons c cs)
  then have "\<not> p c" by (simp add: dropWhile_eq_Cons_conv)
  then show ?thesis
    using Cons by (simp add: dropWhile_append)
qed

lemma py_strip_idem [simp]: "py_strip (py_strip s) = py_strip s"
  unfolding py_strip_def by (simp add: dropWhile_idem_rev)

definition is_digit :: "char \<Rightarrow> bool" where
  "is_digit c \<longleftrightarrow> (let n = of_char c :: nat in 48 \<le> n \<and> n \<le> 57)"

definition is_lower_alpha :: "char \<Rightarrow> bool" where
  "is_lower_alpha c \<longleftrightarrow> (let n = of_char c :: nat in 97 \<le> n \<and> n \<le> 122)"

definition is_upper_alpha :: "char \<Rightarrow> bool" where
  "is_upper_alpha c \<longleftrightarrow> (let n = of_char c :: nat in 65 \<le> n \<and> n \<le> 90)"

definition is_hex :: "char \<Rightarrow> bool" where
  "is_hex c \<longleftrightarrow> is_digit c \<or> (let n = of_char c :: nat in 97 \<le> n \<and> n \<le> 102)"

text \<open>\<open>str.lower()\<close> on ASCII.\<close>

definition lower_char :: "char \<Rightarrow> char" where
  "lower_char c = (if is_upper_alpha c then char_of ((of_char c :: nat) + 32) else c)"

definition lower :: "string \<Rightarrow> string" where
  "lower s = map lower_char s"

text \<open>\<open>str(n)\<close> of a non-negative and of any integer.\<close>

fun digits_of :: "nat \<Rightarrow> string" where
  "digits_of n =
     (if n < 10 then [char_of (48 + n)] else digits_of (n div 10) @ [char_of (48 + n mod 10)])"

declare digits_of.simps [simp del]

definition int_str :: "int \<Rightarrow> string" where
  "int_str i = (if i < 0 then CHR ''-'' # digits_of (nat (- i)) else digits_of (nat i))"

text \<open>\<open>int(s)\<close> on a string of digits.\<close>

definition digit_value :: "char \<Rightarrow> nat" where
  "digit_value c = of_char c - 48"

definition nat_of_digits :: "string \<Rightarrow> nat" where
  "nat_of_digits s = foldl (\<lambda>n c. 10 * n + digit_value c) 0 s"

lemma nat_of_digits_append1:
  "nat_of_digits (s @ [c]) = 10 * nat_of_digits s + digit_value c"
  by (simp add: nat_of_digits_def)

lemma digit_char: "n < 10 \<Longrightarrow> of_char (char_of (48 + n) :: char) = 48 + (n :: nat)"
  by (simp add: of_char_of)

lemma digits_of_nonempty [simp]: "digits_of n \<noteq> []"
  by (subst digits_of.simps) simp

lemma digits_of_digits: "c \<in> set (digits_of n) \<Longrightarrow> is_digit c"
proof (induction n rule: digits_of.induct)
  case (1 n)
  show ?case
  proof (cases "n < 10")
    case True
    with 1 show ?thesis
      by (subst (asm) digits_of.simps) (auto simp: is_digit_def digit_char Let_def)
  next
    case False
    with 1 show ?thesis
      by (subst (asm) (2) digits_of.simps) (auto simp: is_digit_def digit_char Let_def)
  qed
qed

lemma nat_of_digits_digits_of [simp]: "nat_of_digits (digits_of n) = n"
proof (induction n rule: digits_of.induct)
  case (1 n)
  show ?case
  proof (cases "n < 10")
    case True
    then show ?thesis
      by (subst digits_of.simps) (simp add: nat_of_digits_def digit_value_def digit_char)
  next
    case False
    then have "nat_of_digits (digits_of n) =
        10 * nat_of_digits (digits_of (n div 10)) + digit_value (char_of (48 + n mod 10))"
      by (subst digits_of.simps) (simp add: nat_of_digits_append1)
    also have "\<dots> = 10 * (n div 10) + n mod 10"
      using 1 False by (simp add: digit_value_def digit_char)
    finally show ?thesis by simp
  qed
qed

lemma digits_of_inject [simp]: "digits_of m = digits_of n \<longleftrightarrow> m = n"
  by (metis nat_of_digits_digits_of)

text \<open>
  For evaluation, the digits of an integer by integer arithmetic: a \<open>nat\<close> literal would be
  evaluated in unary.
\<close>

function int_digits :: "int \<Rightarrow> string" where
  "int_digits i =
     (if i < 10 then [char_of (48 + nat i)] else int_digits (i div 10) @ [char_of (48 + nat (i mod 10))])"
  by pat_completeness auto

termination
  by (relation "measure nat") (auto simp: nat_less_iff)

declare int_digits.simps [simp del]

lemma int_digits_nat: "0 \<le> i \<Longrightarrow> int_digits i = digits_of (nat i)"
proof (induction i rule: int_digits.induct)
  case (1 i)
  show ?case
  proof (cases "i < 10")
    case True
    with 1 show ?thesis by (subst int_digits.simps, subst digits_of.simps) simp
  next
    case False
    then have d: "nat (i div 10) = nat i div 10" "nat (i mod 10) = nat i mod 10"
      by (simp_all add: nat_div_distrib nat_mod_distrib)
    have "int_digits i = digits_of (nat i div 10) @ [char_of (48 + nat i mod 10)]"
      using 1 False d by (subst int_digits.simps) simp
    also have "\<dots> = digits_of (nat i)" using False by (subst (2) digits_of.simps) simp
    finally show ?thesis .
  qed
qed

declare digits_of.simps [code del]

lemma digits_of_code [code]: "digits_of n = int_digits (int n)"
  by (simp add: int_digits_nat)

text \<open>For evaluation, the character classes by integer arithmetic, for the same reason.\<close>

lemma of_char_int: "(of_char c :: int) = int (of_char c)"
  by (simp add: of_nat_of_char)

lemma char_of_shift: "char_of (int n + 32) = char_of (n + 32)"
  using char_of_nat [where 'a = int, of "n + 32"] by (simp only: of_nat_add of_nat_numeral)

lemma char_class_code [code]:
  "is_space c \<longleftrightarrow> (let n = of_char c :: int in list_ex (\<lambda>k. k = n) [9, 10, 11, 12, 13, 32, 133, 160])"
  "is_digit c \<longleftrightarrow> (let n = of_char c :: int in 48 \<le> n \<and> n \<le> 57)"
  "is_lower_alpha c \<longleftrightarrow> (let n = of_char c :: int in 97 \<le> n \<and> n \<le> 122)"
  "is_upper_alpha c \<longleftrightarrow> (let n = of_char c :: int in 65 \<le> n \<and> n \<le> 90)"
  "is_hex c \<longleftrightarrow> (let n = of_char c :: int in 48 \<le> n \<and> n \<le> 57 \<or> 97 \<le> n \<and> n \<le> 102)"
  "lower_char c = (if is_upper_alpha c then char_of ((of_char c :: int) + 32) else c)"
  "digit_value c = nat ((of_char c :: int) - 48)"
  unfolding of_char_int is_space_def is_digit_def is_lower_alpha_def is_upper_alpha_def is_hex_def
    lower_char_def digit_value_def Let_def
  by (auto simp: char_of_shift)

definition int_of_digits :: "string \<Rightarrow> int" where
  "int_of_digits s = foldl (\<lambda>n c. 10 * n + int (digit_value c)) 0 s"

lemma int_nat_of_digits [code_unfold]: "int (nat_of_digits s) = int_of_digits s"
  by (induction s rule: rev_induct) (simp_all add: nat_of_digits_def int_of_digits_def)

lemma int_str_code [code]:
  "int_str i = (if i < 0 then CHR ''-'' # int_digits (- i) else int_digits i)"
  by (simp add: int_str_def int_digits_nat)

text \<open>\<open>repr(s)\<close> of a string.\<close>

definition hex_char :: "nat \<Rightarrow> char" where
  "hex_char n = (if n < 10 then char_of (48 + n) else char_of (87 + n))"

definition repr_char :: "char \<Rightarrow> char \<Rightarrow> string" where
  "repr_char q c = (let n = of_char c :: nat in
     if c = q \<or> n = 92 then [CHR 0x5C, c]
     else if n = 9 then [CHR 0x5C, CHR ''t'']
     else if n = 10 then [CHR 0x5C, CHR ''n'']
     else if n = 13 then [CHR 0x5C, CHR ''r'']
     else if n < 32 \<or> 127 \<le> n \<and> n \<le> 160 \<or> n = 173
       then [CHR 0x5C, CHR ''x'', hex_char (n div 16), hex_char (n mod 16)]
     else [c])"

definition py_repr :: "string \<Rightarrow> string" where
  "py_repr s = (let q = (if CHR 0x27 \<in> set s \<and> CHR 0x22 \<notin> set s then CHR 0x22 else CHR 0x27)
     in q # concat (map (repr_char q) s) @ [q])"

text \<open>\<open>str()\<close> of a list of strings, and the sorted difference of two lists as sets.\<close>

definition py_list_str :: "string list \<Rightarrow> string" where
  "py_list_str xs = ''['' @ str_join '', '' (map py_repr xs) @ '']''"

definition sorted_minus :: "string list \<Rightarrow> string list \<Rightarrow> string list" where
  "sorted_minus xs ys = sort (remdups (filter (\<lambda>x. x \<notin> set ys) xs))"

end
