(* ===== verification/Json.thy ===== *)
theory Json
  imports Prelude
begin

text \<open>
  \<open>json.dumps(value, sort_keys=True, separators=(",", ":"), ensure_ascii=True)\<close>, the
  canonical encoding that every content hash of the program is taken of
  (\<open>packages/reconciliation/models.py: stable_content_hash\<close>,
  \<open>packages/remediation/envelope.py: _canonical_bytes\<close>,
  \<open>packages/contracts/hashing.py: canonical_observation_bytes\<close>, ...), for the values the
  program encodes: null, booleans, integers, floats (given by their \<open>repr\<close>), strings, lists
  and objects. The main result is that the encoding is injective up to the order of object
  members (\<open>dumps_inject\<close>), so two documents with one encoding have the same content.
\<close>

section \<open>Values and encoding\<close>

datatype json =
    JNull
  | JBool bool
  | JInt int
  | JStr string
  | JFloat string
  | JList "json list"
  | JObj "(string \<times> json) list"

definition esc_char :: "char \<Rightarrow> string" where
  "esc_char c = (let n = of_char c :: nat in
     if n = 34 then [CHR 0x5C, CHR 0x22]
     else if n = 92 then [CHR 0x5C, CHR 0x5C]
     else if n = 10 then [CHR 0x5C, CHR ''n'']
     else if n = 13 then [CHR 0x5C, CHR ''r'']
     else if n = 9 then [CHR 0x5C, CHR ''t'']
     else if n = 12 then [CHR 0x5C, CHR ''f'']
     else if n = 8 then [CHR 0x5C, CHR ''b'']
     else if 32 \<le> n \<and> n \<le> 126 then [c]
     else [CHR 0x5C, CHR ''u'', CHR ''0'', CHR ''0'', hex_char (n div 16), hex_char (n mod 16)])"

lemma esc_char_code [code]:
  "esc_char c = (let n = of_char c :: int in
     if n = 34 then [CHR 0x5C, CHR 0x22]
     else if n = 92 then [CHR 0x5C, CHR 0x5C]
     else if 32 \<le> n \<and> n \<le> 126 then [c]
     else if n = 10 then [CHR 0x5C, CHR ''n'']
     else if n = 13 then [CHR 0x5C, CHR ''r'']
     else if n = 9 then [CHR 0x5C, CHR ''t'']
     else if n = 12 then [CHR 0x5C, CHR ''f'']
     else if n = 8 then [CHR 0x5C, CHR ''b'']
     else [CHR 0x5C, CHR ''u'', CHR ''0'', CHR ''0'', hex_char (nat (n div 16)), hex_char (nat (n mod 16))])"
  unfolding of_char_int esc_char_def Let_def by (simp add: nat_div_distrib nat_mod_distrib)

definition quote :: "string \<Rightarrow> string" where
  "quote s = CHR 0x22 # concat (map esc_char s) @ [CHR 0x22]"

fun enc :: "json \<Rightarrow> string"
  and enc_elems :: "json list \<Rightarrow> string"
  and enc_members :: "(string \<times> json) list \<Rightarrow> string" where
  "enc JNull = ''null''"
| "enc (JBool b) = (if b then ''true'' else ''false'')"
| "enc (JInt i) = int_str i"
| "enc (JStr s) = quote s"
| "enc (JFloat lit) = lit"
| "enc (JList xs) = CHR ''['' # enc_elems xs"
| "enc (JObj kvs) = CHR ''{'' # enc_members kvs"
| "enc_elems [] = '']''"
| "enc_elems [x] = enc x @ '']''"
| "enc_elems (x # y # zs) = enc x @ '','' @ enc_elems (y # zs)"
| "enc_members [] = ''}''"
| "enc_members [(k, v)] = quote k @ '':'' @ enc v @ ''}''"
| "enc_members ((k, v) # kv # kvs) = quote k @ '':'' @ enc v @ '','' @ enc_members (kv # kvs)"

text \<open>\<open>sort_keys=True\<close>: the members of every object in the order of their names.\<close>

fun sort_keys :: "json \<Rightarrow> json" where
  "sort_keys (JList xs) = JList (map sort_keys xs)"
| "sort_keys (JObj kvs) = JObj (sort_key fst (map (\<lambda>(k, v). (k, sort_keys v)) kvs))"
| "sort_keys j = j"

definition dumps :: "json \<Rightarrow> string" where
  "dumps j = enc (sort_keys j)"

section \<open>The encoding is a prefix code\<close>

text \<open>One character read back from its escape.\<close>

definition hex_value :: "char \<Rightarrow> nat" where
  "hex_value c = (let n = of_char c :: nat in if n \<le> 57 then n - 48 else n - 87)"

fun unesc :: "string \<Rightarrow> (char \<times> string) option" where
  "unesc (c # r) =
     (if c = CHR 0x5C then
        (case r of
           d # q \<Rightarrow>
             if d = CHR ''n'' then Some (CHR 0x0A, q)
             else if d = CHR ''r'' then Some (CHR 0x0D, q)
             else if d = CHR ''t'' then Some (CHR 0x09, q)
             else if d = CHR ''f'' then Some (CHR 0x0C, q)
             else if d = CHR ''b'' then Some (CHR 0x08, q)
             else if d = CHR ''u'' then
               Some (char_of (16 * hex_value (q ! 2) + hex_value (q ! 3)), drop 4 q)
             else Some (d, q)
         | [] \<Rightarrow> None)
      else Some (c, r))"
| "unesc [] = None"

lemma hex_value_digit: "n < 16 \<Longrightarrow> hex_value (hex_char n) = n"
  by (auto simp: hex_value_def hex_char_def of_char_of Let_def)

lemma char_eq_iff_of_char: "c = d \<longleftrightarrow> of_char c = (of_char d :: nat)"
  by simp

lemma esc_char_cases:
  obtains "c = CHR 0x22" "esc_char c = [CHR 0x5C, CHR 0x22]"
  | "c = CHR 0x5C" "esc_char c = [CHR 0x5C, CHR 0x5C]"
  | "c = CHR 0x0A" "esc_char c = [CHR 0x5C, CHR ''n'']"
  | "c = CHR 0x0D" "esc_char c = [CHR 0x5C, CHR ''r'']"
  | "c = CHR 0x09" "esc_char c = [CHR 0x5C, CHR ''t'']"
  | "c = CHR 0x0C" "esc_char c = [CHR 0x5C, CHR ''f'']"
  | "c = CHR 0x08" "esc_char c = [CHR 0x5C, CHR ''b'']"
  | (plain) "c \<noteq> CHR 0x22" "c \<noteq> CHR 0x5C" "esc_char c = [c]"
  | (unicode) n where "n < 256" "c = char_of n"
      "esc_char c = [CHR 0x5C, CHR ''u'', CHR ''0'', CHR ''0'', hex_char (n div 16), hex_char (n mod 16)]"
proof -
  define n where "n = (of_char c :: nat)"
  have n: "n < 256" and c: "c = char_of n"
    by (simp_all add: n_def)
  have e: "esc_char c = (
     if n = 34 then [CHR 0x5C, CHR 0x22]
     else if n = 92 then [CHR 0x5C, CHR 0x5C]
     else if n = 10 then [CHR 0x5C, CHR ''n'']
     else if n = 13 then [CHR 0x5C, CHR ''r'']
     else if n = 9 then [CHR 0x5C, CHR ''t'']
     else if n = 12 then [CHR 0x5C, CHR ''f'']
     else if n = 8 then [CHR 0x5C, CHR ''b'']
     else if 32 \<le> n \<and> n \<le> 126 then [c]
     else [CHR 0x5C, CHR ''u'', CHR ''0'', CHR ''0'', hex_char (n div 16), hex_char (n mod 16)])"
    by (simp add: esc_char_def n_def Let_def)
  have v: "char_of (34 :: nat) = CHR 0x22" "char_of (92 :: nat) = CHR 0x5C" "char_of (10 :: nat) = CHR 0x0A"
    "char_of (13 :: nat) = CHR 0x0D" "char_of (9 :: nat) = CHR 0x09" "char_of (12 :: nat) = CHR 0x0C"
    "char_of (8 :: nat) = CHR 0x08"
    by code_simp+
  consider "n = 34" | "n = 92" | "n = 10" | "n = 13" | "n = 9" | "n = 12" | "n = 8"
    | "n \<noteq> 34 \<and> n \<noteq> 92 \<and> n \<noteq> 10 \<and> n \<noteq> 13 \<and> n \<noteq> 9 \<and> n \<noteq> 12 \<and> n \<noteq> 8" "32 \<le> n \<and> n \<le> 126"
    | "n \<noteq> 34 \<and> n \<noteq> 92 \<and> n \<noteq> 10 \<and> n \<noteq> 13 \<and> n \<noteq> 9 \<and> n \<noteq> 12 \<and> n \<noteq> 8" "\<not> (32 \<le> n \<and> n \<le> 126)"
    by argo
  then show thesis
  proof cases
    case 8
    then have "esc_char c = [c]" using e by simp
    moreover have "c \<noteq> CHR 0x22" "c \<noteq> CHR 0x5C" using 8 by (auto simp: n_def)
    ultimately show thesis using plain by blast
  next
    case 9
    then show thesis using e n c unicode by simp
  qed (use c e v that(1-7) in simp_all)
qed

lemma unesc_esc: "unesc (esc_char c @ r) = Some (c, r)"
proof (cases c rule: esc_char_cases)
  case (unicode n)
  then have "16 * hex_value (hex_char (n div 16)) + hex_value (hex_char (n mod 16)) = n"
    by (simp add: hex_value_digit)
  then show ?thesis
    unfolding unicode(3) by (simp add: unicode(2))
qed simp_all

lemma esc_inject:
  assumes "esc_char c @ r = esc_char d @ s"
  shows "c = d \<and> r = s"
proof -
  have "Some (c, r) = Some (d, s)"
    by (rule trans [OF unesc_esc [symmetric] trans [OF arg_cong [where f = unesc, OF assms] unesc_esc]])
  then show ?thesis by simp
qed

lemma esc_not_quote: "esc_char c @ r \<noteq> CHR 0x22 # s"
  by (cases c rule: esc_char_cases) simp_all

lemma escaped_inject:
  "concat (map esc_char a) @ CHR 0x22 # r = concat (map esc_char b) @ CHR 0x22 # s \<Longrightarrow>
   a = b \<and> r = s"
proof (induction a arbitrary: b)
  case Nil
  show ?case
  proof (cases b)
    case (Cons d b')
    with Nil have "esc_char d @ (concat (map esc_char b') @ CHR 0x22 # s) = CHR 0x22 # r"
      by simp
    with esc_not_quote show ?thesis by blast
  qed (use Nil in simp)
next
  case (Cons c a)
  show ?case
  proof (cases b)
    case Nil
    with Cons.prems have "esc_char c @ (concat (map esc_char a) @ CHR 0x22 # r) = CHR 0x22 # s"
      by simp
    with esc_not_quote show ?thesis by blast
  next
    case (Cons d b')
    with Cons.prems have "c = d \<and> concat (map esc_char a) @ CHR 0x22 # r =
        concat (map esc_char b') @ CHR 0x22 # s"
      by (intro esc_inject) simp
    with Cons.IH Cons show ?thesis by auto
  qed
qed

lemma quote_inject: "quote a @ r = quote b @ s \<Longrightarrow> a = b \<and> r = s"
proof -
  assume "quote a @ r = quote b @ s"
  then have "concat (map esc_char a) @ CHR 0x22 # r = concat (map esc_char b) @ CHR 0x22 # s"
    unfolding quote_def by (simp only: append_Cons append_assoc append_Nil list.inject)
  then show "a = b \<and> r = s" by (rule escaped_inject)
qed

text \<open>What may follow an encoded value: the end, or a character that ends it.\<close>

definition ends_value :: "string \<Rightarrow> bool" where
  "ends_value r \<longleftrightarrow> (case r of [] \<Rightarrow> True | c # _ \<Rightarrow> c = CHR '','' \<or> c = CHR '']'' \<or> c = CHR ''}'')"

lemma ends_value_simps [simp]:
  "ends_value []" "ends_value (CHR '','' # r)" "ends_value (CHR '']'' # r)"
  "ends_value (CHR ''}'' # r)"
  by (simp_all add: ends_value_def)

definition int_char :: "char \<Rightarrow> bool" where
  "int_char c \<longleftrightarrow> is_digit c \<or> c = CHR ''-''"

lemma int_str_chars: "c \<in> set (int_str i) \<Longrightarrow> int_char c"
  by (cases "i < 0") (auto simp: int_str_def int_char_def dest: digits_of_digits)

lemma int_str_first: "\<exists>c r. int_str i = c # r \<and> int_char c"
proof (cases "int_str i")
  case Nil
  then show ?thesis by (auto simp: int_str_def split: if_splits)
next
  case (Cons c r)
  then show ?thesis using int_str_chars [of c i] by simp
qed

text \<open>
  The literals \<open>float.__repr__\<close> gives for finite floats: digits, signs, a point or an
  exponent, never the literal of an integer.
\<close>

definition num_char :: "char \<Rightarrow> bool" where
  "num_char c \<longleftrightarrow> int_char c \<or> c = CHR ''.'' \<or> c = CHR ''e'' \<or> c = CHR ''+''"

definition float_literal :: "string \<Rightarrow> bool" where
  "float_literal s \<longleftrightarrow> s \<noteq> [] \<and> int_char (hd s) \<and> list_all num_char s \<and> list_ex (\<lambda>c. \<not> int_char c) s"

fun wf_json :: "json \<Rightarrow> bool" where
  "wf_json (JFloat lit) = float_literal lit"
| "wf_json (JList xs) = list_all wf_json xs"
| "wf_json (JObj kvs) = list_all (wf_json \<circ> snd) kvs"
| "wf_json j = True"

lemma num_takeWhile:
  assumes "ends_value r" and "list_all num_char s"
  shows "takeWhile num_char (s @ r) = s"
proof -
  have "takeWhile num_char r = []"
    using assms(1) by (cases r) (auto simp: ends_value_def num_char_def int_char_def is_digit_def Let_def)
  then show ?thesis
    using assms(2) by (simp add: takeWhile_append2 list_all_iff)
qed

lemma num_inject:
  assumes "a @ r = b @ s" and "ends_value r" and "ends_value s"
    and "list_all num_char a" and "list_all num_char b"
  shows "a = b \<and> r = s"
proof -
  have "takeWhile num_char (a @ r) = takeWhile num_char (b @ s)" using assms(1) by simp
  then have "a = b" using assms num_takeWhile by metis
  with assms(1) show ?thesis by simp
qed

lemma int_str_num: "list_all num_char (int_str i)"
  by (auto simp: list_all_iff num_char_def dest: int_str_chars)

lemma int_str_not_float: "\<not> float_literal (int_str i)"
  by (auto simp: float_literal_def list_ex_iff dest: int_str_chars)

lemma float_num: "float_literal s \<Longrightarrow> list_all num_char s"
  by (simp add: float_literal_def)

lemma digits_not_minus: "digits_of n \<noteq> CHR ''-'' # s"
proof
  assume "digits_of n = CHR ''-'' # s"
  then have "CHR ''-'' \<in> set (digits_of n)" by simp
  then have "is_digit (CHR ''-'')" by (rule digits_of_digits)
  then show False by (simp add: is_digit_def)
qed

lemma int_str_inject: "int_str i = int_str j \<Longrightarrow> i = j"
  using digits_not_minus digits_not_minus [symmetric]
  by (auto simp: int_str_def split: if_splits)

text \<open>The first character of an encoded value tells its kind.\<close>

fun kind :: "json \<Rightarrow> nat" where
  "kind JNull = 0"
| "kind (JBool b) = (if b then 1 else 2)"
| "kind (JInt i) = 3"
| "kind (JStr s) = 4"
| "kind (JFloat lit) = 3"
| "kind (JList xs) = 5"
| "kind (JObj kvs) = 6"

definition first_kind :: "char \<Rightarrow> nat" where
  "first_kind c = (if c = CHR ''n'' then 0 else if c = CHR ''t'' then 1 else if c = CHR ''f'' then 2
     else if c = CHR 0x22 then 4 else if c = CHR ''['' then 5 else if c = CHR ''{'' then 6 else 3)"

lemma first_kind_int: "int_char c \<Longrightarrow> first_kind c = 3"
  by (auto simp: first_kind_def int_char_def is_digit_def)

lemma float_first: "float_literal s \<Longrightarrow> \<exists>c r. s = c # r \<and> int_char c"
  by (cases s) (simp_all add: float_literal_def)

lemma enc_first: "wf_json x \<Longrightarrow> \<exists>c q. enc x = c # q \<and> first_kind c = kind x"
proof (cases x)
  case (JInt i)
  then show ?thesis using int_str_first [of i] by (auto simp: first_kind_int)
next
  case (JFloat lit)
  assume "wf_json x"
  with JFloat show ?thesis using float_first [of lit] by (auto simp: first_kind_int)
qed (auto simp: first_kind_def quote_def)

lemma enc_kind:
  assumes "enc x @ r = enc y @ s" and "wf_json x" and "wf_json y"
  shows "kind x = kind y"
  using enc_first [of x] enc_first [of y] assms by auto

lemma enc_not_end: "wf_json x \<Longrightarrow> enc x @ r \<noteq> CHR '']'' # s"
proof (cases x)
  case (JInt i)
  then show ?thesis using int_str_first [of i] by (auto simp: int_char_def is_digit_def)
next
  case (JFloat lit)
  assume "wf_json x"
  with JFloat show ?thesis using float_first [of lit] by (auto simp: int_char_def is_digit_def)
qed (auto simp: quote_def)

lemma quote_not_end: "quote k @ r \<noteq> CHR ''}'' # s"
  by (simp add: quote_def)

lemma list_cases3:
  obtains "xs = []" | y where "xs = [y]" | y z zs where "xs = y # z # zs"
  by (metis list.exhaust)

lemma enc_inject_aux:
  "enc x @ r = enc y @ s \<Longrightarrow> wf_json x \<Longrightarrow> wf_json y \<Longrightarrow> ends_value r \<Longrightarrow> ends_value s \<Longrightarrow>
     x = y \<and> r = s"
  "enc_elems xs @ p = enc_elems ys @ q \<Longrightarrow> list_all wf_json xs \<Longrightarrow> list_all wf_json ys \<Longrightarrow>
     xs = ys \<and> p = q"
  "enc_members kvs @ t = enc_members kws @ u \<Longrightarrow> list_all (wf_json \<circ> snd) kvs \<Longrightarrow>
     list_all (wf_json \<circ> snd) kws \<Longrightarrow> kvs = kws \<and> t = u"
proof (induction x and xs and kvs arbitrary: y r s and ys p q and kws t u
    rule: enc_enc_elems_enc_members.induct)
  case 1
  from enc_kind [OF "1.prems"(1-3)] have "y = JNull" by (cases y) (simp_all split: if_splits)
  with 1(1) show ?case by simp
next
  case (2 b)
  from enc_kind [OF "2.prems"(1-3)] have "y = JBool b" by (cases y) (simp_all split: if_splits)
  with 2(1) show ?case by simp
next
  case (3 i)
  from enc_kind [OF "3.prems"(1-3)] consider j where "y = JInt j" | lit where "y = JFloat lit"
    by (cases y) (simp_all split: if_splits)
  then show ?case
  proof cases
    case 1
    with 3 show ?thesis using num_inject [OF _ _ _ int_str_num int_str_num, of i r j s]
      by (auto dest: int_str_inject)
  next
    case 2
    with 3 show ?thesis
      using num_inject [OF _ _ _ int_str_num float_num, of i r lit s] int_str_not_float [of i] by auto
  qed
next
  case (4 a)
  from enc_kind [OF "4.prems"(1-3)] obtain b where "y = JStr b" by (cases y) (simp_all split: if_splits)
  with 4 show ?case using quote_inject [of a r b s] by simp
next
  case (5 lit)
  from enc_kind [OF "5.prems"(1-3)] consider j where "y = JInt j" | lit' where "y = JFloat lit'"
    by (cases y) (simp_all split: if_splits)
  then show ?case
  proof cases
    case 1
    with 5 show ?thesis
      using num_inject [OF _ _ _ float_num int_str_num, of lit r j s] int_str_not_float [of j] by auto
  next
    case 2
    with 5 show ?thesis using num_inject [OF _ _ _ float_num float_num, of lit r lit' s] by auto
  qed
next
  case (6 xs)
  from enc_kind [OF "6.prems"(1-3)] obtain zs where "y = JList zs" by (cases y) (simp_all split: if_splits)
  with 6 show ?case by simp
next
  case (7 kvs)
  from enc_kind [OF "7.prems"(1-3)] obtain zs where "y = JObj zs" by (cases y) (simp_all split: if_splits)
  with 7 show ?case by (simp add: comp_def)
next
  case 8
  then show ?case
    using enc_not_end not_sym [OF enc_not_end] by (cases ys rule: list_cases3) simp_all
next
  case (9 x)
  then show ?case
  proof (cases ys rule: list_cases3)
    case 1
    with "9.prems" enc_not_end show ?thesis by simp
  next
    case (2 y)
    with "9.prems" show ?thesis using "9.IH" [of "CHR '']'' # p" y "CHR '']'' # q"] by simp
  next
    case (3 y z zs)
    with "9.prems" show ?thesis
      using "9.IH" [of "CHR '']'' # p" y "CHR '','' # enc_elems (z # zs) @ q"] by simp
  qed
next
  case (10 x x' xs)
  then show ?case
  proof (cases ys rule: list_cases3)
    case 1
    with "10.prems" enc_not_end show ?thesis by simp
  next
    case (2 y)
    with "10.prems" show ?thesis
      using "10.IH"(1) [of "CHR '','' # enc_elems (x' # xs) @ p" y "CHR '']'' # q"] by simp
  next
    case (3 y z zs)
    with "10.prems" show ?thesis
      using "10.IH"(1) [of "CHR '','' # enc_elems (x' # xs) @ p" y "CHR '','' # enc_elems (z # zs) @ q"]
        "10.IH"(2) [of p "z # zs" q]
      by simp
  qed
next
  case 11
  then show ?case
    by (cases kws rule: list_cases3) (auto simp: quote_def)
next
  case (12 k v)
  then show ?case
  proof (cases kws rule: list_cases3)
    case 1
    with "12.prems" quote_not_end show ?thesis by simp
  next
    case (2 kv')
    obtain k' v' where kv': "kv' = (k', v')" by (cases kv')
    with 2 have "kws = [(k', v')]" "k = k'" "enc v @ CHR ''}'' # t = enc v' @ CHR ''}'' # u"
      using "12.prems" by (auto dest: quote_inject)
    with "12.IH" [of "CHR ''}'' # t" v' "CHR ''}'' # u"] "12.prems" show ?thesis by simp
  next
    case (3 kv' kw kws')
    obtain k' v' where kv': "kv' = (k', v')" by (cases kv')
    with 3 have "enc v @ CHR ''}'' # t = enc v' @ CHR '','' # enc_members (kw # kws') @ u"
      using "12.prems" by (auto dest: quote_inject)
    with "12.IH" [of "CHR ''}'' # t" v' "CHR '','' # enc_members (kw # kws') @ u"] "12.prems" 3 kv'
    show ?thesis by simp
  qed
next
  case (13 k v kv kvs)
  then show ?case
  proof (cases kws rule: list_cases3)
    case 1
    with "13.prems" quote_not_end show ?thesis by simp
  next
    case (2 kv')
    obtain k' v' where kv': "kv' = (k', v')" by (cases kv')
    with 2 have "enc v @ CHR '','' # enc_members (kv # kvs) @ t = enc v' @ CHR ''}'' # u"
      using "13.prems" by (auto dest: quote_inject)
    with "13.IH"(1) [of "CHR '','' # enc_members (kv # kvs) @ t" v' "CHR ''}'' # u"] "13.prems" 2 kv'
    show ?thesis by simp
  next
    case (3 kv' kw kws')
    obtain k' v' where kv': "kv' = (k', v')" by (cases kv')
    with 3 have "kws = (k', v') # kw # kws'" "k = k'"
      "enc v @ CHR '','' # enc_members (kv # kvs) @ t = enc v' @ CHR '','' # enc_members (kw # kws') @ u"
      using "13.prems" by (auto dest: quote_inject)
    with "13.IH"(1) [of "CHR '','' # enc_members (kv # kvs) @ t" v'
        "CHR '','' # enc_members (kw # kws') @ u"] "13.IH"(2) [of t "kw # kws'" u] "13.prems"
    show ?thesis by simp
  qed
qed

lemma enc_inject: "wf_json x \<Longrightarrow> wf_json y \<Longrightarrow> enc x = enc y \<longleftrightarrow> x = y"
  using enc_inject_aux(1) [of x "[]" y "[]"] by auto

lemma wf_json_sort_keys [simp]: "wf_json (sort_keys j) = wf_json j"
  by (induction j rule: sort_keys.induct) (auto simp: list_all_iff)

lemma dumps_inject:
  "wf_json x \<Longrightarrow> wf_json y \<Longrightarrow> dumps x = dumps y \<longleftrightarrow> sort_keys x = sort_keys y"
  by (simp add: dumps_def enc_inject)

text \<open>
  An object is determined by its encoding as a map: the member found under a name, with
  its own members sorted, is the same in both.
\<close>

lemma map_of_sort_key:
  assumes "distinct (map fst kvs)"
  shows "map_of (sort_key fst kvs) = map_of kvs"
proof -
  have "mset (map fst (sort_key fst kvs)) = mset (map fst kvs)"
    by (simp only: mset_map mset_sort)
  then have "distinct (map fst (sort_key fst kvs))"
    using assms by (metis mset_eq_imp_distinct_iff)
  then show ?thesis
    using assms by (subst map_of_inject_set) simp_all
qed

lemma dumps_JObj_member:
  assumes "dumps (JObj kvs) = dumps (JObj kws)"
    and "wf_json (JObj kvs)" and "wf_json (JObj kws)"
    and "distinct (map fst kvs)" and "distinct (map fst kws)"
  shows "map_option sort_keys (map_of kvs k) = map_option sort_keys (map_of kws k)"
proof -
  define f where "f = map (\<lambda>(k :: string, v). (k, sort_keys v))"
  have d: "distinct (map fst (f xs))" if "distinct (map fst xs)" for xs
    using that by (simp add: f_def comp_def case_prod_beta)
  have m: "map_of (f xs) k = map_option sort_keys (map_of xs k)" for xs
    by (simp add: f_def map_of_map)
  have "sort_key fst (f kvs) = sort_key fst (f kws)"
    using assms(1) dumps_inject [OF assms(2,3)] by (simp add: f_def)
  then have "map_of (f kvs) = map_of (f kws)"
    using map_of_sort_key [OF d] assms(4,5) by metis
  then show ?thesis using m by metis
qed

lemma enc_members_nonempty [simp]: "enc_members kvs \<noteq> []"
  by (induction kvs rule: induct_list012) (auto simp: quote_def)

lemma enc_members_last: "last (enc_members kvs) = CHR ''}''"
  by (induction kvs rule: induct_list012) (auto simp: last_append)

lemma dumps_JObj_ends: "dumps (JObj kvs) \<noteq> [] \<and> last (dumps (JObj kvs)) = CHR ''}''"
  by (simp add: dumps_def enc_members_last enc_members_nonempty)

end
