(* ===== verification/Calendar.thy ===== *)
theory Calendar
  imports Prelude
begin

text \<open>
  Python's \<open>datetime\<close> module as far as the sources use it. A \<open>date\<close> is its proleptic
  Gregorian ordinal (1 is 0001-01-01), which is how \<open>datetime.date\<close> compares, subtracts
  and adds days. A \<open>datetime\<close> is the microsecond count of its wall clock, less its UTC
  offset when it has one; a value without a time zone never compares with one that has
  (\<open>TypeError\<close>).
\<close>

section \<open>Dates\<close>

type_synonym date = int

definition is_leap :: "int \<Rightarrow> bool" where
  "is_leap y \<longleftrightarrow> y mod 4 = 0 \<and> (y mod 100 \<noteq> 0 \<or> y mod 400 = 0)"

definition days_before_year :: "int \<Rightarrow> int" where
  "days_before_year y = (let p = y - 1 in p * 365 + p div 4 - p div 100 + p div 400)"

definition days_in_month :: "int \<Rightarrow> int \<Rightarrow> int" where
  "days_in_month y m =
     (if m = 2 then (if is_leap y then 29 else 28)
      else if m \<in> {4, 6, 9, 11} then 30 else 31)"

definition days_before_month :: "int \<Rightarrow> int \<Rightarrow> int" where
  "days_before_month y m =
     [0, 0, 31, 59, 90, 120, 151, 181, 212, 243, 273, 304, 334] ! nat m +
     (if m > 2 \<and> is_leap y then 1 else 0)"

definition ymd2ord :: "int \<Rightarrow> int \<Rightarrow> int \<Rightarrow> date" where
  "ymd2ord y m d = days_before_year y + days_before_month y m + d"

text \<open>\<open>date(y, m, d)\<close> accepts exactly the days of years 1 to 9999.\<close>

definition valid_ymd :: "int \<Rightarrow> int \<Rightarrow> int \<Rightarrow> bool" where
  "valid_ymd y m d \<longleftrightarrow> 1 \<le> y \<and> y \<le> 9999 \<and> 1 \<le> m \<and> m \<le> 12 \<and> 1 \<le> d \<and> d \<le> days_in_month y m"

text \<open>\<open>datetime._ord2ymd\<close>.\<close>

definition ord2ymd :: "date \<Rightarrow> int \<times> int \<times> int" where
  "ord2ymd n = (
     let n = n - 1;
         n400 = n div 146097; n = n mod 146097;
         y = n400 * 400 + 1;
         n100 = n div 36524; n = n mod 36524;
         n4 = n div 1461; n = n mod 1461;
         n1 = n div 365; n = n mod 365;
         y = y + n100 * 100 + n4 * 4 + n1
     in if n1 = 4 \<or> n100 = 4 then (y - 1, 12, 31)
        else
          let leap = (n1 = 3 \<and> (n4 \<noteq> 24 \<or> n100 = 3));
              m = (n + 50) div 32;
              pre = [0, 0, 31, 59, 90, 120, 151, 181, 212, 243, 273, 304, 334] ! nat m +
                (if m > 2 \<and> leap then 1 else 0)
          in if pre > n
             then (let m = m - 1;
                       pre = pre - ([0, 31, 28, 31, 30, 31, 30, 31, 31, 30, 31, 30, 31] ! nat m +
                         (if m = 2 \<and> leap then 1 else 0))
                   in (y, m, n - pre + 1))
             else (y, m, n - pre + 1))"

definition zfill :: "nat \<Rightarrow> nat \<Rightarrow> string" where
  "zfill w n = (let s = digits_of n in replicate (w - length s) CHR ''0'' @ s)"

definition date_isoformat :: "date \<Rightarrow> string" where
  "date_isoformat d = (case ord2ymd d of (y, m, day) \<Rightarrow>
     zfill 4 (nat y) @ ''-'' @ zfill 2 (nat m) @ ''-'' @ zfill 2 (nat day))"

text \<open>
  \<open>date.fromisoformat\<close>, as CPython parses it: the text is 7, 8 or 10 bytes of UTF-8, in one of the
  forms \<open>YYYY-MM-DD\<close>, \<open>YYYYMMDD\<close>, \<open>YYYY-Www\<close>, \<open>YYYYWww\<close>, \<open>YYYY-Www-D\<close> and \<open>YYYYWwwD\<close>; a form
  without separators ignores what follows it.
\<close>

definition parse_digits :: "nat \<Rightarrow> string \<Rightarrow> (int \<times> string) option" where
  "parse_digits n s =
     (if length (take n s) = n \<and> list_all is_digit (take n s)
      then Some (int (nat_of_digits (take n s)), drop n s) else None)"

definition utf8_length :: "string \<Rightarrow> nat" where
  "utf8_length s = length s + length (filter (\<lambda>c. 128 \<le> (of_char c :: int)) s)"

definition weekday :: "date \<Rightarrow> int" where
  "weekday d = (d + 6) mod 7"

definition iso_week1_monday :: "int \<Rightarrow> date" where
  "iso_week1_monday y = (
     let first_day = ymd2ord y 1 1; w = weekday first_day in
     first_day - w + (if 3 < w then 7 else 0))"

definition iso_to_ord :: "int \<Rightarrow> int \<Rightarrow> int \<Rightarrow> date option" where
  "iso_to_ord y w d = (
     let first = weekday (ymd2ord y 1 1); r = iso_week1_monday y + (w - 1) * 7 + d - 1 in
     if y < 1 \<or> 9999 < y then None
     else if \<not> (1 \<le> w \<and> w \<le> 52 \<or> w = 53 \<and> (first = 3 \<or> first = 2 \<and> is_leap y)) then None
     else if d < 1 \<or> 7 < d then None
     else if r < 1 \<or> 3652059 < r then None
     else Some r)"

definition eat :: "char \<Rightarrow> string \<Rightarrow> string option" where
  "eat c s = (case s of [] \<Rightarrow> None | d # r \<Rightarrow> if d = c then Some r else None)"

definition eat_sep :: "bool \<Rightarrow> string \<Rightarrow> string option" where
  "eat_sep sep s = (if sep then eat CHR ''-'' s else Some s)"

definition parse_iso_week :: "int \<Rightarrow> bool \<Rightarrow> string \<Rightarrow> date option" where
  "parse_iso_week y sep s = (case parse_digits 2 s of
     None \<Rightarrow> None
   | Some (w, rest) \<Rightarrow>
       if rest = [] then iso_to_ord y w 1
       else (case eat_sep sep rest of
          None \<Rightarrow> None
        | Some r \<Rightarrow> (case parse_digits 1 r of None \<Rightarrow> None | Some (d, _) \<Rightarrow> iso_to_ord y w d)))"

definition parse_iso_month :: "int \<Rightarrow> bool \<Rightarrow> string \<Rightarrow> date option" where
  "parse_iso_month y sep s = (case parse_digits 2 s of
     None \<Rightarrow> None
   | Some (m, rest) \<Rightarrow> (case eat_sep sep rest of
       None \<Rightarrow> None
     | Some r \<Rightarrow> (case parse_digits 2 r of
         None \<Rightarrow> None
       | Some (d, _) \<Rightarrow> if valid_ymd y m d then Some (ymd2ord y m d) else None)))"

definition date_fromisoformat :: "string \<Rightarrow> date option" where
  "date_fromisoformat s =
     (if utf8_length s \<notin> {7, 8, 10} then None
      else (case parse_digits 4 s of
         None \<Rightarrow> None
       | Some (y, rest) \<Rightarrow>
           (let sep = (eat CHR ''-'' rest \<noteq> None); r = (if sep then tl rest else rest) in
            case eat CHR ''W'' r of
              Some q \<Rightarrow> parse_iso_week y sep q
            | None \<Rightarrow> parse_iso_month y sep r)))"

section \<open>Date-times\<close>

text \<open>
  \<open>instant\<close> counts microseconds from the start of day 0 (the day before 0001-01-01); for a
  value with \<open>utcoffset = Some o\<close> it is the UTC instant, so that its wall clock is
  \<open>instant + o\<close>, for a naive one the wall clock itself.
\<close>

record datetime =
  instant :: int
  utcoffset :: "int option"

abbreviation us_per_day :: int where "us_per_day \<equiv> 86400000000"

definition wall_clock :: "datetime \<Rightarrow> int" where
  "wall_clock t = instant t + (case utcoffset t of None \<Rightarrow> 0 | Some off \<Rightarrow> off)"

definition aware :: "datetime \<Rightarrow> bool" where
  "aware t \<longleftrightarrow> utcoffset t \<noteq> None"

definition utc :: "int \<Rightarrow> datetime" where
  "utc i = \<lparr>instant = i, utcoffset = Some 0\<rparr>"

text \<open>\<open>a >= b\<close> and the other orderings of date-times.\<close>

definition datetime_ge :: "datetime \<Rightarrow> datetime \<Rightarrow> py_error + bool" where
  "datetime_ge a b =
     (if aware a \<noteq> aware b
      then Inl (TypeError ''can't compare offset-naive and offset-aware datetimes'')
      else Inr (instant b \<le> instant a))"

text \<open>\<open>t + timedelta(seconds=n)\<close>: the wall clock moves and must stay in years 1 to 9999.\<close>

definition add_seconds :: "datetime \<Rightarrow> int \<Rightarrow> py_error + datetime" where
  "add_seconds t n = (
     let w = wall_clock t + n * 1000000 in
     if w < us_per_day \<or> 3652060 * us_per_day \<le> w
     then Inl (OverflowError ''date value out of range'')
     else Inr (t\<lparr>instant := instant t + n * 1000000\<rparr>))"

definition hms_str :: "int \<Rightarrow> string" where
  "hms_str us = (
     let s = us div 1000000; f = us mod 1000000 in
     zfill 2 (nat (s div 3600)) @ '':'' @ zfill 2 (nat (s div 60 mod 60)) @ '':'' @
     zfill 2 (nat (s mod 60)) @ (if f = 0 then [] else ''.'' @ zfill 6 (nat f)))"

definition offset_str :: "int \<Rightarrow> string" where
  "offset_str off = (
     let a = \<bar>off\<bar>; s = a div 1000000; f = a mod 1000000 in
     (if off < 0 then ''-'' else ''+'') @
     zfill 2 (nat (s div 3600)) @ '':'' @ zfill 2 (nat (s div 60 mod 60)) @
     (if s mod 60 = 0 \<and> f = 0 then []
      else '':'' @ zfill 2 (nat (s mod 60)) @ (if f = 0 then [] else ''.'' @ zfill 6 (nat f))))"

definition isoformat :: "datetime \<Rightarrow> string" where
  "isoformat t = (let w = wall_clock t in
     date_isoformat (w div us_per_day) @ ''T'' @ hms_str (w mod us_per_day) @
     (case utcoffset t of None \<Rightarrow> [] | Some off \<Rightarrow> offset_str off))"

lemma add_seconds_instant:
  "add_seconds t n = Inr u \<Longrightarrow> instant u = instant t + n * 1000000 \<and> utcoffset u = utcoffset t"
  by (auto simp: add_seconds_def Let_def split: if_splits)

lemma datetime_ge_aware [simp]:
  "aware a \<Longrightarrow> aware b \<Longrightarrow> datetime_ge a b = Inr (instant b \<le> instant a)"
  by (simp add: datetime_ge_def)

lemma aware_utc [simp]: "aware (utc i)" "instant (utc i) = i" "utcoffset (utc i) = Some 0"
  by (simp_all add: aware_def utc_def)

end
