(* ===== verification/Runtime.thy ===== *)
theory Runtime
  imports Json Calendar Complex_Main
begin

text \<open>
  What the sources take from outside: the digest functions of \<open>hashlib\<close> and \<open>hmac\<close>, and
  the JSON renderings that pydantic-core chooses for a \<open>datetime\<close> and that Python chooses
  for a \<open>float\<close>. They are the fields of \<^emph>\<open>runtime\<close>, an argument of every definition that
  hashes, signs or dumps a model; what a theorem needs of them is a named hypothesis or a
  law of the locale \<open>hex_digest\<close>.
\<close>

record runtime =
  sha256_hexdigest :: "string \<Rightarrow> string"
  hmac_sha256_hexdigest :: "string \<Rightarrow> string \<Rightarrow> string"
  datetime_json :: "datetime \<Rightarrow> string"
  float_repr :: "rat \<Rightarrow> string"

text \<open>\<open>"sha256:" + hashlib.sha256(bytes).hexdigest()\<close>, the form of every content hash.\<close>

definition sha256_tag :: "runtime \<Rightarrow> string \<Rightarrow> string" where
  "sha256_tag rt bytes = ''sha256:'' @ sha256_hexdigest rt bytes"

text \<open>The pattern \<open>^sha256:[a-f0-9]{64}$\<close> of \<open>Sha256Hash\<close>.\<close>

definition is_sha256_hash :: "string \<Rightarrow> bool" where
  "is_sha256_hash s \<longleftrightarrow>
     starts_with s ''sha256:'' \<and> length (remove_prefix s ''sha256:'') = 64 \<and>
     list_all is_hex (remove_prefix s ''sha256:'')"

definition json_opt :: "('a \<Rightarrow> json) \<Rightarrow> 'a option \<Rightarrow> json" where
  "json_opt f x = (case x of None \<Rightarrow> JNull | Some v \<Rightarrow> f v)"

section \<open>The contract of a digest function\<close>

text \<open>
  \<open>hexdigest\<close> of SHA-256 is 64 lower-case hexadecimal digits; that is all the contracts of
  the program rely on besides its value being a function of the bytes.
\<close>

locale hex_digest =
  fixes digest :: "string \<Rightarrow> string"
  assumes digest_length: "length (digest b) = 64"
    and digest_hex: "c \<in> set (digest b) \<Longrightarrow> is_hex c"
begin

lemma tagged_hash_valid: "is_sha256_hash (''sha256:'' @ digest b)"
  using digest_length [of b] digest_hex [of _ b]
  by (auto simp: is_sha256_hash_def starts_with_def remove_prefix_def list_all_iff)

end

section \<open>A concrete runtime\<close>

text \<open>
  A runtime on which statements are evaluated: the bytes themselves stand for their digest,
  and a date-time is written by its two components. Its renderings are injective, which is
  what the documented renderings promise.
\<close>

definition plain_datetime :: "datetime \<Rightarrow> string" where
  "plain_datetime t = dumps (JList [JInt (instant t), json_opt JInt (utcoffset t)])"

definition plain_runtime :: runtime where
  "plain_runtime = \<lparr>
     sha256_hexdigest = (\<lambda>b. b),
     hmac_sha256_hexdigest = (\<lambda>key msg. replicate 64 (CHR ''a'')),
     datetime_json = plain_datetime,
     float_repr = (\<lambda>r. ''0.5'')\<rparr>"

lemma plain_datetime_inj: "inj plain_datetime"
proof (rule injI)
  fix x y assume "plain_datetime x = plain_datetime y"
  then have "sort_keys (JList [JInt (instant x), json_opt JInt (utcoffset x)]) =
      sort_keys (JList [JInt (instant y), json_opt JInt (utcoffset y)])"
    unfolding plain_datetime_def
    by (subst (asm) dumps_inject) (simp_all add: json_opt_def split: option.splits)
  then show "x = y"
    by (cases x; cases y) (auto simp: json_opt_def split: option.splits)
qed

end
