(* ===== verification/Remediation_Models.thy ===== *)
theory Remediation_Models
  imports Runtime "HOL-Library.AList"
begin

text \<open>
  \<open>packages/remediation/models.py\<close>: the typed contracts of the controlled remediation
  slice. Every model has \<open>str_strip_whitespace=True\<close>, so constructing one strips its string
  fields; the constructors below that take raw strings (\<open>mk_ActionEnvelope\<close>,
  \<open>mk_Approval\<close>, ...) do the same.
\<close>

text \<open>Stripping keeps a string without outer white space.\<close>

lemma py_strip_id: "s = [] \<or> \<not> is_space (hd s) \<and> \<not> is_space (last s) \<Longrightarrow> py_strip s = s"
proof (cases "s = []")
  case False
  assume "s = [] \<or> \<not> is_space (hd s) \<and> \<not> is_space (last s)"
  with False have h: "\<not> is_space (hd s)" "\<not> is_space (hd (rev s))" by (simp_all add: hd_rev)
  have "dropWhile is_space t = t" if "t \<noteq> []" "\<not> is_space (hd t)" for t
    using that by (cases t) simp_all
  with h False show ?thesis by (simp add: py_strip_def)
qed (simp add: py_strip_def)

section \<open>Literals\<close>

datatype RiskTier = RISK_LOW | RISK_MEDIUM | RISK_HIGH

datatype Priority = PRIORITY_LOW | PRIORITY_MEDIUM | PRIORITY_HIGH | PRIORITY_CRITICAL

datatype ApprovalRole = MAKER | CHECKER

datatype ApprovalDecision = APPROVE | REJECT

datatype RecommendedAction = CORRECT_LEGACY_BOOKING_FIELD | MANUAL_INVESTIGATION_ACTION

datatype PolicyOutcome = ELIGIBLE_FOR_APPROVAL | MANUAL_INVESTIGATION | REJECTED

datatype ExecutionOutcome =
    SUCCESS
  | DUPLICATE_NOOP
  | TIMEOUT_RECOVERED
  | REJECTED_EXPIRED
  | REJECTED_TAMPERED
  | REJECTED_APPROVALS_MISSING
  | REJECTED_SAME_IDENTITY
  | REJECTED_VALUE_MISMATCH
  | REJECTED_FIELD_NOT_ALLOWED

fun role_str :: "ApprovalRole \<Rightarrow> string" where
  "role_str MAKER = ''MAKER''"
| "role_str CHECKER = ''CHECKER''"

fun action_str :: "RecommendedAction \<Rightarrow> string" where
  "action_str CORRECT_LEGACY_BOOKING_FIELD = ''CORRECT_LEGACY_BOOKING_FIELD''"
| "action_str MANUAL_INVESTIGATION_ACTION = ''MANUAL_INVESTIGATION''"

fun policy_outcome_str :: "PolicyOutcome \<Rightarrow> string" where
  "policy_outcome_str ELIGIBLE_FOR_APPROVAL = ''ELIGIBLE_FOR_APPROVAL''"
| "policy_outcome_str MANUAL_INVESTIGATION = ''MANUAL_INVESTIGATION''"
| "policy_outcome_str REJECTED = ''REJECTED''"

fun priority_str :: "Priority \<Rightarrow> string" where
  "priority_str PRIORITY_LOW = ''LOW''"
| "priority_str PRIORITY_MEDIUM = ''MEDIUM''"
| "priority_str PRIORITY_HIGH = ''HIGH''"
| "priority_str PRIORITY_CRITICAL = ''CRITICAL''"

fun risk_tier_str :: "RiskTier \<Rightarrow> string" where
  "risk_tier_str RISK_LOW = ''LOW''"
| "risk_tier_str RISK_MEDIUM = ''MEDIUM''"
| "risk_tier_str RISK_HIGH = ''HIGH''"

definition ALLOWED_PROPOSED_FIELDS :: "string list" where
  "ALLOWED_PROPOSED_FIELDS = [''/payload/base_amount'']"

definition PROHIBITED_ACTIONS :: "string list" where
  "PROHIBITED_ACTIONS =
     [''SUBMIT_ORDER'', ''CANCEL_ORDER'', ''AMEND_ORDER'', ''PRICE_DECISION'', ''TRADING_ACTION'']"

section \<open>Exceptions\<close>

datatype remediation_exn =
    EnvelopeSigningError string
  | EnvelopeTamperedError string
  | EnvelopeExpiredError string
  | ApprovalsIncompleteError string
  | SameIdentityError string
  | DuplicateApprovalRoleError string
  | BreakNotFoundError string
  | CaseNotEligibleError string
  | AIProviderError string
  | DatabaseConstraintError string
  | HTTPException nat string
  | PyExc py_error

fun lift_py :: "py_error + 'a \<Rightarrow> remediation_exn + 'a" where
  "lift_py (Inl e) = Inl (PyExc e)"
| "lift_py (Inr x) = Inr x"

lemma lift_py_Inr [simp, result_simps]: "lift_py r = Inr x \<longleftrightarrow> r = Inr x"
  by (cases r) auto

lemma lift_py_Inl [result_simps]: "lift_py r = Inl e \<longleftrightarrow> (\<exists>d. r = Inl d \<and> e = PyExc d)"
  by (cases r) auto

section \<open>Break facts and recommendations\<close>

record BreakFacts =
  bf_break_id :: string
  bf_break_family :: string
  bf_condition_code :: string
  bf_product_type :: string
  bf_trade_id :: string
  bf_field_path :: string
  bf_expected_value :: string
  bf_observed_value :: string
  bf_expected_source_system :: string
  bf_observed_source_system :: string
  bf_trade_value_amount :: string
  bf_trade_value_currency :: string

definition mk_BreakFacts :: "BreakFacts \<Rightarrow> BreakFacts" where
  "mk_BreakFacts f = \<lparr>
     bf_break_id = py_strip (bf_break_id f),
     bf_break_family = py_strip (bf_break_family f),
     bf_condition_code = py_strip (bf_condition_code f),
     bf_product_type = py_strip (bf_product_type f),
     bf_trade_id = py_strip (bf_trade_id f),
     bf_field_path = py_strip (bf_field_path f),
     bf_expected_value = py_strip (bf_expected_value f),
     bf_observed_value = py_strip (bf_observed_value f),
     bf_expected_source_system = py_strip (bf_expected_source_system f),
     bf_observed_source_system = py_strip (bf_observed_source_system f),
     bf_trade_value_amount = py_strip (bf_trade_value_amount f),
     bf_trade_value_currency = py_strip (bf_trade_value_currency f)\<rparr>"

record Citation =
  ct_document_id :: string
  ct_section :: string

definition citation_key :: "Citation \<Rightarrow> string" where
  "citation_key c = ct_document_id c @ ''#'' @ ct_section c"

text \<open>
  \<open>confidence\<close> is a double, that is a rational; \<open>proposed_fields\<close> is a dict, its items in
  insertion order with distinct keys.
\<close>

record AIRecommendation =
  predicted_root_cause :: string
  confidence :: rat
  priority :: Priority
  recommended_action :: "RecommendedAction option"
  proposed_fields :: "(string \<times> string) list"
  risk_tier :: RiskTier
  ai_required_approvals :: "ApprovalRole list"
  citations :: "Citation list"
  abstain_reason :: "string option"

text \<open>A falsy optional string: absent or empty.\<close>

definition no_text :: "string option \<Rightarrow> bool" where
  "no_text s \<longleftrightarrow> s = None \<or> s = Some []"

definition action_and_abstain_are_mutually_exclusive ::
    "AIRecommendation \<Rightarrow> py_error + AIRecommendation" where
  "action_and_abstain_are_mutually_exclusive r = checked [
     (recommended_action r = None \<and> no_text (abstain_reason r),
        ValueError ''recommended_action is null but abstain_reason is missing''),
     (recommended_action r \<noteq> None \<and> \<not> no_text (abstain_reason r),
        ValueError ''recommended_action and abstain_reason are mutually exclusive''),
     (recommended_action r = Some CORRECT_LEGACY_BOOKING_FIELD \<and> proposed_fields r = [],
        ValueError ''CORRECT_LEGACY_BOOKING_FIELD requires at least one proposed field'')] r"

text \<open>The field constraints of the schema, then the validator, on stripped fields. Of two keys of the dict that are
  equal after stripping the later value counts, in the place of the first.\<close>

definition mk_Citation :: "Citation \<Rightarrow> Citation" where
  "mk_Citation c = \<lparr>ct_document_id = py_strip (ct_document_id c), ct_section = py_strip (ct_section c)\<rparr>"

definition AIRecommendation_fields :: "AIRecommendation \<Rightarrow> AIRecommendation" where
  "AIRecommendation_fields r = r\<lparr>
     predicted_root_cause := py_strip (predicted_root_cause r),
     proposed_fields := fold (\<lambda>(k, v). AList.update (py_strip k) (py_strip v)) (proposed_fields r) [],
     citations := map mk_Citation (citations r),
     abstain_reason := map_option py_strip (abstain_reason r)\<rparr>"

definition mk_AIRecommendation :: "AIRecommendation \<Rightarrow> py_error + AIRecommendation" where
  "mk_AIRecommendation raw = (
     let r = AIRecommendation_fields raw in
     ebind (checked [
       (predicted_root_cause r = [], ValueError ''String should have at least 1 character''),
       (2000 < length (predicted_root_cause r), ValueError ''String should have at most 2000 characters''),
       (confidence r < 0, ValueError ''Input should be greater than or equal to 0''),
       (1 < confidence r, ValueError ''Input should be less than or equal to 1''),
       (2000 < length (case abstain_reason r of None \<Rightarrow> [] | Some s \<Rightarrow> s),
          ValueError ''String should have at most 2000 characters'')] r)
     action_and_abstain_are_mutually_exclusive)"

section \<open>Binding an approval to a recommendation\<close>

definition citation_json :: "Citation \<Rightarrow> json" where
  "citation_json c = JObj [(''document_id'', JStr (ct_document_id c)), (''section'', JStr (ct_section c))]"

text \<open>
  \<open>model_dump(mode="json")\<close>. The number is rendered by \<open>float.__repr__\<close>; it is kept as
  the tagged string \<open>float_repr\<close> so that the encoding stays injective.
\<close>

definition recommendation_json :: "runtime \<Rightarrow> AIRecommendation \<Rightarrow> json" where
  "recommendation_json rt r = JObj [
     (''predicted_root_cause'', JStr (predicted_root_cause r)),
     (''confidence'', JFloat (float_repr rt (confidence r))),
     (''priority'', JStr (priority_str (priority r))),
     (''recommended_action'', json_opt (JStr \<circ> action_str) (recommended_action r)),
     (''proposed_fields'', JObj (map (\<lambda>(k, v). (k, JStr v)) (proposed_fields r))),
     (''risk_tier'', JStr (risk_tier_str (risk_tier r))),
     (''required_approvals'', JList (map (JStr \<circ> role_str) (ai_required_approvals r))),
     (''citations'', JList (map citation_json (citations r))),
     (''abstain_reason'', json_opt JStr (abstain_reason r))]"

definition recommendation_content_hash :: "runtime \<Rightarrow> AIRecommendation \<Rightarrow> string" where
  "recommendation_content_hash rt r = sha256_tag rt (dumps (recommendation_json rt r))"

section \<open>Decisions, approvals, envelopes, results\<close>

record PolicyDecision =
  pd_outcome :: PolicyOutcome
  pd_reasons :: "string list"
  pd_required_approvals :: "ApprovalRole list"
  approved_field_path :: "string option"
  pd_approved_value :: "string option"

record Approval =
  ap_role :: ApprovalRole
  ap_approver_identity :: string
  ap_decision :: ApprovalDecision
  ap_decided_at :: datetime
  ap_approved_recommendation_hash :: string

definition mk_Approval :: "Approval \<Rightarrow> py_error + Approval" where
  "mk_Approval raw = (
     let a = raw\<lparr>ap_approver_identity := py_strip (ap_approver_identity raw),
                 ap_approved_recommendation_hash := py_strip (ap_approved_recommendation_hash raw)\<rparr>
     in checked [
       (ap_approver_identity a = [], ValueError ''String should have at least 1 character''),
       (200 < length (ap_approver_identity a), ValueError ''String should have at most 200 characters'')] a)"

text \<open>\<open>action_type\<close> is the one-valued literal \<open>"CORRECT_LEGACY_BOOKING_FIELD"\<close>.\<close>

record ActionEnvelope =
  ae_case_id :: string
  ae_trade_id :: string
  ae_tenant_id :: string
  ae_portfolio_id :: string
  ae_field_path :: string
  ae_approved_value :: string
  ae_expected_old_value :: string
  ae_maker_identity :: string
  ae_checker_identity :: string
  ae_issued_at :: datetime
  ae_expires_at :: datetime
  ae_idempotency_key :: string
  ae_content_hash :: string
  ae_signature :: string

definition mk_ActionEnvelope :: "ActionEnvelope \<Rightarrow> ActionEnvelope" where
  "mk_ActionEnvelope e = \<lparr>
     ae_case_id = py_strip (ae_case_id e),
     ae_trade_id = py_strip (ae_trade_id e),
     ae_tenant_id = py_strip (ae_tenant_id e),
     ae_portfolio_id = py_strip (ae_portfolio_id e),
     ae_field_path = py_strip (ae_field_path e),
     ae_approved_value = py_strip (ae_approved_value e),
     ae_expected_old_value = py_strip (ae_expected_old_value e),
     ae_maker_identity = py_strip (ae_maker_identity e),
     ae_checker_identity = py_strip (ae_checker_identity e),
     ae_issued_at = ae_issued_at e,
     ae_expires_at = ae_expires_at e,
     ae_idempotency_key = py_strip (ae_idempotency_key e),
     ae_content_hash = py_strip (ae_content_hash e),
     ae_signature = py_strip (ae_signature e)\<rparr>"

record ExecutionResult =
  er_outcome :: ExecutionOutcome
  er_detail :: string
  er_read_back_value :: "string option"
  er_applied :: bool

lemma mk_ActionEnvelope_idem [simp]: "mk_ActionEnvelope (mk_ActionEnvelope e) = mk_ActionEnvelope e"
  by (simp add: mk_ActionEnvelope_def)

lemma mk_BreakFacts_idem [simp]: "mk_BreakFacts (mk_BreakFacts f) = mk_BreakFacts f"
  by (simp add: mk_BreakFacts_def)

end
