(* ===== verification/Remediation_Policy.thy ===== *)
theory Remediation_Policy
  imports Remediation_Models
begin

text \<open>
  \<open>packages/remediation/retrieval.py\<close> (the runbook keyword index),
  \<open>packages/remediation/policy.py\<close> (the deterministic policy engine) and
  \<open>packages/remediation/ai_provider.py\<close> (the offline provider). The parsed runbook index,
  which \<open>_index\<close> reads from the package's markdown files, is the argument \<open>index\<close>.
\<close>

section \<open>Runbook retrieval\<close>

definition SUPPORTING_SECTIONS :: "string \<Rightarrow> string list option" where
  "SUPPORTING_SECTIONS = map_of [
     (''CORRECT_LEGACY_BOOKING_FIELD'',
        [''RB-001#3'', ''RB-001#1'', ''RB-001#2'', ''RB-002#1'', ''RB-002#7'']),
     (''MANUAL_INVESTIGATION'', [''RB-001#5'', ''RB-002#4''])]"

record RunbookSection =
  rs_document_id :: string
  rs_section_number :: int
  rs_title :: string
  rs_content :: string

definition runbook_citation_key :: "RunbookSection \<Rightarrow> string" where
  "runbook_citation_key s = rs_document_id s @ ''#'' @ int_str (rs_section_number s)"

record RetrievedSection =
  rt_document_id :: string
  rt_section :: string
  rt_title :: string
  rt_snippet :: string

definition retrieved_citation_key :: "RetrievedSection \<Rightarrow> string" where
  "retrieved_citation_key s = rt_document_id s @ ''#'' @ rt_section s"

definition is_word_char :: "char \<Rightarrow> bool" where
  "is_word_char c \<longleftrightarrow> is_lower_alpha c \<or> is_digit c"

text \<open>\<open>re.compile(r"[a-z0-9]+").findall(text)\<close>: the maximal runs of word characters.\<close>

function find_words :: "string \<Rightarrow> string list" where
  "find_words [] = []"
| "find_words (c # cs) =
     (if is_word_char c
      then (c # takeWhile is_word_char cs) # find_words (dropWhile is_word_char cs)
      else find_words cs)"
  by pat_completeness auto

termination
  by (relation "measure length") (simp_all add: le_imp_less_Suc length_dropWhile_le)

definition tokens :: "string \<Rightarrow> string list" where
  "tokens text = remdups (find_words (lower text))"

text \<open>The characters \<open>str.splitlines\<close> breaks at.\<close>

definition is_linebreak :: "char \<Rightarrow> bool" where
  "is_linebreak c \<longleftrightarrow> of_char c \<in> {10, 11, 12, 13, 28, 29, 30, 133 :: nat}"

definition first_line :: "string \<Rightarrow> py_error + string" where
  "first_line s =
     (if s = [] then Inl (IndexError ''list index out of range'')
      else Inr (takeWhile (\<lambda>c. \<not> is_linebreak c) s))"

definition overlap_size :: "string list \<Rightarrow> RunbookSection \<Rightarrow> nat" where
  "overlap_size query_tokens section =
     length (filter (\<lambda>t. t \<in> set (tokens (rs_title section @ '' '' @ rs_content section))) query_tokens)"

definition search :: "RunbookSection list \<Rightarrow> string \<Rightarrow> nat \<Rightarrow> py_error + RetrievedSection list" where
  "search index query top_k = (
     let query_tokens = tokens query in
     if query_tokens = [] then Inr []
     else
       let scored = filter (\<lambda>(n, _). 0 < n) (map (\<lambda>s. (overlap_size query_tokens s, s)) index);
           ranked = sort_key (\<lambda>(n, _). - int n) scored
       in emap (\<lambda>(_, s). ebind (first_line (rs_content s)) (\<lambda>line. Inr \<lparr>
                 rt_document_id = rs_document_id s,
                 rt_section = int_str (rs_section_number s),
                 rt_title = rs_title s,
                 rt_snippet = take 200 line\<rparr>))
            (take top_k ranked))"

definition citation_exists :: "RunbookSection list \<Rightarrow> string \<Rightarrow> bool" where
  "citation_exists index key \<longleftrightarrow> list_ex (\<lambda>s. runbook_citation_key s = key) index"

definition citation_supports_action :: "RunbookSection list \<Rightarrow> string \<Rightarrow> string \<Rightarrow> bool" where
  "citation_supports_action index key action = (
     if \<not> citation_exists index key then False
     else case SUPPORTING_SECTIONS action of None \<Rightarrow> False | Some allowed \<Rightarrow> key \<in> set allowed)"

section \<open>The policy engine\<close>

text \<open>The double nearest to 0.7.\<close>

definition CONFIDENCE_THRESHOLD :: rat where
  "CONFIDENCE_THRESHOLD = 3152519739159347 / 4503599627370496"

definition SUPPORTED_ACTIONS :: "string list" where
  "SUPPORTED_ACTIONS = [''CORRECT_LEGACY_BOOKING_FIELD'']"

definition policy_reject :: "string \<Rightarrow> PolicyDecision" where
  "policy_reject reason = \<lparr>
     pd_outcome = REJECTED, pd_reasons = [reason], pd_required_approvals = [],
     approved_field_path = None, pd_approved_value = None\<rparr>"

definition manual_investigation :: "string \<Rightarrow> PolicyDecision" where
  "manual_investigation reason = \<lparr>
     pd_outcome = MANUAL_INVESTIGATION, pd_reasons = [reason], pd_required_approvals = [],
     approved_field_path = None, pd_approved_value = None\<rparr>"

definition evaluate_fields :: "(string \<times> string) list \<Rightarrow> BreakFacts \<Rightarrow> PolicyDecision" where
  "evaluate_fields pfs facts = (case pfs of
     [(field_path, proposed_value)] \<Rightarrow>
       if field_path \<notin> set ALLOWED_PROPOSED_FIELDS then policy_reject ''field_outside_allow_list''
       else if field_path \<noteq> bf_field_path facts then policy_reject ''field_does_not_match_break''
       else if proposed_value \<noteq> bf_expected_value facts
         then policy_reject ''proposed_value_does_not_match_authoritative_source''
       else \<lparr>
         pd_outcome = ELIGIBLE_FOR_APPROVAL,
         pd_reasons = [''economic_field_correction_eligible''],
         pd_required_approvals = [MAKER, CHECKER],
         approved_field_path = Some field_path,
         pd_approved_value = Some proposed_value\<rparr>
   | _ \<Rightarrow> policy_reject ''proposed_fields_must_be_exactly_one'')"

definition evaluate :: "RunbookSection list \<Rightarrow> AIRecommendation \<Rightarrow> BreakFacts \<Rightarrow> PolicyDecision" where
  "evaluate index r facts = (
     if confidence r < CONFIDENCE_THRESHOLD then manual_investigation ''confidence_below_threshold''
     else case recommended_action r of
       None \<Rightarrow> manual_investigation
                (case abstain_reason r of None \<Rightarrow> ''ai_abstained'' | Some s \<Rightarrow> if s = [] then ''ai_abstained'' else s)
     | Some a \<Rightarrow>
         let action = action_str a in
         if action \<in> set PROHIBITED_ACTIONS \<or> action \<notin> set SUPPORTED_ACTIONS
           then policy_reject ''action_outside_allow_list''
         else if citations r = [] then policy_reject ''missing_citation''
         else if \<not> list_ex (\<lambda>c. citation_supports_action index (citation_key c) action) (citations r)
           then policy_reject ''citation_does_not_support_action''
         else evaluate_fields (proposed_fields r) facts)"

section \<open>The offline provider\<close>

definition unsupported_recommendation :: AIRecommendation where
  "unsupported_recommendation = \<lparr>
     predicted_root_cause =
       ''Break facts do not match the single automated-remediation pattern this slice supports.'',
     confidence = 3602879701896397 / 18014398509481984,
     priority = PRIORITY_MEDIUM,
     recommended_action = None,
     proposed_fields = [],
     risk_tier = RISK_LOW,
     ai_required_approvals = [],
     citations = [],
     abstain_reason = Some ''unsupported_break_pattern''\<rparr>"

definition supported_pattern :: "BreakFacts \<Rightarrow> bool" where
  "supported_pattern facts \<longleftrightarrow>
     bf_break_family facts = ''ECONOMIC_VALUE_MISMATCH'' \<and>
     bf_field_path facts = ''/payload/base_amount'' \<and>
     bf_expected_source_system facts = ''FIX_EXECUTION'' \<and>
     bf_observed_source_system facts = ''MOCK_LEGACY_BOOKING''"

definition chosen_citations :: "RetrievedSection list \<Rightarrow> Citation list" where
  "chosen_citations candidates = (
     let preferred = filter (\<lambda>c. retrieved_citation_key c \<in> {''RB-001#3'', ''RB-002#1''}) candidates;
         chosen = (if preferred = [] then take 2 candidates else preferred)
     in map (\<lambda>s. \<lparr>ct_document_id = rt_document_id s, ct_section = rt_section s\<rparr>) chosen)"

definition deterministic_recommend ::
    "BreakFacts \<Rightarrow> RetrievedSection list \<Rightarrow> py_error + AIRecommendation" where
  "deterministic_recommend facts candidates = (
     if \<not> supported_pattern facts then mk_AIRecommendation unsupported_recommendation
     else mk_AIRecommendation \<lparr>
       predicted_root_cause =
         ''Legacy booking '' @ bf_field_path facts @ '' ('' @ bf_observed_value facts @
         '') diverges from the authoritative '' @ bf_expected_source_system facts @ '' value ('' @
         bf_expected_value facts @
         '') with no evidenced corporate action or rate revision, consistent with a booking data-entry error.'',
       confidence = 8376695306909123 / 9007199254740992,
       priority = PRIORITY_HIGH,
       recommended_action = Some CORRECT_LEGACY_BOOKING_FIELD,
       proposed_fields = [(bf_field_path facts, bf_expected_value facts)],
       risk_tier = RISK_MEDIUM,
       ai_required_approvals = [MAKER, CHECKER],
       citations = chosen_citations candidates,
       abstain_reason = None\<rparr>)"

section \<open>Lemmas\<close>

lemma evaluate_fields_eligible:
  "pd_outcome (evaluate_fields pfs facts) = ELIGIBLE_FOR_APPROVAL \<longleftrightarrow>
     pfs = [(''/payload/base_amount'', bf_expected_value facts)] \<and>
     bf_field_path facts = ''/payload/base_amount''"
  by (auto simp: evaluate_fields_def policy_reject_def ALLOWED_PROPOSED_FIELDS_def
      split: list.splits prod.splits if_splits)

lemma evaluate_fields_decision:
  "pd_outcome (evaluate_fields pfs facts) = ELIGIBLE_FOR_APPROVAL \<Longrightarrow>
   pd_required_approvals (evaluate_fields pfs facts) = [MAKER, CHECKER] \<and>
   approved_field_path (evaluate_fields pfs facts) = Some (bf_field_path facts) \<and>
   pd_approved_value (evaluate_fields pfs facts) = Some (bf_expected_value facts)"
  by (auto simp: evaluate_fields_def policy_reject_def split: list.splits prod.splits if_splits)

lemma action_allowed:
  "action_str a \<notin> set PROHIBITED_ACTIONS \<and> action_str a \<in> set SUPPORTED_ACTIONS \<longleftrightarrow>
     a = CORRECT_LEGACY_BOOKING_FIELD"
  by (cases a) (simp_all add: PROHIBITED_ACTIONS_def SUPPORTED_ACTIONS_def)

lemma manual_not_eligible [simp]:
  "pd_outcome (manual_investigation s) = MANUAL_INVESTIGATION"
  "pd_outcome (policy_reject s) = REJECTED"
  by (simp_all add: manual_investigation_def policy_reject_def)

text \<open>The gates of the policy engine, as one condition.\<close>

definition policy_gates :: "RunbookSection list \<Rightarrow> AIRecommendation \<Rightarrow> BreakFacts \<Rightarrow> bool" where
  "policy_gates index r facts \<longleftrightarrow>
     CONFIDENCE_THRESHOLD \<le> confidence r \<and>
     recommended_action r = Some CORRECT_LEGACY_BOOKING_FIELD \<and>
     (\<exists>c \<in> set (citations r).
        citation_exists index (citation_key c) \<and>
        citation_key c \<in> {''RB-001#1'', ''RB-001#2'', ''RB-001#3'', ''RB-002#1'', ''RB-002#7''}) \<and>
     proposed_fields r = [(''/payload/base_amount'', bf_expected_value facts)] \<and>
     bf_field_path facts = ''/payload/base_amount''"

lemma supports_correction:
  "citation_supports_action index key ''CORRECT_LEGACY_BOOKING_FIELD'' \<longleftrightarrow>
     citation_exists index key \<and>
     key \<in> {''RB-001#1'', ''RB-001#2'', ''RB-001#3'', ''RB-002#1'', ''RB-002#7''}"
  by (auto simp: citation_supports_action_def SUPPORTING_SECTIONS_def)

lemma evaluate_action_branch:
  assumes "\<not> confidence r < CONFIDENCE_THRESHOLD"
    and "recommended_action r = Some CORRECT_LEGACY_BOOKING_FIELD"
    and "list_ex (\<lambda>c. citation_supports_action index (citation_key c) ''CORRECT_LEGACY_BOOKING_FIELD'')
           (citations r)"
  shows "evaluate index r facts = evaluate_fields (proposed_fields r) facts"
  using assms action_allowed [of CORRECT_LEGACY_BOOKING_FIELD] by (auto simp: evaluate_def)

lemma evaluate_eligible_iff_gates:
  "pd_outcome (evaluate index r facts) = ELIGIBLE_FOR_APPROVAL \<longleftrightarrow> policy_gates index r facts"
proof (cases "\<not> confidence r < CONFIDENCE_THRESHOLD \<and>
    recommended_action r = Some CORRECT_LEGACY_BOOKING_FIELD \<and>
    list_ex (\<lambda>c. citation_supports_action index (citation_key c) ''CORRECT_LEGACY_BOOKING_FIELD'')
           (citations r)")
  case True
  then have "evaluate index r facts = evaluate_fields (proposed_fields r) facts"
    by (intro evaluate_action_branch) simp_all
  then show ?thesis
    using True by (simp add: evaluate_fields_eligible policy_gates_def supports_correction list_ex_iff)
next
  case False
  then have "pd_outcome (evaluate index r facts) \<noteq> ELIGIBLE_FOR_APPROVAL"
    using action_allowed
    by (auto simp: evaluate_def Let_def split: option.splits)
  with False show ?thesis
    by (auto simp: policy_gates_def supports_correction list_ex_iff not_less)
qed

lemma eligible_decision_content:
  assumes "pd_outcome (evaluate index r facts) = ELIGIBLE_FOR_APPROVAL"
  shows "pd_required_approvals (evaluate index r facts) = [MAKER, CHECKER]"
    and "approved_field_path (evaluate index r facts) = Some ''/payload/base_amount''"
    and "pd_approved_value (evaluate index r facts) = Some (bf_expected_value facts)"
proof -
  have g: "policy_gates index r facts" using assms evaluate_eligible_iff_gates by blast
  then have e: "evaluate index r facts = evaluate_fields (proposed_fields r) facts"
    by (intro evaluate_action_branch)
      (auto simp: policy_gates_def supports_correction list_ex_iff)
  show "pd_required_approvals (evaluate index r facts) = [MAKER, CHECKER]"
    "approved_field_path (evaluate index r facts) = Some ''/payload/base_amount''"
    "pd_approved_value (evaluate index r facts) = Some (bf_expected_value facts)"
    using evaluate_fields_decision [of "proposed_fields r" facts] assms e g
    by (simp_all add: policy_gates_def)
qed

section \<open>Properties\<close>

text \<open>C21: a recommendation becomes eligible for approval exactly when its confidence reaches
  the threshold, it recommends the booking correction, cites an indexed runbook section of
  the closed support list, and proposes exactly the break's own base amount with exactly the
  value the reconciliation engine established.\<close>

theorem policy_eligible_iff:
  "pd_outcome (evaluate index r facts) = ELIGIBLE_FOR_APPROVAL \<longleftrightarrow>
     CONFIDENCE_THRESHOLD \<le> confidence r \<and>
     recommended_action r = Some CORRECT_LEGACY_BOOKING_FIELD \<and>
     (\<exists>c \<in> set (citations r).
        citation_exists index (citation_key c) \<and>
        citation_key c \<in> {''RB-001#1'', ''RB-001#2'', ''RB-001#3'', ''RB-002#1'', ''RB-002#7''}) \<and>
     proposed_fields r = [(''/payload/base_amount'', bf_expected_value facts)] \<and>
     bf_field_path facts = ''/payload/base_amount''"
  using evaluate_eligible_iff_gates [of index r facts] by (simp add: policy_gates_def)

text \<open>C29: the decision is closed: an eligible one demands a maker and a checker and approves
  the authoritative value of the base amount; any other demands no approval and approves
  nothing.\<close>

theorem policy_fail_closed:
  "(pd_required_approvals (evaluate index r facts), approved_field_path (evaluate index r facts),
    pd_approved_value (evaluate index r facts)) =
     (if pd_outcome (evaluate index r facts) = ELIGIBLE_FOR_APPROVAL
      then ([MAKER, CHECKER], Some ''/payload/base_amount'', Some (bf_expected_value facts))
      else ([], None, None))"
proof (cases "pd_outcome (evaluate index r facts) = ELIGIBLE_FOR_APPROVAL")
  case True
  with eligible_decision_content [OF True] show ?thesis by simp
next
  case False
  then show ?thesis
    by (auto simp: evaluate_def evaluate_fields_def manual_investigation_def policy_reject_def Let_def
        split: option.splits list.splits if_splits)
qed

text \<open>The advisory fields of a recommendation (root cause, priority, risk tier, requested
  approvals) have no influence on the decision.\<close>

theorem policy_ignores_advice:
  "evaluate index (r\<lparr>predicted_root_cause := cause, priority := prio, risk_tier := risk,
     ai_required_approvals := roles\<rparr>) facts = evaluate index r facts"
  by (simp add: evaluate_def Let_def split: option.split)

text \<open>The candidates of the provider are sections of the index.\<close>

lemma int_str_stripped [simp]: "py_strip (int_str n) = int_str n"
proof (rule py_strip_id)
  have "\<not> is_space c" if "c \<in> set (int_str n)" for c
    using int_str_chars [OF that] by (auto simp: int_char_def is_digit_def is_space_def)
  then show "int_str n = [] \<or> \<not> is_space (hd (int_str n)) \<and> \<not> is_space (last (int_str n))" by auto
qed

lemma emap_result: "emap f xs = Inr ys \<Longrightarrow> y \<in> set ys \<Longrightarrow> \<exists>x \<in> set xs. f x = Inr y"
  by (induction xs arbitrary: ys) (auto simp: result_simps)

lemma search_sections:
  assumes "search index query k = Inr candidates" and "s \<in> set candidates"
  shows "\<exists>x \<in> set index. rt_document_id s = rs_document_id x \<and> rt_section s = int_str (rs_section_number x)"
proof -
  define ranked where "ranked = sort_key (\<lambda>(n, _). - int n)
    (filter (\<lambda>(n, _). 0 < n) (map (\<lambda>s. (overlap_size (tokens query) s, s)) index))"
  have "emap (\<lambda>(_, s). ebind (first_line (rs_content s)) (\<lambda>line. Inr \<lparr>
      rt_document_id = rs_document_id s, rt_section = int_str (rs_section_number s),
      rt_title = rs_title s, rt_snippet = take 200 line\<rparr>)) (take k ranked) = Inr candidates"
    using assms by (auto simp: search_def Let_def ranked_def split: if_splits)
  then obtain n x where x: "(n, x) \<in> set (take k ranked)" "rt_document_id s = rs_document_id x"
    "rt_section s = int_str (rs_section_number x)"
    using emap_result [OF _ assms(2)] by (fastforce simp: result_simps)
  then have "x \<in> set index" by (auto simp: ranked_def dest: in_set_takeD)
  with x show ?thesis by blast
qed

lemma search_citation:
  assumes "search index query k = Inr candidates" and "s \<in> set candidates"
    and "\<forall>x \<in> set index. py_strip (rs_document_id x) = rs_document_id x"
  shows "citation_key (mk_Citation \<lparr>ct_document_id = rt_document_id s, ct_section = rt_section s\<rparr>) = retrieved_citation_key s"
    and "citation_exists index (retrieved_citation_key s)"
  using search_sections [OF assms(1,2)] assms(3)
  by (auto simp: mk_Citation_def citation_key_def retrieved_citation_key_def citation_exists_def list_ex_iff runbook_citation_key_def)

lemma chosen_support:
  assumes "search index query k = Inr candidates"
    and "\<forall>x \<in> set index. py_strip (rs_document_id x) = rs_document_id x"
  shows "list_ex (\<lambda>c. citation_supports_action index (citation_key c) ''CORRECT_LEGACY_BOOKING_FIELD'')
      (map mk_Citation (chosen_citations candidates)) \<longleftrightarrow>
    (\<exists>s \<in> set candidates. retrieved_citation_key s \<in> {''RB-001#3'', ''RB-002#1''}) \<or>
    (\<exists>s \<in> set (take 2 candidates). retrieved_citation_key s \<in> {''RB-001#1'', ''RB-001#2'', ''RB-002#7''})"
    (is "?supported \<longleftrightarrow> ?preferred \<or> ?other")
proof -
  have cited: "list_ex (\<lambda>c. citation_supports_action index (citation_key c) ''CORRECT_LEGACY_BOOKING_FIELD'')
      (map mk_Citation (map (\<lambda>s. \<lparr>ct_document_id = rt_document_id s, ct_section = rt_section s\<rparr>) chosen)) \<longleftrightarrow>
    (\<exists>s \<in> set chosen. retrieved_citation_key s \<in> {''RB-001#1'', ''RB-001#2'', ''RB-001#3'', ''RB-002#1'', ''RB-002#7''})"
    if "set chosen \<subseteq> set candidates" for chosen
  proof -
    have "citation_supports_action index (citation_key (mk_Citation \<lparr>ct_document_id = rt_document_id s, ct_section = rt_section s\<rparr>))
        ''CORRECT_LEGACY_BOOKING_FIELD'' \<longleftrightarrow>
      retrieved_citation_key s \<in> {''RB-001#1'', ''RB-001#2'', ''RB-001#3'', ''RB-002#1'', ''RB-002#7''}" if "s \<in> set chosen" for s
      using search_citation [OF assms(1) _ assms(2), of s] that \<open>set chosen \<subseteq> set candidates\<close>
      by (auto simp: supports_correction)
    then show ?thesis by (simp add: list_ex_iff)
  qed
  let ?p = "filter (\<lambda>c. retrieved_citation_key c \<in> {''RB-001#3'', ''RB-002#1''}) candidates"
  show ?thesis
  proof (cases "?p = []")
    case True
    then have none: "\<forall>s \<in> set candidates. retrieved_citation_key s \<notin> {''RB-001#3'', ''RB-002#1''}" by (simp add: filter_empty_conv)
    have "?supported \<longleftrightarrow>
        (\<exists>s \<in> set (take 2 candidates). retrieved_citation_key s \<in> {''RB-001#1'', ''RB-001#2'', ''RB-001#3'', ''RB-002#1'', ''RB-002#7''})"
      unfolding chosen_citations_def Let_def if_P [OF True] by (rule cited) (rule set_take_subset)
    also have "\<dots> \<longleftrightarrow> ?preferred \<or> ?other" using none in_set_takeD [of _ 2 candidates] by fast
    finally show ?thesis .
  next
    case False
    then have ?preferred by (auto simp: filter_empty_conv)
    moreover have ?supported
      unfolding chosen_citations_def Let_def if_not_P [OF False]
      by (subst cited) (use \<open>?preferred\<close> in auto)
    ultimately show ?thesis by blast
  qed
qed

text \<open>C30: the offline provider, asked about the break facts with the sections that the runbook search returns, and
  then judged by the policy engine. When the break is not an economic value mismatch of the base amount, between a FIX
  execution expected and a legacy booking observed, it abstains and the case goes to manual investigation. When it is,
  the case is eligible exactly when the search returned the correction rule (section 3 of RB-001 or section 1 of RB-002)
  or, without it, has a supporting section among its first two results; otherwise the policy engine rejects it.\<close>

theorem deterministic_provider_outcome:
  assumes "mk_BreakFacts facts = facts"
    and "\<forall>x \<in> set index. py_strip (rs_document_id x) = rs_document_id x"
    and "search index query k = Inr candidates"
    and "deterministic_recommend facts candidates = Inr r"
  shows "pd_outcome (evaluate index r facts) =
    (if bf_break_family facts = ''ECONOMIC_VALUE_MISMATCH'' \<and> bf_field_path facts = ''/payload/base_amount'' \<and>
        bf_expected_source_system facts = ''FIX_EXECUTION'' \<and> bf_observed_source_system facts = ''MOCK_LEGACY_BOOKING''
     then if (\<exists>s \<in> set candidates. retrieved_citation_key s \<in> {''RB-001#3'', ''RB-002#1''}) \<or>
             (\<exists>s \<in> set (take 2 candidates). retrieved_citation_key s \<in> {''RB-001#1'', ''RB-001#2'', ''RB-002#7''})
          then ELIGIBLE_FOR_APPROVAL else REJECTED
     else MANUAL_INVESTIGATION)"
proof (cases "supported_pattern facts")
  case True
  note pattern = True [unfolded supported_pattern_def]
  have strip: "py_strip (bf_field_path facts) = bf_field_path facts"
      "py_strip (bf_expected_value facts) = bf_expected_value facts"
    using assms(1) by (cases facts; simp add: mk_BreakFacts_def)+
  have conf: "confidence r = 8376695306909123 / 9007199254740992"
    and shape: "recommended_action r = Some CORRECT_LEGACY_BOOKING_FIELD"
    "citations r = map mk_Citation (chosen_citations candidates)"
    "proposed_fields r = [(bf_field_path facts, bf_expected_value facts)]"
    using assms(4) True strip
    by (auto simp: deterministic_recommend_def mk_AIRecommendation_def AIRecommendation_fields_def
        action_and_abstain_are_mutually_exclusive_def Let_def result_simps check_simps)
  have "\<not> confidence r < CONFIDENCE_THRESHOLD" unfolding conf CONFIDENCE_THRESHOLD_def by simp
  then have "pd_outcome (evaluate index r facts) =
      (if list_ex (\<lambda>c. citation_supports_action index (citation_key c) ''CORRECT_LEGACY_BOOKING_FIELD'') (citations r)
       then ELIGIBLE_FOR_APPROVAL else REJECTED)"
    using shape(1,3) pattern action_allowed [of CORRECT_LEGACY_BOOKING_FIELD]
    by (auto simp: evaluate_def evaluate_fields_def ALLOWED_PROPOSED_FIELDS_def)
  then show ?thesis unfolding if_P [OF pattern] shape(2) chosen_support [OF assms(3,2)] .
next
  case False
  then have "confidence r = 3602879701896397 / 18014398509481984"
    using assms(4)
    by (auto simp: deterministic_recommend_def mk_AIRecommendation_def AIRecommendation_fields_def
        action_and_abstain_are_mutually_exclusive_def unsupported_recommendation_def Let_def
        result_simps check_simps)
  with False show ?thesis
    unfolding supported_pattern_def by (simp only: if_False) (simp add: evaluate_def CONFIDENCE_THRESHOLD_def)
qed

text \<open>A concrete break of the supported pattern and a concrete index.\<close>

definition sample_facts :: BreakFacts where
  "sample_facts = \<lparr>
     bf_break_id = ''break_0001'', bf_break_family = ''ECONOMIC_VALUE_MISMATCH'',
     bf_condition_code = ''ECONOMIC_VALUE_MISMATCH'', bf_product_type = ''FX_SPOT'',
     bf_trade_id = ''trade_0001'', bf_field_path = ''/payload/base_amount'',
     bf_expected_value = ''1000000.00'', bf_observed_value = ''1019000.00'',
     bf_expected_source_system = ''FIX_EXECUTION'', bf_observed_source_system = ''MOCK_LEGACY_BOOKING'',
     bf_trade_value_amount = ''1000000.00'', bf_trade_value_currency = ''EUR''\<rparr>"

definition sample_index :: "RunbookSection list" where
  "sample_index = [
     \<lparr>rs_document_id = ''RB-001'', rs_section_number = 3, rs_title = ''Correction rule'',
      rs_content = ''Correct the booking field to the authoritative value.''\<rparr>,
     \<lparr>rs_document_id = ''RB-002'', rs_section_number = 4, rs_title = ''Confidence and manual investigation'',
      rs_content = ''Below the threshold, investigate.''\<rparr>]"

definition sample_section :: RetrievedSection where
  "sample_section = \<lparr>rt_document_id = ''RB-001'', rt_section = ''3'', rt_title = ''Correction rule'',
     rt_snippet = ''Correct the booking field to the authoritative value.''\<rparr>"

definition sample_recommendation :: AIRecommendation where
  "sample_recommendation = \<lparr>
     predicted_root_cause = ''Legacy booking /payload/base_amount (1019000.00) diverges from the authoritative FIX_EXECUTION value (1000000.00) with no evidenced corporate action or rate revision, consistent with a booking data-entry error.'',
     confidence = 8376695306909123 / 9007199254740992,
     priority = PRIORITY_HIGH,
     recommended_action = Some CORRECT_LEGACY_BOOKING_FIELD,
     proposed_fields = [(''/payload/base_amount'', ''1000000.00'')],
     risk_tier = RISK_MEDIUM,
     ai_required_approvals = [MAKER, CHECKER],
     citations = [\<lparr>ct_document_id = ''RB-001'', ct_section = ''3''\<rparr>],
     abstain_reason = None\<rparr>"

lemma sample_recommend: "deterministic_recommend sample_facts [sample_section] = Inr sample_recommendation"
  by code_simp

lemma sample_facts_stripped: "mk_BreakFacts sample_facts = sample_facts"
  by code_simp

lemma sample_search: "search sample_index ''Correction authoritative value'' 5 = Inr [sample_section]"
  by code_simp

lemma sample_index_stripped: "\<forall>x \<in> set sample_index. py_strip (rs_document_id x) = rs_document_id x"
  by code_simp

theorem deterministic_provider_outcome_witness:
  "pd_outcome (evaluate sample_index sample_recommendation sample_facts) = ELIGIBLE_FOR_APPROVAL"
proof -
  have "retrieved_citation_key sample_section = ''RB-001#3''" by code_simp
  then show ?thesis
    using deterministic_provider_outcome [OF sample_facts_stripped sample_index_stripped sample_search sample_recommend]
    by (simp add: sample_facts_def)
qed

end
