(* ===== verification/Remediation_Store.thy ===== *)
theory Remediation_Store
  imports Remediation_Models
begin

text \<open>
  \<open>packages/remediation/store.py\<close> and \<open>legacy_adapter.py\<close>: the tables of migration 0004
  as lists of rows in insertion order (\<open>row_id\<close> order), the one mutable table as a map from
  its primary key. Each method is one transaction: it either commits or leaves the tables
  as they were. \<open>db_now\<close> is the database's \<open>now()\<close>. The constraints of the DDL that an
  insert can violate raise \<open>DatabaseConstraintError\<close>.
\<close>

section \<open>Tables\<close>

record legacy_booking_record =
  lb_base_amount_value :: string
  lb_base_amount_currency :: string
  lb_base_amount_scale :: int
  lb_source_observation_id :: string
  lb_booking_version :: int
  lb_last_applied_idempotency_key :: "string option"
  lb_updated_at :: datetime

type_synonym legacy_key = "string \<times> string \<times> string"

record case_row =
  cr_case_id :: string
  cr_break_id :: string
  cr_run_id :: string
  cr_trade_id :: string
  cr_tenant_id :: string
  cr_portfolio_id :: string
  cr_product_type :: string
  cr_ai_provider :: string
  cr_break_facts :: BreakFacts
  cr_ai_recommendation :: AIRecommendation
  cr_policy_decision :: PolicyDecision
  cr_created_at :: datetime

record approval_row =
  ar_case_id :: string
  ar_role :: ApprovalRole
  ar_approver_identity :: string
  ar_decision :: ApprovalDecision
  ar_approved_recommendation_hash :: string
  ar_decided_at :: datetime

record envelope_row =
  ev_case_id :: string
  ev_idempotency_key :: string
  ev_envelope_document :: ActionEnvelope
  ev_content_hash :: string
  ev_issued_at :: datetime
  ev_expires_at :: datetime
  ev_created_at :: datetime

record execution_row =
  ex_case_id :: string
  ex_idempotency_key :: string
  ex_outcome :: ExecutionOutcome
  ex_detail :: string
  ex_read_back_value :: "string option"
  ex_applied :: bool
  ex_attempted_at :: datetime

record evidence_row =
  ed_evidence_id :: string
  ed_case_id :: string
  ed_evidence_document :: json
  ed_content_hash :: string
  ed_created_at :: datetime

record remediation_db =
  legacy_booking_records :: "legacy_key \<Rightarrow> legacy_booking_record option"
  remediation_cases :: "case_row list"
  remediation_approvals :: "approval_row list"
  remediation_envelopes :: "envelope_row list"
  remediation_executions :: "execution_row list"
  remediation_evidence :: "evidence_row list"

type_synonym 'a db_call = "(remediation_db, remediation_exn, 'a) call"

datatype BookingApplyOutcome = APPLIED | BOOKING_DUPLICATE_NOOP | VALUE_MISMATCH | NOT_FOUND

section \<open>The mock legacy booking record\<close>

definition read_legacy_booking_record :: "legacy_key \<Rightarrow> legacy_booking_record option db_call" where
  "read_legacy_booking_record k = get (\<lambda>db. legacy_booking_records db k)"

definition seed_legacy_booking_record ::
    "datetime \<Rightarrow> legacy_key \<Rightarrow> string \<Rightarrow> string \<Rightarrow> int \<Rightarrow> string \<Rightarrow> unit db_call" where
  "seed_legacy_booking_record db_now k amount currency scale source_observation_id = (\<lambda>db.
     (Inr (),
      case legacy_booking_records db k of
        Some _ \<Rightarrow> db
      | None \<Rightarrow> db\<lparr>legacy_booking_records := (legacy_booking_records db)(k \<mapsto> \<lparr>
          lb_base_amount_value = amount,
          lb_base_amount_currency = currency,
          lb_base_amount_scale = scale,
          lb_source_observation_id = source_observation_id,
          lb_booking_version = 1,
          lb_last_applied_idempotency_key = None,
          lb_updated_at = db_now\<rparr>)\<rparr>))"

text \<open>\<open>booking_version\<close> is an SQL \<open>INTEGER\<close>: its increment fails at the top of the range.\<close>

definition apply_legacy_booking_correction ::
    "datetime \<Rightarrow> legacy_key \<Rightarrow> string \<Rightarrow> string \<Rightarrow> string \<Rightarrow>
     (BookingApplyOutcome \<times> string option) db_call" where
  "apply_legacy_booking_correction db_now k approved_value expected_old_value idempotency_key = (\<lambda>db.
     case legacy_booking_records db k of
       None \<Rightarrow> (Inr (NOT_FOUND, None), db)
     | Some row \<Rightarrow>
         let current_value = lb_base_amount_value row in
         if lb_last_applied_idempotency_key row = Some idempotency_key
           then (Inr (BOOKING_DUPLICATE_NOOP, Some current_value), db)
         else if current_value \<noteq> expected_old_value
           then (Inr (VALUE_MISMATCH, Some current_value), db)
         else if 2147483647 \<le> lb_booking_version row
           then (Inl (DatabaseConstraintError ''integer out of range''), db)
         else (Inr (APPLIED, Some approved_value),
               db\<lparr>legacy_booking_records := (legacy_booking_records db)(k \<mapsto> row\<lparr>
                 lb_base_amount_value := approved_value,
                 lb_booking_version := lb_booking_version row + 1,
                 lb_last_applied_idempotency_key := Some idempotency_key,
                 lb_updated_at := db_now\<rparr>)\<rparr>))"

section \<open>Insert-only tables\<close>

definition case_ids :: "remediation_db \<Rightarrow> string list" where
  "case_ids db = map cr_case_id (remediation_cases db)"

definition insert_case :: "case_row \<Rightarrow> unit db_call" where
  "insert_case row = (\<lambda>db.
     if cr_case_id row \<in> set (case_ids db)
     then (Inl (DatabaseConstraintError ''remediation_cases_case_id_key''), db)
     else (Inr (), db\<lparr>remediation_cases := remediation_cases db @ [row]\<rparr>))"

definition get_case :: "string \<Rightarrow> case_row option db_call" where
  "get_case case_id = get (\<lambda>db. List.find (\<lambda>r. cr_case_id r = case_id) (remediation_cases db))"

definition insert_approval :: "approval_row \<Rightarrow> unit db_call" where
  "insert_approval row = (\<lambda>db.
     if list_ex (\<lambda>r. ar_case_id r = ar_case_id row \<and> ar_role r = ar_role row) (remediation_approvals db)
     then (Inl (DuplicateApprovalRoleError
             (''a '' @ role_str (ar_role row) @ '' decision already exists for case '' @ ar_case_id row)), db)
     else if ar_case_id row \<notin> set (case_ids db)
     then (Inl (DatabaseConstraintError ''remediation_approvals_case_id_fkey''), db)
     else (Inr (), db\<lparr>remediation_approvals := remediation_approvals db @ [row]\<rparr>))"

text \<open>\<open>ORDER BY role\<close>.\<close>

definition approvals_of :: "remediation_db \<Rightarrow> string \<Rightarrow> approval_row list" where
  "approvals_of db case_id =
     sort_key (\<lambda>r. role_str (ar_role r)) (filter (\<lambda>r. ar_case_id r = case_id) (remediation_approvals db))"

definition get_approvals :: "string \<Rightarrow> approval_row list db_call" where
  "get_approvals case_id = get (\<lambda>db. approvals_of db case_id)"

definition envelope_of :: "remediation_db \<Rightarrow> string \<Rightarrow> envelope_row option" where
  "envelope_of db case_id = List.find (\<lambda>r. ev_case_id r = case_id) (remediation_envelopes db)"

definition get_envelope :: "string \<Rightarrow> envelope_row option db_call" where
  "get_envelope case_id = get (\<lambda>db. envelope_of db case_id)"

definition insert_envelope_if_absent :: "envelope_row \<Rightarrow> envelope_row db_call" where
  "insert_envelope_if_absent row =
     andthen (\<lambda>db.
       if envelope_of db (ev_case_id row) \<noteq> None then (Inr (), db)
       else if ev_idempotency_key row \<in> set (map ev_idempotency_key (remediation_envelopes db))
       then (Inl (DatabaseConstraintError ''remediation_envelopes_idempotency_key_key''), db)
       else if ev_case_id row \<notin> set (case_ids db)
       then (Inl (DatabaseConstraintError ''remediation_envelopes_case_id_fkey''), db)
       else (Inr (), db\<lparr>remediation_envelopes := remediation_envelopes db @ [row]\<rparr>))
     (\<lambda>_. andthen (get_envelope (ev_case_id row)) (\<lambda>existing. case existing of
       None \<Rightarrow> raise (PyExc (AssertionError []))
     | Some r \<Rightarrow> ret r))"

definition insert_execution :: "execution_row \<Rightarrow> unit db_call" where
  "insert_execution row = (\<lambda>db.
     if ex_case_id row \<notin> set (case_ids db)
     then (Inl (DatabaseConstraintError ''remediation_executions_case_id_fkey''), db)
     else (Inr (), db\<lparr>remediation_executions := remediation_executions db @ [row]\<rparr>))"

text \<open>\<open>ORDER BY attempted_at, row_id\<close>: rows are kept in \<open>row_id\<close> order and the sort is stable.\<close>

definition executions_of :: "remediation_db \<Rightarrow> string \<Rightarrow> execution_row list" where
  "executions_of db case_id =
     sort_key (\<lambda>r. instant (ex_attempted_at r)) (filter (\<lambda>r. ex_case_id r = case_id) (remediation_executions db))"

definition get_executions :: "string \<Rightarrow> execution_row list db_call" where
  "get_executions case_id = get (\<lambda>db. executions_of db case_id)"

definition evidence_of :: "remediation_db \<Rightarrow> string \<Rightarrow> evidence_row option" where
  "evidence_of db case_id = List.find (\<lambda>r. ed_case_id r = case_id) (remediation_evidence db)"

definition get_evidence :: "string \<Rightarrow> evidence_row option db_call" where
  "get_evidence case_id = get (\<lambda>db. evidence_of db case_id)"

definition insert_evidence_if_absent :: "evidence_row \<Rightarrow> evidence_row db_call" where
  "insert_evidence_if_absent row =
     andthen (\<lambda>db.
       if evidence_of db (ed_case_id row) \<noteq> None then (Inr (), db)
       else if ed_evidence_id row \<in> set (map ed_evidence_id (remediation_evidence db))
       then (Inl (DatabaseConstraintError ''remediation_evidence_evidence_id_key''), db)
       else if ed_case_id row \<notin> set (case_ids db)
       then (Inl (DatabaseConstraintError ''remediation_evidence_case_id_fkey''), db)
       else (Inr (), db\<lparr>remediation_evidence := remediation_evidence db @ [row]\<rparr>))
     (\<lambda>_. andthen (get_evidence (ed_case_id row)) (\<lambda>existing. case existing of
       None \<Rightarrow> raise (PyExc (AssertionError []))
     | Some r \<Rightarrow> ret r))"

section \<open>The adapter at the legacy boundary\<close>

definition adapter_read :: "legacy_key \<Rightarrow> legacy_booking_record option db_call" where
  "adapter_read k = read_legacy_booking_record k"

definition adapter_apply ::
    "datetime \<Rightarrow> legacy_key \<Rightarrow> string \<Rightarrow> string \<Rightarrow> string \<Rightarrow>
     (BookingApplyOutcome \<times> string option) db_call" where
  "adapter_apply db_now k approved_value expected_old_value idempotency_key =
     apply_legacy_booking_correction db_now k approved_value expected_old_value idempotency_key"

section \<open>Contract of the boundary\<close>

text \<open>
  What a client of the legacy boundary relies on, whatever system sits behind it: a key
  that was applied last is recognised, a stale expectation is refused, a write changes
  exactly the named record, and a call that raises has written nothing.
\<close>

locale legacy_boundary =
  fixes current :: "'s \<Rightarrow> 'k \<Rightarrow> string option"
    and last_key :: "'s \<Rightarrow> 'k \<Rightarrow> string option"
    and apply_correction :: "'k \<Rightarrow> string \<Rightarrow> string \<Rightarrow> string \<Rightarrow>
          ('s, 'e, BookingApplyOutcome \<times> string option) call"
  assumes absent: "current s k = None \<Longrightarrow> apply_correction k a x i s = (Inr (NOT_FOUND, None), s)"
    and replay: "current s k = Some v \<Longrightarrow> last_key s k = Some i \<Longrightarrow>
          apply_correction k a x i s = (Inr (BOOKING_DUPLICATE_NOOP, Some v), s)"
    and stale: "current s k = Some v \<Longrightarrow> last_key s k \<noteq> Some i \<Longrightarrow> v \<noteq> x \<Longrightarrow>
          apply_correction k a x i s = (Inr (VALUE_MISMATCH, Some v), s)"
    and writes: "current s k = Some x \<Longrightarrow> last_key s k \<noteq> Some i \<Longrightarrow>
          apply_correction k a x i s = (r, t) \<Longrightarrow>
          (\<exists>e. r = Inl e) \<and> t = s \<or>
          r = Inr (APPLIED, Some a) \<and> current t = (current s)(k \<mapsto> a) \<and>
          last_key t = (last_key s)(k \<mapsto> i)"
begin

lemma applied_D:
  assumes "apply_correction k a x i s = (Inr (APPLIED, v), t)"
  shows "current s k = Some x" and "last_key s k \<noteq> Some i" and "v = Some a"
    and "current t = (current s)(k \<mapsto> a)" and "last_key t = (last_key s)(k \<mapsto> i)"
proof -
  obtain w where w: "current s k = Some w"
    using assms absent [of s k] by (cases "current s k") auto
  moreover have l: "last_key s k \<noteq> Some i" using assms replay [OF w] by force
  moreover have "w = x" using assms stale [OF w l] by force
  ultimately show "current s k = Some x" "last_key s k \<noteq> Some i" "v = Some a"
      "current t = (current s)(k \<mapsto> a)" "last_key t = (last_key s)(k \<mapsto> i)"
    using writes [of s k x i a] assms by auto
qed

lemma not_applied_unchanged:
  assumes "apply_correction k a x i s = (r, t)" and "\<And>v. r \<noteq> Inr (APPLIED, v)"
  shows "t = s"
proof (cases "current s k")
  case None
  then show ?thesis using assms(1) absent [OF None] by simp
next
  case (Some v)
  show ?thesis
  proof (cases "last_key s k = Some i")
    case True
    then show ?thesis using assms(1) replay [OF Some True] by simp
  next
    case False
    then show ?thesis
      using assms stale [OF Some False] writes [of s k x i a r t] Some by (cases "v = x") auto
  qed
qed

lemma apply_then_replay:
  assumes "apply_correction k a x i s = (Inr (APPLIED, v), t)"
  shows "apply_correction k b y i t = (Inr (BOOKING_DUPLICATE_NOOP, Some a), t)"
  using applied_D [OF assms] replay [of t k a i] by simp

text \<open>A correction of another record in between does not forget the key.\<close>

lemma replay_survives_other_records:
  assumes "apply_correction k a x i s = (Inr (APPLIED, v), t)"
    and "apply_correction k' b y j t = (r, u)" and "k' \<noteq> k"
  shows "apply_correction k c z i u = (Inr (BOOKING_DUPLICATE_NOOP, Some a), u)"
proof -
  have "current u k = Some a \<and> last_key u k = Some i"
  proof (cases "\<exists>w. r = Inr (APPLIED, w)")
    case True
    then show ?thesis using applied_D [of k' b y j t _ u] applied_D [OF assms(1)] assms(2,3) by auto
  next
    case False
    then have "u = t" using not_applied_unchanged [OF assms(2)] by blast
    then show ?thesis using applied_D [OF assms(1)] by simp
  qed
  then show ?thesis using replay by blast
qed

end

text \<open>The current value and the last applied key of a record.\<close>

definition legacy_value :: "remediation_db \<Rightarrow> legacy_key \<Rightarrow> string option" where
  "legacy_value db k = map_option lb_base_amount_value (legacy_booking_records db k)"

definition legacy_last_key :: "remediation_db \<Rightarrow> legacy_key \<Rightarrow> string option" where
  "legacy_last_key db k =
     (case legacy_booking_records db k of None \<Rightarrow> None | Some r \<Rightarrow> lb_last_applied_idempotency_key r)"

interpretation legacy: legacy_boundary legacy_value legacy_last_key "adapter_apply db_now"
  for db_now
  by unfold_locales
    (auto simp: legacy_value_def legacy_last_key_def adapter_apply_def
      apply_legacy_booking_correction_def Let_def fun_eq_iff split: option.splits if_splits)

end
