(* ===== verification/Remediation_Case.thy ===== *)
theory Remediation_Case
  imports Remediation_Policy Remediation_Store
begin

text \<open>
  \<open>packages/remediation/triage.py\<close> (case generation) and
  \<open>packages/remediation/evidence.py\<close> (the case view and the frozen evidence record).
  The rows the product adapter returns are the arguments of \<open>generate_case\<close>; the provider
  is a function of the facts and the candidate sections, which may raise.
\<close>

section \<open>Case generation\<close>

definition SUPPORTED_BREAK_FAMILY :: string where
  "SUPPORTED_BREAK_FAMILY = ''ECONOMIC_VALUE_MISMATCH''"

definition SUPPORTED_FIELD_PATH :: string where
  "SUPPORTED_FIELD_PATH = ''/payload/base_amount''"

definition decimal_scale :: "string \<Rightarrow> int" where
  "decimal_scale value = int (length (after_point value))"

record comparison_doc =
  cd_field_path :: string
  cd_expected_value :: string
  cd_observed_value :: string
  cd_expected_source_observation_id :: "string option"
  cd_observed_source_observation_id :: "string option"

record source_reference_doc =
  sr_source_observation_id :: string
  sr_source_system :: string

record break_row =
  br_break_id :: string
  br_run_id :: string
  br_trade_id :: string
  br_break_family :: string
  br_condition_code :: string
  br_product_type :: string
  br_comparisons :: "comparison_doc list"
  br_source_version_set :: "source_reference_doc list"

record canonical_document =
  cn_portfolio_id :: string
  cn_base_amount_currency :: "string option"

text \<open>
  \<open>{item["source_observation_id"]: item for item in ...}.get(id)\<close>: the last one wins, and
  no identifier is \<open>None\<close>.
\<close>

definition reference_for :: "break_row \<Rightarrow> string option \<Rightarrow> source_reference_doc option" where
  "reference_for row oid = (case oid of None \<Rightarrow> None
     | Some i \<Rightarrow> List.find (\<lambda>r. sr_source_observation_id r = i) (rev (br_source_version_set row)))"

definition build_break_facts ::
    "break_row \<Rightarrow> canonical_document \<Rightarrow> remediation_exn + BreakFacts \<times> source_reference_doc" where
  "build_break_facts row canonical = (
     if br_break_family row \<noteq> SUPPORTED_BREAK_FAMILY
     then Inl (CaseNotEligibleError (''only '' @ SUPPORTED_BREAK_FAMILY @
            '' breaks are supported in this slice, got '' @ py_repr (br_break_family row)))
     else case List.find (\<lambda>c. cd_field_path c = SUPPORTED_FIELD_PATH) (br_comparisons row) of
       None \<Rightarrow> Inl (CaseNotEligibleError
                (''break has no '' @ SUPPORTED_FIELD_PATH @ '' comparison; unsupported field''))
     | Some comparison \<Rightarrow>
         (case (reference_for row (cd_expected_source_observation_id comparison),
                reference_for row (cd_observed_source_observation_id comparison)) of
            (Some expected_ref, Some observed_ref) \<Rightarrow> Inr (mk_BreakFacts \<lparr>
                bf_break_id = br_break_id row,
                bf_break_family = br_break_family row,
                bf_condition_code = br_condition_code row,
                bf_product_type = br_product_type row,
                bf_trade_id = br_trade_id row,
                bf_field_path = cd_field_path comparison,
                bf_expected_value = cd_expected_value comparison,
                bf_observed_value = cd_observed_value comparison,
                bf_expected_source_system = sr_source_system expected_ref,
                bf_observed_source_system = sr_source_system observed_ref,
                bf_trade_value_amount = cd_expected_value comparison,
                bf_trade_value_currency =
                  (case cn_base_amount_currency canonical of None \<Rightarrow> [] | Some c \<Rightarrow> c)\<rparr>, observed_ref)
          | _ \<Rightarrow> Inl (CaseNotEligibleError ''break comparison is missing its source references'')))"

definition candidate_query :: "BreakFacts \<Rightarrow> string" where
  "candidate_query facts =
     bf_break_family facts @ '' '' @ bf_field_path facts @ '' economic value mismatch '' @
     bf_expected_source_system facts @ '' '' @ bf_observed_source_system facts @
     '' correction authoritative source booking''"

record ai_provider =
  pv_name :: string
  pv_recommend :: "BreakFacts \<Rightarrow> RetrievedSection list \<Rightarrow> remediation_exn + AIRecommendation"

definition DeterministicTestProvider :: ai_provider where
  "DeterministicTestProvider = \<lparr>
     pv_name = ''deterministic-test'',
     pv_recommend = (\<lambda>facts candidates. lift_py (deterministic_recommend facts candidates))\<rparr>"

text \<open>
  \<open>token\<close> is what \<open>secrets.token_hex(12)\<close> returned, \<open>break_detail\<close> and
  \<open>canonical_state_document\<close> what the product adapter's queries return.
\<close>

definition new_case_id :: "string \<Rightarrow> string" where
  "new_case_id token = ''case_'' @ token"

definition generate_case ::
    "RunbookSection list \<Rightarrow> ai_provider \<Rightarrow> string \<Rightarrow> datetime \<Rightarrow> string \<Rightarrow>
     (string \<Rightarrow> break_row option) \<Rightarrow> (string \<Rightarrow> canonical_document option) \<Rightarrow> string \<Rightarrow>
     (string \<times> AIRecommendation \<times> PolicyDecision) db_call" where
  "generate_case index provider token db_now tenant_id break_detail canonical_state_document break_id = (
     case break_detail break_id of
       None \<Rightarrow> raise (BreakNotFoundError (''break '' @ py_repr break_id @ '' not found''))
     | Some row \<Rightarrow> (case canonical_state_document (br_trade_id row) of
         None \<Rightarrow> raise (CaseNotEligibleError
                   (''no canonical state found for trade '' @ py_repr (br_trade_id row)))
       | Some canonical \<Rightarrow>
           andthen (lift_result (build_break_facts row canonical)) (\<lambda>(facts, observed_ref).
           andthen (lift_result (lift_py (search index (candidate_query facts) 5))) (\<lambda>candidates.
           andthen (lift_result (pv_recommend provider facts candidates)) (\<lambda>recommendation.
           let decision = evaluate index recommendation facts; case_id = new_case_id token in
           andthen (insert_case \<lparr>
               cr_case_id = case_id,
               cr_break_id = bf_break_id facts,
               cr_run_id = br_run_id row,
               cr_trade_id = br_trade_id row,
               cr_tenant_id = tenant_id,
               cr_portfolio_id = cn_portfolio_id canonical,
               cr_product_type = bf_product_type facts,
               cr_ai_provider = pv_name provider,
               cr_break_facts = facts,
               cr_ai_recommendation = recommendation,
               cr_policy_decision = decision,
               cr_created_at = db_now\<rparr>) (\<lambda>_.
           andthen (seed_legacy_booking_record db_now
               (tenant_id, cn_portfolio_id canonical, br_trade_id row)
               (bf_observed_value facts) (bf_trade_value_currency facts)
               (decimal_scale (bf_observed_value facts)) (sr_source_observation_id observed_ref)) (\<lambda>_.
           ret (case_id, recommendation, decision))))))))"

section \<open>Evidence\<close>

record approval_view =
  av_role :: ApprovalRole
  av_approver_identity :: string
  av_decision :: ApprovalDecision
  av_decided_at :: datetime

record envelope_view =
  nv_content_hash :: string
  nv_issued_at :: datetime
  nv_expires_at :: datetime
  nv_idempotency_key :: string

record execution_view =
  xv_outcome :: ExecutionOutcome
  xv_detail :: string
  xv_read_back_value :: "string option"
  xv_applied :: bool
  xv_attempted_at :: datetime

record case_view_doc =
  cv_case :: case_row
  cv_approvals :: "approval_view list"
  cv_envelope :: "envelope_view option"
  cv_executions :: "execution_view list"
  cv_evidence_id :: "string option"
  cv_evidence_content_hash :: "string option"
  cv_post_action_reconciliation :: "json option"

definition view_approval :: "approval_row \<Rightarrow> approval_view" where
  "view_approval r = \<lparr>av_role = ar_role r, av_approver_identity = ar_approver_identity r,
     av_decision = ar_decision r, av_decided_at = ar_decided_at r\<rparr>"

definition view_envelope :: "envelope_row \<Rightarrow> envelope_view" where
  "view_envelope r = \<lparr>nv_content_hash = ev_content_hash r, nv_issued_at = ev_issued_at r,
     nv_expires_at = ev_expires_at r, nv_idempotency_key = ev_idempotency_key r\<rparr>"

definition view_execution :: "execution_row \<Rightarrow> execution_view" where
  "view_execution r = \<lparr>xv_outcome = ex_outcome r, xv_detail = ex_detail r,
     xv_read_back_value = ex_read_back_value r, xv_applied = ex_applied r,
     xv_attempted_at = ex_attempted_at r\<rparr>"

text \<open>\<open>document.get(key)\<close>.\<close>

fun json_get :: "string \<Rightarrow> json \<Rightarrow> json option" where
  "json_get k (JObj kvs) = map_of kvs k"
| "json_get k _ = None"

definition case_view :: "string \<Rightarrow> case_view_doc option db_call" where
  "case_view case_id =
     andthen (get_case case_id) (\<lambda>found. case found of
       None \<Rightarrow> ret None
     | Some row \<Rightarrow>
         andthen (get_approvals case_id) (\<lambda>approvals.
         andthen (get_envelope case_id) (\<lambda>envelope.
         andthen (get_executions case_id) (\<lambda>executions.
         andthen (get_evidence case_id) (\<lambda>evidence.
         ret (Some \<lparr>
           cv_case = row,
           cv_approvals = map view_approval approvals,
           cv_envelope = map_option view_envelope envelope,
           cv_executions = map view_execution executions,
           cv_evidence_id = map_option ed_evidence_id evidence,
           cv_evidence_content_hash = map_option ed_content_hash evidence,
           cv_post_action_reconciliation =
             (case evidence of None \<Rightarrow> None
              | Some ev \<Rightarrow> json_get ''post_action_reconciliation'' (ed_evidence_document ev))\<rparr>))))))"

text \<open>\<open>json.dumps(..., default=str)\<close> writes a date-time as \<open>str\<close> does.\<close>

definition datetime_str :: "datetime \<Rightarrow> string" where
  "datetime_str t = (let w = wall_clock t in
     date_isoformat (w div us_per_day) @ '' '' @ hms_str (w mod us_per_day) @
     (case utcoffset t of None \<Rightarrow> [] | Some off \<Rightarrow> offset_str off))"

fun decision_str :: "ApprovalDecision \<Rightarrow> string" where
  "decision_str APPROVE = ''APPROVE''"
| "decision_str REJECT = ''REJECT''"

fun execution_outcome_str :: "ExecutionOutcome \<Rightarrow> string" where
  "execution_outcome_str SUCCESS = ''SUCCESS''"
| "execution_outcome_str DUPLICATE_NOOP = ''DUPLICATE_NOOP''"
| "execution_outcome_str TIMEOUT_RECOVERED = ''TIMEOUT_RECOVERED''"
| "execution_outcome_str REJECTED_EXPIRED = ''REJECTED_EXPIRED''"
| "execution_outcome_str REJECTED_TAMPERED = ''REJECTED_TAMPERED''"
| "execution_outcome_str REJECTED_APPROVALS_MISSING = ''REJECTED_APPROVALS_MISSING''"
| "execution_outcome_str REJECTED_SAME_IDENTITY = ''REJECTED_SAME_IDENTITY''"
| "execution_outcome_str REJECTED_VALUE_MISMATCH = ''REJECTED_VALUE_MISMATCH''"
| "execution_outcome_str REJECTED_FIELD_NOT_ALLOWED = ''REJECTED_FIELD_NOT_ALLOWED''"

definition break_facts_json :: "BreakFacts \<Rightarrow> json" where
  "break_facts_json f = JObj [
     (''break_id'', JStr (bf_break_id f)),
     (''break_family'', JStr (bf_break_family f)),
     (''condition_code'', JStr (bf_condition_code f)),
     (''product_type'', JStr (bf_product_type f)),
     (''trade_id'', JStr (bf_trade_id f)),
     (''field_path'', JStr (bf_field_path f)),
     (''expected_value'', JStr (bf_expected_value f)),
     (''observed_value'', JStr (bf_observed_value f)),
     (''expected_source_system'', JStr (bf_expected_source_system f)),
     (''observed_source_system'', JStr (bf_observed_source_system f)),
     (''trade_value_amount'', JStr (bf_trade_value_amount f)),
     (''trade_value_currency'', JStr (bf_trade_value_currency f))]"

definition policy_decision_json :: "PolicyDecision \<Rightarrow> json" where
  "policy_decision_json d = JObj [
     (''outcome'', JStr (policy_outcome_str (pd_outcome d))),
     (''reasons'', JList (map JStr (pd_reasons d))),
     (''required_approvals'', JList (map (JStr \<circ> role_str) (pd_required_approvals d))),
     (''approved_field_path'', json_opt JStr (approved_field_path d)),
     (''approved_value'', json_opt JStr (pd_approved_value d))]"

definition approval_view_json :: "approval_view \<Rightarrow> json" where
  "approval_view_json a = JObj [
     (''role'', JStr (role_str (av_role a))),
     (''approver_identity'', JStr (av_approver_identity a)),
     (''decision'', JStr (decision_str (av_decision a))),
     (''decided_at'', JStr (datetime_str (av_decided_at a)))]"

definition envelope_view_json :: "envelope_view \<Rightarrow> json" where
  "envelope_view_json n = JObj [
     (''content_hash'', JStr (nv_content_hash n)),
     (''issued_at'', JStr (datetime_str (nv_issued_at n))),
     (''expires_at'', JStr (datetime_str (nv_expires_at n))),
     (''idempotency_key'', JStr (nv_idempotency_key n))]"

definition execution_view_json :: "execution_view \<Rightarrow> json" where
  "execution_view_json x = JObj [
     (''outcome'', JStr (execution_outcome_str (xv_outcome x))),
     (''detail'', JStr (xv_detail x)),
     (''read_back_value'', json_opt JStr (xv_read_back_value x)),
     (''applied'', JBool (xv_applied x)),
     (''attempted_at'', JStr (datetime_str (xv_attempted_at x)))]"

definition evidence_document :: "runtime \<Rightarrow> case_view_doc \<Rightarrow> json option \<Rightarrow> json" where
  "evidence_document rt view post_action_reconciliation = JObj [
     (''case_id'', JStr (cr_case_id (cv_case view))),
     (''break_id'', JStr (cr_break_id (cv_case view))),
     (''run_id'', JStr (cr_run_id (cv_case view))),
     (''trade_id'', JStr (cr_trade_id (cv_case view))),
     (''tenant_id'', JStr (cr_tenant_id (cv_case view))),
     (''portfolio_id'', JStr (cr_portfolio_id (cv_case view))),
     (''product_type'', JStr (cr_product_type (cv_case view))),
     (''ai_provider'', JStr (cr_ai_provider (cv_case view))),
     (''break_facts'', break_facts_json (cr_break_facts (cv_case view))),
     (''ai_recommendation'', recommendation_json rt (cr_ai_recommendation (cv_case view))),
     (''policy_decision'', policy_decision_json (cr_policy_decision (cv_case view))),
     (''approvals'', JList (map approval_view_json (cv_approvals view))),
     (''envelope'', json_opt envelope_view_json (cv_envelope view)),
     (''executions'', JList (map execution_view_json (cv_executions view))),
     (''post_action_reconciliation'', json_opt id post_action_reconciliation)]"

definition finalize_evidence ::
    "runtime \<Rightarrow> datetime \<Rightarrow> string \<Rightarrow> json option \<Rightarrow> evidence_row db_call" where
  "finalize_evidence rt db_now case_id post_action_reconciliation =
     andthen (case_view case_id) (\<lambda>found. case found of
       None \<Rightarrow> raise (PyExc (ValueError
                 (''cannot finalize evidence for unknown case '' @ py_repr case_id)))
     | Some view \<Rightarrow>
         let document = evidence_document rt view post_action_reconciliation in
         insert_evidence_if_absent \<lparr>
           ed_evidence_id = ''evidence_'' @ case_id,
           ed_case_id = case_id,
           ed_evidence_document = document,
           ed_content_hash = sha256_tag rt (dumps document),
           ed_created_at = db_now\<rparr>)"

section \<open>Lemmas\<close>

lemma case_view_reads: "case_view case_id db = (r, db') \<Longrightarrow> db' = db"
  by (auto simp: case_view_def get_case_def get_approvals_def get_envelope_def get_executions_def
      get_evidence_def split: option.splits)

lemma build_break_facts_Inr:
  assumes "build_break_facts row canonical = Inr (facts, ref)"
  shows "mk_BreakFacts facts = facts" and "br_break_family row = ''ECONOMIC_VALUE_MISMATCH''"
    and "bf_field_path facts = ''/payload/base_amount''"
    and "ref \<in> set (br_source_version_set row)"
proof -
  show "mk_BreakFacts facts = facts" "br_break_family row = ''ECONOMIC_VALUE_MISMATCH''"
    using assms by (auto simp: build_break_facts_def SUPPORTED_BREAK_FAMILY_def
        split: if_splits option.splits)
  have "py_strip ''/payload/base_amount'' = ''/payload/base_amount''" by code_simp
  then show "bf_field_path facts = ''/payload/base_amount''"
    using assms by (auto simp: build_break_facts_def SUPPORTED_FIELD_PATH_def mk_BreakFacts_def
        split: if_splits option.splits dest!: find_Some_D)
  show "ref \<in> set (br_source_version_set row)"
    using assms by (auto simp: build_break_facts_def reference_for_def
        split: if_splits option.splits dest!: find_Some_D)
qed

end
