(* ===== verification/Remediation_Envelope.thy ===== *)
theory Remediation_Envelope
  imports Remediation_Models
begin

text \<open>
  \<open>packages/remediation/envelope.py\<close>: the signed, expiring, idempotent action envelope.
  The clock (\<open>datetime.now(UTC)\<close>) is the argument \<open>now\<close>, the environment variable
  \<open>TRADEOPS_REMEDIATION_SIGNING_SECRET\<close> the argument \<open>configured\<close> (empty when unset).
\<close>

section \<open>Operations\<close>

definition ENVELOPE_TTL_SECONDS :: int where
  "ENVELOPE_TTL_SECONDS = 900"

definition signing_secret :: "string \<Rightarrow> string option \<Rightarrow> remediation_exn + string" where
  "signing_secret configured secret = (case secret of
     Some s \<Rightarrow> Inr s
   | None \<Rightarrow>
       if configured = []
       then Inl (EnvelopeSigningError ''TRADEOPS_REMEDIATION_SIGNING_SECRET is not configured'')
       else Inr configured)"

text \<open>\<open>model_dump(mode="json", exclude={"content_hash", "signature"})\<close>.\<close>

definition envelope_fields :: "runtime \<Rightarrow> ActionEnvelope \<Rightarrow> json" where
  "envelope_fields rt e = JObj [
     (''case_id'', JStr (ae_case_id e)),
     (''trade_id'', JStr (ae_trade_id e)),
     (''tenant_id'', JStr (ae_tenant_id e)),
     (''portfolio_id'', JStr (ae_portfolio_id e)),
     (''action_type'', JStr ''CORRECT_LEGACY_BOOKING_FIELD''),
     (''field_path'', JStr (ae_field_path e)),
     (''approved_value'', JStr (ae_approved_value e)),
     (''expected_old_value'', JStr (ae_expected_old_value e)),
     (''maker_identity'', JStr (ae_maker_identity e)),
     (''checker_identity'', JStr (ae_checker_identity e)),
     (''issued_at'', JStr (datetime_json rt (ae_issued_at e))),
     (''expires_at'', JStr (datetime_json rt (ae_expires_at e))),
     (''idempotency_key'', JStr (ae_idempotency_key e))]"

definition canonical_bytes :: "json \<Rightarrow> string" where
  "canonical_bytes document = dumps document"

definition content_hash_of :: "runtime \<Rightarrow> ActionEnvelope \<Rightarrow> string" where
  "content_hash_of rt e = sha256_tag rt (canonical_bytes (envelope_fields rt e))"

definition sign_content_hash ::
    "runtime \<Rightarrow> string \<Rightarrow> string option \<Rightarrow> string \<Rightarrow> remediation_exn + string" where
  "sign_content_hash rt configured secret content_hash =
     ebind (signing_secret configured secret) (\<lambda>key. Inr (hmac_sha256_hexdigest rt key content_hash))"

record envelope_request =
  rq_case_id :: string
  rq_trade_id :: string
  rq_tenant_id :: string
  rq_portfolio_id :: string
  rq_field_path :: string
  rq_approved_value :: string
  rq_expected_old_value :: string
  rq_maker_identity :: string
  rq_checker_identity :: string
  rq_idempotency_key :: string

definition draft_envelope :: "envelope_request \<Rightarrow> datetime \<Rightarrow> datetime \<Rightarrow> ActionEnvelope" where
  "draft_envelope q issued expires = mk_ActionEnvelope \<lparr>
     ae_case_id = rq_case_id q,
     ae_trade_id = rq_trade_id q,
     ae_tenant_id = rq_tenant_id q,
     ae_portfolio_id = rq_portfolio_id q,
     ae_field_path = rq_field_path q,
     ae_approved_value = rq_approved_value q,
     ae_expected_old_value = rq_expected_old_value q,
     ae_maker_identity = rq_maker_identity q,
     ae_checker_identity = rq_checker_identity q,
     ae_issued_at = issued,
     ae_expires_at = expires,
     ae_idempotency_key = rq_idempotency_key q,
     ae_content_hash = ''sha256:'' @ replicate 64 CHR ''0'',
     ae_signature = []\<rparr>"

definition build_envelope ::
    "runtime \<Rightarrow> string \<Rightarrow> datetime \<Rightarrow> envelope_request \<Rightarrow> datetime option \<Rightarrow> int \<Rightarrow> string option \<Rightarrow>
     remediation_exn + ActionEnvelope" where
  "build_envelope rt configured now q issued_at ttl_seconds secret = (
     let issued = (case issued_at of Some t \<Rightarrow> t | None \<Rightarrow> now) in
     ebind (lift_py (add_seconds issued ttl_seconds)) (\<lambda>expires.
     let draft = draft_envelope q issued expires;
         content_hash = content_hash_of rt draft
     in ebind (sign_content_hash rt configured secret content_hash) (\<lambda>signature.
        Inr (draft\<lparr>ae_content_hash := content_hash, ae_signature := signature\<rparr>))))"

text \<open>\<open>hmac.compare_digest\<close> of two strings, which must be ASCII.\<close>

definition is_ascii :: "string \<Rightarrow> bool" where
  "is_ascii s \<longleftrightarrow> list_all (\<lambda>c. of_char c < (128 :: nat)) s"

definition compare_digest :: "string \<Rightarrow> string \<Rightarrow> py_error + bool" where
  "compare_digest a b =
     (if is_ascii a \<and> is_ascii b then Inr (a = b)
      else Inl (TypeError ''comparing strings with non-ASCII characters is not supported''))"

definition verify_envelope ::
    "runtime \<Rightarrow> string \<Rightarrow> string option \<Rightarrow> datetime \<Rightarrow> ActionEnvelope \<Rightarrow> remediation_exn + unit" where
  "verify_envelope rt configured secret now e = (
     if content_hash_of rt e \<noteq> ae_content_hash e
     then Inl (EnvelopeTamperedError ''envelope content does not match its content_hash'')
     else
       ebind (sign_content_hash rt configured secret (ae_content_hash e)) (\<lambda>expected_signature.
       ebind (lift_py (compare_digest expected_signature (ae_signature e))) (\<lambda>same.
       if \<not> same then Inl (EnvelopeTamperedError ''envelope signature is invalid'')
       else ebind (lift_py (datetime_ge now (ae_expires_at e))) (\<lambda>expired.
         if expired
         then Inl (EnvelopeExpiredError (''envelope expired at '' @ isoformat (ae_expires_at e)))
         else Inr ()))))"

section \<open>The digest covers the content\<close>

lemma envelope_json_wf: "wf_json (envelope_fields rt e)"
  by (simp add: envelope_fields_def)

text \<open>Two envelopes with the same signed document: every field except the hash and the signature, times as they are
  rendered.\<close>

definition same_document :: "runtime \<Rightarrow> ActionEnvelope \<Rightarrow> ActionEnvelope \<Rightarrow> bool" where
  "same_document rt e f \<longleftrightarrow>
     ae_case_id e = ae_case_id f \<and> ae_trade_id e = ae_trade_id f \<and> ae_tenant_id e = ae_tenant_id f \<and>
     ae_portfolio_id e = ae_portfolio_id f \<and> ae_field_path e = ae_field_path f \<and>
     ae_approved_value e = ae_approved_value f \<and> ae_expected_old_value e = ae_expected_old_value f \<and>
     ae_maker_identity e = ae_maker_identity f \<and> ae_checker_identity e = ae_checker_identity f \<and>
     datetime_json rt (ae_issued_at e) = datetime_json rt (ae_issued_at f) \<and>
     datetime_json rt (ae_expires_at e) = datetime_json rt (ae_expires_at f) \<and>
     ae_idempotency_key e = ae_idempotency_key f"

definition envelope_keys :: "string list" where
  "envelope_keys = [''case_id'', ''trade_id'', ''tenant_id'', ''portfolio_id'', ''action_type'',
     ''field_path'', ''approved_value'', ''expected_old_value'', ''maker_identity'',
     ''checker_identity'', ''issued_at'', ''expires_at'', ''idempotency_key'']"

definition envelope_members :: "runtime \<Rightarrow> ActionEnvelope \<Rightarrow> (string \<times> json) list" where
  "envelope_members rt e = (case envelope_fields rt e of JObj kvs \<Rightarrow> kvs | _ \<Rightarrow> [])"

lemma envelope_fields_members: "envelope_fields rt e = JObj (envelope_members rt e)"
  by (simp add: envelope_members_def envelope_fields_def)

lemma envelope_members_keys: "map fst (envelope_members rt e) = envelope_keys"
  by (simp add: envelope_members_def envelope_fields_def envelope_keys_def)

lemma envelope_keys_distinct: "distinct envelope_keys"
  by code_simp

lemma envelope_members_flat:
  "(k, v) \<in> set (envelope_members rt e) \<Longrightarrow> sort_keys v = v"
  by (auto simp: envelope_members_def envelope_fields_def)

lemma flat_lookup:
  "map_option sort_keys (map_of (envelope_members rt e) k) = map_of (envelope_members rt e) k"
  by (cases "map_of (envelope_members rt e) k") (auto dest: map_of_SomeD envelope_members_flat)

lemma canonical_bytes_members:
  assumes "canonical_bytes (envelope_fields rt e) = canonical_bytes (envelope_fields rt f)"
  shows "envelope_members rt e = envelope_members rt f"
proof -
  have d: "distinct (map fst (envelope_members rt g))" for g
    by (simp only: envelope_members_keys envelope_keys_distinct)
  have "map_of (envelope_members rt e) k = map_of (envelope_members rt f) k" for k
    using dumps_JObj_member [of "envelope_members rt e" "envelope_members rt f" k] assms
      envelope_json_wf [of rt] d
    by (simp add: canonical_bytes_def envelope_fields_members flat_lookup)
  then have "map_of (envelope_members rt e) = map_of (envelope_members rt f)" by blast
  then show ?thesis
    by (intro assoc_list_eqI d) (simp_all add: envelope_members_keys)
qed

lemma canonical_bytes_same:
  assumes "canonical_bytes (envelope_fields rt e) = canonical_bytes (envelope_fields rt f)"
  shows "same_document rt e f"
  using canonical_bytes_members [OF assms]
  by (simp add: envelope_members_def envelope_fields_def same_document_def)

section \<open>Building and verifying\<close>

definition signed_with :: "runtime \<Rightarrow> string \<Rightarrow> ActionEnvelope \<Rightarrow> ActionEnvelope" where
  "signed_with rt key draft = draft\<lparr>
     ae_content_hash := content_hash_of rt draft,
     ae_signature := hmac_sha256_hexdigest rt key (content_hash_of rt draft)\<rparr>"

lemma build_envelope_Inr:
  assumes "build_envelope rt configured now q issued_at ttl secret = Inr e"
  obtains expires key where
    "add_seconds (case issued_at of Some t \<Rightarrow> t | None \<Rightarrow> now) ttl = Inr expires"
    "signing_secret configured secret = Inr key"
    "e = signed_with rt key (draft_envelope q (case issued_at of Some t \<Rightarrow> t | None \<Rightarrow> now) expires)"
proof -
  obtain expires where x: "add_seconds (case issued_at of Some t \<Rightarrow> t | None \<Rightarrow> now) ttl = Inr expires"
    using assms unfolding build_envelope_def Let_def by (cases "add_seconds (case issued_at of Some t \<Rightarrow> t | None \<Rightarrow> now) ttl") simp_all
  moreover obtain key where k: "signing_secret configured secret = Inr key"
    using assms x unfolding build_envelope_def Let_def sign_content_hash_def
    by (cases "signing_secret configured secret") simp_all
  ultimately show thesis
    using assms that
    unfolding build_envelope_def Let_def sign_content_hash_def signed_with_def by simp
qed

lemma signed_with_content_hash [simp]:
  "content_hash_of rt (signed_with rt key d) = ae_content_hash (signed_with rt key d)"
  by (simp add: signed_with_def content_hash_of_def envelope_fields_def)

lemma signed_with_simps [simp]:
  "ae_signature (signed_with rt key d) = hmac_sha256_hexdigest rt key (ae_content_hash (signed_with rt key d))"
  "ae_expires_at (signed_with rt key d) = ae_expires_at d"
  "ae_issued_at (signed_with rt key d) = ae_issued_at d"
  by (simp_all add: signed_with_def)

lemma verify_envelope_Inr_iff:
  "verify_envelope rt configured secret now e = Inr u \<longleftrightarrow>
     content_hash_of rt e = ae_content_hash e \<and>
     (\<exists>key. signing_secret configured secret = Inr key \<and>
        ae_signature e = hmac_sha256_hexdigest rt key (ae_content_hash e)) \<and>
     is_ascii (ae_signature e) \<and>
     datetime_ge now (ae_expires_at e) = Inr False"
proof (cases "content_hash_of rt e = ae_content_hash e")
  case True
  show ?thesis
    unfolding verify_envelope_def sign_content_hash_def compare_digest_def True
    by (cases "signing_secret configured secret"; cases "datetime_ge now (ae_expires_at e)")
      (auto split: if_splits)
qed (simp add: verify_envelope_def)

section \<open>Properties\<close>

text \<open>C24: an envelope that was built verifies with the same secret until its lifetime is over,
  and from that instant on is reported as expired, never as tampered.\<close>

theorem build_then_verify:
  assumes "build_envelope rt configured now q issued_at ttl secret = Inr e"
    and "aware (case issued_at of Some t \<Rightarrow> t | None \<Rightarrow> now)" and "aware later"
    and "\<forall>key msg. is_ascii (hmac_sha256_hexdigest rt key msg)"
  shows "verify_envelope rt configured secret later e =
    (if instant (case issued_at of Some t \<Rightarrow> t | None \<Rightarrow> now) + ttl * 1000000 \<le> instant later
     then Inl (EnvelopeExpiredError (''envelope expired at '' @ isoformat (ae_expires_at e)))
     else Inr ())"
proof -
  let ?issued = "case issued_at of Some t \<Rightarrow> t | None \<Rightarrow> now"
  from assms(1) obtain expires key where b: "add_seconds ?issued ttl = Inr expires"
      "signing_secret configured secret = Inr key" "e = signed_with rt key (draft_envelope q ?issued expires)"
    by (rule build_envelope_Inr)
  have exp: "ae_expires_at e = expires"
    by (simp add: b(3) draft_envelope_def mk_ActionEnvelope_def)
  have "aware expires" "instant expires = instant ?issued + ttl * 1000000"
    using add_seconds_instant [OF b(1)] assms(2) by (simp_all add: aware_def)
  moreover have "content_hash_of rt e = ae_content_hash e"
    "ae_signature e = hmac_sha256_hexdigest rt key (ae_content_hash e)"
    unfolding b(3) by simp_all
  ultimately show ?thesis
    using assms(3,4) b(2) exp
    by (simp add: verify_envelope_def sign_content_hash_def compare_digest_def)
qed

definition sample_case_id :: string where
  "sample_case_id = ''case_'' @ replicate 24 (CHR ''a'')"

definition sample_request :: envelope_request where
  "sample_request = \<lparr>
     rq_case_id = sample_case_id, rq_trade_id = ''trade_0001'', rq_tenant_id = ''tenant_demo'',
     rq_portfolio_id = ''portfolio_1'', rq_field_path = ''/payload/base_amount'',
     rq_approved_value = ''1000000.00'', rq_expected_old_value = ''1019000.00'',
     rq_maker_identity = ''ana'', rq_checker_identity = ''bo'', rq_idempotency_key = ''idem_'' @ sample_case_id\<rparr>"

text \<open>2024-01-02T00:00:00Z.\<close>

definition sample_now :: datetime where
  "sample_now = utc (738887 * 86400000000)"

definition sample_expires :: datetime where
  "sample_expires = utc (738887 * 86400000000 + 900000000)"

definition sample_envelope :: ActionEnvelope where
  "sample_envelope = signed_with plain_runtime ''secret'' (draft_envelope sample_request sample_now sample_expires)"

lemma sample_built:
  "build_envelope plain_runtime [] sample_now sample_request None 900 (Some ''secret'') = Inr sample_envelope"
proof -
  have "add_seconds sample_now 900 = Inr sample_expires"
    by (simp add: add_seconds_def wall_clock_def sample_now_def sample_expires_def utc_def)
  then show ?thesis
    by (simp add: build_envelope_def sign_content_hash_def signing_secret_def sample_envelope_def
        signed_with_def Let_def)
qed

lemma sample_expires_at: "ae_expires_at sample_envelope = sample_expires"
  by (simp add: sample_envelope_def draft_envelope_def mk_ActionEnvelope_def)

lemma plain_hmac_ascii: "is_ascii (hmac_sha256_hexdigest plain_runtime key msg)"
  by (simp add: plain_runtime_def is_ascii_def list_all_iff)

theorem build_then_verify_witness:
  "verify_envelope plain_runtime [] (Some ''secret'') (utc (738887 * 86400000000 + 899999999)) sample_envelope = Inr () \<and>
   verify_envelope plain_runtime [] (Some ''secret'') (utc (738887 * 86400000000 + 900000000)) sample_envelope =
     Inl (EnvelopeExpiredError (''envelope expired at '' @ isoformat sample_expires))"
  using build_then_verify [OF sample_built, of "utc (738887 * 86400000000 + 899999999)"]
    build_then_verify [OF sample_built, of "utc (738887 * 86400000000 + 900000000)"]
  by (simp add: sample_now_def plain_hmac_ascii sample_expires_at)

text \<open>C23: an envelope is tamper evident. Take any envelope that differs from a verified one in a field of the signed
  document, in the content hash or in the signature. Verification under the same secret refuses it at any time: as
  tampered content when the hash is not that of the content, and otherwise, also for an attacker who recomputes the
  hash, by its signature, which is either invalid or, when it is not ASCII text, an error of the comparison. This
  assumes that SHA-256 does not collide on the two documents, that a hexadecimal digest is ASCII, and that a signature
  valid under the secret is one that was made for that content hash.\<close>

theorem tampering_detected:
  assumes "verify_envelope rt configured secret t e = Inr ()"
    and "\<not> (same_document rt e f \<and> ae_content_hash f = ae_content_hash e \<and> ae_signature f = ae_signature e)"
    and "sha256_hexdigest rt (canonical_bytes (envelope_fields rt e)) =
           sha256_hexdigest rt (canonical_bytes (envelope_fields rt f)) \<Longrightarrow>
         canonical_bytes (envelope_fields rt e) = canonical_bytes (envelope_fields rt f)"
    and "\<And>key. signing_secret configured secret = Inr key \<Longrightarrow>
         ae_signature f = hmac_sha256_hexdigest rt key (ae_content_hash f) \<Longrightarrow> ae_content_hash f = ae_content_hash e"
    and "\<forall>key msg. is_ascii (hmac_sha256_hexdigest rt key msg)"
  shows "verify_envelope rt configured secret t' f = Inl
    (if content_hash_of rt f \<noteq> ae_content_hash f
     then EnvelopeTamperedError ''envelope content does not match its content_hash''
     else if is_ascii (ae_signature f) then EnvelopeTamperedError ''envelope signature is invalid''
     else PyExc (TypeError ''comparing strings with non-ASCII characters is not supported''))"
proof (cases "content_hash_of rt f = ae_content_hash f")
  case True
  obtain key where key: "signing_secret configured secret = Inr key"
    and e: "ae_signature e = hmac_sha256_hexdigest rt key (ae_content_hash e)" "content_hash_of rt e = ae_content_hash e"
    using assms(1) by (auto simp: verify_envelope_Inr_iff)
  have "ae_signature f \<noteq> hmac_sha256_hexdigest rt key (ae_content_hash f)"
  proof
    assume valid: "ae_signature f = hmac_sha256_hexdigest rt key (ae_content_hash f)"
    then have h: "ae_content_hash f = ae_content_hash e" by (rule assms(4) [OF key])
    then have "content_hash_of rt e = content_hash_of rt f" using True e(2) by simp
    then have "same_document rt e f"
      by (intro canonical_bytes_same assms(3)) (simp add: content_hash_of_def sha256_tag_def)
    then show False using assms(2) h e(1) valid by simp
  qed
  then show ?thesis using True assms(5) key
    by (auto simp: verify_envelope_def sign_content_hash_def compare_digest_def)
qed (simp add: verify_envelope_def)

lemma sample_verified:
  "verify_envelope plain_runtime [] (Some ''secret'') sample_now sample_envelope = Inr ()"
proof -
  have "content_hash_of plain_runtime sample_envelope = ae_content_hash sample_envelope"
    "ae_signature sample_envelope = hmac_sha256_hexdigest plain_runtime ''secret'' (ae_content_hash sample_envelope)"
    unfolding sample_envelope_def by simp_all
  then show ?thesis
    by (simp add: verify_envelope_Inr_iff signing_secret_def plain_hmac_ascii sample_expires_at)
      (simp add: sample_now_def sample_expires_def)
qed

text \<open>A keyed digest that tells the sample envelope's hash from others, and an envelope whose approved value was changed
  and whose hash was recomputed, with the signature kept.\<close>

definition guarded_runtime :: runtime where
  "guarded_runtime = plain_runtime\<lparr>hmac_sha256_hexdigest := (\<lambda>key msg.
     if msg = ae_content_hash sample_envelope then replicate 64 (CHR ''a'') else replicate 64 (CHR ''b''))\<rparr>"

definition forged_envelope :: ActionEnvelope where
  "forged_envelope = (let changed = sample_envelope\<lparr>ae_approved_value := ''9000000.00''\<rparr> in
     changed\<lparr>ae_content_hash := content_hash_of plain_runtime changed\<rparr>)"

theorem tampering_detected_witness:
  "verify_envelope guarded_runtime [] (Some ''secret'') sample_now forged_envelope =
    Inl (EnvelopeTamperedError ''envelope signature is invalid'')"
proof -
  have hash: "content_hash_of guarded_runtime e = content_hash_of plain_runtime e" for e
    by (simp add: content_hash_of_def envelope_fields_def guarded_runtime_def sha256_tag_def)
  have signed: "ae_signature sample_envelope = replicate 64 (CHR ''a'')"
    by (simp add: sample_envelope_def signed_with_def plain_runtime_def)
  have ascii: "is_ascii (replicate 64 (CHR ''a''))" "is_ascii (replicate 64 (CHR ''b''))"
    by (simp_all add: is_ascii_def list_all_iff)
  have verified: "verify_envelope guarded_runtime [] (Some ''secret'') sample_now sample_envelope = Inr ()"
    using sample_verified
    by (auto simp: verify_envelope_Inr_iff hash signed signing_secret_def) (simp add: guarded_runtime_def)
  have forged: "content_hash_of plain_runtime forged_envelope = ae_content_hash forged_envelope"
    "ae_signature forged_envelope = replicate 64 (CHR ''a'')" "ae_approved_value forged_envelope = ''9000000.00''"
    by (simp_all add: forged_envelope_def Let_def signed content_hash_of_def envelope_fields_def)
  have "ae_approved_value sample_envelope \<noteq> ''9000000.00''"
    by (simp add: sample_envelope_def signed_with_def draft_envelope_def mk_ActionEnvelope_def sample_request_def
        py_strip_def is_space_def)
  then have "\<not> same_document guarded_runtime sample_envelope forged_envelope"
    by (simp add: same_document_def forged(3))
  then have "verify_envelope guarded_runtime [] (Some ''secret'') sample_now forged_envelope = Inl
    (if content_hash_of guarded_runtime forged_envelope \<noteq> ae_content_hash forged_envelope
     then EnvelopeTamperedError ''envelope content does not match its content_hash''
     else if is_ascii (ae_signature forged_envelope) then EnvelopeTamperedError ''envelope signature is invalid''
     else PyExc (TypeError ''comparing strings with non-ASCII characters is not supported''))"
    by (intro tampering_detected [OF verified])
      (simp_all add: guarded_runtime_def plain_runtime_def forged(2) ascii split: if_splits)
  then show ?thesis by (simp add: hash forged ascii)
qed

text \<open>A signed envelope passes validation unchanged when its digests have no outer white space.\<close>

lemma sample_hash_stripped: "py_strip (ae_content_hash sample_envelope) = ae_content_hash sample_envelope"
proof (rule py_strip_id)
  have "ae_content_hash sample_envelope = ''sha256:'' @ dumps (envelope_fields plain_runtime
      (draft_envelope sample_request sample_now sample_expires))"
    by (simp add: sample_envelope_def signed_with_def content_hash_of_def canonical_bytes_def sha256_tag_def
        plain_runtime_def)
  then show "ae_content_hash sample_envelope = [] \<or>
      \<not> is_space (hd (ae_content_hash sample_envelope)) \<and> \<not> is_space (last (ae_content_hash sample_envelope))"
    using dumps_JObj_ends [of "envelope_members plain_runtime (draft_envelope sample_request sample_now sample_expires)"]
    by (simp add: envelope_fields_members is_space_def)
qed

lemma sample_envelope_stable: "mk_ActionEnvelope sample_envelope = sample_envelope"
proof -
  let ?d = "draft_envelope sample_request sample_now sample_expires"
  have "mk_ActionEnvelope ?d = ?d" by (simp add: draft_envelope_def)
  moreover have "py_strip (ae_signature sample_envelope) = ae_signature sample_envelope"
    by (rule py_strip_id) (simp add: sample_envelope_def signed_with_def plain_runtime_def is_space_def)
  ultimately show ?thesis
    using sample_hash_stripped
    by (cases ?d) (simp add: sample_envelope_def signed_with_def mk_ActionEnvelope_def)
qed

end
