(* ===== verification/Remediation_Executor.thy ===== *)
theory Remediation_Executor
  imports Remediation_Envelope Remediation_Store Remediation_Policy
begin

text \<open>
  \<open>packages/remediation/executor.py\<close>: the only component permitted to act on a signed
  envelope. \<open>execute\<close> checks, in order, the envelope, the approvals, the field allow-list,
  and delegates the rest to the legacy boundary; every attempt writes one execution row.
\<close>

section \<open>Operations\<close>

datatype AttemptContext = NORMAL | TIMEOUT_RECOVERY_ATTEMPT

text \<open>\<open>{a.role: a for a in approvals if a.decision == "APPROVE"}\<close>: the last one of a role wins.\<close>

definition approved_by_role :: "Approval list \<Rightarrow> ApprovalRole \<Rightarrow> Approval option" where
  "approved_by_role approvals role =
     List.find (\<lambda>a. ap_role a = role) (rev (filter (\<lambda>a. ap_decision a = APPROVE) approvals))"

definition require_valid_approvals :: "ActionEnvelope \<Rightarrow> Approval list \<Rightarrow> remediation_exn + unit" where
  "require_valid_approvals e approvals = (
     case (approved_by_role approvals MAKER, approved_by_role approvals CHECKER) of
       (Some maker, Some checker) \<Rightarrow>
         if ap_approver_identity maker = ap_approver_identity checker
         then Inl (SameIdentityError ''maker and checker must be different identities'')
         else if ap_approver_identity maker \<noteq> ae_maker_identity e \<or>
                 ap_approver_identity checker \<noteq> ae_checker_identity e
         then Inl (SameIdentityError
                ''approval identities do not match the identities recorded on the envelope'')
         else Inr ()
     | _ \<Rightarrow> Inl (ApprovalsIncompleteError
              ''both a MAKER and a CHECKER APPROVE decision are required to execute''))"

definition record_attempt ::
    "datetime \<Rightarrow> ActionEnvelope \<Rightarrow> ExecutionOutcome \<Rightarrow> string \<Rightarrow> string option \<Rightarrow> bool \<Rightarrow>
     ExecutionResult db_call" where
  "record_attempt db_now e outcome detail read_back_value applied =
     andthen (insert_execution \<lparr>
       ex_case_id = ae_case_id e,
       ex_idempotency_key = ae_idempotency_key e,
       ex_outcome = outcome,
       ex_detail = detail,
       ex_read_back_value = read_back_value,
       ex_applied = applied,
       ex_attempted_at = db_now\<rparr>)
     (\<lambda>_. ret \<lparr>
       er_outcome = outcome,
       er_detail = py_strip detail,
       er_read_back_value = map_option py_strip read_back_value,
       er_applied = applied\<rparr>)"

definition envelope_key :: "ActionEnvelope \<Rightarrow> legacy_key" where
  "envelope_key e = (ae_tenant_id e, ae_portfolio_id e, ae_trade_id e)"

text \<open>\<open>f"{x!r}"\<close> of an optional string.\<close>

definition repr_opt :: "string option \<Rightarrow> string" where
  "repr_opt s = (case s of None \<Rightarrow> ''None'' | Some v \<Rightarrow> py_repr v)"

definition report_outcome ::
    "datetime \<Rightarrow> AttemptContext \<Rightarrow> ActionEnvelope \<Rightarrow> BookingApplyOutcome \<times> string option \<Rightarrow>
     ExecutionResult db_call" where
  "report_outcome db_now ctx e r = (case r of (outcome, read_back_value) \<Rightarrow> (case outcome of
     APPLIED \<Rightarrow> record_attempt db_now e SUCCESS ''legacy booking record corrected'' read_back_value True
   | BOOKING_DUPLICATE_NOOP \<Rightarrow>
       record_attempt db_now e
         (if ctx = TIMEOUT_RECOVERY_ATTEMPT then TIMEOUT_RECOVERED else DUPLICATE_NOOP)
         ''idempotency_key already applied; read-back confirms no second side effect''
         read_back_value False
   | VALUE_MISMATCH \<Rightarrow>
       record_attempt db_now e REJECTED_VALUE_MISMATCH
         (''current value '' @ repr_opt read_back_value @ '' does not match expected_old_value '' @
          py_repr (ae_expected_old_value e))
         read_back_value False
   | NOT_FOUND \<Rightarrow>
       record_attempt db_now e REJECTED_VALUE_MISMATCH
         ''no legacy booking record exists for this trade'' None False))"

definition execute ::
    "runtime \<Rightarrow> string \<Rightarrow> string option \<Rightarrow> datetime \<Rightarrow> datetime \<Rightarrow> ActionEnvelope \<Rightarrow> Approval list \<Rightarrow>
     AttemptContext \<Rightarrow> ExecutionResult db_call" where
  "execute rt configured secret now db_now e approvals ctx = (
     case verify_envelope rt configured secret now e of
       Inl (EnvelopeExpiredError msg) \<Rightarrow> record_attempt db_now e REJECTED_EXPIRED msg None False
     | Inl (EnvelopeTamperedError msg) \<Rightarrow> record_attempt db_now e REJECTED_TAMPERED msg None False
     | Inl other \<Rightarrow> raise other
     | Inr _ \<Rightarrow> (case require_valid_approvals e approvals of
         Inl (ApprovalsIncompleteError msg) \<Rightarrow>
           record_attempt db_now e REJECTED_APPROVALS_MISSING msg None False
       | Inl (SameIdentityError msg) \<Rightarrow>
           record_attempt db_now e REJECTED_SAME_IDENTITY msg None False
       | Inl other \<Rightarrow> raise other
       | Inr _ \<Rightarrow>
           if ae_field_path e \<notin> set ALLOWED_PROPOSED_FIELDS
           then record_attempt db_now e REJECTED_FIELD_NOT_ALLOWED
                  (py_repr (ae_field_path e) @ '' is not on the approved field allow-list'') None False
           else andthen
             (adapter_apply db_now (envelope_key e) (ae_approved_value e) (ae_expected_old_value e)
                (ae_idempotency_key e))
             (report_outcome db_now ctx e)))"

section \<open>Lemmas\<close>

text \<open>The row that an attempt leaves, and nothing else.\<close>

definition logged :: "execution_row \<Rightarrow> remediation_db \<Rightarrow> remediation_db" where
  "logged row db = db\<lparr>remediation_executions := remediation_executions db @ [row]\<rparr>"

lemma record_attempt_Inr:
  assumes "record_attempt db_now e outcome detail rb applied db = (Inr res, db')"
  shows "er_outcome res = outcome" and "er_applied res = applied"
    and "er_read_back_value res = map_option py_strip rb"
    and "\<exists>row. db' = logged row db \<and> ex_case_id row = ae_case_id e \<and>
           ex_idempotency_key row = ae_idempotency_key e \<and> ex_outcome row = outcome \<and>
           ex_applied row = applied"
  using assms
  by (auto simp: record_attempt_def insert_execution_def logged_def result_simps split: if_splits)

lemma record_attempt_Inl:
  "record_attempt db_now e outcome detail rb applied db = (Inl x, db') \<Longrightarrow>
   db' = db \<and> ae_case_id e \<notin> set (case_ids db)"
  by (auto simp: record_attempt_def insert_execution_def result_simps split: if_splits)

lemma record_attempt_total:
  "ae_case_id e \<in> set (case_ids db) \<Longrightarrow>
   \<exists>res. record_attempt db_now e outcome detail rb applied db =
     (Inr res, logged \<lparr>ex_case_id = ae_case_id e, ex_idempotency_key = ae_idempotency_key e,
        ex_outcome = outcome, ex_detail = detail, ex_read_back_value = rb, ex_applied = applied,
        ex_attempted_at = db_now\<rparr> db)"
  by (simp add: record_attempt_def insert_execution_def logged_def andthen_def)

text \<open>The gates before the legacy boundary.\<close>

definition executor_gates ::
    "runtime \<Rightarrow> string \<Rightarrow> string option \<Rightarrow> datetime \<Rightarrow> ActionEnvelope \<Rightarrow> Approval list \<Rightarrow> bool" where
  "executor_gates rt configured secret now e approvals \<longleftrightarrow>
     verify_envelope rt configured secret now e = Inr () \<and>
     require_valid_approvals e approvals = Inr () \<and>
     ae_field_path e \<in> set ALLOWED_PROPOSED_FIELDS"

lemma execute_gates_open:
  "executor_gates rt configured secret now e approvals \<Longrightarrow>
   execute rt configured secret now db_now e approvals ctx =
     andthen (adapter_apply db_now (envelope_key e) (ae_approved_value e) (ae_expected_old_value e)
       (ae_idempotency_key e)) (report_outcome db_now ctx e)"
  by (simp add: executor_gates_def execute_def)

text \<open>With a gate shut, the call raises without a write or logs one rejection.\<close>

definition rejected_attempt ::
    "datetime \<Rightarrow> ActionEnvelope \<Rightarrow> ExecutionResult db_call \<Rightarrow> bool" where
  "rejected_attempt db_now e m \<longleftrightarrow>
     (\<exists>x. m = raise x) \<or>
     (\<exists>outcome detail. m = record_attempt db_now e outcome detail None False \<and>
        outcome \<in> {REJECTED_EXPIRED, REJECTED_TAMPERED, REJECTED_APPROVALS_MISSING,
          REJECTED_SAME_IDENTITY, REJECTED_FIELD_NOT_ALLOWED})"

lemma execute_gates_shut:
  assumes "\<not> executor_gates rt configured secret now e approvals"
  shows "rejected_attempt db_now e (execute rt configured secret now db_now e approvals ctx)"
proof -
  consider x where "verify_envelope rt configured secret now e = Inl x"
    | x where "verify_envelope rt configured secret now e = Inr ()"
        "require_valid_approvals e approvals = Inl x"
    | "verify_envelope rt configured secret now e = Inr ()"
        "require_valid_approvals e approvals = Inr ()" "ae_field_path e \<notin> set ALLOWED_PROPOSED_FIELDS"
    using assms unfolding executor_gates_def
    by (cases "verify_envelope rt configured secret now e"; cases "require_valid_approvals e approvals")
      (simp_all add: unit_all_eq1)
  then show ?thesis
  proof cases
    case 1
    then show ?thesis by (cases x) (auto simp: execute_def rejected_attempt_def)
  next
    case 2
    then show ?thesis by (cases x) (auto simp: execute_def rejected_attempt_def)
  next
    case 3
    then show ?thesis by (auto simp: execute_def rejected_attempt_def)
  qed
qed

lemma report_outcome_record:
  obtains outcome detail rb' where
    "report_outcome db_now ctx e (oc, rb) = record_attempt db_now e outcome detail rb' (oc = APPLIED)"
    "outcome = SUCCESS \<longleftrightarrow> oc = APPLIED"
  by (cases oc) (auto simp: report_outcome_def)

lemma report_outcome_Inr:
  assumes "report_outcome db_now ctx e (oc, rb) db = (Inr res, db')"
  shows "er_applied res \<longleftrightarrow> oc = APPLIED"
    and "er_outcome res = SUCCESS \<longleftrightarrow> oc = APPLIED"
    and "\<exists>row. db' = logged row db \<and> ex_case_id row = ae_case_id e \<and>
           ex_idempotency_key row = ae_idempotency_key e \<and>
           ex_outcome row = er_outcome res \<and> ex_applied row = er_applied res"
proof -
  obtain outcome detail rb' where
    o: "report_outcome db_now ctx e (oc, rb) = record_attempt db_now e outcome detail rb' (oc = APPLIED)"
      "outcome = SUCCESS \<longleftrightarrow> oc = APPLIED"
    by (rule report_outcome_record)
  from record_attempt_Inr [OF assms [unfolded o(1)]] o(2)
  show "er_applied res \<longleftrightarrow> oc = APPLIED" "er_outcome res = SUCCESS \<longleftrightarrow> oc = APPLIED"
    "\<exists>row. db' = logged row db \<and> ex_case_id row = ae_case_id e \<and>
       ex_idempotency_key row = ae_idempotency_key e \<and>
       ex_outcome row = er_outcome res \<and> ex_applied row = er_applied res"
    by simp_all
qed

lemma report_outcome_Inl:
  assumes "report_outcome db_now ctx e r db = (Inl x, db')"
  shows "db' = db \<and> ae_case_id e \<notin> set (case_ids db)"
proof -
  obtain outcome detail rb' where
    "report_outcome db_now ctx e r = record_attempt db_now e outcome detail rb' (fst r = APPLIED)"
    by (cases r) (metis report_outcome_record fst_conv)
  with assms show ?thesis using record_attempt_Inl by metis
qed

lemma rejected_attempt_unapplied:
  assumes "rejected_attempt db_now e m" and "m db = (Inr res, db')"
  shows "\<not> er_applied res" and "er_outcome res \<noteq> SUCCESS"
    and "\<exists>row. db' = logged row db \<and> ex_case_id row = ae_case_id e \<and>
           ex_idempotency_key row = ae_idempotency_key e \<and>
           ex_outcome row = er_outcome res \<and> ex_applied row = er_applied res"
proof -
  from assms obtain outcome detail where
    m: "record_attempt db_now e outcome detail None False db = (Inr res, db')"
    and o: "outcome \<noteq> SUCCESS"
    unfolding rejected_attempt_def by auto
  from record_attempt_Inr [OF m] o show "\<not> er_applied res" "er_outcome res \<noteq> SUCCESS"
    "\<exists>row. db' = logged row db \<and> ex_case_id row = ae_case_id e \<and>
       ex_idempotency_key row = ae_idempotency_key e \<and>
       ex_outcome row = er_outcome res \<and> ex_applied row = er_applied res"
    by simp_all
qed

text \<open>A successful execution passed every gate and was applied by the boundary.\<close>

lemma execute_applied_D:
  assumes "execute rt configured secret now db_now e approvals ctx db = (Inr res, db')"
    and "er_applied res"
  obtains v mid row where
    "executor_gates rt configured secret now e approvals"
    "adapter_apply db_now (envelope_key e) (ae_approved_value e) (ae_expected_old_value e)
       (ae_idempotency_key e) db = (Inr (APPLIED, v), mid)"
    "db' = logged row mid" "ex_case_id row = ae_case_id e"
    "ex_idempotency_key row = ae_idempotency_key e" "ex_applied row" "ex_outcome row = SUCCESS"
    "er_outcome res = SUCCESS"
proof -
  have g: "executor_gates rt configured secret now e approvals"
  proof (rule ccontr)
    assume "\<not> ?thesis"
    from rejected_attempt_unapplied(1) [OF execute_gates_shut [OF this] assms(1)] assms(2)
    show False by simp
  qed
  from assms(1) obtain oc rb mid where
    a: "adapter_apply db_now (envelope_key e) (ae_approved_value e) (ae_expected_old_value e)
       (ae_idempotency_key e) db = (Inr (oc, rb), mid)"
    and r: "report_outcome db_now ctx e (oc, rb) mid = (Inr res, db')"
    unfolding execute_gates_open [OF g] by (auto simp: result_simps)
  note rep = report_outcome_Inr [OF r]
  have "oc = APPLIED" "er_outcome res = SUCCESS" using rep(1,2) assms(2) by simp_all
  with that g a rep(3) assms(2) show thesis by metis
qed

lemma require_valid_approvals_Inr:
  "require_valid_approvals e approvals = Inr u \<longleftrightarrow>
     (\<exists>maker checker.
        approved_by_role approvals MAKER = Some maker \<and> approved_by_role approvals CHECKER = Some checker \<and>
        ap_approver_identity maker \<noteq> ap_approver_identity checker \<and>
        ap_approver_identity maker = ae_maker_identity e \<and>
        ap_approver_identity checker = ae_checker_identity e)"
  by (auto simp: require_valid_approvals_def split: option.splits)

lemma approved_by_role_Some:
  "approved_by_role approvals role = Some a \<Longrightarrow>
   a \<in> set approvals \<and> ap_role a = role \<and> ap_decision a = APPROVE"
  unfolding approved_by_role_def by (drule find_Some_D) simp

text \<open>
  What an execution can change at all: legacy records and one appended execution row, which
  says \<open>applied\<close> only when every gate was open.
\<close>

definition attempt_row ::
    "runtime \<Rightarrow> string \<Rightarrow> string option \<Rightarrow> datetime \<Rightarrow> ActionEnvelope \<Rightarrow> Approval list \<Rightarrow> execution_row \<Rightarrow> bool" where
  "attempt_row rt configured secret now e approvals row \<longleftrightarrow>
     ex_case_id row = ae_case_id e \<and> ex_idempotency_key row = ae_idempotency_key e \<and>
     (ex_applied row \<longrightarrow> executor_gates rt configured secret now e approvals \<and> ex_outcome row = SUCCESS)"

lemma adapter_apply_effect:
  "adapter_apply db_now k a x i db = (r, db') \<Longrightarrow> \<exists>lb. db' = db\<lparr>legacy_booking_records := lb\<rparr>"
  by (auto simp: adapter_apply_def apply_legacy_booking_correction_def Let_def
      split: option.splits if_splits)
    (metis remediation_db.surjective remediation_db.update_convs(1))+

lemma execute_effect:
  assumes "execute rt configured secret now db_now e approvals ctx db = (r, db')"
  obtains lb rows where
    "db' = db\<lparr>legacy_booking_records := lb,
       remediation_executions := remediation_executions db @ rows\<rparr>"
    "\<forall>row \<in> set rows. attempt_row rt configured secret now e approvals row"
    "length rows \<le> 1"
proof (cases "executor_gates rt configured secret now e approvals")
  case True
  show thesis
  proof (cases "adapter_apply db_now (envelope_key e) (ae_approved_value e) (ae_expected_old_value e)
      (ae_idempotency_key e) db")
    case (Pair ar mid)
    obtain lb where lb: "mid = db\<lparr>legacy_booking_records := lb\<rparr>"
      using adapter_apply_effect [OF Pair] by blast
    show thesis
    proof (cases ar)
      case (Inl x)
      with assms Pair have "db' = mid" by (simp add: execute_gates_open [OF True] andthen_def)
      with lb that [of "[]" lb] show thesis by simp
    next
      case (Inr orb)
      obtain oc rb where o: "orb = (oc, rb)" by (cases orb)
      from assms Pair Inr o have rep: "report_outcome db_now ctx e (oc, rb) mid = (r, db')"
        by (simp add: execute_gates_open [OF True] andthen_def)
      show thesis
      proof (cases r)
        case (Inl x)
        with rep report_outcome_Inl have "db' = mid" by blast
        with lb that [of "[]" lb] show thesis by simp
      next
        case (Inr res)
        note R = report_outcome_Inr [OF rep [unfolded Inr]]
        then obtain row where row: "db' = logged row mid" "attempt_row rt configured secret now e approvals row"
          using True by (auto simp: attempt_row_def)
        with lb that [of "[row]" lb] show thesis by (simp add: logged_def)
      qed
    qed
  qed
next
  case False
  note shut = execute_gates_shut [OF False, of db_now ctx]
  show thesis
  proof (cases r)
    case (Inl x)
    with assms shut have "db' = db"
      by (auto simp: rejected_attempt_def dest: record_attempt_Inl)
    with that [of "[]" "legacy_booking_records db"] show thesis by simp
  next
    case (Inr res)
    note R = rejected_attempt_unapplied [OF shut assms [unfolded Inr]]
    then obtain row where "db' = logged row db" "attempt_row rt configured secret now e approvals row"
      by (auto simp: attempt_row_def)
    with that [of "[row]" "legacy_booking_records db"] show thesis by (simp add: logged_def)
  qed
qed

section \<open>Properties\<close>

lemma apply_at_boundary:
  assumes "adapter_apply db_now k a x i db = (Inr (oc, rb), mid)"
  shows "oc = APPLIED \<longleftrightarrow> legacy_value db k = Some x \<and> legacy_last_key db k \<noteq> Some i"
  using assms
  by (auto simp: adapter_apply_def apply_legacy_booking_correction_def Let_def legacy_value_def
      legacy_last_key_def split: option.splits if_splits)

lemma logged_legacy [simp]:
  "legacy_value (logged row db) = legacy_value db" "legacy_last_key (logged row db) = legacy_last_key db"
  "legacy_booking_records (logged row db) = legacy_booking_records db"
  by (simp_all add: logged_def legacy_value_def legacy_last_key_def fun_eq_iff)

text \<open>C2: an execution attempt that returns was applied exactly when the envelope verified, a
  maker and a checker with different identities matching the envelope approved, the field is
  on the allow-list, the record held the expected old value and was not last written under
  this idempotency key; and then the record, and no other one, holds the approved value.\<close>

theorem execute_applied_iff:
  assumes "execute rt configured secret now db_now e approvals ctx db = (Inr res, db')"
  shows "(er_applied res \<longleftrightarrow>
      verify_envelope rt configured secret now e = Inr () \<and>
      require_valid_approvals e approvals = Inr () \<and>
      ae_field_path e = ''/payload/base_amount'' \<and>
      legacy_value db (envelope_key e) = Some (ae_expected_old_value e) \<and>
      legacy_last_key db (envelope_key e) \<noteq> Some (ae_idempotency_key e)) \<and>
    legacy_value db' = (if er_applied res
      then (legacy_value db)(envelope_key e \<mapsto> ae_approved_value e) else legacy_value db)"
proof -
  have "(er_applied res \<longleftrightarrow> executor_gates rt configured secret now e approvals \<and>
      legacy_value db (envelope_key e) = Some (ae_expected_old_value e) \<and>
      legacy_last_key db (envelope_key e) \<noteq> Some (ae_idempotency_key e)) \<and>
    legacy_value db' = (if er_applied res
      then (legacy_value db)(envelope_key e \<mapsto> ae_approved_value e) else legacy_value db)"
  proof (cases "executor_gates rt configured secret now e approvals")
    case False
    note R = rejected_attempt_unapplied [OF execute_gates_shut [OF False] assms]
    from R(3) obtain row where "db' = logged row db" by blast
    with False R(1) show ?thesis by simp
  next
    case gates: True
    from assms obtain oc rb mid where
      a: "adapter_apply db_now (envelope_key e) (ae_approved_value e) (ae_expected_old_value e)
         (ae_idempotency_key e) db = (Inr (oc, rb), mid)"
      and r: "report_outcome db_now ctx e (oc, rb) mid = (Inr res, db')"
      unfolding execute_gates_open [OF gates] by (auto simp: result_simps)
    note rep = report_outcome_Inr [OF r]
    from rep(3) obtain row where db': "db' = logged row mid" by blast
    show ?thesis
    proof (cases "oc = APPLIED")
      case True
      with a legacy.applied_D(4) have "legacy_value mid = (legacy_value db)(envelope_key e \<mapsto> ae_approved_value e)"
        by blast
      with True rep(1) apply_at_boundary [OF a] gates db'
      show ?thesis by simp
    next
      case False
      with a legacy.not_applied_unchanged [of db_now "envelope_key e"] have "mid = db" by blast
      with False rep(1) apply_at_boundary [OF a] db' gates show ?thesis by auto
    qed
  qed
  then show ?thesis
    by (simp add: executor_gates_def ALLOWED_PROPOSED_FIELDS_def conj_assoc)
qed

text \<open>A concrete case, its two approvals and the booking record it corrects.\<close>

definition sample_case :: case_row where
  "sample_case = \<lparr>
     cr_case_id = sample_case_id, cr_break_id = ''break_0001'', cr_run_id = ''run_0001'',
     cr_trade_id = ''trade_0001'', cr_tenant_id = ''tenant_demo'', cr_portfolio_id = ''portfolio_1'',
     cr_product_type = ''FX_SPOT'', cr_ai_provider = ''deterministic-test'',
     cr_break_facts = sample_facts, cr_ai_recommendation = sample_recommendation,
     cr_policy_decision = evaluate sample_index sample_recommendation sample_facts,
     cr_created_at = sample_now\<rparr>"

definition sample_record :: legacy_booking_record where
  "sample_record = \<lparr>
     lb_base_amount_value = ''1019000.00'', lb_base_amount_currency = ''EUR'', lb_base_amount_scale = 2,
     lb_source_observation_id = ''obs_1'', lb_booking_version = 1,
     lb_last_applied_idempotency_key = None, lb_updated_at = sample_now\<rparr>"

definition sample_key :: legacy_key where
  "sample_key = (''tenant_demo'', ''portfolio_1'', ''trade_0001'')"

definition sample_db :: remediation_db where
  "sample_db = \<lparr>
     legacy_booking_records = [sample_key \<mapsto> sample_record],
     remediation_cases = [sample_case], remediation_approvals = [], remediation_envelopes = [],
     remediation_executions = [], remediation_evidence = []\<rparr>"

definition sample_approval :: "ApprovalRole \<Rightarrow> string \<Rightarrow> Approval" where
  "sample_approval role identity = \<lparr>ap_role = role, ap_approver_identity = identity,
     ap_decision = APPROVE, ap_decided_at = sample_now, ap_approved_recommendation_hash = ''h''\<rparr>"

definition sample_approvals :: "Approval list" where
  "sample_approvals = [sample_approval CHECKER ''bo'', sample_approval MAKER ''ana'']"

lemma sample_envelope_fields:
  "ae_case_id sample_envelope = sample_case_id" "ae_maker_identity sample_envelope = ''ana''"
  "ae_checker_identity sample_envelope = ''bo''" "ae_field_path sample_envelope = ''/payload/base_amount''"
  "ae_approved_value sample_envelope = ''1000000.00''" "ae_expected_old_value sample_envelope = ''1019000.00''"
  "ae_idempotency_key sample_envelope = (''idem_'' @ sample_case_id)" "envelope_key sample_envelope = sample_key"
  by (simp_all add: sample_envelope_def signed_with_def draft_envelope_def mk_ActionEnvelope_def
      sample_request_def py_strip_def is_space_def envelope_key_def sample_key_def sample_case_id_def)

lemma sample_approvals_valid: "require_valid_approvals sample_envelope sample_approvals = Inr ()"
  by (simp add: require_valid_approvals_def approved_by_role_def sample_approvals_def
      sample_approval_def sample_envelope_fields)

lemma sample_gates:
  "executor_gates plain_runtime [] (Some ''secret'') sample_now sample_envelope sample_approvals"
  by (simp add: executor_gates_def sample_verified sample_approvals_valid sample_envelope_fields
      ALLOWED_PROPOSED_FIELDS_def)

definition sample_result :: ExecutionResult where
  "sample_result = \<lparr>er_outcome = SUCCESS, er_detail = ''legacy booking record corrected'',
     er_read_back_value = Some ''1000000.00'', er_applied = True\<rparr>"

definition sample_applied_db :: remediation_db where
  "sample_applied_db = sample_db\<lparr>
     legacy_booking_records := [sample_key \<mapsto> sample_record\<lparr>
       lb_base_amount_value := ''1000000.00'', lb_booking_version := 2,
       lb_last_applied_idempotency_key := Some (''idem_'' @ sample_case_id)\<rparr>],
     remediation_executions := [\<lparr>ex_case_id = sample_case_id, ex_idempotency_key = (''idem_'' @ sample_case_id),
       ex_outcome = SUCCESS, ex_detail = ''legacy booking record corrected'',
       ex_read_back_value = Some ''1000000.00'', ex_applied = True, ex_attempted_at = sample_now\<rparr>]\<rparr>"

lemma sample_execution:
  "execute plain_runtime [] (Some ''secret'') sample_now sample_now sample_envelope sample_approvals ctx sample_db =
     (Inr sample_result, sample_applied_db)"
  by (simp add: execute_gates_open [OF sample_gates] sample_envelope_fields andthen_def adapter_apply_def
      apply_legacy_booking_correction_def report_outcome_def record_attempt_def insert_execution_def
      sample_db_def sample_record_def sample_case_def case_ids_def sample_result_def sample_applied_db_def
      py_strip_def is_space_def)

theorem execute_applied_iff_witness:
  "er_applied sample_result \<and>
   legacy_value sample_applied_db = (legacy_value sample_db)(sample_key \<mapsto> ''1000000.00'')"
  using execute_applied_iff [OF sample_execution] by (simp add: sample_envelope_fields sample_result_def)

text \<open>C28: an attempt that returns leaves exactly one execution row, which says what was returned,
  and touches nothing else but, when applied, the record the envelope names.\<close>

theorem execute_leaves_one_row:
  assumes "execute rt configured secret now db_now e approvals ctx db = (Inr res, db')"
  shows "\<exists>row lb. db' = db\<lparr>legacy_booking_records := lb,
      remediation_executions := remediation_executions db @ [row]\<rparr> \<and>
    ex_case_id row = ae_case_id e \<and> ex_idempotency_key row = ae_idempotency_key e \<and>
    ex_outcome row = er_outcome res \<and> ex_applied row = er_applied res \<and>
    (\<forall>k. k = envelope_key e \<and> er_applied res \<or> lb k = legacy_booking_records db k)"
proof (cases "executor_gates rt configured secret now e approvals")
  case False
  from rejected_attempt_unapplied [OF execute_gates_shut [OF False] assms]
  obtain row where "db' = logged row db" "ex_case_id row = ae_case_id e"
    "ex_idempotency_key row = ae_idempotency_key e" "ex_outcome row = er_outcome res"
    "ex_applied row = er_applied res" by blast
  then show ?thesis
    by (intro exI [of _ row] exI [of _ "legacy_booking_records db"]) (simp add: logged_def)
next
  case True
  from assms obtain oc rb mid where
    a: "adapter_apply db_now (envelope_key e) (ae_approved_value e) (ae_expected_old_value e)
       (ae_idempotency_key e) db = (Inr (oc, rb), mid)"
    and r: "report_outcome db_now ctx e (oc, rb) mid = (Inr res, db')"
    unfolding execute_gates_open [OF True] by (auto simp: result_simps)
  from report_outcome_Inr [OF r] obtain row where row: "db' = logged row mid" "ex_case_id row = ae_case_id e"
    "ex_idempotency_key row = ae_idempotency_key e" "ex_outcome row = er_outcome res"
    "ex_applied row = er_applied res" and oc: "er_applied res \<longleftrightarrow> oc = APPLIED" by blast
  obtain lb where lb: "mid = db\<lparr>legacy_booking_records := lb\<rparr>" using adapter_apply_effect [OF a] by blast
  have "k = envelope_key e \<and> er_applied res \<or> legacy_booking_records mid k = legacy_booking_records db k" for k
    using a oc
    by (auto simp: adapter_apply_def apply_legacy_booking_correction_def Let_def
        split: option.splits if_splits)
  then have frame: "k = envelope_key e \<and> er_applied res \<or> lb k = legacy_booking_records db k" for k
    by (simp add: lb)
  have "db' = db\<lparr>legacy_booking_records := lb, remediation_executions := remediation_executions db @ [row]\<rparr>"
    using row(1) lb by (simp add: logged_def)
  with row(2-5) frame show ?thesis by blast
qed

theorem execute_leaves_one_row_witness:
  "\<exists>row lb. sample_applied_db = sample_db\<lparr>legacy_booking_records := lb,
      remediation_executions := remediation_executions sample_db @ [row]\<rparr> \<and>
    ex_case_id row = sample_case_id \<and> ex_outcome row = SUCCESS \<and> ex_applied row"
  using execute_leaves_one_row [OF sample_execution]
  by (auto simp: sample_envelope_fields sample_result_def)

text \<open>Attempts write the record that they name, and not even that under the key it was last written with.\<close>

lemma record_attempt_legacy:
  "record_attempt db_now e outcome detail rb applied db = (r, db') \<Longrightarrow>
   legacy_booking_records db' = legacy_booking_records db"
  by (auto simp: record_attempt_def insert_execution_def andthen_def split: if_splits)

lemma rejected_attempt_legacy:
  "rejected_attempt db_now e m \<Longrightarrow> m db = (r, db') \<Longrightarrow> legacy_booking_records db' = legacy_booking_records db"
  by (auto simp: rejected_attempt_def dest: record_attempt_legacy)

lemma report_outcome_legacy:
  "report_outcome db_now ctx e (oc, rb) db = (r, db') \<Longrightarrow> legacy_booking_records db' = legacy_booking_records db"
  by (cases oc) (auto simp: report_outcome_def dest: record_attempt_legacy)

lemma execute_legacy:
  assumes "execute rt configured secret now db_now e approvals ctx db = (r, db')"
  obtains "legacy_booking_records db' = legacy_booking_records db"
  | ar mid where "adapter_apply db_now (envelope_key e) (ae_approved_value e) (ae_expected_old_value e)
       (ae_idempotency_key e) db = (ar, mid)" "legacy_booking_records db' = legacy_booking_records mid"
proof (cases "executor_gates rt configured secret now e approvals")
  case False
  then show thesis using that(1) rejected_attempt_legacy [OF execute_gates_shut [OF False] assms] by blast
next
  case True
  obtain ar mid where a: "adapter_apply db_now (envelope_key e) (ae_approved_value e) (ae_expected_old_value e)
      (ae_idempotency_key e) db = (ar, mid)" by (cases "adapter_apply db_now (envelope_key e) (ae_approved_value e)
      (ae_expected_old_value e) (ae_idempotency_key e) db")
  have "legacy_booking_records db' = legacy_booking_records mid"
    using assms unfolding execute_gates_open [OF True]
    by (cases ar) (auto simp: andthen_def a dest: report_outcome_legacy)
  then show thesis using that(2) a by blast
qed

lemma execute_other_record:
  assumes "execute rt configured secret now db_now e approvals ctx db = (r, db')" and "k \<noteq> envelope_key e"
  shows "legacy_booking_records db' k = legacy_booking_records db k"
  using assms(1)
  by (rule execute_legacy)
    (use assms(2) in \<open>auto simp: adapter_apply_def apply_legacy_booking_correction_def Let_def split: option.splits if_splits\<close>)

lemma execute_known_key:
  assumes "execute rt configured secret now db_now e approvals ctx db = (r, db')"
    and "legacy_last_key db (envelope_key e) = Some (ae_idempotency_key e)"
  shows "legacy_booking_records db' = legacy_booking_records db"
  using assms(1)
  by (rule execute_legacy)
    (use assms(2) in \<open>auto simp: adapter_apply_def apply_legacy_booking_correction_def legacy_last_key_def Let_def
      split: option.splits if_splits\<close>)

text \<open>
  What may happen between an execution and its repetition: executions under the same idempotency key, whatever they
  try to write, executions on any other record, and any operation that does not write this record. Excluded is only a
  correction of this record under another key.
\<close>

inductive meanwhile :: "runtime \<Rightarrow> ActionEnvelope \<Rightarrow> remediation_db \<Rightarrow> remediation_db \<Rightarrow> bool"
  for rt e db where
  nothing_yet: "meanwhile rt e db db"
| attempt: "meanwhile rt e db d1 \<Longrightarrow> execute rt configured secret now db_now f approvals ctx d1 = (r, d2) \<Longrightarrow>
    ae_idempotency_key f = ae_idempotency_key e \<or> envelope_key f \<noteq> envelope_key e \<Longrightarrow> meanwhile rt e db d2"
| elsewhere: "meanwhile rt e db d1 \<Longrightarrow>
    legacy_booking_records d2 (envelope_key e) = legacy_booking_records d1 (envelope_key e) \<Longrightarrow> meanwhile rt e db d2"

lemma meanwhile_record:
  assumes "meanwhile rt e db db'" and "legacy_last_key db (envelope_key e) = Some (ae_idempotency_key e)"
  shows "legacy_booking_records db' (envelope_key e) = legacy_booking_records db (envelope_key e)"
  using assms(1)
proof induction
  case (attempt d1 configured secret now db_now f approvals ctx r d2)
  show ?case
  proof (cases "envelope_key f = envelope_key e")
    case True
    then have "legacy_last_key d1 (envelope_key f) = Some (ae_idempotency_key f)"
      using attempt.IH attempt.hyps(3) assms(2) by (simp add: legacy_last_key_def)
    from execute_known_key [OF attempt.hyps(2) this] show ?thesis using attempt.IH by simp
  next
    case False
    then have "envelope_key e \<noteq> envelope_key f" by simp
    from execute_other_record [OF attempt.hyps(2) this] show ?thesis using attempt.IH by simp
  qed
qed simp_all

text \<open>C22: once an envelope has been applied, executing it again, at any later time, in any context and whatever has been
  executed in between, never writes the booking record a second time, unless another correction of that record was
  applied in the meantime: the record keeps the value and the version that the first execution gave it, and no other
  record changes. While the gates are open the repetition is reported as a duplicate (or recovered timeout) and reads
  back the approved value; with a gate shut, as after the expiry of the envelope, it is reported as rejected.\<close>

theorem execute_replay_is_noop:
  assumes "execute rt configured secret now db_now e approvals ctx db = (Inr res, db1)" and "er_applied res"
    and "meanwhile rt e db1 db2"
    and "execute rt configured' secret' now' db_now' e approvals' ctx' db2 = (r, db3)"
  shows "legacy_booking_records db3 = legacy_booking_records db2 \<and>
    legacy_booking_records db3 (envelope_key e) = legacy_booking_records db1 (envelope_key e) \<and>
    (case r of Inl x \<Rightarrow> True | Inr res' \<Rightarrow> \<not> er_applied res' \<and>
      (if executor_gates rt configured' secret' now' e approvals'
       then er_outcome res' = (if ctx' = TIMEOUT_RECOVERY_ATTEMPT then TIMEOUT_RECOVERED else DUPLICATE_NOOP) \<and>
         er_read_back_value res' = Some (py_strip (ae_approved_value e))
       else er_outcome res' \<in> {REJECTED_EXPIRED, REJECTED_TAMPERED, REJECTED_APPROVALS_MISSING,
         REJECTED_SAME_IDENTITY, REJECTED_FIELD_NOT_ALLOWED}))"
proof -
  from assms(1,2) obtain v mid row where
    a: "adapter_apply db_now (envelope_key e) (ae_approved_value e) (ae_expected_old_value e)
       (ae_idempotency_key e) db = (Inr (APPLIED, v), mid)" and db1: "db1 = logged row mid"
    by (rule execute_applied_D)
  note D = legacy.applied_D [OF a]
  have keep1: "legacy_value db1 (envelope_key e) = Some (ae_approved_value e)"
    "legacy_last_key db1 (envelope_key e) = Some (ae_idempotency_key e)"
    using D(4,5) by (simp_all add: db1)
  have same: "legacy_booking_records db2 (envelope_key e) = legacy_booking_records db1 (envelope_key e)"
    by (rule meanwhile_record [OF assms(3) keep1(2)])
  have keep: "legacy_value db2 (envelope_key e) = Some (ae_approved_value e)"
    "legacy_last_key db2 (envelope_key e) = Some (ae_idempotency_key e)"
    using keep1 by (simp_all add: legacy_value_def legacy_last_key_def same)
  have unchanged: "legacy_booking_records db3 = legacy_booking_records db2"
    by (rule execute_known_key [OF assms(4) keep(2)])
  show ?thesis
  proof (cases r)
    case (Inr res')
    note run = assms(4) [unfolded Inr]
    show ?thesis
    proof (cases "executor_gates rt configured' secret' now' e approvals'")
      case False
      from run execute_gates_shut [OF False, of db_now' ctx'] have "\<not> er_applied res' \<and>
          er_outcome res' \<in> {REJECTED_EXPIRED, REJECTED_TAMPERED, REJECTED_APPROVALS_MISSING,
            REJECTED_SAME_IDENTITY, REJECTED_FIELD_NOT_ALLOWED}"
        by (auto simp: rejected_attempt_def dest: record_attempt_Inr(1,2))
      then show ?thesis using unchanged same False by (simp add: Inr)
    next
      case True
      from run have "report_outcome db_now' ctx' e (BOOKING_DUPLICATE_NOOP, Some (ae_approved_value e)) db2 = (Inr res', db3)"
        by (simp add: execute_gates_open [OF True] andthen_def legacy.replay [OF keep])
      then have rec: "record_attempt db_now' e (if ctx' = TIMEOUT_RECOVERY_ATTEMPT then TIMEOUT_RECOVERED else DUPLICATE_NOOP)
          ''idempotency_key already applied; read-back confirms no second side effect''
          (Some (ae_approved_value e)) False db2 = (Inr res', db3)"
        by (simp add: report_outcome_def)
      from record_attempt_Inr(1-3) [OF rec] show ?thesis using unchanged same True by (simp add: Inr)
    qed
  qed (use unchanged same in simp)
qed

theorem execute_replay_is_noop_witness:
  "\<exists>res' db''. execute plain_runtime [] (Some ''secret'') sample_now sample_now sample_envelope sample_approvals
     TIMEOUT_RECOVERY_ATTEMPT sample_applied_db = (Inr res', db'') \<and>
   \<not> er_applied res' \<and> er_outcome res' = TIMEOUT_RECOVERED \<and>
   er_read_back_value res' = Some ''1000000.00'' \<and>
   legacy_booking_records db'' = legacy_booking_records sample_applied_db"
proof -
  have "\<exists>res' db''. execute plain_runtime [] (Some ''secret'') sample_now sample_now sample_envelope sample_approvals
     TIMEOUT_RECOVERY_ATTEMPT sample_applied_db = (Inr res', db'')"
    by (simp add: execute_gates_open [OF sample_gates] sample_envelope_fields andthen_def adapter_apply_def
        apply_legacy_booking_correction_def report_outcome_def record_attempt_def insert_execution_def
        sample_db_def sample_record_def sample_case_def case_ids_def sample_applied_db_def)
  then obtain res' db'' where run: "execute plain_runtime [] (Some ''secret'') sample_now sample_now
     sample_envelope sample_approvals TIMEOUT_RECOVERY_ATTEMPT sample_applied_db = (Inr res', db'')" by blast
  have "er_applied sample_result" by (simp add: sample_result_def)
  from execute_replay_is_noop [OF sample_execution this meanwhile.nothing_yet run] sample_gates run show ?thesis
    by (auto simp: sample_envelope_fields py_strip_def is_space_def)
qed

text \<open>The outcome behind a verified envelope.\<close>

lemma boundary_outcome:
  assumes "report_outcome db_now ctx e (oc, rb) mid = (Inr res, db')"
  shows "er_outcome res = (case oc of APPLIED \<Rightarrow> SUCCESS
     | BOOKING_DUPLICATE_NOOP \<Rightarrow> (if ctx = TIMEOUT_RECOVERY_ATTEMPT then TIMEOUT_RECOVERED else DUPLICATE_NOOP)
     | VALUE_MISMATCH \<Rightarrow> REJECTED_VALUE_MISMATCH | NOT_FOUND \<Rightarrow> REJECTED_VALUE_MISMATCH)"
  using assms record_attempt_Inr(1) unfolding report_outcome_def prod.case
  by (cases oc; simp only: BookingApplyOutcome.case; blast)

lemma verified_outcome:
  assumes v: "verify_envelope rt configured secret now e = Inr ()"
    and run: "execute rt configured secret now db_now e approvals ctx db = (Inr res, db')"
  shows "er_outcome res =
    (if approved_by_role approvals MAKER = None \<or> approved_by_role approvals CHECKER = None
       then REJECTED_APPROVALS_MISSING
     else if require_valid_approvals e approvals \<noteq> Inr () then REJECTED_SAME_IDENTITY
     else if ae_field_path e \<noteq> ''/payload/base_amount'' then REJECTED_FIELD_NOT_ALLOWED
     else (case legacy_value db (envelope_key e) of
         None \<Rightarrow> REJECTED_VALUE_MISMATCH
       | Some v \<Rightarrow>
           if legacy_last_key db (envelope_key e) = Some (ae_idempotency_key e)
             then (if ctx = TIMEOUT_RECOVERY_ATTEMPT then TIMEOUT_RECOVERED else DUPLICATE_NOOP)
           else if v \<noteq> ae_expected_old_value e then REJECTED_VALUE_MISMATCH
           else SUCCESS))"
proof (cases "require_valid_approvals e approvals")
  case (Inl x)
  show ?thesis
  proof (cases "approved_by_role approvals MAKER = None \<or> approved_by_role approvals CHECKER = None")
    case True
    then have "require_valid_approvals e approvals = Inl (ApprovalsIncompleteError
        ''both a MAKER and a CHECKER APPROVE decision are required to execute'')"
      by (auto simp: require_valid_approvals_def split: option.splits)
    with run record_attempt_Inr(1) True show ?thesis
      unfolding execute_def v sum.case by (simp; blast)
  next
    case False
    then obtain msg where "require_valid_approvals e approvals = Inl (SameIdentityError msg)"
      using Inl by (auto simp: require_valid_approvals_def split: option.splits if_splits)
    with run record_attempt_Inr(1) False show ?thesis
      unfolding execute_def v sum.case by (simp; blast)
  qed
next
  case (Inr u)
  then have both: "approved_by_role approvals MAKER \<noteq> None" "approved_by_role approvals CHECKER \<noteq> None"
    by (auto simp: require_valid_approvals_Inr)
  show ?thesis
  proof (cases "ae_field_path e = ''/payload/base_amount''")
    case False
    with run record_attempt_Inr(1) Inr both show ?thesis
      unfolding execute_def v sum.case by (simp add: ALLOWED_PROPOSED_FIELDS_def; blast)
  next
    case True
    then have gates: "executor_gates rt configured secret now e approvals"
      using v Inr by (simp add: executor_gates_def ALLOWED_PROPOSED_FIELDS_def)
    from run obtain oc rb mid where
      a: "adapter_apply db_now (envelope_key e) (ae_approved_value e) (ae_expected_old_value e)
         (ae_idempotency_key e) db = (Inr (oc, rb), mid)"
      and r: "report_outcome db_now ctx e (oc, rb) mid = (Inr res, db')"
      unfolding execute_gates_open [OF gates] by (auto simp: result_simps)
    from boundary_outcome [OF r] a both True Inr show ?thesis
      by (auto simp: adapter_apply_def apply_legacy_booking_correction_def Let_def legacy_value_def
          legacy_last_key_def split: option.splits if_splits)
  qed
qed

text \<open>C27: the outcome of an attempt that returns is the first failing check in a fixed order:
  content hash, signature, expiry, missing approvals, identities, allow-list, and then what
  the booking record says.\<close>

theorem execute_outcome_order:
  assumes "execute rt configured secret now db_now e approvals ctx db = (Inr res, db')"
    and "signing_secret configured secret = Inr key" and "is_ascii (hmac_sha256_hexdigest rt key (ae_content_hash e))"
    and "is_ascii (ae_signature e)" and "aware now" and "aware (ae_expires_at e)"
  shows "er_outcome res =
    (if content_hash_of rt e \<noteq> ae_content_hash e \<or>
        hmac_sha256_hexdigest rt key (ae_content_hash e) \<noteq> ae_signature e then REJECTED_TAMPERED
     else if instant (ae_expires_at e) \<le> instant now then REJECTED_EXPIRED
     else if approved_by_role approvals MAKER = None \<or> approved_by_role approvals CHECKER = None
       then REJECTED_APPROVALS_MISSING
     else if require_valid_approvals e approvals \<noteq> Inr () then REJECTED_SAME_IDENTITY
     else if ae_field_path e \<noteq> ''/payload/base_amount'' then REJECTED_FIELD_NOT_ALLOWED
     else (case legacy_value db (envelope_key e) of
         None \<Rightarrow> REJECTED_VALUE_MISMATCH
       | Some v \<Rightarrow>
           if legacy_last_key db (envelope_key e) = Some (ae_idempotency_key e)
             then (if ctx = TIMEOUT_RECOVERY_ATTEMPT then TIMEOUT_RECOVERED else DUPLICATE_NOOP)
           else if v \<noteq> ae_expected_old_value e then REJECTED_VALUE_MISMATCH
           else SUCCESS))"
proof -
  consider (content) "content_hash_of rt e \<noteq> ae_content_hash e"
    | (signature) "content_hash_of rt e = ae_content_hash e"
        "hmac_sha256_hexdigest rt key (ae_content_hash e) \<noteq> ae_signature e"
    | (expired) "content_hash_of rt e = ae_content_hash e"
        "hmac_sha256_hexdigest rt key (ae_content_hash e) = ae_signature e"
        "instant (ae_expires_at e) \<le> instant now"
    | (live) "content_hash_of rt e = ae_content_hash e"
        "hmac_sha256_hexdigest rt key (ae_content_hash e) = ae_signature e"
        "\<not> instant (ae_expires_at e) \<le> instant now"
    by blast
  then show ?thesis
  proof cases
    case content
    then have v: "verify_envelope rt configured secret now e =
        Inl (EnvelopeTamperedError ''envelope content does not match its content_hash'')"
      by (simp add: verify_envelope_def)
    from assms(1) record_attempt_Inr(1) have "er_outcome res = REJECTED_TAMPERED"
      unfolding execute_def v sum.case remediation_exn.case by blast
    with content show ?thesis by simp
  next
    case signature
    then have v: "verify_envelope rt configured secret now e =
        Inl (EnvelopeTamperedError ''envelope signature is invalid'')"
      using assms(2-4) by (simp add: verify_envelope_def sign_content_hash_def compare_digest_def)
    from assms(1) record_attempt_Inr(1) have "er_outcome res = REJECTED_TAMPERED"
      unfolding execute_def v sum.case remediation_exn.case by blast
    with signature show ?thesis by simp
  next
    case expired
    then have v: "verify_envelope rt configured secret now e =
        Inl (EnvelopeExpiredError (''envelope expired at '' @ isoformat (ae_expires_at e)))"
      using assms(2-6) by (simp add: verify_envelope_def sign_content_hash_def compare_digest_def)
    from assms(1) record_attempt_Inr(1) have "er_outcome res = REJECTED_EXPIRED"
      unfolding execute_def v sum.case remediation_exn.case by blast
    with expired show ?thesis by simp
  next
    case live
    then have v: "verify_envelope rt configured secret now e = Inr ()"
      using assms(2-6) by (simp add: verify_envelope_def sign_content_hash_def compare_digest_def)
    show ?thesis
      using live verified_outcome [OF v assms(1)] by simp
  qed
qed

theorem execute_outcome_order_witness:
  "er_outcome sample_result = SUCCESS"
proof -
  have "ae_content_hash sample_envelope = content_hash_of plain_runtime sample_envelope"
    "ae_signature sample_envelope = hmac_sha256_hexdigest plain_runtime ''secret'' (ae_content_hash sample_envelope)"
    unfolding sample_envelope_def by simp_all
  moreover have "aware sample_now" "aware (ae_expires_at sample_envelope)"
    "\<not> instant (ae_expires_at sample_envelope) \<le> instant sample_now"
    by (simp_all add: sample_expires_at) (simp_all add: sample_now_def sample_expires_def)
  ultimately show ?thesis
    using execute_outcome_order [OF sample_execution [of NORMAL], of "''secret''"] sample_approvals_valid
    by (simp add: signing_secret_def plain_hmac_ascii sample_envelope_fields approved_by_role_def
        sample_approvals_def sample_approval_def legacy_value_def legacy_last_key_def sample_db_def
        sample_record_def)
qed

section \<open>What the last applied key remembers\<close>

text \<open>
  The booking record remembers one idempotency key only. After a second correction of the
  same record restores the old value, the first one is applied once more: three applied
  attempts, two of them under one idempotency key.
\<close>

lemma key_forgotten_after_second_correction:
  "\<exists>d1 d2 d3.
     adapter_apply t sample_key ''1000000.00'' ''1019000.00'' ''idem_a'' sample_db = (Inr (APPLIED, Some ''1000000.00''), d1) \<and>
     adapter_apply t sample_key ''1019000.00'' ''1000000.00'' ''idem_b'' d1 = (Inr (APPLIED, Some ''1019000.00''), d2) \<and>
     adapter_apply t sample_key ''1000000.00'' ''1019000.00'' ''idem_a'' d2 = (Inr (APPLIED, Some ''1000000.00''), d3)"
  by (simp add: adapter_apply_def apply_legacy_booking_correction_def sample_db_def sample_record_def)

end
