(* ===== verification/Remediation_Api.thy ===== *)
theory Remediation_Api
  imports Remediation_Case Remediation_Executor
begin

text \<open>
  The remediation endpoints of \<open>apps/api/main.py\<close>. The world a request acts on is the
  remediation tables together with the product database; the two service calls that an
  applied correction makes on the latter (\<open>ingest_corrected_booking_observation\<close> and
  \<open>rerun_trade_reconciliation\<close>) are arguments, and every result below holds whatever they
  do. Requests may come in any order, with any provider, any clock and any configured
  secret: \<open>api_step\<close> and \<open>reachable\<close>.
\<close>

section \<open>World\<close>

record 'p world =
  w_db :: remediation_db
  w_product :: 'p

type_synonym ('p, 'a) request = "('p world, remediation_exn, 'a) call"

definition on_db :: "'a db_call \<Rightarrow> ('p, 'a) request" where
  "on_db m = (\<lambda>w. case m (w_db w) of (r, db) \<Rightarrow> (r, w\<lparr>w_db := db\<rparr>))"

definition on_product :: "('p, remediation_exn, 'a) call \<Rightarrow> ('p, 'a) request" where
  "on_product m = (\<lambda>w. case m (w_product w) of (r, p) \<Rightarrow> (r, w\<lparr>w_product := p\<rparr>))"

definition empty_db :: remediation_db where
  "empty_db = \<lparr>
     legacy_booking_records = Map.empty,
     remediation_cases = [],
     remediation_approvals = [],
     remediation_envelopes = [],
     remediation_executions = [],
     remediation_evidence = []\<rparr>"

section \<open>Endpoints\<close>

text \<open>\<open>str.strip()\<close>, which also removes the four separators from FS to US that pydantic keeps.\<close>

definition is_str_space :: "char \<Rightarrow> bool" where
  "is_str_space c \<longleftrightarrow> is_space c \<or> of_char c \<in> {28, 29, 30, 31 :: nat}"

definition str_strip :: "string \<Rightarrow> string" where
  "str_strip s = rev (dropWhile is_str_space (rev (dropWhile is_str_space s)))"

text \<open>\<open>configured\<close> is the \<open>TRADEOPS_API_KEY\<close> of the environment, empty when unset.\<close>

definition require_api_key :: "string \<Rightarrow> string option \<Rightarrow> remediation_exn + unit" where
  "require_api_key configured x_api_key = (
     let expected = str_strip configured in
     if expected = []
     then Inl (HTTPException 503 ''service is not configured for authenticated access'')
     else if no_text x_api_key \<or> x_api_key \<noteq> Some expected
     then Inl (HTTPException 401 ''invalid or missing API key'')
     else Inr ())"

fun create_case_error :: "remediation_exn \<Rightarrow> remediation_exn" where
  "create_case_error (BreakNotFoundError msg) = HTTPException 404 msg"
| "create_case_error (CaseNotEligibleError msg) = HTTPException 422 msg"
| "create_case_error e = e"

definition remediation_create_case ::
    "RunbookSection list \<Rightarrow> ai_provider \<Rightarrow> string \<Rightarrow> datetime \<Rightarrow> string \<Rightarrow>
     (string \<Rightarrow> break_row option) \<Rightarrow> (string \<Rightarrow> canonical_document option) \<Rightarrow> string \<Rightarrow>
     ('p, string \<times> AIRecommendation \<times> PolicyDecision) request" where
  "remediation_create_case index provider token db_now tenant_id break_detail canonical break_id =
     translate create_case_error
       (on_db (generate_case index provider token db_now tenant_id break_detail canonical break_id))"

definition require_remediation_case :: "string \<Rightarrow> case_row db_call" where
  "require_remediation_case case_id =
     andthen (get_case case_id) (\<lambda>found. case found of
       None \<Rightarrow> raise (HTTPException 404 ''remediation case not found'')
     | Some row \<Rightarrow> ret row)"

fun approval_error :: "remediation_exn \<Rightarrow> remediation_exn" where
  "approval_error (DuplicateApprovalRoleError msg) = HTTPException 409 msg"
| "approval_error e = e"

definition require_view :: "string \<Rightarrow> case_view_doc db_call" where
  "require_view case_id =
     andthen (case_view case_id) (\<lambda>found. case found of
       None \<Rightarrow> raise (PyExc (AssertionError []))
     | Some view \<Rightarrow> ret view)"

definition submit_remediation_approval ::
    "runtime \<Rightarrow> datetime \<Rightarrow> string \<Rightarrow> ApprovalRole \<Rightarrow> string \<Rightarrow> case_view_doc db_call" where
  "submit_remediation_approval rt db_now case_id role approver_identity =
     andthen (require_remediation_case case_id) (\<lambda>row.
     if pd_outcome (cr_policy_decision row) \<noteq> ELIGIBLE_FOR_APPROVAL
     then raise (HTTPException 409 (''case is not eligible for approval (outcome='' @
            policy_outcome_str (pd_outcome (cr_policy_decision row)) @ '')''))
     else andthen (get_approvals case_id) (\<lambda>existing.
       let other_role_identity =
             map_option ar_approver_identity (List.find (\<lambda>r. ar_role r \<noteq> role) existing) in
       if other_role_identity = Some approver_identity
       then raise (HTTPException 409 ''maker and checker must be different identities'')
       else andthen (translate approval_error (insert_approval \<lparr>
              ar_case_id = case_id,
              ar_role = role,
              ar_approver_identity = approver_identity,
              ar_decision = APPROVE,
              ar_approved_recommendation_hash =
                recommendation_content_hash rt (cr_ai_recommendation row),
              ar_decided_at = db_now\<rparr>)) (\<lambda>_. require_view case_id)))"

text \<open>
  The request body \<open>RemediationApprovalRequest\<close>: 1 to 200 characters, not stripped; a
  violation is FastAPI's 422.
\<close>

definition remediation_approval ::
    "runtime \<Rightarrow> datetime \<Rightarrow> ApprovalRole \<Rightarrow> string \<Rightarrow> string \<Rightarrow> ('p, case_view_doc) request" where
  "remediation_approval rt db_now role case_id approver_identity =
     (if approver_identity = [] \<or> 200 < length approver_identity
      then raise (HTTPException 422 ''Unprocessable Entity'')
      else on_db (submit_remediation_approval rt db_now case_id role approver_identity))"

definition remediation_maker_approval ::
    "runtime \<Rightarrow> datetime \<Rightarrow> string \<Rightarrow> string \<Rightarrow> ('p, case_view_doc) request" where
  "remediation_maker_approval rt db_now = remediation_approval rt db_now MAKER"

definition remediation_checker_approval ::
    "runtime \<Rightarrow> datetime \<Rightarrow> string \<Rightarrow> string \<Rightarrow> ('p, case_view_doc) request" where
  "remediation_checker_approval rt db_now = remediation_approval rt db_now CHECKER"

definition envelope_request_for ::
    "case_row \<Rightarrow> string \<Rightarrow> string \<Rightarrow> approval_row \<Rightarrow> approval_row \<Rightarrow> envelope_request" where
  "envelope_request_for row field_path approved_value maker_row checker_row = \<lparr>
     rq_case_id = cr_case_id row,
     rq_trade_id = cr_trade_id row,
     rq_tenant_id = cr_tenant_id row,
     rq_portfolio_id = cr_portfolio_id row,
     rq_field_path = field_path,
     rq_approved_value = approved_value,
     rq_expected_old_value = bf_observed_value (cr_break_facts row),
     rq_maker_identity = ar_approver_identity maker_row,
     rq_checker_identity = ar_approver_identity checker_row,
     rq_idempotency_key = ''idem_'' @ cr_case_id row\<rparr>"

definition issue_envelope ::
    "runtime \<Rightarrow> string \<Rightarrow> datetime \<Rightarrow> datetime \<Rightarrow> case_row \<Rightarrow> approval_row \<Rightarrow> approval_row \<Rightarrow>
     envelope_row db_call" where
  "issue_envelope rt configured now db_now row maker_row checker_row =
     andthen (get_envelope (cr_case_id row)) (\<lambda>existing. case existing of
       Some v \<Rightarrow> ret v
     | None \<Rightarrow>
         (case (approved_field_path (cr_policy_decision row), pd_approved_value (cr_policy_decision row)) of
            (Some field_path, Some approved_value) \<Rightarrow>
              andthen (lift_result (build_envelope rt configured now
                (envelope_request_for row field_path approved_value maker_row checker_row)
                None ENVELOPE_TTL_SECONDS None)) (\<lambda>draft.
              insert_envelope_if_absent \<lparr>
                ev_case_id = cr_case_id row,
                ev_idempotency_key = ae_idempotency_key draft,
                ev_envelope_document = draft,
                ev_content_hash = ae_content_hash draft,
                ev_issued_at = ae_issued_at draft,
                ev_expires_at = ae_expires_at draft,
                ev_created_at = db_now\<rparr>)
          | _ \<Rightarrow> raise (PyExc (AssertionError []))))"

definition approval_model :: "approval_row \<Rightarrow> remediation_exn + Approval" where
  "approval_model r = lift_py (mk_Approval \<lparr>
     ap_role = ar_role r,
     ap_approver_identity = ar_approver_identity r,
     ap_decision = ar_decision r,
     ap_decided_at = ar_decided_at r,
     ap_approved_recommendation_hash = ar_approved_recommendation_hash r\<rparr>)"

text \<open>The part of \<open>remediation_execute\<close> that ends in \<open>executor.execute\<close>.\<close>

definition execute_case ::
    "runtime \<Rightarrow> string \<Rightarrow> datetime \<Rightarrow> datetime \<Rightarrow> string \<Rightarrow>
     (case_row \<times> ActionEnvelope \<times> ExecutionResult) db_call" where
  "execute_case rt configured now db_now case_id =
     andthen (require_remediation_case case_id) (\<lambda>row.
     if pd_outcome (cr_policy_decision row) \<noteq> ELIGIBLE_FOR_APPROVAL
     then raise (HTTPException 409 (''case is not eligible for execution (outcome='' @
            policy_outcome_str (pd_outcome (cr_policy_decision row)) @ '')''))
     else andthen (get_approvals case_id) (\<lambda>approvals_rows.
       case (List.find (\<lambda>r. ar_role r = MAKER) approvals_rows,
             List.find (\<lambda>r. ar_role r = CHECKER) approvals_rows) of
         (Some maker_row, Some checker_row) \<Rightarrow>
           andthen (issue_envelope rt configured now db_now row maker_row checker_row) (\<lambda>envelope_row.
           let e = mk_ActionEnvelope (ev_envelope_document envelope_row) in
           andthen (lift_result (emap approval_model approvals_rows)) (\<lambda>approvals.
           andthen (execute rt configured None now db_now e approvals NORMAL) (\<lambda>result.
           ret (row, e, result))))
       | _ \<Rightarrow> raise (HTTPException 409
                ''both maker and checker approval are required before execution'')))"

definition remediation_execute ::
    "(string \<Rightarrow> string \<Rightarrow> string \<Rightarrow> ('p, remediation_exn, unit) call) \<Rightarrow>
     (string \<Rightarrow> ('p, remediation_exn, json) call) \<Rightarrow>
     runtime \<Rightarrow> string \<Rightarrow> datetime \<Rightarrow> datetime \<Rightarrow> string \<Rightarrow>
     ('p, ExecutionResult \<times> case_view_doc) request" where
  "remediation_execute ingest rerun rt configured now db_now case_id =
     andthen (on_db (execute_case rt configured now db_now case_id)) (\<lambda>(row, e, result).
     andthen
       (if er_applied result
        then andthen (on_product (ingest (cr_trade_id row) (ae_field_path e) (ae_approved_value e))) (\<lambda>_.
             andthen (on_product (rerun (cr_trade_id row))) (\<lambda>post_action_reconciliation.
             andthen (on_db (finalize_evidence rt db_now case_id (Some post_action_reconciliation))) (\<lambda>_.
             ret ())))
        else ret ()) (\<lambda>_.
     andthen (on_db (require_view case_id)) (\<lambda>view.
     ret (result, view))))"

definition remediation_evidence_view :: "string \<Rightarrow> ('p, case_view_doc) request" where
  "remediation_evidence_view case_id =
     andthen (on_db (case_view case_id)) (\<lambda>found. case found of
       None \<Rightarrow> raise (HTTPException 404 ''remediation case not found'')
     | Some view \<Rightarrow> ret view)"

section \<open>Requests as steps\<close>

text \<open>\<open>secrets.token_hex(12)\<close>: 24 hexadecimal digits.\<close>

definition is_token :: "string \<Rightarrow> bool" where
  "is_token t \<longleftrightarrow> length t = 24 \<and> list_all is_hex t"

inductive api_step ::
    "(string \<Rightarrow> string \<Rightarrow> string \<Rightarrow> ('p, remediation_exn, unit) call) \<Rightarrow>
     (string \<Rightarrow> ('p, remediation_exn, json) call) \<Rightarrow>
     runtime \<Rightarrow> RunbookSection list \<Rightarrow> 'p world \<Rightarrow> 'p world \<Rightarrow> bool"
  for ingest rerun rt index where
  create: "is_token token \<Longrightarrow>
     remediation_create_case index provider token db_now tenant_id break_detail canonical break_id w = (r, w') \<Longrightarrow>
     api_step ingest rerun rt index w w'"
| maker: "remediation_maker_approval rt db_now case_id identity w = (v, w') \<Longrightarrow>
     api_step ingest rerun rt index w w'"
| checker: "remediation_checker_approval rt db_now case_id identity w = (v, w') \<Longrightarrow>
     api_step ingest rerun rt index w w'"
| execution: "remediation_execute ingest rerun rt configured now db_now case_id w = (x, w') \<Longrightarrow>
     api_step ingest rerun rt index w w'"
| evidence: "remediation_evidence_view case_id w = (v, w') \<Longrightarrow>
     api_step ingest rerun rt index w w'"

inductive reachable ::
    "(string \<Rightarrow> string \<Rightarrow> string \<Rightarrow> ('p, remediation_exn, unit) call) \<Rightarrow>
     (string \<Rightarrow> ('p, remediation_exn, json) call) \<Rightarrow>
     runtime \<Rightarrow> RunbookSection list \<Rightarrow> 'p world \<Rightarrow> bool"
  for ingest rerun rt index where
  start: "w_db w = empty_db \<Longrightarrow> reachable ingest rerun rt index w"
| step: "reachable ingest rerun rt index w \<Longrightarrow> api_step ingest rerun rt index w w' \<Longrightarrow>
     reachable ingest rerun rt index w'"

section \<open>Invariant\<close>

definition eligible :: "case_row \<Rightarrow> bool" where
  "eligible c \<longleftrightarrow> pd_outcome (cr_policy_decision c) = ELIGIBLE_FOR_APPROVAL"

definition cases_ok :: "RunbookSection list \<Rightarrow> remediation_db \<Rightarrow> bool" where
  "cases_ok index db \<longleftrightarrow> distinct (case_ids db) \<and>
     (\<forall>c \<in> set (remediation_cases db).
        cr_policy_decision c = evaluate index (cr_ai_recommendation c) (cr_break_facts c) \<and>
        py_strip (cr_case_id c) = cr_case_id c \<and> mk_BreakFacts (cr_break_facts c) = cr_break_facts c)"

definition approvals_ok :: "remediation_db \<Rightarrow> bool" where
  "approvals_ok db \<longleftrightarrow>
     distinct (map (\<lambda>a. (ar_case_id a, ar_role a)) (remediation_approvals db)) \<and>
     (\<forall>a \<in> set (remediation_approvals db). ar_decision a = APPROVE \<and>
        (\<exists>c \<in> set (remediation_cases db). cr_case_id c = ar_case_id a \<and> eligible c)) \<and>
     (\<forall>a \<in> set (remediation_approvals db). \<forall>b \<in> set (remediation_approvals db).
        ar_case_id a = ar_case_id b \<longrightarrow> ar_role a \<noteq> ar_role b \<longrightarrow>
        ar_approver_identity a \<noteq> ar_approver_identity b)"

text \<open>A stored envelope was built from its case, its decision and its two approvals.\<close>

definition envelope_ok :: "runtime \<Rightarrow> remediation_db \<Rightarrow> envelope_row \<Rightarrow> bool" where
  "envelope_ok rt db v \<longleftrightarrow>
     (\<exists>c \<in> set (remediation_cases db). \<exists>m \<in> set (remediation_approvals db).
      \<exists>k \<in> set (remediation_approvals db). \<exists>path val issued expires key.
        ev_case_id v = cr_case_id c \<and> eligible c \<and>
        ar_case_id m = cr_case_id c \<and> ar_role m = MAKER \<and>
        ar_case_id k = cr_case_id c \<and> ar_role k = CHECKER \<and>
        approved_field_path (cr_policy_decision c) = Some path \<and>
        pd_approved_value (cr_policy_decision c) = Some val \<and>
        add_seconds issued ENVELOPE_TTL_SECONDS = Inr expires \<and>
        ev_envelope_document v =
          signed_with rt key (draft_envelope (envelope_request_for c path val m k) issued expires))"

definition envelopes_ok :: "runtime \<Rightarrow> remediation_db \<Rightarrow> bool" where
  "envelopes_ok rt db \<longleftrightarrow> distinct (map ev_case_id (remediation_envelopes db)) \<and>
     (\<forall>v \<in> set (remediation_envelopes db). envelope_ok rt db v)"

text \<open>Two approvals of one case by identities that differ after stripping.\<close>

definition two_person :: "remediation_db \<Rightarrow> string \<Rightarrow> bool" where
  "two_person db case_id \<longleftrightarrow>
     (\<exists>m \<in> set (remediation_approvals db). \<exists>k \<in> set (remediation_approvals db).
        ar_case_id m = case_id \<and> ar_role m = MAKER \<and> ar_decision m = APPROVE \<and>
        ar_case_id k = case_id \<and> ar_role k = CHECKER \<and> ar_decision k = APPROVE \<and>
        py_strip (ar_approver_identity m) \<noteq> py_strip (ar_approver_identity k))"

definition execution_ok :: "remediation_db \<Rightarrow> execution_row \<Rightarrow> bool" where
  "execution_ok db x \<longleftrightarrow>
     (\<exists>c \<in> set (remediation_cases db). cr_case_id c = ex_case_id x \<and>
        (ex_applied x \<longrightarrow> ex_outcome x = SUCCESS \<and> eligible c \<and> two_person db (ex_case_id x)))"

definition db_inv :: "runtime \<Rightarrow> RunbookSection list \<Rightarrow> remediation_db \<Rightarrow> bool" where
  "db_inv rt index db \<longleftrightarrow> cases_ok index db \<and> approvals_ok db \<and> envelopes_ok rt db \<and>
     (\<forall>x \<in> set (remediation_executions db). execution_ok db x)"

lemmas inv_defs = db_inv_def cases_ok_def approvals_ok_def envelopes_ok_def envelope_ok_def
  execution_ok_def two_person_def case_ids_def

lemma db_inv_empty: "db_inv rt index empty_db"
  by (simp add: inv_defs empty_db_def)

lemma db_inv_legacy [simp]: "db_inv rt index (db\<lparr>legacy_booking_records := lb\<rparr>) = db_inv rt index db"
  by (simp add: inv_defs)

lemma db_inv_evidence [simp]: "db_inv rt index (db\<lparr>remediation_evidence := ev\<rparr>) = db_inv rt index db"
  by (simp add: inv_defs)

text \<open>Rows of other tables stay valid when a table grows.\<close>

definition grows :: "remediation_db \<Rightarrow> remediation_db \<Rightarrow> bool" where
  "grows db db' \<longleftrightarrow> set (remediation_cases db) \<subseteq> set (remediation_cases db') \<and>
     set (remediation_approvals db) \<subseteq> set (remediation_approvals db')"

lemma two_person_mono: "two_person db i \<Longrightarrow> grows db db' \<Longrightarrow> two_person db' i"
  unfolding two_person_def grows_def by blast

lemma envelope_ok_mono: "envelope_ok rt db v \<Longrightarrow> grows db db' \<Longrightarrow> envelope_ok rt db' v"
  unfolding envelope_ok_def grows_def by (elim conjE bexE) (intro bexI conjI; blast)

lemma execution_ok_mono: "execution_ok db x \<Longrightarrow> grows db db' \<Longrightarrow> execution_ok db' x"
  using two_person_mono unfolding execution_ok_def grows_def by blast

lemma db_inv_add_case:
  assumes "db_inv rt index db" and "cr_case_id c \<notin> set (case_ids db)"
    and "cr_policy_decision c = evaluate index (cr_ai_recommendation c) (cr_break_facts c)"
    and "py_strip (cr_case_id c) = cr_case_id c" and "mk_BreakFacts (cr_break_facts c) = cr_break_facts c"
  shows "db_inv rt index (db\<lparr>remediation_cases := remediation_cases db @ [c]\<rparr>)"
proof -
  let ?db = "db\<lparr>remediation_cases := remediation_cases db @ [c]\<rparr>"
  have g: "grows db ?db" by (auto simp: grows_def)
  have "cases_ok index ?db" using assms by (simp add: db_inv_def cases_ok_def case_ids_def)
  moreover have "approvals_ok ?db" using assms(1) by (auto simp: db_inv_def approvals_ok_def)
  moreover have "envelopes_ok rt ?db"
    using assms(1) envelope_ok_mono [OF _ g] by (simp add: db_inv_def envelopes_ok_def)
  moreover have "\<forall>x \<in> set (remediation_executions ?db). execution_ok ?db x"
    using assms(1) execution_ok_mono [OF _ g] by (simp add: db_inv_def)
  ultimately show ?thesis by (simp add: db_inv_def)
qed

lemma db_inv_add_approval:
  assumes "db_inv rt index db" and "ar_decision a = APPROVE"
    and "\<not> list_ex (\<lambda>r. ar_case_id r = ar_case_id a \<and> ar_role r = ar_role a) (remediation_approvals db)"
    and "c \<in> set (remediation_cases db)" "cr_case_id c = ar_case_id a" "eligible c"
    and "\<And>b. b \<in> set (remediation_approvals db) \<Longrightarrow> ar_case_id b = ar_case_id a \<Longrightarrow>
           ar_role b \<noteq> ar_role a \<Longrightarrow> ar_approver_identity b \<noteq> ar_approver_identity a"
  shows "db_inv rt index (db\<lparr>remediation_approvals := remediation_approvals db @ [a]\<rparr>)"
proof -
  let ?db = "db\<lparr>remediation_approvals := remediation_approvals db @ [a]\<rparr>"
  have g: "grows db ?db" by (auto simp: grows_def)
  have "approvals_ok ?db"
    using assms unfolding approvals_ok_def db_inv_def list_ex_iff
    by (auto simp: image_iff) blast
  moreover have "cases_ok index ?db" using assms by (simp add: db_inv_def cases_ok_def case_ids_def)
  moreover have "envelopes_ok rt ?db"
    using assms(1) envelope_ok_mono [OF _ g] by (simp add: db_inv_def envelopes_ok_def)
  moreover have "\<forall>x \<in> set (remediation_executions ?db). execution_ok ?db x"
    using assms(1) execution_ok_mono [OF _ g] by (simp add: db_inv_def)
  ultimately show ?thesis by (simp add: db_inv_def)
qed

lemma db_inv_add_envelope:
  assumes "db_inv rt index db" and "envelope_ok rt db v"
    and "ev_case_id v \<notin> set (map ev_case_id (remediation_envelopes db))"
  shows "db_inv rt index (db\<lparr>remediation_envelopes := remediation_envelopes db @ [v]\<rparr>)"
proof -
  let ?db = "db\<lparr>remediation_envelopes := remediation_envelopes db @ [v]\<rparr>"
  have g: "grows db ?db" by (auto simp: grows_def)
  have "envelopes_ok rt ?db"
    using assms envelope_ok_mono [OF _ g] by (auto simp: db_inv_def envelopes_ok_def)
  moreover have "cases_ok index ?db" "approvals_ok ?db"
    using assms(1) by (simp_all add: db_inv_def cases_ok_def case_ids_def approvals_ok_def)
  moreover have "\<forall>x \<in> set (remediation_executions ?db). execution_ok ?db x"
    using assms(1) execution_ok_mono [OF _ g] by (simp add: db_inv_def)
  ultimately show ?thesis by (simp add: db_inv_def)
qed

lemma db_inv_add_executions:
  assumes "db_inv rt index db" and "\<And>x. x \<in> set rows \<Longrightarrow> execution_ok db x"
  shows "db_inv rt index (db\<lparr>remediation_executions := remediation_executions db @ rows\<rparr>)"
proof -
  let ?db = "db\<lparr>remediation_executions := remediation_executions db @ rows\<rparr>"
  have g: "grows db ?db" by (auto simp: grows_def)
  have "envelopes_ok rt ?db"
    using assms(1) envelope_ok_mono [OF _ g] by (simp add: db_inv_def envelopes_ok_def)
  moreover have "cases_ok index ?db" "approvals_ok ?db"
    using assms(1) by (simp_all add: db_inv_def cases_ok_def case_ids_def approvals_ok_def)
  moreover have "\<forall>x \<in> set (remediation_executions ?db). execution_ok ?db x"
    using assms execution_ok_mono [OF _ g] by (auto simp: db_inv_def)
  ultimately show ?thesis by (simp add: db_inv_def)
qed

section \<open>Every request keeps the invariant\<close>

lemma is_token_stripped: "is_token t \<Longrightarrow> py_strip (new_case_id t) = new_case_id t"
proof -
  assume t: "is_token t"
  then have "t \<noteq> []" by (auto simp: is_token_def)
  with t obtain u c where u: "t = u @ [c]" "is_hex c"
    by (cases t rule: rev_cases) (auto simp: is_token_def)
  from u(2) have "\<not> is_space c" by (auto simp: is_hex_def is_digit_def is_space_def Let_def)
  with u(1) show ?thesis
    by (simp add: py_strip_def new_case_id_def is_space_def)
qed

lemma find_case:
  "require_remediation_case case_id db = (Inr row, db') \<longleftrightarrow>
     db' = db \<and> List.find (\<lambda>r. cr_case_id r = case_id) (remediation_cases db) = Some row"
  by (auto simp: require_remediation_case_def get_case_def split: option.splits)

lemma require_case_reads: "require_remediation_case case_id db = (r, db') \<Longrightarrow> db' = db"
  by (auto simp: require_remediation_case_def get_case_def split: option.splits)

lemma require_view_reads: "require_view case_id db = (r, db') \<Longrightarrow> db' = db"
  by (auto simp: require_view_def andthen_def split: prod.splits sum.splits option.splits
      dest: case_view_reads)

lemma seed_effect:
  "\<exists>lb. seed_legacy_booking_record db_now k amount currency scale oid db =
     (Inr (), db\<lparr>legacy_booking_records := lb\<rparr>) \<and>
     (\<forall>k row. legacy_booking_records db k = Some row \<longrightarrow> lb k = Some row)"
proof (cases "legacy_booking_records db k")
  case None
  then have "seed_legacy_booking_record db_now k amount currency scale oid db =
      (Inr (), db\<lparr>legacy_booking_records := (legacy_booking_records db)(k \<mapsto> \<lparr>
        lb_base_amount_value = amount, lb_base_amount_currency = currency,
        lb_base_amount_scale = scale, lb_source_observation_id = oid, lb_booking_version = 1,
        lb_last_applied_idempotency_key = None, lb_updated_at = db_now\<rparr>)\<rparr>)"
    by (simp add: seed_legacy_booking_record_def)
  moreover have "legacy_booking_records db k' = Some row \<Longrightarrow>
      ((legacy_booking_records db)(k \<mapsto> x)) k' = Some row" for k' row x
    using None by auto
  ultimately show ?thesis by blast
next
  case (Some row)
  then show ?thesis
    by (intro exI [of _ "legacy_booking_records db"]) (simp add: seed_legacy_booking_record_def)
qed

lemma generate_case_effect:
  assumes "generate_case index provider token db_now tenant_id break_detail canonical break_id db = (r, db')"
  obtains "db' = db"
  | c lb where "db' = db\<lparr>remediation_cases := remediation_cases db @ [c], legacy_booking_records := lb\<rparr>"
      "cr_case_id c \<notin> set (case_ids db)" "cr_case_id c = new_case_id token"
      "cr_policy_decision c = evaluate index (cr_ai_recommendation c) (cr_break_facts c)"
      "mk_BreakFacts (cr_break_facts c) = cr_break_facts c"
      "\<forall>k row. legacy_booking_records db k = Some row \<longrightarrow> lb k = Some row"
proof (cases "break_detail break_id")
  case None
  then show thesis using assms that(1) by (simp add: generate_case_def)
next
  case row: (Some row)
  show thesis
  proof (cases "canonical (br_trade_id row)")
    case None
    then show thesis using assms row that(1) by (simp add: generate_case_def)
  next
    case can: (Some cn)
    show thesis
    proof (cases "build_break_facts row cn")
      case (Inl e)
      then show thesis using assms row can that(1) by (simp add: generate_case_def)
    next
      case (Inr fr)
      obtain facts ref where fr: "build_break_facts row cn = Inr (facts, ref)"
        using Inr by (cases fr) simp
      show thesis
      proof (cases "search index (candidate_query facts) 5")
        case (Inl e)
        then show thesis using assms row can fr that(1) by (simp add: generate_case_def)
      next
        case hits: (Inr candidates)
        show thesis
        proof (cases "pv_recommend provider facts candidates")
          case (Inl e)
          then show thesis using assms row can fr hits that(1) by (simp add: generate_case_def)
        next
          case rec: (Inr rec)
          define c where "c = \<lparr>
            cr_case_id = new_case_id token, cr_break_id = bf_break_id facts, cr_run_id = br_run_id row,
            cr_trade_id = br_trade_id row, cr_tenant_id = tenant_id,
            cr_portfolio_id = cn_portfolio_id cn, cr_product_type = bf_product_type facts,
            cr_ai_provider = pv_name provider, cr_break_facts = facts, cr_ai_recommendation = rec,
            cr_policy_decision = evaluate index rec facts, cr_created_at = db_now\<rparr>"
          have run: "andthen (insert_case c) (\<lambda>_.
              andthen (seed_legacy_booking_record db_now (tenant_id, cn_portfolio_id cn, br_trade_id row)
                (bf_observed_value facts) (bf_trade_value_currency facts)
                (decimal_scale (bf_observed_value facts)) (sr_source_observation_id ref)) (\<lambda>_.
              ret (new_case_id token, rec, evaluate index rec facts))) db = (r, db')"
            using assms row can fr hits rec by (simp add: generate_case_def c_def Let_def)
          show thesis
          proof (cases "cr_case_id c \<in> set (case_ids db)")
            case True
            then show thesis using run that(1) by (simp add: insert_case_def andthen_def)
          next
            case False
            obtain lb where "db' = db\<lparr>remediation_cases := remediation_cases db @ [c], legacy_booking_records := lb\<rparr>"
              "\<forall>k row. legacy_booking_records db k = Some row \<longrightarrow> lb k = Some row"
              using run False seed_effect [of db_now "(tenant_id, cn_portfolio_id cn, br_trade_id row)"
                "bf_observed_value facts" "bf_trade_value_currency facts" "decimal_scale (bf_observed_value facts)"
                "sr_source_observation_id ref" "db\<lparr>remediation_cases := remediation_cases db @ [c]\<rparr>"]
              by (auto simp: insert_case_def andthen_def)
            then show thesis
              using that(2) [of lb c] False build_break_facts_Inr(1) [OF fr] by (simp add: c_def)
          qed
        qed
      qed
    qed
  qed
qed

lemma generate_case_inv:
  assumes "db_inv rt index db" and "is_token token"
    and "generate_case index provider token db_now tenant_id break_detail canonical break_id db = (r, db')"
  shows "db_inv rt index db'"
  using assms(3)
proof (cases rule: generate_case_effect)
  case 1
  with assms(1) show ?thesis by simp
next
  case (2 c lb)
  with assms(1,2) is_token_stripped [OF assms(2)]
  show ?thesis by (auto intro: db_inv_add_case)
qed

lemma submit_approval_effect:
  assumes "submit_remediation_approval rt db_now case_id role identity db = (r, db')"
  obtains "db' = db"
  | c a where "db' = db\<lparr>remediation_approvals := remediation_approvals db @ [a]\<rparr>"
      "c \<in> set (remediation_cases db)" "cr_case_id c = case_id" "eligible c"
      "ar_case_id a = case_id" "ar_role a = role" "ar_approver_identity a = identity"
      "ar_decision a = APPROVE"
      "\<not> list_ex (\<lambda>r. ar_case_id r = case_id \<and> ar_role r = role) (remediation_approvals db)"
      "List.find (\<lambda>r. ar_role r \<noteq> role) (approvals_of db case_id) = None \<or>
       (\<exists>b. List.find (\<lambda>r. ar_role r \<noteq> role) (approvals_of db case_id) = Some b \<and>
          ar_approver_identity b \<noteq> identity)"
proof (cases "List.find (\<lambda>r. cr_case_id r = case_id) (remediation_cases db)")
  case None
  then show thesis
    using assms that(1)
    by (simp add: submit_remediation_approval_def require_remediation_case_def get_case_def andthen_def)
next
  case (Some c)
  then have c: "c \<in> set (remediation_cases db)" "cr_case_id c = case_id"
    by (auto dest: find_Some_D)
  define a where "a = \<lparr>ar_case_id = case_id, ar_role = role, ar_approver_identity = identity,
    ar_decision = APPROVE,
    ar_approved_recommendation_hash = recommendation_content_hash rt (cr_ai_recommendation c),
    ar_decided_at = db_now\<rparr>"
  define other where "other = List.find (\<lambda>r. ar_role r \<noteq> role) (approvals_of db case_id)"
  have run: "(if pd_outcome (cr_policy_decision c) \<noteq> ELIGIBLE_FOR_APPROVAL
     then raise (HTTPException 409 (''case is not eligible for approval (outcome='' @
            policy_outcome_str (pd_outcome (cr_policy_decision c)) @ '')''))
     else if map_option ar_approver_identity other = Some identity
     then raise (HTTPException 409 ''maker and checker must be different identities'')
     else andthen (translate approval_error (insert_approval a)) (\<lambda>_. require_view case_id)) db = (r, db')"
    using assms find_case [of case_id db c db] Some
    by (simp only: submit_remediation_approval_def andthen_step if_distribR andthen_get get_approvals_def
        a_def other_def Let_def simp_thms)
  show thesis
  proof (cases "eligible c \<and> map_option ar_approver_identity other \<noteq> Some identity")
    case False
    then have "db' = db" using run by (auto simp: eligible_def split: if_splits)
    then show thesis by (rule that(1))
  next
    case True
    then have run': "andthen (translate approval_error (insert_approval a)) (\<lambda>_. require_view case_id) db = (r, db')"
      using run by (simp only: eligible_def if_False if_True simp_thms not_False_eq_True)
    show thesis
    proof (cases "list_ex (\<lambda>r. ar_case_id r = case_id \<and> ar_role r = role) (remediation_approvals db)")
      case True
      then have "db' = db" using run' by (simp add: insert_approval_def translate_def andthen_def a_def)
      then show thesis by (rule that(1))
    next
      case free: False
      have "case_id \<in> set (case_ids db)" using c by (auto simp: case_ids_def)
      then have "insert_approval a db =
          (Inr (), db\<lparr>remediation_approvals := remediation_approvals db @ [a]\<rparr>)"
        using free by (simp add: insert_approval_def a_def)
      then have "require_view case_id (db\<lparr>remediation_approvals := remediation_approvals db @ [a]\<rparr>) = (r, db')"
        using run' by (simp add: translate_def andthen_def)
      then have "db' = db\<lparr>remediation_approvals := remediation_approvals db @ [a]\<rparr>"
        by (rule require_view_reads)
      moreover have "other = None \<or> (\<exists>b. other = Some b \<and> ar_approver_identity b \<noteq> identity)"
        using True by (cases other) simp_all
      ultimately show thesis
        using that(2) [of a c] c True free by (simp add: a_def other_def)
    qed
  qed
qed

lemma submit_approval_inv:
  assumes "db_inv rt' index db"
    and "submit_remediation_approval rt db_now case_id role identity db = (r, db')"
  shows "db_inv rt' index db'"
  using assms(2)
proof (cases rule: submit_approval_effect)
  case 1
  with assms(1) show ?thesis by simp
next
  case (2 c a)
  have other: "ar_approver_identity b \<noteq> identity"
    if b: "b \<in> set (remediation_approvals db)" "ar_case_id b = case_id" "ar_role b \<noteq> role" for b
  proof -
    have mem: "b \<in> set (approvals_of db case_id)" using b(1,2) by (simp add: approvals_of_def)
    from 2(10) obtain b' where b': "List.find (\<lambda>r. ar_role r \<noteq> role) (approvals_of db case_id) = Some b'"
        "ar_approver_identity b' \<noteq> identity"
      using find_None_D [OF _ mem, of "\<lambda>r. ar_role r \<noteq> role"] b(3) by blast
    from find_Some_D [OF b'(1)] have "b' \<in> set (remediation_approvals db)" "ar_case_id b' = case_id" "ar_role b' \<noteq> role"
      by (simp_all add: approvals_of_def)
    moreover have "ar_role b' = ar_role b"
      using \<open>ar_role b' \<noteq> role\<close> b(3) by (cases role; cases "ar_role b"; cases "ar_role b'") auto
    ultimately have "b' = b"
      using assms(1) b(1,2) by (auto simp: db_inv_def approvals_ok_def distinct_map dest: inj_onD)
    with b' show ?thesis by simp
  qed
  show ?thesis
    unfolding 2(1)
  proof (rule db_inv_add_approval [OF assms(1) 2(8) _ 2(2)])
    show "\<not> list_ex (\<lambda>r. ar_case_id r = ar_case_id a \<and> ar_role r = ar_role a) (remediation_approvals db)"
      using 2(9) by (simp only: 2(5,6) simp_thms)
    show "cr_case_id c = ar_case_id a" by (simp only: 2(3,5))
    show "eligible c" by (rule 2(4))
    show "ar_approver_identity b \<noteq> ar_approver_identity a"
      if "b \<in> set (remediation_approvals db)" "ar_case_id b = ar_case_id a" "ar_role b \<noteq> ar_role a" for b
      using other [of b] that by (simp only: 2(5,6,7) simp_thms)
  qed
qed

lemma insert_envelope_effect:
  assumes "insert_envelope_if_absent row db = (r, db')"
  obtains (absent) "db' = db\<lparr>remediation_envelopes := remediation_envelopes db @ [row]\<rparr>"
      "ev_case_id row \<notin> set (map ev_case_id (remediation_envelopes db))" "r = Inr row"
  | (present) "db' = db" "\<And>v. r = Inr v \<Longrightarrow> envelope_of db (ev_case_id row) = Some v"
proof (cases "envelope_of db (ev_case_id row)")
  case (Some v)
  then have "db' = db" "r = Inr v"
    using assms by (simp_all add: insert_envelope_if_absent_def get_envelope_def andthen_def)
  with Some present show thesis by simp
next
  case None
  then have fresh: "ev_case_id row \<notin> set (map ev_case_id (remediation_envelopes db))"
    by (auto simp: envelope_of_def find_None_iff)
  show thesis
  proof (cases "ev_idempotency_key row \<in> set (map ev_idempotency_key (remediation_envelopes db)) \<or>
      ev_case_id row \<notin> set (case_ids db)")
    case True
    then have "db' = db \<and> (\<exists>e. r = Inl e)"
      using assms None by (auto simp: insert_envelope_if_absent_def andthen_def split: if_splits)
    with present show thesis by auto
  next
    case False
    have "List.find (\<lambda>r. ev_case_id r = ev_case_id row) (remediation_envelopes db @ [row]) = Some row"
      using None by (simp add: envelope_of_def find_snoc)
    then have "db' = db\<lparr>remediation_envelopes := remediation_envelopes db @ [row]\<rparr>" "r = Inr row"
      using assms None False
      by (simp_all add: insert_envelope_if_absent_def get_envelope_def envelope_of_def andthen_def)
    with fresh absent show thesis by blast
  qed
qed

lemma issue_envelope_effect:
  assumes inv: "db_inv rt index db" and c: "c \<in> set (remediation_cases db)" "eligible c"
    and m: "m \<in> set (remediation_approvals db)" "ar_case_id m = cr_case_id c" "ar_role m = MAKER"
    and k: "k \<in> set (remediation_approvals db)" "ar_case_id k = cr_case_id c" "ar_role k = CHECKER"
    and run: "issue_envelope rt configured now db_now c m k db = (r, db')"
  shows "db_inv rt index db'"
    and "\<exists>vs. db' = db\<lparr>remediation_envelopes := remediation_envelopes db @ vs\<rparr>"
    and "\<And>v. r = Inr v \<Longrightarrow> v \<in> set (remediation_envelopes db') \<and> ev_case_id v = cr_case_id c"
proof -
  have "db_inv rt index db' \<and>
    (\<exists>vs. db' = db\<lparr>remediation_envelopes := remediation_envelopes db @ vs\<rparr>) \<and>
    (\<forall>v. r = Inr v \<longrightarrow> v \<in> set (remediation_envelopes db') \<and> ev_case_id v = cr_case_id c)"
  proof (cases "envelope_of db (cr_case_id c)")
    case (Some v)
    with run have "db' = db" "r = Inr v" by (simp_all add: issue_envelope_def get_envelope_def)
    moreover have "v \<in> set (remediation_envelopes db) \<and> ev_case_id v = cr_case_id c"
      using Some by (auto simp: envelope_of_def dest: find_Some_D)
    moreover have "db = db\<lparr>remediation_envelopes := remediation_envelopes db @ []\<rparr>" by simp
    ultimately show ?thesis using inv by blast
  next
    case None
    obtain path val where pv: "approved_field_path (cr_policy_decision c) = Some path"
        "pd_approved_value (cr_policy_decision c) = Some val"
      using inv c eligible_decision_content [of index "cr_ai_recommendation c" "cr_break_facts c"]
      by (auto simp: db_inv_def cases_ok_def eligible_def)
    let ?q = "envelope_request_for c path val m k"
    show ?thesis
    proof (cases "build_envelope rt configured now ?q None ENVELOPE_TTL_SECONDS None")
      case (Inl e)
      with run None pv have "db' = db" "r = Inl e" by (simp_all add: issue_envelope_def get_envelope_def)
      moreover have "db = db\<lparr>remediation_envelopes := remediation_envelopes db @ []\<rparr>" by simp
      ultimately show ?thesis using inv by blast
    next
      case (Inr draft)
      from Inr obtain expires key where b: "add_seconds now ENVELOPE_TTL_SECONDS = Inr expires"
          "draft = signed_with rt key (draft_envelope ?q now expires)"
        by (rule build_envelope_Inr) simp
      define row where "row = \<lparr>ev_case_id = cr_case_id c, ev_idempotency_key = ae_idempotency_key draft,
        ev_envelope_document = draft, ev_content_hash = ae_content_hash draft,
        ev_issued_at = ae_issued_at draft, ev_expires_at = ae_expires_at draft, ev_created_at = db_now\<rparr>"
      have ok: "envelope_ok rt db row"
        unfolding envelope_ok_def
        by (rule bexI [OF _ c(1)], rule bexI [OF _ m(1)], rule bexI [OF _ k(1)],
            intro exI [of _ path] exI [of _ val] exI [of _ now] exI [of _ expires] exI [of _ key])
          (simp add: row_def c m k pv b)
      have "insert_envelope_if_absent row db = (r, db')"
        using run None pv Inr by (simp add: issue_envelope_def get_envelope_def row_def)
      then show ?thesis
      proof (cases rule: insert_envelope_effect)
        case absent
        then show ?thesis
          using db_inv_add_envelope [OF inv ok] by (auto simp: row_def)
      next
        case present
        have "\<exists>vs. db = db\<lparr>remediation_envelopes := remediation_envelopes db @ vs\<rparr>"
          by (rule exI [of _ "[]"]) simp
        with present inv None show ?thesis by (auto simp: row_def)
      qed
    qed
  qed
  then show "db_inv rt index db'"
    "\<exists>vs. db' = db\<lparr>remediation_envelopes := remediation_envelopes db @ vs\<rparr>"
    "\<And>v. r = Inr v \<Longrightarrow> v \<in> set (remediation_envelopes db') \<and> ev_case_id v = cr_case_id c"
    by blast+
qed

lemma approval_model_Inr:
  "approval_model r = Inr a \<Longrightarrow>
   ap_role a = ar_role r \<and> ap_decision a = ar_decision r \<and>
   ap_approver_identity a = py_strip (ar_approver_identity r)"
  by (auto simp: approval_model_def mk_Approval_def Let_def check_simps)

lemma approvals_two_person:
  assumes "emap approval_model rows = Inr approvals" and "require_valid_approvals e approvals = Inr ()"
    and "set rows \<subseteq> {r \<in> set (remediation_approvals db). ar_case_id r = case_id}"
  shows "two_person db case_id"
proof -
  from assms(2) obtain maker checker where
    mk: "approved_by_role approvals MAKER = Some maker" "approved_by_role approvals CHECKER = Some checker"
      "ap_approver_identity maker \<noteq> ap_approver_identity checker"
    by (auto simp: require_valid_approvals_Inr)
  have row: "\<exists>r. r \<in> set (remediation_approvals db) \<and> ar_case_id r = case_id \<and> ar_role r = role \<and>
      ar_decision r = APPROVE \<and> py_strip (ar_approver_identity r) = ap_approver_identity a"
    if "approved_by_role approvals role = Some a" for role a
  proof -
    from approved_by_role_Some [OF that] have a: "a \<in> set approvals" "ap_role a = role" "ap_decision a = APPROVE"
      by simp_all
    from emap_Inr_mem [OF assms(1) a(1)] obtain r where "r \<in> set rows" "approval_model r = Inr a" by blast
    with a assms(3) approval_model_Inr [of r a] show ?thesis by auto
  qed
  from row [OF mk(1)] row [OF mk(2)] mk(3) show ?thesis
    unfolding two_person_def by metis
qed

text \<open>
  The database part of an execution request: the invariant is kept and the tables only grow.
\<close>

lemma execute_case_effect:
  assumes inv: "db_inv rt index db" and run: "execute_case rt configured now db_now case_id db = (r, db')"
  shows "db_inv rt index db'"
    and "\<exists>lb vs xs. db' = db\<lparr>legacy_booking_records := lb,
           remediation_envelopes := remediation_envelopes db @ vs,
           remediation_executions := remediation_executions db @ xs\<rparr>"
proof -
  have self: "\<exists>lb vs xs. db = db\<lparr>legacy_booking_records := lb,
           remediation_envelopes := remediation_envelopes db @ vs,
           remediation_executions := remediation_executions db @ xs\<rparr>"
    by (intro exI [of _ "legacy_booking_records db"] exI [of _ "[]"]) simp
  have "db_inv rt index db' \<and> (\<exists>lb vs xs. db' = db\<lparr>legacy_booking_records := lb,
           remediation_envelopes := remediation_envelopes db @ vs,
           remediation_executions := remediation_executions db @ xs\<rparr>)"
  proof (cases "\<exists>c m k. List.find (\<lambda>r. cr_case_id r = case_id) (remediation_cases db) = Some c \<and> eligible c \<and>
      List.find (\<lambda>r. ar_role r = MAKER) (approvals_of db case_id) = Some m \<and>
      List.find (\<lambda>r. ar_role r = CHECKER) (approvals_of db case_id) = Some k")
    case False
    then have "db' = db"
      using run by (auto simp: execute_case_def require_remediation_case_def get_case_def
          get_approvals_def andthen_def eligible_def split: option.splits if_splits)
    with inv self show ?thesis by simp
  next
    case True
    then obtain c m k where f: "List.find (\<lambda>r. cr_case_id r = case_id) (remediation_cases db) = Some c"
      "eligible c" "List.find (\<lambda>r. ar_role r = MAKER) (approvals_of db case_id) = Some m"
      "List.find (\<lambda>r. ar_role r = CHECKER) (approvals_of db case_id) = Some k" by blast
    have c: "c \<in> set (remediation_cases db)" "cr_case_id c = case_id"
      using find_Some_D [OF f(1)] by simp_all
    have m: "m \<in> set (remediation_approvals db)" "ar_case_id m = cr_case_id c" "ar_role m = MAKER"
      using find_Some_D [OF f(3)] c by (simp_all add: approvals_of_def)
    have k: "k \<in> set (remediation_approvals db)" "ar_case_id k = cr_case_id c" "ar_role k = CHECKER"
      using find_Some_D [OF f(4)] c by (simp_all add: approvals_of_def)
    obtain iv db1 where iss: "issue_envelope rt configured now db_now c m k db = (iv, db1)"
      by (cases "issue_envelope rt configured now db_now c m k db")
    note I = issue_envelope_effect [OF inv c(1) f(2) m k iss]
    obtain vs where vs: "db1 = db\<lparr>remediation_envelopes := remediation_envelopes db @ vs\<rparr>"
      using I(2) by blast
    have body: "andthen (issue_envelope rt configured now db_now c m k) (\<lambda>envelope_row.
           let e = mk_ActionEnvelope (ev_envelope_document envelope_row) in
           andthen (lift_result (emap approval_model (approvals_of db case_id))) (\<lambda>approvals.
           andthen (execute rt configured None now db_now e approvals NORMAL) (\<lambda>result.
           ret (c, e, result)))) db = (r, db')"
      using run f find_case [of case_id db c db]
      by (simp add: execute_case_def andthen_step get_approvals_def eligible_def)
    show ?thesis
    proof (cases "\<exists>v approvals. iv = Inr v \<and> emap approval_model (approvals_of db case_id) = Inr approvals")
      case False
      then have "db' = db1"
        using body iss by (auto simp: andthen_def Let_def split: sum.splits)
      moreover have "\<exists>lb vs xs. db1 = db\<lparr>legacy_booking_records := lb,
           remediation_envelopes := remediation_envelopes db @ vs,
           remediation_executions := remediation_executions db @ xs\<rparr>"
        unfolding vs
        by (intro exI [of _ "legacy_booking_records db"] exI [of _ vs] exI [of _ "[]"]) simp
      ultimately show ?thesis using I(1) by simp
    next
      case True
      then obtain v approvals where v: "iv = Inr v" and ap: "emap approval_model (approvals_of db case_id) = Inr approvals"
        by blast
      define e where "e = mk_ActionEnvelope (ev_envelope_document v)"
      obtain xr db2 where x: "execute rt configured None now db_now e approvals NORMAL db1 = (xr, db2)"
        by (cases "execute rt configured None now db_now e approvals NORMAL db1")
      have "db' = db2"
        using body iss v ap x by (auto simp: andthen_def Let_def e_def split: sum.splits)
      from x obtain lb rows where eff:
        "db2 = db1\<lparr>legacy_booking_records := lb, remediation_executions := remediation_executions db1 @ rows\<rparr>"
        "\<forall>row \<in> set rows. attempt_row rt configured None now e approvals row"
        by (rule execute_effect)
      have "envelope_ok rt db1 v" "ev_case_id v = case_id"
        using I(1) I(3) [OF v] c(2) by (auto simp: db_inv_def envelopes_ok_def)
      then have "ae_case_id e = py_strip case_id"
        by (auto simp: envelope_ok_def e_def signed_with_def draft_envelope_def mk_ActionEnvelope_def
            envelope_request_for_def)
      then have e_id: "ae_case_id e = case_id"
        using inv c by (auto simp: db_inv_def cases_ok_def)
      have "execution_ok db1 row" if "row \<in> set rows" for row
      proof -
        have r: "attempt_row rt configured None now e approvals row" using eff(2) that by blast
        have tp: "two_person db1 case_id" if "ex_applied row"
        proof (rule approvals_two_person [OF ap])
          show "require_valid_approvals e approvals = Inr ()"
            using r that by (simp add: attempt_row_def executor_gates_def)
          show "set (approvals_of db case_id) \<subseteq> {r \<in> set (remediation_approvals db1). ar_case_id r = case_id}"
            by (auto simp: approvals_of_def vs)
        qed
        show ?thesis
          unfolding execution_ok_def
          using c f(2) r tp e_id by (intro bexI [of _ c]) (auto simp: attempt_row_def vs)
      qed
      then have "db_inv rt index (db1\<lparr>remediation_executions := remediation_executions db1 @ rows\<rparr>)"
        by (rule db_inv_add_executions [OF I(1)])
      moreover have "db' = (db1\<lparr>remediation_executions := remediation_executions db1 @ rows\<rparr>)\<lparr>legacy_booking_records := lb\<rparr>"
        using eff(1) \<open>db' = db2\<close> by simp
      moreover have "db' = db\<lparr>legacy_booking_records := lb, remediation_envelopes := remediation_envelopes db @ vs,
           remediation_executions := remediation_executions db @ rows\<rparr>"
        using eff(1) \<open>db' = db2\<close> vs by simp
      ultimately show ?thesis using db_inv_legacy by blast
    qed
  qed
  then show "db_inv rt index db'"
    "\<exists>lb vs xs. db' = db\<lparr>legacy_booking_records := lb,
           remediation_envelopes := remediation_envelopes db @ vs,
           remediation_executions := remediation_executions db @ xs\<rparr>"
    by simp_all
qed

lemma insert_evidence_effect:
  "insert_evidence_if_absent row db = (r, db') \<Longrightarrow>
   \<exists>es. db' = db\<lparr>remediation_evidence := remediation_evidence db @ es\<rparr>"
proof -
  assume run: "insert_evidence_if_absent row db = (r, db')"
  have "db' = db \<or> db' = db\<lparr>remediation_evidence := remediation_evidence db @ [row]\<rparr>"
    using run by (auto simp: insert_evidence_if_absent_def get_evidence_def andthen_def
        split: if_splits option.splits)
  moreover have "db = db\<lparr>remediation_evidence := remediation_evidence db @ []\<rparr>" by simp
  ultimately show ?thesis by blast
qed

lemma finalize_evidence_effect:
  assumes "finalize_evidence rt db_now case_id post db = (r, db')"
  shows "\<exists>es. db' = db\<lparr>remediation_evidence := remediation_evidence db @ es\<rparr>"
proof -
  have self: "\<exists>es. db = db\<lparr>remediation_evidence := remediation_evidence db @ es\<rparr>"
    by (rule exI [of _ "[]"]) simp
  obtain vr db1 where v: "case_view case_id db = (vr, db1)" by (cases "case_view case_id db")
  with case_view_reads have "db1 = db" by blast
  with v assms self show ?thesis
    by (auto simp: finalize_evidence_def andthen_def Let_def split: sum.splits option.splits
        dest: insert_evidence_effect)
qed

text \<open>The append-only tables of one database extend those of another.\<close>

definition appended :: "remediation_db \<Rightarrow> remediation_db \<Rightarrow> bool" where
  "appended db db' \<longleftrightarrow>
     (\<exists>cs as vs xs es.
        remediation_cases db' = remediation_cases db @ cs \<and>
        remediation_approvals db' = remediation_approvals db @ as \<and>
        remediation_envelopes db' = remediation_envelopes db @ vs \<and>
        remediation_executions db' = remediation_executions db @ xs \<and>
        remediation_evidence db' = remediation_evidence db @ es)"

lemma appended_refl [simp]: "appended db db"
  by (simp add: appended_def)

lemma appended_trans: "appended a b \<Longrightarrow> appended b c \<Longrightarrow> appended a c"
  by (fastforce simp: appended_def)

lemma on_db_run: "on_db m w = (r, w') \<longleftrightarrow> (\<exists>db. m (w_db w) = (r, db) \<and> w' = w\<lparr>w_db := db\<rparr>)"
  by (auto simp: on_db_def split: prod.splits)

lemma on_product_db: "on_product m w = (r, w') \<Longrightarrow> w_db w' = w_db w"
  by (auto simp: on_product_def split: prod.splits)

text \<open>
  A property of the tables that the parts of a request keep, the request keeps. The parts
  are taken in turn with the generic rule for sequences.
\<close>

definition step_ok :: "runtime \<Rightarrow> RunbookSection list \<Rightarrow> remediation_db \<Rightarrow> remediation_db \<Rightarrow> bool" where
  "step_ok rt index db db' \<longleftrightarrow> (db_inv rt index db \<longrightarrow> db_inv rt index db' \<and> appended db db')"

lemma step_ok_refl [simp]: "step_ok rt index db db"
  by (simp add: step_ok_def)

lemma step_ok_trans: "step_ok rt index a b \<Longrightarrow> step_ok rt index b c \<Longrightarrow> step_ok rt index a c"
  by (auto simp: step_ok_def intro: appended_trans)

lemma step_ok_andthen:
  assumes "andthen m f w = (r, w')"
    and "\<And>q u. m w = (q, u) \<Longrightarrow> step_ok rt index (w_db w) (w_db u)"
    and "\<And>x u q v. m w = (Inr x, u) \<Longrightarrow> f x u = (q, v) \<Longrightarrow> step_ok rt index (w_db u) (w_db v)"
  shows "step_ok rt index (w_db w) (w_db w')"
  by (rule andthen_keeps [OF _ _ assms(1)]) (use assms(2,3) step_ok_trans in blast)+

lemma finalize_step:
  "on_db (finalize_evidence rt' db_now case_id post) w = (r, w') \<Longrightarrow>
   step_ok rt index (w_db w) (w_db w')"
  by (auto simp: on_db_run step_ok_def appended_def dest!: finalize_evidence_effect)

lemma view_step: "on_db (require_view case_id) w = (r, w') \<Longrightarrow> step_ok rt index (w_db w) (w_db w')"
  by (auto simp: on_db_run dest!: require_view_reads)

lemma product_step: "on_product m w = (r, w') \<Longrightarrow> step_ok rt index (w_db w) (w_db w')"
  by (drule on_product_db) simp

lemma execute_case_step:
  "on_db (execute_case rt configured now db_now case_id) w = (r, w') \<Longrightarrow>
   step_ok rt index (w_db w) (w_db w')"
proof (clarsimp simp: on_db_run step_ok_def)
  fix db
  assume run: "execute_case rt configured now db_now case_id (w_db w) = (r, db)"
    and inv: "db_inv rt index (w_db w)"
  from execute_case_effect [OF inv run] show "db_inv rt index db \<and> appended (w_db w) db"
    by (auto simp: appended_def)
qed

lemma post_action_step:
  assumes "andthen (on_product (ingest t p a)) (\<lambda>_.
       andthen (on_product (rerun t)) (\<lambda>post.
       andthen (on_db (finalize_evidence rt db_now case_id (Some post))) (\<lambda>_. ret ()))) w = (r, w')"
  shows "step_ok rt index (w_db w) (w_db w')"
  using assms
proof (rule step_ok_andthen)
  fix u q v
  assume "andthen (on_product (rerun t)) (\<lambda>post.
      andthen (on_db (finalize_evidence rt db_now case_id (Some post))) (\<lambda>_. ret ())) u = (q, v)"
  then show "step_ok rt index (w_db u) (w_db v)"
  proof (rule step_ok_andthen)
    fix post u q v
    assume "andthen (on_db (finalize_evidence rt db_now case_id (Some post))) (\<lambda>_. ret ()) u = (q, v)"
    then show "step_ok rt index (w_db u) (w_db v)"
      by (rule step_ok_andthen) (auto intro: finalize_step)
  qed (rule product_step)
qed (rule product_step)

lemma remediation_execute_rest_step:
  assumes "andthen
       (if er_applied result
        then andthen (on_product (ingest t p a)) (\<lambda>_.
             andthen (on_product (rerun t)) (\<lambda>post.
             andthen (on_db (finalize_evidence rt db_now case_id (Some post))) (\<lambda>_. ret ())))
        else ret ()) (\<lambda>_.
     andthen (on_db (require_view case_id)) (\<lambda>view. ret (result, view))) u = (q, v)"
  shows "step_ok rt index (w_db u) (w_db v)"
  using assms
proof (rule step_ok_andthen)
  fix q u' assume "(if er_applied result
        then andthen (on_product (ingest t p a)) (\<lambda>_.
             andthen (on_product (rerun t)) (\<lambda>post.
             andthen (on_db (finalize_evidence rt db_now case_id (Some post))) (\<lambda>_. ret ())))
        else ret ()) u = (q, u')"
  then show "step_ok rt index (w_db u) (w_db u')"
    by (cases "er_applied result") (auto intro: post_action_step)
next
  fix u q v assume "andthen (on_db (require_view case_id)) (\<lambda>view. ret (result, view)) u = (q, v)"
  then show "step_ok rt index (w_db u) (w_db v)"
    by (rule step_ok_andthen) (auto intro: view_step)
qed

lemma remediation_execute_step:
  assumes "remediation_execute ingest rerun rt configured now db_now case_id w = (r, w')"
  shows "step_ok rt index (w_db w) (w_db w')"
  using assms unfolding remediation_execute_def
  by (rule step_ok_andthen)
    (auto intro: execute_case_step remediation_execute_rest_step)

lemma approval_step:
  assumes "remediation_approval rt' db_now role case_id identity w = (r, w')"
  shows "step_ok rt index (w_db w) (w_db w')"
proof (cases "identity = [] \<or> 200 < length identity")
  case True
  with assms show ?thesis by (auto simp: remediation_approval_def)
next
  case False
  then obtain db where run: "submit_remediation_approval rt' db_now case_id role identity (w_db w) = (r, db)"
      and w': "w_db w' = db"
    using assms by (auto simp: remediation_approval_def on_db_run)
  from run have "appended (w_db w) db"
    by (cases rule: submit_approval_effect) (auto simp: appended_def)
  with w' submit_approval_inv [OF _ run] show ?thesis by (simp add: step_ok_def)
qed

lemma api_step_ok:
  assumes "api_step ingest rerun rt index w w'"
  shows "step_ok rt index (w_db w) (w_db w')"
  using assms
proof cases
  case (create token provider db_now tenant_id break_detail canonical break_id r)
  then obtain q db where run: "generate_case index provider token db_now tenant_id break_detail canonical break_id (w_db w) = (q, db)"
      and w': "w_db w' = db"
    by (auto simp: remediation_create_case_def on_db_run dest!: translate_state)
  from run have "appended (w_db w) db"
    by (cases rule: generate_case_effect) (auto simp: appended_def)
  with w' generate_case_inv [OF _ create(1) run] show ?thesis by (simp add: step_ok_def)
next
  case (maker db_now case_id identity v)
  then show ?thesis by (simp add: remediation_maker_approval_def approval_step)
next
  case (checker db_now case_id identity v)
  then show ?thesis by (simp add: remediation_checker_approval_def approval_step)
next
  case (execution configured now db_now case_id x)
  then show ?thesis by (rule remediation_execute_step)
next
  case (evidence case_id v)
  then have "w_db w' = w_db w"
    by (auto simp: remediation_evidence_view_def on_db_def andthen_def
        split: prod.splits sum.splits option.splits dest: case_view_reads)
  then show ?thesis by simp
qed

lemma reachable_inv: "reachable ingest rerun rt index w \<Longrightarrow> db_inv rt index (w_db w)"
  by (induction rule: reachable.induct) (auto simp: db_inv_empty dest: api_step_ok simp: step_ok_def)

section \<open>Properties\<close>

text \<open>C1: whatever requests arrive in whatever order, no execution row says \<open>applied\<close> unless the
  policy gates held for its case's recommendation and facts, and two approvals of that case,
  one by a maker and one by a checker with different identities, are on record.\<close>

theorem no_unapproved_correction:
  assumes "reachable ingest rerun rt index w"
    and "x \<in> set (remediation_executions (w_db w))" and "ex_applied x"
  shows "\<exists>c \<in> set (remediation_cases (w_db w)).
    \<exists>m \<in> set (remediation_approvals (w_db w)). \<exists>k \<in> set (remediation_approvals (w_db w)).
      cr_case_id c = ex_case_id x \<and>
      policy_gates index (cr_ai_recommendation c) (cr_break_facts c) \<and>
      ar_case_id m = cr_case_id c \<and> ar_role m = MAKER \<and> ar_decision m = APPROVE \<and>
      ar_case_id k = cr_case_id c \<and> ar_role k = CHECKER \<and> ar_decision k = APPROVE \<and>
      py_strip (ar_approver_identity m) \<noteq> py_strip (ar_approver_identity k)"
proof -
  have inv: "db_inv rt index (w_db w)" using reachable_inv [OF assms(1)] .
  then obtain c where c: "c \<in> set (remediation_cases (w_db w))" "cr_case_id c = ex_case_id x"
      "eligible c" "two_person (w_db w) (ex_case_id x)"
    using assms(2,3) by (auto simp: db_inv_def execution_ok_def)
  moreover have "policy_gates index (cr_ai_recommendation c) (cr_break_facts c)"
    using inv c(1,3) evaluate_eligible_iff_gates [of index "cr_ai_recommendation c" "cr_break_facts c"]
    by (auto simp: db_inv_def cases_ok_def eligible_def)
  ultimately show ?thesis unfolding two_person_def by metis
qed

text \<open>C25: in every reachable state case identifiers are unique, a case has at most one decision per
  role, and at most one envelope, and only eligible cases have approvals.\<close>

theorem tables_stay_unique:
  assumes "reachable ingest rerun rt index w"
  shows "distinct (case_ids (w_db w)) \<and>
    distinct (map (\<lambda>a. (ar_case_id a, ar_role a)) (remediation_approvals (w_db w))) \<and>
    distinct (map ev_case_id (remediation_envelopes (w_db w))) \<and>
    list_all (\<lambda>a. list_ex (\<lambda>c. cr_case_id c = ar_case_id a \<and>
        pd_outcome (cr_policy_decision c) = ELIGIBLE_FOR_APPROVAL) (remediation_cases (w_db w)))
      (remediation_approvals (w_db w))"
  using reachable_inv [OF assms]
  by (auto simp: db_inv_def cases_ok_def approvals_ok_def envelopes_ok_def list_all_iff list_ex_iff eligible_def)

text \<open>C26: requests never change or remove a row of the append-only tables.\<close>

theorem requests_only_append:
  assumes "reachable ingest rerun rt index w" and "api_step ingest rerun rt index w w'"
  shows "\<exists>cs as vs xs es.
    remediation_cases (w_db w') = remediation_cases (w_db w) @ cs \<and>
    remediation_approvals (w_db w') = remediation_approvals (w_db w) @ as \<and>
    remediation_envelopes (w_db w') = remediation_envelopes (w_db w) @ vs \<and>
    remediation_executions (w_db w') = remediation_executions (w_db w) @ xs \<and>
    remediation_evidence (w_db w') = remediation_evidence (w_db w) @ es"
  using api_step_ok [OF assms(2)] reachable_inv [OF assms(1)] by (auto simp: step_ok_def appended_def)

section \<open>A complete run\<close>

definition no_ingest :: "string \<Rightarrow> string \<Rightarrow> string \<Rightarrow> (unit, remediation_exn, unit) call" where
  "no_ingest t p a = ret ()"

definition no_rerun :: "string \<Rightarrow> (unit, remediation_exn, json) call" where
  "no_rerun t = ret JNull"

definition sample_break_row :: break_row where
  "sample_break_row = \<lparr>
     br_break_id = ''break_0001'', br_run_id = ''run_0001'', br_trade_id = ''trade_0001'',
     br_break_family = ''ECONOMIC_VALUE_MISMATCH'', br_condition_code = ''ECONOMIC_VALUE_MISMATCH'',
     br_product_type = ''FX_SPOT'',
     br_comparisons = [\<lparr>cd_field_path = ''/payload/base_amount'', cd_expected_value = ''1000000.00'',
        cd_observed_value = ''1019000.00'', cd_expected_source_observation_id = Some ''obs_1'',
        cd_observed_source_observation_id = Some ''obs_2''\<rparr>],
     br_source_version_set = [
       \<lparr>sr_source_observation_id = ''obs_1'', sr_source_system = ''FIX_EXECUTION''\<rparr>,
       \<lparr>sr_source_observation_id = ''obs_2'', sr_source_system = ''MOCK_LEGACY_BOOKING''\<rparr>]\<rparr>"

definition sample_provider :: ai_provider where
  "sample_provider = \<lparr>pv_name = ''fixed-test'', pv_recommend = (\<lambda>_ _. Inr sample_recommendation)\<rparr>"

definition sample_token :: string where
  "sample_token = replicate 24 (CHR ''a'')"

definition run_0 :: "unit world" where
  "run_0 = \<lparr>w_db = empty_db, w_product = ()\<rparr>"

definition run_1 :: "unit world" where
  "run_1 = snd (remediation_create_case sample_index sample_provider sample_token sample_now ''tenant_demo''
     [''break_0001'' \<mapsto> sample_break_row]
     [''trade_0001'' \<mapsto> \<lparr>cn_portfolio_id = ''portfolio_1'', cn_base_amount_currency = Some ''EUR''\<rparr>]
     ''break_0001'' run_0)"

definition run_2 :: "unit world" where
  "run_2 = snd (remediation_maker_approval plain_runtime sample_now sample_case_id ''ana'' run_1)"

definition run_3 :: "unit world" where
  "run_3 = snd (remediation_checker_approval plain_runtime sample_now sample_case_id ''bo'' run_2)"

definition run_4 :: "unit world" where
  "run_4 = snd (remediation_execute no_ingest no_rerun plain_runtime ''secret'' sample_now sample_now sample_case_id run_3)"

lemma run_reachable:
  "reachable no_ingest no_rerun plain_runtime sample_index run_3"
  "api_step no_ingest no_rerun plain_runtime sample_index run_3 run_4"
proof -
  have tok: "is_token sample_token"
    by (simp add: is_token_def sample_token_def list_all_iff is_hex_def is_digit_def)
  have "api_step no_ingest no_rerun plain_runtime sample_index run_0 run_1"
    unfolding run_1_def by (rule api_step.create [OF tok prod.collapse [symmetric]])
  moreover have "api_step no_ingest no_rerun plain_runtime sample_index run_1 run_2"
    unfolding run_2_def by (rule api_step.maker [OF prod.collapse [symmetric]])
  moreover have "api_step no_ingest no_rerun plain_runtime sample_index run_2 run_3"
    unfolding run_3_def by (rule api_step.checker [OF prod.collapse [symmetric]])
  moreover have "reachable no_ingest no_rerun plain_runtime sample_index run_0"
    by (rule reachable.start) (simp add: run_0_def)
  ultimately show "reachable no_ingest no_rerun plain_runtime sample_index run_3"
    by (blast intro: reachable.step)
  show "api_step no_ingest no_rerun plain_runtime sample_index run_3 run_4"
    unfolding run_4_def by (rule api_step.execution [OF prod.collapse [symmetric]])
qed

lemma run_search: "\<exists>candidates. search sample_index (candidate_query sample_facts) 5 = Inr candidates"
proof -
  have "\<not> isl (search sample_index (candidate_query sample_facts) 5)" by code_simp
  then show ?thesis by (cases "search sample_index (candidate_query sample_facts) 5") simp_all
qed

lemma run_facts:
  "build_break_facts sample_break_row \<lparr>cn_portfolio_id = ''portfolio_1'', cn_base_amount_currency = Some ''EUR''\<rparr> =
     Inr (sample_facts, \<lparr>sr_source_observation_id = ''obs_2'', sr_source_system = ''MOCK_LEGACY_BOOKING''\<rparr>)"
  by code_simp

lemma run_eligible: "pd_outcome (evaluate sample_index sample_recommendation sample_facts) = ELIGIBLE_FOR_APPROVAL"
  by code_simp

definition run_case :: case_row where
  "run_case = sample_case\<lparr>cr_ai_provider := ''fixed-test''\<rparr>"

definition run_db :: remediation_db where
  "run_db = \<lparr>
     legacy_booking_records = [sample_key \<mapsto> sample_record\<lparr>lb_source_observation_id := ''obs_2''\<rparr>],
     remediation_cases = [run_case], remediation_approvals = [], remediation_envelopes = [],
     remediation_executions = [], remediation_evidence = []\<rparr>"

definition run_approval :: "ApprovalRole \<Rightarrow> string \<Rightarrow> approval_row" where
  "run_approval role identity = \<lparr>ar_case_id = sample_case_id, ar_role = role, ar_approver_identity = identity,
     ar_decision = APPROVE,
     ar_approved_recommendation_hash = recommendation_content_hash plain_runtime sample_recommendation,
     ar_decided_at = sample_now\<rparr>"

lemma run_db_1: "w_db run_1 = run_db"
proof -
  obtain candidates where c: "search sample_index (candidate_query sample_facts) 5 = Inr candidates"
    using run_search by blast
  have d: "decimal_scale ''1019000.00'' = 2" by code_simp
  have f: "bf_break_id sample_facts = ''break_0001''" "bf_product_type sample_facts = ''FX_SPOT''"
    "bf_observed_value sample_facts = ''1019000.00''" "bf_trade_value_currency sample_facts = ''EUR''"
    by (simp_all add: sample_facts_def)
  have r: "br_trade_id sample_break_row = ''trade_0001''" "br_run_id sample_break_row = ''run_0001''"
    by (simp_all add: sample_break_row_def)
  show ?thesis
    by (simp add: run_1_def remediation_create_case_def translate_def on_db_def generate_case_def r run_facts c d f Let_def
        sample_provider_def insert_case_def seed_legacy_booking_record_def andthen_def run_0_def empty_db_def
        case_ids_def run_db_def run_case_def sample_case_def sample_record_def sample_key_def new_case_id_def
        sample_token_def sample_case_id_def)
qed

lemma run_case_simps [simp]:
  "cr_case_id run_case = sample_case_id" "pd_outcome (cr_policy_decision run_case) = ELIGIBLE_FOR_APPROVAL"
  "cr_ai_recommendation run_case = sample_recommendation"
  by (simp_all add: run_case_def sample_case_def run_eligible)

lemma run_db_2: "w_db run_2 = run_db\<lparr>remediation_approvals := [run_approval MAKER ''ana'']\<rparr>"
proof -
  have "remediation_maker_approval plain_runtime sample_now sample_case_id ''ana'' run_1 =
      on_db (submit_remediation_approval plain_runtime sample_now sample_case_id MAKER ''ana'') run_1"
    by (simp add: remediation_maker_approval_def remediation_approval_def)
  then show ?thesis
    by (simp add: run_2_def on_db_def run_db_1 submit_remediation_approval_def require_remediation_case_def
        get_case_def get_approvals_def approvals_of_def insert_approval_def translate_def case_ids_def
        require_view_def case_view_def get_envelope_def get_executions_def get_evidence_def envelope_of_def
        executions_of_def evidence_of_def andthen_def run_db_def run_approval_def)
qed

lemma run_db_3: "w_db run_3 =
    run_db\<lparr>remediation_approvals := [run_approval MAKER ''ana'', run_approval CHECKER ''bo'']\<rparr>"
proof -
  have "remediation_checker_approval plain_runtime sample_now sample_case_id ''bo'' run_2 =
      on_db (submit_remediation_approval plain_runtime sample_now sample_case_id CHECKER ''bo'') run_2"
    by (simp add: remediation_checker_approval_def remediation_approval_def)
  then show ?thesis
    by (simp add: run_3_def on_db_def run_db_2 submit_remediation_approval_def require_remediation_case_def
        get_case_def get_approvals_def approvals_of_def insert_approval_def translate_def case_ids_def
        require_view_def case_view_def get_envelope_def get_executions_def get_evidence_def envelope_of_def
        executions_of_def evidence_of_def andthen_def run_db_def run_approval_def)
qed

lemma run_decision:
  "approved_field_path (cr_policy_decision run_case) = Some ''/payload/base_amount''"
  "pd_approved_value (cr_policy_decision run_case) = Some ''1000000.00''"
  using eligible_decision_content [OF run_eligible]
  by (simp_all add: run_case_def sample_case_def sample_facts_def)

lemma run_request:
  "envelope_request_for run_case ''/payload/base_amount'' ''1000000.00''
     (run_approval MAKER ''ana'') (run_approval CHECKER ''bo'') = sample_request"
  by (simp add: envelope_request_for_def run_case_def sample_case_def run_approval_def sample_request_def
      sample_facts_def)

lemma run_built:
  "build_envelope plain_runtime ''secret'' sample_now sample_request None ENVELOPE_TTL_SECONDS None = Inr sample_envelope"
  using sample_built
  by (simp add: build_envelope_def sign_content_hash_def signing_secret_def ENVELOPE_TTL_SECONDS_def Let_def)

definition run_approvals :: "Approval list" where
  "run_approvals = map (\<lambda>(role, identity). \<lparr>ap_role = role, ap_approver_identity = identity,
     ap_decision = APPROVE, ap_decided_at = sample_now,
     ap_approved_recommendation_hash =
       py_strip (recommendation_content_hash plain_runtime sample_recommendation)\<rparr>)
     [(CHECKER, ''bo''), (MAKER, ''ana'')]"

lemma run_approvals_of:
  "approvals_of (w_db run_3) sample_case_id = [run_approval CHECKER ''bo'', run_approval MAKER ''ana'']"
proof -
  have "\<not> role_str MAKER \<le> role_str CHECKER" by code_simp
  then show ?thesis by (simp add: approvals_of_def run_db_3 run_approval_def)
qed

lemma run_approval_role: "ar_role (run_approval role identity) = role"
  by (simp add: run_approval_def)

lemma run_models: "emap approval_model [run_approval CHECKER ''bo'', run_approval MAKER ''ana''] = Inr run_approvals"
  by (simp add: approval_model_def run_approval_def run_approvals_def mk_Approval_def checked_def first_error.simps
      py_strip_def is_space_def)

lemma run_gates: "executor_gates plain_runtime ''secret'' None sample_now sample_envelope run_approvals"
proof -
  have "verify_envelope plain_runtime ''secret'' None sample_now sample_envelope = Inr ()"
    using sample_verified plain_hmac_ascii by (simp add: verify_envelope_Inr_iff signing_secret_def)
  moreover have "require_valid_approvals sample_envelope run_approvals = Inr ()"
    by (simp add: require_valid_approvals_def approved_by_role_def run_approvals_def sample_envelope_fields)
  ultimately show ?thesis
    by (simp add: executor_gates_def sample_envelope_fields ALLOWED_PROPOSED_FIELDS_def)
qed

lemma run_execute_case:
  "\<exists>result db x. execute_case plain_runtime ''secret'' sample_now sample_now sample_case_id (w_db run_3) =
     (Inr (run_case, sample_envelope, result), db) \<and> remediation_executions db = [x] \<and> ex_applied x"
proof -
  define db1 where "db1 = (w_db run_3)\<lparr>remediation_envelopes := [\<lparr>
      ev_case_id = sample_case_id, ev_idempotency_key = ae_idempotency_key sample_envelope,
      ev_envelope_document = sample_envelope, ev_content_hash = ae_content_hash sample_envelope,
      ev_issued_at = ae_issued_at sample_envelope, ev_expires_at = ae_expires_at sample_envelope,
      ev_created_at = sample_now\<rparr>]\<rparr>"
  have iss: "\<exists>v. issue_envelope plain_runtime ''secret'' sample_now sample_now run_case (run_approval MAKER ''ana'')
      (run_approval CHECKER ''bo'') (w_db run_3) = (Inr v, db1) \<and> ev_envelope_document v = sample_envelope"
    by (simp add: issue_envelope_def get_envelope_def envelope_of_def run_db_3 run_db_def run_decision
        run_request run_built insert_envelope_if_absent_def andthen_def case_ids_def db1_def)
  have ex: "\<exists>result db x. execute plain_runtime ''secret'' None sample_now sample_now sample_envelope
      run_approvals NORMAL db1 = (Inr result, db) \<and> remediation_executions db = [x] \<and> ex_applied x"
    by (simp add: execute_gates_open [OF run_gates] sample_envelope_fields andthen_def adapter_apply_def
        apply_legacy_booking_correction_def report_outcome_def record_attempt_def insert_execution_def
        db1_def run_db_3 run_db_def sample_record_def case_ids_def)
  have "require_remediation_case sample_case_id (w_db run_3) = (Inr run_case, w_db run_3)"
    by (simp add: find_case run_db_3 run_db_def)
  moreover have "List.find (\<lambda>r. ar_role r = MAKER) (approvals_of (w_db run_3) sample_case_id) = Some (run_approval MAKER ''ana'')"
    "List.find (\<lambda>r. ar_role r = CHECKER) (approvals_of (w_db run_3) sample_case_id) = Some (run_approval CHECKER ''bo'')"
    by (simp_all add: run_approvals_of run_approval_def)
  ultimately show ?thesis
    using iss ex
    by (auto simp: execute_case_def andthen_def get_approvals_def run_approvals_of run_models sample_envelope_stable
        run_approval_role simp del: emap.simps)
qed

lemma run_applied: "\<exists>x \<in> set (remediation_executions (w_db run_4)). ex_applied x"
proof -
  obtain result db x where run: "execute_case plain_runtime ''secret'' sample_now sample_now sample_case_id (w_db run_3) =
      (Inr (run_case, sample_envelope, result), db)" and x: "remediation_executions db = [x]" "ex_applied x"
    using run_execute_case by blast
  obtain q w where rest: "andthen
       (if er_applied result
        then andthen (on_product (no_ingest (cr_trade_id run_case) (ae_field_path sample_envelope) (ae_approved_value sample_envelope))) (\<lambda>_.
             andthen (on_product (no_rerun (cr_trade_id run_case))) (\<lambda>post.
             andthen (on_db (finalize_evidence plain_runtime sample_now sample_case_id (Some post))) (\<lambda>_. ret ())))
        else ret ()) (\<lambda>_. andthen (on_db (require_view sample_case_id)) (\<lambda>view. ret (result, view)))
       (run_3\<lparr>w_db := db\<rparr>) = (q, w)"
    by (meson surj_pair)
  have first: "on_db (execute_case plain_runtime ''secret'' sample_now sample_now sample_case_id) run_3 =
      (Inr (run_case, sample_envelope, result), run_3\<lparr>w_db := db\<rparr>)"
    using run by (simp add: on_db_run)
  have w: "run_4 = w"
    unfolding run_4_def remediation_execute_def
    by (subst andthen_step, rule first) (simp add: rest)
  have "step_ok plain_runtime sample_index db (w_db w)"
    using remediation_execute_rest_step [where ingest = no_ingest and rerun = no_rerun and
        t = "cr_trade_id run_case" and p = "ae_field_path sample_envelope" and
        a = "ae_approved_value sample_envelope", OF rest] by simp
  moreover have "db_inv plain_runtime sample_index db"
    using execute_case_effect(1) [OF reachable_inv [OF run_reachable(1)] run] .
  ultimately have "appended db (w_db w)" by (simp add: step_ok_def)
  with x show ?thesis by (auto simp: w appended_def)
qed

theorem no_unapproved_correction_witness:
  "\<exists>x \<in> set (remediation_executions (w_db run_4)). ex_applied x \<and>
     (\<exists>c \<in> set (remediation_cases (w_db run_4)). cr_case_id c = ex_case_id x \<and>
        policy_gates sample_index (cr_ai_recommendation c) (cr_break_facts c))"
  using run_applied no_unapproved_correction [OF reachable.step [OF run_reachable]] by blast

theorem tables_stay_unique_witness:
  "distinct (case_ids (w_db run_4)) \<and>
   distinct (map (\<lambda>a. (ar_case_id a, ar_role a)) (remediation_approvals (w_db run_4)))"
  using tables_stay_unique [OF reachable.step [OF run_reachable]] by blast

theorem requests_only_append_witness:
  "\<exists>xs. remediation_executions (w_db run_4) = remediation_executions (w_db run_3) @ xs"
  using requests_only_append [OF run_reachable] by blast

end
