(* ===== verification/Contract_Types.thy ===== *)
theory Contract_Types
  imports Runtime
begin

text \<open>
  \<open>packages/contracts/models.py\<close>, first part: the literals, the string patterns, the
  decimal amounts and rates, and the settlement window that every FX document obeys.
  A record of the contract theories holds the field values as pydantic has parsed them, its
  strings already stripped (\<open>str_strip_whitespace\<close>); \<open>mk_X\<close> applies the field
  constraints and the model validators of class \<open>X\<close> to it and gives the document or what the
  construction raises.
\<close>

section \<open>Literals\<close>

datatype SourceSystem = FIX_EXECUTION | FIX_TRADE_CAPTURE | FPML_CONFIRMATION | MOCK_LEGACY_BOOKING

datatype ObservationKind = EXECUTION | TRADE_CAPTURE | CONFIRMATION | BOOKING

datatype ProductType = FX_SPOT | FX_FORWARD

datatype Side = BUY_BASE | SELL_BASE

datatype LifecycleStatus =
  NEW | CAPTURED | CONFIRMED | BOOKED | AMENDED | CANCELLED | SETTLED

datatype ConflictStatus = SELECTED | SECONDARY_SUPPORTING | CONFLICTING | UNAVAILABLE

datatype IdentityType = SYSTEM | HUMAN | AGENT | SOURCE

fun source_system_str :: "SourceSystem \<Rightarrow> string" where
  "source_system_str FIX_EXECUTION = ''FIX_EXECUTION''"
| "source_system_str FIX_TRADE_CAPTURE = ''FIX_TRADE_CAPTURE''"
| "source_system_str FPML_CONFIRMATION = ''FPML_CONFIRMATION''"
| "source_system_str MOCK_LEGACY_BOOKING = ''MOCK_LEGACY_BOOKING''"

fun kind_str :: "ObservationKind \<Rightarrow> string" where
  "kind_str EXECUTION = ''EXECUTION''"
| "kind_str TRADE_CAPTURE = ''TRADE_CAPTURE''"
| "kind_str CONFIRMATION = ''CONFIRMATION''"
| "kind_str BOOKING = ''BOOKING''"

fun product_str :: "ProductType \<Rightarrow> string" where
  "product_str FX_SPOT = ''FX_SPOT''"
| "product_str FX_FORWARD = ''FX_FORWARD''"

fun side_str :: "Side \<Rightarrow> string" where
  "side_str BUY_BASE = ''BUY_BASE''"
| "side_str SELL_BASE = ''SELL_BASE''"

fun lifecycle_str :: "LifecycleStatus \<Rightarrow> string" where
  "lifecycle_str NEW = ''NEW''"
| "lifecycle_str CAPTURED = ''CAPTURED''"
| "lifecycle_str CONFIRMED = ''CONFIRMED''"
| "lifecycle_str BOOKED = ''BOOKED''"
| "lifecycle_str AMENDED = ''AMENDED''"
| "lifecycle_str CANCELLED = ''CANCELLED''"
| "lifecycle_str SETTLED = ''SETTLED''"

text \<open>\<open>_SOURCE_SYSTEM_BY_OBSERVATION_KIND\<close>.\<close>

fun source_system_by_kind :: "ObservationKind \<Rightarrow> SourceSystem" where
  "source_system_by_kind EXECUTION = FIX_EXECUTION"
| "source_system_by_kind TRADE_CAPTURE = FIX_TRADE_CAPTURE"
| "source_system_by_kind CONFIRMATION = FPML_CONFIRMATION"
| "source_system_by_kind BOOKING = MOCK_LEGACY_BOOKING"

section \<open>String patterns\<close>

definition ident_char :: "char \<Rightarrow> bool" where
  "ident_char c \<longleftrightarrow> is_lower_alpha c \<or> is_digit c \<or> c = CHR ''_'' \<or> c = CHR ''-''"

text \<open>\<open>^[a-z][a-z0-9_-]{2,127}$\<close>.\<close>

definition is_identifier :: "string \<Rightarrow> bool" where
  "is_identifier s \<longleftrightarrow> s \<noteq> [] \<and> is_lower_alpha (hd s) \<and>
     2 \<le> length (tl s) \<and> length (tl s) \<le> 127 \<and> list_all ident_char (tl s)"

text \<open>\<open>^<prefix>[a-z0-9][a-z0-9_-]{1,n}$\<close>.\<close>

definition is_prefixed_id :: "string \<Rightarrow> nat \<Rightarrow> string \<Rightarrow> bool" where
  "is_prefixed_id p n s \<longleftrightarrow> starts_with s p \<and> (case remove_prefix s p of
     [] \<Rightarrow> False
   | c # r \<Rightarrow> (is_lower_alpha c \<or> is_digit c) \<and> 1 \<le> length r \<and> length r \<le> n \<and> list_all ident_char r)"

definition is_tenant_id :: "string \<Rightarrow> bool" where
  "is_tenant_id = is_prefixed_id ''tenant_'' 63"

definition is_portfolio_id :: "string \<Rightarrow> bool" where
  "is_portfolio_id = is_prefixed_id ''portfolio_'' 63"

definition is_correlation_id :: "string \<Rightarrow> bool" where
  "is_correlation_id = is_prefixed_id ''corr_'' 127"

text \<open>\<open>^(0|[1-9][0-9]*)(\.[0-9]+)?$\<close>.\<close>

definition is_decimal_value :: "string \<Rightarrow> bool" where
  "is_decimal_value s \<longleftrightarrow> (
     let whole = takeWhile (\<lambda>c. c \<noteq> CHR ''.'') s; frac = dropWhile (\<lambda>c. c \<noteq> CHR ''.'') s in
     whole \<noteq> [] \<and> list_all is_digit whole \<and> (whole = ''0'' \<or> hd whole \<noteq> CHR ''0'') \<and>
     (frac = [] \<or> tl frac \<noteq> [] \<and> list_all is_digit (tl frac)))"

text \<open>\<open>^[1-9][0-9]{0,18}$\<close>, \<open>^[A-Z]{3}$\<close> and \<open>^[0-9]+\.[0-9]+\.[0-9]+$\<close>.\<close>

definition is_source_version :: "string \<Rightarrow> bool" where
  "is_source_version s \<longleftrightarrow> s \<noteq> [] \<and> length s \<le> 19 \<and> list_all is_digit s \<and> hd s \<noteq> CHR ''0''"

definition is_currency :: "string \<Rightarrow> bool" where
  "is_currency s \<longleftrightarrow> length s = 3 \<and> list_all is_upper_alpha s"

definition is_semantic_version :: "string \<Rightarrow> bool" where
  "is_semantic_version s \<longleftrightarrow> (
     let a = takeWhile (\<lambda>c. c \<noteq> CHR ''.'') s; r = tl (dropWhile (\<lambda>c. c \<noteq> CHR ''.'') s);
         b = takeWhile (\<lambda>c. c \<noteq> CHR ''.'') r; c = dropWhile (\<lambda>c. c \<noteq> CHR ''.'') r in
     a \<noteq> [] \<and> list_all is_digit a \<and> b \<noteq> [] \<and> list_all is_digit b \<and>
     c \<noteq> [] \<and> tl c \<noteq> [] \<and> list_all is_digit (tl c))"

definition path_char :: "char \<Rightarrow> bool" where
  "path_char c \<longleftrightarrow> ident_char c \<or> c = CHR ''/''"

definition is_path_under :: "string \<Rightarrow> string \<Rightarrow> bool" where
  "is_path_under p s \<longleftrightarrow> starts_with s p \<and> (case remove_prefix s p of
     [] \<Rightarrow> False | c # r \<Rightarrow> is_lower_alpha c \<and> list_all path_char r)"

definition is_field_path :: "string \<Rightarrow> bool" where
  "is_field_path = is_path_under ''/payload/''"

definition is_break_field_path :: "string \<Rightarrow> bool" where
  "is_break_field_path s \<longleftrightarrow>
     is_path_under ''/payload/'' s \<or> is_path_under ''/linkage/'' s \<or> is_path_under ''/source/'' s"

section \<open>Amounts, rates, actors\<close>

definition require_timezone :: "datetime \<Rightarrow> py_error + datetime" where
  "require_timezone t =
     (if utcoffset t = None then Inl (ValueError ''timestamp must include a timezone offset'') else Inr t)"

record DecimalAmount =
  da_currency :: string
  da_value :: string
  da_scale :: int

definition mk_DecimalAmount :: "DecimalAmount \<Rightarrow> py_error + DecimalAmount" where
  "mk_DecimalAmount a = checked [
     (\<not> is_currency (da_currency a), ValueError ''currency''),
     (\<not> is_decimal_value (da_value a), ValueError ''value''),
     (da_scale a < 0 \<or> 18 < da_scale a, ValueError ''scale''),
     (int (length (after_point (da_value a))) \<noteq> da_scale a,
        ValueError ''decimal value must contain exactly the declared scale'')] a"

text \<open>\<open>orientation\<close> is the one-valued literal \<open>"TERMS_CURRENCY_PER_BASE_CURRENCY"\<close>.\<close>

record DecimalRate =
  dr_value :: string
  dr_scale :: int

definition mk_DecimalRate :: "DecimalRate \<Rightarrow> py_error + DecimalRate" where
  "mk_DecimalRate r = checked [
     (\<not> is_decimal_value (dr_value r), ValueError ''value''),
     (dr_scale r < 0 \<or> 18 < dr_scale r, ValueError ''scale''),
     (int (length (after_point (dr_value r))) \<noteq> dr_scale r,
        ValueError ''decimal value must contain exactly the declared scale'')] r"

record Actor =
  identity_type :: IdentityType
  actor_id :: string

definition mk_Actor :: "Actor \<Rightarrow> py_error + Actor" where
  "mk_Actor a = checked [(\<not> is_identifier (actor_id a), ValueError ''actor_id'')] a"

section \<open>The settlement window\<close>

definition validate_settlement_window :: "ProductType \<Rightarrow> date \<Rightarrow> date \<Rightarrow> py_error + unit" where
  "validate_settlement_window product_type trade_date value_date = checked [
     (value_date < trade_date, ValueError ''value_date must not precede trade_date''),
     (product_type = FX_FORWARD \<and> value_date \<le> trade_date,
        ValueError ''FX_FORWARD value_date must be after trade_date''),
     (product_type = FX_SPOT \<and> 4 < value_date - trade_date,
        ValueError ''FX_SPOT value_date must be within the versioned T+0-to-T+2 business-day envelope'')] ()"

lemma settlement_window_Inr:
  "validate_settlement_window p t v = Inr u \<longleftrightarrow>
     (case p of FX_SPOT \<Rightarrow> t \<le> v \<and> v \<le> t + 4 | FX_FORWARD \<Rightarrow> t < v)"
  by (cases p) (auto simp: validate_settlement_window_def check_simps)

text \<open>The strings of an enumeration are different.\<close>

lemma kind_str_inj [simp]: "kind_str a = kind_str b \<longleftrightarrow> a = b"
  by (cases a; cases b) simp_all

lemma lifecycle_str_inj [simp]: "lifecycle_str a = lifecycle_str b \<longleftrightarrow> a = b"
  by (cases a; cases b) simp_all

lemma product_str_inj [simp]: "product_str x = product_str y \<longleftrightarrow> x = y"
  by (cases x; cases y) simp_all

lemma side_str_inj [simp]: "side_str x = side_str y \<longleftrightarrow> x = y"
  by (cases x; cases y) simp_all

end
