(* ===== verification/Contract_Observations.thy ===== *)
theory Contract_Observations
  imports Contract_Types
begin

text \<open>
  \<open>packages/contracts/models.py\<close>, observations: the FX payload shared by all sources, the
  four source payloads, and the immutable observation envelope. The four observation classes
  fix \<open>observation_kind\<close> and \<open>source_system\<close> by their payload class, so both are functions
  of the payload here.
\<close>

section \<open>Payloads\<close>

record FxPayload =
  fx_product_type :: ProductType
  fx_settlement_rule_version :: string
  fx_source_trade_id :: string
  fx_base_currency :: string
  fx_terms_currency :: string
  fx_side :: Side
  fx_base_amount :: DecimalAmount
  fx_terms_amount :: DecimalAmount
  fx_quoted_rate :: DecimalRate
  fx_trade_date :: date
  fx_value_date :: date
  fx_counterparty_id :: string
  fx_book_id :: string
  fx_lifecycle_status :: LifecycleStatus

text \<open>The fields of the payload and their own models.\<close>

definition FxPayload_fields :: "FxPayload \<Rightarrow> py_error + unit" where
  "FxPayload_fields p =
     ebind (checked [
       (fx_settlement_rule_version p \<noteq> ''1.0.0'', ValueError ''settlement_rule_version''),
       (\<not> is_identifier (fx_source_trade_id p), ValueError ''source_trade_id''),
       (\<not> is_currency (fx_base_currency p), ValueError ''base_currency''),
       (\<not> is_currency (fx_terms_currency p), ValueError ''terms_currency''),
       (\<not> is_identifier (fx_counterparty_id p), ValueError ''counterparty_id''),
       (\<not> is_identifier (fx_book_id p), ValueError ''book_id'')] ()) (\<lambda>_.
     ebind (mk_DecimalAmount (fx_base_amount p)) (\<lambda>_.
     ebind (mk_DecimalAmount (fx_terms_amount p)) (\<lambda>_.
     ebind (mk_DecimalRate (fx_quoted_rate p)) (\<lambda>_. Inr ()))))"

definition validate_currency_and_dates :: "FxPayload \<Rightarrow> py_error + unit" where
  "validate_currency_and_dates p =
     ebind (checked [
       (fx_base_currency p = fx_terms_currency p,
          ValueError ''base_currency and terms_currency must differ''),
       (da_currency (fx_base_amount p) \<noteq> fx_base_currency p,
          ValueError ''base_amount.currency must equal base_currency''),
       (da_currency (fx_terms_amount p) \<noteq> fx_terms_currency p,
          ValueError ''terms_amount.currency must equal terms_currency'')] ()) (\<lambda>_.
     validate_settlement_window (fx_product_type p) (fx_trade_date p) (fx_value_date p))"

datatype TradeEventType = EVENT_NEW | EVENT_AMEND | EVENT_CANCEL

datatype ExecutionStatus = EXECUTED | EXECUTION_AMENDED | EXECUTION_CANCELLED

datatype CaptureStatus = CAPTURE_CAPTURED | CAPTURE_AMENDED | CAPTURE_CANCELLED

datatype ConfirmationStatus = PENDING | AFFIRMED | CONFIRMATION_REJECTED | CONFIRMATION_AMENDED | CONFIRMATION_CANCELLED

datatype BookingStatus = BOOKING_BOOKED | BOOKING_AMENDED | BOOKING_CANCELLED

record ExecutionPayload =
  execution_id :: string
  execution_type :: TradeEventType
  execution_status :: ExecutionStatus
  execution_time :: datetime
  order_id :: "string option"

record TradeCapturePayload =
  capture_id :: string
  capture_type :: TradeEventType
  capture_status :: CaptureStatus
  capture_time :: datetime
  execution_reference :: string

record ConfirmationPayload =
  confirmation_id :: string
  cp_confirmation_reference :: string
  confirmation_status :: ConfirmationStatus
  confirmation_time :: datetime

record BookingPayload =
  booking_record_id :: string
  booking_version :: int
  booking_status :: BookingStatus
  last_updated_time :: datetime
  bp_confirmation_reference :: "string option"
  record_fingerprint :: string

datatype SourcePayload =
    ExecutionSource ExecutionPayload
  | TradeCaptureSource TradeCapturePayload
  | ConfirmationSource ConfirmationPayload
  | BookingSource BookingPayload

fun execution_expected :: "TradeEventType \<Rightarrow> ExecutionStatus \<times> LifecycleStatus" where
  "execution_expected EVENT_NEW = (EXECUTED, NEW)"
| "execution_expected EVENT_AMEND = (EXECUTION_AMENDED, AMENDED)"
| "execution_expected EVENT_CANCEL = (EXECUTION_CANCELLED, CANCELLED)"

fun capture_expected :: "TradeEventType \<Rightarrow> CaptureStatus \<times> LifecycleStatus" where
  "capture_expected EVENT_NEW = (CAPTURE_CAPTURED, CAPTURED)"
| "capture_expected EVENT_AMEND = (CAPTURE_AMENDED, AMENDED)"
| "capture_expected EVENT_CANCEL = (CAPTURE_CANCELLED, CANCELLED)"

fun confirmation_expected :: "ConfirmationStatus \<Rightarrow> LifecycleStatus" where
  "confirmation_expected PENDING = CAPTURED"
| "confirmation_expected AFFIRMED = CONFIRMED"
| "confirmation_expected CONFIRMATION_REJECTED = CANCELLED"
| "confirmation_expected CONFIRMATION_AMENDED = AMENDED"
| "confirmation_expected CONFIRMATION_CANCELLED = CANCELLED"

fun booking_lifecycle :: "BookingStatus \<Rightarrow> LifecycleStatus" where
  "booking_lifecycle BOOKING_BOOKED = BOOKED"
| "booking_lifecycle BOOKING_AMENDED = AMENDED"
| "booking_lifecycle BOOKING_CANCELLED = CANCELLED"

definition opt_identifier :: "string option \<Rightarrow> bool" where
  "opt_identifier x = (case x of None \<Rightarrow> True | Some s \<Rightarrow> is_identifier s)"

definition validate_execution_status :: "ExecutionPayload \<Rightarrow> LifecycleStatus \<Rightarrow> py_error + unit" where
  "validate_execution_status d status = checked [
     (\<not> is_identifier (execution_id d), ValueError ''execution_id''),
     (\<not> aware (execution_time d), ValueError ''timestamp must include a timezone offset''),
     (\<not> opt_identifier (order_id d), ValueError ''order_id''),
     ((execution_status d, status) \<noteq> execution_expected (execution_type d),
        ValueError ''execution type, status, and lifecycle_status are inconsistent'')] ()"

definition validate_capture_status :: "TradeCapturePayload \<Rightarrow> LifecycleStatus \<Rightarrow> py_error + unit" where
  "validate_capture_status d status = checked [
     (\<not> is_identifier (capture_id d), ValueError ''capture_id''),
     (\<not> aware (capture_time d), ValueError ''timestamp must include a timezone offset''),
     (\<not> is_identifier (execution_reference d), ValueError ''execution_reference''),
     ((capture_status d, status) \<noteq> capture_expected (capture_type d),
        ValueError ''capture type, status, and lifecycle_status are inconsistent'')] ()"

definition validate_confirmation_status :: "ConfirmationPayload \<Rightarrow> LifecycleStatus \<Rightarrow> py_error + unit" where
  "validate_confirmation_status d status = checked [
     (\<not> is_identifier (confirmation_id d), ValueError ''confirmation_id''),
     (cp_confirmation_reference d = [] \<or> 128 < length (cp_confirmation_reference d),
        ValueError ''confirmation_reference''),
     (\<not> aware (confirmation_time d), ValueError ''timestamp must include a timezone offset''),
     (status \<noteq> confirmation_expected (confirmation_status d),
        ValueError ''confirmation status and lifecycle_status are inconsistent'')] ()"

definition validate_booking_status :: "BookingPayload \<Rightarrow> LifecycleStatus \<Rightarrow> py_error + unit" where
  "validate_booking_status d status = checked [
     (\<not> is_identifier (booking_record_id d), ValueError ''booking_record_id''),
     (booking_version d < 1, ValueError ''booking_version''),
     (\<not> aware (last_updated_time d), ValueError ''timestamp must include a timezone offset''),
     (128 < length (case bp_confirmation_reference d of None \<Rightarrow> [] | Some r \<Rightarrow> r),
        ValueError ''confirmation_reference''),
     (\<not> is_sha256_hash (record_fingerprint d), ValueError ''record_fingerprint''),
     (booking_lifecycle (booking_status d) \<noteq> status,
        ValueError ''booking_status and lifecycle_status are inconsistent'')] ()"

fun validate_source_status :: "SourcePayload \<Rightarrow> LifecycleStatus \<Rightarrow> py_error + unit" where
  "validate_source_status (ExecutionSource d) status = validate_execution_status d status"
| "validate_source_status (TradeCaptureSource d) status = validate_capture_status d status"
| "validate_source_status (ConfirmationSource d) status = validate_confirmation_status d status"
| "validate_source_status (BookingSource d) status = validate_booking_status d status"

section \<open>Observations\<close>

datatype SupersessionReason = CORRECTION | LATE_REVISION | SOURCE_AMENDMENT

record Observation =
  ob_observation_id :: string
  ob_entity_version :: int
  ob_tenant_id :: string
  ob_portfolio_id :: string
  ob_correlation_id :: string
  ob_source_event_id :: string
  ob_source_business_key :: string
  ob_source_version :: string
  ob_content_hash :: string
  ob_event_time :: datetime
  ob_effective_time :: datetime
  ob_ingest_time :: datetime
  ob_source_sequence :: int
  ob_lineage_group_id :: string
  ob_actor :: Actor
  ob_supersedes_observation_id :: "string option"
  ob_supersession_reason :: "SupersessionReason option"
  ob_payload :: FxPayload
  ob_source :: SourcePayload

fun kind_of_source :: "SourcePayload \<Rightarrow> ObservationKind" where
  "kind_of_source (ExecutionSource _) = EXECUTION"
| "kind_of_source (TradeCaptureSource _) = TRADE_CAPTURE"
| "kind_of_source (ConfirmationSource _) = CONFIRMATION"
| "kind_of_source (BookingSource _) = BOOKING"

definition ob_kind :: "Observation \<Rightarrow> ObservationKind" where
  "ob_kind ob = kind_of_source (ob_source ob)"

definition ob_source_system :: "Observation \<Rightarrow> SourceSystem" where
  "ob_source_system ob = source_system_by_kind (ob_kind ob)"

text \<open>The one of the four \<open>*_time\<close> fields that the payload has, with its name.\<close>

fun source_time :: "SourcePayload \<Rightarrow> string \<times> datetime" where
  "source_time (ExecutionSource d) = (''execution_time'', execution_time d)"
| "source_time (TradeCaptureSource d) = (''capture_time'', capture_time d)"
| "source_time (ConfirmationSource d) = (''confirmation_time'', confirmation_time d)"
| "source_time (BookingSource d) = (''last_updated_time'', last_updated_time d)"

definition Observation_fields :: "Observation \<Rightarrow> py_error + unit" where
  "Observation_fields ob = ebind (mk_Actor (ob_actor ob)) (\<lambda>_. checked [
     (\<not> is_identifier (ob_observation_id ob), ValueError ''observation_id''),
     (ob_entity_version ob < 1, ValueError ''entity_version''),
     (\<not> is_tenant_id (ob_tenant_id ob), ValueError ''tenant_id''),
     (\<not> is_portfolio_id (ob_portfolio_id ob), ValueError ''portfolio_id''),
     (\<not> is_correlation_id (ob_correlation_id ob), ValueError ''correlation_id''),
     (\<not> is_identifier (ob_source_event_id ob), ValueError ''source_event_id''),
     (\<not> is_identifier (ob_source_business_key ob), ValueError ''source_business_key''),
     (\<not> is_source_version (ob_source_version ob), ValueError ''source_version''),
     (\<not> is_sha256_hash (ob_content_hash ob), ValueError ''content_hash''),
     (\<not> aware (ob_event_time ob), ValueError ''timestamp must include a timezone offset''),
     (\<not> aware (ob_effective_time ob), ValueError ''timestamp must include a timezone offset''),
     (\<not> aware (ob_ingest_time ob), ValueError ''timestamp must include a timezone offset''),
     (ob_source_sequence ob < 0, ValueError ''source_sequence''),
     (\<not> is_identifier (ob_lineage_group_id ob), ValueError ''lineage_group_id''),
     (\<not> opt_identifier (ob_supersedes_observation_id ob), ValueError ''supersedes_observation_id'')] ())"

definition validate_time_and_supersession :: "Observation \<Rightarrow> py_error + unit" where
  "validate_time_and_supersession ob = checked [
     (ob_entity_version ob \<noteq> 1,
        ValueError ''observation entity_version must be 1; revisions create a new observation_id''),
     (instant (ob_ingest_time ob) < instant (ob_event_time ob),
        ValueError ''event_time must not be after ingest_time''),
     (instant (ob_ingest_time ob) < instant (snd (source_time (ob_source ob))),
        ValueError (''payload.'' @ fst (source_time (ob_source ob)) @ '' must not be after ingest_time'')),
     (ob_supersedes_observation_id ob = None \<and> ob_supersession_reason ob \<noteq> None,
        ValueError ''supersession_reason requires supersedes_observation_id''),
     (ob_supersedes_observation_id ob \<noteq> None \<and> ob_supersession_reason ob = None,
        ValueError ''supersedes_observation_id requires supersession_reason'')] ()"

text \<open>Fields, then the payload's validators (base class first), then the envelope's.\<close>

definition validate_observation :: "Observation \<Rightarrow> py_error + Observation" where
  "validate_observation ob =
     ebind (Observation_fields ob) (\<lambda>_.
     ebind (FxPayload_fields (ob_payload ob)) (\<lambda>_.
     ebind (validate_currency_and_dates (ob_payload ob)) (\<lambda>_.
     ebind (validate_source_status (ob_source ob) (fx_lifecycle_status (ob_payload ob))) (\<lambda>_.
     ebind (validate_time_and_supersession ob) (\<lambda>_. Inr ob)))))"

section \<open>Lemmas\<close>

lemma validate_observation_Inr:
  assumes "validate_observation ob = Inr x"
  shows "x = ob" and "Observation_fields ob = Inr ()" and "FxPayload_fields (ob_payload ob) = Inr ()"
    and "validate_currency_and_dates (ob_payload ob) = Inr ()"
    and "validate_source_status (ob_source ob) (fx_lifecycle_status (ob_payload ob)) = Inr ()"
    and "validate_time_and_supersession ob = Inr ()"
  using assms by (auto simp: validate_observation_def result_simps)

lemma source_lifecycle:
  assumes "validate_source_status s status = Inr ()"
  shows "(case s of
     ExecutionSource d \<Rightarrow> (execution_status d, status) = execution_expected (execution_type d)
   | TradeCaptureSource d \<Rightarrow> (capture_status d, status) = capture_expected (capture_type d)
   | ConfirmationSource d \<Rightarrow> status = confirmation_expected (confirmation_status d)
   | BookingSource d \<Rightarrow> status = booking_lifecycle (booking_status d))"
  using assms
  by (cases s)
    (auto simp: validate_execution_status_def validate_capture_status_def
      validate_confirmation_status_def validate_booking_status_def check_simps)

section \<open>Properties\<close>

text \<open>The lifecycle status an accepted observation can report is limited by its source: an
  execution never reports a confirmed or booked trade, only a confirmation reports
  \<open>CONFIRMED\<close>, only a booking \<open>BOOKED\<close>, and no source reports \<open>SETTLED\<close>.\<close>

theorem observed_lifecycle_by_source:
  assumes "validate_observation ob = Inr x"
  shows "fx_lifecycle_status (ob_payload ob) \<in> (case ob_kind ob of
      EXECUTION \<Rightarrow> {NEW, AMENDED, CANCELLED}
    | TRADE_CAPTURE \<Rightarrow> {CAPTURED, AMENDED, CANCELLED}
    | CONFIRMATION \<Rightarrow> {CAPTURED, CONFIRMED, AMENDED, CANCELLED}
    | BOOKING \<Rightarrow> {BOOKED, AMENDED, CANCELLED})"
proof (cases "ob_source ob")
  case (ExecutionSource d)
  then show ?thesis
    using source_lifecycle [OF validate_observation_Inr(5) [OF assms]]
    by (cases "execution_type d") (auto simp: ob_kind_def)
next
  case (TradeCaptureSource d)
  then show ?thesis
    using source_lifecycle [OF validate_observation_Inr(5) [OF assms]]
    by (cases "capture_type d") (auto simp: ob_kind_def)
next
  case (ConfirmationSource d)
  then show ?thesis
    using source_lifecycle [OF validate_observation_Inr(5) [OF assms]]
    by (cases "confirmation_status d") (auto simp: ob_kind_def)
next
  case (BookingSource d)
  then show ?thesis
    using source_lifecycle [OF validate_observation_Inr(5) [OF assms]]
    by (cases "booking_status d") (auto simp: ob_kind_def)
qed

text \<open>C39: every accepted observation trades two different currencies, states its amounts in them,
  settles inside its product's window, was not ingested before it happened, and is a fresh
  immutable record (entity version 1).\<close>

theorem accepted_observation_shape:
  assumes "validate_observation ob = Inr x"
  shows "x = ob \<and> ob_entity_version ob = 1 \<and>
    fx_base_currency (ob_payload ob) \<noteq> fx_terms_currency (ob_payload ob) \<and>
    da_currency (fx_base_amount (ob_payload ob)) = fx_base_currency (ob_payload ob) \<and>
    da_currency (fx_terms_amount (ob_payload ob)) = fx_terms_currency (ob_payload ob) \<and>
    int (length (after_point (da_value (fx_base_amount (ob_payload ob))))) = da_scale (fx_base_amount (ob_payload ob)) \<and>
    fx_trade_date (ob_payload ob) \<le> fx_value_date (ob_payload ob) \<and>
    (fx_product_type (ob_payload ob) = FX_SPOT \<longrightarrow>
       fx_value_date (ob_payload ob) \<le> fx_trade_date (ob_payload ob) + 4) \<and>
    (fx_product_type (ob_payload ob) = FX_FORWARD \<longrightarrow>
       fx_trade_date (ob_payload ob) < fx_value_date (ob_payload ob)) \<and>
    instant (ob_event_time ob) \<le> instant (ob_ingest_time ob) \<and>
    instant (snd (source_time (ob_source ob))) \<le> instant (ob_ingest_time ob) \<and>
    (ob_supersedes_observation_id ob = None \<longleftrightarrow> ob_supersession_reason ob = None)"
proof -
  note V = validate_observation_Inr [OF assms]
  have t: "ob_entity_version ob = 1" "instant (ob_event_time ob) \<le> instant (ob_ingest_time ob)"
    "instant (snd (source_time (ob_source ob))) \<le> instant (ob_ingest_time ob)"
    "ob_supersedes_observation_id ob = None \<longleftrightarrow> ob_supersession_reason ob = None"
    using V(6) by (auto simp: validate_time_and_supersession_def check_simps)
  have c: "fx_base_currency (ob_payload ob) \<noteq> fx_terms_currency (ob_payload ob)"
    "da_currency (fx_base_amount (ob_payload ob)) = fx_base_currency (ob_payload ob)"
    "da_currency (fx_terms_amount (ob_payload ob)) = fx_terms_currency (ob_payload ob)"
    using V(4) by (auto simp: validate_currency_and_dates_def check_simps result_simps)
  have w: "validate_settlement_window (fx_product_type (ob_payload ob)) (fx_trade_date (ob_payload ob))
      (fx_value_date (ob_payload ob)) = Inr ()"
    using V(4) by (auto simp: validate_currency_and_dates_def check_simps result_simps)
  have s: "int (length (after_point (da_value (fx_base_amount (ob_payload ob))))) = da_scale (fx_base_amount (ob_payload ob))"
    using V(3) by (auto simp: FxPayload_fields_def mk_DecimalAmount_def check_simps result_simps)
  show ?thesis
    using V(1) t c s w [unfolded settlement_window_Inr]
    by (cases "fx_product_type (ob_payload ob)") auto
qed

section \<open>A concrete observation\<close>

definition sample_fx :: FxPayload where
  "sample_fx = \<lparr>
     fx_product_type = FX_SPOT, fx_settlement_rule_version = ''1.0.0'', fx_source_trade_id = ''trade_0001'',
     fx_base_currency = ''EUR'', fx_terms_currency = ''USD'', fx_side = BUY_BASE,
     fx_base_amount = \<lparr>da_currency = ''EUR'', da_value = ''1000000.00'', da_scale = 2\<rparr>,
     fx_terms_amount = \<lparr>da_currency = ''USD'', da_value = ''1085000.00'', da_scale = 2\<rparr>,
     fx_quoted_rate = \<lparr>dr_value = ''1.0850'', dr_scale = 4\<rparr>,
     fx_trade_date = 738887, fx_value_date = 738889,
     fx_counterparty_id = ''cpty_alpha'', fx_book_id = ''book_fx_1'', fx_lifecycle_status = NEW\<rparr>"

definition sample_hash :: string where
  "sample_hash = ''sha256:'' @ replicate 64 CHR ''a''"

definition sample_observation :: Observation where
  "sample_observation = \<lparr>
     ob_observation_id = ''obs_exec_1'', ob_entity_version = 1, ob_tenant_id = ''tenant_demo'',
     ob_portfolio_id = ''portfolio_fx'', ob_correlation_id = ''corr_0001'',
     ob_source_event_id = ''evt_0001'', ob_source_business_key = ''trade_0001'', ob_source_version = ''1'',
     ob_content_hash = sample_hash,
     ob_event_time = utc 1000, ob_effective_time = utc 1000, ob_ingest_time = utc 2000,
     ob_source_sequence = 0, ob_lineage_group_id = ''lineage_1'',
     ob_actor = \<lparr>identity_type = SOURCE, actor_id = ''fix_gateway''\<rparr>,
     ob_supersedes_observation_id = None, ob_supersession_reason = None,
     ob_payload = sample_fx,
     ob_source = ExecutionSource \<lparr>execution_id = ''exec_0001'', execution_type = EVENT_NEW,
       execution_status = EXECUTED, execution_time = utc 1000, order_id = None\<rparr>\<rparr>"

lemma sample_observation_valid: "validate_observation sample_observation = Inr sample_observation"
  by code_simp

theorem observed_lifecycle_by_source_witness:
  "fx_lifecycle_status (ob_payload sample_observation) \<in> {NEW, AMENDED, CANCELLED}"
  using observed_lifecycle_by_source [OF sample_observation_valid]
  by (simp add: ob_kind_def sample_observation_def)

theorem accepted_observation_shape_witness:
  "fx_trade_date (ob_payload sample_observation) \<le> fx_value_date (ob_payload sample_observation) \<and>
   instant (ob_event_time sample_observation) \<le> instant (ob_ingest_time sample_observation)"
  using accepted_observation_shape [OF sample_observation_valid] by blast

end
