(* ===== verification/Contract_Canonical.thy ===== *)
theory Contract_Canonical
  imports Contract_Observations
begin

text \<open>
  \<open>packages/contracts/models.py\<close>, canonical documents: the canonical economic fields with
  the provenance of each, the canonical trade and its versioned state, and the linkage
  decision. \<open>FieldProvenanceMap\<close> has one provenance per canonical field, so it is a
  function from the field names; \<open>getattr\<close> is its application.
\<close>

section \<open>Canonical fields\<close>

datatype CanonicalField =
    F_product_type | F_settlement_rule_version | F_base_currency | F_terms_currency | F_side
  | F_base_amount | F_terms_amount | F_quoted_rate | F_trade_date | F_value_date
  | F_lifecycle_status | F_counterparty_id | F_book_id

definition CANONICAL_FIELD_NAMES :: "CanonicalField list" where
  "CANONICAL_FIELD_NAMES = [
     F_product_type, F_settlement_rule_version, F_base_currency, F_terms_currency, F_side,
     F_base_amount, F_terms_amount, F_quoted_rate, F_trade_date, F_value_date,
     F_lifecycle_status, F_counterparty_id, F_book_id]"

fun field_name :: "CanonicalField \<Rightarrow> string" where
  "field_name F_product_type = ''product_type''"
| "field_name F_settlement_rule_version = ''settlement_rule_version''"
| "field_name F_base_currency = ''base_currency''"
| "field_name F_terms_currency = ''terms_currency''"
| "field_name F_side = ''side''"
| "field_name F_base_amount = ''base_amount''"
| "field_name F_terms_amount = ''terms_amount''"
| "field_name F_quoted_rate = ''quoted_rate''"
| "field_name F_trade_date = ''trade_date''"
| "field_name F_value_date = ''value_date''"
| "field_name F_lifecycle_status = ''lifecycle_status''"
| "field_name F_counterparty_id = ''counterparty_id''"
| "field_name F_book_id = ''book_id''"

lemma canonical_field_listed: "f \<in> set CANONICAL_FIELD_NAMES"
  by (cases f) (simp_all add: CANONICAL_FIELD_NAMES_def)

definition SOURCE_OF_TRUTH_FIELD_PATHS :: "string list" where
  "SOURCE_OF_TRUTH_FIELD_PATHS =
     map (\<lambda>f. ''/payload/'' @ field_name f) CANONICAL_FIELD_NAMES @
     [''/payload/confirmation_status'', ''/payload/booking_status'', ''/linkage/trade_id'']"

record CanonicalFields =
  cf_product_type :: ProductType
  cf_settlement_rule_version :: string
  cf_base_currency :: string
  cf_terms_currency :: string
  cf_side :: Side
  cf_base_amount :: DecimalAmount
  cf_terms_amount :: DecimalAmount
  cf_quoted_rate :: DecimalRate
  cf_trade_date :: date
  cf_value_date :: date
  cf_lifecycle_status :: LifecycleStatus
  cf_counterparty_id :: string
  cf_book_id :: string

definition mk_CanonicalFields :: "CanonicalFields \<Rightarrow> py_error + CanonicalFields" where
  "mk_CanonicalFields s =
     ebind (checked [
       (cf_settlement_rule_version s \<noteq> ''1.0.0'', ValueError ''settlement_rule_version''),
       (\<not> is_currency (cf_base_currency s), ValueError ''base_currency''),
       (\<not> is_currency (cf_terms_currency s), ValueError ''terms_currency''),
       (\<not> is_identifier (cf_counterparty_id s), ValueError ''counterparty_id''),
       (\<not> is_identifier (cf_book_id s), ValueError ''book_id'')] ()) (\<lambda>_.
     ebind (mk_DecimalAmount (cf_base_amount s)) (\<lambda>_.
     ebind (mk_DecimalAmount (cf_terms_amount s)) (\<lambda>_.
     ebind (mk_DecimalRate (cf_quoted_rate s)) (\<lambda>_.
     ebind (checked [
       (cf_base_currency s = cf_terms_currency s,
          ValueError ''base_currency and terms_currency must differ''),
       (da_currency (cf_base_amount s) \<noteq> cf_base_currency s,
          ValueError ''base_amount.currency must equal base_currency''),
       (da_currency (cf_terms_amount s) \<noteq> cf_terms_currency s,
          ValueError ''terms_amount.currency must equal terms_currency'')] ()) (\<lambda>_.
     ebind (validate_settlement_window (cf_product_type s) (cf_trade_date s) (cf_value_date s)) (\<lambda>_.
     Inr s))))))"

section \<open>Provenance\<close>

record FieldProvenance =
  fp_source_type :: ObservationKind
  fp_source_system :: SourceSystem
  fp_source_tenant_id :: string
  fp_source_portfolio_id :: string
  fp_source_observation_id :: string
  fp_source_observation_entity_version :: int
  fp_source_version :: string
  fp_field_path :: string
  fp_normalisation_rule_id :: string
  fp_normalisation_rule_version :: string
  fp_resolution_rule_version :: string
  fp_observed_at :: datetime
  fp_effective_at :: datetime
  fp_ingested_at :: datetime
  fp_conflict_status :: ConflictStatus

definition mk_FieldProvenance :: "FieldProvenance \<Rightarrow> py_error + FieldProvenance" where
  "mk_FieldProvenance p = checked [
     (\<not> is_tenant_id (fp_source_tenant_id p), ValueError ''source_tenant_id''),
     (\<not> is_portfolio_id (fp_source_portfolio_id p), ValueError ''source_portfolio_id''),
     (\<not> is_identifier (fp_source_observation_id p), ValueError ''source_observation_id''),
     (fp_source_observation_entity_version p < 1, ValueError ''source_observation_entity_version''),
     (\<not> is_source_version (fp_source_version p), ValueError ''source_version''),
     (\<not> is_field_path (fp_field_path p), ValueError ''field_path''),
     (\<not> is_identifier (fp_normalisation_rule_id p), ValueError ''normalisation_rule_id''),
     (\<not> is_semantic_version (fp_normalisation_rule_version p), ValueError ''normalisation_rule_version''),
     (\<not> is_semantic_version (fp_resolution_rule_version p), ValueError ''resolution_rule_version''),
     (\<not> aware (fp_observed_at p), ValueError ''timestamp must include a timezone offset''),
     (\<not> aware (fp_effective_at p), ValueError ''timestamp must include a timezone offset''),
     (\<not> aware (fp_ingested_at p), ValueError ''timestamp must include a timezone offset''),
     (fp_source_system p \<noteq> source_system_by_kind (fp_source_type p),
        ValueError ''source_system must match source_type'')] p"

type_synonym FieldProvenanceMap = "CanonicalField \<Rightarrow> FieldProvenance"

definition mk_FieldProvenanceMap :: "FieldProvenanceMap \<Rightarrow> py_error + FieldProvenanceMap" where
  "mk_FieldProvenanceMap m =
     ebind (emap (\<lambda>f. mk_FieldProvenance (m f)) CANONICAL_FIELD_NAMES) (\<lambda>_.
     checked (map (\<lambda>f. (fp_field_path (m f) \<noteq> ''/payload/'' @ field_name f,
         ValueError (''field_provenance.'' @ field_name f @ ''.field_path must be /payload/'' @ field_name f)))
       CANONICAL_FIELD_NAMES) m)"

definition validate_provenance_scope :: "FieldProvenanceMap \<Rightarrow> string \<Rightarrow> string \<Rightarrow> py_error + unit" where
  "validate_provenance_scope m tenant_id portfolio_id =
     checked (map (\<lambda>f. ((fp_source_tenant_id (m f), fp_source_portfolio_id (m f)) \<noteq> (tenant_id, portfolio_id),
         ValueError (''field_provenance.'' @ field_name f @ '' is outside canonical scope'')))
       CANONICAL_FIELD_NAMES) ()"

section \<open>Canonical trade and state\<close>

record CanonicalTrade =
  tr_trade_id :: string
  tr_entity_version :: int
  tr_tenant_id :: string
  tr_portfolio_id :: string
  tr_correlation_id :: string
  tr_content_hash :: string
  tr_created_at :: datetime
  tr_updated_at :: datetime
  tr_actor :: Actor
  tr_linkage_decision_id :: string
  tr_state :: CanonicalFields
  tr_field_provenance :: FieldProvenanceMap

definition mk_CanonicalTrade :: "CanonicalTrade \<Rightarrow> py_error + CanonicalTrade" where
  "mk_CanonicalTrade t =
     ebind (checked [
       (\<not> is_identifier (tr_trade_id t), ValueError ''trade_id''),
       (tr_entity_version t < 1, ValueError ''entity_version''),
       (\<not> is_tenant_id (tr_tenant_id t), ValueError ''tenant_id''),
       (\<not> is_portfolio_id (tr_portfolio_id t), ValueError ''portfolio_id''),
       (\<not> is_correlation_id (tr_correlation_id t), ValueError ''correlation_id''),
       (\<not> is_sha256_hash (tr_content_hash t), ValueError ''content_hash''),
       (\<not> aware (tr_created_at t) \<or> \<not> aware (tr_updated_at t),
          ValueError ''timestamp must include a timezone offset''),
       (\<not> is_identifier (tr_linkage_decision_id t), ValueError ''linkage_decision_id'')] ()) (\<lambda>_.
     ebind (mk_Actor (tr_actor t)) (\<lambda>_.
     ebind (mk_CanonicalFields (tr_state t)) (\<lambda>_.
     ebind (mk_FieldProvenanceMap (tr_field_provenance t)) (\<lambda>_.
     ebind (checked [(instant (tr_updated_at t) < instant (tr_created_at t),
          ValueError ''updated_at must not precede created_at'')] ()) (\<lambda>_.
     ebind (validate_provenance_scope (tr_field_provenance t) (tr_tenant_id t) (tr_portfolio_id t)) (\<lambda>_.
     Inr t))))))"

record SourceVersionSetItem =
  si_observation_id :: string
  si_observation_kind :: ObservationKind
  si_source_system :: SourceSystem
  si_source_tenant_id :: string
  si_source_portfolio_id :: string
  si_source_version :: string
  si_content_hash :: string

definition mk_SourceVersionSetItem :: "SourceVersionSetItem \<Rightarrow> py_error + SourceVersionSetItem" where
  "mk_SourceVersionSetItem i = checked [
     (\<not> is_identifier (si_observation_id i), ValueError ''observation_id''),
     (\<not> is_tenant_id (si_source_tenant_id i), ValueError ''source_tenant_id''),
     (\<not> is_portfolio_id (si_source_portfolio_id i), ValueError ''source_portfolio_id''),
     (\<not> is_source_version (si_source_version i), ValueError ''source_version''),
     (\<not> is_sha256_hash (si_content_hash i), ValueError ''content_hash''),
     (si_source_system i \<noteq> source_system_by_kind (si_observation_kind i),
        ValueError ''source_system must match observation_kind'')] i"

text \<open>What the loop over the canonical fields checks of one field; the index keeps the last
  item of an identifier, and identifiers are unique by then.\<close>

definition provenance_checks ::
    "SourceVersionSetItem list \<Rightarrow> FieldProvenanceMap \<Rightarrow> datetime option \<Rightarrow> CanonicalField \<Rightarrow> (bool \<times> py_error) list" where
  "provenance_checks items m source_watermark f = (
     let p = m f; name = ''field_provenance.'' @ field_name f;
         source = List.find (\<lambda>i. si_observation_id i = fp_source_observation_id p) (rev items) in
     [(source = None, ValueError (name @ '' must reference source_version_set'')),
      ((case source of None \<Rightarrow> False | Some i \<Rightarrow>
          si_observation_kind i \<noteq> fp_source_type p \<or> si_source_system i \<noteq> fp_source_system p \<or>
          si_source_tenant_id i \<noteq> fp_source_tenant_id p \<or>
          si_source_portfolio_id i \<noteq> fp_source_portfolio_id p \<or>
          si_source_version i \<noteq> fp_source_version p),
        ValueError (name @ '' does not match source_version_set'')),
      ((case source_watermark of None \<Rightarrow> False | Some wm \<Rightarrow> instant wm < instant (fp_ingested_at p)),
        ValueError (name @ ''.ingested_at is after source_watermark''))])"

definition validate_source_version_set_scope ::
    "SourceVersionSetItem list \<Rightarrow> FieldProvenanceMap \<Rightarrow> string \<Rightarrow> string \<Rightarrow> datetime option \<Rightarrow> py_error + unit" where
  "validate_source_version_set_scope items m tenant_id portfolio_id source_watermark =
     checked (
       [(has_dups (map si_observation_id items),
           ValueError ''source_version_set observation_id values must be unique'')] @
       map (\<lambda>i. ((si_source_tenant_id i, si_source_portfolio_id i) \<noteq> (tenant_id, portfolio_id),
           ValueError ''source_version_set contains a source outside canonical scope'')) items @
       concat (map (provenance_checks items m source_watermark) CANONICAL_FIELD_NAMES)) ()"

record CanonicalTradeState =
  cs_trade_id :: string
  cs_entity_version :: int
  cs_canonical_state_version :: int
  cs_tenant_id :: string
  cs_portfolio_id :: string
  cs_correlation_id :: string
  cs_content_hash :: string
  cs_as_of_time :: datetime
  cs_source_watermark :: datetime
  cs_source_version_set :: "SourceVersionSetItem list"
  cs_actor :: Actor
  cs_state :: CanonicalFields
  cs_field_provenance :: FieldProvenanceMap

definition CanonicalTradeState_fields :: "CanonicalTradeState \<Rightarrow> py_error + unit" where
  "CanonicalTradeState_fields s =
     ebind (checked [
       (\<not> is_identifier (cs_trade_id s), ValueError ''trade_id''),
       (cs_entity_version s < 1, ValueError ''entity_version''),
       (cs_canonical_state_version s < 1, ValueError ''canonical_state_version''),
       (\<not> is_tenant_id (cs_tenant_id s), ValueError ''tenant_id''),
       (\<not> is_portfolio_id (cs_portfolio_id s), ValueError ''portfolio_id''),
       (\<not> is_correlation_id (cs_correlation_id s), ValueError ''correlation_id''),
       (\<not> is_sha256_hash (cs_content_hash s), ValueError ''content_hash''),
       (\<not> aware (cs_as_of_time s) \<or> \<not> aware (cs_source_watermark s),
          ValueError ''timestamp must include a timezone offset''),
       (cs_source_version_set s = [], ValueError ''source_version_set'')] ()) (\<lambda>_.
     ebind (emap mk_SourceVersionSetItem (cs_source_version_set s)) (\<lambda>_.
     ebind (mk_Actor (cs_actor s)) (\<lambda>_.
     ebind (mk_CanonicalFields (cs_state s)) (\<lambda>_.
     ebind (mk_FieldProvenanceMap (cs_field_provenance s)) (\<lambda>_. Inr ())))))"

definition mk_CanonicalTradeState :: "CanonicalTradeState \<Rightarrow> py_error + CanonicalTradeState" where
  "mk_CanonicalTradeState s =
     ebind (CanonicalTradeState_fields s) (\<lambda>_.
     ebind (checked [(instant (cs_as_of_time s) < instant (cs_source_watermark s),
          ValueError ''source_watermark must not be after as_of_time'')] ()) (\<lambda>_.
     ebind (validate_provenance_scope (cs_field_provenance s) (cs_tenant_id s) (cs_portfolio_id s)) (\<lambda>_.
     ebind (validate_source_version_set_scope (cs_source_version_set s) (cs_field_provenance s)
              (cs_tenant_id s) (cs_portfolio_id s) (Some (cs_source_watermark s))) (\<lambda>_.
     Inr s))))"

section \<open>Linkage decisions\<close>

record CandidateLink =
  cl_trade_id :: string
  cl_tenant_id :: string
  cl_portfolio_id :: string
  cl_match_key :: string
  cl_match_rule_version :: string
  cl_evidence_hash :: string

definition mk_CandidateLink :: "CandidateLink \<Rightarrow> py_error + CandidateLink" where
  "mk_CandidateLink c = checked [
     (\<not> is_identifier (cl_trade_id c), ValueError ''trade_id''),
     (\<not> is_tenant_id (cl_tenant_id c), ValueError ''tenant_id''),
     (\<not> is_portfolio_id (cl_portfolio_id c), ValueError ''portfolio_id''),
     (\<not> is_identifier (cl_match_key c), ValueError ''match_key''),
     (\<not> is_semantic_version (cl_match_rule_version c), ValueError ''match_rule_version''),
     (\<not> is_sha256_hash (cl_evidence_hash c), ValueError ''evidence_hash'')] c"

datatype LinkageDecisionValue =
  LINK_ACCEPTED | LINK_REJECTED | LINK_UNMATCHED | LINK_AMBIGUOUS | LINK_CROSS_SCOPE_REJECTED

datatype LinkageReason =
    EXACT_DETERMINISTIC_KEY
  | NO_ELIGIBLE_CANDIDATE
  | MULTIPLE_ELIGIBLE_CANDIDATES
  | TENANT_OR_PORTFOLIO_SCOPE_MISMATCH
  | HUMAN_REJECTED

record LinkageDecision =
  ld_decision_id :: string
  ld_entity_version :: int
  ld_tenant_id :: string
  ld_portfolio_id :: string
  ld_correlation_id :: string
  ld_content_hash :: string
  ld_created_at :: datetime
  ld_actor :: Actor
  ld_source_observation_id :: string
  ld_deterministic_rule_version :: string
  ld_decision :: LinkageDecisionValue
  ld_candidate_links :: "CandidateLink list"
  ld_chosen_trade_id :: "string option"
  ld_reason_code :: LinkageReason

fun linkage_reason :: "LinkageDecisionValue \<Rightarrow> LinkageReason" where
  "linkage_reason LINK_ACCEPTED = EXACT_DETERMINISTIC_KEY"
| "linkage_reason LINK_REJECTED = HUMAN_REJECTED"
| "linkage_reason LINK_UNMATCHED = NO_ELIGIBLE_CANDIDATE"
| "linkage_reason LINK_AMBIGUOUS = MULTIPLE_ELIGIBLE_CANDIDATES"
| "linkage_reason LINK_CROSS_SCOPE_REJECTED = TENANT_OR_PORTFOLIO_SCOPE_MISMATCH"

definition LinkageDecision_fields :: "LinkageDecision \<Rightarrow> py_error + unit" where
  "LinkageDecision_fields d =
     ebind (checked [
       (\<not> is_identifier (ld_decision_id d), ValueError ''decision_id''),
       (ld_entity_version d < 1, ValueError ''entity_version''),
       (\<not> is_tenant_id (ld_tenant_id d), ValueError ''tenant_id''),
       (\<not> is_portfolio_id (ld_portfolio_id d), ValueError ''portfolio_id''),
       (\<not> is_correlation_id (ld_correlation_id d), ValueError ''correlation_id''),
       (\<not> is_sha256_hash (ld_content_hash d), ValueError ''content_hash''),
       (\<not> aware (ld_created_at d), ValueError ''timestamp must include a timezone offset''),
       (\<not> is_identifier (ld_source_observation_id d), ValueError ''source_observation_id''),
       (\<not> is_semantic_version (ld_deterministic_rule_version d), ValueError ''deterministic_rule_version''),
       (\<not> opt_identifier (ld_chosen_trade_id d), ValueError ''chosen_trade_id'')] ()) (\<lambda>_.
     ebind (mk_Actor (ld_actor d)) (\<lambda>_.
     ebind (emap mk_CandidateLink (ld_candidate_links d)) (\<lambda>_. Inr ())))"

definition scope_mismatches :: "LinkageDecision \<Rightarrow> CandidateLink list" where
  "scope_mismatches d = filter (\<lambda>c. (cl_tenant_id c, cl_portfolio_id c) \<noteq> (ld_tenant_id d, ld_portfolio_id d))
     (ld_candidate_links d)"

definition validate_decision_shape :: "LinkageDecision \<Rightarrow> py_error + unit" where
  "validate_decision_shape d = checked [
     (ld_reason_code d \<noteq> linkage_reason (ld_decision d),
        ValueError ''decision and reason_code combination is not permitted''),
     (ld_decision d = LINK_CROSS_SCOPE_REJECTED \<and> (ld_candidate_links d = [] \<or> scope_mismatches d = []),
        ValueError ''cross-scope rejection requires at least one cross-scope candidate''),
     (ld_decision d \<noteq> LINK_CROSS_SCOPE_REJECTED \<and> scope_mismatches d \<noteq> [],
        ValueError ''non-cross-scope linkage decisions cannot contain cross-scope candidates''),
     (ld_decision d = LINK_ACCEPTED \<and> (ld_chosen_trade_id d = None \<or> length (ld_candidate_links d) \<noteq> 1),
        ValueError ''accepted linkage requires exactly one chosen candidate''),
     (ld_decision d = LINK_ACCEPTED \<and> ld_chosen_trade_id d \<noteq> Some (cl_trade_id (hd (ld_candidate_links d))),
        ValueError ''accepted linkage must choose its sole candidate''),
     (ld_decision d = LINK_UNMATCHED \<and> ld_candidate_links d \<noteq> [],
        ValueError ''unmatched linkage must not contain candidates''),
     (ld_decision d = LINK_AMBIGUOUS \<and> length (ld_candidate_links d) < 2,
        ValueError ''ambiguous linkage requires multiple candidates''),
     (ld_decision d \<noteq> LINK_ACCEPTED \<and> ld_chosen_trade_id d \<noteq> None,
        ValueError ''non-accepted linkage must not choose a trade'')] ()"

definition mk_LinkageDecision :: "LinkageDecision \<Rightarrow> py_error + LinkageDecision" where
  "mk_LinkageDecision d =
     ebind (LinkageDecision_fields d) (\<lambda>_. ebind (validate_decision_shape d) (\<lambda>_. Inr d))"

section \<open>Properties\<close>

lemma provenance_checks_None:
  assumes "first_error (provenance_checks items m (Some wm) f) = None"
  shows "\<exists>i \<in> set items. si_observation_id i = fp_source_observation_id (m f) \<and>
    si_observation_kind i = fp_source_type (m f) \<and> si_source_system i = fp_source_system (m f) \<and>
    si_source_tenant_id i = fp_source_tenant_id (m f) \<and>
    si_source_portfolio_id i = fp_source_portfolio_id (m f) \<and>
    si_source_version i = fp_source_version (m f)"
    and "instant (fp_ingested_at (m f)) \<le> instant wm"
proof -
  from assms obtain i where i: "List.find (\<lambda>i. si_observation_id i = fp_source_observation_id (m f)) (rev items) = Some i"
    by (auto simp: provenance_checks_def Let_def check_simps)
  from find_Some_D [OF i] have "i \<in> set items" "si_observation_id i = fp_source_observation_id (m f)"
    by simp_all
  with assms i show "\<exists>i \<in> set items. si_observation_id i = fp_source_observation_id (m f) \<and>
    si_observation_kind i = fp_source_type (m f) \<and> si_source_system i = fp_source_system (m f) \<and>
    si_source_tenant_id i = fp_source_tenant_id (m f) \<and>
    si_source_portfolio_id i = fp_source_portfolio_id (m f) \<and>
    si_source_version i = fp_source_version (m f)"
    by (auto simp: provenance_checks_def Let_def check_simps)
  show "instant (fp_ingested_at (m f)) \<le> instant wm"
    using assms by (auto simp: provenance_checks_def Let_def check_simps)
qed

text \<open>C37: in an accepted canonical state every canonical field is traced to a source of the
  state's own source version set with the same kind, system and version, inside the state's
  tenant and portfolio, that had been ingested by the watermark, which is not after the
  as-of time; and the sources of the set are distinct.\<close>

theorem canonical_state_traced:
  assumes "mk_CanonicalTradeState s = Inr t"
  shows "t = s \<and> distinct (map si_observation_id (cs_source_version_set s)) \<and>
    instant (cs_source_watermark s) \<le> instant (cs_as_of_time s) \<and>
    (\<exists>i \<in> set (cs_source_version_set s).
       si_observation_id i = fp_source_observation_id (cs_field_provenance s f) \<and>
       si_observation_kind i = fp_source_type (cs_field_provenance s f) \<and>
       si_source_system i = source_system_by_kind (si_observation_kind i) \<and>
       si_source_version i = fp_source_version (cs_field_provenance s f) \<and>
       si_source_tenant_id i = cs_tenant_id s \<and> si_source_portfolio_id i = cs_portfolio_id s) \<and>
    fp_field_path (cs_field_provenance s f) = ''/payload/'' @ field_name f \<and>
    instant (fp_ingested_at (cs_field_provenance s f)) \<le> instant (cs_source_watermark s)"
proof -
  from assms have fs: "CanonicalTradeState_fields s = Inr ()" and t: "t = s"
    and wm: "instant (cs_source_watermark s) \<le> instant (cs_as_of_time s)"
    and sc: "validate_source_version_set_scope (cs_source_version_set s) (cs_field_provenance s)
              (cs_tenant_id s) (cs_portfolio_id s) (Some (cs_source_watermark s)) = Inr ()"
    by (auto simp: mk_CanonicalTradeState_def result_simps check_simps)
  from sc have d: "distinct (map si_observation_id (cs_source_version_set s))"
    and scope: "\<forall>i \<in> set (cs_source_version_set s).
      (si_source_tenant_id i, si_source_portfolio_id i) = (cs_tenant_id s, cs_portfolio_id s)"
    and pc: "first_error (provenance_checks (cs_source_version_set s) (cs_field_provenance s)
      (Some (cs_source_watermark s)) f) = None"
    using canonical_field_listed [of f]
    by (auto simp: validate_source_version_set_scope_def check_simps first_error_map_None
        first_error_concat_None)
  note P = provenance_checks_None [OF pc]
  obtain i where i: "i \<in> set (cs_source_version_set s)"
      "si_observation_id i = fp_source_observation_id (cs_field_provenance s f)"
      "si_observation_kind i = fp_source_type (cs_field_provenance s f)"
      "si_source_system i = fp_source_system (cs_field_provenance s f)"
      "si_source_version i = fp_source_version (cs_field_provenance s f)"
    using P(1) by blast
  obtain items where "emap mk_SourceVersionSetItem (cs_source_version_set s) = Inr items"
    and mp: "mk_FieldProvenanceMap (cs_field_provenance s) = Inr (cs_field_provenance s)"
    using fs by (auto simp: CanonicalTradeState_fields_def mk_FieldProvenanceMap_def result_simps check_simps)
  then obtain j where "mk_SourceVersionSetItem i = Inr j"
    using i(1) by (auto simp: emap_Inr_iff list_all2_conv_all_nth in_set_conv_nth)
  then have "si_source_system i = source_system_by_kind (si_observation_kind i)"
    by (simp add: mk_SourceVersionSetItem_def check_simps)
  moreover have "fp_field_path (cs_field_provenance s f) = ''/payload/'' @ field_name f"
    using mp canonical_field_listed [of f]
    by (auto simp: mk_FieldProvenanceMap_def result_simps check_simps first_error_map_None)
  ultimately show ?thesis
    using t d wm P(2) i scope by blast
qed

text \<open>With fields of the right form a linkage decision is accepted exactly when its value, reason, candidates
  and chosen trade fit together: an accepted one has the reason of an exact key and a single candidate, in its own
  tenant and portfolio, whose trade it chooses; every other one chooses no trade, and has the reason of its value: a
  rejected one any candidates of its own scope, an unmatched one none, an ambiguous one at least two of its own
  scope, a cross-scope rejection at least one of another scope.\<close>

theorem linkage_decision_shape:
  assumes "LinkageDecision_fields d = Inr ()"
  shows "mk_LinkageDecision d = Inr d \<longleftrightarrow>
    (let foreign = (\<lambda>c. cl_tenant_id c \<noteq> ld_tenant_id d \<or> cl_portfolio_id c \<noteq> ld_portfolio_id d);
         links = ld_candidate_links d; trade = ld_chosen_trade_id d; reason = ld_reason_code d
     in case ld_decision d of
       LINK_ACCEPTED \<Rightarrow> reason = EXACT_DETERMINISTIC_KEY \<and>
         (\<exists>c. links = [c] \<and> \<not> foreign c \<and> trade = Some (cl_trade_id c))
     | LINK_REJECTED \<Rightarrow> reason = HUMAN_REJECTED \<and> trade = None \<and> \<not> list_ex foreign links
     | LINK_UNMATCHED \<Rightarrow> reason = NO_ELIGIBLE_CANDIDATE \<and> trade = None \<and> links = []
     | LINK_AMBIGUOUS \<Rightarrow> reason = MULTIPLE_ELIGIBLE_CANDIDATES \<and> trade = None \<and> \<not> list_ex foreign links \<and>
         2 \<le> length links
     | LINK_CROSS_SCOPE_REJECTED \<Rightarrow> reason = TENANT_OR_PORTFOLIO_SCOPE_MISMATCH \<and> trade = None \<and>
         list_ex foreign links)"
proof -
  let ?foreign = "\<lambda>c. cl_tenant_id c \<noteq> ld_tenant_id d \<or> cl_portfolio_id c \<noteq> ld_portfolio_id d"
  have none: "scope_mismatches d = [] \<longleftrightarrow> \<not> list_ex ?foreign (ld_candidate_links d)"
    by (auto simp: scope_mismatches_def filter_empty_conv list_ex_iff)
  have "mk_LinkageDecision d = Inr d \<longleftrightarrow> validate_decision_shape d = Inr ()"
    using assms by (cases "validate_decision_shape d") (simp_all add: mk_LinkageDecision_def)
  then show ?thesis
    unfolding Let_def validate_decision_shape_def check_simps none
    by (cases "ld_decision d"; cases "ld_candidate_links d"; auto simp: Suc_le_eq)
qed

section \<open>Concrete documents\<close>

definition sample_provenance :: FieldProvenanceMap where
  "sample_provenance f = \<lparr>
     fp_source_type = EXECUTION, fp_source_system = FIX_EXECUTION, fp_source_tenant_id = ''tenant_demo'',
     fp_source_portfolio_id = ''portfolio_fx'', fp_source_observation_id = ''obs_exec_1'',
     fp_source_observation_entity_version = 1, fp_source_version = ''1'',
     fp_field_path = ''/payload/'' @ field_name f, fp_normalisation_rule_id = ''identity'',
     fp_normalisation_rule_version = ''1.0.0'', fp_resolution_rule_version = ''1.0.0'',
     fp_observed_at = utc 1000, fp_effective_at = utc 1000, fp_ingested_at = utc 2000,
     fp_conflict_status = SELECTED\<rparr>"

definition sample_canonical_fields :: CanonicalFields where
  "sample_canonical_fields = \<lparr>
     cf_product_type = FX_SPOT, cf_settlement_rule_version = ''1.0.0'', cf_base_currency = ''EUR'',
     cf_terms_currency = ''USD'', cf_side = BUY_BASE,
     cf_base_amount = \<lparr>da_currency = ''EUR'', da_value = ''1000000.00'', da_scale = 2\<rparr>,
     cf_terms_amount = \<lparr>da_currency = ''USD'', da_value = ''1085000.00'', da_scale = 2\<rparr>,
     cf_quoted_rate = \<lparr>dr_value = ''1.0850'', dr_scale = 4\<rparr>,
     cf_trade_date = 738887, cf_value_date = 738889, cf_lifecycle_status = NEW,
     cf_counterparty_id = ''cpty_alpha'', cf_book_id = ''book_fx_1''\<rparr>"

definition sample_state :: CanonicalTradeState where
  "sample_state = \<lparr>
     cs_trade_id = ''trade_0001'', cs_entity_version = 1, cs_canonical_state_version = 1,
     cs_tenant_id = ''tenant_demo'', cs_portfolio_id = ''portfolio_fx'', cs_correlation_id = ''corr_0001'',
     cs_content_hash = sample_hash, cs_as_of_time = utc 3000, cs_source_watermark = utc 2000,
     cs_source_version_set = [\<lparr>si_observation_id = ''obs_exec_1'', si_observation_kind = EXECUTION,
        si_source_system = FIX_EXECUTION, si_source_tenant_id = ''tenant_demo'',
        si_source_portfolio_id = ''portfolio_fx'', si_source_version = ''1'', si_content_hash = sample_hash\<rparr>],
     cs_actor = \<lparr>identity_type = SYSTEM, actor_id = ''assembler''\<rparr>,
     cs_state = sample_canonical_fields, cs_field_provenance = sample_provenance\<rparr>"

lemma sample_state_valid: "\<exists>t. mk_CanonicalTradeState sample_state = Inr t"
proof -
  have "\<not> isl (mk_CanonicalTradeState sample_state)" by code_simp
  then show ?thesis by (cases "mk_CanonicalTradeState sample_state") simp_all
qed

theorem canonical_state_traced_witness:
  "distinct (map si_observation_id (cs_source_version_set sample_state)) \<and>
   instant (fp_ingested_at (cs_field_provenance sample_state F_base_amount)) \<le> instant (cs_source_watermark sample_state)"
  using sample_state_valid canonical_state_traced [of sample_state _ F_base_amount] by blast

definition sample_linkage :: LinkageDecision where
  "sample_linkage = \<lparr>
     ld_decision_id = ''link_0001'', ld_entity_version = 1, ld_tenant_id = ''tenant_demo'',
     ld_portfolio_id = ''portfolio_fx'', ld_correlation_id = ''corr_0001'', ld_content_hash = sample_hash,
     ld_created_at = utc 3000, ld_actor = \<lparr>identity_type = SYSTEM, actor_id = ''linker''\<rparr>,
     ld_source_observation_id = ''obs_exec_1'', ld_deterministic_rule_version = ''1.0.0'',
     ld_decision = LINK_ACCEPTED,
     ld_candidate_links = [\<lparr>cl_trade_id = ''trade_0001'', cl_tenant_id = ''tenant_demo'',
        cl_portfolio_id = ''portfolio_fx'', cl_match_key = ''trade_0001'', cl_match_rule_version = ''1.0.0'',
        cl_evidence_hash = sample_hash\<rparr>],
     ld_chosen_trade_id = Some ''trade_0001'', ld_reason_code = EXACT_DETERMINISTIC_KEY\<rparr>"

lemma sample_linkage_valid: "mk_LinkageDecision sample_linkage = Inr sample_linkage"
  by code_simp

theorem linkage_decision_shape_witness:
  "mk_LinkageDecision (sample_linkage\<lparr>ld_reason_code := HUMAN_REJECTED\<rparr>) \<noteq> Inr (sample_linkage\<lparr>ld_reason_code := HUMAN_REJECTED\<rparr>)"
proof -
  have "LinkageDecision_fields (sample_linkage\<lparr>ld_reason_code := HUMAN_REJECTED\<rparr>) = Inr ()" by code_simp
  from linkage_decision_shape [OF this] show ?thesis by (simp add: sample_linkage_def)
qed

end
