(* ===== verification/Contract_Policies.thy ===== *)
theory Contract_Policies
  imports Contract_Canonical
begin

text \<open>
  \<open>packages/contracts/models.py\<close>, policy documents: the identity policy, which decides what
  becomes of a delivered observation, and the source-of-truth policy, which names the owner of
  every canonical field. Both are configuration documents that are only usable when they pass
  their validators; the lemmas say what an accepted document has to contain.
\<close>

section \<open>Identity policy\<close>

datatype VersionRelation = REL_SAME | REL_GREATER | REL_LOWER | REL_NOT_APPLICABLE

datatype IdentityOutcomeKind =
    NEW_OBSERVATION | IDEMPOTENT_REPLAY | DUPLICATE_SOURCE_CONFLICT | NEW_SOURCE_VERSION
  | LATE_SOURCE_VERSION_RECORDED | REJECT_UNSUPPORTED_SCHEMA_VERSION
  | REJECT_CROSS_PORTFOLIO_LINKAGE | LINKAGE_REVIEW_REQUIRED

datatype StorageEffect =
    APPEND | APPEND_DUPLICATE_EVIDENCE | APPEND_CONFLICT_EVIDENCE
  | APPEND_AND_SUPERSEDE_ACTIVE_VERSION | APPEND_LATE_NON_ACTIVE_VERSION | EFFECT_REJECT

datatype CanonicalEffect =
    CREATE_PROJECTION_CANDIDATE | NO_CHANGE | RECONCILE_NEW_SOURCE_SET
  | DO_NOT_POPULATE_AUTHORITATIVE_FIELDS | REQUIRE_LINKAGE_REVIEW

fun outcome_str :: "IdentityOutcomeKind \<Rightarrow> string" where
  "outcome_str NEW_OBSERVATION = ''NEW_OBSERVATION''"
| "outcome_str IDEMPOTENT_REPLAY = ''IDEMPOTENT_REPLAY''"
| "outcome_str DUPLICATE_SOURCE_CONFLICT = ''DUPLICATE_SOURCE_CONFLICT''"
| "outcome_str NEW_SOURCE_VERSION = ''NEW_SOURCE_VERSION''"
| "outcome_str LATE_SOURCE_VERSION_RECORDED = ''LATE_SOURCE_VERSION_RECORDED''"
| "outcome_str REJECT_UNSUPPORTED_SCHEMA_VERSION = ''REJECT_UNSUPPORTED_SCHEMA_VERSION''"
| "outcome_str REJECT_CROSS_PORTFOLIO_LINKAGE = ''REJECT_CROSS_PORTFOLIO_LINKAGE''"
| "outcome_str LINKAGE_REVIEW_REQUIRED = ''LINKAGE_REVIEW_REQUIRED''"

record IdentityCondition =
  ic_description :: string
  ic_same_delivery_identity :: "bool option"
  ic_same_source_identity :: "bool option"
  ic_same_content_hash :: "bool option"
  ic_source_version_relation :: "VersionRelation option"
  ic_scope_match :: "bool option"
  ic_schema_version_supported :: "bool option"

definition mk_IdentityCondition :: "IdentityCondition \<Rightarrow> py_error + IdentityCondition" where
  "mk_IdentityCondition c =
     checked [(ic_description c = [], ValueError ''description'')] c"

text \<open>
  \<open>model_dump(exclude={"description"}, exclude_none=True)\<close>: the dictionary of the keys that
  are set, here in the order of the fields. Its values are booleans and version relations.
\<close>

datatype ConditionValue = CBool bool | CRel VersionRelation

definition dump_opt :: "string \<Rightarrow> ('a \<Rightarrow> ConditionValue) \<Rightarrow> 'a option \<Rightarrow> (string \<times> ConditionValue) list" where
  "dump_opt k f v = (case v of None \<Rightarrow> [] | Some x \<Rightarrow> [(k, f x)])"

definition dump_condition :: "IdentityCondition \<Rightarrow> (string \<times> ConditionValue) list" where
  "dump_condition c =
     dump_opt ''same_delivery_identity'' CBool (ic_same_delivery_identity c) @
     dump_opt ''same_source_identity'' CBool (ic_same_source_identity c) @
     dump_opt ''same_content_hash'' CBool (ic_same_content_hash c) @
     dump_opt ''source_version_relation'' CRel (ic_source_version_relation c) @
     dump_opt ''scope_match'' CBool (ic_scope_match c) @
     dump_opt ''schema_version_supported'' CBool (ic_schema_version_supported c)"

record IdentityOutcome =
  io_precedence :: int
  io_case_id :: string
  io_condition :: IdentityCondition
  io_outcome :: IdentityOutcomeKind
  io_storage_effect :: StorageEffect
  io_canonical_effect :: CanonicalEffect

definition mk_IdentityOutcome :: "IdentityOutcome \<Rightarrow> py_error + IdentityOutcome" where
  "mk_IdentityOutcome r =
     ebind (checked [(io_precedence r < 1, ValueError ''precedence''),
                     (\<not> is_identifier (io_case_id r), ValueError ''case_id'')] ()) (\<lambda>_.
     ebind (mk_IdentityCondition (io_condition r)) (\<lambda>_. Inr r))"

record IdentityPolicy =
  ip_policy_version :: string
  ip_source_identity_fields :: "string list"
  ip_source_version_field :: string
  ip_delivery_identity_fields :: "string list"
  ip_content_hash_field :: string
  ip_outcomes :: "IdentityOutcome list"

definition required_source :: "string list" where
  "required_source =
     [''tenant_id'', ''portfolio_id'', ''source_system'', ''observation_kind'', ''source_business_key'']"

definition required_outcomes :: "IdentityOutcomeKind list" where
  "required_outcomes =
     [NEW_OBSERVATION, IDEMPOTENT_REPLAY, DUPLICATE_SOURCE_CONFLICT, NEW_SOURCE_VERSION,
      LATE_SOURCE_VERSION_RECORDED, REJECT_UNSUPPORTED_SCHEMA_VERSION,
      REJECT_CROSS_PORTFOLIO_LINKAGE, LINKAGE_REVIEW_REQUIRED]"

fun expected_row ::
  "IdentityOutcomeKind \<Rightarrow> (string \<times> ConditionValue) list \<times> StorageEffect \<times> CanonicalEffect" where
  "expected_row NEW_OBSERVATION =
     ([(''same_delivery_identity'', CBool False), (''same_source_identity'', CBool False)],
      APPEND, CREATE_PROJECTION_CANDIDATE)"
| "expected_row IDEMPOTENT_REPLAY =
     ([(''same_delivery_identity'', CBool True), (''same_content_hash'', CBool True)],
      APPEND_DUPLICATE_EVIDENCE, NO_CHANGE)"
| "expected_row DUPLICATE_SOURCE_CONFLICT =
     ([(''same_delivery_identity'', CBool True), (''same_content_hash'', CBool False)],
      APPEND_CONFLICT_EVIDENCE, REQUIRE_LINKAGE_REVIEW)"
| "expected_row NEW_SOURCE_VERSION =
     ([(''same_source_identity'', CBool True), (''source_version_relation'', CRel REL_GREATER)],
      APPEND_AND_SUPERSEDE_ACTIVE_VERSION, RECONCILE_NEW_SOURCE_SET)"
| "expected_row LATE_SOURCE_VERSION_RECORDED =
     ([(''same_source_identity'', CBool True), (''source_version_relation'', CRel REL_LOWER)],
      APPEND_LATE_NON_ACTIVE_VERSION, NO_CHANGE)"
| "expected_row REJECT_UNSUPPORTED_SCHEMA_VERSION =
     ([(''schema_version_supported'', CBool False)],
      EFFECT_REJECT, DO_NOT_POPULATE_AUTHORITATIVE_FIELDS)"
| "expected_row REJECT_CROSS_PORTFOLIO_LINKAGE =
     ([(''scope_match'', CBool False)], EFFECT_REJECT, DO_NOT_POPULATE_AUTHORITATIVE_FIELDS)"
| "expected_row LINKAGE_REVIEW_REQUIRED =
     ([(''scope_match'', CBool True)], APPEND, REQUIRE_LINKAGE_REVIEW)"

definition identity_row_checks :: "IdentityOutcome \<Rightarrow> (bool \<times> py_error) list" where
  "identity_row_checks r = (case expected_row (io_outcome r) of (cond, stor, canon) \<Rightarrow> [
     (dump_condition (io_condition r) \<noteq> cond,
        ValueError (''condition does not match outcome '' @ outcome_str (io_outcome r))),
     (io_storage_effect r \<noteq> stor \<or> io_canonical_effect r \<noteq> canon,
        ValueError (''effects do not match outcome '' @ outcome_str (io_outcome r)))])"

definition validate_deterministic_table :: "IdentityPolicy \<Rightarrow> py_error + IdentityPolicy" where
  "validate_deterministic_table p = (
     let precedences = map io_precedence (ip_outcomes p) in
     checked ([
       (ip_source_identity_fields p \<noteq> required_source,
          ValueError ''source_identity_fields must match the approved identity tuple''),
       (ip_delivery_identity_fields p \<noteq> [''source_system'', ''source_event_id''],
          ValueError ''delivery_identity_fields must match the approved delivery tuple''),
       (length (ip_outcomes p) \<noteq> 8 \<or> has_dups precedences \<or>
        set precedences \<noteq> set [1 .. int (length precedences)],
          ValueError ''identity outcomes require unique contiguous precedence values''),
       (set (map io_outcome (ip_outcomes p)) \<noteq> set required_outcomes,
          ValueError ''identity policy must define exactly the eight approved outcomes'')] @
       concat (map identity_row_checks (ip_outcomes p))) p)"

definition mk_IdentityPolicy :: "IdentityPolicy \<Rightarrow> py_error + IdentityPolicy" where
  "mk_IdentityPolicy p =
     ebind (checked [
       (\<not> is_semantic_version (ip_policy_version p), ValueError ''policy_version''),
       (ip_source_version_field p \<noteq> ''source_version'', ValueError ''source_version_field''),
       (ip_content_hash_field p \<noteq> ''content_hash'', ValueError ''content_hash_field''),
       (length (ip_outcomes p) < 8, ValueError ''outcomes'')] ()) (\<lambda>_.
     ebind (emap mk_IdentityOutcome (ip_outcomes p)) (\<lambda>_.
     validate_deterministic_table p))"

section \<open>Source-of-truth policy\<close>

datatype FieldOwner =
  EXECUTION_OR_TRADE_CAPTURE | OWNER_CONFIRMATION | BOOKING_READ_BACK | LINKAGE_RULE

datatype ConflictOutcome =
    EMIT_BREAK_NO_SILENT_OVERWRITE | RETAIN_SOURCE_ONLY | CONFLICT_REQUIRE_LINKAGE_REVIEW

record SourceOfTruthFieldRule =
  sr_field_path :: string
  sr_owner :: FieldOwner
  sr_trusted_sources :: "SourceSystem list"
  sr_source_precedence :: "SourceSystem list"
  sr_secondary_sources :: "SourceSystem list"
  sr_conflict_outcome :: ConflictOutcome

definition mk_SourceOfTruthFieldRule ::
  "SourceOfTruthFieldRule \<Rightarrow> py_error + SourceOfTruthFieldRule" where
  "mk_SourceOfTruthFieldRule r = checked [
     (sr_field_path r = [], ValueError ''field_path''),
     (sr_trusted_sources r = [], ValueError ''trusted_sources''),
     (sr_source_precedence r = [], ValueError ''source_precedence''),
     (has_dups (sr_source_precedence r),
        ValueError ''source_precedence must not contain duplicates''),
     (\<not> set (sr_trusted_sources r) \<subseteq> set (sr_source_precedence r),
        ValueError ''every trusted source must appear in source_precedence'')] r"

record SourceOfTruthPolicy =
  sp_policy_version :: string
  sp_scope :: string
  sp_field_rules :: "SourceOfTruthFieldRule list"

definition fields_are_unique :: "SourceOfTruthPolicy \<Rightarrow> py_error + SourceOfTruthPolicy" where
  "fields_are_unique p = (let paths = map sr_field_path (sp_field_rules p) in checked [
     (has_dups paths, ValueError ''source-of-truth field paths must be unique''),
     (set paths \<noteq> set SOURCE_OF_TRUTH_FIELD_PATHS,
        ValueError (''source-of-truth field paths must match the approved set; missing='' @
          py_list_str (sorted_minus SOURCE_OF_TRUTH_FIELD_PATHS paths) @ '', unexpected='' @
          py_list_str (sorted_minus paths SOURCE_OF_TRUTH_FIELD_PATHS)))] p)"

definition mk_SourceOfTruthPolicy :: "SourceOfTruthPolicy \<Rightarrow> py_error + SourceOfTruthPolicy" where
  "mk_SourceOfTruthPolicy p =
     ebind (checked [
       (\<not> is_semantic_version (sp_policy_version p), ValueError ''policy_version''),
       (sp_scope p \<noteq> ''MVP_SYNTHETIC_FX'', ValueError ''scope''),
       (sp_field_rules p = [], ValueError ''field_rules'')] ()) (\<lambda>_.
     ebind (emap mk_SourceOfTruthFieldRule (sp_field_rules p)) (\<lambda>_.
     fields_are_unique p))"

section \<open>What an accepted policy contains\<close>

lemma identity_policy_accepted:
  assumes "mk_IdentityPolicy p = Inr q"
  shows "q = p" and "length (ip_outcomes p) = 8"
    and "distinct (map io_precedence (ip_outcomes p))"
    and "set (map io_precedence (ip_outcomes p)) = {1..8}"
    and "set (map io_outcome (ip_outcomes p)) = set required_outcomes"
    and "\<And>r. r \<in> set (ip_outcomes p) \<Longrightarrow>
           (dump_condition (io_condition r), io_storage_effect r, io_canonical_effect r) =
             expected_row (io_outcome r)"
proof -
  have v: "validate_deterministic_table p = Inr q"
    using assms by (auto simp: mk_IdentityPolicy_def result_simps)
  then show "q = p" by (simp add: validate_deterministic_table_def Let_def check_simps)
  from v show "length (ip_outcomes p) = 8" and "distinct (map io_precedence (ip_outcomes p))"
    and "set (map io_precedence (ip_outcomes p)) = {1..8}"
    and "set (map io_outcome (ip_outcomes p)) = set required_outcomes"
    by (auto simp: validate_deterministic_table_def Let_def check_simps)
  fix r assume "r \<in> set (ip_outcomes p)"
  with v have "first_error (identity_row_checks r) = None"
    by (simp add: validate_deterministic_table_def Let_def check_simps first_error_concat_None)
  then show "(dump_condition (io_condition r), io_storage_effect r, io_canonical_effect r) =
      expected_row (io_outcome r)"
    by (auto simp: identity_row_checks_def check_simps split: prod.splits)
qed

lemma required_outcomes_all: "set required_outcomes = UNIV"
proof -
  have "k \<in> set required_outcomes" for k by (cases k) (simp_all add: required_outcomes_def)
  then show ?thesis by blast
qed

lemma required_outcomes_length: "length required_outcomes = 8" "distinct required_outcomes"
  by (simp_all add: required_outcomes_def)

text \<open>C40: An identity policy document that passes its validators is the approved
  decision table: it has eight rows, each of the eight outcomes has exactly one row, that row's
  conditions and storage and canonical effects are the approved ones, and the precedences are
  the numbers 1 to 8, so a policy can neither omit nor redefine an outcome.\<close>

theorem identity_policy_is_approved_table:
  assumes "mk_IdentityPolicy p = Inr q"
  shows "q = p \<and> length (ip_outcomes p) = 8 \<and>
    (\<forall>k. \<exists>!i. i < 8 \<and> io_outcome (ip_outcomes p ! i) = k) \<and>
    (\<forall>n. 1 \<le> n \<and> n \<le> 8 \<longrightarrow> (\<exists>!i. i < 8 \<and> io_precedence (ip_outcomes p ! i) = n)) \<and>
    (\<forall>r \<in> set (ip_outcomes p).
       (dump_condition (io_condition r), io_storage_effect r, io_canonical_effect r) =
         expected_row (io_outcome r))"
proof -
  note a = identity_policy_accepted [OF assms]
  have d: "distinct (map io_outcome (ip_outcomes p))"
    by (rule distinct_if_covers [OF a(5)]) (simp_all add: a(2) required_outcomes_length)
  have "\<exists>!i. i < 8 \<and> io_outcome (ip_outcomes p ! i) = k" for k
    using distinct_map_unique_index [OF d, of k] a(2,5) required_outcomes_all by simp
  moreover have "\<exists>!i. i < 8 \<and> io_precedence (ip_outcomes p ! i) = n" if "1 \<le> n" "n \<le> 8" for n
    using distinct_map_unique_index [OF a(3), of n] a(2,4) that by simp
  ultimately show ?thesis using a by blast
qed

definition approved_condition :: "IdentityCondition" where
  "approved_condition = \<lparr>ic_description = ''approved'', ic_same_delivery_identity = None,
     ic_same_source_identity = None, ic_same_content_hash = None, ic_source_version_relation = None,
     ic_scope_match = None, ic_schema_version_supported = None\<rparr>"

definition approved_identity_policy :: IdentityPolicy where
  "approved_identity_policy = (let c = approved_condition in
     \<lparr>ip_policy_version = ''1.0.0'', ip_source_identity_fields = required_source,
      ip_source_version_field = ''source_version'',
      ip_delivery_identity_fields = [''source_system'', ''source_event_id''],
      ip_content_hash_field = ''content_hash'',
      ip_outcomes = [
        \<lparr>io_precedence = 1, io_case_id = ''unsupported_schema'',
         io_condition = c\<lparr>ic_schema_version_supported := Some False\<rparr>,
         io_outcome = REJECT_UNSUPPORTED_SCHEMA_VERSION, io_storage_effect = EFFECT_REJECT,
         io_canonical_effect = DO_NOT_POPULATE_AUTHORITATIVE_FIELDS\<rparr>,
        \<lparr>io_precedence = 2, io_case_id = ''idempotent_replay'',
         io_condition = c\<lparr>ic_same_delivery_identity := Some True, ic_same_content_hash := Some True\<rparr>,
         io_outcome = IDEMPOTENT_REPLAY, io_storage_effect = APPEND_DUPLICATE_EVIDENCE,
         io_canonical_effect = NO_CHANGE\<rparr>,
        \<lparr>io_precedence = 3, io_case_id = ''duplicate_conflict'',
         io_condition = c\<lparr>ic_same_delivery_identity := Some True, ic_same_content_hash := Some False\<rparr>,
         io_outcome = DUPLICATE_SOURCE_CONFLICT, io_storage_effect = APPEND_CONFLICT_EVIDENCE,
         io_canonical_effect = REQUIRE_LINKAGE_REVIEW\<rparr>,
        \<lparr>io_precedence = 4, io_case_id = ''cross_portfolio'',
         io_condition = c\<lparr>ic_scope_match := Some False\<rparr>,
         io_outcome = REJECT_CROSS_PORTFOLIO_LINKAGE, io_storage_effect = EFFECT_REJECT,
         io_canonical_effect = DO_NOT_POPULATE_AUTHORITATIVE_FIELDS\<rparr>,
        \<lparr>io_precedence = 5, io_case_id = ''newer_version'',
         io_condition = c\<lparr>ic_same_source_identity := Some True,
           ic_source_version_relation := Some REL_GREATER\<rparr>,
         io_outcome = NEW_SOURCE_VERSION, io_storage_effect = APPEND_AND_SUPERSEDE_ACTIVE_VERSION,
         io_canonical_effect = RECONCILE_NEW_SOURCE_SET\<rparr>,
        \<lparr>io_precedence = 6, io_case_id = ''late_version'',
         io_condition = c\<lparr>ic_same_source_identity := Some True,
           ic_source_version_relation := Some REL_LOWER\<rparr>,
         io_outcome = LATE_SOURCE_VERSION_RECORDED, io_storage_effect = APPEND_LATE_NON_ACTIVE_VERSION,
         io_canonical_effect = NO_CHANGE\<rparr>,
        \<lparr>io_precedence = 7, io_case_id = ''new_observation'',
         io_condition = c\<lparr>ic_same_delivery_identity := Some False,
           ic_same_source_identity := Some False\<rparr>,
         io_outcome = NEW_OBSERVATION, io_storage_effect = APPEND,
         io_canonical_effect = CREATE_PROJECTION_CANDIDATE\<rparr>,
        \<lparr>io_precedence = 8, io_case_id = ''linkage_review'',
         io_condition = c\<lparr>ic_scope_match := Some True\<rparr>,
         io_outcome = LINKAGE_REVIEW_REQUIRED, io_storage_effect = APPEND,
         io_canonical_effect = REQUIRE_LINKAGE_REVIEW\<rparr>]\<rparr>)"

lemma approved_identity_policy_accepted:
  "mk_IdentityPolicy approved_identity_policy = Inr approved_identity_policy"
  by code_simp

theorem identity_policy_is_approved_table_witness:
  "length (ip_outcomes approved_identity_policy) = 8 \<and>
   (\<exists>!i. i < 8 \<and> io_outcome (ip_outcomes approved_identity_policy ! i) = NEW_SOURCE_VERSION)"
  using identity_policy_is_approved_table [OF approved_identity_policy_accepted] by blast

text \<open>An accepted source-of-truth policy has exactly one rule for each of the sixteen
  governed field paths and no other rule, and in every rule each trusted source has exactly one
  rank in the source precedence.\<close>

theorem source_of_truth_covers_fields:
  assumes "mk_SourceOfTruthPolicy p = Inr q"
  shows "q = p \<and>
    (\<forall>f \<in> set SOURCE_OF_TRUTH_FIELD_PATHS. \<exists>!i. i < length (sp_field_rules p) \<and>
       sr_field_path (sp_field_rules p ! i) = f) \<and>
    (\<forall>r \<in> set (sp_field_rules p). sr_field_path r \<in> set SOURCE_OF_TRUTH_FIELD_PATHS \<and>
       (\<forall>s \<in> set (sr_trusted_sources r). \<exists>!j. j < length (sr_source_precedence r) \<and>
          sr_source_precedence r ! j = s))"
proof -
  have v: "fields_are_unique p = Inr q"
    and rules: "\<And>r. r \<in> set (sp_field_rules p) \<Longrightarrow> \<exists>r'. mk_SourceOfTruthFieldRule r = Inr r'"
    using assms by (auto simp: mk_SourceOfTruthPolicy_def result_simps emap_Inr_iff list_all2_conv_all_nth
        in_set_conv_nth)
  from v have u: "q = p" "distinct (map sr_field_path (sp_field_rules p))"
      "set (map sr_field_path (sp_field_rules p)) = set SOURCE_OF_TRUTH_FIELD_PATHS"
    by (simp_all add: fields_are_unique_def Let_def check_simps)
  have r: "\<exists>!j. j < length (sr_source_precedence r) \<and> sr_source_precedence r ! j = s"
    if "r \<in> set (sp_field_rules p)" and "s \<in> set (sr_trusted_sources r)" for r s
  proof -
    have "distinct (sr_source_precedence r)" "s \<in> set (sr_source_precedence r)"
      using rules [OF that(1)] that(2) by (auto simp: mk_SourceOfTruthFieldRule_def check_simps)
    then show ?thesis using distinct_map_unique_index [of id "sr_source_precedence r" s] by simp
  qed
  have f: "\<exists>!i. i < length (sp_field_rules p) \<and> sr_field_path (sp_field_rules p ! i) = f"
    if "f \<in> set SOURCE_OF_TRUTH_FIELD_PATHS" for f
    using distinct_map_unique_index [OF u(2), of f] u(3) that by simp
  show ?thesis using u(1,3) r f by auto
qed

definition approved_source_policy :: SourceOfTruthPolicy where
  "approved_source_policy =
     \<lparr>sp_policy_version = ''1.0.0'', sp_scope = ''MVP_SYNTHETIC_FX'',
      sp_field_rules = map (\<lambda>f.
        \<lparr>sr_field_path = f, sr_owner = EXECUTION_OR_TRADE_CAPTURE, sr_trusted_sources = [FIX_EXECUTION],
         sr_source_precedence = [FIX_EXECUTION, FIX_TRADE_CAPTURE],
         sr_secondary_sources = [FIX_TRADE_CAPTURE],
         sr_conflict_outcome = EMIT_BREAK_NO_SILENT_OVERWRITE\<rparr>) SOURCE_OF_TRUTH_FIELD_PATHS\<rparr>"

lemma approved_source_policy_accepted:
  "mk_SourceOfTruthPolicy approved_source_policy = Inr approved_source_policy"
  by code_simp

theorem source_of_truth_covers_fields_witness:
  "\<exists>!i. i < length (sp_field_rules approved_source_policy) \<and>
     sr_field_path (sp_field_rules approved_source_policy ! i) = ''/linkage/trade_id''"
  using source_of_truth_covers_fields [OF approved_source_policy_accepted]
  by (simp add: SOURCE_OF_TRUTH_FIELD_PATHS_def)

end
