(* ===== verification/Break_Taxonomy.thy ===== *)
theory Break_Taxonomy
  imports Contract_Types
begin

text \<open>
  \<open>packages/contracts/models.py\<close>, break taxonomy: the literals of the eight break families, the
  policy tables keyed by family, the priority policy, and the lifecycle transition matrix. The
  lifecycle is also given as the set of state histories the matrix admits, over which the
  lemmas at the end are proved by rule induction. Constructors carry the literal's name, with a
  prefix where two literals share one.
\<close>

section \<open>Literals\<close>

datatype BreakFamily =
    MISSING_REQUIRED_SOURCE | AMBIGUOUS_OR_UNMATCHED_LINKAGE | DUPLICATE_SOURCE_CONFLICT_FAMILY
  | CURRENCY_PAIR_OR_SIDE_MISMATCH | ECONOMIC_VALUE_MISMATCH | TRADE_OR_VALUE_DATE_MISMATCH
  | LIFECYCLE_STATUS_MISMATCH | POST_ACTION_VERIFICATION_FAILURE

datatype BreakConditionCode =
    MISSING_SOURCE_AFTER_WATERMARK | LINKAGE_CANDIDATE_SCOPE_INVARIANT
  | DUPLICATE_SOURCE_IDENTITY_CONTENT | EXACT_CURRENCY_PAIR_SIDE | DECIMAL_OUTSIDE_TOLERANCE
  | EXACT_TRADE_VALUE_DATE | ALLOWED_LIFECYCLE_RELATION | POST_ACTION_READBACK_RECONCILIATION

datatype BreakSeverity =
    CRITICAL | HIGH | MEDIUM

datatype BreakSeverityRule =
    RULE_FIXED | RULE_MISSING_SOURCE_BY_OBSERVATION_KIND

datatype BreakEvidenceRole =
    INGESTION_WATERMARK | EXPECTED_SOURCE | CANDIDATE_LINK | LINKAGE_DECISION
  | SOURCE_PAYLOAD_PAIR | SOURCE_METADATA | FIELD_COMPARISON | NORMALISATION_RULE
  | DECIMAL_COMPARISON | DATE_COMPARISON | LIFECYCLE_RELATION | ACTION_INSTRUCTION
  | PRE_ACTION_READ | POST_ACTION_READ | CHANGED_FIELD_DIFF | RECONCILIATION_RESULT
  | DISPOSITION_APPROVAL

datatype BreakResolutionCode =
    SOURCE_OR_RECONCILIATION_PASS_OR_AUTHORISED_NON_ACTION
  | LINKAGE_DECISION_AND_RECONCILIATION_PASS
  | SOURCE_CORRECTION_OR_SUPERSESSION_AND_RECONCILIATION_PASS
  | AGREEMENT_AFTER_CORRECTION_AND_RECONCILIATION_PASS
  | WITHIN_TOLERANCE_AND_RECONCILIATION_PASS | DATES_AGREE_AND_RECONCILIATION_PASS
  | ALLOWED_LIFECYCLE_RELATION_AND_RECONCILIATION_PASS
  | VERIFIED_READBACK_OR_AUTHORISED_NON_ACTION

datatype BreakLifecycleState =
    OPEN | UNDER_INVESTIGATION | RESOLUTION_PROPOSED | ACTION_PENDING
  | NO_ACTION_DISPOSITION_PENDING | VERIFYING | RESOLVED | ESCALATED

datatype BreakTransitionReason =
    DETECTED | BEGIN_INVESTIGATION | PROPOSE_RESOLUTION | ACTION_AUTHORISATION_PENDING
  | REASON_NO_ACTION_DISPOSITION_PENDING | BEGIN_VERIFICATION | RESOLUTION_VERIFIED | ESCALATE

datatype MaterialityBand =
    MATERIAL | UNASSESSED | NON_MATERIAL

datatype DeadlineStatus =
    OVERDUE | DUE | NO_CONFIGURED_DEADLINE

datatype PriorityTieBreaker =
    BY_MATERIALITY_BAND | BY_SEVERITY | BY_LIFECYCLE_DEADLINE | BY_CASE_AGE

datatype BreakValueType =
    VT_ABSENCE | VT_COUNT | VT_CURRENCY | VT_CURRENCY_PAIR | VT_SIDE | VT_DECIMAL | VT_DATE
  | VT_LIFECYCLE_STATUS | VT_IDENTIFIER | VT_READBACK | VT_SOURCE_IDENTITY | VT_SOURCE_VERSION
  | VT_CONTENT_HASH

datatype ToleranceMode =
    TOL_NONE | ABSOLUTE_DECIMAL | RELATIVE_DECIMAL

datatype BreakResolutionType =
    RECONCILIATION_PASS | OWNER_APPROVED_NON_ACTION

text \<open>The spelling of the literals that error messages and orderings use.\<close>

fun family_str :: "BreakFamily \<Rightarrow> string" where
  "family_str MISSING_REQUIRED_SOURCE = ''MISSING_REQUIRED_SOURCE''"
| "family_str AMBIGUOUS_OR_UNMATCHED_LINKAGE = ''AMBIGUOUS_OR_UNMATCHED_LINKAGE''"
| "family_str DUPLICATE_SOURCE_CONFLICT_FAMILY = ''DUPLICATE_SOURCE_CONFLICT''"
| "family_str CURRENCY_PAIR_OR_SIDE_MISMATCH = ''CURRENCY_PAIR_OR_SIDE_MISMATCH''"
| "family_str ECONOMIC_VALUE_MISMATCH = ''ECONOMIC_VALUE_MISMATCH''"
| "family_str TRADE_OR_VALUE_DATE_MISMATCH = ''TRADE_OR_VALUE_DATE_MISMATCH''"
| "family_str LIFECYCLE_STATUS_MISMATCH = ''LIFECYCLE_STATUS_MISMATCH''"
| "family_str POST_ACTION_VERIFICATION_FAILURE = ''POST_ACTION_VERIFICATION_FAILURE''"

fun role_str :: "BreakEvidenceRole \<Rightarrow> string" where
  "role_str INGESTION_WATERMARK = ''INGESTION_WATERMARK''"
| "role_str EXPECTED_SOURCE = ''EXPECTED_SOURCE''"
| "role_str CANDIDATE_LINK = ''CANDIDATE_LINK''"
| "role_str LINKAGE_DECISION = ''LINKAGE_DECISION''"
| "role_str SOURCE_PAYLOAD_PAIR = ''SOURCE_PAYLOAD_PAIR''"
| "role_str SOURCE_METADATA = ''SOURCE_METADATA''"
| "role_str FIELD_COMPARISON = ''FIELD_COMPARISON''"
| "role_str NORMALISATION_RULE = ''NORMALISATION_RULE''"
| "role_str DECIMAL_COMPARISON = ''DECIMAL_COMPARISON''"
| "role_str DATE_COMPARISON = ''DATE_COMPARISON''"
| "role_str LIFECYCLE_RELATION = ''LIFECYCLE_RELATION''"
| "role_str ACTION_INSTRUCTION = ''ACTION_INSTRUCTION''"
| "role_str PRE_ACTION_READ = ''PRE_ACTION_READ''"
| "role_str POST_ACTION_READ = ''POST_ACTION_READ''"
| "role_str CHANGED_FIELD_DIFF = ''CHANGED_FIELD_DIFF''"
| "role_str RECONCILIATION_RESULT = ''RECONCILIATION_RESULT''"
| "role_str DISPOSITION_APPROVAL = ''DISPOSITION_APPROVAL''"

fun value_type_str :: "BreakValueType \<Rightarrow> string" where
  "value_type_str VT_ABSENCE = ''ABSENCE''"
| "value_type_str VT_COUNT = ''COUNT''"
| "value_type_str VT_CURRENCY = ''CURRENCY''"
| "value_type_str VT_CURRENCY_PAIR = ''CURRENCY_PAIR''"
| "value_type_str VT_SIDE = ''SIDE''"
| "value_type_str VT_DECIMAL = ''DECIMAL''"
| "value_type_str VT_DATE = ''DATE''"
| "value_type_str VT_LIFECYCLE_STATUS = ''LIFECYCLE_STATUS''"
| "value_type_str VT_IDENTIFIER = ''IDENTIFIER''"
| "value_type_str VT_READBACK = ''READBACK''"
| "value_type_str VT_SOURCE_IDENTITY = ''SOURCE_IDENTITY''"
| "value_type_str VT_SOURCE_VERSION = ''SOURCE_VERSION''"
| "value_type_str VT_CONTENT_HASH = ''CONTENT_HASH''"

text \<open>\<open>_BREAK_FAMILY_ORDER\<close>.\<close>

definition BREAK_FAMILY_ORDER :: "BreakFamily list" where
  "BREAK_FAMILY_ORDER = [
     MISSING_REQUIRED_SOURCE,
     AMBIGUOUS_OR_UNMATCHED_LINKAGE,
     DUPLICATE_SOURCE_CONFLICT_FAMILY,
     CURRENCY_PAIR_OR_SIDE_MISMATCH,
     ECONOMIC_VALUE_MISMATCH,
     TRADE_OR_VALUE_DATE_MISMATCH,
     LIFECYCLE_STATUS_MISMATCH,
     POST_ACTION_VERIFICATION_FAILURE]"

text \<open>\<open>_BREAK_FAMILY_POLICY\<close>: definition text, condition, default severity, severity rule, required
  evidence roles and resolution predicate of every family.\<close>

type_synonym family_spec =
  "string \<times> BreakConditionCode \<times> BreakSeverity \<times> BreakSeverityRule \<times>
   BreakEvidenceRole list \<times> BreakResolutionCode"

fun break_family_policy :: "BreakFamily \<Rightarrow> family_spec" where
  "break_family_policy MISSING_REQUIRED_SOURCE =
     (''A required execution, confirmation or booking observation is absent after its '' @
      ''configured deterministic arrival window.'',
      MISSING_SOURCE_AFTER_WATERMARK, HIGH, RULE_MISSING_SOURCE_BY_OBSERVATION_KIND,
      [INGESTION_WATERMARK, EXPECTED_SOURCE],
      SOURCE_OR_RECONCILIATION_PASS_OR_AUTHORISED_NON_ACTION)"
| "break_family_policy AMBIGUOUS_OR_UNMATCHED_LINKAGE =
     (''An observation has zero or multiple eligible canonical-trade matches, or a '' @
      ''proposed link crosses tenant or portfolio scope.'',
      LINKAGE_CANDIDATE_SCOPE_INVARIANT, HIGH, RULE_FIXED,
      [CANDIDATE_LINK, LINKAGE_DECISION],
      LINKAGE_DECISION_AND_RECONCILIATION_PASS)"
| "break_family_policy DUPLICATE_SOURCE_CONFLICT_FAMILY =
     (''The same source business key and version has non-identical content, or two '' @
      ''active records claim the same unique lifecycle identity.'',
      DUPLICATE_SOURCE_IDENTITY_CONTENT, HIGH, RULE_FIXED,
      [SOURCE_PAYLOAD_PAIR, SOURCE_METADATA],
      SOURCE_CORRECTION_OR_SUPERSESSION_AND_RECONCILIATION_PASS)"
| "break_family_policy CURRENCY_PAIR_OR_SIDE_MISMATCH =
     (''Normalised base and terms currencies or base-relative side disagree across '' @
      ''required sources.'',
      EXACT_CURRENCY_PAIR_SIDE, CRITICAL, RULE_FIXED,
      [FIELD_COMPARISON, NORMALISATION_RULE],
      AGREEMENT_AFTER_CORRECTION_AND_RECONCILIATION_PASS)"
| "break_family_policy ECONOMIC_VALUE_MISMATCH =
     (''Base amount, terms amount or quoted rate differs outside the approved field '' @
      ''tolerance.'',
      DECIMAL_OUTSIDE_TOLERANCE, CRITICAL, RULE_FIXED,
      [DECIMAL_COMPARISON, NORMALISATION_RULE],
      WITHIN_TOLERANCE_AND_RECONCILIATION_PASS)"
| "break_family_policy TRADE_OR_VALUE_DATE_MISMATCH =
     (''Trade date or value date differs across required sources after explicit calendar '' @
      ''and normalisation rules.'',
      EXACT_TRADE_VALUE_DATE, HIGH, RULE_FIXED,
      [DATE_COMPARISON, NORMALISATION_RULE],
      DATES_AGREE_AND_RECONCILIATION_PASS)"
| "break_family_policy LIFECYCLE_STATUS_MISMATCH =
     (''Confirmation, booking or reporting lifecycle status is inconsistent with the '' @
      ''allowed state relation for the canonical trade.'',
      ALLOWED_LIFECYCLE_RELATION, HIGH, RULE_FIXED,
      [LIFECYCLE_RELATION, NORMALISATION_RULE],
      ALLOWED_LIFECYCLE_RELATION_AND_RECONCILIATION_PASS)"
| "break_family_policy POST_ACTION_VERIFICATION_FAILURE =
     (''Read-back is unavailable, the target value or version differs, an unapproved '' @
      ''field changed, or the original applicable break remains after action.'',
      POST_ACTION_READBACK_RECONCILIATION, CRITICAL, RULE_FIXED,
      [ACTION_INSTRUCTION, PRE_ACTION_READ, POST_ACTION_READ, CHANGED_FIELD_DIFF, RECONCILIATION_RESULT],
      VERIFIED_READBACK_OR_AUTHORISED_NON_ACTION)"

text \<open>\<open>_BREAK_COMPARISON_POLICY\<close>.\<close>

fun break_comparison_policy :: "BreakFamily \<Rightarrow> (string \<times> BreakValueType) list" where
  "break_comparison_policy MISSING_REQUIRED_SOURCE =
     [(''/source/execution_observation'', VT_ABSENCE),
      (''/source/confirmation_observation'', VT_ABSENCE),
      (''/source/booking_observation'', VT_ABSENCE)]"
| "break_comparison_policy AMBIGUOUS_OR_UNMATCHED_LINKAGE =
     [(''/linkage/trade_id'', VT_COUNT)]"
| "break_comparison_policy DUPLICATE_SOURCE_CONFLICT_FAMILY =
     [(''/source/source_business_key'', VT_SOURCE_IDENTITY),
      (''/source/source_version'', VT_SOURCE_VERSION),
      (''/source/content_hash'', VT_CONTENT_HASH)]"
| "break_comparison_policy CURRENCY_PAIR_OR_SIDE_MISMATCH =
     [(''/payload/base_currency'', VT_CURRENCY),
      (''/payload/terms_currency'', VT_CURRENCY),
      (''/payload/side'', VT_SIDE)]"
| "break_comparison_policy ECONOMIC_VALUE_MISMATCH =
     [(''/payload/base_amount'', VT_DECIMAL),
      (''/payload/terms_amount'', VT_DECIMAL),
      (''/payload/quoted_rate'', VT_DECIMAL)]"
| "break_comparison_policy TRADE_OR_VALUE_DATE_MISMATCH =
     [(''/payload/trade_date'', VT_DATE),
      (''/payload/value_date'', VT_DATE)]"
| "break_comparison_policy LIFECYCLE_STATUS_MISMATCH =
     [(''/payload/lifecycle_status'', VT_LIFECYCLE_STATUS)]"
| "break_comparison_policy POST_ACTION_VERIFICATION_FAILURE =
     [(''/payload/book_id'', VT_IDENTIFIER),
      (''/payload/lifecycle_status'', VT_LIFECYCLE_STATUS),
      (''/payload/booking_version'', VT_SOURCE_VERSION),
      (''/payload/record_fingerprint'', VT_CONTENT_HASH)]"

text \<open>\<open>_BREAK_COMPARISON_EVIDENCE_ROLES\<close>.\<close>

fun break_comparison_evidence_roles :: "BreakFamily \<Rightarrow> BreakEvidenceRole list" where
  "break_comparison_evidence_roles MISSING_REQUIRED_SOURCE =
     [EXPECTED_SOURCE]"
| "break_comparison_evidence_roles AMBIGUOUS_OR_UNMATCHED_LINKAGE =
     [CANDIDATE_LINK, LINKAGE_DECISION]"
| "break_comparison_evidence_roles DUPLICATE_SOURCE_CONFLICT_FAMILY =
     [SOURCE_PAYLOAD_PAIR, SOURCE_METADATA]"
| "break_comparison_evidence_roles CURRENCY_PAIR_OR_SIDE_MISMATCH =
     [FIELD_COMPARISON, NORMALISATION_RULE]"
| "break_comparison_evidence_roles ECONOMIC_VALUE_MISMATCH =
     [DECIMAL_COMPARISON, NORMALISATION_RULE]"
| "break_comparison_evidence_roles TRADE_OR_VALUE_DATE_MISMATCH =
     [DATE_COMPARISON, NORMALISATION_RULE]"
| "break_comparison_evidence_roles LIFECYCLE_STATUS_MISMATCH =
     [LIFECYCLE_RELATION, NORMALISATION_RULE]"
| "break_comparison_evidence_roles POST_ACTION_VERIFICATION_FAILURE =
     [ACTION_INSTRUCTION, PRE_ACTION_READ, POST_ACTION_READ, CHANGED_FIELD_DIFF]"

text \<open>\<open>_BREAK_ALLOWED_RESOLUTION_TYPES\<close>.\<close>

fun break_allowed_resolution_types :: "BreakFamily \<Rightarrow> BreakResolutionType list" where
  "break_allowed_resolution_types MISSING_REQUIRED_SOURCE =
     [RECONCILIATION_PASS, OWNER_APPROVED_NON_ACTION]"
| "break_allowed_resolution_types AMBIGUOUS_OR_UNMATCHED_LINKAGE =
     [RECONCILIATION_PASS]"
| "break_allowed_resolution_types DUPLICATE_SOURCE_CONFLICT_FAMILY =
     [RECONCILIATION_PASS]"
| "break_allowed_resolution_types CURRENCY_PAIR_OR_SIDE_MISMATCH =
     [RECONCILIATION_PASS]"
| "break_allowed_resolution_types ECONOMIC_VALUE_MISMATCH =
     [RECONCILIATION_PASS]"
| "break_allowed_resolution_types TRADE_OR_VALUE_DATE_MISMATCH =
     [RECONCILIATION_PASS]"
| "break_allowed_resolution_types LIFECYCLE_STATUS_MISMATCH =
     [RECONCILIATION_PASS]"
| "break_allowed_resolution_types POST_ACTION_VERIFICATION_FAILURE =
     [RECONCILIATION_PASS, OWNER_APPROVED_NON_ACTION]"

text \<open>\<open>_BREAK_ALLOWED_TOLERANCE_MODES\<close>: every value type but decimals is compared exactly.\<close>

fun break_allowed_tolerance_modes :: "BreakValueType \<Rightarrow> ToleranceMode list" where
  "break_allowed_tolerance_modes VT_ABSENCE = [TOL_NONE]"
| "break_allowed_tolerance_modes VT_COUNT = [TOL_NONE]"
| "break_allowed_tolerance_modes VT_CURRENCY = [TOL_NONE]"
| "break_allowed_tolerance_modes VT_CURRENCY_PAIR = [TOL_NONE]"
| "break_allowed_tolerance_modes VT_SIDE = [TOL_NONE]"
| "break_allowed_tolerance_modes VT_DECIMAL = [TOL_NONE, ABSOLUTE_DECIMAL, RELATIVE_DECIMAL]"
| "break_allowed_tolerance_modes VT_DATE = [TOL_NONE]"
| "break_allowed_tolerance_modes VT_LIFECYCLE_STATUS = [TOL_NONE]"
| "break_allowed_tolerance_modes VT_IDENTIFIER = [TOL_NONE]"
| "break_allowed_tolerance_modes VT_READBACK = [TOL_NONE]"
| "break_allowed_tolerance_modes VT_SOURCE_IDENTITY = [TOL_NONE]"
| "break_allowed_tolerance_modes VT_SOURCE_VERSION = [TOL_NONE]"
| "break_allowed_tolerance_modes VT_CONTENT_HASH = [TOL_NONE]"

text \<open>\<open>_BREAK_DISTINCT_SOURCE_FAMILIES\<close>.\<close>

definition BREAK_DISTINCT_SOURCE_FAMILIES :: "BreakFamily list" where
  "BREAK_DISTINCT_SOURCE_FAMILIES = [
     CURRENCY_PAIR_OR_SIDE_MISMATCH,
     DUPLICATE_SOURCE_CONFLICT_FAMILY,
     ECONOMIC_VALUE_MISMATCH,
     TRADE_OR_VALUE_DATE_MISMATCH,
     LIFECYCLE_STATUS_MISMATCH]"

definition BREAK_LIFECYCLE_STATES :: "BreakLifecycleState list" where
  "BREAK_LIFECYCLE_STATES = [
     OPEN,
     UNDER_INVESTIGATION,
     RESOLUTION_PROPOSED,
     ACTION_PENDING,
     NO_ACTION_DISPOSITION_PENDING,
     VERIFYING,
     RESOLVED,
     ESCALATED]"

text \<open>\<open>_BREAK_TRANSITION_POLICY\<close>: previous state, state, reason.\<close>

definition BREAK_TRANSITION_POLICY ::
  "(BreakLifecycleState option \<times> BreakLifecycleState \<times> BreakTransitionReason) list" where
  "BREAK_TRANSITION_POLICY = [
     (None, OPEN, DETECTED),
     (Some OPEN, UNDER_INVESTIGATION, BEGIN_INVESTIGATION),
     (Some OPEN, ESCALATED, ESCALATE),
     (Some UNDER_INVESTIGATION, RESOLUTION_PROPOSED, PROPOSE_RESOLUTION),
     (Some UNDER_INVESTIGATION, ESCALATED, ESCALATE),
     (Some RESOLUTION_PROPOSED, ACTION_PENDING, ACTION_AUTHORISATION_PENDING),
     (Some RESOLUTION_PROPOSED, NO_ACTION_DISPOSITION_PENDING, REASON_NO_ACTION_DISPOSITION_PENDING),
     (Some RESOLUTION_PROPOSED, ESCALATED, ESCALATE),
     (Some ACTION_PENDING, VERIFYING, BEGIN_VERIFICATION),
     (Some ACTION_PENDING, ESCALATED, ESCALATE),
     (Some NO_ACTION_DISPOSITION_PENDING, VERIFYING, BEGIN_VERIFICATION),
     (Some NO_ACTION_DISPOSITION_PENDING, ESCALATED, ESCALATE),
     (Some VERIFYING, RESOLVED, RESOLUTION_VERIFIED),
     (Some VERIFYING, ESCALATED, ESCALATE)]"

section \<open>Taxonomy documents\<close>

record BreakFamilyDefinition =
  bd_family :: BreakFamily
  bd_definition :: string
  bd_condition_code :: BreakConditionCode
  bd_default_severity :: BreakSeverity
  bd_severity_rule :: BreakSeverityRule
  bd_required_evidence_roles :: "BreakEvidenceRole list"
  bd_resolution_code :: BreakResolutionCode

definition mk_BreakFamilyDefinition ::
  "BreakFamilyDefinition \<Rightarrow> py_error + BreakFamilyDefinition" where
  "mk_BreakFamilyDefinition d = checked [
     (bd_definition d = [], ValueError ''definition''),
     (bd_required_evidence_roles d = [], ValueError ''required_evidence_roles'')] d"

record BreakPriorityPolicy =
  pp_materiality_order :: "MaterialityBand list"
  pp_severity_order :: "BreakSeverity list"
  pp_deadline_order :: "DeadlineStatus list"
  pp_tie_breakers :: "PriorityTieBreaker list"

definition mk_BreakPriorityPolicy :: "BreakPriorityPolicy \<Rightarrow> py_error + BreakPriorityPolicy" where
  "mk_BreakPriorityPolicy p = checked [
     (pp_materiality_order p \<noteq> [MATERIAL, UNASSESSED, NON_MATERIAL],
        ValueError ''materiality_order must be MATERIAL, UNASSESSED, NON_MATERIAL''),
     (pp_severity_order p \<noteq> [CRITICAL, HIGH, MEDIUM],
        ValueError ''severity_order must be CRITICAL, HIGH, MEDIUM''),
     (pp_deadline_order p \<noteq> [OVERDUE, DUE, NO_CONFIGURED_DEADLINE],
        ValueError ''deadline_order must be OVERDUE, DUE, NO_CONFIGURED_DEADLINE''),
     (pp_tie_breakers p \<noteq> [BY_MATERIALITY_BAND, BY_SEVERITY, BY_LIFECYCLE_DEADLINE, BY_CASE_AGE],
        ValueError ''tie_breakers must follow the approved deterministic priority tuple'')] p"

record BreakLifecycleTransition =
  lt_from_state :: "BreakLifecycleState option"
  lt_to_state :: BreakLifecycleState
  lt_reason_code :: BreakTransitionReason

record BreakTaxonomy =
  bt_schema_version :: string
  bt_taxonomy_version :: string
  bt_scope :: string
  bt_families :: "BreakFamilyDefinition list"
  bt_lifecycle_states :: "BreakLifecycleState list"
  bt_allowed_transitions :: "BreakLifecycleTransition list"
  bt_priority_policy :: BreakPriorityPolicy

definition family_spec_of :: "BreakFamilyDefinition \<Rightarrow> family_spec" where
  "family_spec_of d =
     (bd_definition d, bd_condition_code d, bd_default_severity d, bd_severity_rule d,
      bd_required_evidence_roles d, bd_resolution_code d)"

definition transition_of ::
  "BreakLifecycleTransition \<Rightarrow> BreakLifecycleState option \<times> BreakLifecycleState \<times> BreakTransitionReason" where
  "transition_of t = (lt_from_state t, lt_to_state t, lt_reason_code t)"

definition validate_taxonomy :: "BreakTaxonomy \<Rightarrow> py_error + BreakTaxonomy" where
  "validate_taxonomy t = checked ([
     (map bd_family (bt_families t) \<noteq> BREAK_FAMILY_ORDER,
        ValueError ''taxonomy must define the eight approved families in order'')] @
     map (\<lambda>d. (family_spec_of d \<noteq> break_family_policy (bd_family d),
        ValueError (''taxonomy definition for '' @ family_str (bd_family d) @ '' is not approved'')))
       (bt_families t) @ [
     (bt_lifecycle_states t \<noteq> BREAK_LIFECYCLE_STATES,
        ValueError ''taxonomy lifecycle_states must match the approved state list''),
     (map transition_of (bt_allowed_transitions t) \<noteq> BREAK_TRANSITION_POLICY,
        ValueError ''taxonomy allowed_transitions must match the approved transition matrix'')]) t"

definition mk_BreakTaxonomy :: "BreakTaxonomy \<Rightarrow> py_error + BreakTaxonomy" where
  "mk_BreakTaxonomy t =
     ebind (checked [
       (bt_schema_version t \<noteq> ''1.0.0'', ValueError ''schema_version''),
       (bt_taxonomy_version t \<noteq> ''1.0.0'', ValueError ''taxonomy_version''),
       (bt_scope t \<noteq> ''MVP_SYNTHETIC_FX'', ValueError ''scope''),
       (length (bt_families t) \<noteq> 8, ValueError ''families''),
       (length (bt_allowed_transitions t) \<noteq> 14, ValueError ''allowed_transitions'')] ()) (\<lambda>_.
     ebind (emap mk_BreakFamilyDefinition (bt_families t)) (\<lambda>_.
     ebind (mk_BreakPriorityPolicy (bt_priority_policy t)) (\<lambda>_.
     validate_taxonomy t)))"

lemma taxonomy_accepted:
  assumes "mk_BreakTaxonomy t = Inr u"
  shows "u = t" and "map transition_of (bt_allowed_transitions t) = BREAK_TRANSITION_POLICY"
    and "map (\<lambda>d. (bd_family d, family_spec_of d)) (bt_families t) =
           map (\<lambda>f. (f, break_family_policy f)) BREAK_FAMILY_ORDER"
    and "bt_lifecycle_states t = BREAK_LIFECYCLE_STATES"
proof -
  have v: "validate_taxonomy t = Inr u"
    using assms by (auto simp: mk_BreakTaxonomy_def result_simps)
  then show "u = t" and "map transition_of (bt_allowed_transitions t) = BREAK_TRANSITION_POLICY"
    and "bt_lifecycle_states t = BREAK_LIFECYCLE_STATES"
    by (simp_all add: validate_taxonomy_def check_simps)
  have f: "map bd_family (bt_families t) = BREAK_FAMILY_ORDER"
    and s: "\<forall>d \<in> set (bt_families t). family_spec_of d = break_family_policy (bd_family d)"
    using v by (simp_all add: validate_taxonomy_def check_simps first_error_map_None)
  have "map (\<lambda>d. (bd_family d, family_spec_of d)) (bt_families t) =
      map (\<lambda>f. (f, break_family_policy f)) (map bd_family (bt_families t))"
    using s by simp
  then show "map (\<lambda>d. (bd_family d, family_spec_of d)) (bt_families t) =
      map (\<lambda>f. (f, break_family_policy f)) BREAK_FAMILY_ORDER"
    by (simp add: f)
qed

section \<open>The lifecycle as a state machine\<close>

text \<open>
  The histories of a break: the states of its successive documents, each a transition of the
  matrix from the one before, the first from no state at all.
\<close>

inductive break_history :: "BreakLifecycleState list \<Rightarrow> bool" where
  start: "(None, s, r) \<in> set BREAK_TRANSITION_POLICY \<Longrightarrow> break_history [s]"
| step: "break_history (hs @ [s]) \<Longrightarrow> (Some s, t, r) \<in> set BREAK_TRANSITION_POLICY \<Longrightarrow>
    break_history (hs @ [s, t])"

text \<open>The happy paths: by action and by owner-approved non-action.\<close>

definition action_path :: "BreakLifecycleState list" where
  "action_path =
     [OPEN, UNDER_INVESTIGATION, RESOLUTION_PROPOSED, ACTION_PENDING, VERIFYING, RESOLVED]"

definition no_action_path :: "BreakLifecycleState list" where
  "no_action_path = [OPEN, UNDER_INVESTIGATION, RESOLUTION_PROPOSED,
     NO_ACTION_DISPOSITION_PENDING, VERIFYING, RESOLVED]"

definition break_histories :: "BreakLifecycleState list list" where
  "break_histories =
     concat (map (\<lambda>p. map (\<lambda>n. take n p) [1..<7]) [action_path, no_action_path]) @
     concat (map (\<lambda>p. map (\<lambda>n. take n p @ [ESCALATED]) [1..<6]) [action_path, no_action_path])"

lemma transition_cases:
  "(Some s, t, r) \<in> set BREAK_TRANSITION_POLICY \<longleftrightarrow>
     (s \<notin> {RESOLVED, ESCALATED} \<and> t = ESCALATED \<and> r = ESCALATE) \<or>
     (s, t, r) \<in> {(OPEN, UNDER_INVESTIGATION, BEGIN_INVESTIGATION),
       (UNDER_INVESTIGATION, RESOLUTION_PROPOSED, PROPOSE_RESOLUTION),
       (RESOLUTION_PROPOSED, ACTION_PENDING, ACTION_AUTHORISATION_PENDING),
       (RESOLUTION_PROPOSED, NO_ACTION_DISPOSITION_PENDING, REASON_NO_ACTION_DISPOSITION_PENDING),
       (ACTION_PENDING, VERIFYING, BEGIN_VERIFICATION),
       (NO_ACTION_DISPOSITION_PENDING, VERIFYING, BEGIN_VERIFICATION),
       (VERIFYING, RESOLVED, RESOLUTION_VERIFIED)}"
  by (cases s; cases t; cases r) (simp_all add: BREAK_TRANSITION_POLICY_def)

lemma transition_start:
  "(None, s, r) \<in> set BREAK_TRANSITION_POLICY \<longleftrightarrow> s = OPEN \<and> r = DETECTED"
  by (cases s; cases r) (simp_all add: BREAK_TRANSITION_POLICY_def)

lemma break_histories_list:
  "set break_histories =
     {[OPEN], [OPEN, ESCALATED],
      [OPEN, UNDER_INVESTIGATION], [OPEN, UNDER_INVESTIGATION, ESCALATED],
      [OPEN, UNDER_INVESTIGATION, RESOLUTION_PROPOSED],
      [OPEN, UNDER_INVESTIGATION, RESOLUTION_PROPOSED, ESCALATED]} \<union>
     (\<Union>p \<in> {ACTION_PENDING, NO_ACTION_DISPOSITION_PENDING}.
       {[OPEN, UNDER_INVESTIGATION, RESOLUTION_PROPOSED, p],
        [OPEN, UNDER_INVESTIGATION, RESOLUTION_PROPOSED, p, ESCALATED],
        [OPEN, UNDER_INVESTIGATION, RESOLUTION_PROPOSED, p, VERIFYING],
        [OPEN, UNDER_INVESTIGATION, RESOLUTION_PROPOSED, p, VERIFYING, ESCALATED],
        [OPEN, UNDER_INVESTIGATION, RESOLUTION_PROPOSED, p, VERIFYING, RESOLVED]})"
  by (auto simp: break_histories_def action_path_def no_action_path_def upt_rec)

lemma break_history_listed: "break_history hs \<Longrightarrow> hs \<in> set break_histories"
proof (induction rule: break_history.induct)
  case (start s r)
  then show ?case by (simp add: transition_start break_histories_list)
next
  case (step hs s t r)
  have "hs @ [s, t] = (hs @ [s]) @ [t]" and "last (hs @ [s]) = s" by simp_all
  with step(3) [unfolded break_histories_list] step(2) show ?case
    unfolding break_histories_list by (elim UnE UN_E insertE emptyE) (auto simp: transition_cases)
qed

lemma break_history_extend:
  "break_history hs \<Longrightarrow> hs \<noteq> [] \<Longrightarrow> (Some (last hs), t, r) \<in> set BREAK_TRANSITION_POLICY \<Longrightarrow>
     break_history (hs @ [t])"
  using break_history.step [of "butlast hs" "last hs" t r]
  by (metis append.assoc append_Cons append_Nil append_butlast_last_id)

lemma listed_break_history: "hs \<in> set break_histories \<Longrightarrow> break_history hs"
proof -
  have o: "break_history [OPEN]" by (rule break_history.start) (simp add: transition_start)
  have e: "break_history (hs @ [ESCALATED])"
    if "break_history hs" "hs \<noteq> []" "last hs \<notin> {RESOLVED, ESCALATED}" for hs
    using break_history_extend [OF that(1,2), of ESCALATED ESCALATE] that(3)
    by (simp add: transition_cases)
  note x = break_history_extend [simplified transition_cases]
  have u: "break_history [OPEN, UNDER_INVESTIGATION]" using x [OF o] by simp
  have rp: "break_history [OPEN, UNDER_INVESTIGATION, RESOLUTION_PROPOSED]" using x [OF u] by simp
  have p: "break_history [OPEN, UNDER_INVESTIGATION, RESOLUTION_PROPOSED, q]"
    if "q \<in> {ACTION_PENDING, NO_ACTION_DISPOSITION_PENDING}" for q
    using x [OF rp, of q] that by auto
  have v: "break_history [OPEN, UNDER_INVESTIGATION, RESOLUTION_PROPOSED, q, VERIFYING]"
    if "q \<in> {ACTION_PENDING, NO_ACTION_DISPOSITION_PENDING}" for q
    using x [OF p [OF that], of VERIFYING] that by auto
  have r: "break_history [OPEN, UNDER_INVESTIGATION, RESOLUTION_PROPOSED, q, VERIFYING, RESOLVED]"
    if "q \<in> {ACTION_PENDING, NO_ACTION_DISPOSITION_PENDING}" for q
    using x [OF v [OF that], of RESOLVED] that by auto
  assume "hs \<in> set break_histories"
  then show ?thesis
    unfolding break_histories_list
    using o e [OF o] u e [OF u] rp e [OF rp] p e [OF p] v e [OF v] r by auto
qed

lemma mem_map_upt:
  "m = Suc k \<Longrightarrow> x \<in> set (map f [1..<m]) \<longleftrightarrow> (\<exists>n. 1 \<le> n \<and> n \<le> k \<and> x = f n)"
  unfolding set_map set_upt image_iff by (auto simp: less_Suc_eq_le)

text \<open>C33: The lifecycle matrix admits exactly sixteen histories, all of them finite: the prefixes
  of the two paths that investigate, propose, pend (on an action or on an owner-approved
  non-action), verify and resolve, and those prefixes cut short by an escalation. So a break
  is only ever resolved after verification, resolved and escalated breaks never move
  again, and every other break can still be escalated.\<close>

theorem break_lifecycle_histories:
  "break_history hs \<longleftrightarrow>
     (\<exists>p \<in> {action_path, no_action_path}.
        (\<exists>n. 1 \<le> n \<and> n \<le> 6 \<and> hs = take n p) \<or>
        (\<exists>n. 1 \<le> n \<and> n \<le> 5 \<and> hs = take n p @ [ESCALATED]))"
proof -
  have "7 = Suc 6" "6 = Suc 5" by simp_all
  note m = this [THEN mem_map_upt]
  have "break_history hs \<longleftrightarrow> hs \<in> set break_histories"
    using break_history_listed listed_break_history by blast
  also have "\<dots> \<longleftrightarrow> (\<exists>p \<in> {action_path, no_action_path}.
        hs \<in> set (map (\<lambda>n. take n p) [1..<7]) \<or>
        hs \<in> set (map (\<lambda>n. take n p @ [ESCALATED]) [1..<6]))"
    unfolding break_histories_def list.map concat.simps set_append list.set(1) Un_empty_right Un_iff
    by blast
  also have "\<dots> \<longleftrightarrow> (\<exists>p \<in> {action_path, no_action_path}.
        (\<exists>n. 1 \<le> n \<and> n \<le> 6 \<and> hs = take n p) \<or>
        (\<exists>n. 1 \<le> n \<and> n \<le> 5 \<and> hs = take n p @ [ESCALATED]))"
    by (simp only: m)
  finally show ?thesis .
qed

end
