(* ===== verification/Decimals.thy ===== *)
theory Decimals
  imports Prelude Complex_Main
begin

text \<open>
  Python's \<open>decimal.Decimal\<close> as far as the sources use it: the conversion from a string,
  equality, and the operations \<open>-\<close>, \<open>abs\<close> and \<open>*\<close> of the default context, which round to 28
  significant digits half to even. A finite number is \<open>Fin c e\<close>, standing for \<open>c * 10 ^ e\<close>; the
  sign of zero is not kept, no operation used here can tell it. An operation that signals
  \<open>InvalidOperation\<close> gives \<open>None\<close>.
\<close>

datatype decimal = Fin int int | Infty bool | QNaN | SNaN

section \<open>Conversion from strings\<close>

text \<open>\<open>int\<close>, \<open>frac\<close> and \<open>exp\<close> parts of the number syntax, after the sign.\<close>

definition split_at :: "(char \<Rightarrow> bool) \<Rightarrow> string \<Rightarrow> string \<times> string" where
  "split_at p s = (takeWhile (\<lambda>c. \<not> p c) s, dropWhile (\<lambda>c. \<not> p c) s)"

definition parse_exponent :: "string \<Rightarrow> int option" where
  "parse_exponent s = (case s of
     [] \<Rightarrow> Some 0
   | _ # r \<Rightarrow>
       (let neg = (r \<noteq> [] \<and> hd r = CHR ''-''); d = (if r \<noteq> [] \<and> (hd r = CHR ''-'' \<or> hd r = CHR ''+'') then tl r else r)
        in if d = [] \<or> \<not> list_all is_digit d then None
           else Some (if neg then - int (nat_of_digits d) else int (nat_of_digits d))))"

definition parse_number :: "string \<Rightarrow> (int \<times> int) option" where
  "parse_number s = (
     let (mant, ex) = split_at (\<lambda>c. c = CHR ''e'') s;
         (whole, rest) = split_at (\<lambda>c. c = CHR ''.'') mant;
         frac = tl rest
     in if list_all is_digit whole \<and> list_all is_digit frac \<and> (whole \<noteq> [] \<or> frac \<noteq> [])
        then map_option (\<lambda>e. (int (nat_of_digits (whole @ frac)), e - int (length frac))) (parse_exponent ex)
        else None)"

text \<open>
  The text is stripped, underscores are removed, and the syntax ignores case. A diagnostic
  after \<open>NaN\<close> is a run of digits.
\<close>

definition parse_decimal :: "string \<Rightarrow> decimal option" where
  "parse_decimal raw = (
     let t = lower (filter (\<lambda>c. c \<noteq> CHR ''_'') (py_strip raw));
         neg = (t \<noteq> [] \<and> hd t = CHR ''-'');
         s = (if t \<noteq> [] \<and> (hd t = CHR ''-'' \<or> hd t = CHR ''+'') then tl t else t)
     in if s = ''inf'' \<or> s = ''infinity'' then Some (Infty neg)
        else if starts_with s ''nan'' \<and> list_all is_digit (remove_prefix s ''nan'') then Some QNaN
        else if starts_with s ''snan'' \<and> list_all is_digit (remove_prefix s ''snan'') then Some SNaN
        else map_option (\<lambda>(c, e). Fin (if neg then - c else c) e) (parse_number s))"

section \<open>Value and arithmetic\<close>

definition pow10 :: "int \<Rightarrow> rat" where
  "pow10 e = (if 0 \<le> e then 10 ^ nat e else 1 / 10 ^ nat (- e))"

fun dec_value :: "decimal \<Rightarrow> rat" where
  "dec_value (Fin c e) = of_int c * pow10 e"
| "dec_value _ = 0"

fun dec_num_digits :: "int \<Rightarrow> nat" where
  "dec_num_digits c = length (int_str \<bar>c\<bar>)"

text \<open>Rounding of a coefficient that is too long, half to even.\<close>

definition round_coefficient :: "int \<Rightarrow> int \<Rightarrow> int" where
  "round_coefficient c p = (
     let q = \<bar>c\<bar> div p; r = \<bar>c\<bar> mod p;
         q' = (if p < 2 * r \<or> 2 * r = p \<and> odd q then q + 1 else q)
     in if c < 0 then - q' else q')"

definition dec_round :: "int \<Rightarrow> int \<Rightarrow> decimal" where
  "dec_round c e = (
     let n = dec_num_digits c in
     if n \<le> 28 then Fin c e
     else Fin (round_coefficient c (10 ^ (n - 28))) (e + int (n - 28)))"

definition align :: "int \<Rightarrow> int \<Rightarrow> int \<Rightarrow> int" where
  "align c e m = c * 10 ^ nat (e - m)"

fun dec_sub :: "decimal \<Rightarrow> decimal \<Rightarrow> decimal option" where
  "dec_sub (Fin a e) (Fin b f) = (let m = min e f in Some (dec_round (align a e m - align b f m) m))"
| "dec_sub SNaN _ = None"
| "dec_sub _ SNaN = None"
| "dec_sub QNaN _ = Some QNaN"
| "dec_sub _ QNaN = Some QNaN"
| "dec_sub (Infty s) (Infty t) = (if s = t then None else Some (Infty s))"
| "dec_sub (Infty s) (Fin _ _) = Some (Infty s)"
| "dec_sub (Fin _ _) (Infty t) = Some (Infty (\<not> t))"

fun dec_abs :: "decimal \<Rightarrow> decimal option" where
  "dec_abs (Fin c e) = Some (dec_round \<bar>c\<bar> e)"
| "dec_abs (Infty _) = Some (Infty False)"
| "dec_abs QNaN = Some QNaN"
| "dec_abs SNaN = None"

definition dec_neg :: "decimal \<Rightarrow> bool" where
  "dec_neg x = (case x of Fin c _ \<Rightarrow> c < 0 | Infty s \<Rightarrow> s | _ \<Rightarrow> False)"

fun dec_mul :: "decimal \<Rightarrow> decimal \<Rightarrow> decimal option" where
  "dec_mul (Fin a e) (Fin b f) = Some (dec_round (a * b) (e + f))"
| "dec_mul SNaN _ = None"
| "dec_mul _ SNaN = None"
| "dec_mul QNaN _ = Some QNaN"
| "dec_mul _ QNaN = Some QNaN"
| "dec_mul (Infty s) (Fin b f) = (if b = 0 then None else Some (Infty (s \<noteq> (b < 0))))"
| "dec_mul (Fin a e) (Infty t) = (if a = 0 then None else Some (Infty ((a < 0) \<noteq> t)))"
| "dec_mul (Infty s) (Infty t) = Some (Infty (s \<noteq> t))"

text \<open>\<open>a == b\<close> and \<open>a <= b\<close>; the ordering of a NaN signals.\<close>

fun dec_eq :: "decimal \<Rightarrow> decimal \<Rightarrow> bool option" where
  "dec_eq (Fin a e) (Fin b f) = Some (dec_value (Fin a e) = dec_value (Fin b f))"
| "dec_eq SNaN _ = None"
| "dec_eq _ SNaN = None"
| "dec_eq (Infty s) (Infty t) = Some (s = t)"
| "dec_eq _ _ = Some False"

fun dec_le :: "decimal \<Rightarrow> decimal \<Rightarrow> bool option" where
  "dec_le (Fin a e) (Fin b f) = Some (dec_value (Fin a e) \<le> dec_value (Fin b f))"
| "dec_le (Infty s) (Infty t) = Some (s \<or> \<not> t)"
| "dec_le (Infty s) (Fin _ _) = Some s"
| "dec_le (Fin _ _) (Infty t) = Some (\<not> t)"
| "dec_le _ _ = None"

section \<open>Lemmas\<close>

lemma dec_round_exact: "dec_num_digits c \<le> 28 \<Longrightarrow> dec_round c e = Fin c e"
  by (simp add: dec_round_def)

lemma pow10_add: "pow10 (a + b) = pow10 a * pow10 b"
proof -
  have p: "pow10 e = 10 powi e" for e :: int
    by (simp add: pow10_def power_int_def field_simps)
  show ?thesis by (simp add: p power_int_add)
qed

lemma align_value: "m \<le> e \<Longrightarrow> of_int (align c e m) * pow10 m = of_int c * pow10 e"
proof -
  assume "m \<le> e"
  then have "pow10 e = 10 ^ nat (e - m) * pow10 m"
    using pow10_add [of "e - m" m] by (simp add: pow10_def)
  then show ?thesis by (simp add: align_def)
qed

text \<open>Below 28 digits subtraction is exact.\<close>

lemma dec_sub_exact:
  assumes "dec_num_digits (align a e (min e f) - align b f (min e f)) \<le> 28"
  shows "\<exists>c. dec_sub (Fin a e) (Fin b f) = Some c \<and>
    dec_value c = dec_value (Fin a e) - dec_value (Fin b f)"
  using assms align_value [of "min e f" e a] align_value [of "min e f" f b]
  by (simp add: Let_def dec_round_exact algebra_simps)

end
