(* ===== verification/Trade_Break.thy ===== *)
theory Trade_Break
  imports Break_Taxonomy Decimals
begin

text \<open>
  \<open>packages/contracts/models.py\<close>, trade breaks: the parts of a break document with the validator
  of each, and the validator \<open>TradeBreak.validate_break_invariants\<close>, whose long body is split
  here into one list of checks per paragraph of the source, run in the order of the source.

  The dictionaries the validator builds (\<open>indexed_sources\<close>, \<open>indexed_evidence\<close>,
  \<open>proof_by_path\<close>) have keys that an earlier check has found unique, so a lookup is the first
  element with that key and two of them are equal when their sets of items are.
\<close>

section \<open>Parts of a break\<close>

record BreakSourceReference =
  br_source_observation_id :: string
  br_observation_kind :: ObservationKind
  br_source_system :: SourceSystem
  br_source_business_key :: string
  br_source_tenant_id :: string
  br_source_portfolio_id :: string
  br_source_version :: string
  br_content_hash :: string

definition mk_BreakSourceReference ::
  "BreakSourceReference \<Rightarrow> py_error + BreakSourceReference" where
  "mk_BreakSourceReference s = checked [
     (\<not> is_identifier (br_source_observation_id s), ValueError ''source_observation_id''),
     (\<not> is_identifier (br_source_business_key s), ValueError ''source_business_key''),
     (\<not> is_tenant_id (br_source_tenant_id s), ValueError ''source_tenant_id''),
     (\<not> is_portfolio_id (br_source_portfolio_id s), ValueError ''source_portfolio_id''),
     (\<not> is_source_version (br_source_version s), ValueError ''source_version''),
     (\<not> is_sha256_hash (br_content_hash s), ValueError ''content_hash''),
     (br_source_system s \<noteq> source_system_by_kind (br_observation_kind s),
        ValueError ''source_system must match observation_kind'')] s"

record BreakEvidence =
  be_evidence_id :: string
  be_role :: BreakEvidenceRole
  be_content_hash :: string
  be_captured_at :: datetime
  be_source_observation_id :: "string option"
  be_source_version :: "string option"
  be_field_path :: "string option"

definition opt_ok :: "('a \<Rightarrow> bool) \<Rightarrow> 'a option \<Rightarrow> bool" where
  "opt_ok p x = (case x of None \<Rightarrow> True | Some v \<Rightarrow> p v)"

definition mk_BreakEvidence :: "BreakEvidence \<Rightarrow> py_error + BreakEvidence" where
  "mk_BreakEvidence e = checked [
     (\<not> is_identifier (be_evidence_id e), ValueError ''evidence_id''),
     (\<not> is_sha256_hash (be_content_hash e), ValueError ''content_hash''),
     (\<not> aware (be_captured_at e), ValueError ''timestamp must include a timezone offset''),
     (\<not> opt_ok is_identifier (be_source_observation_id e), ValueError ''source_observation_id''),
     (\<not> opt_ok is_source_version (be_source_version e), ValueError ''source_version''),
     (\<not> opt_ok is_break_field_path (be_field_path e), ValueError ''field_path''),
     (be_source_observation_id e = None \<and> be_source_version e \<noteq> None,
        ValueError ''source_version requires source_observation_id''),
     (be_source_observation_id e \<noteq> None \<and> be_source_version e = None,
        ValueError ''source_observation_id requires source_version'')] e"

record BreakTolerance =
  to_mode :: ToleranceMode
  to_value :: "string option"

definition mk_BreakTolerance :: "BreakTolerance \<Rightarrow> py_error + BreakTolerance" where
  "mk_BreakTolerance t = checked [
     (\<not> opt_ok is_decimal_value (to_value t), ValueError ''value''),
     (to_mode t = TOL_NONE \<and> to_value t \<noteq> None,
        ValueError ''NONE tolerance must not carry a value''),
     (to_mode t \<noteq> TOL_NONE \<and> to_value t = None,
        ValueError ''decimal tolerance requires a value'')] t"

record BreakComparison =
  bc_field_path :: string
  bc_value_type :: BreakValueType
  bc_expected_value :: string
  bc_observed_value :: string
  bc_tolerance :: BreakTolerance
  bc_normalisation_rule_version :: string
  bc_evidence_ids :: "string list"
  bc_expected_source_observation_id :: "string option"
  bc_expected_source_version :: "string option"
  bc_observed_source_observation_id :: "string option"
  bc_observed_source_version :: "string option"

definition is_count :: "string \<Rightarrow> bool" where
  "is_count s \<longleftrightarrow> s \<noteq> [] \<and> list_all is_digit s"

definition is_currency_pair :: "string \<Rightarrow> bool" where
  "is_currency_pair s \<longleftrightarrow> length s = 7 \<and> is_currency (take 3 s) \<and> s ! 3 = CHR ''/'' \<and> is_currency (drop 4 s)"

definition is_lifecycle_value :: "string \<Rightarrow> bool" where
  "is_lifecycle_value s \<longleftrightarrow> s \<in> set [''NEW'', ''CAPTURED'', ''CONFIRMED'', ''BOOKED'', ''AMENDED'',
     ''CANCELLED'', ''SETTLED'']"

text \<open>The type test that the validator applies to both values of a comparison.\<close>

fun value_matches_type :: "BreakValueType \<Rightarrow> string \<Rightarrow> bool" where
  "value_matches_type VT_COUNT s = is_count s"
| "value_matches_type VT_CURRENCY_PAIR s = is_currency_pair s"
| "value_matches_type VT_CURRENCY s = is_currency s"
| "value_matches_type VT_SIDE s = (s = ''BUY_BASE'' \<or> s = ''SELL_BASE'')"
| "value_matches_type VT_DECIMAL s = is_decimal_value s"
| "value_matches_type VT_DATE s = (date_fromisoformat s \<noteq> None)"
| "value_matches_type VT_LIFECYCLE_STATUS s = is_lifecycle_value s"
| "value_matches_type VT_SOURCE_IDENTITY s = is_identifier s"
| "value_matches_type VT_IDENTIFIER s = is_identifier s"
| "value_matches_type VT_SOURCE_VERSION s = is_source_version s"
| "value_matches_type VT_CONTENT_HASH s = is_sha256_hash s"
| "value_matches_type VT_ABSENCE s = True"
| "value_matches_type VT_READBACK s = True"

definition comparison_values_match_type :: "BreakComparison \<Rightarrow> py_error + BreakComparison" where
  "comparison_values_match_type c = checked [
     (bc_expected_value c = bc_observed_value c,
        ValueError ''break comparisons must contain distinct expected and observed values''),
     (\<not> (value_matches_type (bc_value_type c) (bc_expected_value c) \<and>
          value_matches_type (bc_value_type c) (bc_observed_value c)),
        ValueError (''comparison values do not match value_type '' @ value_type_str (bc_value_type c))),
     (to_mode (bc_tolerance c) \<notin> set (break_allowed_tolerance_modes (bc_value_type c)),
        ValueError (value_type_str (bc_value_type c) @ '' comparisons require an exact tolerance''))] c"

definition mk_BreakComparison :: "BreakComparison \<Rightarrow> py_error + BreakComparison" where
  "mk_BreakComparison c =
     ebind (checked [
       (\<not> is_break_field_path (bc_field_path c), ValueError ''field_path''),
       (bc_expected_value c = [], ValueError ''expected_value''),
       (bc_observed_value c = [], ValueError ''observed_value''),
       (bc_normalisation_rule_version c \<noteq> ''1.0.0'', ValueError ''normalisation_rule_version''),
       (bc_evidence_ids c = [] \<or> \<not> list_all is_identifier (bc_evidence_ids c), ValueError ''evidence_ids''),
       (\<not> opt_ok is_identifier (bc_expected_source_observation_id c),
          ValueError ''expected_source_observation_id''),
       (\<not> opt_ok is_source_version (bc_expected_source_version c), ValueError ''expected_source_version''),
       (\<not> opt_ok is_identifier (bc_observed_source_observation_id c),
          ValueError ''observed_source_observation_id''),
       (\<not> opt_ok is_source_version (bc_observed_source_version c),
          ValueError ''observed_source_version'')] ()) (\<lambda>_.
     ebind (mk_BreakTolerance (bc_tolerance c)) (\<lambda>_.
     comparison_values_match_type c))"

text \<open>\<open>settlement_rule_version\<close> is the one-valued literal \<open>"1.0.0"\<close>.\<close>

record BreakProductContext =
  pc_product_type :: ProductType
  pc_settlement_rule_version :: string
  pc_trade_date :: date
  pc_value_date :: date

definition mk_BreakProductContext :: "BreakProductContext \<Rightarrow> py_error + BreakProductContext" where
  "mk_BreakProductContext c =
     ebind (checked [(pc_settlement_rule_version c \<noteq> ''1.0.0'', ValueError ''settlement_rule_version'')] ()) (\<lambda>_.
     ebind (validate_settlement_window (pc_product_type c) (pc_trade_date c) (pc_value_date c)) (\<lambda>_.
     Inr c))"

record DuplicateSourceConflict =
  dc_source_observation_ids :: "string list"
  dc_source_business_key :: string
  dc_source_version :: string

definition mk_DuplicateSourceConflict ::
  "DuplicateSourceConflict \<Rightarrow> py_error + DuplicateSourceConflict" where
  "mk_DuplicateSourceConflict c = checked [
     (length (dc_source_observation_ids c) < 2 \<or> \<not> list_all is_identifier (dc_source_observation_ids c),
        ValueError ''source_observation_ids''),
     (\<not> is_identifier (dc_source_business_key c), ValueError ''source_business_key''),
     (\<not> is_source_version (dc_source_version c), ValueError ''source_version''),
     (has_dups (dc_source_observation_ids c),
        ValueError ''duplicate source conflict observation IDs must be unique'')] c"

section \<open>Reconciliation proofs\<close>

record ReconciliationSourceReference =
  rr_source_observation_id :: string
  rr_source_version :: string

definition mk_ReconciliationSourceReference ::
  "('a) ReconciliationSourceReference_scheme \<Rightarrow> py_error + 'a ReconciliationSourceReference_scheme" where
  "mk_ReconciliationSourceReference r = checked [
     (\<not> is_identifier (rr_source_observation_id r), ValueError ''source_observation_id''),
     (\<not> is_source_version (rr_source_version r), ValueError ''source_version'')] r"

record ReconciliationSourceValue = ReconciliationSourceReference +
  rv_value :: string

definition mk_ReconciliationSourceValue ::
  "ReconciliationSourceValue \<Rightarrow> py_error + ReconciliationSourceValue" where
  "mk_ReconciliationSourceValue v =
     ebind (mk_ReconciliationSourceReference v) (\<lambda>_. checked [(rv_value v = [], ValueError ''value'')] v)"

record ReconciliationPassComparison =
  rc_field_path :: string
  rc_value_type :: BreakValueType
  rc_values :: "ReconciliationSourceValue list"

definition mk_ReconciliationPassComparison ::
  "ReconciliationPassComparison \<Rightarrow> py_error + ReconciliationPassComparison" where
  "mk_ReconciliationPassComparison c =
     ebind (checked [(\<not> is_break_field_path (rc_field_path c), ValueError ''field_path''),
                     (rc_values c = [], ValueError ''values'')] ()) (\<lambda>_.
     ebind (emap mk_ReconciliationSourceValue (rc_values c)) (\<lambda>_.
     checked [(has_dups (map rr_source_observation_id (rc_values c)),
       ValueError ''reconciliation pass source values must use unique observations'')] c))"

record ReconciliationPassProof =
  rp_reconciliation_run_id :: string
  rp_family :: BreakFamily
  rp_condition_code :: BreakConditionCode
  rp_predicate_code :: BreakResolutionCode
  rp_source_version_set :: "ReconciliationSourceReference list"
  rp_comparisons :: "ReconciliationPassComparison list"

definition mk_ReconciliationPassProof ::
  "ReconciliationPassProof \<Rightarrow> py_error + ReconciliationPassProof" where
  "mk_ReconciliationPassProof p =
     ebind (checked [(\<not> is_identifier (rp_reconciliation_run_id p), ValueError ''reconciliation_run_id''),
                     (rp_source_version_set p = [], ValueError ''source_version_set''),
                     (rp_comparisons p = [], ValueError ''comparisons'')] ()) (\<lambda>_.
     ebind (emap mk_ReconciliationSourceReference (rp_source_version_set p)) (\<lambda>_.
     ebind (emap mk_ReconciliationPassComparison (rp_comparisons p)) (\<lambda>_.
     checked [
       (has_dups (map rr_source_observation_id (rp_source_version_set p)),
          ValueError ''reconciliation proof source_version_set must be unique''),
       (has_dups (map rc_field_path (rp_comparisons p)),
          ValueError ''reconciliation proof comparison field paths must be unique'')] p)))"

section \<open>Priority, expectation, resolution\<close>

record BreakPriority =
  bp_materiality_band :: MaterialityBand
  bp_deadline_status :: DeadlineStatus
  bp_case_age_seconds :: int
  bp_ordering_key :: "int \<times> int \<times> int \<times> int"

definition mk_BreakPriority :: "BreakPriority \<Rightarrow> py_error + BreakPriority" where
  "mk_BreakPriority p = checked [(bp_case_age_seconds p < 0, ValueError ''case_age_seconds'')] p"

text \<open>
  \<open>MissingSourceObservationKind\<close> is \<open>EXECUTION\<close>, \<open>CONFIRMATION\<close> or \<open>BOOKING\<close>; a trade capture is never
  awaited, and \<open>_EXPECTED_FIELD_BY_MISSING_SOURCE_KIND\<close> has no entry for it.
\<close>

fun expected_field_by_missing_source_kind :: "ObservationKind \<Rightarrow> string option" where
  "expected_field_by_missing_source_kind EXECUTION = Some ''/source/execution_observation''"
| "expected_field_by_missing_source_kind CONFIRMATION = Some ''/source/confirmation_observation''"
| "expected_field_by_missing_source_kind BOOKING = Some ''/source/booking_observation''"
| "expected_field_by_missing_source_kind TRADE_CAPTURE = None"

record MissingSourceExpectation =
  me_expected_observation_kind :: ObservationKind
  me_expected_source_system :: SourceSystem
  me_field_path :: string
  me_arrival_window_rule_version :: string
  me_watermark_at :: datetime
  me_expected_by :: datetime

definition mk_MissingSourceExpectation ::
  "MissingSourceExpectation \<Rightarrow> py_error + MissingSourceExpectation" where
  "mk_MissingSourceExpectation e = checked [
     (me_expected_observation_kind e = TRADE_CAPTURE, ValueError ''expected_observation_kind''),
     (\<not> is_break_field_path (me_field_path e), ValueError ''field_path''),
     (me_arrival_window_rule_version e \<noteq> ''1.0.0'', ValueError ''arrival_window_rule_version''),
     (\<not> aware (me_watermark_at e), ValueError ''timestamp must include a timezone offset''),
     (\<not> aware (me_expected_by e), ValueError ''timestamp must include a timezone offset''),
     (me_expected_source_system e \<noteq> source_system_by_kind (me_expected_observation_kind e),
        ValueError ''expected_source_system must match expected_observation_kind''),
     (Some (me_field_path e) \<noteq> expected_field_by_missing_source_kind (me_expected_observation_kind e),
        ValueError ''missing-source field_path must match expected_observation_kind''),
     (instant (me_expected_by e) < instant (me_watermark_at e),
        ValueError ''expected_by must not precede watermark_at'')] e"

record BreakResolution =
  re_resolution_type :: BreakResolutionType
  re_reconciliation_run_id :: "string option"
  re_disposition_id :: "string option"
  re_approver :: "Actor option"
  re_evidence_ids :: "string list"
  re_evidence_roles :: "BreakEvidenceRole list"
  re_reconciliation_proof :: "ReconciliationPassProof option"

definition resolution_shape_checks :: "BreakResolution \<Rightarrow> (bool \<times> py_error) list" where
  "resolution_shape_checks r = [
     (has_dups (re_evidence_ids r), ValueError ''resolution evidence IDs must be unique''),
     (has_dups (re_evidence_roles r), ValueError ''resolution evidence roles must be unique'')] @
   (if re_resolution_type r = RECONCILIATION_PASS then [
     (re_reconciliation_run_id r = None,
        ValueError ''reconciliation-pass resolution requires reconciliation_run_id''),
     (re_reconciliation_proof r = None,
        ValueError ''reconciliation-pass resolution requires reconciliation_proof''),
     (re_disposition_id r \<noteq> None \<or> re_approver r \<noteq> None,
        ValueError ''reconciliation-pass resolution must not carry a disposition approver'')]
    else [
     (re_disposition_id r = None \<or> re_approver r = None,
        ValueError ''non-action resolution requires disposition_id and approver''),
     (\<not> opt_ok (\<lambda>a. identity_type a = HUMAN) (re_approver r),
        ValueError ''non-action disposition must be approved by a human''),
     (re_reconciliation_run_id r \<noteq> None,
        ValueError ''non-action resolution must not carry reconciliation_run_id''),
     (re_reconciliation_proof r \<noteq> None,
        ValueError ''non-action resolution must not carry reconciliation_proof''),
     (DISPOSITION_APPROVAL \<notin> set (re_evidence_roles r),
        ValueError ''non-action resolution requires disposition evidence role'')]) @ [
     (re_resolution_type r = RECONCILIATION_PASS \<and> RECONCILIATION_RESULT \<notin> set (re_evidence_roles r),
        ValueError ''reconciliation-pass resolution requires reconciliation evidence role'')]"

definition mk_opt :: "('a \<Rightarrow> 'e + 'a) \<Rightarrow> 'a option \<Rightarrow> 'e + 'a option" where
  "mk_opt f x = (case x of None \<Rightarrow> Inr None | Some v \<Rightarrow> ebind (f v) (\<lambda>w. Inr (Some w)))"

definition mk_BreakResolution :: "BreakResolution \<Rightarrow> py_error + BreakResolution" where
  "mk_BreakResolution r =
     ebind (checked [
       (\<not> opt_ok is_identifier (re_reconciliation_run_id r), ValueError ''reconciliation_run_id''),
       (\<not> opt_ok is_identifier (re_disposition_id r), ValueError ''disposition_id''),
       (re_evidence_ids r = [] \<or> \<not> list_all is_identifier (re_evidence_ids r), ValueError ''evidence_ids''),
       (re_evidence_roles r = [], ValueError ''evidence_roles'')] ()) (\<lambda>_.
     ebind (mk_opt mk_Actor (re_approver r)) (\<lambda>_.
     ebind (mk_opt mk_ReconciliationPassProof (re_reconciliation_proof r)) (\<lambda>_.
     checked (resolution_shape_checks r) r)))"

section \<open>Severity, ordering and agreement\<close>

fun break_severity_rank :: "BreakSeverity \<Rightarrow> int" where
  "break_severity_rank CRITICAL = 1"
| "break_severity_rank HIGH = 2"
| "break_severity_rank MEDIUM = 3"

fun break_materiality_rank :: "MaterialityBand \<Rightarrow> int" where
  "break_materiality_rank MATERIAL = 1"
| "break_materiality_rank UNASSESSED = 2"
| "break_materiality_rank NON_MATERIAL = 3"

fun break_deadline_rank :: "DeadlineStatus \<Rightarrow> int" where
  "break_deadline_rank OVERDUE = 1"
| "break_deadline_rank DUE = 2"
| "break_deadline_rank NO_CONFIGURED_DEADLINE = 3"

definition expected_break_severity ::
  "BreakFamily \<Rightarrow> ObservationKind option \<Rightarrow> py_error + BreakSeverity" where
  "expected_break_severity family severity_context = (
     case break_family_policy family of (_, _, default_severity, rule, _, _) \<Rightarrow>
     if rule = RULE_MISSING_SOURCE_BY_OBSERVATION_KIND then
       (if severity_context \<notin> {Some EXECUTION, Some CONFIRMATION, Some BOOKING}
        then Inl (ValueError ''missing-source breaks require EXECUTION, CONFIRMATION, or BOOKING context'')
        else Inr (if severity_context = Some CONFIRMATION then MEDIUM else HIGH))
     else if severity_context \<noteq> None
       then Inl (ValueError ''fixed-severity breaks must not carry severity_context'')
     else Inr default_severity)"

text \<open>
  \<open>_reconciliation_values_agree\<close>. An \<open>InvalidOperation\<close> of the decimal arithmetic makes the values
  disagree, as does a comparison that is false, so it does not matter which the loop meets first.
\<close>

definition all_options :: "'a option list \<Rightarrow> 'a list option" where
  "all_options xs = (if None \<in> set xs then None else Some (map the xs))"

definition within_absolute :: "decimal \<Rightarrow> decimal \<Rightarrow> decimal \<Rightarrow> bool" where
  "within_absolute allowed x v = (case dec_sub v x of
     None \<Rightarrow> False
   | Some d \<Rightarrow> (case dec_abs d of None \<Rightarrow> False | Some a \<Rightarrow> dec_le a allowed = Some True))"

definition within_relative :: "decimal \<Rightarrow> decimal \<Rightarrow> decimal \<Rightarrow> bool" where
  "within_relative allowed x v = (case dec_abs x of
     None \<Rightarrow> False
   | Some ax \<Rightarrow> (case dec_mul ax allowed of
       None \<Rightarrow> False
     | Some limit \<Rightarrow> within_absolute limit x v))"

definition reconciliation_values_agree ::
  "string list \<Rightarrow> BreakValueType \<Rightarrow> BreakTolerance \<Rightarrow> py_error + bool" where
  "reconciliation_values_agree values value_type tolerance = (
     if values = [] then Inr False
     else if value_type = VT_DECIMAL then
       (case all_options (map parse_decimal values) of
          None \<Rightarrow> Inr False
        | Some decimals \<Rightarrow>
            if to_mode tolerance = TOL_NONE
            then Inr (list_all (\<lambda>v. dec_eq v (hd decimals) = Some True) (tl decimals))
            else (case to_value tolerance of
               None \<Rightarrow> Inl (AssertionError ''tolerance.value'')
             | Some t \<Rightarrow> (case parse_decimal t of
                 None \<Rightarrow> Inr False
               | Some allowed \<Rightarrow>
                   if to_mode tolerance = ABSOLUTE_DECIMAL
                   then Inr (list_all (within_absolute allowed (hd decimals)) (tl decimals))
                   else Inr (list_all (within_relative allowed (hd decimals)) (tl decimals)))))
     else Inr (list_all (\<lambda>v. v = hd values) (tl values)))"

section \<open>Trade breaks\<close>

record TradeBreak =
  tb_schema_version :: string
  tb_taxonomy_version :: string
  tb_detection_rule_version :: string
  tb_priority_rule_version :: string
  tb_lifecycle_rule_version :: string
  tb_break_id :: string
  tb_break_version :: int
  tb_tenant_id :: string
  tb_portfolio_id :: string
  tb_correlation_id :: string
  tb_trade_id :: string
  tb_canonical_state_version :: int
  tb_reconciliation_run_id :: string
  tb_product_type :: ProductType
  tb_product_context :: BreakProductContext
  tb_family :: BreakFamily
  tb_condition_code :: BreakConditionCode
  tb_severity :: BreakSeverity
  tb_severity_context :: "ObservationKind option"
  tb_priority :: BreakPriority
  tb_source_version_set :: "BreakSourceReference list"
  tb_evaluated_field_paths :: "string list"
  tb_comparisons :: "BreakComparison list"
  tb_evidence :: "BreakEvidence list"
  tb_missing_source_expectation :: "MissingSourceExpectation option"
  tb_duplicate_source_conflict :: "DuplicateSourceConflict option"
  tb_state :: BreakLifecycleState
  tb_previous_state :: "BreakLifecycleState option"
  tb_transition_reason :: BreakTransitionReason
  tb_detected_at :: datetime
  tb_state_changed_at :: datetime
  tb_resolved_at :: "datetime option"
  tb_resolution :: "BreakResolution option"
  tb_supersedes_break_id :: "string option"
  tb_causal_label_id :: "string option"

definition policy_condition :: "BreakFamily \<Rightarrow> BreakConditionCode" where
  "policy_condition f = (case break_family_policy f of (_, c, _) \<Rightarrow> c)"

definition policy_roles :: "BreakFamily \<Rightarrow> BreakEvidenceRole list" where
  "policy_roles f = (case break_family_policy f of (_, _, _, _, roles, _) \<Rightarrow> roles)"

definition policy_resolution :: "BreakFamily \<Rightarrow> BreakResolutionCode" where
  "policy_resolution f = (case break_family_policy f of (_, _, _, _, _, r) \<Rightarrow> r)"

text \<open>Product context, condition code and severity.\<close>

definition break_family_checks :: "TradeBreak \<Rightarrow> py_error + unit" where
  "break_family_checks b =
     ebind (checked [(pc_product_type (tb_product_context b) \<noteq> tb_product_type b,
        ValueError ''product_context.product_type must match product_type'')] ()) (\<lambda>_.
     ebind (validate_settlement_window (tb_product_type b)
        (pc_trade_date (tb_product_context b)) (pc_value_date (tb_product_context b))) (\<lambda>_.
     ebind (checked [(tb_condition_code b \<noteq> policy_condition (tb_family b),
        ValueError ''condition_code must match the selected break family'')] ()) (\<lambda>_.
     ebind (expected_break_severity (tb_family b) (tb_severity_context b)) (\<lambda>severity.
     checked [(tb_severity b \<noteq> severity,
        ValueError ''severity must match the deterministic family severity rule'')] ()))))"

text \<open>The typed expectation of a missing source, and the scope of the sources.\<close>

definition missing_source_checks :: "TradeBreak \<Rightarrow> (bool \<times> py_error) list" where
  "missing_source_checks b = (
     if tb_family b = MISSING_REQUIRED_SOURCE then
       (case tb_missing_source_expectation b of
          None \<Rightarrow> [(True, ValueError ''missing-source breaks require a typed source expectation'')]
        | Some e \<Rightarrow> [
            (tb_severity_context b \<noteq> Some (me_expected_observation_kind e),
               ValueError ''severity_context must match expected missing source kind''),
            (instant (tb_detected_at b) < instant (me_expected_by e),
               ValueError ''missing-source break must be detected after its arrival window'')])
     else [(tb_missing_source_expectation b \<noteq> None,
            ValueError ''only missing-source breaks may carry a source expectation'')])"

definition source_scope_checks :: "TradeBreak \<Rightarrow> (bool \<times> py_error) list" where
  "source_scope_checks b = [
     (has_dups (map br_source_observation_id (tb_source_version_set b)),
        ValueError ''source_version_set observation IDs must be unique'')] @
   map (\<lambda>s. ((br_source_tenant_id s, br_source_portfolio_id s) \<noteq> (tb_tenant_id b, tb_portfolio_id b),
        ValueError ''source_version_set contains a source outside break scope''))
     (tb_source_version_set b) @
   (case (tb_family b, tb_missing_source_expectation b) of
      (MISSING_REQUIRED_SOURCE, Some e) \<Rightarrow> [
        (list_ex (\<lambda>s. br_observation_kind s = me_expected_observation_kind e) (tb_source_version_set b),
           ValueError ''missing-source expectation must not have an available source'')]
    | _ \<Rightarrow> [])"

definition path_checks :: "TradeBreak \<Rightarrow> (bool \<times> py_error) list" where
  "path_checks b = (
     let evaluated_paths = tb_evaluated_field_paths b;
         comparison_paths = map bc_field_path (tb_comparisons b) in [
     (has_dups evaluated_paths, ValueError ''evaluated_field_paths must be unique''),
     (has_dups comparison_paths, ValueError ''comparison field paths must be unique''),
     (set evaluated_paths \<noteq> set comparison_paths,
        ValueError ''evaluated_field_paths must match comparison field paths'')])"

text \<open>Required evidence roles; the first watermark and expected-source items of a missing source.\<close>

definition evidence_with_role :: "TradeBreak \<Rightarrow> BreakEvidenceRole \<Rightarrow> BreakEvidence option" where
  "evidence_with_role b r = List.find (\<lambda>e. be_role e = r) (tb_evidence b)"

definition evidence_checks :: "TradeBreak \<Rightarrow> (bool \<times> py_error) list" where
  "evidence_checks b = (
     let required = map role_str (policy_roles (tb_family b));
         actual = map (\<lambda>e. role_str (be_role e)) (tb_evidence b) in [
     (has_dups (map be_evidence_id (tb_evidence b)), ValueError ''evidence IDs must be unique''),
     (\<not> set (policy_roles (tb_family b)) \<subseteq> set (map be_role (tb_evidence b)),
        ValueError (''evidence is missing required roles: '' @ py_list_str (sorted_minus required actual)))] @
   (case (tb_family b, tb_missing_source_expectation b) of
      (MISSING_REQUIRED_SOURCE, Some e) \<Rightarrow> [
        ((case evidence_with_role b INGESTION_WATERMARK of
            None \<Rightarrow> True
          | Some w \<Rightarrow> instant (be_captured_at w) \<noteq> instant (me_watermark_at e)),
           ValueError ''ingestion watermark evidence must match watermark_at''),
        ((case evidence_with_role b EXPECTED_SOURCE of
            None \<Rightarrow> True
          | Some x \<Rightarrow> be_field_path x \<noteq> Some (me_field_path e)),
           ValueError ''expected source evidence must match the typed field_path'')]
    | _ \<Rightarrow> []))"

definition indexed_source :: "TradeBreak \<Rightarrow> string \<Rightarrow> BreakSourceReference option" where
  "indexed_source b i = List.find (\<lambda>s. br_source_observation_id s = i) (tb_source_version_set b)"

definition indexed_evidence :: "TradeBreak \<Rightarrow> string \<Rightarrow> BreakEvidence option" where
  "indexed_evidence b i = List.find (\<lambda>e. be_evidence_id e = i) (tb_evidence b)"

definition duplicate_checks :: "TradeBreak \<Rightarrow> (bool \<times> py_error) list" where
  "duplicate_checks b = (
     if tb_family b = DUPLICATE_SOURCE_CONFLICT_FAMILY then
       (case tb_duplicate_source_conflict b of
          None \<Rightarrow> [(True, ValueError ''duplicate-source breaks require duplicate_source_conflict'')]
        | Some c \<Rightarrow> (
            let conflict_sources = List.map_filter (indexed_source b) (dc_source_observation_ids c) in [
            (set (dc_source_observation_ids c) \<noteq> set (map br_source_observation_id (tb_source_version_set b)),
               ValueError ''duplicate-source conflict must identify every source in source_version_set''),
            (list_ex (\<lambda>s. br_source_business_key s \<noteq> dc_source_business_key c \<or>
                          br_source_version s \<noteq> dc_source_version c) conflict_sources,
               ValueError ''duplicate-source conflict must bind the declared source key and version''),
            (length (remdups (map br_content_hash conflict_sources)) < 2,
               ValueError ''duplicate-source conflict requires non-identical source content hashes'')]))
     else [(tb_duplicate_source_conflict b \<noteq> None,
            ValueError ''only duplicate-source breaks may carry duplicate_source_conflict'')])"

definition evidence_source_checks :: "TradeBreak \<Rightarrow> (bool \<times> py_error) list" where
  "evidence_source_checks b = map (\<lambda>e.
     ((case be_source_observation_id e of
         None \<Rightarrow> False
       | Some i \<Rightarrow> (case indexed_source b i of
           None \<Rightarrow> True
         | Some s \<Rightarrow> be_source_version e \<noteq> Some (br_source_version s))),
      ValueError ''evidence source reference must match source_version_set'')) (tb_evidence b)"

text \<open>The body of the loop over the comparisons.\<close>

definition operand_ids :: "TradeBreak \<Rightarrow> BreakComparison \<Rightarrow> string option list" where
  "operand_ids b c =
     (if tb_family b = MISSING_REQUIRED_SOURCE then [bc_observed_source_observation_id c]
      else [bc_expected_source_observation_id c, bc_observed_source_observation_id c])"

definition operand_presence_checks :: "TradeBreak \<Rightarrow> BreakComparison \<Rightarrow> (bool \<times> py_error) list" where
  "operand_presence_checks b c = (
     if tb_family b = MISSING_REQUIRED_SOURCE then [
       (bc_expected_source_observation_id c \<noteq> None \<or> bc_expected_source_version c \<noteq> None,
          ValueError ''missing-source comparisons must not have an expected source''),
       (bc_observed_source_observation_id c = None,
          ValueError ''missing-source comparisons require an observed source'')]
     else [
       (bc_expected_source_observation_id c = None \<or> bc_expected_source_version c = None \<or>
        bc_observed_source_observation_id c = None \<or> bc_observed_source_version c = None,
          ValueError ''comparisons require expected and observed source references'')])"

definition operand_reference_checks ::
  "TradeBreak \<Rightarrow> string option \<times> string option \<times> string \<Rightarrow> (bool \<times> py_error) list" where
  "operand_reference_checks b op = (case op of
     (Some source_id, Some source_version, operand_name) \<Rightarrow> [
       ((case indexed_source b source_id of
           None \<Rightarrow> True
         | Some s \<Rightarrow> br_source_version s \<noteq> source_version),
        ValueError (operand_name @ '' comparison source reference must match source_version_set''))]
   | (_, _, operand_name) \<Rightarrow> [
       (\<not> (tb_family b = MISSING_REQUIRED_SOURCE \<and> operand_name = ''expected''),
        ValueError (operand_name @ '' comparison source reference is incomplete''))])"

definition cited_source_ids :: "TradeBreak \<Rightarrow> BreakComparison \<Rightarrow> string option list" where
  "cited_source_ids b c =
     filter (\<lambda>i. i \<noteq> None)
       (map be_source_observation_id (List.map_filter (indexed_evidence b) (bc_evidence_ids c)))"

definition comparison_checks :: "TradeBreak \<Rightarrow> BreakComparison \<Rightarrow> (bool \<times> py_error) list" where
  "comparison_checks b c = [
     ((bc_field_path c, bc_value_type c) \<notin> set (break_comparison_policy (tb_family b)),
        ValueError ''comparison field_path and value_type must match the selected break family''),
     (has_dups (bc_evidence_ids c), ValueError ''comparison evidence IDs must be unique'')] @
   operand_presence_checks b c @
   concat (map (operand_reference_checks b) [
     (bc_expected_source_observation_id c, bc_expected_source_version c, ''expected''),
     (bc_observed_source_observation_id c, bc_observed_source_version c, ''observed'')]) @ [
     (tb_family b \<in> set BREAK_DISTINCT_SOURCE_FAMILIES \<and> length (remdups (operand_ids b c)) \<noteq> 2,
        ValueError ''this break family requires distinct expected and observed source observations'')] @
   map (\<lambda>i. (indexed_evidence b i = None,
        ValueError ''comparison evidence IDs must reference break evidence'')) (bc_evidence_ids c) @ [
     (tb_family b \<noteq> MISSING_REQUIRED_SOURCE \<and> \<not> set (operand_ids b c) \<subseteq> set (cited_source_ids b c),
        ValueError ''comparison evidence must cite both expected and observed source observations'')] @
   concat (map (\<lambda>e. [
     (be_field_path e \<noteq> Some (bc_field_path c),
        ValueError ''comparison evidence must bind to the comparison field_path''),
     (be_role e \<notin> set (break_comparison_evidence_roles (tb_family b)),
        ValueError ''comparison evidence role is not allowed for this family'')])
     (List.map_filter (indexed_evidence b) (bc_evidence_ids c)))"

definition evidence_path_checks :: "TradeBreak \<Rightarrow> (bool \<times> py_error) list" where
  "evidence_path_checks b = map (\<lambda>e.
     (\<not> opt_ok (\<lambda>p. p \<in> set (tb_evaluated_field_paths b)) (be_field_path e),
      ValueError ''evidence field_path must be one of evaluated_field_paths'')) (tb_evidence b)"

definition expected_ordering_key :: "TradeBreak \<Rightarrow> int \<times> int \<times> int \<times> int" where
  "expected_ordering_key b =
     (break_materiality_rank (bp_materiality_band (tb_priority b)),
      break_severity_rank (tb_severity b),
      break_deadline_rank (bp_deadline_status (tb_priority b)),
      - bp_case_age_seconds (tb_priority b))"

definition lifecycle_checks :: "TradeBreak \<Rightarrow> (bool \<times> py_error) list" where
  "lifecycle_checks b = [
     (bp_ordering_key (tb_priority b) \<noteq> expected_ordering_key b,
        ValueError ''ordering_key must follow the deterministic priority tuple''),
     ((tb_previous_state b, tb_state b, tb_transition_reason b) \<notin> set BREAK_TRANSITION_POLICY,
        ValueError ''state transition is not permitted by the lifecycle matrix''),
     (instant (tb_state_changed_at b) < instant (tb_detected_at b),
        ValueError ''state_changed_at must not precede detected_at''),
     (tb_break_version b = 1 \<and> tb_supersedes_break_id b \<noteq> None,
        ValueError ''break version one must not supersede another break''),
     (1 < tb_break_version b \<and> tb_supersedes_break_id b = None,
        ValueError ''reopened break versions must reference the prior break''),
     (1 < tb_break_version b \<and> tb_supersedes_break_id b = Some (tb_break_id b),
        ValueError ''reopened break versions must mint a new break_id'')]"

text \<open>The proof of a reconciliation pass, and the resolution of a resolved break.\<close>

definition source_version_items :: "TradeBreak \<Rightarrow> (string \<times> string) list" where
  "source_version_items b =
     map (\<lambda>s. (br_source_observation_id s, br_source_version s)) (tb_source_version_set b)"

definition proof_comparison_checks ::
  "TradeBreak \<Rightarrow> BreakComparison \<Rightarrow> ReconciliationPassComparison \<Rightarrow> (bool \<times> py_error) list" where
  "proof_comparison_checks b c pc = (
     let proof_ids = map rr_source_observation_id (rc_values pc) in [
     (rc_value_type pc \<noteq> bc_value_type c,
        ValueError ''reconciliation proof value_type must match the break comparison''),
     (\<not> set proof_ids \<subseteq> set (map fst (source_version_items b)),
        ValueError ''reconciliation proof values must reference known break sources''),
     (list_ex (\<lambda>v. map_of (source_version_items b) (rr_source_observation_id v) \<noteq>
                  Some (rr_source_version v)) (rc_values pc),
        ValueError ''reconciliation proof values must match source versions''),
     (\<not> set (operand_ids b c) \<subseteq> set (map Some proof_ids),
        ValueError ''reconciliation proof must include the comparison operand sources''),
     (tb_family b \<in> set BREAK_DISTINCT_SOURCE_FAMILIES \<and> length (remdups proof_ids) < 2,
        ValueError ''reconciliation proof must demonstrate both source observations''),
     (case reconciliation_values_agree (map rv_value (rc_values pc)) (bc_value_type c) (bc_tolerance c) of
        Inl e \<Rightarrow> (True, e)
      | Inr ok \<Rightarrow> (\<not> ok,
          ValueError ''reconciliation proof values do not satisfy the comparison tolerance''))])"

definition proof_for_path ::
  "ReconciliationPassProof \<Rightarrow> string \<Rightarrow> ReconciliationPassComparison option" where
  "proof_for_path p path = List.find (\<lambda>c. rc_field_path c = path) (rp_comparisons p)"

definition proof_checks :: "TradeBreak \<Rightarrow> ReconciliationPassProof \<Rightarrow> (bool \<times> py_error) list" where
  "proof_checks b p = [
     (rp_reconciliation_run_id p \<noteq> tb_reconciliation_run_id b \<or> rp_family p \<noteq> tb_family b \<or>
      rp_condition_code p \<noteq> tb_condition_code b \<or>
      rp_predicate_code p \<noteq> policy_resolution (tb_family b),
        ValueError ''reconciliation proof must bind to this break family, condition, run, and predicate''),
     (set (map (\<lambda>s. (rr_source_observation_id s, rr_source_version s)) (rp_source_version_set p)) \<noteq>
        set (source_version_items b),
        ValueError ''reconciliation proof source_version_set must match the break source set''),
     (set (map rc_field_path (rp_comparisons p)) \<noteq> set (map bc_field_path (tb_comparisons b)),
        ValueError ''reconciliation proof must cover exactly the break comparison fields'')] @
   concat (map (\<lambda>c. case proof_for_path p (bc_field_path c) of
       None \<Rightarrow> []
     | Some pc \<Rightarrow> proof_comparison_checks b c pc) (tb_comparisons b))"

definition resolution_evidence :: "TradeBreak \<Rightarrow> BreakResolution \<Rightarrow> BreakEvidence list" where
  "resolution_evidence b r = List.map_filter (indexed_evidence b) (re_evidence_ids r)"

definition resolution_checks ::
  "TradeBreak \<Rightarrow> datetime \<Rightarrow> BreakResolution \<Rightarrow> (bool \<times> py_error) list" where
  "resolution_checks b resolved_at r = (
     let roles = map be_role (resolution_evidence b r) in [
     (instant resolved_at < instant (tb_state_changed_at b),
        ValueError ''resolved_at must not precede state_changed_at''),
     (re_resolution_type r \<notin> set (break_allowed_resolution_types (tb_family b)),
        ValueError ''resolution_type is not permitted by the selected break family'')] @
   map (\<lambda>i. (indexed_evidence b i = None,
        ValueError ''resolution evidence IDs must reference break evidence'')) (re_evidence_ids r) @ [
     (set roles \<noteq> set (re_evidence_roles r),
        ValueError ''resolution evidence_roles must match cited evidence IDs'')] @
   (if re_resolution_type r = RECONCILIATION_PASS then [
     (RECONCILIATION_RESULT \<notin> set roles,
        ValueError ''reconciliation-pass resolution requires reconciliation evidence''),
     (re_reconciliation_run_id r \<noteq> Some (tb_reconciliation_run_id b),
        ValueError ''reconciliation-pass resolution must reference the break reconciliation run'')] @
     (case re_reconciliation_proof r of
        None \<Rightarrow> [(True, ValueError ''reconciliation-pass resolution requires structured proof'')]
      | Some p \<Rightarrow> proof_checks b p)
    else [
     (DISPOSITION_APPROVAL \<notin> set roles,
        ValueError ''non-action resolution requires disposition evidence'')]) @ [
     (list_ex (\<lambda>e. instant resolved_at < instant (be_captured_at e)) (resolution_evidence b r),
        ValueError ''resolved_at must follow every cited resolution evidence capture'')])"

definition resolved_checks :: "TradeBreak \<Rightarrow> (bool \<times> py_error) list" where
  "resolved_checks b = (
     if tb_state b = RESOLVED then
       (case (tb_resolved_at b, tb_resolution b) of
          (Some resolved_at, Some r) \<Rightarrow> resolution_checks b resolved_at r
        | _ \<Rightarrow> [(True, ValueError ''resolved breaks require resolved_at and resolution evidence'')])
     else [(tb_resolved_at b \<noteq> None \<or> tb_resolution b \<noteq> None,
            ValueError ''only resolved breaks may carry resolution fields'')])"

definition validate_break_invariants :: "TradeBreak \<Rightarrow> py_error + TradeBreak" where
  "validate_break_invariants b =
     ebind (break_family_checks b) (\<lambda>_.
     checked (missing_source_checks b @ source_scope_checks b @ path_checks b @ evidence_checks b @
       duplicate_checks b @ evidence_source_checks b @
       concat (map (comparison_checks b) (tb_comparisons b)) @
       evidence_path_checks b @ lifecycle_checks b @ resolved_checks b) b)"

definition trade_break_field_checks :: "TradeBreak \<Rightarrow> (bool \<times> py_error) list" where
  "trade_break_field_checks b = [
     (tb_schema_version b \<noteq> ''1.0.0'', ValueError ''schema_version''),
     (tb_taxonomy_version b \<noteq> ''1.0.0'', ValueError ''taxonomy_version''),
     (tb_detection_rule_version b \<noteq> ''1.0.0'', ValueError ''detection_rule_version''),
     (tb_priority_rule_version b \<noteq> ''1.0.0'', ValueError ''priority_rule_version''),
     (tb_lifecycle_rule_version b \<noteq> ''1.0.0'', ValueError ''lifecycle_rule_version''),
     (\<not> is_identifier (tb_break_id b), ValueError ''break_id''),
     (tb_break_version b < 1, ValueError ''break_version''),
     (\<not> is_tenant_id (tb_tenant_id b), ValueError ''tenant_id''),
     (\<not> is_portfolio_id (tb_portfolio_id b), ValueError ''portfolio_id''),
     (\<not> is_correlation_id (tb_correlation_id b), ValueError ''correlation_id''),
     (\<not> is_identifier (tb_trade_id b), ValueError ''trade_id''),
     (tb_canonical_state_version b < 1, ValueError ''canonical_state_version''),
     (\<not> is_identifier (tb_reconciliation_run_id b), ValueError ''reconciliation_run_id''),
     (tb_source_version_set b = [], ValueError ''source_version_set''),
     (tb_evaluated_field_paths b = [] \<or> \<not> list_all is_break_field_path (tb_evaluated_field_paths b),
        ValueError ''evaluated_field_paths''),
     (tb_comparisons b = [], ValueError ''comparisons''),
     (tb_evidence b = [], ValueError ''evidence''),
     (\<not> aware (tb_detected_at b) \<or> \<not> aware (tb_state_changed_at b) \<or> \<not> opt_ok aware (tb_resolved_at b),
        ValueError ''timestamp must include a timezone offset''),
     (\<not> opt_ok is_identifier (tb_supersedes_break_id b), ValueError ''supersedes_break_id''),
     (\<not> opt_ok is_identifier (tb_causal_label_id b), ValueError ''causal_label_id'')]"

definition mk_TradeBreak :: "TradeBreak \<Rightarrow> py_error + TradeBreak" where
  "mk_TradeBreak b =
     ebind (checked (trade_break_field_checks b) ()) (\<lambda>_.
     ebind (mk_BreakProductContext (tb_product_context b)) (\<lambda>_.
     ebind (mk_BreakPriority (tb_priority b)) (\<lambda>_.
     ebind (emap mk_BreakSourceReference (tb_source_version_set b)) (\<lambda>_.
     ebind (emap mk_BreakComparison (tb_comparisons b)) (\<lambda>_.
     ebind (emap mk_BreakEvidence (tb_evidence b)) (\<lambda>_.
     ebind (mk_opt mk_MissingSourceExpectation (tb_missing_source_expectation b)) (\<lambda>_.
     ebind (mk_opt mk_DuplicateSourceConflict (tb_duplicate_source_conflict b)) (\<lambda>_.
     ebind (mk_opt mk_BreakResolution (tb_resolution b)) (\<lambda>_.
     validate_break_invariants b)))))))))"

section \<open>What an accepted break guarantees\<close>

lemma mk_opt_Inr: "mk_opt f x = Inr y \<Longrightarrow> x = Some v \<Longrightarrow> \<exists>w. f v = Inr w"
  by (auto simp: mk_opt_def result_simps)

lemma emap_each: "emap f xs = Inr ys \<Longrightarrow> x \<in> set xs \<Longrightarrow> \<exists>y. f x = Inr y"
  by (auto simp: emap_Inr_iff list_all2_conv_all_nth in_set_conv_nth)

lemma trade_break_accepted:
  assumes "mk_TradeBreak b = Inr b'"
  shows "b' = b"
    and "break_family_checks b = Inr ()"
    and "first_error (missing_source_checks b) = None"
    and "first_error (source_scope_checks b) = None"
    and "first_error (path_checks b) = None"
    and "first_error (evidence_checks b) = None"
    and "first_error (duplicate_checks b) = None"
    and "first_error (evidence_source_checks b) = None"
    and "c \<in> set (tb_comparisons b) \<Longrightarrow> first_error (comparison_checks b c) = None"
    and "first_error (lifecycle_checks b) = None"
    and "first_error (resolved_checks b) = None"
proof -
  have v: "validate_break_invariants b = Inr b'"
    using assms by (auto simp: mk_TradeBreak_def result_simps)
  then show "b' = b"
    and "break_family_checks b = Inr ()"
    and "first_error (missing_source_checks b) = None"
    and "first_error (source_scope_checks b) = None"
    and "first_error (path_checks b) = None"
    and "first_error (evidence_checks b) = None"
    and "first_error (duplicate_checks b) = None"
    and "first_error (evidence_source_checks b) = None"
    and "c \<in> set (tb_comparisons b) \<Longrightarrow> first_error (comparison_checks b c) = None"
    and "first_error (lifecycle_checks b) = None"
    and "first_error (resolved_checks b) = None"
    by (simp_all add: validate_break_invariants_def ebind_eq_Inr check_simps first_error_concat_None)
qed

lemma trade_break_parts:
  assumes "mk_TradeBreak b = Inr b'"
  shows "c \<in> set (tb_comparisons b) \<Longrightarrow> \<exists>d. mk_BreakComparison c = Inr d"
    and "tb_resolution b = Some r \<Longrightarrow> \<exists>d. mk_BreakResolution r = Inr d"
    and "tb_missing_source_expectation b = Some e \<Longrightarrow> \<exists>d. mk_MissingSourceExpectation e = Inr d"
  using assms by (auto simp: mk_TradeBreak_def result_simps dest: emap_each mk_opt_Inr)

lemma indexed_source_mem:
  "indexed_source b i = Some s \<Longrightarrow> s \<in> set (tb_source_version_set b) \<and> br_source_observation_id s = i"
  unfolding indexed_source_def by (rule find_Some_D)

lemma indexed_evidence_mem:
  "indexed_evidence b i = Some e \<Longrightarrow> e \<in> set (tb_evidence b) \<and> be_evidence_id e = i"
  unfolding indexed_evidence_def by (rule find_Some_D)

lemma operand_reference_ok:
  assumes "first_error (operand_reference_checks b (Some i, Some v, name)) = None"
  shows "\<exists>s \<in> set (tb_source_version_set b). br_source_observation_id s = i \<and> br_source_version s = v"
  using assms
  by (auto simp: operand_reference_checks_def check_simps split: option.splits dest: indexed_source_mem)

lemma accepted_scope:
  assumes "mk_TradeBreak b = Inr b'" and "s \<in> set (tb_source_version_set b)"
  shows "br_source_tenant_id s = tb_tenant_id b" and "br_source_portfolio_id s = tb_portfolio_id b"
  using trade_break_accepted(4) [OF assms(1)] assms(2)
  by (auto simp: source_scope_checks_def check_simps first_error_map_None)

lemma accepted_operands:
  assumes "mk_TradeBreak b = Inr b'" and "c \<in> set (tb_comparisons b)"
    and "tb_family b \<noteq> MISSING_REQUIRED_SOURCE"
  shows "\<exists>s \<in> set (tb_source_version_set b). \<exists>t \<in> set (tb_source_version_set b).
    bc_expected_source_observation_id c = Some (br_source_observation_id s) \<and>
    bc_expected_source_version c = Some (br_source_version s) \<and>
    bc_observed_source_observation_id c = Some (br_source_observation_id t) \<and>
    bc_observed_source_version c = Some (br_source_version t) \<and>
    (tb_family b \<in> set BREAK_DISTINCT_SOURCE_FAMILIES \<longrightarrow>
       br_source_observation_id s \<noteq> br_source_observation_id t)"
proof -
  note c = trade_break_accepted(9) [OF assms(1,2)]
  from c assms(3) obtain i v j w where
    ids: "bc_expected_source_observation_id c = Some i" "bc_expected_source_version c = Some v"
      "bc_observed_source_observation_id c = Some j" "bc_observed_source_version c = Some w"
    by (auto simp: comparison_checks_def operand_presence_checks_def check_simps)
  have e: "first_error (operand_reference_checks b (Some i, Some v, ''expected'')) = None"
    and o: "first_error (operand_reference_checks b (Some j, Some w, ''observed'')) = None"
    and d: "tb_family b \<in> set BREAK_DISTINCT_SOURCE_FAMILIES \<longrightarrow> length (remdups (operand_ids b c)) = 2"
    using c ids by (simp_all add: comparison_checks_def check_simps)
  from d have "tb_family b \<in> set BREAK_DISTINCT_SOURCE_FAMILIES \<longrightarrow> i \<noteq> j"
    using assms(3) ids by (auto simp: operand_ids_def)
  with operand_reference_ok [OF e] operand_reference_ok [OF o] ids show ?thesis by fastforce
qed

lemma accepted_comparison:
  assumes "mk_BreakComparison c = Inr d"
  shows "bc_expected_value c \<noteq> bc_observed_value c"
    and "value_matches_type (bc_value_type c) (bc_expected_value c)"
    and "value_matches_type (bc_value_type c) (bc_observed_value c)"
    and "bc_value_type c \<noteq> VT_DECIMAL \<Longrightarrow> to_mode (bc_tolerance c) = TOL_NONE"
proof -
  have v: "comparison_values_match_type c = Inr d"
    using assms by (auto simp: mk_BreakComparison_def result_simps)
  then show "bc_expected_value c \<noteq> bc_observed_value c"
    and "value_matches_type (bc_value_type c) (bc_expected_value c)"
    and "value_matches_type (bc_value_type c) (bc_observed_value c)"
    by (simp_all add: comparison_values_match_type_def check_simps)
  show "to_mode (bc_tolerance c) = TOL_NONE" if "bc_value_type c \<noteq> VT_DECIMAL"
    using v that by (cases "bc_value_type c")
      (simp_all add: comparison_values_match_type_def check_simps)
qed

lemma accepted_observed_operand:
  assumes "mk_TradeBreak b = Inr b'" and "c \<in> set (tb_comparisons b)" and "tb_family b = MISSING_REQUIRED_SOURCE"
  shows "bc_expected_source_observation_id c = None \<and> bc_expected_source_version c = None \<and>
    (\<exists>t \<in> set (tb_source_version_set b).
      bc_observed_source_observation_id c = Some (br_source_observation_id t) \<and>
      bc_observed_source_version c = Some (br_source_version t))"
proof -
  note c = trade_break_accepted(9) [OF assms(1,2)]
  have e: "bc_expected_source_observation_id c = None" "bc_expected_source_version c = None"
    and "bc_observed_source_observation_id c \<noteq> None"
    and o: "first_error (operand_reference_checks b
      (bc_observed_source_observation_id c, bc_observed_source_version c, ''observed'')) = None"
    using c assms(3) by (auto simp: comparison_checks_def operand_presence_checks_def check_simps)
  then obtain i where i: "bc_observed_source_observation_id c = Some i" by blast
  show ?thesis
  proof (cases "bc_observed_source_version c")
    case None
    then show ?thesis using o i by (simp add: operand_reference_checks_def check_simps)
  next
    case (Some v)
    then show ?thesis using operand_reference_ok [of b i v "''observed''"] o i e by auto
  qed
qed

text \<open>C32: Every comparison of an accepted break records two different values of the declared type. Its observed
  source is one that the break lists at exactly the cited version, and that belongs to the break's own tenant and
  portfolio. So is its expected source, which in the families that compare independent sources is another
  observation than the observed one; only a missing-source break, whose expected source is the one that is missing,
  names none.\<close>

theorem accepted_break_compares_scoped_sources:
  assumes "mk_TradeBreak b = Inr b'" and "c \<in> set (tb_comparisons b)"
  shows "bc_expected_value c \<noteq> bc_observed_value c \<and>
    value_matches_type (bc_value_type c) (bc_expected_value c) \<and>
    value_matches_type (bc_value_type c) (bc_observed_value c) \<and>
    (\<exists>t \<in> set (tb_source_version_set b).
       bc_observed_source_observation_id c = Some (br_source_observation_id t) \<and>
       bc_observed_source_version c = Some (br_source_version t) \<and>
       (br_source_tenant_id t, br_source_portfolio_id t) = (tb_tenant_id b, tb_portfolio_id b)) \<and>
    (if tb_family b = MISSING_REQUIRED_SOURCE
     then bc_expected_source_observation_id c = None \<and> bc_expected_source_version c = None
     else \<exists>s \<in> set (tb_source_version_set b).
       bc_expected_source_observation_id c = Some (br_source_observation_id s) \<and>
       bc_expected_source_version c = Some (br_source_version s) \<and>
       (br_source_tenant_id s, br_source_portfolio_id s) = (tb_tenant_id b, tb_portfolio_id b) \<and>
       (tb_family b \<in> set BREAK_DISTINCT_SOURCE_FAMILIES \<longrightarrow>
          bc_expected_source_observation_id c \<noteq> bc_observed_source_observation_id c))"
proof -
  obtain d where "mk_BreakComparison c = Inr d" using trade_break_parts(1) [OF assms(1,2)] by blast
  note recorded = accepted_comparison(1-3) [OF this]
  show ?thesis
  proof (cases "tb_family b = MISSING_REQUIRED_SOURCE")
    case True
    then show ?thesis using recorded accepted_observed_operand [OF assms True] accepted_scope [OF assms(1)] by auto
  next
    case False
    have "bc_expected_source_observation_id c \<noteq> bc_observed_source_observation_id c \<longleftrightarrow> i \<noteq> j"
      if "bc_expected_source_observation_id c = Some i" "bc_observed_source_observation_id c = Some j" for i j
      using that by simp
    then show ?thesis
      using False recorded accepted_operands [OF assms False] accepted_scope [OF assms(1)] by (simp, blast)
  qed
qed

lemma accepted_resolution:
  assumes "mk_TradeBreak b = Inr b'" and "tb_state b = RESOLVED"
  obtains t r where "tb_resolved_at b = Some t" "tb_resolution b = Some r"
    "first_error (resolution_checks b t r) = None" "first_error (resolution_shape_checks r) = None"
proof -
  from trade_break_accepted(11) [OF assms(1)] assms(2) obtain t r where
    tr: "tb_resolved_at b = Some t" "tb_resolution b = Some r"
      "first_error (resolution_checks b t r) = None"
    by (auto simp: resolved_checks_def check_simps split: option.splits)
  moreover from trade_break_parts(2) [OF assms(1) tr(2)]
  have "first_error (resolution_shape_checks r) = None"
    by (auto simp: mk_BreakResolution_def result_simps check_simps)
  ultimately show thesis by (rule that)
qed

lemma values_agree_exact:
  assumes "reconciliation_values_agree vs tp tol = Inr True" and "tp \<noteq> VT_DECIMAL"
  shows "v \<in> set vs \<Longrightarrow> w \<in> set vs \<Longrightarrow> v = w"
proof -
  have "x \<in> set vs \<Longrightarrow> x = hd vs" for x
    using assms by (cases vs) (auto simp: reconciliation_values_agree_def list_all_iff)
  then show "v \<in> set vs \<Longrightarrow> w \<in> set vs \<Longrightarrow> v = w" by metis
qed

lemma values_agree_decimal:
  assumes "reconciliation_values_agree vs VT_DECIMAL tol = Inr True" and "v \<in> set vs"
  shows "\<exists>d. parse_decimal v = Some d"
proof -
  have "None \<notin> parse_decimal ` set vs"
    using assms by (auto simp: reconciliation_values_agree_def all_options_def split: if_splits)
  then show ?thesis using assms(2) by (cases "parse_decimal v") (auto simp: image_iff)
qed

lemma dec_eq_value: "dec_eq x y = Some True \<Longrightarrow> dec_value x = dec_value y"
  by (cases "(x, y)" rule: dec_eq.cases) auto

lemma values_agree_decimal_none:
  assumes "reconciliation_values_agree vs VT_DECIMAL tol = Inr True" and "to_mode tol = TOL_NONE"
    and "v \<in> set vs" "w \<in> set vs" "parse_decimal v = Some d" "parse_decimal w = Some e"
  shows "dec_value d = dec_value e"
proof -
  from assms(1,3) have ne: "vs \<noteq> []" and p: "None \<notin> parse_decimal ` set vs"
    by (auto simp: reconciliation_values_agree_def all_options_def split: if_splits option.splits)
  define ds where "ds = map (the \<circ> parse_decimal) vs"
  have "list_all (\<lambda>v. dec_eq v (hd ds) = Some True) (tl ds)"
    using assms(1,2) ne p
    by (simp add: reconciliation_values_agree_def all_options_def ds_def split: if_splits option.splits)
  then have eq: "dec_value x = dec_value (hd ds)" if "x \<in> set ds" for x
    using that by (cases ds) (auto simp: list_all_iff dest!: bspec dec_eq_value)
  have "d \<in> set ds" "e \<in> set ds" using assms(3-6) by (force simp: ds_def)+
  then show ?thesis using eq by metis
qed

lemma accepted_proof_comparison:
  assumes "first_error (proof_checks b p) = None" and "c \<in> set (tb_comparisons b)"
  shows "\<exists>pc \<in> set (rp_comparisons p). rc_field_path pc = bc_field_path c \<and>
    first_error (proof_comparison_checks b c pc) = None"
proof -
  have paths: "set (map rc_field_path (rp_comparisons p)) = set (map bc_field_path (tb_comparisons b))"
    and each: "\<And>c. c \<in> set (tb_comparisons b) \<Longrightarrow> first_error
      (case proof_for_path p (bc_field_path c) of None \<Rightarrow> [] | Some pc \<Rightarrow> proof_comparison_checks b c pc) = None"
    using assms(1) by (simp_all add: proof_checks_def check_simps first_error_concat_None)
  have "bc_field_path c \<in> rc_field_path ` set (rp_comparisons p)" using paths assms(2) by auto
  then obtain pc where pc: "proof_for_path p (bc_field_path c) = Some pc"
    unfolding proof_for_path_def by (auto simp: find_None_iff dest: not_None_eq [THEN iffD1])
      (metis (mono_tags, lifting) find_None_iff not_None_eq)
  with each [OF assms(2)] find_Some_D [OF pc [unfolded proof_for_path_def]] show ?thesis by auto
qed

lemma proof_comparison_ok:
  assumes "first_error (proof_comparison_checks b c pc) = None"
  shows "rc_value_type pc = bc_value_type c"
    and "\<And>v. v \<in> set (rc_values pc) \<Longrightarrow> \<exists>s \<in> set (tb_source_version_set b).
      br_source_observation_id s = rr_source_observation_id v \<and> br_source_version s = rr_source_version v"
    and "set (operand_ids b c) \<subseteq> Some ` rr_source_observation_id ` set (rc_values pc)"
    and "reconciliation_values_agree (map rv_value (rc_values pc)) (bc_value_type c) (bc_tolerance c) = Inr True"
proof -
  show "rc_value_type pc = bc_value_type c"
    and "set (operand_ids b c) \<subseteq> Some ` rr_source_observation_id ` set (rc_values pc)"
    using assms by (auto simp: proof_comparison_checks_def check_simps Let_def)
  show "\<exists>s \<in> set (tb_source_version_set b).
      br_source_observation_id s = rr_source_observation_id v \<and> br_source_version s = rr_source_version v"
    if "v \<in> set (rc_values pc)" for v
  proof -
    have "map_of (source_version_items b) (rr_source_observation_id v) = Some (rr_source_version v)"
      using assms that by (simp add: proof_comparison_checks_def check_simps Let_def list_ex_iff)
    from map_of_SomeD [OF this] show ?thesis by (auto simp: source_version_items_def)
  qed
  show "reconciliation_values_agree (map rv_value (rc_values pc)) (bc_value_type c) (bc_tolerance c) = Inr True"
    using assms by (auto simp: proof_comparison_checks_def check_simps Let_def split: sum.splits)
qed

text \<open>Two recorded values agree: as texts, or, for decimals without a tolerance, as numbers.\<close>

definition exactly_equal :: "BreakValueType \<Rightarrow> string \<Rightarrow> string \<Rightarrow> bool" where
  "exactly_equal tp v w = (if tp = VT_DECIMAL
     then (case (parse_decimal v, parse_decimal w) of
        (Some d, Some e) \<Rightarrow> dec_value d = dec_value e | _ \<Rightarrow> False)
     else v = w)"

lemma values_agree_exactly_equal:
  assumes "reconciliation_values_agree vs tp tol = Inr True" and "to_mode tol = TOL_NONE"
    and "v \<in> set vs" and "w \<in> set vs"
  shows "exactly_equal tp v w"
proof (cases "tp = VT_DECIMAL")
  case True
  then obtain d e where "parse_decimal v = Some d" "parse_decimal w = Some e"
    using values_agree_decimal assms by metis
  then show ?thesis
    using values_agree_decimal_none [of vs tol v w] assms True by (simp add: exactly_equal_def)
next
  case False
  then show ?thesis using values_agree_exact [OF assms(1)] assms(3,4) by (auto simp: exactly_equal_def)
qed

lemma resolved_break_proof:
  assumes "mk_TradeBreak b = Inr b'" and "tb_state b = RESOLVED"
    and "tb_resolution b = Some r" and "re_resolution_type r = RECONCILIATION_PASS"
  obtains p where "re_reconciliation_proof r = Some p" "first_error (proof_checks b p) = None"
proof -
  obtain t where "first_error (resolution_checks b t r) = None"
    using accepted_resolution [OF assms(1,2)] assms(3) by (metis option.inject)
  then show thesis
    using that assms(4)
    by (auto simp: resolution_checks_def Let_def check_simps split: option.splits)
qed

lemma accepted_proof_paths:
  assumes "mk_TradeBreak b = Inr b'" and "tb_resolution b = Some r" and "re_reconciliation_proof r = Some p"
  shows "distinct (map rc_field_path (rp_comparisons p))"
proof -
  obtain d where "mk_BreakResolution r = Inr d" using trade_break_parts(2) [OF assms(1,2)] by blast
  then have "\<exists>q. mk_ReconciliationPassProof p = Inr q"
    using assms(3) by (auto simp: mk_BreakResolution_def result_simps dest: mk_opt_Inr)
  then show ?thesis by (auto simp: mk_ReconciliationPassProof_def result_simps check_simps has_dups_iff)
qed

lemma filter_by_key:
  assumes "distinct (map f xs)" and "x \<in> set xs"
  shows "filter (\<lambda>y. f y = f x) xs = [x]"
  using assms
proof (induction xs)
  case (Cons a xs)
  show ?case
  proof (cases "x = a")
    case True
    then have "f x \<notin> f ` set xs" using Cons.prems(1) by simp
    then have "\<forall>y \<in> set xs. f y \<noteq> f x" by (metis imageI)
    then show ?thesis using True by (simp add: filter_empty_conv)
  next
    case False
    then have "x \<in> set xs" "f a \<noteq> f x" using Cons.prems by auto
    then show ?thesis using Cons.IH Cons.prems(1) by simp
  qed
qed simp

text \<open>C31: The resolution of a break by a reconciliation pass carries a proof, which names the break's own run,
  family and condition. For every compared field the proof has exactly one comparison, of the same value type. It
  holds a value of each of the sources compared, every value is of a source that the break lists, at that very
  version, and the values agree within the tolerance of the break's comparison: without a tolerance they are equal
  (decimals as numbers). So a break cannot be closed while its sources still disagree, nor on values of other
  versions of them.\<close>

theorem resolved_by_pass_sources_agree:
  assumes "mk_TradeBreak b = Inr b'" and "tb_state b = RESOLVED"
    and "tb_resolution b = Some r" and "re_resolution_type r = RECONCILIATION_PASS"
    and "c \<in> set (tb_comparisons b)"
  shows "\<exists>p pc. re_reconciliation_proof r = Some p \<and>
    rp_reconciliation_run_id p = tb_reconciliation_run_id b \<and> rp_family p = tb_family b \<and>
    rp_condition_code p = tb_condition_code b \<and>
    filter (\<lambda>x. rc_field_path x = bc_field_path c) (rp_comparisons p) = [pc] \<and>
    rc_value_type pc = bc_value_type c \<and>
    (\<forall>i \<in> set (operand_ids b c). \<exists>v \<in> set (rc_values pc). i = Some (rr_source_observation_id v)) \<and>
    (\<forall>v \<in> set (rc_values pc). \<exists>s \<in> set (tb_source_version_set b).
       br_source_observation_id s = rr_source_observation_id v \<and>
       br_source_version s = rr_source_version v) \<and>
    reconciliation_values_agree (map rv_value (rc_values pc)) (bc_value_type c) (bc_tolerance c) = Inr True \<and>
    (to_mode (bc_tolerance c) = TOL_NONE \<longrightarrow>
       (\<forall>v \<in> set (rc_values pc). \<forall>w \<in> set (rc_values pc).
          exactly_equal (bc_value_type c) (rv_value v) (rv_value w)))"
proof -
  obtain p where r: "re_reconciliation_proof r = Some p" and p: "first_error (proof_checks b p) = None"
    using resolved_break_proof [OF assms(1-4)] by blast
  have bind: "rp_reconciliation_run_id p = tb_reconciliation_run_id b" "rp_family p = tb_family b"
    "rp_condition_code p = tb_condition_code b"
    using p by (simp_all add: proof_checks_def check_simps)
  obtain pc where pc: "pc \<in> set (rp_comparisons p)" "rc_field_path pc = bc_field_path c"
    and "first_error (proof_comparison_checks b c pc) = None"
    using accepted_proof_comparison [OF p assms(5)] by blast
  note ok = proof_comparison_ok [OF this(3)]
  have one: "filter (\<lambda>x. rc_field_path x = bc_field_path c) (rp_comparisons p) = [pc]"
    using filter_by_key [OF accepted_proof_paths [OF assms(1,3) r] pc(1)] pc(2) by simp
  have "exactly_equal (bc_value_type c) (rv_value v) (rv_value w)"
    if "to_mode (bc_tolerance c) = TOL_NONE" "v \<in> set (rc_values pc)" "w \<in> set (rc_values pc)" for v w
    by (rule values_agree_exactly_equal [OF ok(4) that(1)]) (use that in auto)
  moreover have "\<exists>v \<in> set (rc_values pc). i = Some (rr_source_observation_id v)"
    if "i \<in> set (operand_ids b c)" for i
    using ok(3) that by auto
  ultimately show ?thesis
    using r bind one ok(1,2,4) by (intro exI [of _ p] exI [of _ pc]) blast
qed

text \<open>C35: A resolved break that was not resolved by a reconciliation pass belongs to one of the two
  families that allow an owner-approved non-action; its approver is a human, and it cites
  disposition evidence of the break itself that was captured before the resolution.\<close>

theorem non_action_needs_human_disposition:
  assumes "mk_TradeBreak b = Inr b'" and "tb_state b = RESOLVED"
    and "tb_resolution b = Some r" and "re_resolution_type r \<noteq> RECONCILIATION_PASS"
  shows "tb_family b \<in> {MISSING_REQUIRED_SOURCE, POST_ACTION_VERIFICATION_FAILURE} \<and>
    (\<exists>a. re_approver r = Some a \<and> identity_type a = HUMAN) \<and>
    (\<exists>t. tb_resolved_at b = Some t \<and> instant (tb_state_changed_at b) \<le> instant t \<and>
       (\<exists>e \<in> set (tb_evidence b). be_role e = DISPOSITION_APPROVAL \<and>
          be_evidence_id e \<in> set (re_evidence_ids r) \<and> instant (be_captured_at e) \<le> instant t))"
proof -
  obtain t where t: "tb_resolved_at b = Some t" and c: "first_error (resolution_checks b t r) = None"
    and s: "first_error (resolution_shape_checks r) = None"
    using accepted_resolution [OF assms(1,2)] assms(3) by (metis option.inject)
  have fam: "re_resolution_type r \<in> set (break_allowed_resolution_types (tb_family b))"
    and ch: "instant (tb_state_changed_at b) \<le> instant t"
    and d: "DISPOSITION_APPROVAL \<in> be_role ` set (resolution_evidence b r)"
    and cap: "\<forall>e \<in> set (resolution_evidence b r). instant (be_captured_at e) \<le> instant t"
    using c assms(4) by (auto simp: resolution_checks_def Let_def check_simps list_ex_iff)
  have f: "tb_family b \<in> {MISSING_REQUIRED_SOURCE, POST_ACTION_VERIFICATION_FAILURE}"
    using fam assms(4) by (cases "tb_family b") auto
  have a: "\<exists>a. re_approver r = Some a \<and> identity_type a = HUMAN"
    using s assms(4) by (auto simp: resolution_shape_checks_def check_simps opt_ok_def)
  obtain e where e: "e \<in> set (resolution_evidence b r)" "be_role e = DISPOSITION_APPROVAL"
    using d by auto
  then have "e \<in> set (tb_evidence b) \<and> be_evidence_id e \<in> set (re_evidence_ids r)"
    by (auto simp: resolution_evidence_def List.map_filter_def dest: indexed_evidence_mem)
  with e f a t ch cap show ?thesis by blast
qed

text \<open>C36: An accepted missing-source break is raised no earlier than the end of the arrival window,
  never while an observation of the awaited kind is among its sources, never for a trade
  capture, and with medium severity exactly when the awaited source is a confirmation.\<close>

theorem missing_source_break_is_late_and_absent:
  assumes "mk_TradeBreak b = Inr b'" and "tb_family b = MISSING_REQUIRED_SOURCE"
  shows "\<exists>e. tb_missing_source_expectation b = Some e \<and>
    instant (me_watermark_at e) \<le> instant (me_expected_by e) \<and>
    instant (me_expected_by e) \<le> instant (tb_detected_at b) \<and>
    me_expected_observation_kind e \<noteq> TRADE_CAPTURE \<and>
    (\<forall>s \<in> set (tb_source_version_set b). br_observation_kind s \<noteq> me_expected_observation_kind e) \<and>
    tb_severity b = (if me_expected_observation_kind e = CONFIRMATION then MEDIUM else HIGH)"
proof -
  note acc = trade_break_accepted [OF assms(1)]
  obtain e where e: "tb_missing_source_expectation b = Some e"
    and ctx: "tb_severity_context b = Some (me_expected_observation_kind e)"
    and late: "instant (me_expected_by e) \<le> instant (tb_detected_at b)"
    using acc(3) assms(2) by (auto simp: missing_source_checks_def check_simps split: option.splits)
  have absent: "\<forall>s \<in> set (tb_source_version_set b). br_observation_kind s \<noteq> me_expected_observation_kind e"
    using acc(4) assms(2) e by (simp add: source_scope_checks_def check_simps list_ex_iff)
  have k: "instant (me_watermark_at e) \<le> instant (me_expected_by e) \<and>
      me_expected_observation_kind e \<noteq> TRADE_CAPTURE"
    using trade_break_parts(3) [OF assms(1) e]
    by (auto simp: mk_MissingSourceExpectation_def check_simps)
  have "tb_severity b = (if me_expected_observation_kind e = CONFIRMATION then MEDIUM else HIGH)"
    using acc(2) assms(2) ctx
    by (auto simp: break_family_checks_def result_simps check_simps expected_break_severity_def
        split: if_splits)
  with e late absent k show ?thesis by blast
qed

text \<open>A sequence of documents of one break: each is accepted and follows the state of the one before.\<close>

fun linked_documents :: "BreakLifecycleState option \<Rightarrow> TradeBreak list \<Rightarrow> bool" where
  "linked_documents prev [] = True"
| "linked_documents prev (b # bs) \<longleftrightarrow>
     mk_TradeBreak b = Inr b \<and> tb_previous_state b = prev \<and> linked_documents (Some (tb_state b)) bs"

lemma accepted_transition:
  "mk_TradeBreak b = Inr b' \<Longrightarrow>
     (tb_previous_state b, tb_state b, tb_transition_reason b) \<in> set BREAK_TRANSITION_POLICY"
  using trade_break_accepted(10) by (auto simp: lifecycle_checks_def check_simps)

lemma linked_documents_history:
  assumes "linked_documents (Some s) bs" and "break_history (hs @ [s])"
  shows "break_history (hs @ [s] @ map tb_state bs)"
  using assms
proof (induction bs arbitrary: s hs)
  case Nil
  then show ?case by simp
next
  case (Cons b bs)
  then have "(Some s, tb_state b, tb_transition_reason b) \<in> set BREAK_TRANSITION_POLICY"
    using accepted_transition [of b b] by auto
  with Cons.prems(2) have "break_history ((hs @ [s]) @ [tb_state b])"
    using break_history.step by fastforce
  with Cons.IH [of "tb_state b" "hs @ [s]"] Cons.prems(1) show ?case by simp
qed

lemma documents_history:
  assumes "linked_documents None bs" and "bs \<noteq> []"
  shows "break_history (map tb_state bs)"
proof -
  obtain b rest where b: "bs = b # rest" using assms(2) by (cases bs) auto
  have "(None, tb_state b, tb_transition_reason b) \<in> set BREAK_TRANSITION_POLICY"
    using assms(1) b accepted_transition [of b b] by auto
  then have "break_history ([] @ [tb_state b])" using break_history.start by simp
  from linked_documents_history [OF _ this] assms(1) b show ?thesis by simp
qed

lemma resolved_history:
  assumes "break_history hs" and "last hs = RESOLVED"
  shows "hs = action_path \<or> hs = no_action_path"
  using break_history_listed [OF assms(1)] assms(2)
  by (auto simp: break_histories_list action_path_def no_action_path_def)

text \<open>C34: Any sequence of accepted documents of one break, each following the state of the one
  before and the first following none, has at most six documents, and when the last one is
  resolved it has gone through investigation, proposal, a pending action or non-action and
  verification, in this order and without skipping or repeating a state.\<close>

theorem break_documents_follow_lifecycle:
  assumes "linked_documents None bs" and "bs \<noteq> []"
  shows "length bs \<le> 6 \<and> break_history (map tb_state bs) \<and>
    (tb_state (last bs) = RESOLVED \<longrightarrow>
       map tb_state bs = action_path \<or> map tb_state bs = no_action_path)"
proof -
  note h = documents_history [OF assms]
  have "length (map tb_state bs) \<le> 6"
    using break_history_listed [OF h] by (auto simp: break_histories_list)
  moreover have "last (map tb_state bs) = tb_state (last bs)" using assms(2) by (simp add: last_map)
  ultimately show ?thesis using h resolved_history [OF h] by auto
qed

section \<open>Sample breaks\<close>

text \<open>
  An economic break between an execution and a booking, resolved by a reconciliation pass, and
  a missing confirmation, resolved by an owner-approved non-action.
\<close>

definition sample_source :: "string \<Rightarrow> ObservationKind \<Rightarrow> BreakSourceReference" where
  "sample_source i k = \<lparr>br_source_observation_id = i, br_observation_kind = k,
     br_source_system = source_system_by_kind k, br_source_business_key = ''trade_key_1'',
     br_source_tenant_id = ''tenant_acme'', br_source_portfolio_id = ''portfolio_fx'',
     br_source_version = ''1'', br_content_hash = ''sha256:'' @ replicate 64 CHR ''a''\<rparr>"

definition sample_evidence ::
  "string \<Rightarrow> BreakEvidenceRole \<Rightarrow> string option \<Rightarrow> string option \<Rightarrow> BreakEvidence" where
  "sample_evidence i role src path = \<lparr>be_evidence_id = i, be_role = role,
     be_content_hash = ''sha256:'' @ replicate 64 CHR ''b'', be_captured_at = utc 5,
     be_source_observation_id = src, be_source_version = map_option (\<lambda>_. ''1'') src,
     be_field_path = path\<rparr>"

definition sample_comparison :: BreakComparison where
  "sample_comparison = \<lparr>bc_field_path = ''/payload/base_amount'', bc_value_type = VT_DECIMAL,
     bc_expected_value = ''100.00'', bc_observed_value = ''101.00'',
     bc_tolerance = \<lparr>to_mode = TOL_NONE, to_value = None\<rparr>, bc_normalisation_rule_version = ''1.0.0'',
     bc_evidence_ids = [''ev_exec'', ''ev_book''],
     bc_expected_source_observation_id = Some ''obs_exec'', bc_expected_source_version = Some ''1'',
     bc_observed_source_observation_id = Some ''obs_book'', bc_observed_source_version = Some ''1''\<rparr>"

definition sample_value :: "string \<Rightarrow> string \<Rightarrow> ReconciliationSourceValue" where
  "sample_value i v = \<lparr>rr_source_observation_id = i, rr_source_version = ''1'', rv_value = v\<rparr>"

definition sample_proof :: ReconciliationPassProof where
  "sample_proof = \<lparr>rp_reconciliation_run_id = ''run_1'', rp_family = ECONOMIC_VALUE_MISMATCH,
     rp_condition_code = DECIMAL_OUTSIDE_TOLERANCE,
     rp_predicate_code = WITHIN_TOLERANCE_AND_RECONCILIATION_PASS,
     rp_source_version_set = [
       \<lparr>rr_source_observation_id = ''obs_exec'', rr_source_version = ''1''\<rparr>,
       \<lparr>rr_source_observation_id = ''obs_book'', rr_source_version = ''1''\<rparr>],
     rp_comparisons = [\<lparr>rc_field_path = ''/payload/base_amount'', rc_value_type = VT_DECIMAL,
       rc_values = [sample_value ''obs_exec'' ''100.00'', sample_value ''obs_book'' ''100.0'']\<rparr>]\<rparr>"

definition sample_pass :: BreakResolution where
  "sample_pass = \<lparr>re_resolution_type = RECONCILIATION_PASS, re_reconciliation_run_id = Some ''run_1'',
     re_disposition_id = None, re_approver = None, re_evidence_ids = [''ev_result''],
     re_evidence_roles = [RECONCILIATION_RESULT], re_reconciliation_proof = Some sample_proof\<rparr>"

definition sample_break :: TradeBreak where
  "sample_break = \<lparr>tb_schema_version = ''1.0.0'', tb_taxonomy_version = ''1.0.0'',
     tb_detection_rule_version = ''1.0.0'', tb_priority_rule_version = ''1.0.0'',
     tb_lifecycle_rule_version = ''1.0.0'', tb_break_id = ''break_1'', tb_break_version = 1,
     tb_tenant_id = ''tenant_acme'', tb_portfolio_id = ''portfolio_fx'',
     tb_correlation_id = ''corr_1a'', tb_trade_id = ''trade_1'', tb_canonical_state_version = 1,
     tb_reconciliation_run_id = ''run_1'', tb_product_type = FX_SPOT,
     tb_product_context = \<lparr>pc_product_type = FX_SPOT, pc_settlement_rule_version = ''1.0.0'',
       pc_trade_date = 10, pc_value_date = 12\<rparr>,
     tb_family = ECONOMIC_VALUE_MISMATCH, tb_condition_code = DECIMAL_OUTSIDE_TOLERANCE,
     tb_severity = CRITICAL, tb_severity_context = None,
     tb_priority = \<lparr>bp_materiality_band = UNASSESSED, bp_deadline_status = NO_CONFIGURED_DEADLINE,
       bp_case_age_seconds = 0, bp_ordering_key = (2, 1, 3, 0)\<rparr>,
     tb_source_version_set = [sample_source ''obs_exec'' EXECUTION, sample_source ''obs_book'' BOOKING],
     tb_evaluated_field_paths = [''/payload/base_amount''],
     tb_comparisons = [sample_comparison],
     tb_evidence = [
       sample_evidence ''ev_exec'' DECIMAL_COMPARISON (Some ''obs_exec'') (Some ''/payload/base_amount''),
       sample_evidence ''ev_book'' NORMALISATION_RULE (Some ''obs_book'') (Some ''/payload/base_amount''),
       sample_evidence ''ev_result'' RECONCILIATION_RESULT None None],
     tb_missing_source_expectation = None, tb_duplicate_source_conflict = None,
     tb_state = RESOLVED, tb_previous_state = Some VERIFYING,
     tb_transition_reason = RESOLUTION_VERIFIED, tb_detected_at = utc 1,
     tb_state_changed_at = utc 6, tb_resolved_at = Some (utc 7), tb_resolution = Some sample_pass,
     tb_supersedes_break_id = None, tb_causal_label_id = None\<rparr>"

definition sample_missing_break :: TradeBreak where
  "sample_missing_break = sample_break\<lparr>
     tb_family := MISSING_REQUIRED_SOURCE, tb_condition_code := MISSING_SOURCE_AFTER_WATERMARK,
     tb_severity := MEDIUM, tb_severity_context := Some CONFIRMATION,
     tb_priority := \<lparr>bp_materiality_band = UNASSESSED, bp_deadline_status = NO_CONFIGURED_DEADLINE,
       bp_case_age_seconds = 0, bp_ordering_key = (2, 3, 3, 0)\<rparr>,
     tb_source_version_set := [sample_source ''obs_exec'' EXECUTION],
     tb_evaluated_field_paths := [''/source/confirmation_observation''],
     tb_comparisons := [sample_comparison\<lparr>
       bc_field_path := ''/source/confirmation_observation'', bc_value_type := VT_ABSENCE,
       bc_expected_value := ''PRESENT'', bc_observed_value := ''ABSENT'',
       bc_evidence_ids := [''ev_expected''],
       bc_expected_source_observation_id := None, bc_expected_source_version := None,
       bc_observed_source_observation_id := Some ''obs_exec''\<rparr>],
     tb_evidence := [
       sample_evidence ''ev_mark'' INGESTION_WATERMARK None None,
       sample_evidence ''ev_expected'' EXPECTED_SOURCE None (Some ''/source/confirmation_observation''),
       sample_evidence ''ev_owner'' DISPOSITION_APPROVAL None None],
     tb_missing_source_expectation := Some \<lparr>me_expected_observation_kind = CONFIRMATION,
       me_expected_source_system = FPML_CONFIRMATION,
       me_field_path = ''/source/confirmation_observation'',
       me_arrival_window_rule_version = ''1.0.0'', me_watermark_at = utc 5, me_expected_by = utc 6\<rparr>,
     tb_detected_at := utc 6,
     tb_resolution := Some \<lparr>re_resolution_type = OWNER_APPROVED_NON_ACTION,
       re_reconciliation_run_id = None, re_disposition_id = Some ''disposition_1'',
       re_approver = Some \<lparr>identity_type = HUMAN, actor_id = ''owner_1''\<rparr>,
       re_evidence_ids = [''ev_owner''], re_evidence_roles = [DISPOSITION_APPROVAL],
       re_reconciliation_proof = None\<rparr>\<rparr>"

lemma sample_break_accepted: "mk_TradeBreak sample_break = Inr sample_break"
  by code_simp

lemma sample_missing_break_accepted: "mk_TradeBreak sample_missing_break = Inr sample_missing_break"
  by code_simp

text \<open>A document moved to another open state keeps every check but those of its lifecycle.\<close>

definition in_state ::
  "TradeBreak \<Rightarrow> BreakLifecycleState option \<times> BreakLifecycleState \<times> BreakTransitionReason \<Rightarrow> TradeBreak" where
  "in_state b t = (case t of (prev, s, reason) \<Rightarrow> b\<lparr>tb_state := s, tb_previous_state := prev,
     tb_transition_reason := reason, tb_resolved_at := None, tb_resolution := None\<rparr>)"

lemma in_state_fields:
  "tb_schema_version (in_state b t) = tb_schema_version b"
  "tb_taxonomy_version (in_state b t) = tb_taxonomy_version b"
  "tb_detection_rule_version (in_state b t) = tb_detection_rule_version b"
  "tb_priority_rule_version (in_state b t) = tb_priority_rule_version b"
  "tb_lifecycle_rule_version (in_state b t) = tb_lifecycle_rule_version b"
  "tb_break_id (in_state b t) = tb_break_id b"
  "tb_break_version (in_state b t) = tb_break_version b"
  "tb_tenant_id (in_state b t) = tb_tenant_id b"
  "tb_portfolio_id (in_state b t) = tb_portfolio_id b"
  "tb_correlation_id (in_state b t) = tb_correlation_id b"
  "tb_trade_id (in_state b t) = tb_trade_id b"
  "tb_canonical_state_version (in_state b t) = tb_canonical_state_version b"
  "tb_reconciliation_run_id (in_state b t) = tb_reconciliation_run_id b"
  "tb_product_type (in_state b t) = tb_product_type b"
  "tb_product_context (in_state b t) = tb_product_context b"
  "tb_family (in_state b t) = tb_family b"
  "tb_condition_code (in_state b t) = tb_condition_code b"
  "tb_severity (in_state b t) = tb_severity b"
  "tb_severity_context (in_state b t) = tb_severity_context b"
  "tb_priority (in_state b t) = tb_priority b"
  "tb_source_version_set (in_state b t) = tb_source_version_set b"
  "tb_evaluated_field_paths (in_state b t) = tb_evaluated_field_paths b"
  "tb_comparisons (in_state b t) = tb_comparisons b"
  "tb_evidence (in_state b t) = tb_evidence b"
  "tb_missing_source_expectation (in_state b t) = tb_missing_source_expectation b"
  "tb_duplicate_source_conflict (in_state b t) = tb_duplicate_source_conflict b"
  "tb_detected_at (in_state b t) = tb_detected_at b"
  "tb_state_changed_at (in_state b t) = tb_state_changed_at b"
  "tb_supersedes_break_id (in_state b t) = tb_supersedes_break_id b"
  "tb_causal_label_id (in_state b t) = tb_causal_label_id b"
  by (simp_all add: in_state_def split: prod.split)

lemma in_state_lifecycle:
  "tb_state (in_state b t) = fst (snd t)" "tb_previous_state (in_state b t) = fst t"
  "tb_transition_reason (in_state b t) = snd (snd t)" "tb_resolved_at (in_state b t) = None"
  "tb_resolution (in_state b t) = None"
  by (simp_all add: in_state_def split: prod.split)

lemma in_state_checks:
  "break_family_checks (in_state b t) = break_family_checks b"
  "missing_source_checks (in_state b t) = missing_source_checks b"
  "source_scope_checks (in_state b t) = source_scope_checks b"
  "path_checks (in_state b t) = path_checks b"
  "evidence_checks (in_state b t) = evidence_checks b"
  "duplicate_checks (in_state b t) = duplicate_checks b"
  "evidence_source_checks (in_state b t) = evidence_source_checks b"
  "comparison_checks (in_state b t) c = comparison_checks b c"
  "evidence_path_checks (in_state b t) = evidence_path_checks b"
  unfolding break_family_checks_def missing_source_checks_def source_scope_checks_def
      path_checks_def evidence_checks_def evidence_with_role_def duplicate_checks_def
      evidence_source_checks_def comparison_checks_def operand_presence_checks_def
      operand_ids_def cited_source_ids_def evidence_path_checks_def in_state_fields
      indexed_source_def [abs_def] indexed_evidence_def [abs_def] operand_reference_checks_def [abs_def]
  by (rule refl)+

lemma in_state_accepted:
  assumes "mk_TradeBreak b = Inr b" and "t \<in> set BREAK_TRANSITION_POLICY" and "fst (snd t) \<noteq> RESOLVED"
  shows "mk_TradeBreak (in_state b t) = Inr (in_state b t)"
proof -
  have "first_error (trade_break_field_checks b) = None"
    using assms(1) by (simp add: mk_TradeBreak_def result_simps check_simps)
  then have f: "first_error (trade_break_field_checks (in_state b t)) = None"
    by (simp add: trade_break_field_checks_def check_simps in_state_fields in_state_lifecycle opt_ok_def)
  have l: "first_error (lifecycle_checks (in_state b t)) = None"
    using trade_break_accepted(10) [OF assms(1)] assms(2)
    by (simp add: lifecycle_checks_def expected_ordering_key_def check_simps in_state_fields in_state_lifecycle)
  have r: "first_error (resolved_checks (in_state b t)) = None"
    using assms(3) by (simp add: resolved_checks_def check_simps in_state_lifecycle)
  have "validate_break_invariants b = Inr b"
    using assms(1) by (auto simp: mk_TradeBreak_def result_simps)
  with l r have v: "validate_break_invariants (in_state b t) = Inr (in_state b t)"
    by (simp add: validate_break_invariants_def ebind_eq_Inr check_simps first_error_concat_None
        in_state_checks in_state_fields)
  show ?thesis
    using assms(1) f v
    by (auto simp: mk_TradeBreak_def result_simps check_simps in_state_fields in_state_lifecycle mk_opt_def)
qed

definition sample_documents :: "TradeBreak list" where
  "sample_documents = map (in_state sample_break)
     [(None, OPEN, DETECTED), (Some OPEN, UNDER_INVESTIGATION, BEGIN_INVESTIGATION),
      (Some UNDER_INVESTIGATION, RESOLUTION_PROPOSED, PROPOSE_RESOLUTION),
      (Some RESOLUTION_PROPOSED, ACTION_PENDING, ACTION_AUTHORISATION_PENDING),
      (Some ACTION_PENDING, VERIFYING, BEGIN_VERIFICATION)] @ [sample_break]"

lemma sample_documents_linked: "linked_documents None sample_documents"
proof -
  note acc = in_state_accepted [OF sample_break_accepted]
  have "tb_previous_state sample_break = Some VERIFYING" by (simp add: sample_break_def)
  then show ?thesis
    unfolding sample_documents_def list.map append.simps linked_documents.simps in_state_lifecycle fst_conv snd_conv
    by (simp add: acc sample_break_accepted BREAK_TRANSITION_POLICY_def)
qed

theorem accepted_break_compares_scoped_sources_witness:
  "bc_expected_value sample_comparison \<noteq> bc_observed_value sample_comparison \<and>
   (\<exists>s \<in> set (tb_source_version_set sample_break).
      bc_expected_source_observation_id sample_comparison = Some (br_source_observation_id s) \<and>
      (br_source_tenant_id s, br_source_portfolio_id s) =
        (tb_tenant_id sample_break, tb_portfolio_id sample_break))"
proof -
  have "sample_comparison \<in> set (tb_comparisons sample_break)" "tb_family sample_break \<noteq> MISSING_REQUIRED_SOURCE"
    by (simp_all add: sample_break_def)
  with accepted_break_compares_scoped_sources [OF sample_break_accepted this(1)] show ?thesis by auto
qed

theorem resolved_by_pass_sources_agree_witness:
  "\<exists>pc. filter (\<lambda>x. rc_field_path x = ''/payload/base_amount'') (rp_comparisons sample_proof) = [pc] \<and>
     Some ''obs_book'' \<in> Some ` rr_source_observation_id ` set (rc_values pc) \<and>
     exactly_equal VT_DECIMAL ''100.00'' ''100.0''"
proof -
  have "sample_comparison \<in> set (tb_comparisons sample_break)" "tb_state sample_break = RESOLVED"
    "tb_resolution sample_break = Some sample_pass" "re_resolution_type sample_pass = RECONCILIATION_PASS"
    and c: "bc_value_type sample_comparison = VT_DECIMAL" "to_mode (bc_tolerance sample_comparison) = TOL_NONE"
      "bc_field_path sample_comparison = ''/payload/base_amount''" "re_reconciliation_proof sample_pass = Some sample_proof"
      "rp_comparisons sample_proof = [\<lparr>rc_field_path = ''/payload/base_amount'', rc_value_type = VT_DECIMAL,
         rc_values = [sample_value ''obs_exec'' ''100.00'', sample_value ''obs_book'' ''100.0'']\<rparr>]"
    by (simp_all add: sample_break_def sample_pass_def sample_comparison_def sample_proof_def)
  with resolved_by_pass_sources_agree [OF sample_break_accepted, of sample_pass sample_comparison]
  show ?thesis by (auto simp: sample_value_def)
qed

theorem non_action_needs_human_disposition_witness:
  "\<exists>r. tb_resolution sample_missing_break = Some r \<and>
     (\<exists>a. re_approver r = Some a \<and> identity_type a = HUMAN)"
proof -
  have "tb_state sample_missing_break = RESOLVED"
    by (simp add: sample_missing_break_def sample_break_def)
  moreover obtain r where "tb_resolution sample_missing_break = Some r"
    "re_resolution_type r \<noteq> RECONCILIATION_PASS"
    by (simp add: sample_missing_break_def)
  ultimately show ?thesis
    using non_action_needs_human_disposition [OF sample_missing_break_accepted] by blast
qed

theorem missing_source_break_is_late_and_absent_witness:
  "\<exists>e. tb_missing_source_expectation sample_missing_break = Some e \<and>
     instant (me_expected_by e) \<le> instant (tb_detected_at sample_missing_break)"
  using missing_source_break_is_late_and_absent [OF sample_missing_break_accepted]
  by (auto simp: sample_missing_break_def)

theorem break_documents_follow_lifecycle_witness:
  "length sample_documents \<le> 6 \<and> map tb_state sample_documents \<in> {action_path, no_action_path}"
proof -
  have "sample_documents \<noteq> []" "tb_state (last sample_documents) = RESOLVED"
    by (simp_all add: sample_documents_def sample_break_def)
  with break_documents_follow_lifecycle [OF sample_documents_linked] show ?thesis by simp
qed

end
