(* ===== verification/Break_Json.thy ===== *)
theory Break_Json
  imports Trade_Break
begin

text \<open>
  \<open>model_dump(mode="json")\<close> of a break and of its parts: pydantic's rendering of the models of
  \<open>packages/contracts/models.py\<close>, one member per field, on which the content hashes of
  \<open>packages/reconciliation\<close> are taken. Date-times are rendered by the runtime.
\<close>

section \<open>Spelling of the literals\<close>

fun condition_str :: "BreakConditionCode \<Rightarrow> string" where
  "condition_str MISSING_SOURCE_AFTER_WATERMARK = ''MISSING_SOURCE_AFTER_WATERMARK''"
| "condition_str LINKAGE_CANDIDATE_SCOPE_INVARIANT = ''LINKAGE_CANDIDATE_SCOPE_INVARIANT''"
| "condition_str DUPLICATE_SOURCE_IDENTITY_CONTENT = ''DUPLICATE_SOURCE_IDENTITY_CONTENT''"
| "condition_str EXACT_CURRENCY_PAIR_SIDE = ''EXACT_CURRENCY_PAIR_SIDE''"
| "condition_str DECIMAL_OUTSIDE_TOLERANCE = ''DECIMAL_OUTSIDE_TOLERANCE''"
| "condition_str EXACT_TRADE_VALUE_DATE = ''EXACT_TRADE_VALUE_DATE''"
| "condition_str ALLOWED_LIFECYCLE_RELATION = ''ALLOWED_LIFECYCLE_RELATION''"
| "condition_str POST_ACTION_READBACK_RECONCILIATION = ''POST_ACTION_READBACK_RECONCILIATION''"

fun severity_str :: "BreakSeverity \<Rightarrow> string" where
  "severity_str CRITICAL = ''CRITICAL''"
| "severity_str HIGH = ''HIGH''"
| "severity_str MEDIUM = ''MEDIUM''"

fun resolution_code_str :: "BreakResolutionCode \<Rightarrow> string" where
  "resolution_code_str SOURCE_OR_RECONCILIATION_PASS_OR_AUTHORISED_NON_ACTION = ''SOURCE_OR_RECONCILIATION_PASS_OR_AUTHORISED_NON_ACTION''"
| "resolution_code_str LINKAGE_DECISION_AND_RECONCILIATION_PASS = ''LINKAGE_DECISION_AND_RECONCILIATION_PASS''"
| "resolution_code_str SOURCE_CORRECTION_OR_SUPERSESSION_AND_RECONCILIATION_PASS = ''SOURCE_CORRECTION_OR_SUPERSESSION_AND_RECONCILIATION_PASS''"
| "resolution_code_str AGREEMENT_AFTER_CORRECTION_AND_RECONCILIATION_PASS = ''AGREEMENT_AFTER_CORRECTION_AND_RECONCILIATION_PASS''"
| "resolution_code_str WITHIN_TOLERANCE_AND_RECONCILIATION_PASS = ''WITHIN_TOLERANCE_AND_RECONCILIATION_PASS''"
| "resolution_code_str DATES_AGREE_AND_RECONCILIATION_PASS = ''DATES_AGREE_AND_RECONCILIATION_PASS''"
| "resolution_code_str ALLOWED_LIFECYCLE_RELATION_AND_RECONCILIATION_PASS = ''ALLOWED_LIFECYCLE_RELATION_AND_RECONCILIATION_PASS''"
| "resolution_code_str VERIFIED_READBACK_OR_AUTHORISED_NON_ACTION = ''VERIFIED_READBACK_OR_AUTHORISED_NON_ACTION''"

fun break_state_str :: "BreakLifecycleState \<Rightarrow> string" where
  "break_state_str OPEN = ''OPEN''"
| "break_state_str UNDER_INVESTIGATION = ''UNDER_INVESTIGATION''"
| "break_state_str RESOLUTION_PROPOSED = ''RESOLUTION_PROPOSED''"
| "break_state_str ACTION_PENDING = ''ACTION_PENDING''"
| "break_state_str NO_ACTION_DISPOSITION_PENDING = ''NO_ACTION_DISPOSITION_PENDING''"
| "break_state_str VERIFYING = ''VERIFYING''"
| "break_state_str RESOLVED = ''RESOLVED''"
| "break_state_str ESCALATED = ''ESCALATED''"

fun transition_reason_str :: "BreakTransitionReason \<Rightarrow> string" where
  "transition_reason_str DETECTED = ''DETECTED''"
| "transition_reason_str BEGIN_INVESTIGATION = ''BEGIN_INVESTIGATION''"
| "transition_reason_str PROPOSE_RESOLUTION = ''PROPOSE_RESOLUTION''"
| "transition_reason_str ACTION_AUTHORISATION_PENDING = ''ACTION_AUTHORISATION_PENDING''"
| "transition_reason_str REASON_NO_ACTION_DISPOSITION_PENDING = ''NO_ACTION_DISPOSITION_PENDING''"
| "transition_reason_str BEGIN_VERIFICATION = ''BEGIN_VERIFICATION''"
| "transition_reason_str RESOLUTION_VERIFIED = ''RESOLUTION_VERIFIED''"
| "transition_reason_str ESCALATE = ''ESCALATE''"

fun materiality_str :: "MaterialityBand \<Rightarrow> string" where
  "materiality_str MATERIAL = ''MATERIAL''"
| "materiality_str UNASSESSED = ''UNASSESSED''"
| "materiality_str NON_MATERIAL = ''NON_MATERIAL''"

fun deadline_str :: "DeadlineStatus \<Rightarrow> string" where
  "deadline_str OVERDUE = ''OVERDUE''"
| "deadline_str DUE = ''DUE''"
| "deadline_str NO_CONFIGURED_DEADLINE = ''NO_CONFIGURED_DEADLINE''"

fun tolerance_mode_str :: "ToleranceMode \<Rightarrow> string" where
  "tolerance_mode_str TOL_NONE = ''NONE''"
| "tolerance_mode_str ABSOLUTE_DECIMAL = ''ABSOLUTE_DECIMAL''"
| "tolerance_mode_str RELATIVE_DECIMAL = ''RELATIVE_DECIMAL''"

fun resolution_type_str :: "BreakResolutionType \<Rightarrow> string" where
  "resolution_type_str RECONCILIATION_PASS = ''RECONCILIATION_PASS''"
| "resolution_type_str OWNER_APPROVED_NON_ACTION = ''OWNER_APPROVED_NON_ACTION''"

fun identity_type_str :: "IdentityType \<Rightarrow> string" where
  "identity_type_str SYSTEM = ''SYSTEM''"
| "identity_type_str HUMAN = ''HUMAN''"
| "identity_type_str AGENT = ''AGENT''"
| "identity_type_str SOURCE = ''SOURCE''"

definition actor_json :: "Actor \<Rightarrow> json" where
  "actor_json x = JObj [
     (''identity_type'', JStr (identity_type_str (identity_type x))),
     (''actor_id'', JStr (actor_id x))]"

definition tolerance_json :: "BreakTolerance \<Rightarrow> json" where
  "tolerance_json x = JObj [
     (''mode'', JStr (tolerance_mode_str (to_mode x))),
     (''value'', json_opt JStr (to_value x))]"

definition source_reference_json :: "BreakSourceReference \<Rightarrow> json" where
  "source_reference_json x = JObj [
     (''source_observation_id'', JStr (br_source_observation_id x)),
     (''observation_kind'', JStr (kind_str (br_observation_kind x))),
     (''source_system'', JStr (source_system_str (br_source_system x))),
     (''source_business_key'', JStr (br_source_business_key x)),
     (''source_tenant_id'', JStr (br_source_tenant_id x)),
     (''source_portfolio_id'', JStr (br_source_portfolio_id x)),
     (''source_version'', JStr (br_source_version x)),
     (''content_hash'', JStr (br_content_hash x))]"

definition break_evidence_json :: "runtime \<Rightarrow> BreakEvidence \<Rightarrow> json" where
  "break_evidence_json rt x = JObj [
     (''evidence_id'', JStr (be_evidence_id x)),
     (''role'', JStr (role_str (be_role x))),
     (''content_hash'', JStr (be_content_hash x)),
     (''captured_at'', JStr (datetime_json rt (be_captured_at x))),
     (''source_observation_id'', json_opt JStr (be_source_observation_id x)),
     (''source_version'', json_opt JStr (be_source_version x)),
     (''field_path'', json_opt JStr (be_field_path x))]"

definition comparison_json :: "BreakComparison \<Rightarrow> json" where
  "comparison_json x = JObj [
     (''field_path'', JStr (bc_field_path x)),
     (''value_type'', JStr (value_type_str (bc_value_type x))),
     (''expected_value'', JStr (bc_expected_value x)),
     (''observed_value'', JStr (bc_observed_value x)),
     (''tolerance'', tolerance_json (bc_tolerance x)),
     (''normalisation_rule_version'', JStr (bc_normalisation_rule_version x)),
     (''evidence_ids'', JList (map JStr (bc_evidence_ids x))),
     (''expected_source_observation_id'', json_opt JStr (bc_expected_source_observation_id x)),
     (''expected_source_version'', json_opt JStr (bc_expected_source_version x)),
     (''observed_source_observation_id'', json_opt JStr (bc_observed_source_observation_id x)),
     (''observed_source_version'', json_opt JStr (bc_observed_source_version x))]"

definition product_context_json :: "BreakProductContext \<Rightarrow> json" where
  "product_context_json x = JObj [
     (''product_type'', JStr (product_str (pc_product_type x))),
     (''settlement_rule_version'', JStr (pc_settlement_rule_version x)),
     (''trade_date'', JStr (date_isoformat (pc_trade_date x))),
     (''value_date'', JStr (date_isoformat (pc_value_date x)))]"

definition duplicate_conflict_json :: "DuplicateSourceConflict \<Rightarrow> json" where
  "duplicate_conflict_json x = JObj [
     (''conflict_type'', JStr ''SAME_SOURCE_KEY_VERSION_CONTENT''),
     (''source_observation_ids'', JList (map JStr (dc_source_observation_ids x))),
     (''source_business_key'', JStr (dc_source_business_key x)),
     (''source_version'', JStr (dc_source_version x))]"

definition proof_source_json :: "ReconciliationSourceReference \<Rightarrow> json" where
  "proof_source_json x = JObj [
     (''source_observation_id'', JStr (rr_source_observation_id x)),
     (''source_version'', JStr (rr_source_version x))]"

definition proof_value_json :: "ReconciliationSourceValue \<Rightarrow> json" where
  "proof_value_json x = JObj [
     (''source_observation_id'', JStr (rr_source_observation_id x)),
     (''source_version'', JStr (rr_source_version x)),
     (''value'', JStr (rv_value x))]"

definition proof_comparison_json :: "ReconciliationPassComparison \<Rightarrow> json" where
  "proof_comparison_json x = JObj [
     (''field_path'', JStr (rc_field_path x)),
     (''value_type'', JStr (value_type_str (rc_value_type x))),
     (''values'', JList (map (proof_value_json) (rc_values x)))]"

definition proof_json :: "ReconciliationPassProof \<Rightarrow> json" where
  "proof_json x = JObj [
     (''reconciliation_run_id'', JStr (rp_reconciliation_run_id x)),
     (''family'', JStr (family_str (rp_family x))),
     (''condition_code'', JStr (condition_str (rp_condition_code x))),
     (''predicate_code'', JStr (resolution_code_str (rp_predicate_code x))),
     (''source_version_set'', JList (map (proof_source_json) (rp_source_version_set x))),
     (''comparisons'', JList (map (proof_comparison_json) (rp_comparisons x)))]"

definition break_priority_json :: "BreakPriority \<Rightarrow> json" where
  "break_priority_json x = JObj [
     (''materiality_band'', JStr (materiality_str (bp_materiality_band x))),
     (''deadline_status'', JStr (deadline_str (bp_deadline_status x))),
     (''case_age_seconds'', JInt (bp_case_age_seconds x)),
     (''ordering_key'', case bp_ordering_key x of (a, b, c, d) \<Rightarrow> JList [JInt a, JInt b, JInt c, JInt d])]"

definition missing_expectation_json :: "runtime \<Rightarrow> MissingSourceExpectation \<Rightarrow> json" where
  "missing_expectation_json rt x = JObj [
     (''expected_observation_kind'', JStr (kind_str (me_expected_observation_kind x))),
     (''expected_source_system'', JStr (source_system_str (me_expected_source_system x))),
     (''field_path'', JStr (me_field_path x)),
     (''arrival_window_rule_version'', JStr (me_arrival_window_rule_version x)),
     (''watermark_at'', JStr (datetime_json rt (me_watermark_at x))),
     (''expected_by'', JStr (datetime_json rt (me_expected_by x)))]"

definition resolution_json :: "BreakResolution \<Rightarrow> json" where
  "resolution_json x = JObj [
     (''resolution_type'', JStr (resolution_type_str (re_resolution_type x))),
     (''reconciliation_run_id'', json_opt JStr (re_reconciliation_run_id x)),
     (''disposition_id'', json_opt JStr (re_disposition_id x)),
     (''approver'', json_opt (actor_json) (re_approver x)),
     (''evidence_ids'', JList (map JStr (re_evidence_ids x))),
     (''evidence_roles'', JList (map (\<lambda>v. JStr (role_str v)) (re_evidence_roles x))),
     (''reconciliation_proof'', json_opt (proof_json) (re_reconciliation_proof x))]"

definition trade_break_json :: "runtime \<Rightarrow> TradeBreak \<Rightarrow> json" where
  "trade_break_json rt x = JObj [
     (''schema_version'', JStr (tb_schema_version x)),
     (''taxonomy_version'', JStr (tb_taxonomy_version x)),
     (''detection_rule_version'', JStr (tb_detection_rule_version x)),
     (''priority_rule_version'', JStr (tb_priority_rule_version x)),
     (''lifecycle_rule_version'', JStr (tb_lifecycle_rule_version x)),
     (''break_id'', JStr (tb_break_id x)),
     (''break_version'', JInt (tb_break_version x)),
     (''tenant_id'', JStr (tb_tenant_id x)),
     (''portfolio_id'', JStr (tb_portfolio_id x)),
     (''correlation_id'', JStr (tb_correlation_id x)),
     (''trade_id'', JStr (tb_trade_id x)),
     (''canonical_state_version'', JInt (tb_canonical_state_version x)),
     (''reconciliation_run_id'', JStr (tb_reconciliation_run_id x)),
     (''product_type'', JStr (product_str (tb_product_type x))),
     (''product_context'', product_context_json (tb_product_context x)),
     (''family'', JStr (family_str (tb_family x))),
     (''condition_code'', JStr (condition_str (tb_condition_code x))),
     (''severity'', JStr (severity_str (tb_severity x))),
     (''severity_context'', json_opt (\<lambda>v. JStr (kind_str v)) (tb_severity_context x)),
     (''priority'', break_priority_json (tb_priority x)),
     (''source_version_set'', JList (map (source_reference_json) (tb_source_version_set x))),
     (''evaluated_field_paths'', JList (map JStr (tb_evaluated_field_paths x))),
     (''comparisons'', JList (map (comparison_json) (tb_comparisons x))),
     (''evidence'', JList (map (break_evidence_json rt) (tb_evidence x))),
     (''missing_source_expectation'', json_opt (missing_expectation_json rt) (tb_missing_source_expectation x)),
     (''duplicate_source_conflict'', json_opt (duplicate_conflict_json) (tb_duplicate_source_conflict x)),
     (''state'', JStr (break_state_str (tb_state x))),
     (''previous_state'', json_opt (\<lambda>v. JStr (break_state_str v)) (tb_previous_state x)),
     (''transition_reason'', JStr (transition_reason_str (tb_transition_reason x))),
     (''detected_at'', JStr (datetime_json rt (tb_detected_at x))),
     (''state_changed_at'', JStr (datetime_json rt (tb_state_changed_at x))),
     (''resolved_at'', json_opt (\<lambda>t. JStr (datetime_json rt t)) (tb_resolved_at x)),
     (''resolution'', json_opt (resolution_json) (tb_resolution x)),
     (''supersedes_break_id'', json_opt JStr (tb_supersedes_break_id x)),
     (''causal_label_id'', json_opt JStr (tb_causal_label_id x))]"

text \<open>\<open>packages/reconciliation/models.py: stable_content_hash\<close>.\<close>

definition stable_content_hash :: "runtime \<Rightarrow> json \<Rightarrow> string" where
  "stable_content_hash rt value = sha256_tag rt (dumps value)"

end
