(* ===== verification/Recon_Config.thy ===== *)
theory Recon_Config
  imports Break_Json
begin

text \<open>
  \<open>packages/reconciliation/config.py\<close>: the versioned policy of a reconciliation run, with its
  arrival windows, decimal tolerances and lifecycle expectations, its validator, its content hash
  and its lookups. A validated configuration is total: every lookup the engine makes succeeds.
\<close>

definition ECONOMIC_FIELDS :: "string list" where
  "ECONOMIC_FIELDS = [''/payload/base_amount'', ''/payload/terms_amount'', ''/payload/quoted_rate'']"

text \<open>\<open>MissingSourceKind\<close>, the kinds with an arrival window, in the order of the source.\<close>

definition MISSING_SOURCE_KINDS :: "ObservationKind list" where
  "MISSING_SOURCE_KINDS = [EXECUTION, CONFIRMATION, BOOKING]"

fun missing_field_by_kind :: "ObservationKind \<Rightarrow> string option" where
  "missing_field_by_kind EXECUTION = Some ''/source/execution_observation''"
| "missing_field_by_kind CONFIRMATION = Some ''/source/confirmation_observation''"
| "missing_field_by_kind BOOKING = Some ''/source/booking_observation''"
| "missing_field_by_kind TRADE_CAPTURE = None"

section \<open>Rules\<close>

record ArrivalWindowRule =
  aw_product_type :: ProductType
  aw_observation_kind :: ObservationKind
  aw_source_system :: SourceSystem
  aw_field_path :: string
  aw_window_seconds :: int
  aw_rule_version :: string

definition mk_ArrivalWindowRule :: "ArrivalWindowRule \<Rightarrow> py_error + ArrivalWindowRule" where
  "mk_ArrivalWindowRule r = checked [
     (aw_observation_kind r \<notin> set MISSING_SOURCE_KINDS, ValueError ''observation_kind''),
     (aw_window_seconds r < 0, ValueError ''window_seconds''),
     (aw_rule_version r \<noteq> ''1.0.0'', ValueError ''rule_version''),
     (aw_source_system r \<noteq> source_system_by_kind (aw_observation_kind r),
        ValueError ''source_system must match observation_kind''),
     (Some (aw_field_path r) \<noteq> missing_field_by_kind (aw_observation_kind r),
        ValueError ''field_path must match observation_kind'')] r"

record DecimalToleranceRule =
  dt_product_type :: ProductType
  dt_field_path :: string
  dt_tolerance :: BreakTolerance
  dt_rule_version :: string

text \<open>\<open>validate_decimal_tolerance\<close> admits all three modes, so it never raises.\<close>

definition mk_DecimalToleranceRule :: "DecimalToleranceRule \<Rightarrow> py_error + DecimalToleranceRule" where
  "mk_DecimalToleranceRule r =
     ebind (mk_BreakTolerance (dt_tolerance r)) (\<lambda>_. checked [
       (dt_field_path r \<notin> set ECONOMIC_FIELDS, ValueError ''field_path''),
       (dt_rule_version r \<noteq> ''1.0.0'', ValueError ''rule_version''),
       (to_mode (dt_tolerance r) \<notin> {TOL_NONE, ABSOLUTE_DECIMAL, RELATIVE_DECIMAL},
          ValueError ''economic tolerance must be a decimal tolerance mode'')] r)"

record LifecycleExpectedStatusRule =
  ls_observation_kind :: ObservationKind
  ls_expected_status :: LifecycleStatus
  ls_rule_version :: string

definition mk_LifecycleExpectedStatusRule ::
  "LifecycleExpectedStatusRule \<Rightarrow> py_error + LifecycleExpectedStatusRule" where
  "mk_LifecycleExpectedStatusRule r =
     checked [(ls_rule_version r \<noteq> ''1.0.0'', ValueError ''rule_version'')] r"

definition lifecycle_rule_of :: "ObservationKind \<times> LifecycleStatus \<Rightarrow> LifecycleExpectedStatusRule" where
  "lifecycle_rule_of p =
     \<lparr>ls_observation_kind = fst p, ls_expected_status = snd p, ls_rule_version = ''1.0.0''\<rparr>"

definition default_lifecycle_rules :: "LifecycleExpectedStatusRule list" where
  "default_lifecycle_rules = map lifecycle_rule_of
     [(EXECUTION, NEW), (TRADE_CAPTURE, CAPTURED), (CONFIRMATION, CONFIRMED), (BOOKING, BOOKED)]"

section \<open>The configuration\<close>

datatype ApprovalStatus = FIXTURE_ONLY | OWNER_APPROVED

fun approval_status_str :: "ApprovalStatus \<Rightarrow> string" where
  "approval_status_str FIXTURE_ONLY = ''FIXTURE_ONLY''"
| "approval_status_str OWNER_APPROVED = ''OWNER_APPROVED''"

record ReconciliationConfig =
  cg_schema_version :: string
  cg_config_id :: string
  cg_config_version :: string
  cg_approval_status :: ApprovalStatus
  cg_approval_reference :: "string option"
  cg_effective_from :: datetime
  cg_effective_to :: "datetime option"
  cg_arrival_windows :: "ArrivalWindowRule list"
  cg_decimal_tolerances :: "DecimalToleranceRule list"
  cg_normalisation_rule_version :: string
  cg_detection_rule_version :: string
  cg_lifecycle_rule_version :: string
  cg_priority_rule_version :: string
  cg_lifecycle_expected_statuses :: "LifecycleExpectedStatusRule list"

definition expected_arrival_keys :: "(ProductType \<times> ObservationKind) list" where
  "expected_arrival_keys = List.product [FX_SPOT, FX_FORWARD] MISSING_SOURCE_KINDS"

definition expected_tolerance_keys :: "(ProductType \<times> string) list" where
  "expected_tolerance_keys = List.product [FX_SPOT, FX_FORWARD] ECONOMIC_FIELDS"

definition expected_lifecycle_kinds :: "ObservationKind list" where
  "expected_lifecycle_kinds = [EXECUTION, TRADE_CAPTURE, CONFIRMATION, BOOKING]"

definition arrival_keys :: "ReconciliationConfig \<Rightarrow> (ProductType \<times> ObservationKind) list" where
  "arrival_keys c = map (\<lambda>r. (aw_product_type r, aw_observation_kind r)) (cg_arrival_windows c)"

definition tolerance_keys :: "ReconciliationConfig \<Rightarrow> (ProductType \<times> string) list" where
  "tolerance_keys c = map (\<lambda>r. (dt_product_type r, dt_field_path r)) (cg_decimal_tolerances c)"

definition lifecycle_kinds :: "ReconciliationConfig \<Rightarrow> ObservationKind list" where
  "lifecycle_kinds c = map ls_observation_kind (cg_lifecycle_expected_statuses c)"

text \<open>\<open>set(xs) != set(ys) or len(xs) != len(ys)\<close>.\<close>

definition not_exactly :: "'a list \<Rightarrow> 'a list \<Rightarrow> bool" where
  "not_exactly xs ys \<longleftrightarrow> set xs \<noteq> set ys \<or> length xs \<noteq> length ys"

definition validate_complete_policy :: "ReconciliationConfig \<Rightarrow> py_error + ReconciliationConfig" where
  "validate_complete_policy c = checked ([
     (\<not> aware (cg_effective_from c), ValueError ''effective_from must include a timezone offset'')] @
     (case cg_effective_to c of None \<Rightarrow> [] | Some t \<Rightarrow> [
        (\<not> aware t, ValueError ''effective_to must include a timezone offset''),
        (instant t \<le> instant (cg_effective_from c), ValueError ''effective_to must be after effective_from'')]) @ [
     (cg_approval_status c = OWNER_APPROVED \<and>
        (cg_approval_reference c = None \<or> cg_approval_reference c = Some []),
        ValueError ''OWNER_APPROVED configuration requires approval_reference''),
     (not_exactly (arrival_keys c) expected_arrival_keys,
        ValueError ''arrival_windows must contain one rule for every product/source kind''),
     (not_exactly (tolerance_keys c) expected_tolerance_keys,
        ValueError ''decimal_tolerances must contain one rule for every product/economic field''),
     (not_exactly (lifecycle_kinds c) expected_lifecycle_kinds,
        ValueError ''lifecycle_expected_statuses must contain one rule for every observation kind'')]) c"

definition mk_ReconciliationConfig :: "ReconciliationConfig \<Rightarrow> py_error + ReconciliationConfig" where
  "mk_ReconciliationConfig c =
     ebind (checked [
       (cg_schema_version c \<noteq> ''1.0.0'', ValueError ''schema_version''),
       (\<not> is_identifier (cg_config_id c), ValueError ''config_id''),
       (\<not> is_semantic_version (cg_config_version c), ValueError ''config_version''),
       (length (cg_arrival_windows c) < 6, ValueError ''arrival_windows''),
       (length (cg_decimal_tolerances c) < 6, ValueError ''decimal_tolerances''),
       (cg_normalisation_rule_version c \<noteq> ''1.0.0'', ValueError ''normalisation_rule_version''),
       (cg_detection_rule_version c \<noteq> ''1.0.0'', ValueError ''detection_rule_version''),
       (cg_lifecycle_rule_version c \<noteq> ''1.0.0'', ValueError ''lifecycle_rule_version''),
       (cg_priority_rule_version c \<noteq> ''1.0.0'', ValueError ''priority_rule_version'')] ()) (\<lambda>_.
     ebind (emap mk_ArrivalWindowRule (cg_arrival_windows c)) (\<lambda>_.
     ebind (emap mk_DecimalToleranceRule (cg_decimal_tolerances c)) (\<lambda>_.
     ebind (emap mk_LifecycleExpectedStatusRule (cg_lifecycle_expected_statuses c)) (\<lambda>_.
     validate_complete_policy c))))"

section \<open>Content hash\<close>

definition config_json :: "runtime \<Rightarrow> ReconciliationConfig \<Rightarrow> json" where
  "config_json rt c = JObj [
     (''schema_version'', JStr (cg_schema_version c)),
     (''config_id'', JStr (cg_config_id c)),
     (''config_version'', JStr (cg_config_version c)),
     (''approval_status'', JStr (approval_status_str (cg_approval_status c))),
     (''approval_reference'', json_opt JStr (cg_approval_reference c)),
     (''effective_from'', JStr (datetime_json rt (cg_effective_from c))),
     (''effective_to'', json_opt (\<lambda>t. JStr (datetime_json rt t)) (cg_effective_to c)),
     (''arrival_windows'', JList (map (\<lambda>r. JObj [
        (''product_type'', JStr (product_str (aw_product_type r))),
        (''observation_kind'', JStr (kind_str (aw_observation_kind r))),
        (''source_system'', JStr (source_system_str (aw_source_system r))),
        (''field_path'', JStr (aw_field_path r)),
        (''window_seconds'', JInt (aw_window_seconds r)),
        (''rule_version'', JStr (aw_rule_version r))]) (cg_arrival_windows c))),
     (''decimal_tolerances'', JList (map (\<lambda>r. JObj [
        (''product_type'', JStr (product_str (dt_product_type r))),
        (''field_path'', JStr (dt_field_path r)),
        (''tolerance'', tolerance_json (dt_tolerance r)),
        (''rule_version'', JStr (dt_rule_version r))]) (cg_decimal_tolerances c))),
     (''normalisation_rule_version'', JStr (cg_normalisation_rule_version c)),
     (''detection_rule_version'', JStr (cg_detection_rule_version c)),
     (''lifecycle_rule_version'', JStr (cg_lifecycle_rule_version c)),
     (''priority_rule_version'', JStr (cg_priority_rule_version c)),
     (''lifecycle_expected_statuses'', JList (map (\<lambda>r. JObj [
        (''observation_kind'', JStr (kind_str (ls_observation_kind r))),
        (''expected_status'', JStr (lifecycle_str (ls_expected_status r))),
        (''rule_version'', JStr (ls_rule_version r))]) (cg_lifecycle_expected_statuses c)))]"

definition config_content_hash :: "runtime \<Rightarrow> ReconciliationConfig \<Rightarrow> string" where
  "config_content_hash rt c = sha256_tag rt (dumps (config_json rt c))"

section \<open>Lookups\<close>

definition arrival_rule ::
  "ReconciliationConfig \<Rightarrow> ProductType \<Rightarrow> ObservationKind \<Rightarrow> py_error + ArrivalWindowRule" where
  "arrival_rule c p k =
     (case List.find (\<lambda>r. (aw_product_type r, aw_observation_kind r) = (p, k)) (cg_arrival_windows c) of
        Some r \<Rightarrow> Inr r | None \<Rightarrow> Inl (KeyError (kind_str k)))"

definition decimal_rule ::
  "ReconciliationConfig \<Rightarrow> ProductType \<Rightarrow> string \<Rightarrow> py_error + DecimalToleranceRule" where
  "decimal_rule c p path =
     (case List.find (\<lambda>r. (dt_product_type r, dt_field_path r) = (p, path)) (cg_decimal_tolerances c) of
        Some r \<Rightarrow> Inr r | None \<Rightarrow> Inl (KeyError path))"

definition lifecycle_rule ::
  "ReconciliationConfig \<Rightarrow> ObservationKind \<Rightarrow> py_error + LifecycleExpectedStatusRule" where
  "lifecycle_rule c k =
     (case List.find (\<lambda>r. ls_observation_kind r = k) (cg_lifecycle_expected_statuses c) of
        Some r \<Rightarrow> Inr r | None \<Rightarrow> Inl (KeyError (kind_str k)))"

definition fixture_config :: "py_error + ReconciliationConfig" where
  "fixture_config = mk_ReconciliationConfig \<lparr>
     cg_schema_version = ''1.0.0'', cg_config_id = ''fixture_ts11_default'', cg_config_version = ''1.0.0'',
     cg_approval_status = FIXTURE_ONLY, cg_approval_reference = None,
     cg_effective_from = utc (ymd2ord 2026 1 1 * us_per_day), cg_effective_to = None,
     cg_arrival_windows = map (\<lambda>(p, k). \<lparr>aw_product_type = p, aw_observation_kind = k,
         aw_source_system = source_system_by_kind k, aw_field_path = the (missing_field_by_kind k),
         aw_window_seconds = 0, aw_rule_version = ''1.0.0''\<rparr>) expected_arrival_keys,
     cg_decimal_tolerances = map (\<lambda>(p, path). \<lparr>dt_product_type = p, dt_field_path = path,
         dt_tolerance = \<lparr>to_mode = ABSOLUTE_DECIMAL,
           to_value = Some (if path \<noteq> ''/payload/quoted_rate'' then ''0.01'' else ''0.0001'')\<rparr>,
         dt_rule_version = ''1.0.0''\<rparr>) expected_tolerance_keys,
     cg_normalisation_rule_version = ''1.0.0'', cg_detection_rule_version = ''1.0.0'',
     cg_lifecycle_rule_version = ''1.0.0'', cg_priority_rule_version = ''1.0.0'',
     cg_lifecycle_expected_statuses = default_lifecycle_rules\<rparr>"

section \<open>A validated configuration answers every lookup\<close>

lemma config_accepted:
  assumes "mk_ReconciliationConfig c = Inr c'"
  shows "c' = c" and "aware (cg_effective_from c)"
    and "set (arrival_keys c) = set expected_arrival_keys"
    and "set (tolerance_keys c) = set expected_tolerance_keys"
    and "set (lifecycle_kinds c) = set expected_lifecycle_kinds"
    and "distinct (arrival_keys c)" and "distinct (tolerance_keys c)" and "distinct (lifecycle_kinds c)"
proof -
  have v: "validate_complete_policy c = Inr c'"
    using assms by (auto simp: mk_ReconciliationConfig_def result_simps)
  then show "c' = c" and "aware (cg_effective_from c)"
    by (simp_all add: validate_complete_policy_def check_simps)
  have keys: "set (arrival_keys c) = set expected_arrival_keys"
    "set (tolerance_keys c) = set expected_tolerance_keys"
    "set (lifecycle_kinds c) = set expected_lifecycle_kinds"
    and len: "length (arrival_keys c) = length expected_arrival_keys"
    "length (tolerance_keys c) = length expected_tolerance_keys"
    "length (lifecycle_kinds c) = length expected_lifecycle_kinds"
    using v by (simp_all add: validate_complete_policy_def not_exactly_def check_simps)
  show "set (arrival_keys c) = set expected_arrival_keys"
    and "set (tolerance_keys c) = set expected_tolerance_keys"
    and "set (lifecycle_kinds c) = set expected_lifecycle_kinds"
    using keys by simp_all
  have "distinct expected_arrival_keys" "distinct expected_tolerance_keys" "distinct expected_lifecycle_kinds"
    by (simp_all add: expected_arrival_keys_def expected_tolerance_keys_def expected_lifecycle_kinds_def
        MISSING_SOURCE_KINDS_def ECONOMIC_FIELDS_def)
  with keys len show "distinct (arrival_keys c)" "distinct (tolerance_keys c)" "distinct (lifecycle_kinds c)"
    by (blast intro: distinct_if_covers)+
qed

lemma arrival_rule_total:
  assumes "mk_ReconciliationConfig c = Inr c'" and "k \<noteq> TRADE_CAPTURE"
  shows "\<exists>r \<in> set (cg_arrival_windows c). arrival_rule c p k = Inr r \<and> mk_ArrivalWindowRule r = Inr r \<and>
    aw_product_type r = p \<and> aw_observation_kind r = k"
proof -
  have "(p, k) \<in> set expected_arrival_keys"
    using assms(2) by (cases p; cases k) (simp_all add: expected_arrival_keys_def MISSING_SOURCE_KINDS_def)
  then have "(p, k) \<in> (\<lambda>r. (aw_product_type r, aw_observation_kind r)) ` set (cg_arrival_windows c)"
    using config_accepted(3) [OF assms(1)] by (simp add: arrival_keys_def)
  then obtain r where r: "arrival_rule c p k = Inr r" "r \<in> set (cg_arrival_windows c)"
    "aw_product_type r = p" "aw_observation_kind r = k"
    unfolding arrival_rule_def by (rule find_by_key) auto
  moreover have "mk_ArrivalWindowRule r = Inr r"
    using assms(1) r(2)
    by (auto simp: mk_ReconciliationConfig_def result_simps mk_ArrivalWindowRule_def check_simps
        dest!: emap_each)
  ultimately show ?thesis by blast
qed

lemma decimal_rule_total:
  assumes "mk_ReconciliationConfig c = Inr c'" and "path \<in> set ECONOMIC_FIELDS"
  shows "\<exists>r \<in> set (cg_decimal_tolerances c). decimal_rule c p path = Inr r \<and>
    mk_BreakTolerance (dt_tolerance r) = Inr (dt_tolerance r) \<and> dt_product_type r = p \<and> dt_field_path r = path"
proof -
  have "(p, path) \<in> set expected_tolerance_keys"
    using assms(2) by (cases p) (simp_all add: expected_tolerance_keys_def)
  then have "(p, path) \<in> (\<lambda>r. (dt_product_type r, dt_field_path r)) ` set (cg_decimal_tolerances c)"
    using config_accepted(4) [OF assms(1)] by (simp add: tolerance_keys_def)
  then obtain r where r: "decimal_rule c p path = Inr r" "r \<in> set (cg_decimal_tolerances c)"
    "dt_product_type r = p" "dt_field_path r = path"
    unfolding decimal_rule_def by (rule find_by_key) auto
  moreover have "mk_BreakTolerance (dt_tolerance r) = Inr (dt_tolerance r)"
    using assms(1) r(2)
    by (auto simp: mk_ReconciliationConfig_def result_simps mk_DecimalToleranceRule_def
        mk_BreakTolerance_def check_simps dest!: emap_each)
  ultimately show ?thesis by blast
qed

lemma lifecycle_rule_total:
  assumes "mk_ReconciliationConfig c = Inr c'"
  shows "\<exists>r. lifecycle_rule c k = Inr r"
proof -
  have "k \<in> set expected_lifecycle_kinds" by (cases k) (simp_all add: expected_lifecycle_kinds_def)
  then have "k \<in> ls_observation_kind ` set (cg_lifecycle_expected_statuses c)"
    using config_accepted(5) [OF assms] by (simp add: lifecycle_kinds_def)
  then show ?thesis unfolding lifecycle_rule_def by (rule find_by_key) auto
qed

text \<open>C8: In a configuration that passes its validators every lookup the engine makes succeeds:
  there is exactly one arrival window for every product and awaited source kind, exactly one
  tolerance for every product and economic field, and exactly one lifecycle expectation for
  every source kind, so a run never fails with a missing rule.\<close>

theorem config_lookups_total:
  assumes "mk_ReconciliationConfig c = Inr c'"
  shows "distinct (arrival_keys c) \<and> distinct (tolerance_keys c) \<and> distinct (lifecycle_kinds c) \<and>
    (\<forall>p k. k \<noteq> TRADE_CAPTURE \<longrightarrow> (\<exists>r. arrival_rule c p k = Inr r \<and>
        aw_field_path r = the (missing_field_by_kind k) \<and> 0 \<le> aw_window_seconds r)) \<and>
    (\<forall>p. \<forall>path \<in> set ECONOMIC_FIELDS. \<exists>r. decimal_rule c p path = Inr r) \<and>
    (\<forall>k. \<exists>r. lifecycle_rule c k = Inr r)"
proof -
  have "\<exists>r. arrival_rule c p k = Inr r \<and> aw_field_path r = the (missing_field_by_kind k) \<and>
      0 \<le> aw_window_seconds r" if k: "k \<noteq> TRADE_CAPTURE" for p k
  proof -
    obtain r where r: "arrival_rule c p k = Inr r" "mk_ArrivalWindowRule r = Inr r" "aw_observation_kind r = k"
      using arrival_rule_total [OF assms k, of p] by blast
    from r(2) have "missing_field_by_kind (aw_observation_kind r) = Some (aw_field_path r)"
        "0 \<le> aw_window_seconds r"
      by (simp_all add: mk_ArrivalWindowRule_def check_simps)
    with r show ?thesis by (intro exI [of _ r]) simp
  qed
  then show ?thesis
    using config_accepted(6-8) [OF assms] decimal_rule_total [OF assms] lifecycle_rule_total [OF assms]
    by blast
qed

theorem config_lookups_total_witness:
  "\<exists>c. fixture_config = Inr c \<and> (\<exists>r. arrival_rule c FX_SPOT BOOKING = Inr r \<and> 0 \<le> aw_window_seconds r)"
proof -
  have "\<not> isl fixture_config" by code_simp
  then obtain c where c: "fixture_config = Inr c" by (metis sum.collapse(2))
  then obtain d where d: "mk_ReconciliationConfig d = Inr c" unfolding fixture_config_def by blast
  from config_lookups_total [OF this] config_accepted(1) [OF d] c show ?thesis
    by (metis ObservationKind.distinct(9))
qed

end
