(* ===== verification/Recon_Models.thy ===== *)
theory Recon_Models
  imports Recon_Config Contract_Canonical
begin

text \<open>
  \<open>packages/reconciliation/models.py\<close>: the request of a reconciliation run (the exact source set
  of a canonical state, with the linkage decision and the post-action read-back), the facts and
  the run envelope it produces, and their validators.
\<close>

section \<open>Post-action verification\<close>

definition POST_ACTION_FIELD_PATHS :: "string list" where
  "POST_ACTION_FIELD_PATHS = [''/payload/book_id'', ''/payload/lifecycle_status'',
     ''/payload/booking_version'', ''/payload/record_fingerprint'']"

record ChangedField =
  ch_field_path :: string
  ch_expected_value :: string
  ch_observed_value :: string

definition mk_ChangedField :: "ChangedField \<Rightarrow> py_error + ChangedField" where
  "mk_ChangedField c = checked [
     (ch_field_path c \<notin> set POST_ACTION_FIELD_PATHS, ValueError ''field_path''),
     (ch_expected_value c = [], ValueError ''expected_value''),
     (ch_observed_value c = [], ValueError ''observed_value'')] c"

record PostActionVerification =
  pv_action_instruction_hash :: string
  pv_pre_action :: Observation
  pv_post_action :: "Observation option"
  pv_changed_fields :: "ChangedField list"
  pv_readback_available :: bool
  pv_original_break_remaining :: bool

text \<open>The fields that must identify the same scoped trade before and after the action.\<close>

definition action_scope :: "Observation \<Rightarrow> string \<times> string \<times> string \<times> string" where
  "action_scope ob = (ob_tenant_id ob, ob_portfolio_id ob, ob_correlation_id ob, ob_source_business_key ob)"

definition validate_action_observations ::
  "PostActionVerification \<Rightarrow> py_error + PostActionVerification" where
  "validate_action_observations v = checked [
     (ob_kind (pv_pre_action v) \<noteq> BOOKING, ValueError ''pre_action must be a BOOKING observation''),
     (\<not> opt_ok (\<lambda>p. ob_kind p = BOOKING) (pv_post_action v),
        ValueError ''post_action must be a BOOKING observation''),
     (\<not> opt_ok (\<lambda>p. action_scope p = action_scope (pv_pre_action v)) (pv_post_action v),
        ValueError ''pre_action and post_action must identify the same scoped trade''),
     (pv_readback_available v \<and> pv_post_action v = None,
        ValueError ''readback_available requires post_action''),
     (has_dups (map (\<lambda>f. (ch_field_path f, ch_expected_value f, ch_observed_value f)) (pv_changed_fields v)),
        ValueError ''changed_fields must be unique'')] v"

definition mk_PostActionVerification ::
  "PostActionVerification \<Rightarrow> py_error + PostActionVerification" where
  "mk_PostActionVerification v =
     ebind (checked [(\<not> is_sha256_hash (pv_action_instruction_hash v), ValueError ''action_instruction_hash'')] ()) (\<lambda>_.
     ebind (validate_observation (pv_pre_action v)) (\<lambda>_.
     ebind (mk_opt validate_observation (pv_post_action v)) (\<lambda>_.
     ebind (emap mk_ChangedField (pv_changed_fields v)) (\<lambda>_.
     validate_action_observations v))))"

section \<open>The context of a run\<close>

record ReconciliationContext =
  cx_reconciliation_run_id :: string
  cx_run_version :: int
  cx_canonical_state :: CanonicalTradeState
  cx_source_observations :: "Observation list"
  cx_evaluated_at :: "datetime option"
  cx_linkage_decision :: "LinkageDecision option"
  cx_post_action_verification :: "PostActionVerification option"

definition effective_evaluated_at :: "ReconciliationContext \<Rightarrow> datetime" where
  "effective_evaluated_at cx = (case cx_evaluated_at cx of
     Some t \<Rightarrow> t | None \<Rightarrow> cs_source_watermark (cx_canonical_state cx))"

text \<open>The identity of a source version, of the source set and of an observation.\<close>

type_synonym source_key = "string \<times> ObservationKind \<times> SourceSystem \<times> string \<times> string"

definition item_key :: "SourceVersionSetItem \<Rightarrow> source_key" where
  "item_key i = (si_observation_id i, si_observation_kind i, si_source_system i, si_source_version i,
     si_content_hash i)"

definition observation_key :: "Observation \<Rightarrow> source_key" where
  "observation_key ob = (ob_observation_id ob, ob_kind ob, ob_source_system ob, ob_source_version ob,
     ob_content_hash ob)"

definition canonical_scope :: "CanonicalTradeState \<Rightarrow> string \<times> string \<times> string" where
  "canonical_scope s = (cs_tenant_id s, cs_portfolio_id s, cs_correlation_id s)"

definition linkage_is_resolved :: "ReconciliationContext \<Rightarrow> bool" where
  "linkage_is_resolved cx \<longleftrightarrow> (case cx_linkage_decision cx of
     None \<Rightarrow> False | Some d \<Rightarrow> ld_decision d = LINK_ACCEPTED)"

text \<open>What the loop over the source observations checks of one of them.\<close>

definition observation_scope_checks ::
  "ReconciliationContext \<Rightarrow> Observation \<Rightarrow> (bool \<times> py_error) list" where
  "observation_scope_checks cx ob = (let canonical = cx_canonical_state cx in [
     ((ob_tenant_id ob, ob_portfolio_id ob, ob_correlation_id ob) \<noteq> canonical_scope canonical,
        ValueError ''source_observations must remain inside canonical scope''),
     (instant (cs_source_watermark canonical) < instant (ob_ingest_time ob),
        ValueError ''source_observations must not arrive after source_watermark''),
     (linkage_is_resolved cx \<and> fx_source_trade_id (ob_payload ob) \<noteq> cs_trade_id canonical,
        ValueError ''source_observations must identify the canonical trade''),
     (fx_product_type (ob_payload ob) \<noteq> cf_product_type (cs_state canonical),
        ValueError ''source_observations product_type must match canonical state''),
     (fx_settlement_rule_version (ob_payload ob) \<noteq> cf_settlement_rule_version (cs_state canonical),
        ValueError ''source_observations settlement_rule_version must match canonical state'')])"

definition validate_context_scope :: "ReconciliationContext \<Rightarrow> py_error + ReconciliationContext" where
  "validate_context_scope cx = (
     let canonical = cx_canonical_state cx;
         observation_ids = map ob_observation_id (cx_source_observations cx) in
     checked (
       (case cx_evaluated_at cx of None \<Rightarrow> [] | Some t \<Rightarrow> [
          (\<not> aware t, ValueError ''evaluated_at must include a timezone offset''),
          (instant t < instant (cs_source_watermark canonical),
             ValueError ''evaluated_at must not precede source_watermark'')]) @ [
       (has_dups observation_ids, ValueError ''source_observations observation IDs must be unique''),
       (set (map observation_key (cx_source_observations cx)) \<noteq>
          set (map item_key (cs_source_version_set canonical)),
          ValueError ''source_observations must equal canonical_state.source_version_set exactly'')] @
       concat (map (observation_scope_checks cx) (cx_source_observations cx)) @
       (case cx_linkage_decision cx of None \<Rightarrow> [] | Some d \<Rightarrow> [
          ((ld_tenant_id d, ld_portfolio_id d, ld_correlation_id d) \<noteq> canonical_scope canonical,
             ValueError ''linkage_decision must remain inside canonical scope''),
          (ld_source_observation_id d \<notin> set observation_ids,
             ValueError ''linkage_decision must reference the exact source set'')]) @
       (case cx_post_action_verification cx of None \<Rightarrow> [] | Some v \<Rightarrow> [
          (ob_observation_id (pv_pre_action v) \<notin> set observation_ids,
             ValueError ''pre_action must reference the exact source set''),
          (\<not> opt_ok (\<lambda>p. ob_observation_id p \<in> set observation_ids) (pv_post_action v),
             ValueError ''post_action must reference the exact source set'')])) cx)"

definition mk_ReconciliationContext :: "ReconciliationContext \<Rightarrow> py_error + ReconciliationContext" where
  "mk_ReconciliationContext cx =
     ebind (checked [
       (\<not> is_identifier (cx_reconciliation_run_id cx), ValueError ''reconciliation_run_id''),
       (cx_run_version cx < 1, ValueError ''run_version''),
       (cx_source_observations cx = [], ValueError ''source_observations'')] ()) (\<lambda>_.
     ebind (mk_CanonicalTradeState (cx_canonical_state cx)) (\<lambda>_.
     ebind (emap validate_observation (cx_source_observations cx)) (\<lambda>_.
     ebind (mk_opt mk_LinkageDecision (cx_linkage_decision cx)) (\<lambda>_.
     ebind (mk_opt mk_PostActionVerification (cx_post_action_verification cx)) (\<lambda>_.
     validate_context_scope cx)))))"

section \<open>Facts and runs\<close>

record BreakFact =
  bk_family :: BreakFamily
  bk_condition_code :: BreakConditionCode
  bk_field_path :: string
  bk_value_type :: BreakValueType
  bk_expected_value :: string
  bk_observed_value :: string
  bk_tolerance :: BreakTolerance
  bk_severity :: BreakSeverity
  bk_expected_source_observation_id :: "string option"
  bk_observed_source_observation_id :: "string option"

datatype RunResult = PASS | BREAKS_DETECTED

fun run_result_str :: "RunResult \<Rightarrow> string" where
  "run_result_str PASS = ''PASS''"
| "run_result_str BREAKS_DETECTED = ''BREAKS_DETECTED''"

record ReconciliationRun =
  rn_schema_version :: string
  rn_run_id :: string
  rn_run_version :: int
  rn_tenant_id :: string
  rn_portfolio_id :: string
  rn_correlation_id :: string
  rn_trade_id :: string
  rn_canonical_state_version :: int
  rn_source_watermark :: datetime
  rn_evaluated_at :: datetime
  rn_config_id :: string
  rn_config_version :: string
  rn_config_hash :: string
  rn_detection_rule_version :: string
  rn_result :: RunResult
  rn_break_ids :: "string list"
  rn_breaks :: "TradeBreak list"
  rn_break_facts :: "BreakFact list"
  rn_source_version_set :: "BreakSourceReference list"
  rn_actor :: Actor
  rn_content_hash :: string

definition break_fact_json :: "BreakFact \<Rightarrow> json" where
  "break_fact_json f = JObj [
     (''family'', JStr (family_str (bk_family f))),
     (''condition_code'', JStr (condition_str (bk_condition_code f))),
     (''field_path'', JStr (bk_field_path f)),
     (''value_type'', JStr (value_type_str (bk_value_type f))),
     (''expected_value'', JStr (bk_expected_value f)),
     (''observed_value'', JStr (bk_observed_value f)),
     (''tolerance'', tolerance_json (bk_tolerance f)),
     (''severity'', JStr (severity_str (bk_severity f))),
     (''expected_source_observation_id'', json_opt JStr (bk_expected_source_observation_id f)),
     (''observed_source_observation_id'', json_opt JStr (bk_observed_source_observation_id f))]"

text \<open>\<open>model_dump(mode="json", exclude={"content_hash"})\<close> of a run.\<close>

definition run_json :: "runtime \<Rightarrow> ReconciliationRun \<Rightarrow> json" where
  "run_json rt r = JObj [
     (''schema_version'', JStr (rn_schema_version r)),
     (''run_id'', JStr (rn_run_id r)),
     (''run_version'', JInt (rn_run_version r)),
     (''tenant_id'', JStr (rn_tenant_id r)),
     (''portfolio_id'', JStr (rn_portfolio_id r)),
     (''correlation_id'', JStr (rn_correlation_id r)),
     (''trade_id'', JStr (rn_trade_id r)),
     (''canonical_state_version'', JInt (rn_canonical_state_version r)),
     (''source_watermark'', JStr (datetime_json rt (rn_source_watermark r))),
     (''evaluated_at'', JStr (datetime_json rt (rn_evaluated_at r))),
     (''config_id'', JStr (rn_config_id r)),
     (''config_version'', JStr (rn_config_version r)),
     (''config_hash'', JStr (rn_config_hash r)),
     (''detection_rule_version'', JStr (rn_detection_rule_version r)),
     (''result'', JStr (run_result_str (rn_result r))),
     (''break_ids'', JList (map JStr (rn_break_ids r))),
     (''breaks'', JList (map (trade_break_json rt) (rn_breaks r))),
     (''break_facts'', JList (map break_fact_json (rn_break_facts r))),
     (''source_version_set'', JList (map source_reference_json (rn_source_version_set r))),
     (''actor'', actor_json (rn_actor r))]"

definition break_binding_checks ::
  "ReconciliationRun \<Rightarrow> TradeBreak \<Rightarrow> (bool \<times> py_error) list" where
  "break_binding_checks r b = [
     (tb_reconciliation_run_id b \<noteq> rn_run_id r, ValueError ''break must bind to this reconciliation run''),
     ((tb_tenant_id b, tb_portfolio_id b, tb_correlation_id b, tb_trade_id b) \<noteq>
        (rn_tenant_id r, rn_portfolio_id r, rn_correlation_id r, rn_trade_id r),
        ValueError ''break must remain inside the run scope'')]"

definition validate_result_shape :: "runtime \<Rightarrow> ReconciliationRun \<Rightarrow> py_error + ReconciliationRun" where
  "validate_result_shape rt r = checked ([
     (\<not> aware (rn_source_watermark r), ValueError ''source_watermark must include a timezone offset''),
     (\<not> aware (rn_evaluated_at r), ValueError ''evaluated_at must include a timezone offset''),
     (instant (rn_evaluated_at r) < instant (rn_source_watermark r),
        ValueError ''evaluated_at must not precede source_watermark''),
     (has_dups (rn_break_ids r), ValueError ''break_ids must be unique''),
     (map tb_break_id (rn_breaks r) \<noteq> rn_break_ids r,
        ValueError ''break_ids must match breaks in deterministic order''),
     ((rn_result r = PASS) \<noteq> (rn_breaks r = []),
        ValueError ''result must agree with whether breaks were detected'')] @
     concat (map (break_binding_checks r) (rn_breaks r)) @ [
     (length (rn_break_facts r) \<noteq> sum_list (map (\<lambda>b. length (tb_comparisons b)) (rn_breaks r)),
        ValueError ''break_facts must flatten every break comparison exactly once''),
     (rn_content_hash r \<noteq> stable_content_hash rt (run_json rt r),
        ValueError ''reconciliation run content_hash does not match run content'')]) r"

text \<open>The breaks, references and the actor of a run are instances that have passed their own validators.\<close>

definition mk_ReconciliationRun :: "runtime \<Rightarrow> ReconciliationRun \<Rightarrow> py_error + ReconciliationRun" where
  "mk_ReconciliationRun rt r =
     ebind (checked [
       (rn_schema_version r \<noteq> ''1.0.0'', ValueError ''schema_version''),
       (\<not> is_identifier (rn_run_id r), ValueError ''run_id''),
       (rn_run_version r < 1, ValueError ''run_version''),
       (rn_canonical_state_version r < 1, ValueError ''canonical_state_version''),
       (\<not> is_sha256_hash (rn_config_hash r), ValueError ''config_hash''),
       (rn_detection_rule_version r \<noteq> ''1.0.0'', ValueError ''detection_rule_version''),
       (rn_source_version_set r = [], ValueError ''source_version_set''),
       (\<not> is_sha256_hash (rn_content_hash r), ValueError ''content_hash'')] ()) (\<lambda>_.
     validate_result_shape rt r)"

section \<open>What an accepted context provides\<close>

lemma context_accepted:
  assumes "mk_ReconciliationContext cx = Inr cx'"
  shows "cx' = cx"
    and "mk_CanonicalTradeState (cx_canonical_state cx) = Inr (cx_canonical_state cx)"
    and "ob \<in> set (cx_source_observations cx) \<Longrightarrow> validate_observation ob = Inr ob"
    and "distinct (map ob_observation_id (cx_source_observations cx))"
    and "observation_key ` set (cx_source_observations cx) =
           item_key ` set (cs_source_version_set (cx_canonical_state cx))"
    and "ob \<in> set (cx_source_observations cx) \<Longrightarrow> first_error (observation_scope_checks cx ob) = None"
    and "cx_source_observations cx \<noteq> []"
    and "instant (cs_source_watermark (cx_canonical_state cx)) \<le> instant (effective_evaluated_at cx)"
    and "aware (effective_evaluated_at cx)"
proof -
  have v: "validate_context_scope cx = Inr cx'"
    using assms by (auto simp: mk_ReconciliationContext_def result_simps)
  then show "cx' = cx" and "distinct (map ob_observation_id (cx_source_observations cx))"
    and "observation_key ` set (cx_source_observations cx) =
           item_key ` set (cs_source_version_set (cx_canonical_state cx))"
    and "ob \<in> set (cx_source_observations cx) \<Longrightarrow> first_error (observation_scope_checks cx ob) = None"
    and "instant (cs_source_watermark (cx_canonical_state cx)) \<le> instant (effective_evaluated_at cx)"
    by (auto simp: validate_context_scope_def Let_def check_simps first_error_concat_None
        effective_evaluated_at_def split: option.splits)
  obtain s where s: "mk_CanonicalTradeState (cx_canonical_state cx) = Inr s"
    using assms by (auto simp: mk_ReconciliationContext_def result_simps)
  moreover have "s = cx_canonical_state cx"
    using s by (auto simp: mk_CanonicalTradeState_def result_simps)
  ultimately show "mk_CanonicalTradeState (cx_canonical_state cx) = Inr (cx_canonical_state cx)" by simp
  have "aware (cs_source_watermark (cx_canonical_state cx))"
    using s by (auto simp: mk_CanonicalTradeState_def CanonicalTradeState_fields_def result_simps check_simps)
  with v show "aware (effective_evaluated_at cx)"
    by (auto simp: validate_context_scope_def Let_def check_simps effective_evaluated_at_def
        split: option.splits)
  show "validate_observation ob = Inr ob" if "ob \<in> set (cx_source_observations cx)"
    using assms that validate_observation_Inr(1)
    by (auto simp: mk_ReconciliationContext_def result_simps dest!: emap_each)
  show "cx_source_observations cx \<noteq> []"
    using assms by (auto simp: mk_ReconciliationContext_def result_simps check_simps)
qed

end
