(* ===== verification/Recon_Engine.thy ===== *)
theory Recon_Engine
  imports Recon_Models
begin

text \<open>
  \<open>packages/reconciliation/engine.py\<close>: the pure evaluation of the eight break families over one
  exact source set. The engine is a function of the runtime, the configuration and the context; its
  methods are the definitions of this theory, in the order of the source, each returning what the
  method returns or raises. Observations of a context have distinct identifiers, so the object
  identity test \<open>item is not observed\<close> is the comparison of identifiers.
\<close>

section \<open>Constants and ordering\<close>

fun observation_rank :: "ObservationKind \<Rightarrow> int" where
  "observation_rank EXECUTION = 1"
| "observation_rank TRADE_CAPTURE = 2"
| "observation_rank CONFIRMATION = 3"
| "observation_rank BOOKING = 4"

definition POST_ACTION_FIELDS :: "(string \<times> BreakValueType) list" where
  "POST_ACTION_FIELDS = [(''/payload/book_id'', VT_IDENTIFIER),
     (''/payload/lifecycle_status'', VT_LIFECYCLE_STATUS),
     (''/payload/booking_version'', VT_SOURCE_VERSION),
     (''/payload/record_fingerprint'', VT_CONTENT_HASH)]"

type_synonym observation_order = "int \<times> int \<times> string \<times> string \<times> string"

definition order_key :: "Observation \<Rightarrow> observation_order" where
  "order_key ob = (observation_rank (ob_kind ob), ob_source_sequence ob, ob_observation_id ob,
     ob_source_version ob, ob_content_hash ob)"

definition ordered_observations :: "Observation list \<Rightarrow> Observation list" where
  "ordered_observations obs = sort_key order_key obs"

definition source_reference :: "Observation \<Rightarrow> py_error + BreakSourceReference" where
  "source_reference ob = mk_BreakSourceReference \<lparr>
     br_source_observation_id = ob_observation_id ob, br_observation_kind = ob_kind ob,
     br_source_system = ob_source_system ob, br_source_business_key = ob_source_business_key ob,
     br_source_tenant_id = ob_tenant_id ob, br_source_portfolio_id = ob_portfolio_id ob,
     br_source_version = ob_source_version ob, br_content_hash = ob_content_hash ob\<rparr>"

section \<open>Values and tolerances\<close>

text \<open>\<open>_field_value\<close>: the rendered attribute of the payload, or \<open>AttributeError\<close>.\<close>

definition field_value :: "Observation \<Rightarrow> string \<Rightarrow> py_error + string" where
  "field_value ob path = (let p = ob_payload ob; leaf = after_last_slash path in
     if leaf = ''base_amount'' then Inr (da_value (fx_base_amount p))
     else if leaf = ''terms_amount'' then Inr (da_value (fx_terms_amount p))
     else if leaf = ''quoted_rate'' then Inr (dr_value (fx_quoted_rate p))
     else if leaf = ''trade_date'' then Inr (date_isoformat (fx_trade_date p))
     else if leaf = ''value_date'' then Inr (date_isoformat (fx_value_date p))
     else if leaf = ''base_currency'' then Inr (fx_base_currency p)
     else if leaf = ''terms_currency'' then Inr (fx_terms_currency p)
     else if leaf = ''side'' then Inr (side_str (fx_side p))
     else if leaf = ''lifecycle_status'' then Inr (lifecycle_str (fx_lifecycle_status p))
     else if leaf = ''book_id'' then Inr (fx_book_id p)
     else (case ob_source ob of
         BookingSource d \<Rightarrow>
           if leaf = ''booking_version'' then Inr (int_str (booking_version d))
           else if leaf = ''record_fingerprint'' then Inr (record_fingerprint d)
           else Inl (AttributeError leaf)
       | _ \<Rightarrow> Inl (AttributeError leaf)))"

definition engine_decimal :: "string \<Rightarrow> py_error + decimal" where
  "engine_decimal v = (case parse_decimal v of
     Some d \<Rightarrow> Inr d
   | None \<Rightarrow> Inl (ValueError (''economic value is not a valid Decimal: '' @ v)))"

text \<open>An operation of the decimal context that signals raises \<open>InvalidOperation\<close>.\<close>

definition signal :: "'a option \<Rightarrow> py_error + 'a" where
  "signal x = (case x of Some v \<Rightarrow> Inr v | None \<Rightarrow> Inl (InvalidOperation ''decimal.InvalidOperation''))"

definition within_tolerance :: "decimal \<Rightarrow> decimal \<Rightarrow> BreakTolerance \<Rightarrow> py_error + bool" where
  "within_tolerance expected observed tolerance =
     ebind (signal (dec_sub observed expected)) (\<lambda>d.
     ebind (signal (dec_abs d)) (\<lambda>difference.
     if to_mode tolerance = TOL_NONE then signal (dec_eq difference (Fin 0 0))
     else (case to_value tolerance of
       None \<Rightarrow> Inl (AssertionError ''tolerance.value'')
     | Some t \<Rightarrow>
         ebind (signal (parse_decimal t)) (\<lambda>allowed.
         if to_mode tolerance = ABSOLUTE_DECIMAL then signal (dec_le difference allowed)
         else ebind (signal (dec_abs expected)) (\<lambda>a.
              ebind (signal (dec_mul a allowed)) (\<lambda>limit.
              signal (dec_le difference limit)))))))"

text \<open>
  \<open>_authoritative_observation\<close>: the observation the canonical state took the field from.
\<close>

definition provenance_of ::
  "ReconciliationContext \<Rightarrow> string \<Rightarrow> FieldProvenance option" where
  "provenance_of cx path =
     map_option (cs_field_provenance (cx_canonical_state cx))
       (List.find (\<lambda>f. field_name f = after_last_slash path) CANONICAL_FIELD_NAMES)"

definition authoritative_observation ::
  "ReconciliationContext \<Rightarrow> Observation list \<Rightarrow> string \<Rightarrow> py_error + Observation" where
  "authoritative_observation cx observations path = (case provenance_of cx path of
     None \<Rightarrow> Inl (AttributeError (after_last_slash path))
   | Some p \<Rightarrow> (case List.find (\<lambda>ob. ob_observation_id ob = fp_source_observation_id p) observations of
       Some ob \<Rightarrow> Inr ob
     | None \<Rightarrow> Inl (ValueError (''canonical provenance for '' @ path @
                '' references an unavailable source observation''))))"

section \<open>Evidence, comparisons, breaks\<close>

record engine =
  en_runtime :: runtime
  en_config :: ReconciliationConfig

definition evidence_payload ::
  "engine \<Rightarrow> ReconciliationContext \<Rightarrow> BreakEvidenceRole \<Rightarrow> string option \<Rightarrow> Observation option \<Rightarrow>
   datetime \<Rightarrow> string \<Rightarrow> json" where
  "evidence_payload en cx role path source captured salt = JObj [
     (''run_id'', JStr (cx_reconciliation_run_id cx)),
     (''config_hash'', JStr (config_content_hash (en_runtime en) (en_config en))),
     (''role'', JStr (role_str role)),
     (''field_path'', json_opt JStr path),
     (''source_observation_id'', json_opt JStr (map_option ob_observation_id source)),
     (''source_version'', json_opt JStr (map_option ob_source_version source)),
     (''source_content_hash'', json_opt JStr (map_option ob_content_hash source)),
     (''captured_at'', JStr (isoformat captured)),
     (''salt'', JStr salt)]"

definition evidence ::
  "engine \<Rightarrow> ReconciliationContext \<Rightarrow> BreakEvidenceRole \<Rightarrow> string option \<Rightarrow> Observation option \<Rightarrow>
   datetime option \<Rightarrow> string \<Rightarrow> py_error + BreakEvidence" where
  "evidence en cx role path source captured_at salt = (
     let captured = (case captured_at of Some t \<Rightarrow> t | None \<Rightarrow> effective_evaluated_at cx);
         digest = stable_content_hash (en_runtime en) (evidence_payload en cx role path source captured salt)
     in mk_BreakEvidence \<lparr>
       be_evidence_id = ''evidence_'' @ lower (role_str role) @ ''_'' @ take 24 (remove_prefix digest ''sha256:''),
       be_role = role, be_content_hash = digest, be_captured_at = captured,
       be_source_observation_id = map_option ob_observation_id source,
       be_source_version = map_option ob_source_version source, be_field_path = path\<rparr>)"

definition comparison_evidence ::
  "engine \<Rightarrow> ReconciliationContext \<Rightarrow> string \<Rightarrow> BreakEvidenceRole \<times> BreakEvidenceRole \<Rightarrow>
   Observation \<Rightarrow> Observation \<Rightarrow> string \<Rightarrow> py_error + BreakEvidence list" where
  "comparison_evidence en cx path roles expected observed salt =
     ebind (evidence en cx (fst roles) (Some path) (Some expected) None
              (salt @ '':expected:'' @ ob_observation_id expected)) (\<lambda>e1.
     ebind (evidence en cx (snd roles) (Some path) (Some observed) None
              (salt @ '':observed:'' @ ob_observation_id observed)) (\<lambda>e2.
     Inr [e1, e2]))"

definition comparison ::
  "engine \<Rightarrow> string \<Rightarrow> BreakValueType \<Rightarrow> string \<Rightarrow> string \<Rightarrow> BreakTolerance \<Rightarrow> Observation option \<Rightarrow>
   Observation option \<Rightarrow> string list \<Rightarrow> py_error + BreakComparison" where
  "comparison en path value_type expected_value observed_value tolerance expected observed evidence_ids =
     mk_BreakComparison \<lparr>
       bc_field_path = path, bc_value_type = value_type, bc_expected_value = expected_value,
       bc_observed_value = observed_value, bc_tolerance = tolerance,
       bc_normalisation_rule_version = cg_normalisation_rule_version (en_config en),
       bc_evidence_ids = evidence_ids,
       bc_expected_source_observation_id = map_option ob_observation_id expected,
       bc_expected_source_version = map_option ob_source_version expected,
       bc_observed_source_observation_id = map_option ob_observation_id observed,
       bc_observed_source_version = map_option ob_source_version observed\<rparr>"

definition no_tolerance :: BreakTolerance where
  "no_tolerance = \<lparr>to_mode = TOL_NONE, to_value = None\<rparr>"

fun condition_by_family :: "BreakFamily \<Rightarrow> BreakConditionCode" where
  "condition_by_family MISSING_REQUIRED_SOURCE = MISSING_SOURCE_AFTER_WATERMARK"
| "condition_by_family AMBIGUOUS_OR_UNMATCHED_LINKAGE = LINKAGE_CANDIDATE_SCOPE_INVARIANT"
| "condition_by_family DUPLICATE_SOURCE_CONFLICT_FAMILY = DUPLICATE_SOURCE_IDENTITY_CONTENT"
| "condition_by_family CURRENCY_PAIR_OR_SIDE_MISMATCH = EXACT_CURRENCY_PAIR_SIDE"
| "condition_by_family ECONOMIC_VALUE_MISMATCH = DECIMAL_OUTSIDE_TOLERANCE"
| "condition_by_family TRADE_OR_VALUE_DATE_MISMATCH = EXACT_TRADE_VALUE_DATE"
| "condition_by_family LIFECYCLE_STATUS_MISMATCH = ALLOWED_LIFECYCLE_RELATION"
| "condition_by_family POST_ACTION_VERIFICATION_FAILURE = POST_ACTION_READBACK_RECONCILIATION"

fun missing_severity :: "ObservationKind \<Rightarrow> BreakSeverity option" where
  "missing_severity EXECUTION = Some HIGH"
| "missing_severity CONFIRMATION = Some MEDIUM"
| "missing_severity BOOKING = Some HIGH"
| "missing_severity TRADE_CAPTURE = None"

fun fixed_severity :: "BreakFamily \<Rightarrow> BreakSeverity option" where
  "fixed_severity AMBIGUOUS_OR_UNMATCHED_LINKAGE = Some HIGH"
| "fixed_severity DUPLICATE_SOURCE_CONFLICT_FAMILY = Some HIGH"
| "fixed_severity CURRENCY_PAIR_OR_SIDE_MISMATCH = Some CRITICAL"
| "fixed_severity ECONOMIC_VALUE_MISMATCH = Some CRITICAL"
| "fixed_severity TRADE_OR_VALUE_DATE_MISMATCH = Some HIGH"
| "fixed_severity LIFECYCLE_STATUS_MISMATCH = Some HIGH"
| "fixed_severity POST_ACTION_VERIFICATION_FAILURE = Some CRITICAL"
| "fixed_severity MISSING_REQUIRED_SOURCE = None"

definition break_severity :: "BreakFamily \<Rightarrow> ObservationKind option \<Rightarrow> py_error + BreakSeverity" where
  "break_severity family severity_context = (
     if family = MISSING_REQUIRED_SOURCE then
       (case severity_context of
          None \<Rightarrow> Inl (ValueError ''missing-source break requires severity context'')
        | Some k \<Rightarrow> (case missing_severity k of Some s \<Rightarrow> Inr s | None \<Rightarrow> Inl (KeyError (kind_str k))))
     else (case fixed_severity family of Some s \<Rightarrow> Inr s | None \<Rightarrow> Inl (KeyError (family_str family))))"

text \<open>The arguments of \<open>_break\<close> beyond the context; \<open>detected_at\<close> is only ever the evaluation time.\<close>

record break_request =
  bq_family :: BreakFamily
  bq_source_refs :: "BreakSourceReference list"
  bq_comparisons :: "BreakComparison list"
  bq_evidence :: "BreakEvidence list"
  bq_severity_context :: "ObservationKind option"
  bq_missing :: "(ObservationKind \<times> ArrivalWindowRule \<times> datetime) option"
  bq_duplicate :: "(Observation list \<times> string \<times> string) option"

definition break_deadline :: "ReconciliationContext \<Rightarrow> break_request \<Rightarrow> py_error + DeadlineStatus" where
  "break_deadline cx q = (
     if bq_family q = MISSING_REQUIRED_SOURCE then
       (case bq_missing q of
          None \<Rightarrow> Inl (ValueError ''missing-source break requires an arrival-window expectation'')
        | Some (_, _, expected_by) \<Rightarrow>
            Inr (if instant expected_by < instant (effective_evaluated_at cx) then OVERDUE else DUE))
     else Inr NO_CONFIGURED_DEADLINE)"

definition break_id_of :: "engine \<Rightarrow> ReconciliationContext \<Rightarrow> break_request \<Rightarrow> string" where
  "break_id_of en cx q = ''break_'' @ lower (family_str (bq_family q)) @ ''_'' @
     take 40 (remove_prefix (stable_content_hash (en_runtime en) (JObj [
       (''run_id'', JStr (cx_reconciliation_run_id cx)),
       (''family'', JStr (family_str (bq_family q))),
       (''source_ids'', JList (map (\<lambda>s. JStr (br_source_observation_id s)) (bq_source_refs q))),
       (''comparisons'', JList (map comparison_json (bq_comparisons q)))])) ''sha256:'')"

definition missing_expectation ::
  "ReconciliationContext \<Rightarrow> ObservationKind \<times> ArrivalWindowRule \<times> datetime \<Rightarrow>
   py_error + MissingSourceExpectation" where
  "missing_expectation cx m = (case m of (k, rule, expected_by) \<Rightarrow> mk_MissingSourceExpectation \<lparr>
     me_expected_observation_kind = k, me_expected_source_system = aw_source_system rule,
     me_field_path = aw_field_path rule, me_arrival_window_rule_version = aw_rule_version rule,
     me_watermark_at = cs_source_watermark (cx_canonical_state cx), me_expected_by = expected_by\<rparr>)"

definition duplicate_conflict ::
  "Observation list \<times> string \<times> string \<Rightarrow> py_error + DuplicateSourceConflict" where
  "duplicate_conflict d = (case d of (grp, key, version) \<Rightarrow> mk_DuplicateSourceConflict \<lparr>
     dc_source_observation_ids = map ob_observation_id grp, dc_source_business_key = key,
     dc_source_version = version\<rparr>)"

definition emap_opt :: "('a \<Rightarrow> 'e + 'b) \<Rightarrow> 'a option \<Rightarrow> 'e + 'b option" where
  "emap_opt f x = (case x of None \<Rightarrow> Inr None | Some v \<Rightarrow> ebind (f v) (\<lambda>w. Inr (Some w)))"

definition new_break :: "engine \<Rightarrow> ReconciliationContext \<Rightarrow> break_request \<Rightarrow> py_error + TradeBreak" where
  "new_break en cx q = (let canonical = cx_canonical_state cx; state = cs_state canonical; cfg = en_config en in
     ebind (mk_BreakProductContext \<lparr>
       pc_product_type = cf_product_type state, pc_settlement_rule_version = cf_settlement_rule_version state,
       pc_trade_date = cf_trade_date state, pc_value_date = cf_value_date state\<rparr>) (\<lambda>product_context.
     ebind (break_severity (bq_family q) (bq_severity_context q)) (\<lambda>severity.
     ebind (break_deadline cx q) (\<lambda>deadline.
     ebind (emap_opt (missing_expectation cx) (bq_missing q)) (\<lambda>expectation.
     ebind (emap_opt duplicate_conflict (bq_duplicate q)) (\<lambda>conflict.
     mk_TradeBreak \<lparr>
       tb_schema_version = ''1.0.0'', tb_taxonomy_version = ''1.0.0'',
       tb_detection_rule_version = cg_detection_rule_version cfg,
       tb_priority_rule_version = cg_priority_rule_version cfg,
       tb_lifecycle_rule_version = cg_lifecycle_rule_version cfg,
       tb_break_id = break_id_of en cx q, tb_break_version = 1,
       tb_tenant_id = cs_tenant_id canonical, tb_portfolio_id = cs_portfolio_id canonical,
       tb_correlation_id = cs_correlation_id canonical, tb_trade_id = cs_trade_id canonical,
       tb_canonical_state_version = cs_canonical_state_version canonical,
       tb_reconciliation_run_id = cx_reconciliation_run_id cx,
       tb_product_type = cf_product_type state, tb_product_context = product_context,
       tb_family = bq_family q, tb_condition_code = condition_by_family (bq_family q),
       tb_severity = severity, tb_severity_context = bq_severity_context q,
       tb_priority = \<lparr>bp_materiality_band = UNASSESSED, bp_deadline_status = deadline,
         bp_case_age_seconds = 0,
         bp_ordering_key = (2, break_severity_rank severity, break_deadline_rank deadline, 0)\<rparr>,
       tb_source_version_set = bq_source_refs q,
       tb_evaluated_field_paths = map bc_field_path (bq_comparisons q),
       tb_comparisons = bq_comparisons q, tb_evidence = bq_evidence q,
       tb_missing_source_expectation = expectation, tb_duplicate_source_conflict = conflict,
       tb_state = OPEN, tb_previous_state = None, tb_transition_reason = DETECTED,
       tb_detected_at = effective_evaluated_at cx, tb_state_changed_at = effective_evaluated_at cx,
       tb_resolved_at = None, tb_resolution = None, tb_supersedes_break_id = None,
       tb_causal_label_id = None\<rparr>))))))"

definition plain_request ::
  "BreakFamily \<Rightarrow> BreakSourceReference list \<Rightarrow> BreakComparison list \<Rightarrow> BreakEvidence list \<Rightarrow> break_request" where
  "plain_request family refs comparisons evidences = \<lparr>bq_family = family, bq_source_refs = refs,
     bq_comparisons = comparisons, bq_evidence = evidences, bq_severity_context = None,
     bq_missing = None, bq_duplicate = None\<rparr>"

section \<open>The detectors\<close>

text \<open>\<open>_missing_source_breaks\<close>, the body of its loop over the awaited kinds.\<close>

definition missing_source_break ::
  "engine \<Rightarrow> ReconciliationContext \<Rightarrow> Observation list \<Rightarrow> BreakSourceReference list \<Rightarrow> ObservationKind \<Rightarrow>
   py_error + TradeBreak list" where
  "missing_source_break en cx observations refs k = (
     if k \<in> set (map ob_kind observations) then Inr []
     else
       ebind (arrival_rule (en_config en) (cf_product_type (cs_state (cx_canonical_state cx))) k) (\<lambda>rule.
       ebind (add_seconds (cs_source_watermark (cx_canonical_state cx)) (aw_window_seconds rule)) (\<lambda>expected_by.
       if instant (effective_evaluated_at cx) < instant expected_by then Inr []
       else
         ebind (if observations = [] then Inl (IndexError ''list index out of range'')
                else Inr (hd observations)) (\<lambda>observed.
         ebind (evidence en cx INGESTION_WATERMARK (Some (aw_field_path rule)) None
                  (Some (cs_source_watermark (cx_canonical_state cx))) (''watermark:'' @ kind_str k)) (\<lambda>e1.
         ebind (evidence en cx EXPECTED_SOURCE (Some (aw_field_path rule)) None
                  (Some (effective_evaluated_at cx))
                  (''expected:'' @ kind_str k @ '':'' @ aw_rule_version rule)) (\<lambda>e2.
         ebind (comparison en (aw_field_path rule) VT_ABSENCE ''present'' ''absent_after_watermark''
                  no_tolerance None (Some observed) [be_evidence_id e2]) (\<lambda>c.
         ebind (new_break en cx \<lparr>bq_family = MISSING_REQUIRED_SOURCE, bq_source_refs = refs,
                  bq_comparisons = [c], bq_evidence = [e1, e2], bq_severity_context = Some k,
                  bq_missing = Some (k, rule, expected_by), bq_duplicate = None\<rparr>) (\<lambda>b.
         Inr [b]))))))))"

definition econcat :: "'e + 'a list list \<Rightarrow> 'e + 'a list" where
  "econcat r = ebind r (\<lambda>xs. Inr (concat xs))"

definition missing_source_breaks ::
  "engine \<Rightarrow> ReconciliationContext \<Rightarrow> Observation list \<Rightarrow> BreakSourceReference list \<Rightarrow>
   py_error + TradeBreak list" where
  "missing_source_breaks en cx observations refs =
     econcat (emap (missing_source_break en cx observations refs) MISSING_SOURCE_KINDS)"

definition linkage_invalid :: "ReconciliationContext \<Rightarrow> bool" where
  "linkage_invalid cx = (case cx_linkage_decision cx of
     None \<Rightarrow> True
   | Some d \<Rightarrow>
       list_ex (\<lambda>c. (cl_tenant_id c, cl_portfolio_id c) \<noteq>
         (cs_tenant_id (cx_canonical_state cx), cs_portfolio_id (cx_canonical_state cx))) (ld_candidate_links d) \<or>
       ld_decision d \<in> {LINK_REJECTED, LINK_UNMATCHED, LINK_AMBIGUOUS, LINK_CROSS_SCOPE_REJECTED} \<or>
       ld_chosen_trade_id d \<noteq> Some (cs_trade_id (cx_canonical_state cx)) \<or>
       length (ld_candidate_links d) \<noteq> 1)"

fun linkage_str :: "LinkageDecisionValue \<Rightarrow> string" where
  "linkage_str LINK_ACCEPTED = ''ACCEPTED''"
| "linkage_str LINK_REJECTED = ''REJECTED''"
| "linkage_str LINK_UNMATCHED = ''UNMATCHED''"
| "linkage_str LINK_AMBIGUOUS = ''AMBIGUOUS''"
| "linkage_str LINK_CROSS_SCOPE_REJECTED = ''CROSS_SCOPE_REJECTED''"

definition linkage_break ::
  "engine \<Rightarrow> ReconciliationContext \<Rightarrow> Observation list \<Rightarrow> BreakSourceReference list \<Rightarrow>
   py_error + TradeBreak list" where
  "linkage_break en cx observations refs = (
     if \<not> linkage_invalid cx then Inr []
     else
       let candidate_count = (case cx_linkage_decision cx of None \<Rightarrow> 0 | Some d \<Rightarrow> length (ld_candidate_links d));
           observed_value = (if int_str (int candidate_count) = ''1'' then ''0'' else int_str (int candidate_count)) in
       ebind (if observations = [] then Inl (IndexError ''list index out of range'')
              else Inr (hd observations)) (\<lambda>observed.
       ebind (evidence en cx CANDIDATE_LINK (Some ''/linkage/trade_id'') (Some observed) None
                (''candidates:'' @ int_str (int candidate_count))) (\<lambda>e1.
       ebind (evidence en cx LINKAGE_DECISION (Some ''/linkage/trade_id'') (Some observed) None
                (case cx_linkage_decision cx of None \<Rightarrow> ''decision:none'' | Some d \<Rightarrow> linkage_str (ld_decision d))) (\<lambda>e2.
       ebind (comparison en ''/linkage/trade_id'' VT_COUNT ''1'' observed_value no_tolerance
                (Some observed) (Some observed) [be_evidence_id e1, be_evidence_id e2]) (\<lambda>c.
       ebind (new_break en cx (plain_request AMBIGUOUS_OR_UNMATCHED_LINKAGE refs [c] [e1, e2])) (\<lambda>b.
       Inr [b]))))))"

text \<open>
  \<open>_duplicate_breaks\<close>: the groups by kind, business key and version, in the order of their keys.
  A group keeps the order of the observations, and \<open>sorted(groups.items())\<close> is decided by the
  keys, which are distinct.
\<close>

definition group_key :: "Observation \<Rightarrow> string \<times> string \<times> string" where
  "group_key ob = (kind_str (ob_kind ob), ob_source_business_key ob, ob_source_version ob)"

definition observation_groups :: "Observation list \<Rightarrow> ((string \<times> string \<times> string) \<times> Observation list) list" where
  "observation_groups observations =
     map (\<lambda>k. (k, filter (\<lambda>ob. group_key ob = k) observations))
       (sort (remdups (map group_key observations)))"

definition duplicate_break ::
  "engine \<Rightarrow> ReconciliationContext \<Rightarrow> (string \<times> string \<times> string) \<times> Observation list \<Rightarrow>
   py_error + TradeBreak list" where
  "duplicate_break en cx kg = (case kg of ((k, key, version), grp) \<Rightarrow>
     if length (remdups (map ob_content_hash grp)) < 2 then Inr []
     else
       let ordered_group = ordered_observations grp; expected = ordered_group ! 0;
           observed = ordered_group ! 1; path = ''/source/content_hash'' in
       ebind (evidence en cx SOURCE_PAYLOAD_PAIR (Some path) (Some expected) None
                (''duplicate:'' @ k @ '':payload'')) (\<lambda>e1.
       ebind (evidence en cx SOURCE_METADATA (Some path) (Some observed) None
                (''duplicate:'' @ k @ '':metadata:'' @ version)) (\<lambda>e2.
       ebind (comparison en path VT_CONTENT_HASH (ob_content_hash expected) (ob_content_hash observed)
                no_tolerance (Some expected) (Some observed) [be_evidence_id e1, be_evidence_id e2]) (\<lambda>c.
       ebind (emap source_reference ordered_group) (\<lambda>refs.
       ebind (new_break en cx \<lparr>bq_family = DUPLICATE_SOURCE_CONFLICT_FAMILY, bq_source_refs = refs,
                bq_comparisons = [c], bq_evidence = [e1, e2], bq_severity_context = None,
                bq_missing = None, bq_duplicate = Some (ordered_group, key, version)\<rparr>) (\<lambda>b.
       Inr [b]))))))"

definition duplicate_breaks ::
  "engine \<Rightarrow> ReconciliationContext \<Rightarrow> Observation list \<Rightarrow> py_error + TradeBreak list" where
  "duplicate_breaks en cx observations =
     econcat (emap (duplicate_break en cx) (observation_groups observations))"

text \<open>
  The loop bodies of \<open>_currency_breaks\<close>, \<open>_economic_breaks\<close> and \<open>_date_break\<close>: the first
  observation that disagrees with the authoritative one on a field, with the evidence and the
  comparison made of it.
\<close>

type_synonym finding = "BreakEvidence list \<times> BreakComparison"

definition disagreement ::
  "engine \<Rightarrow> ReconciliationContext \<Rightarrow> string \<Rightarrow> BreakValueType \<Rightarrow> BreakEvidenceRole \<Rightarrow> BreakTolerance \<Rightarrow>
   Observation \<Rightarrow> string \<Rightarrow> Observation option \<Rightarrow> py_error + finding list" where
  "disagreement en cx path value_type role tolerance baseline expected_value found = (case found of
     None \<Rightarrow> Inr []
   | Some observed \<Rightarrow>
       ebind (field_value observed path) (\<lambda>observed_value.
       ebind (comparison_evidence en cx path (role, NORMALISATION_RULE) baseline observed []) (\<lambda>pair.
       ebind (comparison en path value_type expected_value observed_value tolerance
                (Some baseline) (Some observed) (map be_evidence_id pair)) (\<lambda>c.
       Inr [(pair, c)]))))"

definition exact_field ::
  "engine \<Rightarrow> ReconciliationContext \<Rightarrow> Observation list \<Rightarrow> BreakEvidenceRole \<Rightarrow> string \<times> BreakValueType \<Rightarrow>
   py_error + finding list" where
  "exact_field en cx observations role f = (case f of (path, value_type) \<Rightarrow>
     ebind (authoritative_observation cx observations path) (\<lambda>baseline.
     ebind (field_value baseline path) (\<lambda>expected_value.
     ebind (efind (\<lambda>observed.
         if ob_observation_id observed = ob_observation_id baseline then Inr False
         else ebind (field_value observed path) (\<lambda>observed_value. Inr (observed_value \<noteq> expected_value)))
       observations) (\<lambda>found.
     disagreement en cx path value_type role no_tolerance baseline expected_value found))))"

definition economic_field ::
  "engine \<Rightarrow> ReconciliationContext \<Rightarrow> Observation list \<Rightarrow> string \<Rightarrow> py_error + finding list" where
  "economic_field en cx observations path =
     ebind (authoritative_observation cx observations path) (\<lambda>baseline.
     ebind (field_value baseline path) (\<lambda>expected_value.
     ebind (engine_decimal expected_value) (\<lambda>expected_decimal.
     ebind (decimal_rule (en_config en) (cf_product_type (cs_state (cx_canonical_state cx))) path) (\<lambda>rule.
     ebind (efind (\<lambda>observed.
         if ob_observation_id observed = ob_observation_id baseline then Inr False
         else
           ebind (field_value observed path) (\<lambda>observed_value.
           ebind (engine_decimal observed_value) (\<lambda>observed_decimal.
           ebind (within_tolerance expected_decimal observed_decimal (dt_tolerance rule)) (\<lambda>ok.
           Inr (\<not> ok)))))
       observations) (\<lambda>found.
     disagreement en cx path VT_DECIMAL DECIMAL_COMPARISON (dt_tolerance rule) baseline expected_value found)))))"

definition break_of_findings ::
  "engine \<Rightarrow> ReconciliationContext \<Rightarrow> BreakFamily \<Rightarrow> BreakSourceReference list \<Rightarrow> finding list \<Rightarrow>
   py_error + TradeBreak list" where
  "break_of_findings en cx family refs findings = (
     if findings = [] then Inr []
     else ebind (new_break en cx
            (plain_request family refs (map snd findings) (concat (map fst findings)))) (\<lambda>b. Inr [b]))"

definition CURRENCY_FIELDS :: "(string \<times> BreakValueType) list" where
  "CURRENCY_FIELDS = [(''/payload/base_currency'', VT_CURRENCY),
     (''/payload/terms_currency'', VT_CURRENCY), (''/payload/side'', VT_SIDE)]"

definition DATE_FIELDS :: "(string \<times> BreakValueType) list" where
  "DATE_FIELDS = [(''/payload/trade_date'', VT_DATE), (''/payload/value_date'', VT_DATE)]"

definition currency_breaks ::
  "engine \<Rightarrow> ReconciliationContext \<Rightarrow> Observation list \<Rightarrow> BreakSourceReference list \<Rightarrow>
   py_error + TradeBreak list" where
  "currency_breaks en cx observations refs =
     ebind (econcat (emap (exact_field en cx observations FIELD_COMPARISON) CURRENCY_FIELDS))
       (break_of_findings en cx CURRENCY_PAIR_OR_SIDE_MISMATCH refs)"

definition economic_breaks ::
  "engine \<Rightarrow> ReconciliationContext \<Rightarrow> Observation list \<Rightarrow> BreakSourceReference list \<Rightarrow>
   py_error + TradeBreak list" where
  "economic_breaks en cx observations refs =
     ebind (econcat (emap (economic_field en cx observations) ECONOMIC_FIELDS))
       (break_of_findings en cx ECONOMIC_VALUE_MISMATCH refs)"

definition date_break ::
  "engine \<Rightarrow> ReconciliationContext \<Rightarrow> Observation list \<Rightarrow> BreakSourceReference list \<Rightarrow>
   py_error + TradeBreak list" where
  "date_break en cx observations refs =
     ebind (econcat (emap (exact_field en cx observations DATE_COMPARISON) DATE_FIELDS))
       (break_of_findings en cx TRADE_OR_VALUE_DATE_MISMATCH refs)"

text \<open>\<open>_lifecycle_break\<close>.\<close>

definition lifecycle_expected ::
  "engine \<Rightarrow> Observation \<Rightarrow> py_error + string" where
  "lifecycle_expected en ob =
     ebind (lifecycle_rule (en_config en) (ob_kind ob)) (\<lambda>r. Inr (lifecycle_str (ls_expected_status r)))"

definition status_of :: "Observation \<Rightarrow> string" where
  "status_of ob = lifecycle_str (fx_lifecycle_status (ob_payload ob))"

definition as_expected :: "engine \<Rightarrow> Observation \<Rightarrow> py_error + bool" where
  "as_expected en ob = ebind (lifecycle_expected en ob) (\<lambda>s. Inr (status_of ob = s))"

fun efilter :: "('a \<Rightarrow> 'e + bool) \<Rightarrow> 'a list \<Rightarrow> 'e + 'a list" where
  "efilter p [] = Inr []"
| "efilter p (x # xs) = ebind (p x) (\<lambda>b. ebind (efilter p xs) (\<lambda>ys. Inr (if b then x # ys else ys)))"

definition other_observation :: "Observation \<Rightarrow> Observation \<Rightarrow> bool" where
  "other_observation observed item \<longleftrightarrow> ob_observation_id item \<noteq> ob_observation_id observed"

definition lifecycle_counterpart ::
  "engine \<Rightarrow> Observation list \<Rightarrow> Observation \<Rightarrow> py_error + Observation option" where
  "lifecycle_counterpart en observations observed =
     ebind (efind (\<lambda>item. if other_observation observed item then as_expected en item else Inr False)
              observations) (\<lambda>first.
     Inr (case first of
       Some e \<Rightarrow> Some e
     | None \<Rightarrow> (case List.find (\<lambda>item. other_observation observed item \<and> status_of item \<noteq> status_of observed)
                    observations of
         Some e \<Rightarrow> Some e
       | None \<Rightarrow> List.find (other_observation observed) observations)))"

definition lifecycle_break ::
  "engine \<Rightarrow> ReconciliationContext \<Rightarrow> Observation list \<Rightarrow> BreakSourceReference list \<Rightarrow>
   py_error + TradeBreak list" where
  "lifecycle_break en cx observations refs = (
     let statuses = map status_of observations; path = ''/payload/lifecycle_status'' in
     if length (remdups statuses) = 1 \<and> hd statuses \<in> {''AMENDED'', ''CANCELLED''} then Inr []
     else
       ebind (efilter (\<lambda>ob. ebind (as_expected en ob) (\<lambda>ok. Inr (\<not> ok))) observations) (\<lambda>invalid.
       if invalid = [] then Inr []
       else
         let observed = hd invalid in
         ebind (lifecycle_counterpart en observations observed) (\<lambda>counterpart.
         case counterpart of
           None \<Rightarrow> Inr []
         | Some expected \<Rightarrow>
             ebind (comparison_evidence en cx path (LIFECYCLE_RELATION, NORMALISATION_RULE)
                      expected observed []) (\<lambda>pair.
             ebind (if status_of expected = status_of observed then lifecycle_expected en expected
                    else Inr (status_of expected)) (\<lambda>expected_value.
             ebind (comparison en path VT_LIFECYCLE_STATUS expected_value (status_of observed) no_tolerance
                      (Some expected) (Some observed) (map be_evidence_id pair)) (\<lambda>c.
             ebind (new_break en cx (plain_request LIFECYCLE_STATUS_MISMATCH refs [c] pair)) (\<lambda>b.
             Inr [b])))))))"

text \<open>\<open>_post_action_break\<close>.\<close>

definition add_changed ::
  "Observation \<Rightarrow> Observation \<Rightarrow> string \<times> BreakValueType \<Rightarrow> ChangedField list \<Rightarrow> py_error + ChangedField list" where
  "add_changed pre post f changed = (let path = fst f in
     ebind (field_value pre path) (\<lambda>expected_value.
     ebind (field_value post path) (\<lambda>observed_value.
     if expected_value \<noteq> observed_value \<and> path \<notin> set (map ch_field_path changed)
     then ebind (mk_ChangedField \<lparr>ch_field_path = path, ch_expected_value = expected_value,
            ch_observed_value = observed_value\<rparr>) (\<lambda>c. Inr (changed @ [c]))
     else Inr changed)))"

definition unavailable_field :: "Observation \<Rightarrow> py_error + ChangedField" where
  "unavailable_field pre =
     ebind (field_value pre ''/payload/book_id'') (\<lambda>v.
     mk_ChangedField \<lparr>ch_field_path = ''/payload/book_id'', ch_expected_value = v,
       ch_observed_value = ''readback_unavailable''\<rparr>)"

definition changed_fields :: "PostActionVerification \<Rightarrow> py_error + ChangedField list" where
  "changed_fields v =
     ebind (case pv_post_action v of
        None \<Rightarrow> Inr (pv_changed_fields v)
      | Some post \<Rightarrow> efold (add_changed (pv_pre_action v) post) POST_ACTION_FIELDS (pv_changed_fields v)) (\<lambda>changed.
     if (\<not> pv_readback_available v \<or> pv_original_break_remaining v) \<and> changed = []
     then ebind (unavailable_field (pv_pre_action v)) (\<lambda>c. Inr [c])
     else Inr changed)"

definition post_action_finding ::
  "engine \<Rightarrow> ReconciliationContext \<Rightarrow> PostActionVerification \<Rightarrow> ChangedField \<Rightarrow> py_error + finding" where
  "post_action_finding en cx v f = (
     let path = ch_field_path f; pre = pv_pre_action v; h = pv_action_instruction_hash v;
         post = (case pv_post_action v of Some p \<Rightarrow> p | None \<Rightarrow> pre) in
     ebind (comparison_evidence en cx path (PRE_ACTION_READ, POST_ACTION_READ) pre post
              (''action:'' @ h @ '':'' @ path)) (\<lambda>pair.
     ebind (evidence en cx ACTION_INSTRUCTION (Some path) (Some pre) None
              (''instruction:'' @ h @ '':'' @ path)) (\<lambda>action.
     ebind (evidence en cx CHANGED_FIELD_DIFF (Some path) (Some post) None
              (''diff:'' @ ch_expected_value f @ '':'' @ ch_observed_value f)) (\<lambda>diff.
     ebind (case map_of POST_ACTION_FIELDS path of Some t \<Rightarrow> Inr t | None \<Rightarrow> Inl (KeyError path)) (\<lambda>value_type.
     ebind (comparison en path value_type (ch_expected_value f) (ch_observed_value f) no_tolerance
              (Some pre) (Some post) (map be_evidence_id (action # pair @ [diff]))) (\<lambda>c.
     Inr (action # pair @ [diff], c)))))))"

definition bool_str :: "bool \<Rightarrow> string" where
  "bool_str b = (if b then ''True'' else ''False'')"

definition post_action_break ::
  "engine \<Rightarrow> ReconciliationContext \<Rightarrow> BreakSourceReference list \<Rightarrow> py_error + TradeBreak list" where
  "post_action_break en cx refs = (case cx_post_action_verification cx of
     None \<Rightarrow> Inr []
   | Some v \<Rightarrow>
       ebind (changed_fields v) (\<lambda>changed.
       if changed = [] then Inr []
       else
         ebind (emap (post_action_finding en cx v) changed) (\<lambda>findings.
         ebind (evidence en cx RECONCILIATION_RESULT None
                  (Some (case pv_post_action v of Some p \<Rightarrow> p | None \<Rightarrow> pv_pre_action v)) None
                  (''result:'' @ bool_str (pv_original_break_remaining v) @ '':'' @
                   int_str (int (length changed)))) (\<lambda>result.
         ebind (new_break en cx (plain_request POST_ACTION_VERIFICATION_FAILURE refs
                  (map snd findings) (concat (map fst findings) @ [result]))) (\<lambda>b.
         Inr [b])))))"

section \<open>A run\<close>

definition detected_breaks ::
  "engine \<Rightarrow> ReconciliationContext \<Rightarrow> Observation list \<Rightarrow> BreakSourceReference list \<Rightarrow>
   py_error + TradeBreak list" where
  "detected_breaks en cx observations refs =
     ebind (missing_source_breaks en cx observations refs) (\<lambda>b1.
     ebind (linkage_break en cx observations refs) (\<lambda>b2.
     ebind (duplicate_breaks en cx observations) (\<lambda>b3.
     ebind (currency_breaks en cx observations refs) (\<lambda>b4.
     ebind (economic_breaks en cx observations refs) (\<lambda>b5.
     ebind (date_break en cx observations refs) (\<lambda>b6.
     ebind (lifecycle_break en cx observations refs) (\<lambda>b7.
     ebind (post_action_break en cx refs) (\<lambda>b8.
     Inr (b1 @ b2 @ b3 @ b4 @ b5 @ b6 @ b7 @ b8)))))))))"

definition break_order :: "TradeBreak \<Rightarrow> string \<times> string" where
  "break_order b = (family_str (tb_family b), tb_break_id b)"

definition break_facts_of :: "TradeBreak \<Rightarrow> BreakFact list" where
  "break_facts_of b = map (\<lambda>c. \<lparr>
     bk_family = tb_family b, bk_condition_code = tb_condition_code b,
     bk_field_path = bc_field_path c, bk_value_type = bc_value_type c,
     bk_expected_value = bc_expected_value c, bk_observed_value = bc_observed_value c,
     bk_tolerance = bc_tolerance c, bk_severity = tb_severity b,
     bk_expected_source_observation_id = bc_expected_source_observation_id c,
     bk_observed_source_observation_id = bc_observed_source_observation_id c\<rparr>) (tb_comparisons b)"

definition run_draft ::
  "engine \<Rightarrow> ReconciliationContext \<Rightarrow> Actor \<Rightarrow> BreakSourceReference list \<Rightarrow> TradeBreak list \<Rightarrow>
   ReconciliationRun" where
  "run_draft en cx actor refs breaks = (let canonical = cx_canonical_state cx; cfg = en_config en in \<lparr>
     rn_schema_version = ''1.0.0'', rn_run_id = cx_reconciliation_run_id cx,
     rn_run_version = cx_run_version cx, rn_tenant_id = cs_tenant_id canonical,
     rn_portfolio_id = cs_portfolio_id canonical, rn_correlation_id = cs_correlation_id canonical,
     rn_trade_id = cs_trade_id canonical,
     rn_canonical_state_version = cs_canonical_state_version canonical,
     rn_source_watermark = cs_source_watermark canonical, rn_evaluated_at = effective_evaluated_at cx,
     rn_config_id = cg_config_id cfg, rn_config_version = cg_config_version cfg,
     rn_config_hash = config_content_hash (en_runtime en) cfg,
     rn_detection_rule_version = cg_detection_rule_version cfg,
     rn_result = (if breaks = [] then PASS else BREAKS_DETECTED),
     rn_break_ids = map tb_break_id breaks, rn_breaks = breaks,
     rn_break_facts = concat (map break_facts_of breaks),
     rn_source_version_set = refs, rn_actor = actor,
     rn_content_hash = ''sha256:'' @ replicate 64 CHR ''0''\<rparr>)"

definition default_actor :: Actor where
  "default_actor = \<lparr>identity_type = SYSTEM, actor_id = ''reconciliation_engine''\<rparr>"

definition run :: "engine \<Rightarrow> ReconciliationContext \<Rightarrow> Actor option \<Rightarrow> py_error + ReconciliationRun" where
  "run en cx actor = (
     let now = effective_evaluated_at cx; cfg = en_config en in
     ebind (checked [
       (instant now < instant (cg_effective_from cfg),
          ValueError ''reconciliation config is not effective at evaluated_at''),
       (\<not> opt_ok (\<lambda>t. instant now < instant t) (cg_effective_to cfg),
          ValueError ''reconciliation config is outside its effective interval'')] ()) (\<lambda>_.
     let observations = ordered_observations (cx_source_observations cx) in
     ebind (emap source_reference observations) (\<lambda>refs.
     ebind (detected_breaks en cx observations refs) (\<lambda>found.
     let breaks = sort_key break_order found;
         draft = run_draft en cx (case actor of Some a \<Rightarrow> a | None \<Rightarrow> default_actor) refs breaks;
         content_hash = stable_content_hash (en_runtime en) (run_json (en_runtime en) draft)
     in mk_ReconciliationRun (en_runtime en) (draft\<lparr>rn_content_hash := content_hash\<rparr>)))))"

text \<open>\<open>reconcile(context, config=config, actor=actor)\<close>.\<close>

definition reconcile ::
  "runtime \<Rightarrow> ReconciliationConfig \<Rightarrow> ReconciliationContext \<Rightarrow> Actor option \<Rightarrow> py_error + ReconciliationRun" where
  "reconcile rt config cx actor = run \<lparr>en_runtime = rt, en_config = config\<rparr> cx actor"

end
