(* ===== verification/Recon_Correct.thy ===== *)
theory Recon_Correct
  imports Recon_Engine
begin

text \<open>
  What the reconciliation engine promises: an abstract specification \<open>violated\<close> of the eight break
  families, stated over the set of observations and without any order, and the refinement that a
  run reports exactly the violated families; that a run does not depend on the order in which
  the observations are listed; and that a source set without violations passes.
\<close>

section \<open>Specification\<close>

text \<open>The observation that the canonical state took a field from.\<close>

definition authority :: "ReconciliationContext \<Rightarrow> string \<Rightarrow> Observation \<Rightarrow> bool" where
  "authority cx path ob \<longleftrightarrow> ob \<in> set (cx_source_observations cx) \<and>
     (\<exists>p. provenance_of cx path = Some p \<and> ob_observation_id ob = fp_source_observation_id p)"

definition fields_disagree :: "ReconciliationContext \<Rightarrow> string list \<Rightarrow> bool" where
  "fields_disagree cx paths \<longleftrightarrow> (\<exists>path \<in> set paths. \<exists>base ob.
     authority cx path base \<and> ob \<in> set (cx_source_observations cx) \<and>
     field_value ob path \<noteq> field_value base path)"

definition field_outside_tolerance :: "engine \<Rightarrow> ReconciliationContext \<Rightarrow> string \<Rightarrow> bool" where
  "field_outside_tolerance en cx path \<longleftrightarrow> (\<exists>base ob rule v w x y.
     authority cx path base \<and> ob \<in> set (cx_source_observations cx) \<and> ob \<noteq> base \<and>
     decimal_rule (en_config en) (cf_product_type (cs_state (cx_canonical_state cx))) path = Inr rule \<and>
     field_value base path = Inr v \<and> field_value ob path = Inr w \<and>
     parse_decimal v = Some x \<and> parse_decimal w = Some y \<and>
     within_tolerance x y (dt_tolerance rule) = Inr False)"

definition outside_tolerance :: "engine \<Rightarrow> ReconciliationContext \<Rightarrow> bool" where
  "outside_tolerance en cx \<longleftrightarrow> (\<exists>path \<in> set ECONOMIC_FIELDS. field_outside_tolerance en cx path)"

definition source_overdue :: "engine \<Rightarrow> ReconciliationContext \<Rightarrow> ObservationKind \<Rightarrow> bool" where
  "source_overdue en cx k \<longleftrightarrow> k \<noteq> TRADE_CAPTURE \<and>
     (\<forall>ob \<in> set (cx_source_observations cx). ob_kind ob \<noteq> k) \<and>
     (\<exists>rule t. arrival_rule (en_config en) (cf_product_type (cs_state (cx_canonical_state cx))) k = Inr rule \<and>
        add_seconds (cs_source_watermark (cx_canonical_state cx)) (aw_window_seconds rule) = Inr t \<and>
        instant t \<le> instant (effective_evaluated_at cx))"

definition content_conflict :: "ReconciliationContext \<Rightarrow> bool" where
  "content_conflict cx \<longleftrightarrow> (\<exists>a \<in> set (cx_source_observations cx). \<exists>b \<in> set (cx_source_observations cx).
     ob_kind a = ob_kind b \<and> ob_source_business_key a = ob_source_business_key b \<and>
     ob_source_version a = ob_source_version b \<and> ob_content_hash a \<noteq> ob_content_hash b)"

definition lifecycle_inconsistent :: "engine \<Rightarrow> ReconciliationContext \<Rightarrow> bool" where
  "lifecycle_inconsistent en cx \<longleftrightarrow>
     \<not> (\<exists>s \<in> {AMENDED, CANCELLED}. \<forall>ob \<in> set (cx_source_observations cx).
          fx_lifecycle_status (ob_payload ob) = s) \<and>
     (\<exists>a \<in> set (cx_source_observations cx). \<exists>b \<in> set (cx_source_observations cx). a \<noteq> b) \<and>
     (\<exists>ob \<in> set (cx_source_observations cx). \<exists>rule. lifecycle_rule (en_config en) (ob_kind ob) = Inr rule \<and>
        ls_expected_status rule \<noteq> fx_lifecycle_status (ob_payload ob))"

definition action_unverified :: "ReconciliationContext \<Rightarrow> bool" where
  "action_unverified cx \<longleftrightarrow> (\<exists>v. cx_post_action_verification cx = Some v \<and>
     (pv_changed_fields v \<noteq> [] \<or> \<not> pv_readback_available v \<or> pv_original_break_remaining v \<or>
      (\<exists>post. pv_post_action v = Some post \<and>
         (\<exists>path \<in> set (map fst POST_ACTION_FIELDS). field_value (pv_pre_action v) path \<noteq> field_value post path))))"

fun violated :: "engine \<Rightarrow> ReconciliationContext \<Rightarrow> BreakFamily \<Rightarrow> bool" where
  "violated en cx MISSING_REQUIRED_SOURCE = (\<exists>k. source_overdue en cx k)"
| "violated en cx AMBIGUOUS_OR_UNMATCHED_LINKAGE = linkage_invalid cx"
| "violated en cx DUPLICATE_SOURCE_CONFLICT_FAMILY = content_conflict cx"
| "violated en cx CURRENCY_PAIR_OR_SIDE_MISMATCH = fields_disagree cx (map fst CURRENCY_FIELDS)"
| "violated en cx ECONOMIC_VALUE_MISMATCH = outside_tolerance en cx"
| "violated en cx TRADE_OR_VALUE_DATE_MISMATCH = fields_disagree cx (map fst DATE_FIELDS)"
| "violated en cx LIFECYCLE_STATUS_MISMATCH = lifecycle_inconsistent en cx"
| "violated en cx POST_ACTION_VERIFICATION_FAILURE = action_unverified cx"

section \<open>Observations of an accepted context\<close>

lemma ordered_observations_set [simp]: "set (ordered_observations obs) = set obs"
  by (simp add: ordered_observations_def)

lemma unique_observation:
  assumes "mk_ReconciliationContext cx = Inr cx'"
    and "a \<in> set (cx_source_observations cx)" "b \<in> set (cx_source_observations cx)"
  shows "ob_observation_id a = ob_observation_id b \<longleftrightarrow> a = b"
  using context_accepted(4) [OF assms(1)] assms(2,3) by (auto simp: distinct_map dest: inj_onD)

lemma authoritative_Inr:
  assumes "authoritative_observation cx observations path = Inr base"
    and "set observations = set (cx_source_observations cx)"
  shows "authority cx path base"
  using assms
  by (auto simp: authoritative_observation_def authority_def split: option.splits dest!: find_Some_D)

lemma authority_unique:
  assumes "mk_ReconciliationContext cx = Inr cx'" and "authority cx path a" and "authority cx path b"
  shows "a = b"
  using assms unique_observation [OF assms(1), of a b] by (auto simp: authority_def)

lemma authority_iff:
  assumes "mk_ReconciliationContext cx = Inr cx'" and "authority cx path base"
  shows "authority cx path b \<longleftrightarrow> b = base"
  using authority_unique [OF assms(1)] assms(2) by blast

lemma new_break_family:
  "new_break en cx q = Inr b \<Longrightarrow> tb_family b = bq_family q \<and> tb_severity_context b = bq_severity_context q"
  by (auto simp: new_break_def Let_def result_simps dest!: trade_break_accepted(1))

lemma break_of_findings_families:
  assumes "break_of_findings en cx family refs findings = Inr bs"
  shows "tb_family ` set bs = (if findings = [] then {} else {family})"
  using assms
  by (auto simp: break_of_findings_def result_simps plain_request_def split: if_splits dest!: new_break_family)

lemma disagreement_Nil:
  "disagreement en cx path vt role tol base v found = Inr fs \<Longrightarrow> fs = [] \<longleftrightarrow> found = None"
  by (auto simp: disagreement_def result_simps split: option.splits)

lemma exact_field_Nil:
  assumes cx: "mk_ReconciliationContext cx = Inr cx'"
    and obs: "set observations = set (cx_source_observations cx)"
    and r: "exact_field en cx observations role (path, vt) = Inr fs"
  shows "fs = [] \<longleftrightarrow> \<not> fields_disagree cx [path]"
proof -
  define q where "q base v = (\<lambda>observed.
      if ob_observation_id observed = ob_observation_id base then Inr False
      else ebind (field_value observed path) (\<lambda>w. Inr (w \<noteq> v)))" for base :: Observation and v
  from r obtain base v found where
    base: "authoritative_observation cx observations path = Inr base" and v: "field_value base path = Inr v"
    and found: "efind (q base v) observations = Inr found"
    and d: "disagreement en cx path vt role no_tolerance base v found = Inr fs"
    by (auto simp: exact_field_def q_def result_simps)
  note auth = authoritative_Inr [OF base obs]
  have "fs = [] \<longleftrightarrow> found = None" by (rule disagreement_Nil [OF d])
  also have "\<dots> \<longleftrightarrow> (\<forall>ob \<in> set observations. field_value ob path = field_value base path)"
  proof (cases found)
    case None
    then have "q base v ob = Inr False" if "ob \<in> set observations" for ob
      using efind_None found that by fastforce
    then have "field_value ob path = Inr v" if "ob \<in> set observations" for ob
      using that auth obs v unique_observation [OF cx, of ob base]
      by (cases "ob = base") (fastforce simp: q_def authority_def result_simps)+
    with None v show ?thesis by simp
  next
    case (Some ob)
    with found have ob: "ob \<in> set observations" "q base v ob = Inr True"
      using efind_Some [of "q base v" observations ob] by simp_all
    then have "field_value ob path \<noteq> field_value base path"
      using v by (auto simp: q_def result_simps split: if_splits)
    with Some ob(1) show ?thesis by auto
  qed
  also have "\<dots> \<longleftrightarrow> \<not> fields_disagree cx [path]"
    unfolding fields_disagree_def by (simp add: authority_iff [OF cx auth] obs Ball_def)
  finally show ?thesis .
qed

lemma emap_concat_Nil:
  assumes "econcat (emap f xs) = Inr ys" and "\<And>x zs. x \<in> set xs \<Longrightarrow> f x = Inr zs \<Longrightarrow> zs = [] \<longleftrightarrow> \<not> P x"
  shows "ys = [] \<longleftrightarrow> (\<forall>x \<in> set xs. \<not> P x)"
proof -
  obtain zss where zss: "emap f xs = Inr zss" and ys: "ys = concat zss"
    using assms(1) by (auto simp: econcat_def result_simps)
  have "(\<forall>zs \<in> set zss. zs = []) \<longleftrightarrow> (\<forall>x \<in> set xs. \<not> P x)"
    using zss assms(2)
  proof (induction xs arbitrary: zss)
    case Nil
    then show ?case by simp
  next
    case (Cons x xs)
    then obtain zs rest where "f x = Inr zs" "emap f xs = Inr rest" "zss = zs # rest"
      by (auto simp: result_simps)
    with Cons.IH [of rest] Cons.prems(2) show ?case by auto
  qed
  then show ?thesis by (auto simp: ys)
qed

lemma fields_disagree_list:
  "fields_disagree cx paths \<longleftrightarrow> (\<exists>path \<in> set paths. fields_disagree cx [path])"
  by (auto simp: fields_disagree_def)

lemma exact_breaks_families:
  assumes cx: "mk_ReconciliationContext cx = Inr cx'"
    and obs: "set observations = set (cx_source_observations cx)"
    and r: "ebind (econcat (emap (exact_field en cx observations role) fs)) (break_of_findings en cx family refs) = Inr bs"
  shows "tb_family ` set bs = (if fields_disagree cx (map fst fs) then {family} else {})"
proof -
  obtain findings where f: "econcat (emap (exact_field en cx observations role) fs) = Inr findings"
    and b: "break_of_findings en cx family refs findings = Inr bs"
    using r by (auto simp: result_simps)
  have "findings = [] \<longleftrightarrow> (\<forall>x \<in> set fs. \<not> fields_disagree cx [fst x])"
    by (rule emap_concat_Nil [OF f]) (use exact_field_Nil [OF cx obs] in \<open>metis prod.collapse\<close>)
  also have "\<dots> \<longleftrightarrow> \<not> fields_disagree cx (map fst fs)"
    by (subst fields_disagree_list) auto
  finally show ?thesis using break_of_findings_families [OF b] by simp
qed

section \<open>The other detectors\<close>

lemma engine_decimal_Inr: "engine_decimal w = Inr y \<longleftrightarrow> parse_decimal w = Some y"
  by (auto simp: engine_decimal_def split: option.splits)

lemma economic_field_Nil:
  assumes cx: "mk_ReconciliationContext cx = Inr cx'"
    and obs: "set observations = set (cx_source_observations cx)"
    and r: "economic_field en cx observations path = Inr fs"
  shows "fs = [] \<longleftrightarrow> \<not> field_outside_tolerance en cx path"
proof -
  define q where "q base x rule = (\<lambda>observed.
      if ob_observation_id observed = ob_observation_id base then Inr False
      else ebind (field_value observed path) (\<lambda>w. ebind (engine_decimal w) (\<lambda>y.
        ebind (within_tolerance x y (dt_tolerance rule)) (\<lambda>ok. Inr (\<not> ok)))))"
    for base :: Observation and x and rule :: DecimalToleranceRule
  from r obtain base v x rule found where
    base: "authoritative_observation cx observations path = Inr base" and v: "field_value base path = Inr v"
    and x: "engine_decimal v = Inr x"
    and rule: "decimal_rule (en_config en) (cf_product_type (cs_state (cx_canonical_state cx))) path = Inr rule"
    and found: "efind (q base x rule) observations = Inr found"
    and d: "disagreement en cx path VT_DECIMAL DECIMAL_COMPARISON (dt_tolerance rule) base v found = Inr fs"
    by (auto simp: economic_field_def q_def result_simps)
  note auth = authoritative_Inr [OF base obs]
  have viol: "field_outside_tolerance en cx path \<longleftrightarrow> (\<exists>ob w y. ob \<in> set observations \<and> ob \<noteq> base \<and> field_value ob path = Inr w \<and>
      parse_decimal w = Some y \<and> within_tolerance x y (dt_tolerance rule) = Inr False)"
    using x v rule unfolding field_outside_tolerance_def
    by (simp add: authority_iff [OF cx auth] obs engine_decimal_Inr)
  have q: "q base x rule ob = Inr True \<longleftrightarrow> ob \<noteq> base \<and> (\<exists>w y. field_value ob path = Inr w \<and>
      parse_decimal w = Some y \<and> within_tolerance x y (dt_tolerance rule) = Inr False)"
    if "ob \<in> set observations" for ob
    using that auth obs unique_observation [OF cx, of ob base]
    by (auto simp: q_def authority_def result_simps engine_decimal_Inr)
  have "fs = [] \<longleftrightarrow> found = None" by (rule disagreement_Nil [OF d])
  also have "\<dots> \<longleftrightarrow> \<not> field_outside_tolerance en cx path"
  proof (cases found)
    case None
    then have "q base x rule ob \<noteq> Inr True" if "ob \<in> set observations" for ob
      using efind_None [of "q base x rule" observations ob] found that by auto
    with q None show ?thesis unfolding viol by blast
  next
    case (Some ob)
    with found have "ob \<in> set observations" "q base x rule ob = Inr True"
      using efind_Some [of "q base x rule" observations ob] by simp_all
    with q [of ob] Some show ?thesis unfolding viol by blast
  qed
  finally show ?thesis .
qed

lemma economic_breaks_families:
  assumes cx: "mk_ReconciliationContext cx = Inr cx'"
    and obs: "set observations = set (cx_source_observations cx)"
    and r: "economic_breaks en cx observations refs = Inr bs"
  shows "tb_family ` set bs = (if outside_tolerance en cx then {ECONOMIC_VALUE_MISMATCH} else {})"
proof -
  obtain findings where f: "econcat (emap (economic_field en cx observations) ECONOMIC_FIELDS) = Inr findings"
    and b: "break_of_findings en cx ECONOMIC_VALUE_MISMATCH refs findings = Inr bs"
    using r by (auto simp: economic_breaks_def result_simps)
  have "findings = [] \<longleftrightarrow> \<not> outside_tolerance en cx"
    using emap_concat_Nil [of "economic_field en cx observations" ECONOMIC_FIELDS findings
        "field_outside_tolerance en cx", OF f] economic_field_Nil [OF cx obs]
    by (auto simp: outside_tolerance_def)
  then show ?thesis using break_of_findings_families [OF b] by simp
qed

lemma missing_source_break_families:
  assumes "set observations = set (cx_source_observations cx)" and "k \<in> set MISSING_SOURCE_KINDS"
    and "missing_source_break en cx observations refs k = Inr bs"
  shows "tb_family ` set bs = (if source_overdue en cx k then {MISSING_REQUIRED_SOURCE} else {})"
proof -
  have k: "k \<noteq> TRADE_CAPTURE" using assms(2) by (auto simp: MISSING_SOURCE_KINDS_def)
  show ?thesis
  proof (cases "k \<in> set (map ob_kind observations)")
    case True
    with assms(1,3) show ?thesis by (auto simp: missing_source_break_def source_overdue_def)
  next
    case False
    then obtain rule t where
      rule: "arrival_rule (en_config en) (cf_product_type (cs_state (cx_canonical_state cx))) k = Inr rule"
      and t: "add_seconds (cs_source_watermark (cx_canonical_state cx)) (aw_window_seconds rule) = Inr t"
      and bs: "instant (effective_evaluated_at cx) < instant t \<Longrightarrow> bs = []"
        "\<not> instant (effective_evaluated_at cx) < instant t \<Longrightarrow>
           \<exists>q b. bs = [b] \<and> new_break en cx q = Inr b \<and> bq_family q = MISSING_REQUIRED_SOURCE"
      using assms(3) by (auto simp: missing_source_break_def result_simps split: if_splits) fastforce+
    have "source_overdue en cx k \<longleftrightarrow> \<not> instant (effective_evaluated_at cx) < instant t"
      using False k rule t assms(1) by (auto simp: source_overdue_def)
    then show ?thesis using bs by (auto dest!: new_break_family)
  qed
qed

lemma missing_source_breaks_families:
  assumes obs: "set observations = set (cx_source_observations cx)"
    and r: "missing_source_breaks en cx observations refs = Inr bs"
  shows "tb_family ` set bs = (if \<exists>k. source_overdue en cx k then {MISSING_REQUIRED_SOURCE} else {})"
proof -
  obtain bss where m: "emap (missing_source_break en cx observations refs) MISSING_SOURCE_KINDS = Inr bss"
    and bs: "bs = concat bss"
    using r by (auto simp: missing_source_breaks_def econcat_def result_simps)
  then obtain b1 b2 b3 where b: "bs = b1 @ b2 @ b3"
    "missing_source_break en cx observations refs EXECUTION = Inr b1"
    "missing_source_break en cx observations refs CONFIRMATION = Inr b2"
    "missing_source_break en cx observations refs BOOKING = Inr b3"
    by (auto simp: MISSING_SOURCE_KINDS_def result_simps)
  have e: "(\<exists>k. source_overdue en cx k) \<longleftrightarrow>
      source_overdue en cx EXECUTION \<or> source_overdue en cx CONFIRMATION \<or> source_overdue en cx BOOKING"
    using source_overdue_def ObservationKind.exhaust by metis
  show ?thesis
    using missing_source_break_families [OF obs _ b(2)] missing_source_break_families [OF obs _ b(3)]
      missing_source_break_families [OF obs _ b(4)]
    by (simp add: b(1) e MISSING_SOURCE_KINDS_def image_Un)
qed

lemma linkage_break_families:
  assumes "linkage_break en cx observations refs = Inr bs"
  shows "tb_family ` set bs = (if linkage_invalid cx then {AMBIGUOUS_OR_UNMATCHED_LINKAGE} else {})"
  using assms
  by (auto simp: linkage_break_def Let_def result_simps plain_request_def split: if_splits dest!: new_break_family)

lemma remdups_short: "length (remdups xs) < 2 \<longleftrightarrow> (\<forall>a \<in> set xs. \<forall>b \<in> set xs. a = b)"
proof
  assume l: "length (remdups xs) < 2"
  have s: "set (remdups xs) = set xs" by simp
  show "\<forall>a \<in> set xs. \<forall>b \<in> set xs. a = b"
  proof (cases "remdups xs")
    case Nil
    with s show ?thesis by simp
  next
    case (Cons a ys)
    with l have "ys = []" by simp
    with s Cons have "set xs = {a}" by simp
    then show ?thesis by simp
  qed
next
  assume r: "\<forall>a \<in> set xs. \<forall>b \<in> set xs. a = b"
  have "card (set xs) \<le> 1"
  proof (cases "set xs = {}")
    case False
    then obtain a where "a \<in> set xs" by (meson ex_in_conv)
    with r have "set xs = {a}" by blast
    then show ?thesis by simp
  qed simp
  then show "length (remdups xs) < 2" by (simp add: length_remdups_card_conv)
qed

definition group_conflict :: "Observation list \<Rightarrow> bool" where
  "group_conflict grp \<longleftrightarrow> (\<exists>a \<in> set grp. \<exists>b \<in> set grp. ob_content_hash a \<noteq> ob_content_hash b)"

lemma duplicate_break_families:
  assumes "duplicate_break en cx kg = Inr bs"
  shows "tb_family ` set bs = (if group_conflict (snd kg) then {DUPLICATE_SOURCE_CONFLICT_FAMILY} else {})"
proof -
  obtain k key version grp where kg: "kg = ((k, key, version), grp)" by (metis prod.exhaust)
  have short: "length (remdups (map ob_content_hash grp)) < 2 \<longleftrightarrow> \<not> group_conflict grp"
    by (auto simp: remdups_short group_conflict_def)
  show ?thesis
    using assms
    by (auto simp: kg duplicate_break_def Let_def short result_simps split: if_splits dest!: new_break_family)
qed

lemma econcat_families:
  assumes "econcat (emap f xs) = Inr bs"
    and "\<And>x zs. x \<in> set xs \<Longrightarrow> f x = Inr zs \<Longrightarrow> tb_family ` set zs = (if P x then {F} else {})"
  shows "tb_family ` set bs = (if \<exists>x \<in> set xs. P x then {F} else {})"
proof -
  obtain zss where zss: "emap f xs = Inr zss" and bs: "bs = concat zss"
    using assms(1) by (auto simp: econcat_def result_simps)
  have "tb_family ` set (concat zss) = (if \<exists>x \<in> set xs. P x then {F} else {})"
    using zss assms(2)
  proof (induction xs arbitrary: zss)
    case Nil
    then show ?case by simp
  next
    case (Cons x xs)
    then obtain zs rest where f: "f x = Inr zs" "emap f xs = Inr rest" "zss = zs # rest"
      by (auto simp: result_simps)
    have h: "tb_family ` set zs = (if P x then {F} else {})" using Cons.prems(2) f(1) by simp
    have t: "tb_family ` set (concat rest) = (if \<exists>x \<in> set xs. P x then {F} else {})"
      using Cons.IH [OF f(2)] Cons.prems(2) by simp
    show ?case by (simp only: f(3) concat.simps set_append image_Un h t) simp
  qed
  then show ?thesis by (simp add: bs)
qed

lemma content_conflict_groups:
  assumes "set observations = set (cx_source_observations cx)"
  shows "(\<exists>kg \<in> set (observation_groups observations). group_conflict (snd kg)) \<longleftrightarrow> content_conflict cx"
proof -
  have "(\<exists>kg \<in> set (observation_groups observations). group_conflict (snd kg)) \<longleftrightarrow>
      (\<exists>a \<in> set observations. \<exists>b \<in> set observations. group_key a = group_key b \<and> ob_content_hash a \<noteq> ob_content_hash b)"
    by (auto simp: observation_groups_def group_conflict_def) metis
  then show ?thesis by (auto simp: content_conflict_def group_key_def assms)
qed

lemma duplicate_breaks_families:
  assumes obs: "set observations = set (cx_source_observations cx)"
    and r: "duplicate_breaks en cx observations = Inr bs"
  shows "tb_family ` set bs = (if content_conflict cx then {DUPLICATE_SOURCE_CONFLICT_FAMILY} else {})"
  using econcat_families [OF r [unfolded duplicate_breaks_def], of "\<lambda>kg. group_conflict (snd kg)"]
    duplicate_break_families content_conflict_groups [OF obs] by simp

lemma efilter_Inr:
  "efilter p xs = Inr ys \<Longrightarrow> (\<forall>x \<in> set xs. \<exists>b. p x = Inr b) \<and> set ys = {x \<in> set xs. p x = Inr True}"
  by (induction xs arbitrary: ys) (auto simp: result_simps split: if_splits)

lemma as_expected_Inr:
  "as_expected en ob = Inr b \<longleftrightarrow> (\<exists>rule. lifecycle_rule (en_config en) (ob_kind ob) = Inr rule \<and>
     b = (ls_expected_status rule = fx_lifecycle_status (ob_payload ob)))"
  by (auto simp: as_expected_def lifecycle_expected_def status_of_def result_simps)

lemma lifecycle_counterpart_None:
  assumes "lifecycle_counterpart en observations observed = Inr c"
  shows "c = None \<longleftrightarrow> (\<forall>item \<in> set observations. \<not> other_observation observed item)"
proof -
  obtain first where first: "efind (\<lambda>item. if other_observation observed item then as_expected en item else Inr False)
      observations = Inr first"
    using assms by (auto simp: lifecycle_counterpart_def result_simps)
  show ?thesis
  proof (cases first)
    case None
    with assms first show ?thesis
      by (auto simp: lifecycle_counterpart_def find_None_iff split: option.splits dest: find_Some_D)
  next
    case (Some e)
    then have "e \<in> set observations \<and> other_observation observed e"
      using efind_Some first by (fastforce split: if_splits)
    with Some assms first show ?thesis by (auto simp: lifecycle_counterpart_def)
  qed
qed

lemma uniform_statuses:
  assumes "observations \<noteq> []"
  shows "length (remdups (map status_of observations)) = 1 \<and> hd (map status_of observations) \<in> {''AMENDED'', ''CANCELLED''}
    \<longleftrightarrow> (\<exists>s \<in> {AMENDED, CANCELLED}. \<forall>ob \<in> set observations. fx_lifecycle_status (ob_payload ob) = s)"
proof -
  obtain x xs where x: "observations = x # xs" using assms by (cases observations) auto
  have "length (remdups (map status_of observations)) = 1 \<longleftrightarrow> length (remdups (map status_of observations)) < 2"
    using assms by (cases "remdups (map status_of observations)") (auto simp: less_Suc_eq)
  also have "\<dots> \<longleftrightarrow> (\<forall>a \<in> set (map status_of observations). a = hd (map status_of observations))"
    unfolding remdups_short using assms by (metis hd_in_set list.map_disc_iff)
  also have "\<dots> \<longleftrightarrow> (\<forall>ob \<in> set observations. fx_lifecycle_status (ob_payload ob) = fx_lifecycle_status (ob_payload x))"
    by (simp add: status_of_def x)
  finally have u: "length (remdups (map status_of observations)) = 1 \<longleftrightarrow>
      (\<forall>ob \<in> set observations. fx_lifecycle_status (ob_payload ob) = fx_lifecycle_status (ob_payload x))" .
  have h: "hd (map status_of observations) \<in> {''AMENDED'', ''CANCELLED''} \<longleftrightarrow>
      fx_lifecycle_status (ob_payload x) \<in> {AMENDED, CANCELLED}"
    by (cases "fx_lifecycle_status (ob_payload x)") (simp_all add: x status_of_def)
  show ?thesis unfolding u h by (auto simp: x)
qed

lemma lifecycle_invalid:
  assumes "efilter (\<lambda>ob. ebind (as_expected en ob) (\<lambda>ok. Inr (\<not> ok))) observations = Inr invalid"
  shows "set invalid = {ob \<in> set observations. \<exists>rule. lifecycle_rule (en_config en) (ob_kind ob) = Inr rule \<and>
    ls_expected_status rule \<noteq> fx_lifecycle_status (ob_payload ob)}"
  using efilter_Inr [OF assms] by (auto simp: ebind_eq_Inr as_expected_Inr)

lemma lifecycle_break_families:
  assumes cx: "mk_ReconciliationContext cx = Inr cx'"
    and obs: "set observations = set (cx_source_observations cx)"
    and r: "lifecycle_break en cx observations refs = Inr bs"
  shows "tb_family ` set bs = (if lifecycle_inconsistent en cx then {LIFECYCLE_STATUS_MISMATCH} else {})"
proof (cases "\<exists>s \<in> {AMENDED, CANCELLED}. \<forall>ob \<in> set observations. fx_lifecycle_status (ob_payload ob) = s")
  case True
  have ne: "observations \<noteq> []" using obs context_accepted(7) [OF cx] by (metis set_empty)
  have "bs = []"
    using r True [folded uniform_statuses [OF ne]] unfolding lifecycle_break_def Let_def by simp
  moreover have "\<not> lifecycle_inconsistent en cx" using True obs by (auto simp: lifecycle_inconsistent_def)
  ultimately show ?thesis by simp
next
  case False
  have ne: "observations \<noteq> []" using obs context_accepted(7) [OF cx] by (metis set_empty)
  define tail where "tail invalid = (if invalid = [] then Inr [] else
      ebind (lifecycle_counterpart en observations (hd invalid)) (\<lambda>counterpart.
        case counterpart of None \<Rightarrow> Inr []
        | Some expected \<Rightarrow>
             ebind (comparison_evidence en cx ''/payload/lifecycle_status'' (LIFECYCLE_RELATION, NORMALISATION_RULE)
                      expected (hd invalid) []) (\<lambda>pair.
             ebind (if status_of expected = status_of (hd invalid) then lifecycle_expected en expected
                    else Inr (status_of expected)) (\<lambda>expected_value.
             ebind (comparison en ''/payload/lifecycle_status'' VT_LIFECYCLE_STATUS expected_value
                      (status_of (hd invalid)) no_tolerance
                      (Some expected) (Some (hd invalid)) (map be_evidence_id pair)) (\<lambda>c.
             ebind (new_break en cx (plain_request LIFECYCLE_STATUS_MISMATCH refs [c] pair)) (\<lambda>b.
             Inr [b]))))))" for invalid
  from r False [folded uniform_statuses [OF ne]] obtain invalid where
    inv: "efilter (\<lambda>ob. ebind (as_expected en ob) (\<lambda>ok. Inr (\<not> ok))) observations = Inr invalid"
    and t: "tail invalid = Inr bs"
    unfolding lifecycle_break_def Let_def tail_def by (auto simp: ebind_eq_Inr)
  note iset = lifecycle_invalid [OF inv]
  have u: "\<not> (\<exists>s \<in> {AMENDED, CANCELLED}. \<forall>ob \<in> set (cx_source_observations cx).
      fx_lifecycle_status (ob_payload ob) = s)" using False obs by simp
  show ?thesis
  proof (cases "invalid = []")
    case True
    then have "\<not> lifecycle_inconsistent en cx" using iset obs by (auto simp: lifecycle_inconsistent_def)
    with True t show ?thesis by (simp add: tail_def)
  next
    case inv_ne: False
    then have h: "hd invalid \<in> set invalid" by simp
    obtain c where c: "lifecycle_counterpart en observations (hd invalid) = Inr c"
      using t inv_ne by (auto simp: tail_def ebind_eq_Inr)
    have "c = None \<longleftrightarrow> (\<forall>item \<in> set observations. item = hd invalid)"
      using lifecycle_counterpart_None [OF c] h iset obs unique_observation [OF cx, of _ "hd invalid"]
      by (auto simp: other_observation_def)
    moreover have "lifecycle_inconsistent en cx \<longleftrightarrow>
        (\<exists>a \<in> set observations. \<exists>b \<in> set observations. a \<noteq> b)"
      using h iset u obs unfolding lifecycle_inconsistent_def by auto
    ultimately have "c = None \<longleftrightarrow> \<not> lifecycle_inconsistent en cx"
      using h iset by auto
    moreover have "tb_family ` set bs = (if c = None then {} else {LIFECYCLE_STATUS_MISMATCH})"
      using t inv_ne c
      by (auto simp: tail_def ebind_eq_Inr plain_request_def split: option.splits dest!: new_break_family)
    ultimately show ?thesis by simp
  qed
qed

lemma add_changed_Nil:
  assumes "add_changed pre post f changed = Inr ys"
  shows "ys = [] \<longleftrightarrow> changed = [] \<and> field_value pre (fst f) = field_value post (fst f)"
  using assms by (auto simp: add_changed_def Let_def result_simps split: if_splits)

lemma efold_changed_Nil:
  assumes "efold (add_changed pre post) fs changed = Inr ys"
  shows "ys = [] \<longleftrightarrow> changed = [] \<and> (\<forall>f \<in> set fs. field_value pre (fst f) = field_value post (fst f))"
  using assms
proof (induction fs arbitrary: changed)
  case Nil
  then show ?case by simp
next
  case (Cons f fs)
  then obtain zs where zs: "add_changed pre post f changed = Inr zs" "efold (add_changed pre post) fs zs = Inr ys"
    by (auto simp: result_simps)
  show ?case using add_changed_Nil [OF zs(1)] Cons.IH [OF zs(2)] by auto
qed

lemma changed_fields_Nil:
  assumes "changed_fields v = Inr changed"
  shows "changed = [] \<longleftrightarrow> pv_changed_fields v = [] \<and> pv_readback_available v \<and>
    \<not> pv_original_break_remaining v \<and> (\<forall>post. pv_post_action v = Some post \<longrightarrow>
      (\<forall>path \<in> set (map fst POST_ACTION_FIELDS). field_value (pv_pre_action v) path = field_value post path))"
proof (cases "pv_post_action v")
  case None
  with assms show ?thesis by (auto simp: changed_fields_def result_simps split: if_splits)
next
  case (Some post)
  with assms obtain mid where
    m: "efold (add_changed (pv_pre_action v) post) POST_ACTION_FIELDS (pv_changed_fields v) = Inr mid"
    and c: "(if (\<not> pv_readback_available v \<or> pv_original_break_remaining v) \<and> mid = []
      then ebind (unavailable_field (pv_pre_action v)) (\<lambda>c. Inr [c]) else Inr mid) = Inr changed"
    by (auto simp: changed_fields_def ebind_eq_Inr)
  have "changed = [] \<longleftrightarrow> mid = [] \<and> pv_readback_available v \<and> \<not> pv_original_break_remaining v"
    using c by (auto simp: ebind_eq_Inr split: if_splits)
  with efold_changed_Nil [OF m] Some show ?thesis by auto
qed

lemma post_action_break_families:
  assumes "post_action_break en cx refs = Inr bs"
  shows "tb_family ` set bs = (if action_unverified cx then {POST_ACTION_VERIFICATION_FAILURE} else {})"
proof (cases "cx_post_action_verification cx")
  case None
  with assms show ?thesis by (simp add: post_action_break_def action_unverified_def)
next
  case (Some v)
  with assms obtain changed where c: "changed_fields v = Inr changed"
    by (auto simp: post_action_break_def ebind_eq_Inr)
  have "tb_family ` set bs = (if changed = [] then {} else {POST_ACTION_VERIFICATION_FAILURE})"
    using assms Some c
    by (auto simp: post_action_break_def ebind_eq_Inr plain_request_def split: if_splits dest!: new_break_family)
  moreover have "action_unverified cx \<longleftrightarrow> changed \<noteq> []"
    using Some changed_fields_Nil [OF c] by (auto simp: action_unverified_def)
  ultimately show ?thesis by simp
qed

lemma detected_families:
  assumes cx: "mk_ReconciliationContext cx = Inr cx'"
    and obs: "set observations = set (cx_source_observations cx)"
    and r: "detected_breaks en cx observations refs = Inr bs"
  shows "tb_family ` set bs = {F. violated en cx F}"
proof -
  obtain b1 b2 b3 b4 b5 b6 b7 b8 where b: "bs = b1 @ b2 @ b3 @ b4 @ b5 @ b6 @ b7 @ b8"
    "missing_source_breaks en cx observations refs = Inr b1"
    "linkage_break en cx observations refs = Inr b2"
    "duplicate_breaks en cx observations = Inr b3"
    "currency_breaks en cx observations refs = Inr b4"
    "economic_breaks en cx observations refs = Inr b5"
    "date_break en cx observations refs = Inr b6"
    "lifecycle_break en cx observations refs = Inr b7"
    "post_action_break en cx refs = Inr b8"
    using r by (auto simp: detected_breaks_def ebind_eq_Inr)
  note fam = missing_source_breaks_families [OF obs b(2)] linkage_break_families [OF b(3)]
    duplicate_breaks_families [OF obs b(4)]
    exact_breaks_families [OF cx obs b(5) [unfolded currency_breaks_def]]
    economic_breaks_families [OF cx obs b(6)]
    exact_breaks_families [OF cx obs b(7) [unfolded date_break_def]]
    lifecycle_break_families [OF cx obs b(8)] post_action_break_families [OF b(9)]
  have "F \<in> tb_family ` set bs \<longleftrightarrow> violated en cx F" for F
    unfolding b(1) set_append image_Un fam by (cases F) simp_all
  then show ?thesis by blast
qed

lemma run_Inr:
  assumes "run en cx actor = Inr r"
  obtains refs found where
    "emap source_reference (ordered_observations (cx_source_observations cx)) = Inr refs"
    "detected_breaks en cx (ordered_observations (cx_source_observations cx)) refs = Inr found"
    "rn_breaks r = sort_key break_order found" "rn_result r = (if found = [] then PASS else BREAKS_DETECTED)"
    "mk_ReconciliationRun (en_runtime en) r = Inr r"
    "r = (run_draft en cx (case actor of Some a \<Rightarrow> a | None \<Rightarrow> default_actor) refs (sort_key break_order found))
       \<lparr>rn_content_hash := rn_content_hash r\<rparr>"
proof -
  from assms obtain refs found where a:
    "emap source_reference (ordered_observations (cx_source_observations cx)) = Inr refs"
    "detected_breaks en cx (ordered_observations (cx_source_observations cx)) refs = Inr found"
    and m: "mk_ReconciliationRun (en_runtime en) ((run_draft en cx (case actor of Some a \<Rightarrow> a | None \<Rightarrow> default_actor)
      refs (sort_key break_order found))\<lparr>rn_content_hash := stable_content_hash (en_runtime en)
        (run_json (en_runtime en) (run_draft en cx (case actor of Some a \<Rightarrow> a | None \<Rightarrow> default_actor) refs
          (sort_key break_order found)))\<rparr>) = Inr r"
    unfolding run_def Let_def by (auto simp: ebind_eq_Inr)
  have eq: "x = r" if "mk_ReconciliationRun rt x = Inr r" for rt x
    using that by (auto simp: mk_ReconciliationRun_def validate_result_shape_def result_simps check_simps)
  show thesis
    by (rule that [OF a]) (use eq [OF m] m in \<open>auto simp: run_draft_def Let_def\<close>)
qed

lemma run_verdict:
  assumes "mk_ReconciliationContext cx = Inr cx" and "run en cx actor = Inr r"
  shows "tb_family ` set (rn_breaks r) = {F. violated en cx F}" and "rn_result r = PASS \<longleftrightarrow> rn_breaks r = []"
proof -
  obtain refs found where
    d: "detected_breaks en cx (ordered_observations (cx_source_observations cx)) refs = Inr found"
    and b: "rn_breaks r = sort_key break_order found"
    and p: "rn_result r = (if found = [] then PASS else BREAKS_DETECTED)"
    using run_Inr [OF assms(2)] by metis
  show "tb_family ` set (rn_breaks r) = {F. violated en cx F}"
    using detected_families [OF assms(1) _ d] by (simp add: b)
  show "rn_result r = PASS \<longleftrightarrow> rn_breaks r = []"
    using arg_cong [OF b, of length] by (auto simp: p)
qed

text \<open>C3: Reconciliation refines its specification: whatever context passed validation, a run that
  returns reports a break of a family exactly when that family's condition is violated by the
  source set, and its result is a pass exactly when no family is violated.\<close>

theorem run_reports_exactly_the_violations:
  assumes "mk_ReconciliationContext cx = Inr cx" and "run en cx actor = Inr r"
  shows "(\<forall>F. (\<exists>b \<in> set (rn_breaks r). tb_family b = F) \<longleftrightarrow> violated en cx F) \<and>
    (rn_result r = PASS \<longleftrightarrow> (\<forall>F. \<not> violated en cx F))"
proof -
  obtain refs found where
    d: "detected_breaks en cx (ordered_observations (cx_source_observations cx)) refs = Inr found"
    and b: "rn_breaks r = sort_key break_order found"
    and p: "rn_result r = (if found = [] then PASS else BREAKS_DETECTED)"
    using run_Inr [OF assms(2)] by metis
  have f: "tb_family ` set found = {F. violated en cx F}"
    by (rule detected_families [OF assms(1) _ d]) simp
  have "(\<exists>b \<in> set (rn_breaks r). tb_family b = F) \<longleftrightarrow> violated en cx F" for F
  proof -
    have "(\<exists>b \<in> set found. tb_family b = F) \<longleftrightarrow> F \<in> tb_family ` set found" by blast
    then show ?thesis by (simp add: b f)
  qed
  moreover have "found = [] \<longleftrightarrow> (\<forall>F. \<not> violated en cx F)"
    using f by (cases found) auto
  ultimately show ?thesis using p by simp
qed

section \<open>Independence of the order of the observations\<close>

text \<open>The detectors read the observations from their argument and never from the context.\<close>

abbreviation reordered :: "ReconciliationContext \<Rightarrow> Observation list \<Rightarrow> ReconciliationContext" where
  "reordered cx os \<equiv> cx\<lparr>cx_source_observations := os\<rparr>"

lemma reordered_sel:
  "cx_reconciliation_run_id (reordered cx os) = cx_reconciliation_run_id cx"
  "cx_run_version (reordered cx os) = cx_run_version cx"
  "cx_canonical_state (reordered cx os) = cx_canonical_state cx"
  "cx_evaluated_at (reordered cx os) = cx_evaluated_at cx"
  "cx_linkage_decision (reordered cx os) = cx_linkage_decision cx"
  "cx_post_action_verification (reordered cx os) = cx_post_action_verification cx"
  by simp_all

lemma reordered_time: "effective_evaluated_at (reordered cx os) = effective_evaluated_at cx"
  unfolding effective_evaluated_at_def reordered_sel by (rule refl)

lemma reordered_parts:
  "linkage_invalid (reordered cx os) = linkage_invalid cx"
  "provenance_of (reordered cx os) = provenance_of cx"
  "break_id_of en (reordered cx os) = break_id_of en cx"
  "break_deadline (reordered cx os) = break_deadline cx"
  "missing_expectation (reordered cx os) = missing_expectation cx"
  "evidence_payload en (reordered cx os) = evidence_payload en cx"
  unfolding linkage_invalid_def provenance_of_def [abs_def] break_id_of_def [abs_def]
    break_deadline_def [abs_def] missing_expectation_def [abs_def] evidence_payload_def [abs_def]
    reordered_sel reordered_time by (rule refl)+

lemma reordered_evidence:
  "evidence en (reordered cx os) = evidence en cx"
  "authoritative_observation (reordered cx os) = authoritative_observation cx"
  "new_break en (reordered cx os) = new_break en cx"
  unfolding evidence_def [abs_def] authoritative_observation_def [abs_def] new_break_def [abs_def]
    reordered_sel reordered_time reordered_parts by (rule refl)+

lemma reordered_comparison_evidence:
  "comparison_evidence en (reordered cx os) = comparison_evidence en cx"
  unfolding comparison_evidence_def [abs_def] reordered_evidence by (rule refl)

lemmas reordered_leaves = reordered_sel reordered_time reordered_parts reordered_evidence
  reordered_comparison_evidence

lemma reordered_fields:
  "disagreement en (reordered cx os) = disagreement en cx"
  "break_of_findings en (reordered cx os) = break_of_findings en cx"
  unfolding disagreement_def [abs_def] break_of_findings_def [abs_def] reordered_leaves by (rule refl)+

lemma reordered_detectors:
  "missing_source_break en (reordered cx os) = missing_source_break en cx"
  "linkage_break en (reordered cx os) = linkage_break en cx"
  "duplicate_break en (reordered cx os) = duplicate_break en cx"
  "exact_field en (reordered cx os) = exact_field en cx"
  "economic_field en (reordered cx os) = economic_field en cx"
  "lifecycle_break en (reordered cx os) = lifecycle_break en cx"
  "post_action_finding en (reordered cx os) = post_action_finding en cx"
  unfolding missing_source_break_def [abs_def] linkage_break_def [abs_def]
      duplicate_break_def [abs_def] exact_field_def [abs_def] economic_field_def [abs_def]
      lifecycle_break_def [abs_def] post_action_finding_def [abs_def] reordered_leaves reordered_fields
  by (rule refl)+

lemma reordered_post_action: "post_action_break en (reordered cx os) = post_action_break en cx"
  unfolding post_action_break_def [abs_def] reordered_detectors reordered_leaves by (rule refl)

lemma reordered_detected_breaks: "detected_breaks en (reordered cx os) = detected_breaks en cx"
  unfolding detected_breaks_def [abs_def] missing_source_breaks_def duplicate_breaks_def currency_breaks_def
    economic_breaks_def date_break_def reordered_detectors reordered_leaves reordered_fields reordered_post_action
  by (rule refl)

lemma reordered_run_draft: "run_draft en (reordered cx os) = run_draft en cx"
  unfolding run_draft_def [abs_def] reordered_leaves by (rule refl)

lemma ordered_observations_permutation:
  assumes "distinct (map ob_observation_id obs)" and "mset os = mset obs"
  shows "ordered_observations os = ordered_observations obs"
proof -
  have "inj_on order_key (set os)"
    using assms mset_eq_setD [OF assms(2)] by (auto simp: inj_on_def order_key_def distinct_map)
  then show ?thesis unfolding ordered_observations_def by (rule sort_key_permutation [OF assms(2)])
qed

text \<open>C6: A run does not depend on the order in which the source observations are listed: any
  permutation of the observations of a context gives the same run, break identifiers, evidence
  identifiers and content hash included, or raises the same exception.\<close>

theorem run_order_independent:
  assumes "mk_ReconciliationContext cx = Inr cx" and "mset os = mset (cx_source_observations cx)"
  shows "run en (cx\<lparr>cx_source_observations := os\<rparr>) actor = run en cx actor"
proof -
  have "ordered_observations os = ordered_observations (cx_source_observations cx)"
    by (rule ordered_observations_permutation [OF context_accepted(4) [OF assms(1)] assms(2)])
  then have "ordered_observations (cx_source_observations (cx\<lparr>cx_source_observations := os\<rparr>)) =
      ordered_observations (cx_source_observations cx)" by simp
  then show ?thesis
    unfolding run_def reordered_detected_breaks reordered_run_draft reordered_time
    by (rule arg_cong)
qed

section \<open>What a run guarantees of its breaks\<close>

lemma new_break_opens:
  assumes "new_break en cx q = Inr b"
  shows "mk_TradeBreak b = Inr b" and "tb_state b = OPEN" and "tb_break_version b = 1"
    and "tb_detected_at b = effective_evaluated_at cx"
proof -
  obtain x where x: "mk_TradeBreak x = Inr b" "tb_state x = OPEN" "tb_break_version x = 1"
    "tb_detected_at x = effective_evaluated_at cx"
    using assms by (auto simp: new_break_def Let_def result_simps)
  have "b = x" by (rule trade_break_accepted(1) [OF x(1)])
  with x show "mk_TradeBreak b = Inr b" "tb_state b = OPEN" "tb_break_version b = 1"
    "tb_detected_at b = effective_evaluated_at cx" by simp_all
qed

definition fresh_break :: "ReconciliationContext \<Rightarrow> TradeBreak \<Rightarrow> bool" where
  "fresh_break cx b \<longleftrightarrow> mk_TradeBreak b = Inr b \<and> tb_state b = OPEN \<and> tb_break_version b = 1 \<and>
     tb_detected_at b = effective_evaluated_at cx"

lemma fresh_new_break: "new_break en cx q = Inr b \<Longrightarrow> fresh_break cx b"
  using new_break_opens by (simp add: fresh_break_def)

lemma econcat_all:
  assumes "econcat (emap f xs) = Inr bs" and "\<And>x zs z. f x = Inr zs \<Longrightarrow> z \<in> set zs \<Longrightarrow> P z" and "b \<in> set bs"
  shows "P b"
proof -
  obtain yss zs where "emap f xs = Inr yss" "zs \<in> set yss" "b \<in> set zs"
    using assms(1,3) by (auto simp: econcat_def result_simps)
  then show ?thesis using assms(2) by (metis emap_Inr_mem)
qed

lemma break_of_findings_fresh:
  "break_of_findings en cx F refs fs = Inr bs \<Longrightarrow> b \<in> set bs \<Longrightarrow> fresh_break cx b"
  by (auto simp: break_of_findings_def result_simps split: if_splits dest!: fresh_new_break)

lemma detected_fresh:
  assumes "detected_breaks en cx observations refs = Inr bs" and "b \<in> set bs"
  shows "fresh_break cx b"
proof -
  have m: "fresh_break cx z" if "missing_source_break en cx observations refs k = Inr zs" "z \<in> set zs" for k zs z
    using that by (auto simp: missing_source_break_def result_simps split: if_splits dest!: fresh_new_break)
  have d: "fresh_break cx z" if "duplicate_break en cx kg = Inr zs" "z \<in> set zs" for kg zs z
    using that by (auto simp: duplicate_break_def Let_def result_simps split: if_splits prod.splits dest!: fresh_new_break)
  have l: "fresh_break cx z" if "linkage_break en cx observations refs = Inr zs" "z \<in> set zs" for zs z
    using that by (auto simp: linkage_break_def Let_def result_simps split: if_splits dest!: fresh_new_break)
  have s: "fresh_break cx z" if "lifecycle_break en cx observations refs = Inr zs" "z \<in> set zs" for zs z
    using that by (auto simp: lifecycle_break_def Let_def result_simps split: if_splits option.splits dest!: fresh_new_break)
  have p: "fresh_break cx z" if "post_action_break en cx refs = Inr zs" "z \<in> set zs" for zs z
    using that by (auto simp: post_action_break_def result_simps split: if_splits option.splits dest!: fresh_new_break)
  show ?thesis
    using assms econcat_all [OF _ m] econcat_all [OF _ d] l s p break_of_findings_fresh
    by (auto simp: detected_breaks_def ebind_eq_Inr missing_source_breaks_def duplicate_breaks_def
        currency_breaks_def economic_breaks_def date_break_def)
qed

text \<open>C7: Every break of a run is a document that passes the break contract, newly opened at the
  evaluation time, bound to the run and inside its tenant, portfolio, correlation and trade; the
  breaks are in the order of family and identifier, their identifiers are distinct, and the
  content hash of the run is that of its content.\<close>

theorem run_envelope_is_sound:
  assumes "run en cx actor = Inr r"
  shows "(\<forall>b \<in> set (rn_breaks r). mk_TradeBreak b = Inr b \<and> tb_state b = OPEN \<and>
      tb_detected_at b = effective_evaluated_at cx \<and> tb_reconciliation_run_id b = rn_run_id r \<and>
      (tb_tenant_id b, tb_portfolio_id b, tb_correlation_id b, tb_trade_id b) =
        (rn_tenant_id r, rn_portfolio_id r, rn_correlation_id r, rn_trade_id r)) \<and>
    sorted (map break_order (rn_breaks r)) \<and> distinct (map tb_break_id (rn_breaks r)) \<and>
    length (rn_break_facts r) = sum_list (map (\<lambda>b. length (tb_comparisons b)) (rn_breaks r)) \<and>
    rn_content_hash r = stable_content_hash (en_runtime en) (run_json (en_runtime en) r)"
proof -
  obtain refs found where
    d: "detected_breaks en cx (ordered_observations (cx_source_observations cx)) refs = Inr found"
    and b: "rn_breaks r = sort_key break_order found"
    and m: "mk_ReconciliationRun (en_runtime en) r = Inr r"
    using run_Inr [OF assms] by metis
  have v: "validate_result_shape (en_runtime en) r = Inr r"
    using m by (auto simp: mk_ReconciliationRun_def result_simps)
  have "fresh_break cx x" if "x \<in> set (rn_breaks r)" for x
    using detected_fresh [OF d] that b by simp
  moreover have "first_error (break_binding_checks r x) = None" if "x \<in> set (rn_breaks r)" for x
    using v that by (simp add: validate_result_shape_def check_simps first_error_concat_None)
  moreover have "distinct (map tb_break_id (rn_breaks r)) \<and>
      length (rn_break_facts r) = sum_list (map (\<lambda>b. length (tb_comparisons b)) (rn_breaks r)) \<and>
      rn_content_hash r = stable_content_hash (en_runtime en) (run_json (en_runtime en) r)"
    using v by (auto simp: validate_result_shape_def check_simps)
  ultimately show ?thesis
    by (simp add: b fresh_break_def break_binding_checks_def check_simps)
qed

end
