(* ===== verification/Sha256.thy ===== *)
theory Sha256
  imports Runtime "HOL-Library.Word"
begin

text \<open>
  The digests of the standard library that the sources call: \<open>hashlib.sha256(b).hexdigest()\<close> and
  \<open>hmac.new(key, b, hashlib.sha256).hexdigest()\<close>, on 32-bit words. A byte string is a \<open>string\<close>, one
  character per byte. They interpret the locale \<open>hex_digest\<close>.
\<close>

unbundle bit_operations_syntax

type_synonym u32 = "32 word"

type_synonym hash_state = "u32 \<times> u32 \<times> u32 \<times> u32 \<times> u32 \<times> u32 \<times> u32 \<times> u32"

section \<open>Words and bytes\<close>

definition byte_char :: "u32 \<Rightarrow> char" where
  "byte_char w = char_of (uint (w AND 0xFF))"

definition word_bytes :: "u32 \<Rightarrow> string" where
  "word_bytes w = map (\<lambda>k. byte_char (drop_bit k w)) [24, 16, 8, 0]"

fun words_of :: "string \<Rightarrow> u32 list" where
  "words_of (a # b # c # d # r) =
     (push_bit 24 (of_char a) OR push_bit 16 (of_char b) OR push_bit 8 (of_char c) OR of_char d) # words_of r"
| "words_of _ = []"

text \<open>The message, one bit, zeros up to eight bytes short of a block, and the number of bits.\<close>

definition length_bytes :: "nat \<Rightarrow> string" where
  "length_bytes n = word_bytes (of_int (8 * int n div 2 ^ 32)) @ word_bytes (of_int (8 * int n))"

definition sha_pad :: "string \<Rightarrow> string" where
  "sha_pad m = m @ [char_of (128 :: nat)] @ replicate ((119 - length m mod 64) mod 64) (char_of (0 :: nat)) @
     length_bytes (length m)"

function blocks_of :: "u32 list \<Rightarrow> u32 list list" where
  "blocks_of ws = (if ws = [] then [] else take 16 ws # blocks_of (drop 16 ws))"
  by pat_completeness auto
termination by (relation "measure length") auto

declare blocks_of.simps [simp del]

section \<open>The compression function\<close>

text \<open>
  The constants are the first 32 bits of the fractions of the cube roots of the first 64 primes and of
  the square roots of the first 8.
\<close>

definition primes_below :: "int \<Rightarrow> int list" where
  "primes_below n = filter (\<lambda>p. list_all (\<lambda>d. p mod d \<noteq> 0) [2..p - 1]) [2..n - 1]"

definition integer_root :: "nat \<Rightarrow> int \<Rightarrow> int" where
  "integer_root k n = fold (\<lambda>i r. if (r + 2 ^ i) ^ k \<le> n then r + 2 ^ i else r) (rev [0..<36]) 0"

definition root_fraction :: "nat \<Rightarrow> int \<Rightarrow> u32" where
  "root_fraction k p = word_of_int (integer_root k (p * 2 ^ (32 * k)))"

definition round_constants :: "u32 list" where
  "round_constants = map (root_fraction 3) (primes_below 312)"

definition initial_hash :: hash_state where
  "initial_hash = (let h = map (root_fraction 2) (primes_below 20) in
     (h ! 0, h ! 1, h ! 2, h ! 3, h ! 4, h ! 5, h ! 6, h ! 7))"

definition rotr :: "nat \<Rightarrow> u32 \<Rightarrow> u32" where
  "rotr n x = drop_bit n x OR push_bit (32 - n) x"

text \<open>The schedule is kept in reverse: the word of 16 rounds ago is at index 15.\<close>

definition next_word :: "u32 list \<Rightarrow> u32" where
  "next_word ws = (
     let s0 = (\<lambda>x. rotr 7 x XOR rotr 18 x XOR drop_bit 3 x); s1 = (\<lambda>x. rotr 17 x XOR rotr 19 x XOR drop_bit 10 x)
     in s1 (ws ! 1) + ws ! 6 + s0 (ws ! 14) + ws ! 15)"

definition schedule :: "u32 list \<Rightarrow> u32 list" where
  "schedule block = rev (((\<lambda>ws. next_word ws # ws) ^^ 48) (rev block))"

definition sha_round :: "hash_state \<Rightarrow> u32 \<times> u32 \<Rightarrow> hash_state" where
  "sha_round st kw = (case (st, kw) of ((a, b, c, d, e, f, g, h), (k, w)) \<Rightarrow>
     let t1 = h + (rotr 6 e XOR rotr 11 e XOR rotr 25 e) + ((e AND f) XOR (NOT e AND g)) + k + w;
         t2 = (rotr 2 a XOR rotr 13 a XOR rotr 22 a) + ((a AND b) XOR (a AND c) XOR (b AND c))
     in (t1 + t2, a, b, c, d + t1, e, f, g))"

definition sha_compress :: "hash_state \<Rightarrow> u32 list \<Rightarrow> hash_state" where
  "sha_compress st block = (case (st, foldl sha_round st (zip round_constants (schedule block))) of
     ((a, b, c, d, e, f, g, h), (a', b', c', d', e', f', g', h')) \<Rightarrow>
       (a + a', b + b', c + c', d + d', e + e', f + f', g + g', h + h'))"

definition sha256_bytes :: "string \<Rightarrow> string" where
  "sha256_bytes m = (case foldl sha_compress initial_hash (blocks_of (words_of (sha_pad m))) of
     (a, b, c, d, e, f, g, h) \<Rightarrow> concat (map word_bytes [a, b, c, d, e, f, g, h]))"

definition hex_byte :: "char \<Rightarrow> string" where
  "hex_byte c = [hex_char (of_char c div 16), hex_char (of_char c mod 16)]"

definition sha256_hex :: "string \<Rightarrow> string" where
  "sha256_hex m = concat (map hex_byte (sha256_bytes m))"

section \<open>HMAC\<close>

definition xor_byte :: "nat \<Rightarrow> char \<Rightarrow> char" where
  "xor_byte k c = char_of (k XOR of_char c)"

definition hmac_sha256_hex :: "string \<Rightarrow> string \<Rightarrow> string" where
  "hmac_sha256_hex key m = (
     let short = (if 64 < length key then sha256_bytes key else key);
         block = short @ replicate (64 - length short) (char_of (0 :: nat))
     in sha256_hex (map (xor_byte 0x5C) block @ sha256_bytes (map (xor_byte 0x36) block @ m)))"

section \<open>The contract of a digest\<close>

lemma sha256_bytes_length: "length (sha256_bytes m) = 32"
  by (simp add: sha256_bytes_def word_bytes_def split: prod.split)

lemma hex_char_hex: "n < 16 \<Longrightarrow> is_hex (hex_char n)"
  by (auto simp: hex_char_def is_hex_def is_digit_def Let_def)

lemma hex_digits: "length (concat (map hex_byte bs)) = 2 * length bs" "c \<in> set (concat (map hex_byte bs)) \<Longrightarrow> is_hex c"
proof -
  show "length (concat (map hex_byte bs)) = 2 * length bs" by (induction bs) (simp_all add: hex_byte_def)
  have "of_char b < (256 :: nat)" for b by (metis mod_less_divisor of_char_mod_256 zero_less_numeral)
  then have "of_char b div 16 < (16 :: nat)" for b by (simp add: less_mult_imp_div_less)
  then show "c \<in> set (concat (map hex_byte bs)) \<Longrightarrow> is_hex c" by (auto simp: hex_byte_def intro: hex_char_hex)
qed

interpretation sha: hex_digest sha256_hex
  by unfold_locales (use hex_digits [where bs = "sha256_bytes b" for b] in \<open>auto simp: sha256_hex_def sha256_bytes_length\<close>)

interpretation hmac_sha: hex_digest "hmac_sha256_hex key" for key
  by unfold_locales (simp_all add: hmac_sha256_hex_def Let_def sha.digest_length sha.digest_hex)

text \<open>The runtime with these digests; the two renderings of pydantic-core and of floats stay arguments.\<close>

definition sha_runtime :: "(datetime \<Rightarrow> string) \<Rightarrow> (rat \<Rightarrow> string) \<Rightarrow> runtime" where
  "sha_runtime render_datetime render_float = \<lparr>
     sha256_hexdigest = sha256_hex, hmac_sha256_hexdigest = hmac_sha256_hex,
     datetime_json = render_datetime, float_repr = render_float\<rparr>"

end
