(* ===== verification/Recon_Total.thy ===== *)
theory Recon_Total
  imports Recon_Correct Sha256
begin

text \<open>
  When a reconciliation run returns: decimal texts that match the contract's pattern parse, every
  field the detectors read exists, the authority of a canonical field is among the observations,
  so each detector returns on a source set that does not violate its family; and a run returns
  whenever its detectors do and the breaks they found have distinct identifiers.
\<close>

section \<open>Decimal texts\<close>

lemma decimal_char:
  assumes "is_digit c \<or> c = CHR ''.''"
  shows "\<not> is_space c" and "c \<noteq> CHR ''_''" and "lower_char c = c" and "c \<noteq> CHR ''e''"
  using assms
  by (auto simp: is_digit_def is_space_def lower_char_def is_upper_alpha_def Let_def)

lemma decimal_value_chars:
  assumes "is_decimal_value s" and "c \<in> set s"
  shows "is_digit c \<or> c = CHR ''.''"
proof -
  define w where "w = takeWhile (\<lambda>c. c \<noteq> CHR ''.'') s"
  define f where "f = dropWhile (\<lambda>c. c \<noteq> CHR ''.'') s"
  have s: "s = w @ f" by (simp add: w_def f_def)
  have f: "f = [] \<or> (hd f = CHR ''.'' \<and> list_all is_digit (tl f))"
    using assms(1) hd_dropWhile [of "\<lambda>c. c \<noteq> CHR ''.''" s]
    by (auto simp: is_decimal_value_def Let_def f_def)
  have "list_all is_digit w" using assms(1) by (simp add: is_decimal_value_def Let_def w_def)
  with f assms(2) show ?thesis unfolding s by (cases f) (auto simp: list_all_iff)
qed

lemma strip_no_space: "(\<And>c. c \<in> set s \<Longrightarrow> \<not> is_space c) \<Longrightarrow> py_strip s = s"
proof -
  have d: "dropWhile p xs = xs" if "\<And>c. c \<in> set xs \<Longrightarrow> \<not> p c" for p and xs :: "char list"
    using that by (cases xs) auto
  show "py_strip s = s" if "\<And>c. c \<in> set s \<Longrightarrow> \<not> is_space c"
    using d [of s is_space] d [of "rev s" is_space] that by (simp add: py_strip_def)
qed

lemma decimal_value_parts:
  assumes "is_decimal_value s"
  shows "takeWhile (\<lambda>c. c \<noteq> CHR ''.'') s \<noteq> []" and "list_all is_digit (takeWhile (\<lambda>c. c \<noteq> CHR ''.'') s)"
    and "list_all is_digit (tl (dropWhile (\<lambda>c. c \<noteq> CHR ''.'') s))"
  using assms unfolding is_decimal_value_def Let_def by (metis list.sel(2) list.pred_inject(1))+

lemma decimal_value_parses:
  assumes "is_decimal_value s"
  shows "\<exists>c e. parse_decimal s = Some (Fin c e)"
proof -
  note ch = decimal_char [OF decimal_value_chars [OF assms]]
  have "map lower_char s = s" using ch(3) by (induction s) auto
  then have t: "lower (filter (\<lambda>c. c \<noteq> CHR ''_'') (py_strip s)) = s"
    using ch(1,2) by (simp add: strip_no_space lower_def filter_id_conv [THEN iffD2])
  obtain d r where s: "s = d # r" "is_digit d"
    using decimal_value_parts(1,2) [OF assms] by (cases s) (auto split: if_splits)
  then have h: "d \<noteq> CHR ''-''" "d \<noteq> CHR ''+''" "d \<noteq> CHR ''i''" "d \<noteq> CHR ''n''" "d \<noteq> CHR ''s''"
    by (auto simp: is_digit_def)
  have "split_at (\<lambda>c. c = CHR ''e'') s = (s, [])"
    using ch(4) by (auto simp: split_at_def takeWhile_eq_all_conv dropWhile_eq_Nil_conv)
  then have "\<exists>ce. parse_number s = Some ce"
    using decimal_value_parts [OF assms]
    unfolding parse_number_def by (simp add: parse_exponent_def split_at_def [of "\<lambda>c. c = CHR ''.''"])
  then obtain c e where "parse_number s = Some (c, e)" by auto
  then show ?thesis
    unfolding parse_decimal_def t using s(1) h by (simp add: Let_def starts_with_def)
qed

lemma within_tolerance_total:
  assumes "mk_BreakTolerance t = Inr t'"
  shows "\<exists>b. within_tolerance (Fin x e) (Fin y f) t = Inr b"
proof -
  have fin: "\<exists>c g. dec_round a h = Fin c g" for a h by (simp add: dec_round_def Let_def)
  obtain c g where sub: "dec_sub (Fin y f) (Fin x e) = Some (Fin c g)"
    using fin [of "align y f (min f e) - align x e (min f e)" "min f e"] by (auto simp: Let_def)
  obtain c' g' where ab: "dec_abs (Fin c g) = Some (Fin c' g')" using fin [of "\<bar>c\<bar>" g] by auto
  obtain a h where ax: "dec_abs (Fin x e) = Some (Fin a h)" using fin [of "\<bar>x\<bar>" e] by auto
  have tol: "to_mode t \<noteq> TOL_NONE \<Longrightarrow> \<exists>v k n. to_value t = Some v \<and> parse_decimal v = Some (Fin k n)"
    using assms decimal_value_parses by (auto simp: mk_BreakTolerance_def check_simps opt_ok_def)
  show ?thesis
  proof (cases "to_mode t = TOL_NONE")
    case True
    then show ?thesis unfolding within_tolerance_def sub by (simp add: signal_def ab del: dec_abs.simps)
  next
    case False
    then obtain v k n where v: "to_value t = Some v" "parse_decimal v = Some (Fin k n)" using tol by blast
    obtain m l where "dec_mul (Fin a h) (Fin k n) = Some (Fin m l)" using fin [of "a * k" "h + n"] by auto
    with False v show ?thesis
      unfolding within_tolerance_def sub by (simp add: signal_def ab ax del: dec_abs.simps dec_mul.simps)
  qed
qed

section \<open>Fields\<close>

lemma leaf_of_path [simp]:
  "after_last_slash ''/payload/base_currency'' = ''base_currency''"
  "after_last_slash ''/payload/terms_currency'' = ''terms_currency''"
  "after_last_slash ''/payload/side'' = ''side''"
  "after_last_slash ''/payload/base_amount'' = ''base_amount''"
  "after_last_slash ''/payload/terms_amount'' = ''terms_amount''"
  "after_last_slash ''/payload/quoted_rate'' = ''quoted_rate''"
  "after_last_slash ''/payload/trade_date'' = ''trade_date''"
  "after_last_slash ''/payload/value_date'' = ''value_date''"
  by (simp_all add: after_last_slash_def)

abbreviation compared_paths :: "string list" where
  "compared_paths \<equiv> map fst CURRENCY_FIELDS @ map fst DATE_FIELDS @ ECONOMIC_FIELDS"

lemma compared_field_value: "path \<in> set compared_paths \<Longrightarrow> \<exists>v. field_value ob path = Inr v"
  by (auto simp: CURRENCY_FIELDS_def DATE_FIELDS_def ECONOMIC_FIELDS_def field_value_def Let_def)

lemma economic_value_parses:
  assumes "validate_observation ob = Inr ob" and "path \<in> set ECONOMIC_FIELDS"
  shows "\<exists>v c e. field_value ob path = Inr v \<and> parse_decimal v = Some (Fin c e)"
proof -
  have "is_decimal_value (da_value (fx_base_amount (ob_payload ob)))"
    "is_decimal_value (da_value (fx_terms_amount (ob_payload ob)))"
    "is_decimal_value (dr_value (fx_quoted_rate (ob_payload ob)))"
    using validate_observation_Inr(3) [OF assms(1)]
    by (auto simp: FxPayload_fields_def mk_DecimalAmount_def mk_DecimalRate_def result_simps check_simps)
  with assms(2) show ?thesis
    by (auto simp: ECONOMIC_FIELDS_def field_value_def Let_def intro: decimal_value_parses)
qed

lemma compared_field_name:
  assumes "path \<in> set compared_paths"
  shows "after_last_slash path \<in> range field_name"
proof -
  have "path \<in> {''/payload/base_currency'', ''/payload/terms_currency'', ''/payload/side'',
      ''/payload/trade_date'', ''/payload/value_date'', ''/payload/base_amount'',
      ''/payload/terms_amount'', ''/payload/quoted_rate''}"
    using assms by (simp add: CURRENCY_FIELDS_def DATE_FIELDS_def ECONOMIC_FIELDS_def)
  then have "after_last_slash path \<in> field_name ` {F_base_currency, F_terms_currency, F_side, F_trade_date,
      F_value_date, F_base_amount, F_terms_amount, F_quoted_rate}"
    by (elim insertE emptyE) simp_all
  then show ?thesis by blast
qed

lemma compared_field_canonical:
  assumes "path \<in> set compared_paths"
  shows "\<exists>f. provenance_of cx path = Some (cs_field_provenance (cx_canonical_state cx) f)"
proof -
  obtain f where "field_name f = after_last_slash path" using compared_field_name [OF assms] by auto
  then have "List.find (\<lambda>f. field_name f = after_last_slash path) CANONICAL_FIELD_NAMES \<noteq> None"
    using canonical_field_listed by (auto simp: find_None_iff)
  then show ?thesis by (auto simp: provenance_of_def)
qed

lemma authoritative_total:
  assumes cx: "mk_ReconciliationContext cx = Inr cx'" and "path \<in> set compared_paths"
    and obs: "set observations = set (cx_source_observations cx)"
  shows "\<exists>base. authoritative_observation cx observations path = Inr base"
proof -
  let ?s = "cx_canonical_state cx"
  obtain f where f: "provenance_of cx path = Some (cs_field_provenance ?s f)"
    using compared_field_canonical [OF assms(2)] by blast
  have "first_error (provenance_checks (cs_source_version_set ?s) (cs_field_provenance ?s)
      (Some (cs_source_watermark ?s)) f) = None"
    using context_accepted(2) [OF cx] canonical_field_listed [of f]
    by (auto simp: mk_CanonicalTradeState_def validate_source_version_set_scope_def result_simps check_simps
        first_error_concat_None)
  from provenance_checks_None(1) [OF this] obtain i where
    i: "i \<in> set (cs_source_version_set ?s)" "si_observation_id i = fp_source_observation_id (cs_field_provenance ?s f)"
    by blast
  then obtain ob where ob: "ob \<in> set observations" "observation_key ob = item_key i"
    using context_accepted(5) [OF cx] obs by (metis image_iff)
  then have "ob_observation_id ob = fp_source_observation_id (cs_field_provenance ?s f)"
    using i(2) by (simp add: observation_key_def item_key_def)
  with ob(1) have "List.find (\<lambda>ob. ob_observation_id ob = fp_source_observation_id (cs_field_provenance ?s f))
      observations \<noteq> None" by (auto simp: find_None_iff)
  then show ?thesis using f by (auto simp: authoritative_observation_def)
qed

section \<open>Every detector returns on a source set without violations\<close>

lemma exact_field_total:
  assumes cx: "mk_ReconciliationContext cx = Inr cx'" and p: "fst f \<in> set compared_paths"
    and obs: "set observations = set (cx_source_observations cx)"
    and ok: "\<not> fields_disagree cx [fst f]"
  shows "exact_field en cx observations role f = Inr []"
proof -
  obtain base where base: "authoritative_observation cx observations (fst f) = Inr base"
    using authoritative_total [OF cx p obs] by blast
  note auth = authoritative_Inr [OF base obs]
  obtain v where v: "field_value base (fst f) = Inr v" using compared_field_value [OF p] by blast
  have same: "field_value ob (fst f) = Inr v" if "ob \<in> set observations" for ob
    using ok auth that obs v unfolding fields_disagree_def by fastforce
  have "efind (\<lambda>observed. if ob_observation_id observed = ob_observation_id base then Inr False
         else ebind (field_value observed (fst f)) (\<lambda>w. Inr (w \<noteq> v))) observations
      = Inr (List.find (\<lambda>_. False) observations)"
    by (rule efind_total) (simp add: same)
  moreover have "List.find (\<lambda>_. False) observations = None" by (simp add: find_None_iff)
  ultimately show ?thesis
    unfolding exact_field_def prod.case_eq_if by (simp add: base v disagreement_def del: find.simps)
qed

lemma economic_field_total:
  assumes cx: "mk_ReconciliationContext cx = Inr cx'" and cfg: "mk_ReconciliationConfig (en_config en) = Inr c"
    and p: "path \<in> set ECONOMIC_FIELDS"
    and obs: "set observations = set (cx_source_observations cx)"
    and ok: "\<not> field_outside_tolerance en cx path"
  shows "economic_field en cx observations path = Inr []"
proof -
  have p': "path \<in> set compared_paths" using p by simp
  obtain base where base: "authoritative_observation cx observations path = Inr base"
    using authoritative_total [OF cx p' obs] by blast
  note auth = authoritative_Inr [OF base obs]
  have val: "\<exists>w a e. field_value ob path = Inr w \<and> parse_decimal w = Some (Fin a e)"
    if "ob \<in> set observations" for ob
    using economic_value_parses [OF _ p] context_accepted(3) [OF cx] that obs by blast
  then obtain v a e where v: "field_value base path = Inr v" "parse_decimal v = Some (Fin a e)"
    using auth obs by (metis authority_def)
  obtain rule where rule: "decimal_rule (en_config en) (cf_product_type (cs_state (cx_canonical_state cx))) path = Inr rule"
    "mk_BreakTolerance (dt_tolerance rule) = Inr (dt_tolerance rule)"
    using decimal_rule_total [OF cfg p] by blast
  define q where "q = (\<lambda>observed. if ob_observation_id observed = ob_observation_id base then Inr False
         else ebind (field_value observed path) (\<lambda>w. ebind (engine_decimal w) (\<lambda>y.
           ebind (within_tolerance (Fin a e) y (dt_tolerance rule)) (\<lambda>ok. Inr (\<not> ok)))))"
  have "q ob = Inr False" if ob: "ob \<in> set observations" for ob
  proof -
    obtain w b f where w: "field_value ob path = Inr w" "parse_decimal w = Some (Fin b f)"
      using val [OF ob] by blast
    obtain r where r: "within_tolerance (Fin a e) (Fin b f) (dt_tolerance rule) = Inr r"
      using within_tolerance_total [OF rule(2)] by blast
    have "r \<or> ob = base"
    proof (rule ccontr)
      assume "\<not> (r \<or> ob = base)"
      with r have "within_tolerance (Fin a e) (Fin b f) (dt_tolerance rule) = Inr False" "ob \<noteq> base" by simp_all
      with ok auth ob obs v w rule(1) show False unfolding field_outside_tolerance_def by blast
    qed
    then show ?thesis using w r by (auto simp: q_def engine_decimal_def)
  qed
  then have "efind q observations = Inr (List.find (\<lambda>_. False) observations)" by (rule efind_total)
  moreover have "List.find (\<lambda>_. False) observations = None" by (simp add: find_None_iff)
  ultimately show ?thesis
    unfolding economic_field_def q_def by (simp add: base v rule(1) engine_decimal_def disagreement_def)
qed

lemma econcat_nil: "(\<And>x. x \<in> set xs \<Longrightarrow> f x = Inr []) \<Longrightarrow> econcat (emap f xs) = Inr []"
  using emap_total [of xs f "\<lambda>_. []"] by (simp add: econcat_def)

lemma exact_breaks_total:
  assumes cx: "mk_ReconciliationContext cx = Inr cx'"
    and obs: "set observations = set (cx_source_observations cx)"
    and fs: "set (map fst fs) \<subseteq> set compared_paths" and ok: "\<not> fields_disagree cx (map fst fs)"
  shows "ebind (econcat (emap (exact_field en cx observations role) fs)) (break_of_findings en cx family refs) = Inr []"
proof -
  have "econcat (emap (exact_field en cx observations role) fs) = Inr []"
  proof (rule econcat_nil)
    fix f assume f: "f \<in> set fs"
    show "exact_field en cx observations role f = Inr []"
    proof (rule exact_field_total [OF cx _ obs])
      show "fst f \<in> set compared_paths" using f fs by auto
      show "\<not> fields_disagree cx [fst f]" using ok f by (subst (asm) fields_disagree_list) auto
    qed
  qed
  then show ?thesis by (simp add: break_of_findings_def)
qed

lemma missing_source_breaks_total:
  assumes cfg: "mk_ReconciliationConfig (en_config en) = Inr c"
    and obs: "set observations = set (cx_source_observations cx)"
    and due: "\<And>k rule. arrival_rule (en_config en) (cf_product_type (cs_state (cx_canonical_state cx))) k = Inr rule \<Longrightarrow>
      \<exists>t. add_seconds (cs_source_watermark (cx_canonical_state cx)) (aw_window_seconds rule) = Inr t"
    and ok: "\<And>k. \<not> source_overdue en cx k"
  shows "missing_source_breaks en cx observations refs = Inr []"
  unfolding missing_source_breaks_def
proof (rule econcat_nil)
  fix k assume "k \<in> set MISSING_SOURCE_KINDS"
  then have k: "k \<noteq> TRADE_CAPTURE" by (auto simp: MISSING_SOURCE_KINDS_def)
  show "missing_source_break en cx observations refs k = Inr []"
  proof (cases "k \<in> set (map ob_kind observations)")
    case True
    then show ?thesis by (simp add: missing_source_break_def)
  next
    case False
    obtain rule where rule: "arrival_rule (en_config en) (cf_product_type (cs_state (cx_canonical_state cx))) k = Inr rule"
      using arrival_rule_total [OF cfg k] by blast
    obtain t where t: "add_seconds (cs_source_watermark (cx_canonical_state cx)) (aw_window_seconds rule) = Inr t"
      using due [OF rule] by blast
    have "instant (effective_evaluated_at cx) < instant t"
      using ok [of k] k False obs rule t by (auto simp: source_overdue_def not_le)
    with False rule t show ?thesis by (simp add: missing_source_break_def)
  qed
qed

lemma duplicate_breaks_total:
  assumes obs: "set observations = set (cx_source_observations cx)" and ok: "\<not> content_conflict cx"
  shows "duplicate_breaks en cx observations = Inr []"
  unfolding duplicate_breaks_def
proof (rule econcat_nil)
  fix kg assume kg: "kg \<in> set (observation_groups observations)"
  then obtain k where k: "kg = (k, filter (\<lambda>ob. group_key ob = k) observations)"
    by (auto simp: observation_groups_def)
  have "ob_content_hash a = ob_content_hash b" if "a \<in> set (snd kg)" "b \<in> set (snd kg)" for a b
  proof -
    have "a \<in> set observations" "b \<in> set observations" "group_key a = group_key b"
      using that by (simp_all add: k)
    then have "a \<in> set (cx_source_observations cx)" "b \<in> set (cx_source_observations cx)"
      "ob_kind a = ob_kind b" "ob_source_business_key a = ob_source_business_key b"
      "ob_source_version a = ob_source_version b"
      using obs by (simp_all add: group_key_def)
    with ok show ?thesis unfolding content_conflict_def by blast
  qed
  then have "length (remdups (map ob_content_hash (snd kg))) < 2" unfolding remdups_short set_map by blast
  then show "duplicate_break en cx kg = Inr []"
    by (cases kg) (auto simp: duplicate_break_def)
qed

lemma efilter_total:
  "(\<And>x. x \<in> set xs \<Longrightarrow> \<exists>b. p x = Inr b) \<Longrightarrow> \<exists>ys. efilter p xs = Inr ys"
proof (induction xs)
  case (Cons x xs)
  then obtain b ys where "p x = Inr b" "efilter p xs = Inr ys" by (metis list.set_intros)
  then show ?case by simp
qed simp

lemma efind_returns: "(\<And>x. x \<in> set xs \<Longrightarrow> \<exists>b. p x = Inr b) \<Longrightarrow> \<exists>r. efind p xs = Inr r"
  using efind_total [of xs p "\<lambda>x. projr (p x)"] by fastforce

lemma lifecycle_break_total:
  assumes cx: "mk_ReconciliationContext cx = Inr cx'" and cfg: "mk_ReconciliationConfig (en_config en) = Inr c"
    and obs: "set observations = set (cx_source_observations cx)" and ok: "\<not> lifecycle_inconsistent en cx"
  shows "lifecycle_break en cx observations refs = Inr []"
proof (cases "\<exists>s \<in> {AMENDED, CANCELLED}. \<forall>ob \<in> set observations. fx_lifecycle_status (ob_payload ob) = s")
  case True
  have ne: "observations \<noteq> []" using obs context_accepted(7) [OF cx] by (metis set_empty)
  show ?thesis using True [folded uniform_statuses [OF ne]] unfolding lifecycle_break_def Let_def by simp
next
  case False
  have ne: "observations \<noteq> []" using obs context_accepted(7) [OF cx] by (metis set_empty)
  have ae: "\<exists>b. as_expected en ob = Inr b" for ob
    using lifecycle_rule_total [OF cfg, of "ob_kind ob"] as_expected_Inr by metis
  then have "\<exists>b. ebind (as_expected en ob) (\<lambda>ok. Inr (\<not> ok)) = Inr b" for ob
    by (metis ebind_simps(2))
  then obtain invalid where inv: "efilter (\<lambda>ob. ebind (as_expected en ob) (\<lambda>ok. Inr (\<not> ok))) observations = Inr invalid"
    using efilter_total [of observations "\<lambda>ob. ebind (as_expected en ob) (\<lambda>ok. Inr (\<not> ok))"] by metis
  have "invalid = [] \<or> lifecycle_counterpart en observations (hd invalid) = Inr None"
  proof (cases "invalid = []")
    case ne: False
    then have h: "hd invalid \<in> set invalid" by simp
    have "\<exists>r. efind (\<lambda>item. if other_observation (hd invalid) item then as_expected en item else Inr False)
        observations = Inr r"
      by (rule efind_returns) (use ae in auto)
    then obtain cp where cp: "lifecycle_counterpart en observations (hd invalid) = Inr cp"
      unfolding lifecycle_counterpart_def by (metis ebind_simps(2))
    have "a = b" if "a \<in> set observations" "b \<in> set observations" for a b
      using h lifecycle_invalid [OF inv] ok False obs that unfolding lifecycle_inconsistent_def by auto
    then have "cp = None"
      using lifecycle_counterpart_None [OF cp] h lifecycle_invalid [OF inv]
      by (auto simp: other_observation_def)
    with cp show ?thesis by simp
  qed simp
  then show ?thesis
    using False [folded uniform_statuses [OF ne]] inv unfolding lifecycle_break_def Let_def by auto
qed

lemma booking_field_value:
  assumes "ob_kind ob = BOOKING" and "path \<in> set (map fst POST_ACTION_FIELDS)"
  shows "\<exists>v. field_value ob path = Inr v"
proof -
  obtain d where d: "ob_source ob = BookingSource d"
    using assms(1) by (cases "ob_source ob") (simp_all add: ob_kind_def)
  have "path \<in> {''/payload/book_id'', ''/payload/lifecycle_status'', ''/payload/booking_version'',
      ''/payload/record_fingerprint''}"
    using assms(2) by (simp add: POST_ACTION_FIELDS_def)
  then show ?thesis
    by (elim insertE emptyE) (simp_all add: field_value_def Let_def d after_last_slash_def)
qed

lemma efold_unchanged:
  assumes "\<And>f. f \<in> set fs \<Longrightarrow> \<exists>v. field_value pre (fst f) = Inr v \<and> field_value post (fst f) = Inr v"
  shows "efold (add_changed pre post) fs [] = Inr []"
  using assms
proof (induction fs)
  case (Cons f fs)
  obtain v where "field_value pre (fst f) = Inr v" "field_value post (fst f) = Inr v"
    using Cons.prems by (metis list.set_intros(1))
  then have "add_changed pre post f [] = Inr []" by (simp add: add_changed_def)
  with Cons show ?case by simp
qed simp

lemma post_action_break_total:
  assumes cx: "mk_ReconciliationContext cx = Inr cx'" and ok: "\<not> action_unverified cx"
  shows "post_action_break en cx refs = Inr []"
proof (cases "cx_post_action_verification cx")
  case None
  then show ?thesis by (simp add: post_action_break_def)
next
  case (Some v)
  obtain v' where "mk_PostActionVerification v = Inr v'"
    using cx Some by (auto simp: mk_ReconciliationContext_def mk_opt_def result_simps)
  then have v: "validate_action_observations v = Inr v'"
    by (auto simp: mk_PostActionVerification_def ebind_eq_Inr)
  have clean: "pv_changed_fields v = []" "pv_readback_available v" "\<not> pv_original_break_remaining v"
    using ok Some by (auto simp: action_unverified_def)
  obtain p where p: "pv_post_action v = Some p" "ob_kind (pv_pre_action v) = BOOKING" "ob_kind p = BOOKING"
    using v clean by (auto simp: validate_action_observations_def check_simps opt_ok_def)
  have same: "field_value (pv_pre_action v) path = field_value p path" if "path \<in> set (map fst POST_ACTION_FIELDS)" for path
    using ok Some p that unfolding action_unverified_def by blast
  have "efold (add_changed (pv_pre_action v) p) POST_ACTION_FIELDS [] = Inr []"
  proof (rule efold_unchanged)
    fix f assume "f \<in> set POST_ACTION_FIELDS"
    then have f: "fst f \<in> set (map fst POST_ACTION_FIELDS)" by simp
    show "\<exists>w. field_value (pv_pre_action v) (fst f) = Inr w \<and> field_value p (fst f) = Inr w"
      using same [OF f] booking_field_value [OF p(2) f] by metis
  qed
  then show ?thesis using Some p clean by (simp add: post_action_break_def changed_fields_def)
qed

section \<open>A source set without violations passes\<close>

lemma source_reference_total:
  assumes "validate_observation ob = Inr ob"
  shows "\<exists>s. source_reference ob = Inr s"
  using validate_observation_Inr(2) [OF assms]
  by (auto simp: source_reference_def mk_BreakSourceReference_def Observation_fields_def ob_source_system_def
      result_simps check_simps)

lemma detected_breaks_clean:
  assumes cx: "mk_ReconciliationContext cx = Inr cx'" and cfg: "mk_ReconciliationConfig (en_config en) = Inr c"
    and obs: "set observations = set (cx_source_observations cx)"
    and due: "\<And>k rule. arrival_rule (en_config en) (cf_product_type (cs_state (cx_canonical_state cx))) k = Inr rule \<Longrightarrow>
      \<exists>t. add_seconds (cs_source_watermark (cx_canonical_state cx)) (aw_window_seconds rule) = Inr t"
    and ok: "\<And>F. \<not> violated en cx F"
  shows "detected_breaks en cx observations refs = Inr []"
proof -
  have "\<not> source_overdue en cx k" for k using ok [of MISSING_REQUIRED_SOURCE] by simp
  note d1 = missing_source_breaks_total [OF cfg obs due this]
  have d2: "linkage_break en cx observations refs = Inr []"
    using ok [of AMBIGUOUS_OR_UNMATCHED_LINKAGE] by (simp add: linkage_break_def)
  have d3: "duplicate_breaks en cx observations = Inr []"
    by (rule duplicate_breaks_total [OF obs]) (use ok [of DUPLICATE_SOURCE_CONFLICT_FAMILY] in simp)
  have d4: "currency_breaks en cx observations refs = Inr []" unfolding currency_breaks_def
    by (rule exact_breaks_total [OF cx obs]) (use ok [of CURRENCY_PAIR_OR_SIDE_MISMATCH] in auto)
  have "econcat (emap (economic_field en cx observations) ECONOMIC_FIELDS) = Inr []"
    by (rule econcat_nil, rule economic_field_total [OF cx cfg _ obs])
      (use ok [of ECONOMIC_VALUE_MISMATCH] in \<open>auto simp: outside_tolerance_def\<close>)
  then have d5: "economic_breaks en cx observations refs = Inr []"
    by (simp add: economic_breaks_def break_of_findings_def)
  have d6: "date_break en cx observations refs = Inr []" unfolding date_break_def
    by (rule exact_breaks_total [OF cx obs]) (use ok [of TRADE_OR_VALUE_DATE_MISMATCH] in auto)
  have d7: "lifecycle_break en cx observations refs = Inr []"
    by (rule lifecycle_break_total [OF cx cfg obs]) (use ok [of LIFECYCLE_STATUS_MISMATCH] in simp)
  have d8: "post_action_break en cx refs = Inr []"
    by (rule post_action_break_total [OF cx]) (use ok [of POST_ACTION_VERIFICATION_FAILURE] in simp)
  show ?thesis unfolding detected_breaks_def by (simp add: d1 d2 d3 d4 d5 d6 d7 d8)
qed

lemma new_break_binding:
  assumes "new_break en cx q = Inr b"
  shows "first_error (break_binding_checks (run_draft en cx actor refs bs) b) = None"
  using assms
  by (auto simp: new_break_def Let_def result_simps break_binding_checks_def run_draft_def check_simps
      dest!: trade_break_accepted(1))

lemma run_accepted:
  assumes cx: "mk_ReconciliationContext cx = Inr cx" and cfg: "mk_ReconciliationConfig (en_config en) = Inr c"
    and hash: "hex_digest (sha256_hexdigest (en_runtime en))" and refs: "refs \<noteq> []"
    and bs: "\<And>b. b \<in> set bs \<Longrightarrow> \<exists>q. new_break en cx q = Inr b" "distinct (map tb_break_id bs)"
    and draft: "draft = run_draft en cx actor refs bs"
  shows "\<exists>r. mk_ReconciliationRun (en_runtime en) (draft\<lparr>rn_content_hash :=
      stable_content_hash (en_runtime en) (run_json (en_runtime en) draft)\<rparr>) = Inr r \<and>
    rn_result r = (if bs = [] then PASS else BREAKS_DETECTED) \<and> rn_breaks r = bs"
proof -
  have h: "is_sha256_hash (sha256_tag (en_runtime en) b)" for b
    unfolding sha256_tag_def by (rule hex_digest.tagged_hash_valid [OF hash])
  have j: "run_json rt (x\<lparr>rn_content_hash := z\<rparr>) = run_json rt x" for rt x z
    by (simp add: run_json_def)
  have c: "cg_detection_rule_version (en_config en) = ''1.0.0''"
    using cfg by (auto simp: mk_ReconciliationConfig_def result_simps check_simps)
  have i: "is_identifier (cx_reconciliation_run_id cx)" "1 \<le> cx_run_version cx"
    using cx by (auto simp: mk_ReconciliationContext_def result_simps check_simps)
  have s: "1 \<le> cs_canonical_state_version (cx_canonical_state cx)" "aware (cs_source_watermark (cx_canonical_state cx))"
    using context_accepted(2) [OF cx]
    by (auto simp: mk_CanonicalTradeState_def CanonicalTradeState_fields_def result_simps check_simps)
  have k: "break_binding_checks (x\<lparr>rn_content_hash := z\<rparr>) b = break_binding_checks x b" for x z b
    by (simp add: break_binding_checks_def)
  have bind: "\<forall>b \<in> set bs. first_error (break_binding_checks draft b) = None"
    using bs(1) new_break_binding unfolding draft by blast
  have n: "length (rn_break_facts draft) = sum_list (map (\<lambda>b. length (tb_comparisons b)) bs)"
    by (simp add: draft run_draft_def Let_def length_concat break_facts_of_def comp_def)
  have f: "rn_breaks draft = bs" "rn_break_ids draft = map tb_break_id bs"
    "rn_result draft = (if bs = [] then PASS else BREAKS_DETECTED)" "rn_schema_version draft = ''1.0.0''"
    "rn_run_id draft = cx_reconciliation_run_id cx" "rn_run_version draft = cx_run_version cx"
    "rn_canonical_state_version draft = cs_canonical_state_version (cx_canonical_state cx)"
    "rn_config_hash draft = config_content_hash (en_runtime en) (en_config en)"
    "rn_detection_rule_version draft = cg_detection_rule_version (en_config en)"
    "rn_source_version_set draft = refs" "rn_evaluated_at draft = effective_evaluated_at cx"
    "rn_source_watermark draft = cs_source_watermark (cx_canonical_state cx)"
    by (simp_all add: draft run_draft_def Let_def)
  show ?thesis
    using context_accepted(8,9) [OF cx] h c i s refs bs(2) bind n
    by (simp add: mk_ReconciliationRun_def validate_result_shape_def check_simps j k f ebind_eq_Inr
        first_error_concat_None stable_content_hash_def config_content_hash_def)
qed

text \<open>
  A run returns as soon as its detectors do: the configuration is in force, the breaks found have
  distinct identifiers, and the digest is 64 hexadecimal digits.
\<close>

lemma run_returns:
  assumes cx: "mk_ReconciliationContext cx = Inr cx" and cfg: "mk_ReconciliationConfig (en_config en) = Inr c"
    and hash: "hex_digest (sha256_hexdigest (en_runtime en))"
    and from_to: "instant (cg_effective_from (en_config en)) \<le> instant (effective_evaluated_at cx)"
      "opt_ok (\<lambda>t. instant (effective_evaluated_at cx) < instant t) (cg_effective_to (en_config en))"
    and found: "\<And>refs. emap source_reference (ordered_observations (cx_source_observations cx)) = Inr refs \<Longrightarrow>
      detected_breaks en cx (ordered_observations (cx_source_observations cx)) refs = Inr found"
    and opened: "\<And>b. b \<in> set found \<Longrightarrow> \<exists>q. new_break en cx q = Inr b" and "distinct (map tb_break_id found)"
  shows "\<exists>r. run en cx actor = Inr r \<and> rn_result r = (if found = [] then PASS else BREAKS_DETECTED) \<and>
    rn_breaks r = sort_key break_order found"
proof -
  let ?obs = "ordered_observations (cx_source_observations cx)"
  have "source_reference ob = Inr (projr (source_reference ob))" if "ob \<in> set ?obs" for ob
    using source_reference_total context_accepted(3) [OF cx] that by fastforce
  then have "emap source_reference ?obs = Inr (map (\<lambda>ob. projr (source_reference ob)) ?obs)"
    by (rule emap_total)
  moreover have "?obs \<noteq> []" using context_accepted(7) [OF cx] ordered_observations_set by (metis set_empty)
  ultimately obtain refs where refs: "emap source_reference ?obs = Inr refs" "refs \<noteq> []" by simp
  have "checked [
       (instant (effective_evaluated_at cx) < instant (cg_effective_from (en_config en)),
          ValueError ''reconciliation config is not effective at evaluated_at''),
       (\<not> opt_ok (\<lambda>t. instant (effective_evaluated_at cx) < instant t) (cg_effective_to (en_config en)),
          ValueError ''reconciliation config is outside its effective interval'')] () = Inr ()"
    using from_to by (simp add: check_simps)
  moreover have "distinct (map tb_break_id (sort_key break_order found))"
    using assms(8) by (simp add: distinct_map)
  moreover have e: "sort_key break_order found = [] \<longleftrightarrow> found = []"
    by (metis set_empty set_sort)
  ultimately show ?thesis
    using run_accepted [OF cx cfg hash refs(2) _ _ refl, of "sort_key break_order found"] opened
      found [OF refs(1)] refs(1) unfolding run_def Let_def by (simp add: e)
qed

lemma clean_run:
  assumes "mk_ReconciliationContext cx = Inr cx" and "mk_ReconciliationConfig (en_config en) = Inr c"
    and "hex_digest (sha256_hexdigest (en_runtime en))"
    and "instant (cg_effective_from (en_config en)) \<le> instant (effective_evaluated_at cx)"
    and "opt_ok (\<lambda>t. instant (effective_evaluated_at cx) < instant t) (cg_effective_to (en_config en))"
    and "\<And>k rule. arrival_rule (en_config en) (cf_product_type (cs_state (cx_canonical_state cx))) k = Inr rule \<Longrightarrow>
      \<exists>t. add_seconds (cs_source_watermark (cx_canonical_state cx)) (aw_window_seconds rule) = Inr t"
    and "\<And>F. \<not> violated en cx F"
  shows "\<exists>r. run en cx actor = Inr r \<and> rn_result r = PASS \<and> rn_breaks r = []"
proof -
  have d: "detected_breaks en cx (ordered_observations (cx_source_observations cx)) refs = Inr []" for refs
    by (rule detected_breaks_clean [OF assms(1,2)]) (use assms(6,7) in auto)
  show ?thesis using run_returns [OF assms(1-5) d, of actor] by simp
qed

text \<open>C5: A source set without violations passes: whenever the context and the configuration
  have passed their validators, the configuration is in force at the evaluation time, the
  deadlines of the arrival windows are representable dates and no family is violated, the run
  returns, with the result PASS and no breaks; in particular every hash it computes with SHA-256
  has the form that its own contract demands.\<close>

theorem clean_source_set_passes:
  assumes "mk_ReconciliationContext cx = Inr cx" and "mk_ReconciliationConfig (en_config en) = Inr (en_config en)"
    and "en_runtime en = sha_runtime render_datetime render_float"
    and "instant (cg_effective_from (en_config en)) \<le> instant (effective_evaluated_at cx)"
    and "opt_ok (\<lambda>t. instant (effective_evaluated_at cx) < instant t) (cg_effective_to (en_config en))"
    and "\<forall>k rule. arrival_rule (en_config en) (cf_product_type (cs_state (cx_canonical_state cx))) k = Inr rule \<longrightarrow>
      (\<exists>t. add_seconds (cs_source_watermark (cx_canonical_state cx)) (aw_window_seconds rule) = Inr t)"
    and "\<forall>F. \<not> violated en cx F"
  shows "\<exists>r. run en cx actor = Inr r \<and> rn_result r = PASS \<and> rn_breaks r = []"
proof (rule clean_run [OF assms(1,2) _ assms(4,5)])
  show "hex_digest (sha256_hexdigest (en_runtime en))"
    using sha.hex_digest_axioms by (simp add: assms(3) sha_runtime_def)
qed (use assms(6,7) in auto)

end
