(* ===== verification/Recon_Sample.thy ===== *)
theory Recon_Sample
  imports Recon_Total
begin

text \<open>
  Concrete runs of the engine: four sources of one trade that agree, the same sources without a
  linkage decision, a configuration in force, and a digest that returns the same 64 digits for
  every text, so that no encoding has to be evaluated.
\<close>

section \<open>Contexts and engine\<close>

definition sample_time :: int where
  "sample_time = us_per_day"

definition reported_by :: "string \<Rightarrow> LifecycleStatus \<Rightarrow> SourcePayload \<Rightarrow> Observation" where
  "reported_by oid status source = sample_observation\<lparr>ob_observation_id := oid,
     ob_event_time := utc (sample_time + 1000000), ob_effective_time := utc (sample_time + 1000000),
     ob_ingest_time := utc (sample_time + 2000000),
     ob_payload := sample_fx\<lparr>fx_lifecycle_status := status, fx_trade_date := 1, fx_value_date := 3\<rparr>, ob_source := source\<rparr>"

definition sample_execution :: Observation where
  "sample_execution = reported_by ''obs_exec_1'' NEW (ExecutionSource \<lparr>execution_id = ''exec_0001'',
     execution_type = EVENT_NEW, execution_status = EXECUTED, execution_time = utc (sample_time + 1000000),
     order_id = None\<rparr>)"

definition sample_capture :: Observation where
  "sample_capture = reported_by ''obs_capture_1'' CAPTURED (TradeCaptureSource \<lparr>capture_id = ''cap_0001'',
     capture_type = EVENT_NEW, capture_status = CAPTURE_CAPTURED, capture_time = utc (sample_time + 1000000),
     execution_reference = ''exec_0001''\<rparr>)"

definition sample_confirmation :: Observation where
  "sample_confirmation = reported_by ''obs_conf_1'' CONFIRMED (ConfirmationSource \<lparr>
     confirmation_id = ''conf_0001'', cp_confirmation_reference = ''confref_0001'',
     confirmation_status = AFFIRMED, confirmation_time = utc (sample_time + 1000000)\<rparr>)"

definition sample_booking :: Observation where
  "sample_booking = reported_by ''obs_book_1'' BOOKED (BookingSource \<lparr>booking_record_id = ''book_0001'',
     booking_version = 1, booking_status = BOOKING_BOOKED, last_updated_time = utc (sample_time + 1000000),
     bp_confirmation_reference = None, record_fingerprint = sample_hash\<rparr>)"

definition version_item :: "Observation \<Rightarrow> SourceVersionSetItem" where
  "version_item ob = \<lparr>si_observation_id = ob_observation_id ob, si_observation_kind = ob_kind ob,
     si_source_system = ob_source_system ob, si_source_tenant_id = ob_tenant_id ob,
     si_source_portfolio_id = ob_portfolio_id ob, si_source_version = ob_source_version ob,
     si_content_hash = ob_content_hash ob\<rparr>"

definition context_of :: "Observation list \<Rightarrow> ReconciliationContext" where
  "context_of obs = \<lparr>cx_reconciliation_run_id = ''run_0001'', cx_run_version = 1,
     cx_canonical_state = sample_state\<lparr>cs_source_version_set := map version_item obs,
       cs_state := sample_canonical_fields\<lparr>cf_trade_date := 1, cf_value_date := 3\<rparr>,
       cs_as_of_time := utc (sample_time + 3000000), cs_source_watermark := utc (sample_time + 2000000)\<rparr>,
     cx_source_observations = obs, cx_evaluated_at = None, cx_linkage_decision = Some sample_linkage,
     cx_post_action_verification = None\<rparr>"

definition agreeing_sources :: "Observation list" where
  "agreeing_sources = [sample_execution, sample_capture, sample_confirmation, sample_booking]"

definition flat_runtime :: runtime where
  "flat_runtime = plain_runtime\<lparr>sha256_hexdigest := (\<lambda>_. replicate 64 CHR ''a''),
     datetime_json := isoformat\<rparr>"

definition sample_engine :: engine where
  "sample_engine = \<lparr>en_runtime = flat_runtime, en_config = (projr fixture_config)\<lparr>cg_effective_from := utc us_per_day\<rparr>\<rparr>"



definition unlinked_context :: ReconciliationContext where
  "unlinked_context = (context_of agreeing_sources)\<lparr>cx_linkage_decision := None\<rparr>"

lemma flat_hash [simp]:
  "stable_content_hash (en_runtime sample_engine) v = sample_hash"
  "config_content_hash (en_runtime sample_engine) c = sample_hash"
  by (simp_all add: stable_content_hash_def config_content_hash_def sha256_tag_def sample_engine_def
      flat_runtime_def sample_hash_def)

lemma agreeing_accepted:
  "mk_ReconciliationContext (context_of agreeing_sources) = Inr (context_of agreeing_sources)"
proof -
  have "\<not> isl (mk_ReconciliationContext (context_of agreeing_sources))" by code_simp
  then show ?thesis by (metis sum.collapse(2) context_accepted(1))
qed

lemma unlinked_accepted: "mk_ReconciliationContext unlinked_context = Inr unlinked_context"
proof -
  have "\<not> isl (mk_ReconciliationContext unlinked_context)" by code_simp
  then show ?thesis by (metis sum.collapse(2) context_accepted(1))
qed

lemma flat_hex: "hex_digest (sha256_hexdigest (en_runtime sample_engine))"
  by unfold_locales (auto simp: sample_engine_def flat_runtime_def is_hex_def)

lemma sample_config: "mk_ReconciliationConfig (en_config sample_engine) = Inr (en_config sample_engine)"
proof -
  have "\<not> isl (mk_ReconciliationConfig (en_config sample_engine))" by code_simp
  then show ?thesis by (metis sum.collapse(2) config_accepted(1))
qed

lemma ordered_sample: "ordered_observations (cx_source_observations unlinked_context) = agreeing_sources"
  by code_simp

lemma sample_silent_detectors:
  "missing_source_breaks sample_engine unlinked_context agreeing_sources refs = Inr []"
  "duplicate_breaks sample_engine unlinked_context agreeing_sources = Inr []"
  "currency_breaks sample_engine unlinked_context agreeing_sources refs = Inr []"
  "economic_breaks sample_engine unlinked_context agreeing_sources refs = Inr []"
  "date_break sample_engine unlinked_context agreeing_sources refs = Inr []"
  "lifecycle_break sample_engine unlinked_context agreeing_sources refs = Inr []"
  "post_action_break sample_engine unlinked_context refs = Inr []"
  by code_simp+

section \<open>A run with a linkage break\<close>

definition link_evidence :: "BreakEvidenceRole \<Rightarrow> BreakEvidence" where
  "link_evidence role = \<lparr>be_evidence_id = ''evidence_'' @ lower (role_str role) @ ''_'' @ replicate 24 CHR ''a'',
     be_role = role, be_content_hash = sample_hash, be_captured_at = effective_evaluated_at unlinked_context,
     be_source_observation_id = Some ''obs_exec_1'', be_source_version = Some ''1'',
     be_field_path = Some ''/linkage/trade_id''\<rparr>"

definition link_comparison :: BreakComparison where
  "link_comparison = \<lparr>bc_field_path = ''/linkage/trade_id'', bc_value_type = VT_COUNT,
     bc_expected_value = ''1'', bc_observed_value = ''0'', bc_tolerance = no_tolerance,
     bc_normalisation_rule_version = ''1.0.0'',
     bc_evidence_ids = [be_evidence_id (link_evidence CANDIDATE_LINK), be_evidence_id (link_evidence LINKAGE_DECISION)],
     bc_expected_source_observation_id = Some ''obs_exec_1'', bc_expected_source_version = Some ''1'',
     bc_observed_source_observation_id = Some ''obs_exec_1'', bc_observed_source_version = Some ''1''\<rparr>"

definition sample_refs :: "BreakSourceReference list" where
  "sample_refs = projr (emap source_reference agreeing_sources)"

definition link_request :: break_request where
  "link_request = plain_request AMBIGUOUS_OR_UNMATCHED_LINKAGE sample_refs [link_comparison]
     [link_evidence CANDIDATE_LINK, link_evidence LINKAGE_DECISION]"

lemma flat_prefix: "take 24 (remove_prefix sample_hash ''sha256:'') = replicate 24 CHR ''a''"
  by code_simp

lemma link_evidence_made:
  assumes "role \<in> {CANDIDATE_LINK, LINKAGE_DECISION}"
  shows "evidence sample_engine unlinked_context role (Some ''/linkage/trade_id'') (Some sample_execution) None salt =
    Inr (link_evidence role)"
proof -
  have "mk_BreakEvidence (link_evidence CANDIDATE_LINK) = Inr (link_evidence CANDIDATE_LINK)"
    "mk_BreakEvidence (link_evidence LINKAGE_DECISION) = Inr (link_evidence LINKAGE_DECISION)" by code_simp+
  then have "mk_BreakEvidence (link_evidence role) = Inr (link_evidence role)" using assms by blast
  moreover have "ob_observation_id sample_execution = ''obs_exec_1''" "ob_source_version sample_execution = ''1''"
    by (simp_all add: sample_execution_def reported_by_def sample_observation_def)
  ultimately show ?thesis
    unfolding evidence_def Let_def flat_hash flat_prefix by (simp add: link_evidence_def)
qed

lemma link_comparison_made:
  "comparison sample_engine ''/linkage/trade_id'' VT_COUNT ''1'' ''0'' no_tolerance (Some sample_execution)
     (Some sample_execution) [be_evidence_id (link_evidence CANDIDATE_LINK), be_evidence_id (link_evidence LINKAGE_DECISION)]
   = Inr link_comparison"
  by code_simp

lemma sample_refs_made: "emap source_reference agreeing_sources = Inr sample_refs"
  by code_simp

lemma link_break_made: "\<exists>b. new_break sample_engine unlinked_context link_request = Inr b"
proof -
  have "\<not> isl (new_break sample_engine unlinked_context link_request)"
    unfolding new_break_def break_id_of_def flat_hash by code_simp
  then show ?thesis by (metis sum.collapse(2))
qed

lemma sample_linkage_break:
  "linkage_break sample_engine unlinked_context agreeing_sources sample_refs =
     ebind (new_break sample_engine unlinked_context link_request) (\<lambda>b. Inr [b])"
proof -
  have "linkage_invalid unlinked_context" "cx_linkage_decision unlinked_context = None"
    by (simp_all add: unlinked_context_def linkage_invalid_def)
  moreover have "agreeing_sources \<noteq> []" "hd agreeing_sources = sample_execution"
    by (simp_all add: agreeing_sources_def)
  moreover have "int_str 0 = ''0''" by code_simp
  ultimately show ?thesis
    unfolding linkage_break_def Let_def
    by (simp add: link_evidence_made link_comparison_made link_request_def)
qed

lemma unlinked_run:
  "\<exists>b r. run sample_engine unlinked_context None = Inr r \<and> rn_breaks r = [b] \<and> rn_result r = BREAKS_DETECTED"
proof -
  obtain b where b: "new_break sample_engine unlinked_context link_request = Inr b"
    using link_break_made by blast
  have found: "detected_breaks sample_engine unlinked_context agreeing_sources sample_refs = Inr [b]"
    unfolding detected_breaks_def by (simp add: sample_silent_detectors sample_linkage_break b)
  have t: "instant (cg_effective_from (en_config sample_engine)) \<le> instant (effective_evaluated_at unlinked_context)"
    "opt_ok (\<lambda>t. instant (effective_evaluated_at unlinked_context) < instant t) (cg_effective_to (en_config sample_engine))"
    by code_simp+
  show ?thesis
    using run_returns [OF unlinked_accepted sample_config flat_hex t, of "[b]" None] found b
    unfolding ordered_sample sample_refs_made by auto
qed

theorem run_reports_exactly_the_violations_witness:
  "\<exists>r. run sample_engine unlinked_context None = Inr r \<and> \<not> (\<forall>F. \<not> violated sample_engine unlinked_context F)"
proof -
  obtain r where r: "run sample_engine unlinked_context None = Inr r" "rn_result r = BREAKS_DETECTED"
    using unlinked_run by blast
  with run_reports_exactly_the_violations [OF unlinked_accepted r(1)] show ?thesis by auto
qed

theorem run_order_independent_witness:
  "run sample_engine ((context_of agreeing_sources)\<lparr>cx_source_observations := rev agreeing_sources\<rparr>) None =
   run sample_engine (context_of agreeing_sources) None"
  by (rule run_order_independent [OF agreeing_accepted]) (simp add: context_of_def)

lemma run_draft_run_id:
  "rn_run_id ((run_draft en cx actor refs bs)\<lparr>rn_content_hash := h\<rparr>) = cx_reconciliation_run_id cx"
  by (simp add: run_draft_def Let_def)

theorem run_envelope_is_sound_witness:
  "\<exists>r b. run sample_engine unlinked_context None = Inr r \<and> rn_breaks r = [b] \<and> tb_state b = OPEN \<and>
     tb_reconciliation_run_id b = ''run_0001''"
proof -
  obtain b r where r: "run sample_engine unlinked_context None = Inr r" "rn_breaks r = [b]"
    using unlinked_run by blast
  moreover have "rn_run_id r = cx_reconciliation_run_id unlinked_context"
    using run_Inr [OF r(1)] by (metis run_draft_run_id)
  then have "rn_run_id r = ''run_0001''" by (simp add: unlinked_context_def context_of_def)
  ultimately show ?thesis using run_envelope_is_sound [OF r(1)] by simp
qed

lemma agreeing_order: "ordered_observations agreeing_sources = agreeing_sources"
  using ordered_sample by (simp add: unlinked_context_def context_of_def)

lemma agreeing_detected:
  "detected_breaks sample_engine (context_of agreeing_sources) agreeing_sources [] = Inr []"
  by code_simp

lemma agreeing_clean: "\<not> violated sample_engine (context_of agreeing_sources) F"
proof -
  have "set agreeing_sources = set (cx_source_observations (context_of agreeing_sources))"
    by (simp add: context_of_def)
  from detected_families [OF agreeing_accepted this agreeing_detected] show ?thesis by auto
qed

lemma sample_deadlines:
  "case arrival_rule (en_config sample_engine) FX_SPOT k of Inl _ \<Rightarrow> True
   | Inr rule \<Rightarrow> \<not> isl (add_seconds (utc (sample_time + 2000000)) (aw_window_seconds rule))"
proof (cases k)
  case EXECUTION then show ?thesis by (simp only:) code_simp
next
  case TRADE_CAPTURE then show ?thesis by (simp only:) code_simp
next
  case CONFIRMATION then show ?thesis by (simp only:) code_simp
next
  case BOOKING then show ?thesis by (simp only:) code_simp
qed

definition sha_engine :: engine where
  "sha_engine = sample_engine\<lparr>en_runtime := sha_runtime isoformat (\<lambda>_. ''0.5'')\<rparr>"

lemma violated_config: "en_config en = en_config en' \<Longrightarrow> violated en cx F \<longleftrightarrow> violated en' cx F"
  by (cases F) (simp_all add: source_overdue_def [abs_def] outside_tolerance_def field_outside_tolerance_def
      lifecycle_inconsistent_def)

theorem clean_source_set_passes_witness:
  "\<exists>r. run sha_engine (context_of agreeing_sources) None = Inr r \<and> rn_result r = PASS"
proof -
  let ?cx = "context_of agreeing_sources"
  have c: "en_config sha_engine = en_config sample_engine" by (simp add: sha_engine_def)
  have t: "instant (cg_effective_from (en_config sample_engine)) \<le> instant (effective_evaluated_at ?cx)"
    "opt_ok (\<lambda>t. instant (effective_evaluated_at ?cx) < instant t) (cg_effective_to (en_config sample_engine))"
    by code_simp+
  have "cf_product_type (cs_state (cx_canonical_state ?cx)) = FX_SPOT"
    "cs_source_watermark (cx_canonical_state ?cx) = utc (sample_time + 2000000)"
    by (simp_all add: context_of_def sample_canonical_fields_def)
  then have d: "\<forall>k rule. arrival_rule (en_config sha_engine) (cf_product_type (cs_state (cx_canonical_state ?cx))) k =
      Inr rule \<longrightarrow> (\<exists>t. add_seconds (cs_source_watermark (cx_canonical_state ?cx)) (aw_window_seconds rule) = Inr t)"
    using sample_deadlines unfolding c by (metis (no_types, lifting) old.sum.simps(6) sum.collapse(2))
  have "\<forall>F. \<not> violated sha_engine ?cx F" using agreeing_clean violated_config [OF c] by blast
  moreover have "en_runtime sha_engine = sha_runtime isoformat (\<lambda>_. ''0.5'')" by (simp add: sha_engine_def)
  ultimately show ?thesis
    using clean_source_set_passes [of ?cx sha_engine isoformat "\<lambda>_. ''0.5''" None] agreeing_accepted
      sample_config t d unfolding c by blast
qed

section \<open>Source sets on which a run raises\<close>

definition pending_confirmation :: Observation where
  "pending_confirmation = reported_by ''obs_conf_1'' CAPTURED (ConfirmationSource \<lparr>
     confirmation_id = ''conf_0001'', cp_confirmation_reference = ''confref_0001'',
     confirmation_status = PENDING, confirmation_time = utc (sample_time + 1000000)\<rparr>)"

text \<open>
  A captured trade whose confirmation is pending: both sources report \<open>CAPTURED\<close>, which is what a
  capture should report and a confirmation should not. The counterpart of the invalid confirmation
  is the capture, whose status and whose expected status are both the observed status, so the
  comparison that reports the mismatch is rejected by its own contract and the detector raises.
\<close>

lemma pending_confirmation_raises:
  "lifecycle_break sample_engine (context_of [sample_capture, pending_confirmation])
     [sample_capture, pending_confirmation] refs =
     Inl (ValueError ''break comparisons must contain distinct expected and observed values'')"
  unfolding lifecycle_break_def comparison_evidence_def evidence_def flat_hash by code_simp

text \<open>
  Three versions of one booking, of which the first two have the same content: the first two are
  compared, they are equal, and the detector raises although the third is in conflict with them.
\<close>

definition repeated_booking :: "Observation list" where
  "repeated_booking = [sample_booking, sample_booking\<lparr>ob_observation_id := ''obs_book_2''\<rparr>,
     sample_booking\<lparr>ob_observation_id := ''obs_book_3'', ob_content_hash := ''sha256:'' @ replicate 64 CHR ''b''\<rparr>]"

lemma repeated_conflict_raises:
  "duplicate_breaks sample_engine (context_of repeated_booking) repeated_booking =
     Inl (ValueError ''break comparisons must contain distinct expected and observed values'')"
  unfolding duplicate_breaks_def duplicate_break_def [abs_def] evidence_def flat_hash by code_simp

end
