(* ===== verification/Iso_Time.thy ===== *)
theory Iso_Time
  imports Calendar
begin

text \<open>
  The ISO 8601 texts of dates and date-times: the conversion between ordinals and days is a
  bijection on the years 1 to 9999, \<open>datetime.fromisoformat\<close> as CPython 3.11 parses it, and the
  round trips of \<open>isoformat\<close>.
\<close>

section \<open>Ordinals\<close>

definition month_of :: "bool \<Rightarrow> int \<Rightarrow> int \<times> int" where
  "month_of leap n = (
     let m = (n + 50) div 32;
         pre = [0, 0, 31, 59, 90, 120, 151, 181, 212, 243, 273, 304, 334] ! nat m + (if m > 2 \<and> leap then 1 else 0)
     in if pre > n
        then (let m = m - 1;
                  pre = pre - ([0, 31, 28, 31, 30, 31, 30, 31, 31, 30, 31, 30, 31] ! nat m +
                    (if m = 2 \<and> leap then 1 else 0))
              in (m, n - pre + 1))
        else (m, n - pre + 1))"

definition month_ok :: "bool \<Rightarrow> int \<Rightarrow> bool" where
  "month_ok leap n = (case month_of leap n of (m, d) \<Rightarrow> 1 \<le> m \<and> m \<le> 12 \<and> 1 \<le> d \<and>
     d \<le> (if m = 2 then (if leap then 29 else 28) else if m \<in> {4, 6, 9, 11} then 30 else 31) \<and>
     [0, 0, 31, 59, 90, 120, 151, 181, 212, 243, 273, 304, 334] ! nat m + (if m > 2 \<and> leap then 1 else 0) + d = n + 1)"

lemma month_ok_all: "\<forall>n \<in> set [0..364]. month_ok leap n"
proof -
  have "list_all (month_ok True) [0..364]" "list_all (month_ok False) [0..364]" by code_simp+
  then show ?thesis by (cases leap) (simp_all only: list_all_iff)
qed

lemma year_of_ordinal:
  fixes n400 n100 n4 n1 r :: int
  assumes "0 \<le> n400" "0 \<le> n100" "n100 < 4" "0 \<le> n4" "n4 < 25" "0 \<le> n1" "n1 < 4"
    and y: "y = n400 * 400 + n100 * 100 + n4 * 4 + n1 + 1"
  shows "days_before_year y = n400 * 146097 + n100 * 36524 + n4 * 1461 + n1 * 365"
    and "is_leap y \<longleftrightarrow> n1 = 3 \<and> (n4 \<noteq> 24 \<or> n100 = 3)"
proof -
  have p: "y - 1 = n400 * 400 + n100 * 100 + n4 * 4 + n1" by (simp add: y)
  have d4: "(y - 1) div 4 = n400 * 100 + n100 * 25 + n4"
    by (rule int_div_pos_eq [where r = n1]) (use assms p in simp_all)
  have d100: "(y - 1) div 100 = n400 * 4 + n100"
    by (rule int_div_pos_eq [where r = "n4 * 4 + n1"]) (use assms p in simp_all)
  have d400: "(y - 1) div 400 = n400"
    by (rule int_div_pos_eq [where r = "n100 * 100 + n4 * 4 + n1"]) (use assms p in simp_all)
  note d = d4 d100 d400
  show "days_before_year y = n400 * 146097 + n100 * 36524 + n4 * 1461 + n1 * 365"
    unfolding days_before_year_def Let_def d by (simp add: p)
  show "is_leap y \<longleftrightarrow> n1 = 3 \<and> (n4 \<noteq> 24 \<or> n100 = 3)"
  proof (cases "n1 = 3")
    case False
    have "y = 4 * (n400 * 100 + n100 * 25 + n4) + (n1 + 1)" by (simp add: y)
    then have "y mod 4 = n1 + 1" by (rule int_mod_pos_eq) (use False assms(6,7) in simp_all)
    with False assms(6) show ?thesis by (simp add: is_leap_def)
  next
    case n1: True
    have m4: "y mod 4 = 0" unfolding y n1 by presburger
    show ?thesis
    proof (cases "n4 = 24")
      case False
      have "y = 100 * (n400 * 4 + n100) + (4 * (n4 + 1))" by (simp add: y n1)
      then have "y mod 100 = 4 * (n4 + 1)" by (rule int_mod_pos_eq) (use False assms(4,5) in simp_all)
      with m4 n1 False assms(4) show ?thesis by (simp add: is_leap_def)
    next
      case n4: True
      have y': "y = 100 * (n400 * 4 + n100 + 1)" by (simp add: y n1 n4)
      then have m100: "y mod 100 = 0" by simp
      have "y = 400 * n400 + 100 * (n100 + 1)" by (simp add: y')
      then have "n100 \<noteq> 3 \<Longrightarrow> y mod 400 = 100 * (n100 + 1)"
        by (intro int_mod_pos_eq) (use assms(2,3) in simp_all)
      moreover have "n100 = 3 \<Longrightarrow> y mod 400 = 0" by (simp add: y')
      ultimately have "y mod 400 = 0 \<longleftrightarrow> n100 = 3"
        using assms(2) by (cases "n100 = 3") (simp_all only: simp_thms mult_eq_0_iff, simp)
      with m4 m100 n1 n4 show ?thesis by (simp add: is_leap_def)
    qed
  qed
qed

lemma ord2ymd_correct:
  assumes "1 \<le> n" and "n \<le> 3652059" and "ord2ymd n = (y, m, d)"
  shows "valid_ymd y m d" and "ymd2ord y m d = n"
proof -
  define k where "k = n - 1"
  define n400 where "n400 = k div 146097"
  define r1 where "r1 = k mod 146097"
  define n100 where "n100 = r1 div 36524"
  define r2 where "r2 = r1 mod 36524"
  define n4 where "n4 = r2 div 1461"
  define r3 where "r3 = r2 mod 1461"
  define n1 where "n1 = r3 div 365"
  define r4 where "r4 = r3 mod 365"
  define Y where "Y = n400 * 400 + 1 + n100 * 100 + n4 * 4 + n1"
  have k: "0 \<le> k" "k < 3652059" using assms(1,2) by (simp_all add: k_def)
  have r1: "k = n400 * 146097 + r1" "0 \<le> r1" "r1 < 146097" by (simp_all add: n400_def r1_def)
  have r2: "r1 = n100 * 36524 + r2" "0 \<le> r2" "r2 < 36524" by (simp_all add: n100_def r2_def)
  have r3: "r2 = n4 * 1461 + r3" "0 \<le> r3" "r3 < 1461" by (simp_all add: n4_def r3_def)
  have r4: "r3 = n1 * 365 + r4" "0 \<le> r4" "r4 < 365" by (simp_all add: n1_def r4_def)
  have quot: "0 \<le> q \<and> q < u" if "x = q * v + r" "0 \<le> r" "r < v" "0 \<le> x" "x < u * v" for q u v r x :: int
  proof -
    have "q * v < u * v" "(- 1) * v < q * v" "0 < v" using that by linarith+
    then have "q < u" "- 1 < q" by (simp_all only: mult_less_cancel_right)
    then show ?thesis by linarith
  qed
  have b400: "0 \<le> n400" "n400 < 25" using quot [OF r1, of 25] k by simp_all
  have b100: "0 \<le> n100" "n100 \<le> 4" using quot [OF r2, of 5] r1 by simp_all
  have b4: "0 \<le> n4" "n4 < 25" using quot [OF r3, of 25] r2 by simp_all
  have b1: "0 \<le> n1" "n1 \<le> 4" using quot [OF r4, of 5] r3 by simp_all
  note b = b400 b100 b4 b1
  have o: "ord2ymd n = (if n1 = 4 \<or> n100 = 4 then (Y - 1, 12, 31)
      else (Y, month_of (n1 = 3 \<and> (n4 \<noteq> 24 \<or> n100 = 3)) r4))"
    unfolding ord2ymd_def month_of_def Let_def k_def [symmetric] n400_def [symmetric] r1_def [symmetric]
      n100_def [symmetric] r2_def [symmetric] n4_def [symmetric] r3_def [symmetric] n1_def [symmetric]
      r4_def [symmetric] Y_def [symmetric] by simp
  have "valid_ymd y m d \<and> ymd2ord y m d = n"
  proof (cases "n1 = 4 \<or> n100 = 4")
    case False
    let ?leap = "n1 = 3 \<and> (n4 \<noteq> 24 \<or> n100 = 3)"
    have lt: "n100 < 4" "n1 < 4" using False b by simp_all
    have yy: "Y = n400 * 400 + n100 * 100 + n4 * 4 + n1 + 1" by (simp add: Y_def)
    note Y = year_of_ordinal [OF b(1) b(3) lt(1) b(5) b(6) b(7) lt(2) yy]
    have "Y \<le> 9999"
    proof (rule ccontr)
      assume "\<not> Y \<le> 9999"
      then have big: "9999 \<le> n400 * 400 + n100 * 100 + n4 * 4 + n1" by (simp add: Y_def)
      then have "n400 = 24" using b lt by linarith
      moreover from this big have "n100 = 3" using b lt by linarith
      moreover from calculation big have "n4 = 24" using b lt by linarith
      moreover from calculation big have "n1 = 3" using b lt by linarith
      ultimately show False using k(2) r1(1) r2(1) r3(1) r4 by simp
    qed
    moreover have "1 \<le> Y" using b by (simp add: Y_def)
    moreover have md: "y = Y" "month_of ?leap r4 = (m, d)" using o False assms(3) by auto
    moreover have "month_ok ?leap r4" using month_ok_all r4 by simp
    ultimately have c: "1 \<le> m" "m \<le> 12" "1 \<le> d"
        "d \<le> (if m = 2 then (if ?leap then 29 else 28) else if m \<in> {4, 6, 9, 11} then 30 else 31)"
        "[0, 0, 31, 59, 90, 120, 151, 181, 212, 243, 273, 304, 334] ! nat m + (if m > 2 \<and> ?leap then 1 else 0) + d = r4 + 1"
        "1 \<le> Y" "Y \<le> 9999"
      unfolding month_ok_def md(2) prod.case by blast+
    have "valid_ymd Y m d" unfolding valid_ymd_def days_in_month_def Y(2) using c by blast
    moreover have "n = n400 * 146097 + n100 * 36524 + n4 * 1461 + n1 * 365 + r4 + 1"
      using r1 r2 r3 r4 by (simp add: k_def)
    moreover have "ymd2ord Y m d = n400 * 146097 + n100 * 36524 + n4 * 1461 + n1 * 365 + r4 + 1"
      using c(5) unfolding ymd2ord_def days_before_month_def Y by linarith
    ultimately show ?thesis unfolding md(1) by simp
  next
    case True
    then have yd: "y = Y - 1" "m = 12" "d = 31" using o assms(3) by simp_all
    show ?thesis
    proof (cases "n100 = 4")
      case n100: True
      have z: "n4 = 0" "n1 = 0" "r4 = 0" using n100 r1 r2 r3 r4 b by linarith+
      have y: "y = n400 * 400 + 3 * 100 + 24 * 4 + 3 + 1" by (simp add: yd Y_def n100 z)
      note Y = year_of_ordinal [OF b(1) _ _ _ _ _ _ y]
      have "n = n400 * 146097 + 146097" using r1 r2 r3 r4 n100 z by (simp add: k_def)
      moreover from this have "n400 * 146097 < 24 * 146097" using assms(2) by linarith
      then have "n400 \<le> 23" by simp
      ultimately show ?thesis
        using Y b(1) by (simp add: yd(2,3) valid_ymd_def days_in_month_def ymd2ord_def days_before_month_def y)
    next
      case False
      with True have n1: "n1 = 4" by simp
      have z: "r4 = 0" using n1 r3 r4 by linarith
      have n100: "n100 < 4" using False b by simp
      have y: "y = n400 * 400 + n100 * 100 + n4 * 4 + 3 + 1" by (simp add: yd Y_def n1)
      note Y = year_of_ordinal [OF b(1) b(3) n100 b(5) b(6) _ _ y]
      have leap: "n4 \<noteq> 24" using n1 r2 r3 r4 z by linarith
      have "n = n400 * 146097 + n100 * 36524 + n4 * 1461 + 1461" using r1 r2 r3 r4 n1 z by (simp add: k_def)
      moreover have "n4 \<le> 23" using leap b by simp
      then have "n400 * 400 + n100 * 100 + n4 * 4 \<le> 9995" using b n100 by linarith
      ultimately show ?thesis
        using Y b leap by (simp add: yd(2,3) valid_ymd_def days_in_month_def ymd2ord_def days_before_month_def y)
    qed
  qed
  then show "valid_ymd y m d" and "ymd2ord y m d = n" by simp_all
qed

section \<open>\<open>datetime.fromisoformat\<close>\<close>

text \<open>
  CPython 3.11 parses the UTF-8 bytes of the text; the texts here are ASCII, where bytes are
  characters. Reading at the end of the text gives a null byte.
\<close>

definition char_at :: "string \<Rightarrow> nat \<Rightarrow> char" where
  "char_at s i = (if i < length s then s ! i else CHR 0x00)"

text \<open>\<open>_find_isoformat_datetime_separator\<close>.\<close>

definition iso_separator :: "string \<Rightarrow> nat option" where
  "iso_separator s = (let len = length s in
     if len = 7 then Some 7
     else if char_at s 4 = CHR ''-'' then
       (if char_at s 5 = CHR ''W'' then
          (if 8 < len \<and> char_at s 8 = CHR ''-'' then
             (if len = 9 then None else if 10 < len \<and> is_digit (char_at s 10) then Some 8 else Some 10)
           else Some 8)
        else Some 10)
     else if char_at s 4 = CHR ''W'' then
       (let idx = 7 + length (takeWhile is_digit (drop 7 s)) in
        if idx < 9 then Some idx else if even idx then Some 7 else Some 8)
     else Some 8)"

text \<open>\<open>parse_isoformat_date\<close> of the first \<open>len\<close> characters.\<close>

definition iso_week_date :: "nat \<Rightarrow> string \<Rightarrow> int \<Rightarrow> bool \<Rightarrow> string \<Rightarrow> date option" where
  "iso_week_date len s y sep q = (case parse_digits 2 q of
     None \<Rightarrow> None
   | Some (w, rest) \<Rightarrow>
       if len \<le> length s - length rest then iso_to_ord y w 1
       else (case eat_sep sep rest of
          None \<Rightarrow> None
        | Some r \<Rightarrow> (case parse_digits 1 r of None \<Rightarrow> None | Some (d, _) \<Rightarrow> iso_to_ord y w d)))"

definition iso_date_at :: "nat \<Rightarrow> string \<Rightarrow> date option" where
  "iso_date_at len s = (case parse_digits 4 s of
     None \<Rightarrow> None
   | Some (y, rest) \<Rightarrow>
       (let sep = (eat CHR ''-'' rest \<noteq> None); r = (if sep then tl rest else rest) in
        case eat CHR ''W'' r of
          Some q \<Rightarrow> iso_week_date len s y sep q
        | None \<Rightarrow> parse_iso_month y sep r))"

text \<open>
  \<open>parse_hh_mm_ss_ff\<close>: \<open>k\<close> components are still to be read from \<open>s\<close>, of which \<open>n\<close> characters lie
  before the end. The result has the components read, the microseconds, and whether a character
  follows what was parsed.
\<close>

definition iso_fraction :: "string \<Rightarrow> nat \<Rightarrow> (int \<times> bool) option" where
  "iso_fraction s n = (let k = min 6 n in
     case parse_digits k s of
       None \<Rightarrow> None
     | Some (v, rest) \<Rightarrow> Some (v * 10 ^ (6 - k), dropWhile is_digit rest \<noteq> []))"

fun iso_components :: "nat \<Rightarrow> bool option \<Rightarrow> string \<Rightarrow> nat \<Rightarrow> (int list \<times> int \<times> bool) option" where
  "iso_components 0 sep s n = map_option (\<lambda>(us, trail). ([], us, trail)) (iso_fraction s n)"
| "iso_components (Suc k) sep s n = (case parse_digits 2 s of
     None \<Rightarrow> None
   | Some (v, r) \<Rightarrow>
       (let has_sep = (case sep of None \<Rightarrow> r \<noteq> [] \<and> hd r = CHR '':'' | Some b \<Rightarrow> b) in
        if n \<le> 3 then Some ([v], 0, r \<noteq> [])
        else if r \<noteq> [] \<and> has_sep \<and> hd r = CHR '':'' then
          map_option (\<lambda>(vs, rest). (v # vs, rest)) (iso_components k (Some has_sep) (tl r) (n - 3))
        else if r \<noteq> [] \<and> (hd r = CHR ''.'' \<or> hd r = CHR '','') then
          map_option (\<lambda>(us, trail). ([v], us, trail)) (iso_fraction (tl r) (n - 3))
        else if \<not> has_sep then
          map_option (\<lambda>(vs, rest). (v # vs, rest)) (iso_components k (Some has_sep) r (n - 2))
        else None))"

fun component :: "int list \<Rightarrow> nat \<Rightarrow> int" where
  "component [] i = 0"
| "component (v # vs) i = (if i = 0 then v else component vs (i - 1))"

definition clock_us :: "int list \<Rightarrow> int \<Rightarrow> int" where
  "clock_us vs us = ((component vs 0 * 60 + component vs 1) * 60 + component vs 2) * 1000000 + us"

text \<open>\<open>parse_isoformat_time\<close>: the time of day and the offset, both in microseconds.\<close>

definition iso_offset :: "char \<Rightarrow> string \<Rightarrow> int option" where
  "iso_offset sign s = (case iso_components 3 None s (length s) of
     None \<Rightarrow> None
   | Some (vs, us, trail) \<Rightarrow>
       (let total = clock_us vs us; seconds = clock_us vs 0 in
        if trail then None
        else if seconds = 0 then Some 0
        else if us_per_day \<le> total then None
        else Some (if sign = CHR ''-'' then - total else total)))"

definition clock_length :: "string \<Rightarrow> nat" where
  "clock_length s = length (takeWhile (\<lambda>c. c \<notin> {CHR ''+'', CHR ''-'', CHR ''Z''}) s)"

definition iso_time :: "string \<Rightarrow> (int \<times> int option) option" where
  "iso_time s = (let pos = clock_length s in
     case iso_components 3 None s pos of
       None \<Rightarrow> None
     | Some (vs, us, trail) \<Rightarrow>
         (if 24 \<le> component vs 0 \<or> 60 \<le> component vs 1 \<or> 60 \<le> component vs 2 then None
          else if pos = length s then (if trail then None else Some (clock_us vs us, None))
          else if s ! pos = CHR ''Z'' then (if pos + 1 < length s then None else Some (clock_us vs us, Some 0))
          else map_option (\<lambda>off. (clock_us vs us, Some off)) (iso_offset (s ! pos) (drop (pos + 1) s))))"

definition datetime_fromisoformat :: "string \<Rightarrow> datetime option" where
  "datetime_fromisoformat s =
     (if length s < 7 then None
      else case iso_separator s of
        None \<Rightarrow> None
      | Some sep \<Rightarrow> (case iso_date_at sep s of
          None \<Rightarrow> None
        | Some d \<Rightarrow>
            if length s \<le> sep + 1 then Some \<lparr>instant = d * us_per_day, utcoffset = None\<rparr>
            else map_option (\<lambda>(clock, off). \<lparr>instant = d * us_per_day + clock - (case off of None \<Rightarrow> 0 | Some x \<Rightarrow> x),
                   utcoffset = off\<rparr>) (iso_time (drop (sep + 1) s))))"

section \<open>Round trips\<close>

lemma digits_of_length: "n < 10 ^ w \<Longrightarrow> 0 < w \<Longrightarrow> length (digits_of n) \<le> w"
proof (induction w arbitrary: n)
  case (Suc w)
  show ?case
  proof (cases "n < 10")
    case True
    then show ?thesis by (subst digits_of.simps) simp
  next
    case False
    with Suc.prems have "n div 10 < 10 ^ w" "0 < w" by (auto intro: gr0I)
    from Suc.IH [OF this] False show ?thesis by (subst digits_of.simps) simp
  qed
qed simp

lemma zfill_length: "n < 10 ^ w \<Longrightarrow> 0 < w \<Longrightarrow> length (zfill w n) = w"
  using digits_of_length [of n w] by (simp add: zfill_def Let_def)

lemma zfill_digit: "c \<in> set (zfill w n) \<Longrightarrow> is_digit c"
  by (auto simp: zfill_def Let_def char_class_code dest: digits_of_digits split: if_splits)

lemma nat_of_digits_zeros: "nat_of_digits (replicate k CHR ''0'' @ s) = nat_of_digits s"
  by (induction k) (simp_all add: nat_of_digits_def digit_value_def)

lemma nat_of_digits_zfill: "nat_of_digits (zfill w n) = n"
  by (simp add: zfill_def Let_def nat_of_digits_zeros)

lemma parse_zfill:
  assumes "n < 10 ^ w" "0 < w"
  shows "parse_digits w (zfill w n @ r) = Some (int n, r)"
  using zfill_length [OF assms] zfill_digit [of _ w n]
  by (simp add: parse_digits_def nat_of_digits_zfill list_all_iff)

lemma eat_digit: "is_digit c \<Longrightarrow> \<not> is_digit d \<Longrightarrow> eat d (c # r) = None"
  by (auto simp: eat_def)

lemma eat_zfill:
  assumes "n < 10 ^ w" "0 < w" "\<not> is_digit d"
  shows "eat d (zfill w n @ r) = None"
proof -
  obtain c q where "zfill w n = c # q" using zfill_length [OF assms(1,2)] assms(2) by (cases "zfill w n") auto
  then show ?thesis using zfill_digit [of c w n] assms(3) by (simp add: eat_digit)
qed

lemma not_digits [simp]:
  "\<not> is_digit CHR ''-''" "\<not> is_digit CHR ''W''" "\<not> is_digit CHR '':''" "\<not> is_digit CHR ''.''"
  "\<not> is_digit CHR ''+''" "\<not> is_digit CHR ''Z''" "\<not> is_digit CHR ''T''"
  by (simp_all add: char_class_code)

lemma eat_same [simp]: "eat c (c # r) = Some r" "eat_sep True (CHR ''-'' # r) = Some r"
  by (simp_all add: eat_def eat_sep_def)

lemma iso_date_parts:
  assumes "1 \<le> d" "d \<le> 3652059"
  obtains y m k where "date_isoformat d = zfill 4 y @ ''-'' @ zfill 2 m @ ''-'' @ zfill 2 k"
    "y < 10 ^ 4" "m < 10 ^ 2" "k < 10 ^ 2" "valid_ymd (int y) (int m) (int k)"
    "ymd2ord (int y) (int m) (int k) = d"
proof -
  obtain y m k where o: "ord2ymd d = (y, m, k)" by (cases "ord2ymd d")
  note c = ord2ymd_correct [OF assms o]
  have "days_in_month y m \<le> 31" by (simp add: days_in_month_def)
  then have b: "0 \<le> y" "y \<le> 9999" "0 \<le> m" "m \<le> 12" "0 \<le> k" "k \<le> 31" using c(1) by (simp_all add: valid_ymd_def)
  show thesis
    by (rule that [of "nat y" "nat m" "nat k"]) (use o b c in \<open>simp_all add: date_isoformat_def\<close>)
qed

lemma parse_iso_month_zfill:
  assumes "m < 10 ^ 2" "k < 10 ^ 2" "valid_ymd y (int m) (int k)"
  shows "parse_iso_month y True (zfill 2 m @ CHR ''-'' # zfill 2 k @ r) = Some (ymd2ord y (int m) (int k))"
  using assms by (simp add: parse_iso_month_def parse_zfill)

lemma iso_date_at_isoformat:
  assumes "1 \<le> d" "d \<le> 3652059"
  shows "iso_date_at n (date_isoformat d @ r) = Some d"
  by (rule iso_date_parts [OF assms])
    (simp add: iso_date_at_def parse_zfill eat_zfill parse_iso_month_zfill Let_def)

lemma date_isoformat_length: "1 \<le> d \<Longrightarrow> d \<le> 3652059 \<Longrightarrow> length (date_isoformat d) = 10"
  by (erule iso_date_parts) (simp_all add: zfill_length)

lemma digits_ascii: "is_digit c \<Longrightarrow> of_char c < (128 :: int)"
  by (simp add: char_class_code Let_def)

lemma date_isoformat_ascii:
  assumes "1 \<le> d" "d \<le> 3652059" "c \<in> set (date_isoformat d)"
  shows "of_char c < (128 :: int)"
  by (rule iso_date_parts [OF assms(1,2)])
    (use assms(3) in \<open>auto dest!: zfill_digit digits_ascii\<close>)

lemma date_roundtrip:
  assumes "1 \<le> d" and "d \<le> 3652059"
  shows "date_fromisoformat (date_isoformat d) = Some d"
proof -
  have "\<not> 128 \<le> (of_char c :: int)" if "c \<in> set (date_isoformat d)" for c
    using date_isoformat_ascii [OF assms that] by simp
  then have "filter (\<lambda>c. 128 \<le> (of_char c :: int)) (date_isoformat d) = []" by (simp add: filter_empty_conv)
  then have len: "utf8_length (date_isoformat d) = 10"
    by (simp add: utf8_length_def date_isoformat_length [OF assms])
  show ?thesis
    by (rule iso_date_parts [OF assms])
      (use len parse_iso_month_zfill [where r = "[]"] in
        \<open>simp add: date_fromisoformat_def parse_zfill eat_zfill Let_def\<close>)
qed

subsection \<open>Clock and offset\<close>

lemma components_next:
  assumes "v < 10 ^ 2" "0 < n" "sep \<noteq> Some False"
  shows "iso_components (Suc k) sep (zfill 2 v @ CHR '':'' # r) (n + 3) =
    map_option (\<lambda>(vs, rest). (int v # vs, rest)) (iso_components k (Some True) r n)"
  using assms by (cases sep) (simp_all add: parse_zfill Let_def)

lemma components_last:
  assumes "v < 10 ^ 2"
  shows "iso_components (Suc k) sep (zfill 2 v @ r) 2 = Some ([int v], 0, r \<noteq> [])"
  using assms by (simp add: parse_zfill Let_def)

lemma components_fraction:
  assumes "v < 10 ^ 2" "f < 10 ^ 6"
  shows "iso_components (Suc k) sep (zfill 2 v @ CHR ''.'' # zfill 6 f @ r) 9 =
    Some ([int v], int f, dropWhile is_digit r \<noteq> [])"
  using assms by (simp add: parse_zfill Let_def iso_fraction_def split: option.splits)

definition clock_text :: "nat \<Rightarrow> nat \<Rightarrow> nat \<Rightarrow> nat \<Rightarrow> string" where
  "clock_text h m s f = zfill 2 h @ CHR '':'' # zfill 2 m @ CHR '':'' # zfill 2 s @
     (if f = 0 then [] else CHR ''.'' # zfill 6 f)"

lemma clock_text_length:
  assumes "h < 10 ^ 2" "m < 10 ^ 2" "s < 10 ^ 2" "f < 10 ^ 6"
  shows "length (clock_text h m s f) = (if f = 0 then 8 else 15)"
  using assms by (simp add: clock_text_def zfill_length)

lemma components_clock:
  assumes "h < 10 ^ 2" "m < 10 ^ 2" "s < 10 ^ 2" "f < 10 ^ 6"
  shows "iso_components 3 None (clock_text h m s f @ r) (length (clock_text h m s f)) =
    Some ([int h, int m, int s], int f, (if f = 0 then r else dropWhile is_digit r) \<noteq> [])"
proof (cases "f = 0")
  case True
  have "iso_components (Suc (Suc (Suc 0))) None (clock_text h m s f @ r) ((2 + 3) + 3) =
      Some ([int h, int m, int s], 0, r \<noteq> [])"
    using assms True unfolding clock_text_def append_assoc append_Cons
    by (subst components_next, simp, simp, simp, subst components_next, simp, simp, simp)
      (simp add: components_last del: iso_components.simps)
  then show ?thesis using True clock_text_length [OF assms] by (simp add: numeral_eq_Suc del: iso_components.simps)
next
  case False
  have "iso_components (Suc (Suc (Suc 0))) None (clock_text h m s f @ r) ((9 + 3) + 3) =
      Some ([int h, int m, int s], int f, dropWhile is_digit r \<noteq> [])"
    using assms False unfolding clock_text_def append_assoc append_Cons
    by (subst components_next, simp, simp, simp, subst components_next, simp, simp, simp)
      (simp add: components_fraction del: iso_components.simps)
  then show ?thesis using False clock_text_length [OF assms] by (simp add: numeral_eq_Suc del: iso_components.simps)
qed

lemma components_minutes:
  assumes "h < 10 ^ 2" "m < 10 ^ 2"
  shows "iso_components 3 None (zfill 2 h @ CHR '':'' # zfill 2 m) 5 = Some ([int h, int m], 0, False)"
proof -
  have "iso_components (Suc (Suc (Suc 0))) None (zfill 2 h @ CHR '':'' # zfill 2 m) (2 + 3) =
      Some ([int h, int m], 0, False)"
    by (subst components_next) (use assms components_last [of m _ _ "[]"] in \<open>simp_all del: iso_components.simps\<close>)
  then show ?thesis by (simp add: numeral_eq_Suc del: iso_components.simps)
qed

lemma clock_parts:
  fixes us :: int
  assumes "0 \<le> us" "us < us_per_day"
  obtains h m s f where "us div 1000000 div 3600 = int h" "us div 1000000 div 60 mod 60 = int m"
    "us div 1000000 mod 60 = int s" "us mod 1000000 = int f" "h < 24" "m < 60" "s < 60" "f < 10 ^ 6"
    "us = ((int h * 60 + int m) * 60 + int s) * 1000000 + int f"
proof -
  define t where "t = us div 1000000"
  define f where "f = us mod 1000000"
  have t: "0 \<le> t" "t < 86400" using assms by (simp_all add: t_def)
  have f: "0 \<le> f" "f < 1000000" by (simp_all add: f_def)
  have us: "us = t * 1000000 + f" by (simp add: t_def f_def)
  have "t = (t div 60 div 60 * 60 + t div 60 mod 60) * 60 + t mod 60" by (simp only: div_mult_mod_eq)
  then have whole: "t = (t div 3600 * 60 + t div 60 mod 60) * 60 + t mod 60" by (simp add: zdiv_zmult2_eq [symmetric])
  have h: "0 \<le> t div 3600" "t div 3600 < 24" using t by linarith+
  have m: "0 \<le> t div 60 mod 60" "t div 60 mod 60 < 60" "0 \<le> t mod 60" "t mod 60 < 60" by simp_all
  show thesis
  proof (rule that [of "nat (t div 3600)" "nat (t div 60 mod 60)" "nat (t mod 60)" "nat f"])
    show "us = ((int (nat (t div 3600)) * 60 + int (nat (t div 60 mod 60))) * 60 + int (nat (t mod 60))) * 1000000 + int (nat f)"
      unfolding nat_0_le [OF h(1)] nat_0_le [OF m(1)] nat_0_le [OF m(3)] nat_0_le [OF f(1)] whole [symmetric] by (rule us)
  qed (use h m f in \<open>simp_all add: t_def [symmetric] f_def [symmetric] nat_less_iff\<close>)
qed

lemma hms_str_clock:
  assumes "0 \<le> us" "us < us_per_day"
  obtains h m s f where "hms_str us = clock_text h m s f" "h < 24" "m < 60" "s < 60" "f < 10 ^ 6"
    "us = ((int h * 60 + int m) * 60 + int s) * 1000000 + int f"
proof (rule clock_parts [OF assms])
  fix h m s f
  assume c: "us div 1000000 div 3600 = int h" "us div 1000000 div 60 mod 60 = int m"
    "us div 1000000 mod 60 = int s" "us mod 1000000 = int f"
    and b: "h < 24" "m < 60" "s < 60" "f < 10 ^ 6" "us = ((int h * 60 + int m) * 60 + int s) * 1000000 + int f"
  have "hms_str us = clock_text h m s f" unfolding hms_str_def Let_def c clock_text_def by simp
  then show thesis using b by (rule that)
qed

lemma offset_clock:
  assumes b: "h < 10 ^ 2" "m < 10 ^ 2" "s < 10 ^ 2" "f < 10 ^ 6"
    and v: "\<bar>off\<bar> = ((int h * 60 + int m) * 60 + int s) * 1000000 + int f"
    and off: "\<bar>off\<bar> < us_per_day" "off = 0 \<or> 1000000 \<le> \<bar>off\<bar>"
    and r: "r = (if s = 0 \<and> f = 0 then zfill 2 h @ CHR '':'' # zfill 2 m else clock_text h m s f)"
  shows "iso_offset (if off < 0 then CHR ''-'' else CHR ''+'') r = Some off"
proof -
  define total where "total = ((int h * 60 + int m) * 60 + int s) * 1000000 + int f"
  have whole: "off = 0" if "((int h * 60 + int m) * 60 + int s) * 1000000 = 0"
    using that off(2) v b(4) by simp
  have "\<exists>vs. iso_components 3 None r (length r) = Some (vs, int f, False) \<and> clock_us vs (int f) = total \<and>
      clock_us vs 0 = ((int h * 60 + int m) * 60 + int s) * 1000000"
  proof (cases "s = 0 \<and> f = 0")
    case True
    then have "length r = 5" using b zfill_length by (simp add: r)
    with True show ?thesis unfolding r total_def
      by (simp add: components_minutes [OF b(1,2)] clock_us_def del: iso_components.simps)
  next
    case False
    then have "iso_components 3 None r (length r) = Some ([int h, int m, int s], int f, False)"
      using components_clock [OF b, of "[]"] unfolding r by (simp only: append_Nil2 if_False) simp
    then show ?thesis by (simp add: clock_us_def total_def)
  qed
  then obtain vs where p: "iso_components 3 None r (length r) = Some (vs, int f, False)" "clock_us vs (int f) = total"
    "clock_us vs 0 = ((int h * 60 + int m) * 60 + int s) * 1000000" by blast
  have t: "\<bar>off\<bar> = total" by (simp only: v total_def)
  show ?thesis
  proof (cases "clock_us vs 0 = 0")
    case True
    then show ?thesis using whole p(3) by (simp add: iso_offset_def p(1,2) Let_def)
  next
    case False
    then show ?thesis using t off(1) by (auto simp add: iso_offset_def p(1,2) Let_def)
  qed
qed

lemma offset_parses:
  assumes off: "\<bar>off\<bar> < us_per_day" "off = 0 \<or> 1000000 \<le> \<bar>off\<bar>"
  obtains c r where "offset_str off = c # r" "c = CHR ''+'' \<or> c = CHR ''-''" "iso_offset c r = Some off"
proof (rule clock_parts [OF abs_ge_zero off(1)])
  fix h m s f
  assume c: "\<bar>off\<bar> div 1000000 div 3600 = int h" "\<bar>off\<bar> div 1000000 div 60 mod 60 = int m"
    "\<bar>off\<bar> div 1000000 mod 60 = int s" "\<bar>off\<bar> mod 1000000 = int f"
    and b: "h < 24" "m < 60" "s < 60" "f < 10 ^ 6"
    and v: "\<bar>off\<bar> = ((int h * 60 + int m) * 60 + int s) * 1000000 + int f"
  let ?r = "if s = 0 \<and> f = 0 then zfill 2 h @ CHR '':'' # zfill 2 m else clock_text h m s f"
  have "offset_str off = (if off < 0 then CHR ''-'' else CHR ''+'') # ?r"
    unfolding offset_str_def Let_def c clock_text_def by simp
  then show thesis
    by (rule that) (use offset_clock [OF _ _ _ b(4) v off refl] b(1-3) in simp_all)
qed

text \<open>The clock ends where the offset begins.\<close>

lemma clock_text_no_sign:
  "c \<in> set (clock_text h m s f) \<Longrightarrow> c \<noteq> CHR ''+'' \<and> c \<noteq> CHR ''-'' \<and> c \<noteq> CHR ''Z''"
  by (auto simp: clock_text_def dest: zfill_digit split: if_splits)

lemma clock_prefix:
  assumes "r = [] \<or> hd r \<in> {CHR ''+'', CHR ''-'', CHR ''Z''}"
  shows "clock_length (clock_text h m s f @ r) = length (clock_text h m s f)"
proof -
  have "takeWhile (\<lambda>c. c \<notin> {CHR ''+'', CHR ''-'', CHR ''Z''}) (clock_text h m s f @ r) =
      clock_text h m s f @ takeWhile (\<lambda>c. c \<notin> {CHR ''+'', CHR ''-'', CHR ''Z''}) r"
    by (rule takeWhile_append2) (use clock_text_no_sign in blast)
  also have "takeWhile (\<lambda>c. c \<notin> {CHR ''+'', CHR ''-'', CHR ''Z''}) r = []" using assms by (cases r) auto
  finally show ?thesis by (simp add: clock_length_def)
qed

lemma iso_time_naive:
  assumes "0 \<le> us" "us < us_per_day"
  shows "iso_time (hms_str us) = Some (us, None)"
proof (rule hms_str_clock [OF assms])
  fix h m s f
  assume c: "hms_str us = clock_text h m s f" "h < 24" "m < 60" "s < 60" "f < 10 ^ 6"
    "us = ((int h * 60 + int m) * 60 + int s) * 1000000 + int f"
  have "iso_components 3 None (clock_text h m s f) (length (clock_text h m s f)) = Some ([int h, int m, int s], int f, False)"
    using components_clock [of h m s f "[]"] c(2-5) by simp
  moreover have "clock_length (clock_text h m s f) = length (clock_text h m s f)"
    using clock_prefix [of "[]"] by simp
  moreover have "clock_us [int h, int m, int s] (int f) = us" by (simp add: clock_us_def c(6))
  ultimately show ?thesis unfolding c(1)
    using c(2-4) by (simp add: iso_time_def Let_def del: iso_components.simps)
qed

lemma iso_time_aware:
  assumes us: "0 \<le> us" "us < us_per_day" and off: "\<bar>off\<bar> < us_per_day" "off = 0 \<or> 1000000 \<le> \<bar>off\<bar>"
  shows "iso_time (hms_str us @ offset_str off) = Some (us, Some off)"
proof (rule hms_str_clock [OF us], rule offset_parses [OF off])
  fix h m s f d r
  assume c: "hms_str us = clock_text h m s f" "h < 24" "m < 60" "s < 60" "f < 10 ^ 6"
    "us = ((int h * 60 + int m) * 60 + int s) * 1000000 + int f"
    and o: "offset_str off = d # r" "d = CHR ''+'' \<or> d = CHR ''-''" "iso_offset d r = Some off"
  have "dropWhile is_digit (d # r) = d # r" using o(2) by auto
  then have "iso_components 3 None (clock_text h m s f @ d # r) (length (clock_text h m s f)) =
      Some ([int h, int m, int s], int f, True)"
    using components_clock [of h m s f "d # r"] c(2-5) by simp
  moreover have "clock_length (clock_text h m s f @ d # r) = length (clock_text h m s f)"
    by (rule clock_prefix) (use o(2) in auto)
  moreover have "d \<noteq> CHR ''Z''" using o(2) by auto
  moreover have "clock_us [int h, int m, int s] (int f) = us" by (simp add: clock_us_def c(6))
  ultimately show ?thesis unfolding c(1) o(1)
    using c(2-4) o(3) by (simp add: iso_time_def Let_def del: iso_components.simps)
qed

lemma separator_isoformat:
  assumes "1 \<le> d" "d \<le> 3652059"
  shows "iso_separator (date_isoformat d @ CHR ''T'' # r) = Some 10"
proof (rule iso_date_parts [OF assms])
  fix y m k
  assume d: "date_isoformat d = zfill 4 y @ ''-'' @ zfill 2 m @ ''-'' @ zfill 2 k" "y < 10 ^ 4" "m < 10 ^ 2" "k < 10 ^ 2"
  obtain a b where m: "zfill 2 m = [a, b]" using zfill_length [OF d(3)]
    by (auto simp: length_Suc_conv numeral_2_eq_2)
  have "is_digit a" using zfill_digit [of a 2 m] m by simp
  then have "a \<noteq> CHR ''W''" by auto
  moreover have "length (zfill 4 y) = 4" "length (zfill 2 k) = 2" using d zfill_length by simp_all
  ultimately show ?thesis by (simp add: iso_separator_def d(1) char_at_def nth_append m)
qed

text \<open>
  \<open>datetime.fromisoformat(t.isoformat()) == t\<close> for a wall clock in the years 1 to 9999, except where
  the UTC offset is a fraction of a second: CPython reads that back as UTC.
\<close>

lemma isoformat_parts:
  assumes "us_per_day \<le> wall_clock t" "wall_clock t < 3652060 * us_per_day"
  obtains d us where "1 \<le> d" "d \<le> 3652059" "0 \<le> us" "us < us_per_day" "wall_clock t = d * us_per_day + us"
    "isoformat t = date_isoformat d @ CHR ''T'' # hms_str us @
       (case utcoffset t of None \<Rightarrow> [] | Some off \<Rightarrow> offset_str off)"
proof -
  have "1 \<le> wall_clock t div us_per_day" "wall_clock t div us_per_day \<le> 3652059" using assms by linarith+
  then show thesis
    by (intro that [of "wall_clock t div us_per_day" "wall_clock t mod us_per_day"])
      (simp_all add: isoformat_def Let_def)
qed

lemma datetime_roundtrip:
  assumes wall: "us_per_day \<le> wall_clock t" "wall_clock t < 3652060 * us_per_day"
    and off: "\<And>off. utcoffset t = Some off \<Longrightarrow> \<bar>off\<bar> < us_per_day \<and> (off = 0 \<or> 1000000 \<le> \<bar>off\<bar>)"
  shows "datetime_fromisoformat (isoformat t) = Some t"
proof (rule isoformat_parts [OF wall])
  fix d us
  assume d: "1 \<le> d" "d \<le> 3652059" "0 \<le> us" "us < us_per_day" "wall_clock t = d * us_per_day + us"
    and iso: "isoformat t = date_isoformat d @ CHR ''T'' # hms_str us @
       (case utcoffset t of None \<Rightarrow> [] | Some off \<Rightarrow> offset_str off)"
  obtain h m s f where c: "hms_str us = clock_text h m s f" by (rule hms_str_clock [OF d(3,4)])
  have ne: "hms_str us \<noteq> []" by (simp add: c clock_text_def)
  have time: "iso_time (hms_str us @ (case utcoffset t of None \<Rightarrow> [] | Some off \<Rightarrow> offset_str off)) = Some (us, utcoffset t)"
    using iso_time_naive [OF d(3,4)] iso_time_aware [OF d(3,4)] off by (cases "utcoffset t") auto
  have drop: "drop 11 (date_isoformat d @ CHR ''T'' # r) = r" for r
    using date_isoformat_length [OF d(1,2)] by simp
  have "datetime_fromisoformat (isoformat t) =
      Some \<lparr>instant = d * us_per_day + us - (case utcoffset t of None \<Rightarrow> 0 | Some x \<Rightarrow> x), utcoffset = utcoffset t\<rparr>"
    using ne date_isoformat_length [OF d(1,2)]
    by (simp add: datetime_fromisoformat_def iso separator_isoformat [OF d(1,2)] iso_date_at_isoformat [OF d(1,2)] drop time)
  then show ?thesis using d(5) by (cases t) (simp add: wall_clock_def split: option.splits)
qed

end
