(* ===== verification/Observation_Hash.thy ===== *)
theory Observation_Hash
  imports Iso_Time Contract_Observations Break_Json
begin

text \<open>
  \<open>packages/contracts/hashing.py\<close>: the versioned canonical document of an observation, its SHA-256
  fingerprint and the check of a declared one. The Python values that the canonicaliser meets are a
  datatype, so that a mapping parsed from JSON and the dump of a model are both inputs. The main
  result is that the fingerprinted bytes identify the semantic content of an observation and nothing
  else: neither the delivery fields nor the way a timestamp is written.
\<close>

section \<open>Values\<close>

datatype pyval =
    PNone
  | PBool bool
  | PInt int
  | PFloat rat
  | PStr string
  | PDatetime datetime
  | PDate date
  | PList "pyval list"
  | PMap "(string \<times> pyval) list"

text \<open>\<open>s.replace(old, new)\<close>, of a nonempty \<open>old\<close>.\<close>

function py_replace :: "string \<Rightarrow> string \<Rightarrow> string \<Rightarrow> string" where
  "py_replace old new s =
     (if s = [] then []
      else if old \<noteq> [] \<and> starts_with s old then new @ py_replace old new (drop (length old) s)
      else hd s # py_replace old new (tl s))"
  by pat_completeness auto
termination by (relation "measure (\<lambda>(old, new, s). length s)") auto

declare py_replace.simps [simp del]

section \<open>Canonical documents\<close>

definition delivery_fields :: "string list" where
  "delivery_fields = [''content_hash'', ''correlation_id'', ''ingest_time'', ''observation_id'', ''source_event_id'']"

definition timestamp_fields :: "string list" where
  "timestamp_fields = [''event_time'', ''effective_time'', ''execution_time'', ''capture_time'',
     ''confirmation_time'', ''last_updated_time'']"

definition observation_hash_standard :: string where
  "observation_hash_standard = ''tradeops-observation-canonical-json-v1''"

text \<open>\<open>t.astimezone(UTC)\<close>: the instant stays, unless UTC leaves the years 1 to 9999.\<close>

definition astimezone_utc :: "datetime \<Rightarrow> py_error + datetime" where
  "astimezone_utc t =
     (if instant t < us_per_day \<or> 3652060 * us_per_day \<le> instant t
      then Inl (OverflowError ''date value out of range'') else Inr (utc (instant t)))"

text \<open>\<open>t.isoformat(timespec="microseconds")\<close>.\<close>

definition isoformat_us :: "datetime \<Rightarrow> string" where
  "isoformat_us t = (let w = wall_clock t; us = w mod us_per_day; s = us div 1000000 in
     date_isoformat (w div us_per_day) @ ''T'' @ zfill 2 (nat (s div 3600)) @ '':'' @
     zfill 2 (nat (s div 60 mod 60)) @ '':'' @ zfill 2 (nat (s mod 60)) @ ''.'' @ zfill 6 (nat (us mod 1000000)) @
     (case utcoffset t of None \<Rightarrow> [] | Some off \<Rightarrow> offset_str off))"

definition normalised_timestamp :: "datetime \<Rightarrow> py_error + string" where
  "normalised_timestamp parsed =
     (if \<not> aware parsed then Inl (ValueError ''canonical observation timestamps must include a timezone offset'')
      else ebind (astimezone_utc parsed) (\<lambda>t. Inr (py_replace ''+00:00'' ''Z'' (isoformat_us t))))"

definition parsed_timestamp :: "string \<Rightarrow> py_error + datetime" where
  "parsed_timestamp s = (case datetime_fromisoformat (py_replace ''Z'' ''+00:00'' s) of
     None \<Rightarrow> Inl (ValueError ''Invalid isoformat string'') | Some t \<Rightarrow> Inr t)"

text \<open>\<open>_utc_timestamp\<close> of a string.\<close>

definition utc_timestamp :: "string \<Rightarrow> py_error + string" where
  "utc_timestamp s = ebind (parsed_timestamp s) normalised_timestamp"

lemma member_size: "(k, v) \<in> set kvs \<Longrightarrow> size v < Suc (size_list (size_prod (\<lambda>x. 0) size) kvs)"
  by (induction kvs) (auto intro: less_SucI)

lemma item_size: "x \<in> set xs \<Longrightarrow> size x < Suc (size_list size xs)"
  by (induction xs) (auto intro: less_SucI)

text \<open>\<open>_normalise\<close>; a float is rendered when the document is encoded.\<close>

function normalise :: "runtime \<Rightarrow> string option \<Rightarrow> pyval \<Rightarrow> py_error + json" where
  "normalise rt field_name PNone = Inr JNull"
| "normalise rt field_name (PBool b) = Inr (JBool b)"
| "normalise rt field_name (PInt i) = Inr (JInt i)"
| "normalise rt field_name (PFloat x) = Inr (JFloat (float_repr rt x))"
| "normalise rt field_name (PStr s) =
     (if field_name \<in> Some ` set timestamp_fields then ebind (utc_timestamp s) (\<lambda>t. Inr (JStr t)) else Inr (JStr s))"
| "normalise rt field_name (PDatetime t) = ebind (normalised_timestamp t) (\<lambda>s. Inr (JStr s))"
| "normalise rt field_name (PDate d) = Inr (JStr (date_isoformat d))"
| "normalise rt field_name (PList xs) = ebind (emap (normalise rt None) xs) (\<lambda>js. Inr (JList js))"
| "normalise rt field_name (PMap kvs) =
     ebind (emap (\<lambda>(k, v). ebind (normalise rt (Some k) v) (\<lambda>j. Inr (k, j)))
       (filter (\<lambda>(k, v). v \<noteq> PNone) (sort_key fst kvs))) (\<lambda>js. Inr (JObj js))"
  by pat_completeness auto
termination
  by (relation "measure (\<lambda>(rt, n, v). size v)") (auto dest: member_size item_size)

definition canonical_observation_document :: "runtime \<Rightarrow> (string \<times> pyval) list \<Rightarrow> py_error + json" where
  "canonical_observation_document rt raw =
     ebind (normalise rt None (PMap (filter (\<lambda>(k, v). k \<notin> set delivery_fields) raw))) (\<lambda>doc.
     Inr (JObj [(''hash_standard'', JStr observation_hash_standard), (''observation'', doc)]))"

definition canonical_observation_bytes :: "runtime \<Rightarrow> (string \<times> pyval) list \<Rightarrow> py_error + string" where
  "canonical_observation_bytes rt raw =
     ebind (canonical_observation_document rt raw) (\<lambda>doc. Inr (dumps doc))"

definition compute_observation_content_hash :: "runtime \<Rightarrow> (string \<times> pyval) list \<Rightarrow> py_error + string" where
  "compute_observation_content_hash rt raw =
     ebind (canonical_observation_bytes rt raw) (\<lambda>b. Inr (sha256_tag rt b))"

definition hash_mismatch :: "string \<Rightarrow> string \<Rightarrow> string \<Rightarrow> py_error" where
  "hash_mismatch observation_id declared calculated = ValueError (
     ''observation content_hash does not match canonical content: observation_id='' @ observation_id @
     '' declared='' @ declared @ '' calculated='' @ calculated @ '' standard='' @ observation_hash_standard)"

definition validate_observation_content_hash :: "runtime \<Rightarrow> (string \<times> pyval) list \<Rightarrow> py_error + string" where
  "validate_observation_content_hash rt raw = (case (map_of raw ''content_hash'', map_of raw ''observation_id'') of
     (Some (PStr declared), Some (PStr observation_id)) \<Rightarrow>
       ebind (compute_observation_content_hash rt raw) (\<lambda>calculated.
       if declared \<noteq> calculated then Inl (hash_mismatch observation_id declared calculated) else Inr calculated)
   | _ \<Rightarrow> Inl (ValueError ''observation_id and content_hash are required for hash validation''))"

section \<open>The dump of an observation\<close>

text \<open>\<open>model_dump(mode="python")\<close> of the observation classes: every field of the model, by its name.\<close>

fun event_type_str :: "TradeEventType \<Rightarrow> string" where
  "event_type_str EVENT_NEW = ''NEW''"
| "event_type_str EVENT_AMEND = ''AMEND''"
| "event_type_str EVENT_CANCEL = ''CANCEL''"

fun execution_status_str :: "ExecutionStatus \<Rightarrow> string" where
  "execution_status_str EXECUTED = ''EXECUTED''"
| "execution_status_str EXECUTION_AMENDED = ''AMENDED''"
| "execution_status_str EXECUTION_CANCELLED = ''CANCELLED''"

fun capture_status_str :: "CaptureStatus \<Rightarrow> string" where
  "capture_status_str CAPTURE_CAPTURED = ''CAPTURED''"
| "capture_status_str CAPTURE_AMENDED = ''AMENDED''"
| "capture_status_str CAPTURE_CANCELLED = ''CANCELLED''"

fun confirmation_status_str :: "ConfirmationStatus \<Rightarrow> string" where
  "confirmation_status_str PENDING = ''PENDING''"
| "confirmation_status_str AFFIRMED = ''AFFIRMED''"
| "confirmation_status_str CONFIRMATION_REJECTED = ''REJECTED''"
| "confirmation_status_str CONFIRMATION_AMENDED = ''AMENDED''"
| "confirmation_status_str CONFIRMATION_CANCELLED = ''CANCELLED''"

fun booking_status_str :: "BookingStatus \<Rightarrow> string" where
  "booking_status_str BOOKING_BOOKED = ''BOOKED''"
| "booking_status_str BOOKING_AMENDED = ''AMENDED''"
| "booking_status_str BOOKING_CANCELLED = ''CANCELLED''"

fun supersession_str :: "SupersessionReason \<Rightarrow> string" where
  "supersession_str CORRECTION = ''CORRECTION''"
| "supersession_str LATE_REVISION = ''LATE_REVISION''"
| "supersession_str SOURCE_AMENDMENT = ''SOURCE_AMENDMENT''"

definition dump_optional :: "('a \<Rightarrow> string) \<Rightarrow> 'a option \<Rightarrow> pyval" where
  "dump_optional f x = (case x of None \<Rightarrow> PNone | Some v \<Rightarrow> PStr (f v))"

definition dump_amount :: "DecimalAmount \<Rightarrow> pyval" where
  "dump_amount x = PMap [(''currency'', PStr (da_currency x)), (''value'', PStr (da_value x)), (''scale'', PInt (da_scale x))]"

definition dump_rate :: "DecimalRate \<Rightarrow> pyval" where
  "dump_rate x = PMap [(''value'', PStr (dr_value x)), (''scale'', PInt (dr_scale x)),
     (''orientation'', PStr ''TERMS_CURRENCY_PER_BASE_CURRENCY'')]"

definition dump_actor :: "Actor \<Rightarrow> pyval" where
  "dump_actor x = PMap [(''identity_type'', PStr (identity_type_str (identity_type x))), (''actor_id'', PStr (actor_id x))]"

definition dump_fx :: "FxPayload \<Rightarrow> (string \<times> pyval) list" where
  "dump_fx x = [
     (''product_type'', PStr (product_str (fx_product_type x))),
     (''settlement_rule_version'', PStr (fx_settlement_rule_version x)),
     (''source_trade_id'', PStr (fx_source_trade_id x)),
     (''base_currency'', PStr (fx_base_currency x)),
     (''terms_currency'', PStr (fx_terms_currency x)),
     (''side'', PStr (side_str (fx_side x))),
     (''base_amount'', dump_amount (fx_base_amount x)),
     (''terms_amount'', dump_amount (fx_terms_amount x)),
     (''quoted_rate'', dump_rate (fx_quoted_rate x)),
     (''trade_date'', PDate (fx_trade_date x)),
     (''value_date'', PDate (fx_value_date x)),
     (''counterparty_id'', PStr (fx_counterparty_id x)),
     (''book_id'', PStr (fx_book_id x)),
     (''lifecycle_status'', PStr (lifecycle_str (fx_lifecycle_status x)))]"

fun dump_source :: "SourcePayload \<Rightarrow> (string \<times> pyval) list" where
  "dump_source (ExecutionSource d) = [
     (''execution_id'', PStr (execution_id d)),
     (''execution_type'', PStr (event_type_str (execution_type d))),
     (''execution_status'', PStr (execution_status_str (execution_status d))),
     (''execution_time'', PDatetime (execution_time d)),
     (''order_id'', dump_optional id (order_id d))]"
| "dump_source (TradeCaptureSource d) = [
     (''capture_id'', PStr (capture_id d)),
     (''capture_type'', PStr (event_type_str (capture_type d))),
     (''capture_status'', PStr (capture_status_str (capture_status d))),
     (''capture_time'', PDatetime (capture_time d)),
     (''execution_reference'', PStr (execution_reference d))]"
| "dump_source (ConfirmationSource d) = [
     (''confirmation_id'', PStr (confirmation_id d)),
     (''confirmation_reference'', PStr (cp_confirmation_reference d)),
     (''confirmation_status'', PStr (confirmation_status_str (confirmation_status d))),
     (''confirmation_time'', PDatetime (confirmation_time d)),
     (''fpml_profile'', PStr ''fpml-style-fx-v1'')]"
| "dump_source (BookingSource d) = [
     (''booking_record_id'', PStr (booking_record_id d)),
     (''booking_version'', PInt (booking_version d)),
     (''booking_status'', PStr (booking_status_str (booking_status d))),
     (''last_updated_time'', PDatetime (last_updated_time d)),
     (''confirmation_reference'', dump_optional id (bp_confirmation_reference d)),
     (''record_fingerprint'', PStr (record_fingerprint d))]"

definition dump_observation :: "Observation \<Rightarrow> (string \<times> pyval) list" where
  "dump_observation ob = [
     (''schema_version'', PStr ''1.0.0''),
     (''observation_id'', PStr (ob_observation_id ob)),
     (''observation_kind'', PStr (kind_str (ob_kind ob))),
     (''entity_version'', PInt (ob_entity_version ob)),
     (''tenant_id'', PStr (ob_tenant_id ob)),
     (''portfolio_id'', PStr (ob_portfolio_id ob)),
     (''correlation_id'', PStr (ob_correlation_id ob)),
     (''source_system'', PStr (source_system_str (ob_source_system ob))),
     (''source_event_id'', PStr (ob_source_event_id ob)),
     (''source_business_key'', PStr (ob_source_business_key ob)),
     (''source_version'', PStr (ob_source_version ob)),
     (''content_hash'', PStr (ob_content_hash ob)),
     (''event_time'', PDatetime (ob_event_time ob)),
     (''effective_time'', PDatetime (ob_effective_time ob)),
     (''ingest_time'', PDatetime (ob_ingest_time ob)),
     (''source_sequence'', PInt (ob_source_sequence ob)),
     (''lineage_group_id'', PStr (ob_lineage_group_id ob)),
     (''actor'', dump_actor (ob_actor ob)),
     (''supersedes_observation_id'', dump_optional id (ob_supersedes_observation_id ob)),
     (''supersession_reason'', dump_optional supersession_str (ob_supersession_reason ob)),
     (''payload'', PMap (dump_fx (ob_payload ob) @ dump_source (ob_source ob)))]"

section \<open>Timestamps\<close>

lemma py_replace_Nil [simp]: "py_replace old new [] = []"
  by (subst py_replace.simps) simp

lemma py_replace_skip:
  "c \<notin> set p \<Longrightarrow> py_replace (c # old) new (p @ q) = p @ py_replace (c # old) new q"
proof (induction p)
  case (Cons d p)
  then have "c \<noteq> d" "py_replace (c # old) new (p @ q) = p @ py_replace (c # old) new q" by simp_all
  then show ?case by (subst py_replace.simps) (auto simp: starts_with_def)
qed simp

lemma py_replace_hit: "old \<noteq> [] \<Longrightarrow> py_replace old new (old @ q) = new @ py_replace old new q"
  by (subst py_replace.simps) (simp add: starts_with_def)

lemma py_replace_absent: "c \<notin> set p \<Longrightarrow> py_replace (c # old) new p = p"
  using py_replace_skip [of c p old new "[]"] by simp

definition plain_text :: "string \<Rightarrow> bool" where
  "plain_text s \<longleftrightarrow> CHR ''+'' \<notin> set s \<and> CHR ''Z'' \<notin> set s"

lemma plain_text_simps [simp]:
  "plain_text []" "plain_text (a @ b) \<longleftrightarrow> plain_text a \<and> plain_text b"
  "plain_text (c # b) \<longleftrightarrow> c \<noteq> CHR ''+'' \<and> c \<noteq> CHR ''Z'' \<and> plain_text b" "plain_text (zfill w n)"
  using zfill_digit [of "CHR ''+''" w n] zfill_digit [of "CHR ''Z''" w n] by (auto simp: plain_text_def)

lemma plain_date: "1 \<le> d \<Longrightarrow> d \<le> 3652059 \<Longrightarrow> plain_text (date_isoformat d)"
  by (erule iso_date_parts) simp_all

lemma replace_offset:
  assumes "plain_text p"
  shows "py_replace ''+00:00'' ''Z'' (p @ ''+00:00'') = p @ ''Z''"
    and "py_replace ''Z'' ''+00:00'' (p @ ''Z'') = p @ ''+00:00''"
  using assms py_replace_skip [of "CHR ''+''" p "''00:00''" "''Z''" "''+00:00''"]
    py_replace_skip [of "CHR ''Z''" p "[]" "''+00:00''" "''Z''"]
    py_replace_hit [of "''+00:00''" "''Z''" "[]"] py_replace_hit [of "''Z''" "''+00:00''" "[]"]
  by (simp_all add: plain_text_def)

definition clock_text_us :: "nat \<Rightarrow> nat \<Rightarrow> nat \<Rightarrow> nat \<Rightarrow> string" where
  "clock_text_us h m s f = zfill 2 h @ CHR '':'' # zfill 2 m @ CHR '':'' # zfill 2 s @ CHR ''.'' # zfill 6 f"

lemma iso_time_us:
  assumes "h < 24" "m < 60" "s < 60" "f < 10 ^ 6"
    and us: "us = ((int h * 60 + int m) * 60 + int s) * 1000000 + int f"
  shows "iso_time (clock_text_us h m s f @ ''+00:00'') = Some (us, Some 0)"
proof -
  have b: "h < 10 ^ 2" "m < 10 ^ 2" "s < 10 ^ 2" using assms by simp_all
  have len: "length (clock_text_us h m s f) = (9 + 3) + 3" using b assms(4) by (simp add: clock_text_us_def zfill_length)
  have "takeWhile (\<lambda>c. c \<notin> {CHR ''+'', CHR ''-'', CHR ''Z''}) (clock_text_us h m s f @ ''+00:00'') = clock_text_us h m s f"
    by (subst takeWhile_append2) (auto simp: clock_text_us_def dest: zfill_digit)
  then have "clock_length (clock_text_us h m s f @ ''+00:00'') = (9 + 3) + 3" unfolding clock_length_def len [symmetric] by simp
  moreover have "iso_components (Suc (Suc (Suc 0))) None (clock_text_us h m s f @ ''+00:00'') ((9 + 3) + 3) =
      Some ([int h, int m, int s], int f, True)"
    using b assms(4) unfolding clock_text_us_def append_assoc append_Cons
    by (subst components_next, simp, simp, simp, subst components_next, simp, simp, simp)
      (simp add: components_fraction char_class_code del: iso_components.simps)
  moreover have "iso_offset CHR ''+'' ''00:00'' = Some 0" by code_simp
  moreover have "clock_us [int h, int m, int s] (int f) = us" by (simp add: clock_us_def us)
  moreover have "(clock_text_us h m s f @ ''+00:00'') ! 15 = CHR ''+''" "length (clock_text_us h m s f @ ''+00:00'') = 21"
    "drop 16 (clock_text_us h m s f @ ''+00:00'') = ''00:00''"
    using len by (simp_all add: nth_append)
  ultimately show ?thesis using assms(1-3)
    by (simp add: iso_time_def Let_def numeral_3_eq_3 del: iso_components.simps)
qed

lemma normalised_timestamp_parses:
  assumes "normalised_timestamp t = Inr s"
  shows "parsed_timestamp s = Inr (utc (instant t))"
proof -
  have range: "us_per_day \<le> instant t" "instant t < 3652060 * us_per_day"
    and s: "s = py_replace ''+00:00'' ''Z'' (isoformat_us (utc (instant t)))"
    using assms by (auto simp: normalised_timestamp_def astimezone_utc_def result_simps split: if_splits)
  define d where "d = instant t div us_per_day"
  define us where "us = instant t mod us_per_day"
  have d: "1 \<le> d" "d \<le> 3652059" using range unfolding d_def by linarith+
  have us: "0 \<le> us" "us < us_per_day" by (simp_all add: us_def)
  have i: "instant t = d * us_per_day + us" by (simp add: d_def us_def)
  from clock_parts [OF us] obtain h m k f where c: "us div 1000000 div 3600 = int h" "us div 1000000 div 60 mod 60 = int m"
    "us div 1000000 mod 60 = int k" "us mod 1000000 = int f" and b: "h < 24" "m < 60" "k < 60" "f < 10 ^ 6"
    and v: "us = ((int h * 60 + int m) * 60 + int k) * 1000000 + int f" by blast
  have w: "wall_clock (utc (instant t)) = instant t" by (simp add: wall_clock_def)
  have off: "offset_str 0 = ''+00:00''" by code_simp
  define p where "p = date_isoformat d @ ''T'' @ clock_text_us h m k f"
  have iso: "isoformat_us (utc (instant t)) = p @ ''+00:00''"
    unfolding isoformat_us_def Let_def w d_def [symmetric] us_def [symmetric] c p_def clock_text_us_def
    by (simp add: off)
  have plain: "plain_text p" using plain_date [OF d] by (simp add: p_def clock_text_us_def)
  have parse: "datetime_fromisoformat (p @ ''+00:00'') = Some (utc (instant t))"
    using date_isoformat_length [OF d] separator_isoformat [OF d] iso_date_at_isoformat [OF d] iso_time_us [OF b v]
    by (simp add: datetime_fromisoformat_def p_def i utc_def)
  show ?thesis unfolding s iso replace_offset(1) [OF plain] parsed_timestamp_def replace_offset(2) [OF plain] parse
    by simp
qed

section \<open>What the document depends on\<close>

subsection \<open>Values written otherwise\<close>

text \<open>Every date-time and date of a value replaced.\<close>

fun retime :: "(datetime \<Rightarrow> pyval) \<Rightarrow> (date \<Rightarrow> pyval) \<Rightarrow> pyval \<Rightarrow> pyval" where
  "retime g h (PDatetime t) = g t"
| "retime g h (PDate d) = h d"
| "retime g h (PList xs) = PList (map (retime g h) xs)"
| "retime g h (PMap kvs) = PMap (map (\<lambda>(k, v). (k, retime g h v)) kvs)"
| "retime g h v = v"

fun timed :: "(string option \<Rightarrow> datetime \<Rightarrow> bool) \<Rightarrow> (string option \<Rightarrow> date \<Rightarrow> bool) \<Rightarrow> string option \<Rightarrow> pyval \<Rightarrow> bool" where
  "timed P Q n (PDatetime t) = P n t"
| "timed P Q n (PDate d) = Q n d"
| "timed P Q n (PList xs) = list_all (timed P Q None) xs"
| "timed P Q n (PMap kvs) = list_all (\<lambda>(k, v). timed P Q (Some k) v) kvs"
| "timed P Q n v = True"

lemma insort_key_map: "insort_key fst (k, f v) (map (\<lambda>(k, v). (k, f v)) kvs) = map (\<lambda>(k, v). (k, f v)) (insort_key fst (k, v) kvs)"
  by (induction kvs) auto

lemma sort_key_map_values: "sort_key fst (map (\<lambda>(k, v). (k, f v)) kvs) = map (\<lambda>(k, v). (k, f v)) (sort_key fst kvs)"
  by (induction kvs) (auto simp: insort_key_map)

lemma filter_map_values:
  "(\<And>k v. (k, v) \<in> set kvs \<Longrightarrow> (f v \<noteq> PNone) = (v \<noteq> PNone)) \<Longrightarrow>
   filter (\<lambda>(k, v). v \<noteq> PNone) (map (\<lambda>(k, v). (k, f v)) kvs) = map (\<lambda>(k, v). (k, f v)) (filter (\<lambda>(k, v). v \<noteq> PNone) kvs)"
  by (induction kvs) auto

lemma emap_map: "emap f (map g xs) = emap (\<lambda>x. f (g x)) xs"
  by (induction xs) auto

lemma retime_None:
  assumes "\<And>t. g t \<noteq> PNone" "\<And>d. h d \<noteq> PNone"
  shows "retime g h v \<noteq> PNone \<longleftrightarrow> v \<noteq> PNone"
  using assms by (cases v) auto

lemma normalise_retime:
  assumes g: "\<And>n t. P n t \<Longrightarrow> normalise rt n (g t) = normalise rt n (PDatetime t)" and gN: "\<And>t. g t \<noteq> PNone"
    and h: "\<And>n d. Q n d \<Longrightarrow> normalise rt n (h d) = normalise rt n (PDate d)" and hN: "\<And>d. h d \<noteq> PNone"
  shows "timed P Q n v \<Longrightarrow> normalise rt n (retime g h v) = normalise rt n v"
proof (induction v arbitrary: n)
  case (PList xs)
  have "emap (\<lambda>x. normalise rt None (retime g h x)) xs = emap (normalise rt None) xs"
    by (rule emap_cong [OF refl]) (use PList in \<open>auto simp: list_all_iff\<close>)
  then show ?case by (simp add: emap_map comp_def)
next
  case (PMap kvs)
  let ?f = "\<lambda>(k, v). ebind (normalise rt (Some k) v) (\<lambda>j. Inr (k, j))"
  let ?m = "map (\<lambda>(k, v). (k, retime g h v))"
  let ?kvs = "filter (\<lambda>(k, v). v \<noteq> PNone) (sort_key fst kvs)"
  have "filter (\<lambda>(k, v). v \<noteq> PNone) (?m (sort_key fst kvs)) = ?m ?kvs"
    by (rule filter_map_values) (rule retime_None [OF gN hN])
  moreover have "emap ?f (?m ?kvs) = emap ?f ?kvs" unfolding emap_map
    by (rule emap_cong [OF refl]) (use PMap in \<open>fastforce simp: list_all_iff\<close>)
  ultimately show ?case by (simp only: retime.simps normalise.simps sort_key_map_values)
qed (use g h in auto)

subsection \<open>Members of the document\<close>

fun no_floats :: "pyval \<Rightarrow> bool" where
  "no_floats (PFloat x) = False"
| "no_floats (PList xs) = list_all no_floats xs"
| "no_floats (PMap kvs) = list_all (\<lambda>(k, v). no_floats v) kvs"
| "no_floats v = True"

lemma normalise_wf: "normalise rt n v = Inr j \<Longrightarrow> no_floats v \<Longrightarrow> wf_json j"
proof (induction rt n v arbitrary: j rule: normalise.induct)
  case (8 rt n xs)
  then obtain js where js: "emap (normalise rt None) xs = Inr js" "j = JList js" by (auto simp: result_simps)
  have "wf_json x" if "x \<in> set js" for x
    using emap_Inr_mem [OF js(1) that] 8 by (auto simp: list_all_iff)
  with js show ?case by (simp add: list_all_iff)
next
  case (9 rt n kvs)
  let ?kvs = "filter (\<lambda>(k, v). v \<noteq> PNone) (sort_key fst kvs)"
  obtain js where js: "emap (\<lambda>(k, v). ebind (normalise rt (Some k) v) (\<lambda>j. Inr (k, j))) ?kvs = Inr js" "j = JObj js"
    using 9(2) by (auto simp: result_simps)
  have "wf_json (snd x)" if "x \<in> set js" for x
    using emap_Inr_mem [OF js(1) that] 9 by (fastforce simp: list_all_iff result_simps)
  with js show ?case by (simp add: list_all_iff)
qed (auto simp: result_simps split: if_splits)

text \<open>The member that a key of a mapping becomes.\<close>

definition member_of :: "runtime \<Rightarrow> string \<Rightarrow> pyval \<Rightarrow> json option" where
  "member_of rt k v = (if v = PNone then None else case normalise rt (Some k) v of Inl _ \<Rightarrow> None | Inr j \<Rightarrow> Some j)"

lemma emap_Inr_total: "emap f xs = Inr ys \<Longrightarrow> x \<in> set xs \<Longrightarrow> \<exists>y. f x = Inr y"
  by (induction xs arbitrary: ys) (auto simp: result_simps)

lemma emap_members:
  assumes "emap (\<lambda>(k, v). ebind (normalise rt (Some k) v) (\<lambda>j. Inr (k, j))) kvs = Inr js"
  shows "map fst js = map fst kvs \<and> map_of js k = Option.bind (map_of kvs k) (\<lambda>v. case normalise rt (Some k) v of Inl _ \<Rightarrow> None | Inr j \<Rightarrow> Some j)"
  using assms by (induction kvs arbitrary: js) (auto simp: result_simps)

lemma map_of_filter_some:
  "distinct (map fst kvs) \<Longrightarrow> map_of (filter (\<lambda>(k, v). v \<noteq> x) kvs) k =
     (case map_of kvs k of None \<Rightarrow> None | Some v \<Rightarrow> if v = x then None else Some v)"
  by (induction kvs) (auto simp: map_of_eq_None_iff rev_image_eqI split: option.splits)

lemma normalise_object:
  assumes "normalise rt n (PMap kvs) = Inr j" and d: "distinct (map fst kvs)"
  obtains js where "j = JObj js" "distinct (map fst js)"
    "\<And>k. map_of js k = Option.bind (map_of kvs k) (member_of rt k)"
proof -
  let ?s = "sort_key fst kvs"
  let ?kvs = "filter (\<lambda>(k, v). v \<noteq> PNone) ?s"
  obtain js where js: "emap (\<lambda>(k, v). ebind (normalise rt (Some k) v) (\<lambda>j. Inr (k, j))) ?kvs = Inr js" "j = JObj js"
    using assms(1) by (auto simp: result_simps)
  have "mset (map fst ?s) = mset (map fst kvs)" by (simp only: mset_map mset_sort)
  then have ds: "distinct (map fst ?s)" using d by (metis mset_eq_imp_distinct_iff)
  have m: "map_of ?s = map_of kvs" by (rule map_of_sort_key [OF d])
  show thesis
  proof (rule that [OF js(2)])
    show "distinct (map fst js)" using emap_members [OF js(1)] ds by (simp add: distinct_map_filter)
    show "map_of js k = Option.bind (map_of kvs k) (member_of rt k)" for k
      unfolding conjunct2 [OF emap_members [OF js(1)]] map_of_filter_some [OF ds] m
      by (auto simp: member_of_def split: option.splits)
  qed
qed

lemma normalise_entry:
  assumes "normalise rt n (PMap kvs) = Inr j" "(k, v) \<in> set kvs" "v \<noteq> PNone"
  shows "\<exists>i. normalise rt (Some k) v = Inr i"
proof -
  let ?kvs = "filter (\<lambda>(k, v). v \<noteq> PNone) (sort_key fst kvs)"
  obtain js where js: "emap (\<lambda>(k, v). ebind (normalise rt (Some k) v) (\<lambda>j. Inr (k, j))) ?kvs = Inr js"
    using assms(1) by (auto simp: result_simps)
  have "(k, v) \<in> set ?kvs" using assms(2,3) by simp
  from emap_Inr_total [OF js this] show ?thesis by (auto simp: result_simps)
qed

subsection \<open>The semantic content of an observation\<close>

fun utc_source :: "SourcePayload \<Rightarrow> SourcePayload" where
  "utc_source (ExecutionSource d) = ExecutionSource (d\<lparr>execution_time := utc (instant (execution_time d))\<rparr>)"
| "utc_source (TradeCaptureSource d) = TradeCaptureSource (d\<lparr>capture_time := utc (instant (capture_time d))\<rparr>)"
| "utc_source (ConfirmationSource d) = ConfirmationSource (d\<lparr>confirmation_time := utc (instant (confirmation_time d))\<rparr>)"
| "utc_source (BookingSource d) = BookingSource (d\<lparr>last_updated_time := utc (instant (last_updated_time d))\<rparr>)"

text \<open>The delivery fields blanked, and every timestamp at its instant.\<close>

definition semantic_content :: "Observation \<Rightarrow> Observation" where
  "semantic_content ob = ob\<lparr>
     ob_observation_id := [], ob_correlation_id := [], ob_source_event_id := [], ob_content_hash := [],
     ob_ingest_time := utc 0, ob_event_time := utc (instant (ob_event_time ob)),
     ob_effective_time := utc (instant (ob_effective_time ob)), ob_source := utc_source (ob_source ob)\<rparr>"

definition observation_bytes :: "runtime \<Rightarrow> Observation \<Rightarrow> py_error + string" where
  "observation_bytes rt ob = canonical_observation_bytes rt (dump_observation ob)"

definition semantic_dump :: "Observation \<Rightarrow> (string \<times> pyval) list" where
  "semantic_dump ob = filter (\<lambda>(k, v). k \<notin> set delivery_fields) (dump_observation ob)"

lemma semantic_dump_list:
  "semantic_dump ob = [
     (''schema_version'', PStr ''1.0.0''),
     (''observation_kind'', PStr (kind_str (ob_kind ob))),
     (''entity_version'', PInt (ob_entity_version ob)),
     (''tenant_id'', PStr (ob_tenant_id ob)),
     (''portfolio_id'', PStr (ob_portfolio_id ob)),
     (''source_system'', PStr (source_system_str (ob_source_system ob))),
     (''source_business_key'', PStr (ob_source_business_key ob)),
     (''source_version'', PStr (ob_source_version ob)),
     (''event_time'', PDatetime (ob_event_time ob)),
     (''effective_time'', PDatetime (ob_effective_time ob)),
     (''source_sequence'', PInt (ob_source_sequence ob)),
     (''lineage_group_id'', PStr (ob_lineage_group_id ob)),
     (''actor'', dump_actor (ob_actor ob)),
     (''supersedes_observation_id'', dump_optional id (ob_supersedes_observation_id ob)),
     (''supersession_reason'', dump_optional supersession_str (ob_supersession_reason ob)),
     (''payload'', PMap (dump_fx (ob_payload ob) @ dump_source (ob_source ob)))]"
  by (simp add: semantic_dump_def dump_observation_def delivery_fields_def)

definition utc_value :: "datetime \<Rightarrow> pyval" where
  "utc_value t = PDatetime (utc (instant t))"

lemma retime_leaves [simp]:
  "retime g h (dump_optional f x) = dump_optional f x" "retime g h (dump_amount a) = dump_amount a"
  "retime g h (dump_rate r) = dump_rate r" "retime g h (dump_actor c) = dump_actor c"
  by (simp_all add: dump_optional_def dump_amount_def dump_rate_def dump_actor_def split: option.split)

lemma timed_leaves [simp]:
  "timed P Q n (dump_optional f x)" "timed P Q n (dump_amount a)" "timed P Q n (dump_rate r)" "timed P Q n (dump_actor c)"
  by (simp_all add: dump_optional_def dump_amount_def dump_rate_def dump_actor_def split: option.split)

lemma semantic_content_dump:
  "semantic_dump (semantic_content ob) = map (\<lambda>(k, v). (k, retime utc_value PDate v)) (semantic_dump ob)"
proof -
  have "dump_source (utc_source s) = map (\<lambda>(k, v). (k, retime utc_value PDate v)) (dump_source s)" for s
    by (cases s) (simp_all add: utc_value_def)
  moreover have "ob_kind (semantic_content ob) = ob_kind ob" "ob_source_system (semantic_content ob) = ob_source_system ob"
    by (cases "ob_source ob"; simp add: ob_source_system_def ob_kind_def semantic_content_def)+
  ultimately show ?thesis
    by (simp add: semantic_dump_list utc_value_def dump_fx_def) (simp add: semantic_content_def)
qed

definition times_aware :: "Observation \<Rightarrow> bool" where
  "times_aware ob \<longleftrightarrow> aware (ob_event_time ob) \<and> aware (ob_effective_time ob) \<and> aware (snd (source_time (ob_source ob)))"

lemma timed_dump:
  assumes "\<And>k t. k \<in> set timestamp_fields \<Longrightarrow>
      t \<in> {ob_event_time ob, ob_effective_time ob, snd (source_time (ob_source ob))} \<Longrightarrow> P (Some k) t"
    and "\<And>k d. k \<in> {''trade_date'', ''value_date''} \<Longrightarrow>
      d \<in> {fx_trade_date (ob_payload ob), fx_value_date (ob_payload ob)} \<Longrightarrow> Q (Some k) d"
  shows "timed P Q n (PMap (semantic_dump ob))"
  using assms by (cases "ob_source ob") (simp_all add: semantic_dump_list dump_fx_def timestamp_fields_def)

lemma document_semantic_dump:
  "canonical_observation_document rt (dump_observation ob) = ebind (normalise rt None (PMap (semantic_dump ob))) (\<lambda>doc.
     Inr (JObj [(''hash_standard'', JStr observation_hash_standard), (''observation'', doc)]))"
  by (simp add: canonical_observation_document_def semantic_dump_def)

lemma normalise_utc_value:
  assumes "aware t"
  shows "normalise rt n (utc_value t) = normalise rt n (PDatetime t)"
  using assms by (simp add: utc_value_def normalised_timestamp_def astimezone_utc_def)

lemma bytes_of_semantic_content:
  assumes "times_aware ob"
  shows "observation_bytes rt (semantic_content ob) = observation_bytes rt ob"
proof -
  have "timed (\<lambda>n t. aware t) (\<lambda>n d. True) None (PMap (semantic_dump ob))"
    by (rule timed_dump) (use assms in \<open>auto simp: times_aware_def\<close>)
  then have "normalise rt None (retime utc_value PDate (PMap (semantic_dump ob))) = normalise rt None (PMap (semantic_dump ob))"
    by (rule normalise_retime [rotated 4])
      (simp_all add: normalise_utc_value del: normalise.simps, simp_all add: utc_value_def)
  then show ?thesis
    by (simp add: observation_bytes_def canonical_observation_bytes_def document_semantic_dump semantic_content_dump
        del: normalise.simps)
qed

subsection \<open>The document determines the semantic content\<close>

definition looked_up :: "runtime \<Rightarrow> (string \<times> pyval) list \<Rightarrow> string \<Rightarrow> json option" where
  "looked_up rt kvs k = map_option sort_keys (Option.bind (map_of kvs k) (member_of rt k))"

lemma Some_mem_image [simp]: "Some k \<in> Some ` A \<longleftrightarrow> k \<in> A"
  by auto

lemma same_object:
  assumes a: "normalise rt n (PMap as) = Inr i" "distinct (map fst as)" "no_floats (PMap as)"
    and b: "normalise rt m (PMap bs) = Inr j" "distinct (map fst bs)" "no_floats (PMap bs)"
    and eq: "sort_keys i = sort_keys j"
  shows "looked_up rt as k = looked_up rt bs k"
proof -
  obtain ms where i: "i = JObj ms" "distinct (map fst ms)" "\<And>k. map_of ms k = Option.bind (map_of as k) (member_of rt k)"
    by (rule normalise_object [OF a(1,2)]) (rule that)
  obtain js where j: "j = JObj js" "distinct (map fst js)" "\<And>k. map_of js k = Option.bind (map_of bs k) (member_of rt k)"
    by (rule normalise_object [OF b(1,2)]) (rule that)
  have "dumps (JObj ms) = dumps (JObj js)" using eq by (simp add: dumps_def i(1) j(1))
  moreover have "wf_json (JObj ms)" "wf_json (JObj js)"
    using normalise_wf [OF a(1,3)] normalise_wf [OF b(1,3)] i(1) j(1) by simp_all
  ultimately show ?thesis using dumps_JObj_member [OF _ _ _ i(2) j(2)] by (simp add: looked_up_def i(3) j(3))
qed

lemma looked_up_total:
  assumes "normalise rt n (PMap kvs) = Inr i" "distinct (map fst kvs)" "map_of kvs k = Some v" "v \<noteq> PNone"
  obtains j where "normalise rt (Some k) v = Inr j" "looked_up rt kvs k = Some (sort_keys j)"
proof -
  have "(k, v) \<in> set kvs" using assms(3) by (rule map_of_SomeD)
  then obtain j where "normalise rt (Some k) v = Inr j"
    using normalise_entry [OF assms(1) _ assms(4)] by blast
  then show thesis using that assms(3,4) by (simp add: looked_up_def member_of_def)
qed

lemma same_leaf:
  assumes "looked_up rt as k = looked_up rt bs k" "map_of as k = Some (PStr s)" "map_of bs k = Some (PStr t)"
    "k \<notin> set timestamp_fields"
  shows "s = t"
  using assms by (auto simp: looked_up_def member_of_def)

lemma same_int:
  assumes "looked_up rt as k = looked_up rt bs k" "map_of as k = Some (PInt s)" "map_of bs k = Some (PInt t)"
  shows "s = t"
  using assms by (auto simp: looked_up_def member_of_def)

lemma same_opt:
  assumes "looked_up rt as k = looked_up rt bs k" "map_of as k = Some (dump_optional f s)" "map_of bs k = Some (dump_optional f t)"
    "k \<notin> set timestamp_fields" and "inj f"
  shows "s = t"
  using assms by (auto simp: looked_up_def member_of_def dump_optional_def inj_eq split: option.splits)

lemma same_date:
  assumes "looked_up rt as k = looked_up rt bs k" "map_of as k = Some (PDate s)" "map_of bs k = Some (PDate t)"
    "1 \<le> s" "s \<le> 3652059" "1 \<le> t" "t \<le> 3652059"
  shows "s = t"
proof -
  have "date_isoformat s = date_isoformat t" using assms(1-3) by (simp add: looked_up_def member_of_def)
  then have "date_fromisoformat (date_isoformat s) = date_fromisoformat (date_isoformat t)" by (rule arg_cong)
  then show ?thesis unfolding date_roundtrip [OF assms(4,5)] date_roundtrip [OF assms(6,7)] by simp
qed

lemma same_time:
  assumes a: "normalise rt n (PMap as) = Inr i" "distinct (map fst as)" "map_of as k = Some (PDatetime s)"
    and b: "normalise rt m (PMap bs) = Inr j" "distinct (map fst bs)" "map_of bs k = Some (PDatetime t)"
    and eq: "looked_up rt as k = looked_up rt bs k"
  shows "instant s = instant t"
proof -
  obtain x where x: "normalise rt (Some k) (PDatetime s) = Inr x" "looked_up rt as k = Some (sort_keys x)"
    by (rule looked_up_total [OF a]) simp
  obtain y where y: "normalise rt (Some k) (PDatetime t) = Inr y" "looked_up rt bs k = Some (sort_keys y)"
    by (rule looked_up_total [OF b]) simp
  obtain p q where p: "x = JStr p" "normalised_timestamp s = Inr p" and q: "y = JStr q" "normalised_timestamp t = Inr q"
    using x(1) y(1) by (auto simp: result_simps)
  have "p = q" using eq x(2) y(2) by (simp add: p(1) q(1))
  with normalised_timestamp_parses [OF p(2)] normalised_timestamp_parses [OF q(2)]
  show ?thesis by (simp add: utc_def)
qed

lemma same_member:
  assumes a: "normalise rt n (PMap as) = Inr i" "distinct (map fst as)" "map_of as k = Some (PMap ps)"
    and b: "normalise rt m (PMap bs) = Inr j" "distinct (map fst bs)" "map_of bs k = Some (PMap qs)"
    and eq: "looked_up rt as k = looked_up rt bs k"
  obtains x y where "normalise rt (Some k) (PMap ps) = Inr x" "normalise rt (Some k) (PMap qs) = Inr y"
    "sort_keys x = sort_keys y"
proof -
  obtain x where x: "normalise rt (Some k) (PMap ps) = Inr x" "looked_up rt as k = Some (sort_keys x)"
    by (rule looked_up_total [OF a]) simp
  obtain y where y: "normalise rt (Some k) (PMap qs) = Inr y" "looked_up rt bs k = Some (sort_keys y)"
    by (rule looked_up_total [OF b]) simp
  show thesis using that [OF x(1) y(1)] eq x(2) y(2) by simp
qed

lemma identity_type_str_inj [simp]: "identity_type_str x = identity_type_str y \<longleftrightarrow> x = y"
  by (cases x; cases y) simp_all

lemma event_type_str_inj [simp]: "event_type_str x = event_type_str y \<longleftrightarrow> x = y"
  by (cases x; cases y) simp_all

lemma execution_status_str_inj [simp]: "execution_status_str x = execution_status_str y \<longleftrightarrow> x = y"
  by (cases x; cases y) simp_all

lemma capture_status_str_inj [simp]: "capture_status_str x = capture_status_str y \<longleftrightarrow> x = y"
  by (cases x; cases y) simp_all

lemma confirmation_status_str_inj [simp]: "confirmation_status_str x = confirmation_status_str y \<longleftrightarrow> x = y"
  by (cases x; cases y) simp_all

lemma booking_status_str_inj [simp]: "booking_status_str x = booking_status_str y \<longleftrightarrow> x = y"
  by (cases x; cases y) simp_all

lemma supersession_str_inj [simp]: "supersession_str x = supersession_str y \<longleftrightarrow> x = y"
  by (cases x; cases y) simp_all

lemma inj_supersession_str: "inj supersession_str"
  by (rule injI) simp

definition calendar_dates :: "Observation \<Rightarrow> bool" where
  "calendar_dates ob \<longleftrightarrow> fx_trade_date (ob_payload ob) \<in> {1..3652059} \<and> fx_value_date (ob_payload ob) \<in> {1..3652059}"

lemma dump_keys:
  "distinct (map fst (semantic_dump ob))" "distinct (map fst (dump_fx p @ dump_source s))" "no_floats (PMap (semantic_dump ob))"
  "no_floats (PMap (dump_fx p @ dump_source s))"
proof -
  show "distinct (map fst (dump_fx p @ dump_source s))" for p s by (cases s) (simp_all add: dump_fx_def)
  show n: "no_floats (PMap (dump_fx p @ dump_source s))" for p s
    by (cases s) (simp_all add: dump_fx_def dump_amount_def dump_rate_def dump_optional_def split: option.split)
  show "distinct (map fst (semantic_dump ob))" by (simp add: semantic_dump_list)
  show "no_floats (PMap (semantic_dump ob))"
    using n by (simp add: semantic_dump_list dump_actor_def dump_optional_def split: option.split)
qed

lemma same_amount:
  assumes "normalise rt n (PMap as) = Inr i" "distinct (map fst as)" "map_of as k = Some (dump_amount s)"
    "normalise rt m (PMap bs) = Inr j" "distinct (map fst bs)" "map_of bs k = Some (dump_amount t)"
    "looked_up rt as k = looked_up rt bs k"
  shows "s = t"
proof -
  note d = dump_amount_def
  obtain x y where xy: "normalise rt (Some k) (dump_amount s) = Inr x" "normalise rt (Some k) (dump_amount t) = Inr y"
    "sort_keys x = sort_keys y" unfolding d by (rule same_member [OF assms [unfolded d]])
  have "looked_up rt [(''currency'', PStr (da_currency s)), (''value'', PStr (da_value s)), (''scale'', PInt (da_scale s))] q =
      looked_up rt [(''currency'', PStr (da_currency t)), (''value'', PStr (da_value t)), (''scale'', PInt (da_scale t))] q" for q
    by (rule same_object [OF xy(1) [unfolded d] _ _ xy(2) [unfolded d] _ _ xy(3)]) simp_all
  note l = this
  have "da_currency s = da_currency t" by (rule same_leaf [OF l [of "''currency''"]]) (simp_all add: timestamp_fields_def)
  moreover have "da_value s = da_value t" by (rule same_leaf [OF l [of "''value''"]]) (simp_all add: timestamp_fields_def)
  moreover have "da_scale s = da_scale t" by (rule same_int [OF l [of "''scale''"]]) simp_all
  ultimately show ?thesis by simp
qed

lemma same_rate:
  assumes "normalise rt n (PMap as) = Inr i" "distinct (map fst as)" "map_of as k = Some (dump_rate s)"
    "normalise rt m (PMap bs) = Inr j" "distinct (map fst bs)" "map_of bs k = Some (dump_rate t)"
    "looked_up rt as k = looked_up rt bs k"
  shows "s = t"
proof -
  note d = dump_rate_def
  obtain x y where xy: "normalise rt (Some k) (dump_rate s) = Inr x" "normalise rt (Some k) (dump_rate t) = Inr y"
    "sort_keys x = sort_keys y" unfolding d by (rule same_member [OF assms [unfolded d]])
  let ?d = "\<lambda>s. [(''value'', PStr (dr_value s)), (''scale'', PInt (dr_scale s)), (''orientation'', PStr ''TERMS_CURRENCY_PER_BASE_CURRENCY'')]"
  have l: "looked_up rt (?d s) q = looked_up rt (?d t) q" for q
    by (rule same_object [OF xy(1) [unfolded d] _ _ xy(2) [unfolded d] _ _ xy(3)]) simp_all
  have "dr_value s = dr_value t" by (rule same_leaf [OF l [of "''value''"]]) (simp_all add: timestamp_fields_def)
  moreover have "dr_scale s = dr_scale t" by (rule same_int [OF l [of "''scale''"]]) simp_all
  ultimately show ?thesis by simp
qed

lemma same_actor:
  assumes "normalise rt n (PMap as) = Inr i" "distinct (map fst as)" "map_of as k = Some (dump_actor s)"
    "normalise rt m (PMap bs) = Inr j" "distinct (map fst bs)" "map_of bs k = Some (dump_actor t)"
    "looked_up rt as k = looked_up rt bs k"
  shows "s = t"
proof -
  note d = dump_actor_def
  obtain x y where xy: "normalise rt (Some k) (dump_actor s) = Inr x" "normalise rt (Some k) (dump_actor t) = Inr y"
    "sort_keys x = sort_keys y" unfolding d by (rule same_member [OF assms [unfolded d]])
  let ?d = "\<lambda>s. [(''identity_type'', PStr (identity_type_str (identity_type s))), (''actor_id'', PStr (actor_id s))]"
  have l: "looked_up rt (?d s) q = looked_up rt (?d t) q" for q
    by (rule same_object [OF xy(1) [unfolded d] _ _ xy(2) [unfolded d] _ _ xy(3)]) simp_all
  have "identity_type_str (identity_type s) = identity_type_str (identity_type t)"
    by (rule same_leaf [OF l [of "''identity_type''"]]) (simp_all add: timestamp_fields_def)
  moreover have "actor_id s = actor_id t" by (rule same_leaf [OF l [of "''actor_id''"]]) (simp_all add: timestamp_fields_def)
  ultimately show ?thesis by simp
qed

lemma same_fx:
  assumes a: "normalise rt n (PMap (dump_fx p @ dump_source s)) = Inr i"
    and b: "normalise rt m (PMap (dump_fx q @ dump_source r)) = Inr j"
    and eq: "sort_keys i = sort_keys j"
    and dates: "fx_trade_date p \<in> {1..3652059}" "fx_value_date p \<in> {1..3652059}"
      "fx_trade_date q \<in> {1..3652059}" "fx_value_date q \<in> {1..3652059}"
  shows "p = q"
proof -
  note l = same_object [OF a dump_keys(2,4) b dump_keys(2,4) eq]
  have "product_str (fx_product_type p) = product_str (fx_product_type q)"
    by (rule same_leaf [OF l [of "''product_type''"]]) (simp_all add: dump_fx_def timestamp_fields_def)
  moreover have "fx_settlement_rule_version p = fx_settlement_rule_version q"
    by (rule same_leaf [OF l [of "''settlement_rule_version''"]]) (simp_all add: dump_fx_def timestamp_fields_def)
  moreover have "fx_source_trade_id p = fx_source_trade_id q"
    by (rule same_leaf [OF l [of "''source_trade_id''"]]) (simp_all add: dump_fx_def timestamp_fields_def)
  moreover have "fx_base_currency p = fx_base_currency q"
    by (rule same_leaf [OF l [of "''base_currency''"]]) (simp_all add: dump_fx_def timestamp_fields_def)
  moreover have "fx_terms_currency p = fx_terms_currency q"
    by (rule same_leaf [OF l [of "''terms_currency''"]]) (simp_all add: dump_fx_def timestamp_fields_def)
  moreover have "side_str (fx_side p) = side_str (fx_side q)"
    by (rule same_leaf [OF l [of "''side''"]]) (simp_all add: dump_fx_def timestamp_fields_def)
  moreover have "fx_base_amount p = fx_base_amount q"
    by (rule same_amount [OF a dump_keys(2) _ b dump_keys(2) _ l [of "''base_amount''"]]) (simp_all add: dump_fx_def)
  moreover have "fx_terms_amount p = fx_terms_amount q"
    by (rule same_amount [OF a dump_keys(2) _ b dump_keys(2) _ l [of "''terms_amount''"]]) (simp_all add: dump_fx_def)
  moreover have "fx_quoted_rate p = fx_quoted_rate q"
    by (rule same_rate [OF a dump_keys(2) _ b dump_keys(2) _ l [of "''quoted_rate''"]]) (simp_all add: dump_fx_def)
  moreover have "fx_trade_date p = fx_trade_date q"
    by (rule same_date [OF l [of "''trade_date''"]]) (use dates in \<open>simp_all add: dump_fx_def\<close>)
  moreover have "fx_value_date p = fx_value_date q"
    by (rule same_date [OF l [of "''value_date''"]]) (use dates in \<open>simp_all add: dump_fx_def\<close>)
  moreover have "fx_counterparty_id p = fx_counterparty_id q"
    by (rule same_leaf [OF l [of "''counterparty_id''"]]) (simp_all add: dump_fx_def timestamp_fields_def)
  moreover have "fx_book_id p = fx_book_id q"
    by (rule same_leaf [OF l [of "''book_id''"]]) (simp_all add: dump_fx_def timestamp_fields_def)
  moreover have "lifecycle_str (fx_lifecycle_status p) = lifecycle_str (fx_lifecycle_status q)"
    by (rule same_leaf [OF l [of "''lifecycle_status''"]]) (simp_all add: dump_fx_def timestamp_fields_def)
  ultimately show ?thesis by simp
qed

lemma same_ExecutionSource:
  assumes a: "normalise rt n (PMap (dump_fx p @ dump_source (ExecutionSource d))) = Inr i"
    and b: "normalise rt m (PMap (dump_fx q @ dump_source (ExecutionSource e))) = Inr j"
    and eq: "sort_keys i = sort_keys j"
  shows "utc_source (ExecutionSource d) = utc_source (ExecutionSource e)"
proof -
  note l = same_object [OF a dump_keys(2,4) b dump_keys(2,4) eq]
  have "execution_id d = execution_id e"
    by (rule same_leaf [OF l [of "''execution_id''"]]) (simp_all add: dump_fx_def timestamp_fields_def)
  moreover have "event_type_str (execution_type d) = event_type_str (execution_type e)"
    by (rule same_leaf [OF l [of "''execution_type''"]]) (simp_all add: dump_fx_def timestamp_fields_def)
  moreover have "execution_status_str (execution_status d) = execution_status_str (execution_status e)"
    by (rule same_leaf [OF l [of "''execution_status''"]]) (simp_all add: dump_fx_def timestamp_fields_def)
  moreover have "instant (execution_time d) = instant (execution_time e)"
    by (rule same_time [OF a dump_keys(2) _ b dump_keys(2) _ l [of "''execution_time''"]]) (simp_all add: dump_fx_def)
  moreover have "order_id d = order_id e"
    by (rule same_opt [OF l [of "''order_id''"], where f = id]) (simp_all add: dump_fx_def timestamp_fields_def)
  ultimately show ?thesis by (cases d; cases e) simp
qed

lemma same_TradeCaptureSource:
  assumes a: "normalise rt n (PMap (dump_fx p @ dump_source (TradeCaptureSource d))) = Inr i"
    and b: "normalise rt m (PMap (dump_fx q @ dump_source (TradeCaptureSource e))) = Inr j"
    and eq: "sort_keys i = sort_keys j"
  shows "utc_source (TradeCaptureSource d) = utc_source (TradeCaptureSource e)"
proof -
  note l = same_object [OF a dump_keys(2,4) b dump_keys(2,4) eq]
  have "capture_id d = capture_id e"
    by (rule same_leaf [OF l [of "''capture_id''"]]) (simp_all add: dump_fx_def timestamp_fields_def)
  moreover have "event_type_str (capture_type d) = event_type_str (capture_type e)"
    by (rule same_leaf [OF l [of "''capture_type''"]]) (simp_all add: dump_fx_def timestamp_fields_def)
  moreover have "capture_status_str (capture_status d) = capture_status_str (capture_status e)"
    by (rule same_leaf [OF l [of "''capture_status''"]]) (simp_all add: dump_fx_def timestamp_fields_def)
  moreover have "instant (capture_time d) = instant (capture_time e)"
    by (rule same_time [OF a dump_keys(2) _ b dump_keys(2) _ l [of "''capture_time''"]]) (simp_all add: dump_fx_def)
  moreover have "execution_reference d = execution_reference e"
    by (rule same_leaf [OF l [of "''execution_reference''"]]) (simp_all add: dump_fx_def timestamp_fields_def)
  ultimately show ?thesis by (cases d; cases e) simp
qed

lemma same_ConfirmationSource:
  assumes a: "normalise rt n (PMap (dump_fx p @ dump_source (ConfirmationSource d))) = Inr i"
    and b: "normalise rt m (PMap (dump_fx q @ dump_source (ConfirmationSource e))) = Inr j"
    and eq: "sort_keys i = sort_keys j"
  shows "utc_source (ConfirmationSource d) = utc_source (ConfirmationSource e)"
proof -
  note l = same_object [OF a dump_keys(2,4) b dump_keys(2,4) eq]
  have "confirmation_id d = confirmation_id e"
    by (rule same_leaf [OF l [of "''confirmation_id''"]]) (simp_all add: dump_fx_def timestamp_fields_def)
  moreover have "cp_confirmation_reference d = cp_confirmation_reference e"
    by (rule same_leaf [OF l [of "''confirmation_reference''"]]) (simp_all add: dump_fx_def timestamp_fields_def)
  moreover have "confirmation_status_str (confirmation_status d) = confirmation_status_str (confirmation_status e)"
    by (rule same_leaf [OF l [of "''confirmation_status''"]]) (simp_all add: dump_fx_def timestamp_fields_def)
  moreover have "instant (confirmation_time d) = instant (confirmation_time e)"
    by (rule same_time [OF a dump_keys(2) _ b dump_keys(2) _ l [of "''confirmation_time''"]]) (simp_all add: dump_fx_def)
  ultimately show ?thesis by (cases d; cases e) simp
qed

lemma same_BookingSource:
  assumes a: "normalise rt n (PMap (dump_fx p @ dump_source (BookingSource d))) = Inr i"
    and b: "normalise rt m (PMap (dump_fx q @ dump_source (BookingSource e))) = Inr j"
    and eq: "sort_keys i = sort_keys j"
  shows "utc_source (BookingSource d) = utc_source (BookingSource e)"
proof -
  note l = same_object [OF a dump_keys(2,4) b dump_keys(2,4) eq]
  have "booking_record_id d = booking_record_id e"
    by (rule same_leaf [OF l [of "''booking_record_id''"]]) (simp_all add: dump_fx_def timestamp_fields_def)
  moreover have "booking_version d = booking_version e"
    by (rule same_int [OF l [of "''booking_version''"]]) (simp_all add: dump_fx_def)
  moreover have "booking_status_str (booking_status d) = booking_status_str (booking_status e)"
    by (rule same_leaf [OF l [of "''booking_status''"]]) (simp_all add: dump_fx_def timestamp_fields_def)
  moreover have "instant (last_updated_time d) = instant (last_updated_time e)"
    by (rule same_time [OF a dump_keys(2) _ b dump_keys(2) _ l [of "''last_updated_time''"]]) (simp_all add: dump_fx_def)
  moreover have "bp_confirmation_reference d = bp_confirmation_reference e"
    by (rule same_opt [OF l [of "''confirmation_reference''"], where f = id]) (simp_all add: dump_fx_def timestamp_fields_def)
  moreover have "record_fingerprint d = record_fingerprint e"
    by (rule same_leaf [OF l [of "''record_fingerprint''"]]) (simp_all add: dump_fx_def timestamp_fields_def)
  ultimately show ?thesis by (cases d; cases e) simp
qed

lemma same_source:
  assumes "normalise rt n (PMap (dump_fx p @ dump_source s)) = Inr i"
    and "normalise rt m (PMap (dump_fx q @ dump_source r)) = Inr j"
    and "sort_keys i = sort_keys j" and "kind_of_source s = kind_of_source r"
  shows "utc_source s = utc_source r"
  using assms by (cases s; cases r)
    (simp_all only: kind_of_source.simps ObservationKind.distinct, (blast intro: same_ExecutionSource same_TradeCaptureSource same_ConfirmationSource same_BookingSource)+)

subsection \<open>Fingerprints\<close>

lemma source_shape:
  assumes "ob_kind a = ob_kind b"
  shows "kind_of_source (ob_source a) = kind_of_source (ob_source b)"
  using assms by (simp add: ob_kind_def)

lemma observation_bytes_document:
  assumes "observation_bytes rt ob = Inr x"
  obtains doc where "normalise rt None (PMap (semantic_dump ob)) = Inr doc"
    "x = dumps (JObj [(''hash_standard'', JStr observation_hash_standard), (''observation'', doc)])"
  using assms
  by (auto simp: observation_bytes_def canonical_observation_bytes_def document_semantic_dump result_simps
      simp del: normalise.simps)

lemma same_bytes_same_content:
  assumes bytes: "observation_bytes rt a = Inr x" "observation_bytes rt b = Inr x"
    and dates: "calendar_dates a" "calendar_dates b"
  shows "semantic_content a = semantic_content b"
proof -
  from bytes(1) obtain i where i: "normalise rt None (PMap (semantic_dump a)) = Inr i"
    "x = dumps (JObj [(''hash_standard'', JStr observation_hash_standard), (''observation'', i)])"
    by (rule observation_bytes_document)
  from bytes(2) obtain j where j: "normalise rt None (PMap (semantic_dump b)) = Inr j"
    "x = dumps (JObj [(''hash_standard'', JStr observation_hash_standard), (''observation'', j)])"
    by (rule observation_bytes_document)
  have "wf_json i" "wf_json j" using normalise_wf [OF i(1) dump_keys(3)] normalise_wf [OF j(1) dump_keys(3)] by simp_all
  with dumps_JObj_member [OF trans [OF sym [OF i(2)] j(2)], of "''observation''"]
  have eq: "sort_keys i = sort_keys j" by simp
  note l = same_object [OF i(1) dump_keys(1,3) j(1) dump_keys(1,3) eq]
  have "kind_str (ob_kind a) = kind_str (ob_kind b)"
    by (rule same_leaf [OF l [of "''observation_kind''"]]) (simp_all add: semantic_dump_list timestamp_fields_def)
  then have kind: "ob_kind a = ob_kind b" by simp
  obtain v w where vw: "normalise rt (Some ''payload'') (PMap (dump_fx (ob_payload a) @ dump_source (ob_source a))) = Inr v"
    "normalise rt (Some ''payload'') (PMap (dump_fx (ob_payload b) @ dump_source (ob_source b))) = Inr w"
    "sort_keys v = sort_keys w"
    by (rule same_member [OF i(1) dump_keys(1) _ j(1) dump_keys(1) _ l [of "''payload''"]])
      (simp_all add: semantic_dump_list del: normalise.simps)
  have "ob_payload a = ob_payload b"
    by (rule same_fx [OF vw]) (use dates in \<open>simp_all add: calendar_dates_def\<close>)
  moreover have "utc_source (ob_source a) = utc_source (ob_source b)"
    by (rule same_source [OF vw source_shape [OF kind]])
  moreover have "ob_entity_version a = ob_entity_version b"
    by (rule same_int [OF l [of "''entity_version''"]]) (simp_all add: semantic_dump_list)
  moreover have "ob_tenant_id a = ob_tenant_id b"
    by (rule same_leaf [OF l [of "''tenant_id''"]]) (simp_all add: semantic_dump_list timestamp_fields_def)
  moreover have "ob_portfolio_id a = ob_portfolio_id b"
    by (rule same_leaf [OF l [of "''portfolio_id''"]]) (simp_all add: semantic_dump_list timestamp_fields_def)
  moreover have "ob_source_business_key a = ob_source_business_key b"
    by (rule same_leaf [OF l [of "''source_business_key''"]]) (simp_all add: semantic_dump_list timestamp_fields_def)
  moreover have "ob_source_version a = ob_source_version b"
    by (rule same_leaf [OF l [of "''source_version''"]]) (simp_all add: semantic_dump_list timestamp_fields_def)
  moreover have "instant (ob_event_time a) = instant (ob_event_time b)"
    by (rule same_time [OF i(1) dump_keys(1) _ j(1) dump_keys(1) _ l [of "''event_time''"]]) (simp_all add: semantic_dump_list)
  moreover have "instant (ob_effective_time a) = instant (ob_effective_time b)"
    by (rule same_time [OF i(1) dump_keys(1) _ j(1) dump_keys(1) _ l [of "''effective_time''"]]) (simp_all add: semantic_dump_list)
  moreover have "ob_source_sequence a = ob_source_sequence b"
    by (rule same_int [OF l [of "''source_sequence''"]]) (simp_all add: semantic_dump_list)
  moreover have "ob_lineage_group_id a = ob_lineage_group_id b"
    by (rule same_leaf [OF l [of "''lineage_group_id''"]]) (simp_all add: semantic_dump_list timestamp_fields_def)
  moreover have "ob_actor a = ob_actor b"
    by (rule same_actor [OF i(1) dump_keys(1) _ j(1) dump_keys(1) _ l [of "''actor''"]]) (simp_all add: semantic_dump_list)
  moreover have "ob_supersedes_observation_id a = ob_supersedes_observation_id b"
    by (rule same_opt [OF l [of "''supersedes_observation_id''"], where f = id]) (simp_all add: semantic_dump_list timestamp_fields_def)
  moreover have "ob_supersession_reason a = ob_supersession_reason b"
    by (rule same_opt [OF l [of "''supersession_reason''"], where f = supersession_str])
      (simp_all add: semantic_dump_list timestamp_fields_def inj_supersession_str)
  ultimately show ?thesis by (simp add: semantic_content_def)
qed

text \<open>The fingerprint is computed whenever UTC has the timestamps.\<close>

definition utc_range :: "datetime \<Rightarrow> bool" where
  "utc_range t \<longleftrightarrow> us_per_day \<le> instant t \<and> instant t < 3652060 * us_per_day"

fun no_timestamp_text :: "string option \<Rightarrow> pyval \<Rightarrow> bool" where
  "no_timestamp_text n (PStr s) = (n \<notin> Some ` set timestamp_fields)"
| "no_timestamp_text n (PList xs) = list_all (no_timestamp_text None) xs"
| "no_timestamp_text n (PMap kvs) = list_all (\<lambda>(k, v). no_timestamp_text (Some k) v) kvs"
| "no_timestamp_text n v = True"

lemma emap_returns: "(\<And>x. x \<in> set xs \<Longrightarrow> \<exists>y. f x = Inr y) \<Longrightarrow> \<exists>ys. emap f xs = Inr ys"
  by (induction xs) (auto simp: result_simps)

lemma normalise_returns:
  "timed (\<lambda>n t. aware t \<and> utc_range t) (\<lambda>n d. True) n v \<Longrightarrow> no_timestamp_text n v \<Longrightarrow> \<exists>j. normalise rt n v = Inr j"
proof (induction v arbitrary: n)
  case (PList xs)
  have "\<exists>js. emap (normalise rt None) xs = Inr js"
    by (rule emap_returns) (use PList in \<open>auto simp: list_all_iff\<close>)
  then show ?case by auto
next
  case (PMap kvs)
  have "\<exists>js. emap (\<lambda>(k, v). ebind (normalise rt (Some k) v) (\<lambda>j. Inr (k, j)))
      (filter (\<lambda>(k, v). v \<noteq> PNone) (sort_key fst kvs)) = Inr js"
  proof (rule emap_returns)
    fix x assume "x \<in> set (filter (\<lambda>(k, v). v \<noteq> PNone) (sort_key fst kvs))"
    then have "x \<in> set kvs" by simp
    then obtain k v where x: "x = (k, v)" "(k, v) \<in> set kvs" by (metis surj_pair)
    have "\<exists>j. normalise rt (Some k) v = Inr j" by (rule PMap.IH [OF x(2)]) (use PMap.prems x(2) in \<open>auto simp: list_all_iff\<close>)
    then show "\<exists>y. (case x of (k, v) \<Rightarrow> ebind (normalise rt (Some k) v) (\<lambda>j. Inr (k, j))) = Inr y"
      using x(1) by auto
  qed
  then show ?case by auto
qed (auto simp: normalised_timestamp_def astimezone_utc_def utc_range_def)

definition times_in_range :: "Observation \<Rightarrow> bool" where
  "times_in_range ob \<longleftrightarrow> utc_range (ob_event_time ob) \<and> utc_range (ob_effective_time ob) \<and>
     utc_range (snd (source_time (ob_source ob)))"

lemma observation_bytes_returns:
  assumes "times_aware ob" "times_in_range ob"
  shows "\<exists>x. observation_bytes rt ob = Inr x"
proof -
  have "timed (\<lambda>n t. aware t \<and> utc_range t) (\<lambda>n d. True) None (PMap (semantic_dump ob))"
    by (rule timed_dump) (use assms in \<open>auto simp: times_aware_def times_in_range_def\<close>)
  moreover have "no_timestamp_text None (PMap (semantic_dump ob))"
    by (cases "ob_source ob") (simp_all add: semantic_dump_list dump_fx_def dump_amount_def dump_rate_def dump_actor_def
        dump_optional_def timestamp_fields_def image_iff split: option.split)
  ultimately have "\<exists>j. normalise rt None (PMap (semantic_dump ob)) = Inr j" by (rule normalise_returns)
  then show ?thesis
    by (auto simp: observation_bytes_def canonical_observation_bytes_def document_semantic_dump simp del: normalise.simps)
qed

lemma accepted_times_aware:
  assumes "validate_observation ob = Inr x"
  shows "times_aware ob"
proof -
  note V = validate_observation_Inr [OF assms]
  have "aware (ob_event_time ob)" "aware (ob_effective_time ob)"
    using V(2) by (auto simp: Observation_fields_def check_simps result_simps)
  moreover have "aware (snd (source_time (ob_source ob)))"
    using V(5) by (cases "ob_source ob") (auto simp: validate_execution_status_def validate_capture_status_def
      validate_confirmation_status_def validate_booking_status_def check_simps)
  ultimately show ?thesis by (simp add: times_aware_def)
qed

subsection \<open>Texts of a timestamp\<close>

definition clock_ok :: "datetime \<Rightarrow> bool" where
  "clock_ok t \<longleftrightarrow> us_per_day \<le> wall_clock t \<and> wall_clock t < 3652060 * us_per_day \<and>
     (case utcoffset t of None \<Rightarrow> False | Some off \<Rightarrow> \<bar>off\<bar> < us_per_day \<and> (off = 0 \<or> 1000000 \<le> \<bar>off\<bar>))"

lemma zone_no_Z:
  "CHR ''Z'' \<notin> set ((if a then ''-'' else ''+'') @ zfill 2 h @ '':'' @ zfill 2 m @
     (if b then [] else '':'' @ zfill 2 s @ (if c then [] else ''.'' @ zfill 6 f)))"
  using plain_text_simps(4) [unfolded plain_text_def] by simp

lemma offset_no_Z: "CHR ''Z'' \<notin> set (offset_str off)"
  unfolding offset_str_def Let_def by (rule zone_no_Z)

lemma isoformat_no_Z:
  assumes "clock_ok t"
  obtains p off where "isoformat t = p @ offset_str off" "utcoffset t = Some off" "plain_text p"
proof -
  obtain off where off: "utcoffset t = Some off" using assms by (auto simp: clock_ok_def split: option.splits)
  show thesis
  proof (rule isoformat_parts [of t])
    show "us_per_day \<le> wall_clock t" "wall_clock t < 3652060 * us_per_day" using assms by (simp_all add: clock_ok_def)
    fix d us
    assume d: "1 \<le> d" "d \<le> 3652059" "0 \<le> us" "us < us_per_day"
      and iso: "isoformat t = date_isoformat d @ CHR ''T'' # hms_str us @ (case utcoffset t of None \<Rightarrow> [] | Some off \<Rightarrow> offset_str off)"
    obtain h m s f where c: "hms_str us = clock_text h m s f" by (rule hms_str_clock [OF d(3,4)])
    show thesis
      by (rule that [of "date_isoformat d @ CHR ''T'' # hms_str us" off])
        (use off iso plain_date [OF d(1,2)] in \<open>simp_all add: c clock_text_def\<close>)
  qed
qed

lemma parsed_isoformat:
  assumes "clock_ok t"
  shows "parsed_timestamp (isoformat t) = Inr t"
proof (rule isoformat_no_Z [OF assms])
  fix p off assume p: "isoformat t = p @ offset_str off" "plain_text p"
  have "CHR ''Z'' \<notin> set (isoformat t)" using p offset_no_Z by (simp add: plain_text_def)
  then have "py_replace ''Z'' ''+00:00'' (isoformat t) = isoformat t" by (rule py_replace_absent)
  moreover have "datetime_fromisoformat (isoformat t) = Some t"
    by (rule datetime_roundtrip) (use assms in \<open>auto simp: clock_ok_def\<close>)
  ultimately show ?thesis by (simp add: parsed_timestamp_def)
qed

lemma parsed_Z_form:
  assumes "clock_ok t" "utcoffset t = Some 0"
  shows "parsed_timestamp (py_replace ''+00:00'' ''Z'' (isoformat t)) = Inr t"
proof (rule isoformat_no_Z [OF assms(1)])
  fix p off assume p: "isoformat t = p @ offset_str off" "utcoffset t = Some off" "plain_text p"
  have "offset_str 0 = ''+00:00''" by code_simp
  then have iso: "isoformat t = p @ ''+00:00''" using p(1,2) assms(2) by simp
  have "datetime_fromisoformat (isoformat t) = Some t"
    by (rule datetime_roundtrip) (use assms in \<open>auto simp: clock_ok_def\<close>)
  then show ?thesis unfolding iso replace_offset(1) [OF p(3)] parsed_timestamp_def replace_offset(2) [OF p(3)] by simp
qed

text \<open>The documented renderings of a \<open>datetime\<close> in JSON: \<open>isoformat\<close>, with \<open>Z\<close> for UTC.\<close>

definition json_text_of :: "string \<Rightarrow> datetime \<Rightarrow> bool" where
  "json_text_of s t \<longleftrightarrow> s = isoformat t \<or> utcoffset t = Some 0 \<and> s = py_replace ''+00:00'' ''Z'' (isoformat t)"

lemma json_text_parses: "clock_ok t \<Longrightarrow> json_text_of s t \<Longrightarrow> parsed_timestamp s = Inr t"
  unfolding json_text_of_def using parsed_isoformat parsed_Z_form by blast

definition json_value :: "runtime \<Rightarrow> pyval \<Rightarrow> pyval" where
  "json_value rt v = retime (\<lambda>t. PStr (datetime_json rt t)) (\<lambda>d. PStr (date_isoformat d)) v"

definition times_ok :: "Observation \<Rightarrow> bool" where
  "times_ok ob \<longleftrightarrow> clock_ok (ob_event_time ob) \<and> clock_ok (ob_effective_time ob) \<and> clock_ok (snd (source_time (ob_source ob)))"

section \<open>Properties\<close>

text \<open>C9: two accepted observations have the same canonical bytes, and so the same fingerprint, exactly
  when they have the same semantic content: nothing but the delivery fields and the offset in which a
  timestamp is written is left out of the hash, and nothing else changes it. Hashing an accepted observation
  returns unless a timestamp leaves the years 1 to 9999 in UTC.\<close>

theorem fingerprint_identifies_content:
  assumes "validate_observation a = Inr a" and "validate_observation b = Inr b"
    and "calendar_dates a" and "calendar_dates b" and "times_in_range a" and "times_in_range b"
  shows "\<exists>x y. observation_bytes rt a = Inr x \<and> observation_bytes rt b = Inr y \<and>
    (x = y \<longleftrightarrow> semantic_content a = semantic_content b)"
proof -
  note aware = accepted_times_aware [OF assms(1)] accepted_times_aware [OF assms(2)]
  obtain x where x: "observation_bytes rt a = Inr x" using observation_bytes_returns [OF aware(1) assms(5)] by blast
  obtain y where y: "observation_bytes rt b = Inr y" using observation_bytes_returns [OF aware(2) assms(6)] by blast
  have "semantic_content a = semantic_content b" if "x = y"
    using same_bytes_same_content [OF x _ assms(3,4)] y that by simp
  moreover have "x = y" if "semantic_content a = semantic_content b"
    using bytes_of_semantic_content [OF aware(1), of rt] bytes_of_semantic_content [OF aware(2), of rt] x y that by simp
  ultimately show ?thesis using x y by blast
qed

text \<open>C10: an observation that was written as JSON and is read back as a mapping, its timestamps and dates
  now texts, has the canonical bytes of the model it was written from.\<close>

theorem stored_observation_hashes_alike:
  assumes "\<And>t. json_text_of (datetime_json rt t) t" and "times_ok ob"
  shows "canonical_observation_bytes rt (map (\<lambda>(k, v). (k, json_value rt v)) (dump_observation ob)) = observation_bytes rt ob"
proof -
  define P where "P n t \<longleftrightarrow> n \<in> Some ` set timestamp_fields \<and> clock_ok t" for n t
  have "timed P (\<lambda>n d. n \<notin> Some ` set timestamp_fields) None (PMap (semantic_dump ob))"
    by (rule timed_dump) (use assms(2) in \<open>auto simp: P_def times_ok_def timestamp_fields_def\<close>)
  then have eq: "normalise rt None (json_value rt (PMap (semantic_dump ob))) = normalise rt None (PMap (semantic_dump ob))"
    unfolding json_value_def
    by (rule normalise_retime [where P = P, rotated 4])
      (use json_text_parses [OF _ assms(1)] in \<open>auto simp: P_def utc_timestamp_def\<close>)
  have "filter (\<lambda>(k, v). k \<notin> set delivery_fields) (map (\<lambda>(k, v). (k, json_value rt v)) (dump_observation ob)) =
      map (\<lambda>(k, v). (k, json_value rt v)) (semantic_dump ob)"
    by (simp add: semantic_dump_def filter_map comp_def case_prod_beta')
  then show ?thesis using eq
    by (simp add: observation_bytes_def canonical_observation_bytes_def canonical_observation_document_def
        semantic_dump_def json_value_def del: normalise.simps)
qed

section \<open>Concrete observations\<close>

definition noon :: datetime where
  "noon = utc 63921441600000000"

definition timed_observation :: Observation where
  "timed_observation = sample_observation\<lparr>
     ob_event_time := noon, ob_effective_time := noon, ob_ingest_time := noon,
     ob_source := ExecutionSource \<lparr>execution_id = ''exec_0001'', execution_type = EVENT_NEW,
       execution_status = EXECUTED, execution_time = noon, order_id = None\<rparr>\<rparr>"

text \<open>The same revision delivered again, with its event time in another zone.\<close>

definition redelivered_observation :: Observation where
  "redelivered_observation = timed_observation\<lparr>
     ob_observation_id := ''obs_exec_1b'', ob_correlation_id := ''corr_0002'', ob_source_event_id := ''evt_0002'',
     ob_ingest_time := utc 63921441600000001, ob_event_time := noon\<lparr>utcoffset := Some 3600000000\<rparr>\<rparr>"

definition iso_runtime :: runtime where
  "iso_runtime = plain_runtime\<lparr>datetime_json := isoformat\<rparr>"

lemma timed_observation_valid: "validate_observation timed_observation = Inr timed_observation"
  by code_simp

lemma redelivered_observation_valid: "validate_observation redelivered_observation = Inr redelivered_observation"
  by code_simp

lemmas timed_defs = timed_observation_def redelivered_observation_def sample_observation_def sample_fx_def noon_def

lemma timed_observation_ok:
  "calendar_dates timed_observation" "calendar_dates redelivered_observation"
  "times_in_range timed_observation" "times_in_range redelivered_observation" "times_ok timed_observation"
  by (simp_all add: timed_defs calendar_dates_def times_in_range_def utc_range_def times_ok_def clock_ok_def wall_clock_def)

theorem fingerprint_identifies_content_witness:
  "\<exists>x. observation_bytes plain_runtime timed_observation = Inr x \<and> observation_bytes plain_runtime redelivered_observation = Inr x"
proof -
  have "semantic_content timed_observation = semantic_content redelivered_observation"
    by (simp add: semantic_content_def timed_defs utc_def)
  then show ?thesis
    using fingerprint_identifies_content [OF timed_observation_valid redelivered_observation_valid timed_observation_ok(1-4), of plain_runtime]
    by auto
qed

theorem stored_observation_hashes_alike_witness:
  "canonical_observation_bytes iso_runtime (map (\<lambda>(k, v). (k, json_value iso_runtime v)) (dump_observation timed_observation)) =
     observation_bytes iso_runtime timed_observation"
  by (rule stored_observation_hashes_alike) (simp_all add: timed_observation_ok iso_runtime_def json_text_of_def)

end
