(* ===== verification/Inbox.thy ===== *)
theory Inbox
  imports Observation_Hash
begin

text \<open>
  \<open>packages/persistence/inbox.py\<close>: the reference semantics of the source event inbox. The store is the
  dict from identity keys to records, as the list of its items in insertion order. The main result
  is that the store is determined by the deliveries alone: it holds, in order of arrival, the first
  delivery of every source identity and version whose fingerprint is right.
\<close>

section \<open>Records\<close>

record IdentityKey =
  ik_tenant_id :: string
  ik_portfolio_id :: string
  ik_source_system :: SourceSystem
  ik_observation_kind :: ObservationKind
  ik_source_business_key :: string
  ik_source_version :: string

definition identity_key :: "Observation \<Rightarrow> IdentityKey" where
  "identity_key observation = \<lparr>
     ik_tenant_id = ob_tenant_id observation,
     ik_portfolio_id = ob_portfolio_id observation,
     ik_source_system = ob_source_system observation,
     ik_observation_kind = ob_kind observation,
     ik_source_business_key = ob_source_business_key observation,
     ik_source_version = ob_source_version observation\<rparr>"

datatype IngestOutcome = INGEST_INSERTED | INGEST_IDEMPOTENT_REPLAY

record InboxRecord =
  ir_observation :: Observation
  ir_identity_key :: IdentityKey

record IngestResult =
  ig_outcome :: IngestOutcome
  ig_record :: InboxRecord

text \<open>What \<open>ingest\<close> raises: its own conflict, or the error of a contract.\<close>

datatype ingest_error = SourceConflictError DuplicateSourceConflict | Rejected py_error

type_synonym InboxStore = "(IdentityKey \<times> InboxRecord) list"

section \<open>Ingestion\<close>

definition check_hash :: "runtime \<Rightarrow> Observation \<Rightarrow> py_error + string" where
  "check_hash rt observation = validate_observation_content_hash rt (dump_observation observation)"

text \<open>The conflict of a delivery with the stored revision, of which the identifier is given.\<close>

definition source_conflict :: "string \<Rightarrow> Observation \<Rightarrow> ingest_error" where
  "source_conflict existing_id observation = (case mk_DuplicateSourceConflict \<lparr>
       dc_source_observation_ids = sort (remdups [existing_id, ob_observation_id observation]),
       dc_source_business_key = ik_source_business_key (identity_key observation),
       dc_source_version = ik_source_version (identity_key observation)\<rparr> of
     Inl e \<Rightarrow> Rejected e
   | Inr conflict \<Rightarrow> SourceConflictError conflict)"

definition ingest :: "runtime \<Rightarrow> Observation \<Rightarrow> (InboxStore, ingest_error, IngestResult) call" where
  "ingest rt observation store = (case check_hash rt observation of
     Inl e \<Rightarrow> (Inl (Rejected e), store)
   | Inr _ \<Rightarrow>
       (let key = identity_key observation in
        case map_of store key of
          None \<Rightarrow>
            (let new = \<lparr>ir_observation = observation, ir_identity_key = key\<rparr> in
             (Inr \<lparr>ig_outcome = INGEST_INSERTED, ig_record = new\<rparr>, store @ [(key, new)]))
        | Some existing \<Rightarrow>
            (if ob_content_hash (ir_observation existing) = ob_content_hash observation
             then (Inr \<lparr>ig_outcome = INGEST_IDEMPOTENT_REPLAY, ig_record = existing\<rparr>, store)
             else (Inl (source_conflict (ob_observation_id (ir_observation existing)) observation), store))))"

definition inbox_get :: "IdentityKey \<Rightarrow> InboxStore \<Rightarrow> InboxRecord option" where
  "inbox_get key store = map_of store key"

definition all_records :: "InboxStore \<Rightarrow> InboxRecord list" where
  "all_records store = map snd store"

text \<open>A sequence of deliveries, each of which may be refused.\<close>

definition deliver :: "runtime \<Rightarrow> Observation list \<Rightarrow> InboxStore \<Rightarrow> InboxStore" where
  "deliver rt observations store = foldl (\<lambda>s observation. snd (ingest rt observation s)) store observations"

section \<open>Specification\<close>

text \<open>The first element of every key, in order.\<close>

fun firsts :: "('a \<Rightarrow> 'k) \<Rightarrow> 'a list \<Rightarrow> 'a list" where
  "firsts f [] = []"
| "firsts f (x # xs) = x # filter (\<lambda>y. f y \<noteq> f x) (firsts f xs)"

definition hash_right :: "runtime \<Rightarrow> Observation \<Rightarrow> bool" where
  "hash_right rt observation \<longleftrightarrow> check_hash rt observation = Inr (ob_content_hash observation)"

lemma firsts_set: "set (firsts f xs) \<subseteq> set xs" "f ` set (firsts f xs) = f ` set xs"
proof -
  show "set (firsts f xs) \<subseteq> set xs" by (induction xs) auto
  show "f ` set (firsts f xs) = f ` set xs"
  proof (induction xs)
    case (Cons x xs)
    have "f ` {y \<in> A. f y \<noteq> f x} = f ` A - {f x}" for A by auto
    then show ?case using Cons.IH by auto
  qed simp
qed

lemma firsts_distinct: "distinct (map f (firsts f xs))"
  by (induction xs) (auto simp: distinct_map_filter)

lemma firsts_snoc: "firsts f (xs @ [x]) = firsts f xs @ (if f x \<in> f ` set xs then [] else [x])"
  by (induction xs) auto

lemma firsts_find: "List.find (\<lambda>y. f y = k) (firsts f xs) = List.find (\<lambda>y. f y = k) xs"
proof (induction xs)
  case (Cons x xs)
  have "List.find (\<lambda>y. f y = k) (filter (\<lambda>y. f y \<noteq> f x) ys) = List.find (\<lambda>y. f y = k) ys" if "f x \<noteq> k" for ys
    using that by (induction ys) auto
  then show ?case using Cons by auto
qed simp

section \<open>Lemmas\<close>

lemma check_hash_Inr:
  assumes "check_hash rt ob = Inr h"
  shows "h = ob_content_hash ob"
    and "compute_observation_content_hash rt (dump_observation ob) = Inr (ob_content_hash ob)"
proof -
  have "map_of (dump_observation ob) ''content_hash'' = Some (PStr (ob_content_hash ob))"
    "map_of (dump_observation ob) ''observation_id'' = Some (PStr (ob_observation_id ob))"
    by (simp_all add: dump_observation_def)
  then show "h = ob_content_hash ob"
    "compute_observation_content_hash rt (dump_observation ob) = Inr (ob_content_hash ob)"
    using assms by (auto simp: check_hash_def validate_observation_content_hash_def result_simps split: if_splits)
qed

lemma hash_right_iff: "hash_right rt ob \<longleftrightarrow> (\<exists>h. check_hash rt ob = Inr h)"
  using check_hash_Inr(1) by (auto simp: hash_right_def)

lemma not_hash_right: "\<not> hash_right rt ob \<longleftrightarrow> (\<exists>e. check_hash rt ob = Inl e)"
  unfolding hash_right_iff by (cases "check_hash rt ob") auto

text \<open>A record is stored under its own key.\<close>

definition keyed :: "InboxStore \<Rightarrow> bool" where
  "keyed store \<longleftrightarrow> (\<forall>(k, r) \<in> set store. ir_identity_key r = k \<and> identity_key (ir_observation r) = k)"

definition rows :: "InboxStore \<Rightarrow> Observation list" where
  "rows store = map (\<lambda>(k, r). ir_observation r) store"

lemma rows_simps [simp]:
  "rows [] = []" "rows ((k, r) # store) = ir_observation r # rows store" "rows (store @ s) = rows store @ rows s"
  by (simp_all add: rows_def)

lemma keyed_keys: "keyed store \<Longrightarrow> map fst store = map identity_key (rows store)"
  by (induction store) (auto simp: keyed_def)

lemma keyed_lookup:
  "keyed store \<Longrightarrow> map_option ir_observation (map_of store k) = List.find (\<lambda>ob. identity_key ob = k) (rows store)"
  by (induction store) (auto simp: keyed_def)

lemma ingest_rows:
  assumes "keyed store"
  shows "keyed (snd (ingest rt ob store))"
    and "rows (snd (ingest rt ob store)) =
      (if hash_right rt ob \<and> identity_key ob \<notin> identity_key ` set (rows store) then rows store @ [ob] else rows store)"
proof -
  have known: "map_of store (identity_key ob) = None \<longleftrightarrow> identity_key ob \<notin> identity_key ` set (rows store)"
    using keyed_keys [OF assms] by (metis list.set_map map_of_eq_None_iff)
  show "keyed (snd (ingest rt ob store))"
    using assms by (auto simp: ingest_def keyed_def Let_def split: sum.split option.split)
  show "rows (snd (ingest rt ob store)) =
      (if hash_right rt ob \<and> identity_key ob \<notin> identity_key ` set (rows store) then rows store @ [ob] else rows store)"
    using known by (cases "check_hash rt ob"; cases "map_of store (identity_key ob)")
      (auto simp: ingest_def Let_def hash_right_iff)
qed

lemma deliver_snoc: "deliver rt (obs @ [ob]) store = snd (ingest rt ob (deliver rt obs store))"
  by (simp add: deliver_def)

lemma deliver_rows:
  "keyed (deliver rt obs []) \<and> rows (deliver rt obs []) = firsts identity_key (filter (hash_right rt) obs)"
proof (induction obs rule: rev_induct)
  case Nil
  then show ?case by (simp add: deliver_def keyed_def)
next
  case (snoc ob obs)
  have k: "identity_key ` set (rows (deliver rt obs [])) = identity_key ` set (filter (hash_right rt) obs)"
    unfolding conjunct2 [OF snoc] by (rule firsts_set(2))
  show ?case unfolding deliver_snoc
    using ingest_rows [of "deliver rt obs []" rt ob] snoc k by (simp add: firsts_snoc)
qed

lemma hash_right_bytes:
  assumes "hash_right rt ob"
  obtains x where "observation_bytes rt ob = Inr x" "ob_content_hash ob = sha256_tag rt x"
  using check_hash_Inr(2) [OF assms [unfolded hash_right_def]]
  by (auto simp: compute_observation_content_hash_def observation_bytes_def result_simps)

lemma stored_first:
  assumes "List.find (\<lambda>ob. identity_key ob = k) (filter (hash_right rt) obs) = Some a"
  shows "map_of (deliver rt obs []) k = Some \<lparr>ir_observation = a, ir_identity_key = k\<rparr>"
proof -
  have d: "keyed (deliver rt obs [])" "rows (deliver rt obs []) = firsts identity_key (filter (hash_right rt) obs)"
    using deliver_rows by blast+
  have "map_option ir_observation (map_of (deliver rt obs []) k) = Some a"
    unfolding keyed_lookup [OF d(1)] d(2) firsts_find by (rule assms)
  then obtain r where r: "map_of (deliver rt obs []) k = Some r" "ir_observation r = a" by auto
  have "ir_identity_key r = k" using d(1) map_of_SomeD [OF r(1)] by (auto simp: keyed_def)
  with r show ?thesis by (cases r) simp
qed

text \<open>Two accepted observations give a typed conflict exactly when their identifiers differ.\<close>

lemma source_conflict_of_accepted:
  assumes "validate_observation a = Inr x" "validate_observation b = Inr y"
  shows "source_conflict (ob_observation_id a) b =
    (if ob_observation_id a = ob_observation_id b then Rejected (ValueError ''source_observation_ids'')
     else SourceConflictError \<lparr>dc_source_observation_ids = sort [ob_observation_id a, ob_observation_id b],
       dc_source_business_key = ob_source_business_key b, dc_source_version = ob_source_version b\<rparr>)"
proof -
  have "is_identifier (ob_observation_id a)" "is_identifier (ob_observation_id b)"
    "is_identifier (ob_source_business_key b)" "is_source_version (ob_source_version b)"
    using validate_observation_Inr(2) [OF assms(1)] validate_observation_Inr(2) [OF assms(2)]
    by (auto simp: Observation_fields_def check_simps result_simps)
  note ids = this
  show ?thesis
  proof (cases "ob_observation_id a = ob_observation_id b")
    case True
    then show ?thesis by (simp add: source_conflict_def mk_DuplicateSourceConflict_def checked_def first_error.simps)
  next
    case False
    have "has_dups (sort [p, q]) = (p = q)" for p q :: string by (auto simp: has_dups_iff)
    moreover have "list_all is_identifier (sort [ob_observation_id a, ob_observation_id b])"
      using ids by (simp add: list_all_iff)
    ultimately show ?thesis using False ids(3,4)
      by (simp add: source_conflict_def mk_DuplicateSourceConflict_def checked_def first_error.simps identity_key_def del: sort_key_simps)
  qed
qed

section \<open>Properties\<close>

text \<open>C11: whatever is delivered, in whatever order and however often, the inbox holds in order of arrival
  the first delivery of every source identity and version whose fingerprint is right: each key once, no row
  overwritten, no forged delivery stored.\<close>

theorem inbox_keeps_first_deliveries:
  "rows (deliver rt observations []) = firsts identity_key (filter (hash_right rt) observations) \<and>
   map fst (deliver rt observations []) = map identity_key (rows (deliver rt observations [])) \<and>
   distinct (map fst (deliver rt observations []))"
  using deliver_rows [of rt observations] keyed_keys firsts_distinct by metis

text \<open>C12: a delivery under a known source identity and version changes nothing in the inbox. It is reported as an
  idempotent replay of the stored record when its semantic content is that of the stored revision, provided SHA-256
  tells their canonical bytes apart. Otherwise it raises the typed conflict, which names the two observations, the
  business key and the version; but when it repeats the observation identifier of the stored delivery, the record of
  the conflict, which demands two identifiers, is refused and the delivery raises that validation error instead.\<close>

theorem redelivery_replays_or_conflicts:
  assumes "List.find (\<lambda>ob. identity_key ob = identity_key b) (filter (hash_right rt) observations) = Some a"
    and "hash_right rt b" and "validate_observation a = Inr a" and "validate_observation b = Inr b"
    and "calendar_dates a" and "calendar_dates b"
    and "\<And>x y. observation_bytes rt a = Inr x \<Longrightarrow> observation_bytes rt b = Inr y \<Longrightarrow>
      sha256_hexdigest rt x = sha256_hexdigest rt y \<Longrightarrow> x = y"
  shows "ingest rt b (deliver rt observations []) =
    ((if semantic_content a = semantic_content b
      then Inr \<lparr>ig_outcome = INGEST_IDEMPOTENT_REPLAY, ig_record = \<lparr>ir_observation = a, ir_identity_key = identity_key b\<rparr>\<rparr>
      else if ob_observation_id a = ob_observation_id b
      then Inl (Rejected (ValueError ''source_observation_ids''))
      else Inl (SourceConflictError \<lparr>dc_source_observation_ids = sort [ob_observation_id a, ob_observation_id b],
        dc_source_business_key = ob_source_business_key b, dc_source_version = ob_source_version b\<rparr>)),
     deliver rt observations [])"
proof -
  have "hash_right rt a" using find_Some_D [OF assms(1)] by simp
  then obtain x where x: "observation_bytes rt a = Inr x" "ob_content_hash a = sha256_tag rt x"
    by (rule hash_right_bytes)
  obtain y where y: "observation_bytes rt b = Inr y" "ob_content_hash b = sha256_tag rt y"
    by (rule hash_right_bytes [OF assms(2)])
  have "ob_content_hash a = ob_content_hash b \<longleftrightarrow> x = y"
    using assms(7) [OF x(1) y(1)] by (auto simp: x(2) y(2) sha256_tag_def)
  also have "\<dots> \<longleftrightarrow> semantic_content a = semantic_content b"
    using same_bytes_same_content [OF x(1) _ assms(5,6)] y(1) x(1)
      bytes_of_semantic_content [OF accepted_times_aware [OF assms(3)], of rt]
      bytes_of_semantic_content [OF accepted_times_aware [OF assms(4)], of rt] by auto
  finally have same: "ob_content_hash a = ob_content_hash b \<longleftrightarrow> semantic_content a = semantic_content b" .
  have "check_hash rt b = Inr (ob_content_hash b)" using assms(2) by (simp add: hash_right_def)
  then show ?thesis
    using source_conflict_of_accepted [OF assms(3,4)]
    by (simp add: ingest_def stored_first [OF assms(1)] same del: sort_key_simps)
qed

section \<open>A concrete delivery\<close>

text \<open>With a constant digest the two sample observations carry their right hashes.\<close>

definition flat_runtime :: runtime where
  "flat_runtime = plain_runtime\<lparr>sha256_hexdigest := (\<lambda>_. replicate 64 CHR ''a'')\<rparr>"

lemma flat_hash_right:
  assumes "validate_observation ob = Inr x" "times_in_range ob" "ob_content_hash ob = sample_hash"
  shows "hash_right flat_runtime ob"
proof -
  obtain b where "observation_bytes flat_runtime ob = Inr b"
    using observation_bytes_returns [OF accepted_times_aware [OF assms(1)] assms(2)] by blast
  then have "compute_observation_content_hash flat_runtime (dump_observation ob) = Inr sample_hash"
    by (simp add: compute_observation_content_hash_def observation_bytes_def sha256_tag_def flat_runtime_def sample_hash_def)
  moreover have "map_of (dump_observation ob) ''content_hash'' = Some (PStr (ob_content_hash ob))"
    "map_of (dump_observation ob) ''observation_id'' = Some (PStr (ob_observation_id ob))"
    by (simp_all add: dump_observation_def)
  ultimately show ?thesis
    by (simp add: hash_right_def check_hash_def validate_observation_content_hash_def assms(3))
qed

lemma timed_hash_right: "hash_right flat_runtime timed_observation" "hash_right flat_runtime redelivered_observation"
  by (rule flat_hash_right [OF timed_observation_valid timed_observation_ok(3)], simp add: timed_defs,
      rule flat_hash_right [OF redelivered_observation_valid timed_observation_ok(4)], simp add: timed_defs)

lemma timed_same_content: "semantic_content timed_observation = semantic_content redelivered_observation"
  by (simp add: semantic_content_def timed_defs utc_def)

lemma timed_same_key: "identity_key timed_observation = identity_key redelivered_observation"
  by (simp add: identity_key_def timed_defs ob_kind_def ob_source_system_def)

theorem redelivery_replays_or_conflicts_witness:
  "ingest flat_runtime redelivered_observation (deliver flat_runtime [timed_observation] []) =
    (Inr \<lparr>ig_outcome = INGEST_IDEMPOTENT_REPLAY, ig_record = \<lparr>ir_observation = timed_observation,
       ir_identity_key = identity_key redelivered_observation\<rparr>\<rparr>, deliver flat_runtime [timed_observation] [])"
proof -
  have find: "List.find (\<lambda>ob. identity_key ob = identity_key redelivered_observation)
      (filter (hash_right flat_runtime) [timed_observation]) = Some timed_observation"
    by (simp add: timed_hash_right timed_same_key)
  have bytes: "observation_bytes flat_runtime timed_observation = observation_bytes flat_runtime redelivered_observation"
    using bytes_of_semantic_content [OF accepted_times_aware [OF timed_observation_valid], of flat_runtime]
      bytes_of_semantic_content [OF accepted_times_aware [OF redelivered_observation_valid], of flat_runtime]
    by (simp add: timed_same_content)
  show ?thesis
    using redelivery_replays_or_conflicts [OF find timed_hash_right(2) timed_observation_valid
        redelivered_observation_valid timed_observation_ok(1,2)] bytes timed_same_content by simp
qed

end
