(* ===== verification/Adapter.thy ===== *)
theory Adapter
  imports Inbox Break_Json Contract_Canonical
begin

text \<open>
  \<open>packages/persistence/adapter.py\<close>: the PostgreSQL adapter, over the tables of the migrations as lists
  of rows in the order of their identity columns. Every method is one transaction: when it raises, the
  tables are as they were. PostgreSQL keeps of a \<open>timestamptz\<close> its instant, an \<open>INTEGER\<close> has 32 bits, the
  \<open>UNIQUE\<close> constraints are those of the migrations, and texts sort by code points.
\<close>

section \<open>Tables\<close>

record ConflictRow =
  cw_observation :: Observation
  cw_conflicting_observation_id :: string
  cw_conflicting_content_hash :: string

record RunRow =
  rw_run_id :: string
  rw_run_version :: int
  rw_tenant_id :: string
  rw_portfolio_id :: string
  rw_config_id :: string
  rw_config_version :: string
  rw_config_hash :: string
  rw_detection_rule_version :: string
  rw_trades_evaluated :: int
  rw_observations_ingested :: int
  rw_clean_trades :: int
  rw_broken_trades :: int
  rw_break_count :: int
  rw_status :: string
  rw_started_at :: datetime
  rw_completed_at :: datetime

record BreakRow =
  kw_run_id :: string
  kw_break :: TradeBreak
  kw_config_hash :: string

record PgDb =
  pg_inbox :: "Observation list"
  pg_conflicts :: "ConflictRow list"
  pg_states :: "CanonicalTradeState list"
  pg_runs :: "RunRow list"
  pg_breaks :: "BreakRow list"

datatype pg_error = IngestError ingest_error | ConstraintViolation string | NumericValueOutOfRange

definition pg_integer :: "int \<Rightarrow> bool" where
  "pg_integer i \<longleftrightarrow> - (2 ^ 31) \<le> i \<and> i < 2 ^ 31"

definition pg_timestamp :: "datetime \<Rightarrow> datetime" where
  "pg_timestamp t = utc (instant t)"

text \<open>A method whose work is rolled back when it raises.\<close>

definition transaction :: "(PgDb, pg_error, 'a) call \<Rightarrow> (PgDb, pg_error, 'a) call" where
  "transaction m db = (case m db of (Inl e, _) \<Rightarrow> (Inl e, db) | (Inr x, db') \<Rightarrow> (Inr x, db'))"

section \<open>Ingestion\<close>

record IngestSummary =
  is_inserted :: int
  is_replayed :: int
  is_conflicted :: int

definition ingest_total :: "IngestSummary \<Rightarrow> int" where
  "ingest_total s = is_inserted s + is_replayed s + is_conflicted s"

text \<open>The row of an observation: the timestamp columns keep the instants, the payload its texts.\<close>

definition pg_row :: "Observation \<Rightarrow> Observation" where
  "pg_row ob = ob\<lparr>ob_event_time := pg_timestamp (ob_event_time ob),
     ob_effective_time := pg_timestamp (ob_effective_time ob), ob_ingest_time := pg_timestamp (ob_ingest_time ob)\<rparr>"

definition insert_observation :: "Observation \<Rightarrow> (PgDb, pg_error, unit) call" where
  "insert_observation ob db =
     (if \<not> pg_integer (ob_entity_version ob) \<or> \<not> pg_integer (ob_source_sequence ob) then (Inl NumericValueOutOfRange, db)
      else if ob_entity_version ob \<noteq> 1 then (Inl (ConstraintViolation ''source_event_inbox_entity_version_check''), db)
      else if identity_key ob \<in> identity_key ` set (pg_inbox db)
      then (Inl (ConstraintViolation ''source_event_inbox_identity_version_key''), db)
      else (Inr (), db\<lparr>pg_inbox := pg_inbox db @ [pg_row ob]\<rparr>))"

definition conflict_key :: "ConflictRow \<Rightarrow> string \<times> string \<times> string" where
  "conflict_key r = (ob_tenant_id (cw_observation r), ob_portfolio_id (cw_observation r), ob_observation_id (cw_observation r))"

text \<open>\<open>ON CONFLICT DO NOTHING\<close>.\<close>

definition quarantine_conflict :: "Observation \<Rightarrow> string \<Rightarrow> string \<Rightarrow> (PgDb, pg_error, unit) call" where
  "quarantine_conflict ob existing_id existing_hash db =
     (let row = \<lparr>cw_observation = ob, cw_conflicting_observation_id = existing_id, cw_conflicting_content_hash = existing_hash\<rparr> in
      if conflict_key row \<in> conflict_key ` set (pg_conflicts db) then (Inr (), db)
      else (Inr (), db\<lparr>pg_conflicts := pg_conflicts db @ [row]\<rparr>))"

definition ingest_one :: "runtime \<Rightarrow> string \<Rightarrow> Observation \<Rightarrow> IngestSummary \<Rightarrow> (PgDb, pg_error, IngestSummary) call" where
  "ingest_one rt on_conflict ob s db = (case check_hash rt ob of
     Inl e \<Rightarrow> (Inl (IngestError (Rejected e)), db)
   | Inr _ \<Rightarrow> (case List.find (\<lambda>row. identity_key row = identity_key ob) (pg_inbox db) of
       None \<Rightarrow> andthen (insert_observation ob) (\<lambda>_. ret (s\<lparr>is_inserted := is_inserted s + 1\<rparr>)) db
     | Some existing \<Rightarrow>
         (if ob_content_hash existing = ob_content_hash ob then (Inr (s\<lparr>is_replayed := is_replayed s + 1\<rparr>), db)
          else (case source_conflict (ob_observation_id existing) ob of
            Rejected e \<Rightarrow> (Inl (IngestError (Rejected e)), db)
          | SourceConflictError c \<Rightarrow>
              (if on_conflict = ''raise'' then (Inl (IngestError (SourceConflictError c)), db)
               else andthen (quarantine_conflict ob (ob_observation_id existing) (ob_content_hash existing))
                 (\<lambda>_. ret (s\<lparr>is_conflicted := is_conflicted s + 1\<rparr>)) db)))))"

fun ingest_loop :: "runtime \<Rightarrow> string \<Rightarrow> Observation list \<Rightarrow> IngestSummary \<Rightarrow> (PgDb, pg_error, IngestSummary) call" where
  "ingest_loop rt on_conflict [] s = ret s"
| "ingest_loop rt on_conflict (ob # obs) s = andthen (ingest_one rt on_conflict ob s) (ingest_loop rt on_conflict obs)"

definition ingest_observations :: "runtime \<Rightarrow> string \<Rightarrow> Observation list \<Rightarrow> (PgDb, pg_error, IngestSummary) call" where
  "ingest_observations rt on_conflict observations =
     (if on_conflict \<notin> {''raise'', ''quarantine''}
      then raise (IngestError (Rejected (ValueError ''on_conflict must be raise or quarantine'')))
      else transaction (ingest_loop rt on_conflict observations \<lparr>is_inserted = 0, is_replayed = 0, is_conflicted = 0\<rparr>))"

section \<open>Canonical states\<close>

definition state_key :: "CanonicalTradeState \<Rightarrow> string \<times> string \<times> string \<times> int" where
  "state_key s = (cs_tenant_id s, cs_portfolio_id s, cs_trade_id s, cs_canonical_state_version s)"

definition pg_state :: "CanonicalTradeState \<Rightarrow> CanonicalTradeState" where
  "pg_state s = s\<lparr>cs_as_of_time := pg_timestamp (cs_as_of_time s), cs_source_watermark := pg_timestamp (cs_source_watermark s)\<rparr>"

fun persist_states_loop :: "CanonicalTradeState list \<Rightarrow> int \<Rightarrow> (PgDb, pg_error, int) call" where
  "persist_states_loop [] written = ret written"
| "persist_states_loop (s # states) written = (\<lambda>db.
     if state_key s \<in> state_key ` set (pg_states db) then persist_states_loop states written db
     else if \<not> pg_integer (cs_entity_version s) \<or> \<not> pg_integer (cs_canonical_state_version s)
     then (Inl NumericValueOutOfRange, db)
     else persist_states_loop states (written + 1) (db\<lparr>pg_states := pg_states db @ [pg_state s]\<rparr>))"

definition persist_canonical_states :: "CanonicalTradeState list \<Rightarrow> (PgDb, pg_error, int) call" where
  "persist_canonical_states states = transaction (persist_states_loop states 0)"

section \<open>Runs and breaks\<close>

definition run_key :: "RunRow \<Rightarrow> string \<times> string \<times> string \<times> int" where
  "run_key r = (rw_tenant_id r, rw_portfolio_id r, rw_run_id r, rw_run_version r)"

definition break_key :: "BreakRow \<Rightarrow> string \<times> string \<times> string \<times> int" where
  "break_key r = (tb_tenant_id (kw_break r), tb_portfolio_id (kw_break r), tb_break_id (kw_break r), tb_break_version (kw_break r))"

definition insert_run :: "RunRow \<Rightarrow> (PgDb, pg_error, unit) call" where
  "insert_run r db =
     (if \<not> list_all pg_integer [rw_run_version r, rw_trades_evaluated r, rw_observations_ingested r, rw_clean_trades r,
         rw_broken_trades r, rw_break_count r] then (Inl NumericValueOutOfRange, db)
      else if rw_status r \<notin> {''COMPLETED'', ''FAILED''} then (Inl (ConstraintViolation ''reconciliation_runs_status_check''), db)
      else if run_key r \<in> run_key ` set (pg_runs db) then (Inl (ConstraintViolation ''reconciliation_runs_run_version_key''), db)
      else (Inr (), db\<lparr>pg_runs := pg_runs db @ [r\<lparr>rw_started_at := pg_timestamp (rw_started_at r),
        rw_completed_at := pg_timestamp (rw_completed_at r)\<rparr>]\<rparr>))"

definition insert_break :: "BreakRow \<Rightarrow> (PgDb, pg_error, unit) call" where
  "insert_break r db =
     (if \<not> pg_integer (tb_break_version (kw_break r)) \<or> \<not> pg_integer (tb_canonical_state_version (kw_break r))
      then (Inl NumericValueOutOfRange, db)
      else if break_key r \<in> break_key ` set (pg_breaks db) then (Inl (ConstraintViolation ''trade_breaks_identity_key''), db)
      else (Inr (), db\<lparr>pg_breaks := pg_breaks db @ [r]\<rparr>))"

fun insert_breaks :: "string \<Rightarrow> string \<Rightarrow> TradeBreak list \<Rightarrow> (PgDb, pg_error, unit) call" where
  "insert_breaks run_id config_hash [] = ret ()"
| "insert_breaks run_id config_hash (b # breaks) =
     andthen (insert_break \<lparr>kw_run_id = run_id, kw_break = b, kw_config_hash = config_hash\<rparr>)
       (\<lambda>_. insert_breaks run_id config_hash breaks)"

text \<open>\<open>now\<close> is what \<open>datetime.now(UTC)\<close> returns; the break count and the end of the run are set here.\<close>

definition persist_run :: "datetime \<Rightarrow> RunRow \<Rightarrow> TradeBreak list \<Rightarrow> (PgDb, pg_error, unit) call" where
  "persist_run now r breaks = transaction (andthen
     (insert_run (r\<lparr>rw_break_count := int (length breaks), rw_completed_at := now\<rparr>))
     (\<lambda>_. insert_breaks (rw_run_id r) (rw_config_hash r) breaks))"

section \<open>Reads\<close>

definition observation_documents :: "string \<Rightarrow> string list \<Rightarrow> PgDb \<Rightarrow> Observation list" where
  "observation_documents tenant_id portfolio_ids db =
     sort_key (\<lambda>ob. (ob_lineage_group_id ob, ob_source_sequence ob, ob_observation_id ob))
       (filter (\<lambda>ob. ob_tenant_id ob = tenant_id \<and> ob_portfolio_id ob \<in> set portfolio_ids) (pg_inbox db))"

definition observation_count :: "string \<Rightarrow> string list \<Rightarrow> PgDb \<Rightarrow> int" where
  "observation_count tenant_id portfolio_ids db =
     int (length (filter (\<lambda>ob. ob_tenant_id ob = tenant_id \<and> ob_portfolio_id ob \<in> set portfolio_ids) (pg_inbox db)))"

definition conflict_documents :: "string \<Rightarrow> string list \<Rightarrow> PgDb \<Rightarrow> Observation list" where
  "conflict_documents tenant_id portfolio_ids db =
     sort_key (\<lambda>ob. (ob_lineage_group_id ob, ob_observation_id ob))
       (filter (\<lambda>ob. ob_tenant_id ob = tenant_id \<and> ob_portfolio_id ob \<in> set portfolio_ids)
         (map cw_observation (pg_conflicts db)))"

text \<open>\<open>ORDER BY k DESC LIMIT 1\<close>.\<close>

definition first_row :: "('a \<Rightarrow> 'k :: linorder) \<Rightarrow> 'a list \<Rightarrow> 'a option" where
  "first_row k xs = (case sort_key k xs of [] \<Rightarrow> None | r # _ \<Rightarrow> Some r)"

definition canonical_state_document :: "string \<Rightarrow> string list \<Rightarrow> string \<Rightarrow> PgDb \<Rightarrow> CanonicalTradeState option" where
  "canonical_state_document tenant_id portfolio_ids trade_id db =
     first_row (\<lambda>s. - cs_canonical_state_version s)
       (filter (\<lambda>s. cs_tenant_id s = tenant_id \<and> cs_portfolio_id s \<in> set portfolio_ids \<and> cs_trade_id s = trade_id)
         (pg_states db))"

definition in_run_scope :: "string \<Rightarrow> string list \<Rightarrow> RunRow \<Rightarrow> bool" where
  "in_run_scope tenant_id portfolio_ids r \<longleftrightarrow> rw_tenant_id r = tenant_id \<and> rw_portfolio_id r \<in> set portfolio_ids"

text \<open>\<open>ORDER BY completed_at DESC, row_id DESC\<close>: the sort is stable and the last row comes first.\<close>

definition latest_first :: "RunRow list \<Rightarrow> RunRow list" where
  "latest_first runs = sort_key (\<lambda>r. - instant (rw_completed_at r)) (rev runs)"

definition latest_completed_run_id :: "string \<Rightarrow> string list \<Rightarrow> PgDb \<Rightarrow> string option" where
  "latest_completed_run_id tenant_id portfolio_ids db =
     (case latest_first (filter (\<lambda>r. in_run_scope tenant_id portfolio_ids r \<and> rw_status r = ''COMPLETED'') (pg_runs db)) of
        [] \<Rightarrow> None | r # _ \<Rightarrow> Some (rw_run_id r))"

definition runs_by_run_id :: "string \<Rightarrow> string list \<Rightarrow> string \<Rightarrow> PgDb \<Rightarrow> RunRow list" where
  "runs_by_run_id tenant_id portfolio_ids run_id db =
     sort_key rw_portfolio_id (filter (\<lambda>r. in_run_scope tenant_id portfolio_ids r \<and> rw_run_id r = run_id) (pg_runs db))"

definition recent_runs :: "string \<Rightarrow> string list \<Rightarrow> nat \<Rightarrow> PgDb \<Rightarrow> RunRow list" where
  "recent_runs tenant_id portfolio_ids limit db =
     take limit (latest_first (filter (in_run_scope tenant_id portfolio_ids) (pg_runs db)))"

definition latest_run :: "string \<Rightarrow> string list \<Rightarrow> PgDb \<Rightarrow> RunRow option" where
  "latest_run tenant_id portfolio_ids db =
     (case recent_runs tenant_id portfolio_ids 1 db of [] \<Rightarrow> None | r # _ \<Rightarrow> Some r)"

definition in_break_scope :: "string \<Rightarrow> string list \<Rightarrow> BreakRow \<Rightarrow> bool" where
  "in_break_scope tenant_id portfolio_ids r \<longleftrightarrow>
     tb_tenant_id (kw_break r) = tenant_id \<and> tb_portfolio_id (kw_break r) \<in> set portfolio_ids"

text \<open>An optional clause: an absent or empty value does not filter.\<close>

definition clause :: "string option \<Rightarrow> string \<Rightarrow> bool" where
  "clause value column \<longleftrightarrow> (case value of None \<Rightarrow> True | Some v \<Rightarrow> v = [] \<or> column = v)"

definition query_breaks ::
    "string \<Rightarrow> string list \<Rightarrow> string option \<Rightarrow> string option \<Rightarrow> string option \<Rightarrow> string option \<Rightarrow> nat \<Rightarrow> PgDb \<Rightarrow> BreakRow list" where
  "query_breaks tenant_id portfolio_ids product_type break_family state run_id limit db =
     take limit (sort_key (\<lambda>r. (- instant (tb_detected_at (kw_break r)), tb_break_id (kw_break r)))
       (filter (\<lambda>r. in_break_scope tenant_id portfolio_ids r \<and>
           clause product_type (product_str (tb_product_type (kw_break r))) \<and>
           clause break_family (family_str (tb_family (kw_break r))) \<and>
           clause state (break_state_str (tb_state (kw_break r))) \<and> clause run_id (kw_run_id r)) (pg_breaks db)))"

definition break_detail :: "string \<Rightarrow> string list \<Rightarrow> string \<Rightarrow> PgDb \<Rightarrow> BreakRow option" where
  "break_detail tenant_id portfolio_ids break_id db =
     first_row (\<lambda>r. - tb_break_version (kw_break r))
       (filter (\<lambda>r. in_break_scope tenant_id portfolio_ids r \<and> tb_break_id (kw_break r) = break_id) (pg_breaks db))"

text \<open>\<open>GROUP BY\<close> with a count: the groups that occur, here in the order of the families.\<close>

definition break_family_counts :: "string \<Rightarrow> string list \<Rightarrow> string option \<Rightarrow> PgDb \<Rightarrow> (BreakFamily \<times> int) list" where
  "break_family_counts tenant_id portfolio_ids run_id db =
     (let rs = filter (\<lambda>r. in_break_scope tenant_id portfolio_ids r \<and> clause run_id (kw_run_id r)) (pg_breaks db) in
      map (\<lambda>f. (f, int (length (filter (\<lambda>r. tb_family (kw_break r) = f) rs))))
        (filter (\<lambda>f. \<exists>r \<in> set rs. tb_family (kw_break r) = f) BREAK_FAMILY_ORDER))"

definition product_counts :: "string \<Rightarrow> string list \<Rightarrow> PgDb \<Rightarrow> (ProductType \<times> int) list" where
  "product_counts tenant_id portfolio_ids db =
     (let rs = filter (\<lambda>s. cs_tenant_id s = tenant_id \<and> cs_portfolio_id s \<in> set portfolio_ids) (pg_states db);
          trades = (\<lambda>p. remdups (map cs_trade_id (filter (\<lambda>s. cf_product_type (cs_state s) = p) rs))) in
      map (\<lambda>p. (p, int (length (trades p)))) (filter (\<lambda>p. trades p \<noteq> []) [FX_SPOT, FX_FORWARD]))"

section \<open>Simulation of the reference inbox\<close>

text \<open>The table represents a store: the same observations in the same order.\<close>

definition represents :: "PgDb \<Rightarrow> InboxStore \<Rightarrow> bool" where
  "represents db store \<longleftrightarrow> keyed store \<and> pg_inbox db = map pg_row (rows store)"

text \<open>The reference semantics of a batch: deliveries to the in-memory store until one is refused.\<close>

fun ingest_batch :: "runtime \<Rightarrow> Observation list \<Rightarrow> (InboxStore, ingest_error, IngestOutcome list) call" where
  "ingest_batch rt [] = ret []"
| "ingest_batch rt (ob # obs) = andthen (ingest rt ob) (\<lambda>result.
     andthen (ingest_batch rt obs) (\<lambda>outcomes. ret (ig_outcome result # outcomes)))"

text \<open>An observation whose integers fit the columns of its table.\<close>

definition storable :: "Observation \<Rightarrow> bool" where
  "storable ob \<longleftrightarrow> pg_integer (ob_source_sequence ob) \<and> ob_entity_version ob = 1"

definition count_outcome :: "IngestOutcome \<Rightarrow> IngestOutcome list \<Rightarrow> int" where
  "count_outcome outcome outcomes = int (length (filter (\<lambda>r. r = outcome) outcomes))"

lemma pg_row_simps [simp]:
  "identity_key (pg_row ob) = identity_key ob" "ob_content_hash (pg_row ob) = ob_content_hash ob"
  "ob_observation_id (pg_row ob) = ob_observation_id ob"
  by (simp_all add: pg_row_def identity_key_def ob_kind_def ob_source_system_def)

lemma represents_lookup:
  assumes "represents db store"
  shows "List.find (\<lambda>row. identity_key row = k) (pg_inbox db) = map_option (\<lambda>r. pg_row (ir_observation r)) (map_of store k)"
proof -
  have f: "List.find (\<lambda>row. identity_key row = k) (map pg_row obs) = map_option pg_row (List.find (\<lambda>ob. identity_key ob = k) obs)" for obs
    by (induction obs) auto
  have "List.find (\<lambda>row. identity_key row = k) (pg_inbox db) = map_option pg_row (List.find (\<lambda>ob. identity_key ob = k) (rows store))"
    using assms f [of "rows store"] by (simp add: represents_def)
  also have "\<dots> = map_option pg_row (map_option ir_observation (map_of store k))"
    using assms keyed_lookup [of store k] by (simp add: represents_def)
  finally show ?thesis by (simp add: option.map_comp comp_def)
qed

lemma represents_new:
  assumes "represents db store" "map_of store (identity_key ob) = None"
  shows "identity_key ob \<notin> identity_key ` set (pg_inbox db)"
  using represents_lookup [OF assms(1), of "identity_key ob"] assms(2) by (auto simp: find_None_iff)

lemma represents_insert:
  assumes "represents db store"
  shows "represents (db\<lparr>pg_inbox := pg_inbox db @ [pg_row ob]\<rparr>)
    (store @ [(identity_key ob, \<lparr>ir_observation = ob, ir_identity_key = identity_key ob\<rparr>)])"
  using assms by (auto simp: represents_def keyed_def)

text \<open>One delivery: the adapter takes the branch of the reference.\<close>

lemma ingest_one_inserts:
  assumes "represents db store" "check_hash rt ob = Inr h" "map_of store (identity_key ob) = None" "storable ob"
  shows "ingest_one rt mode ob s db =
    (Inr (s\<lparr>is_inserted := is_inserted s + 1\<rparr>), db\<lparr>pg_inbox := pg_inbox db @ [pg_row ob]\<rparr>)"
proof -
  have "pg_integer 1" by (simp add: pg_integer_def)
  then show ?thesis
    using assms represents_lookup [OF assms(1)] represents_new [OF assms(1,3)]
    by (simp add: ingest_one_def insert_observation_def storable_def andthen_def ret_def)
qed

lemma ingest_one_replays:
  assumes "represents db store" "check_hash rt ob = Inr h" "map_of store (identity_key ob) = Some r"
    "ob_content_hash (ir_observation r) = ob_content_hash ob"
  shows "ingest_one rt mode ob s db = (Inr (s\<lparr>is_replayed := is_replayed s + 1\<rparr>), db)"
  using assms represents_lookup [OF assms(1)] by (simp add: ingest_one_def)

lemma ingest_one_conflicts:
  assumes "represents db store" "check_hash rt ob = Inr h" "map_of store (identity_key ob) = Some r"
    "ob_content_hash (ir_observation r) \<noteq> ob_content_hash ob"
  shows "ingest_one rt mode ob s db = (case source_conflict (ob_observation_id (ir_observation r)) ob of
      Rejected e \<Rightarrow> (Inl (IngestError (Rejected e)), db)
    | SourceConflictError c \<Rightarrow> (if mode = ''raise'' then (Inl (IngestError (SourceConflictError c)), db)
        else andthen (quarantine_conflict ob (ob_observation_id (ir_observation r)) (ob_content_hash (ir_observation r)))
          (\<lambda>_. ret (s\<lparr>is_conflicted := is_conflicted s + 1\<rparr>)) db))"
  using assms represents_lookup [OF assms(1)] by (simp add: ingest_one_def split: ingest_error.split)

lemma ingest_one_raise:
  assumes r: "represents db store" and st: "storable ob"
  shows "case ingest rt ob store of
      (Inl e, _) \<Rightarrow> ingest_one rt ''raise'' ob s db = (Inl (IngestError e), db)
    | (Inr x, store') \<Rightarrow> \<exists>db'. represents db' store' \<and> db' = db\<lparr>pg_inbox := pg_inbox db'\<rparr> \<and>
        ingest_one rt ''raise'' ob s db =
          (Inr (case ig_outcome x of INGEST_INSERTED \<Rightarrow> s\<lparr>is_inserted := is_inserted s + 1\<rparr>
              | INGEST_IDEMPOTENT_REPLAY \<Rightarrow> s\<lparr>is_replayed := is_replayed s + 1\<rparr>), db')"
proof (cases "check_hash rt ob")
  case (Inl e)
  then show ?thesis by (simp add: ingest_def ingest_one_def)
next
  case (Inr h)
  show ?thesis
  proof (cases "map_of store (identity_key ob)")
    case None
    then show ?thesis
      using ingest_one_inserts [OF r Inr None st] represents_insert [OF r, of ob] Inr by (simp add: ingest_def Let_def)
  next
    case (Some x)
    show ?thesis
    proof (cases "ob_content_hash (ir_observation x) = ob_content_hash ob")
      case True
      then show ?thesis using ingest_one_replays [OF r Inr Some True] Inr Some r by (auto simp: ingest_def Let_def)
    next
      case False
      then show ?thesis using ingest_one_conflicts [OF r Inr Some False, of "''raise''" s] Inr Some
        by (auto simp: ingest_def Let_def split: ingest_error.split)
    qed
  qed
qed

text \<open>The counters after the outcomes of a batch.\<close>

definition counted :: "IngestOutcome list \<Rightarrow> IngestSummary \<Rightarrow> IngestSummary" where
  "counted outcomes s = s\<lparr>is_inserted := is_inserted s + count_outcome INGEST_INSERTED outcomes,
     is_replayed := is_replayed s + count_outcome INGEST_IDEMPOTENT_REPLAY outcomes\<rparr>"

lemma counted_Cons:
  "counted (x # xs) s = counted xs (case x of INGEST_INSERTED \<Rightarrow> s\<lparr>is_inserted := is_inserted s + 1\<rparr>
     | INGEST_IDEMPOTENT_REPLAY \<Rightarrow> s\<lparr>is_replayed := is_replayed s + 1\<rparr>)"
  by (cases x) (simp_all add: counted_def count_outcome_def)

lemma ingest_loop_raise:
  assumes "represents db store" "\<forall>ob \<in> set obs. storable ob"
  shows "case ingest_batch rt obs store of
      (Inl e, _) \<Rightarrow> fst (ingest_loop rt ''raise'' obs s db) = Inl (IngestError e)
    | (Inr outcomes, store') \<Rightarrow> \<exists>db'. represents db' store' \<and> db' = db\<lparr>pg_inbox := pg_inbox db'\<rparr> \<and>
        ingest_loop rt ''raise'' obs s db = (Inr (counted outcomes s), db')"
  using assms
proof (induction obs arbitrary: db store s)
  case Nil
  have "db = db\<lparr>pg_inbox := pg_inbox db\<rparr>" by simp
  then show ?case using Nil.prems(1) by (auto simp: ret_def counted_def count_outcome_def)
next
  case (Cons ob obs)
  note one = ingest_one_raise [OF Cons.prems(1), of ob rt s]
  obtain r store1 where i: "ingest rt ob store = (r, store1)" by (cases "ingest rt ob store")
  show ?case
  proof (cases r)
    case (Inl e)
    then have "ingest_one rt ''raise'' ob s db = (Inl (IngestError e), db)" using one i Cons.prems(2) by simp
    then show ?thesis using Inl i by (simp add: andthen_def)
  next
    case (Inr x)
    define s1 where "s1 = (case ig_outcome x of INGEST_INSERTED \<Rightarrow> s\<lparr>is_inserted := is_inserted s + 1\<rparr>
      | INGEST_IDEMPOTENT_REPLAY \<Rightarrow> s\<lparr>is_replayed := is_replayed s + 1\<rparr>)"
    obtain db1 where d: "represents db1 store1" "db1 = db\<lparr>pg_inbox := pg_inbox db1\<rparr>"
      "ingest_one rt ''raise'' ob s db = (Inr s1, db1)"
      using one i Inr Cons.prems(2) unfolding s1_def by auto
    have step: "ingest_loop rt ''raise'' (ob # obs) s db = ingest_loop rt ''raise'' obs s1 db1"
      "ingest_batch rt (ob # obs) store =
        andthen (ingest_batch rt obs) (\<lambda>outcomes. ret (ig_outcome x # outcomes)) store1"
      using d(3) i Inr by (simp_all add: andthen_def)
    obtain q store2 where b: "ingest_batch rt obs store1 = (q, store2)" by (cases "ingest_batch rt obs store1")
    have ih: "case (q, store2) of
        (Inl e, _) \<Rightarrow> fst (ingest_loop rt ''raise'' obs s1 db1) = Inl (IngestError e)
      | (Inr outcomes, store') \<Rightarrow> \<exists>db'. represents db' store' \<and> db' = db1\<lparr>pg_inbox := pg_inbox db'\<rparr> \<and>
          ingest_loop rt ''raise'' obs s1 db1 = (Inr (counted outcomes s1), db')"
      unfolding b [symmetric] using Cons.prems(2) by (intro Cons.IH [OF d(1)]) simp
    show ?thesis
    proof (cases q)
      case (Inl e)
      then show ?thesis using ih b unfolding step by (simp add: andthen_def)
    next
      case (Inr outcomes)
      then obtain db2 where e: "represents db2 store2" "db2 = db1\<lparr>pg_inbox := pg_inbox db2\<rparr>"
        "ingest_loop rt ''raise'' obs s1 db1 = (Inr (counted outcomes s1), db2)" using ih by auto
      have "db2 = db\<lparr>pg_inbox := pg_inbox db2\<rparr>" using e(2) d(2) by (metis PgDb.surjective PgDb.update_convs(1))
      then show ?thesis using e(1,3) b Inr unfolding step
        by (auto simp: andthen_def ret_def counted_Cons s1_def)
    qed
  qed
qed

section \<open>Quarantine\<close>

text \<open>What a batch keeps of a delivery: it is in the inbox with its content, or in quarantine.\<close>

definition retained :: "PgDb \<Rightarrow> Observation \<Rightarrow> bool" where
  "retained db ob \<longleftrightarrow>
     (\<exists>row \<in> set (pg_inbox db). identity_key row = identity_key ob \<and> ob_content_hash row = ob_content_hash ob) \<or>
     (ob_tenant_id ob, ob_portfolio_id ob, ob_observation_id ob) \<in> conflict_key ` set (pg_conflicts db)"

text \<open>Two states of the tables between which rows are only appended to the inbox and the quarantine.\<close>

definition ingested :: "PgDb \<Rightarrow> PgDb \<Rightarrow> bool" where
  "ingested db db' \<longleftrightarrow> (\<exists>xs. pg_inbox db' = pg_inbox db @ xs) \<and> (\<exists>ys. pg_conflicts db' = pg_conflicts db @ ys) \<and>
     db' = db\<lparr>pg_inbox := pg_inbox db', pg_conflicts := pg_conflicts db'\<rparr>"

lemma ingested_refl: "ingested db db" by (simp add: ingested_def)

lemma ingested_trans: "ingested a b \<Longrightarrow> ingested b c \<Longrightarrow> ingested a c"
  unfolding ingested_def by (elim conjE exE, intro conjI, metis append.assoc, metis append.assoc, cases a, cases b, cases c) simp

lemma retained_mono: "retained db ob \<Longrightarrow> ingested db db' \<Longrightarrow> retained db' ob"
  by (auto simp: retained_def ingested_def)

lemma quarantine_effect:
  "\<exists>db'. quarantine_conflict ob i h db = (Inr (), db') \<and> pg_inbox db' = pg_inbox db \<and> ingested db db' \<and> retained db' ob"
proof -
  have "ingested db (db\<lparr>pg_conflicts := pg_conflicts db @ [row]\<rparr>)" for row by (simp add: ingested_def)
  then show ?thesis using ingested_refl
    by (auto simp: quarantine_conflict_def Let_def retained_def conflict_key_def)
qed

lemma represents_inbox: "represents db store \<Longrightarrow> pg_inbox db' = pg_inbox db \<Longrightarrow> represents db' store"
  by (simp add: represents_def)

lemma represents_row: "represents db store \<Longrightarrow> map_of store k = Some r \<Longrightarrow>
    pg_row (ir_observation r) \<in> set (pg_inbox db) \<and> identity_key (ir_observation r) = k"
  by (auto simp: represents_def keyed_def rows_def dest!: map_of_SomeD intro!: image_eqI)

lemma ingest_one_effect:
  assumes r: "represents db store" and e: "ingest_one rt mode ob s db = (Inr s', db')"
  shows "represents db' (snd (ingest rt ob store)) \<and> ingested db db' \<and> retained db' ob \<and> hash_right rt ob \<and>
    is_inserted s' - is_inserted s = int (length (pg_inbox db')) - int (length (pg_inbox db)) \<and>
    ingest_total s' = ingest_total s + 1"
proof (cases "check_hash rt ob")
  case (Inl x)
  then show ?thesis using e by (simp add: ingest_one_def)
next
  case (Inr h)
  then have right: "hash_right rt ob" by (simp add: hash_right_iff)
  show ?thesis
  proof (cases "map_of store (identity_key ob)")
    case None
    have i: "s' = s\<lparr>is_inserted := is_inserted s + 1\<rparr>" "db' = db\<lparr>pg_inbox := pg_inbox db @ [pg_row ob]\<rparr>"
      using e Inr None represents_lookup [OF r]
      by (auto simp: ingest_one_def insert_observation_def andthen_def ret_def split: if_splits)
    then have "represents db' (snd (ingest rt ob store))" "ingested db db'" "retained db' ob"
      using represents_insert [OF r, of ob] Inr None
      by (auto simp: ingest_def Let_def ingested_def retained_def)
    then show ?thesis using i right by (simp add: ingest_total_def)
  next
    case (Some x)
    have row: "pg_row (ir_observation x) \<in> set (pg_inbox db)" "identity_key (ir_observation x) = identity_key ob"
      using represents_row [OF r Some] by simp_all
    show ?thesis
    proof (cases "ob_content_hash (ir_observation x) = ob_content_hash ob")
      case True
      have "(s', db') = (s\<lparr>is_replayed := is_replayed s + 1\<rparr>, db)" "retained db ob"
        using e ingest_one_replays [OF r Inr Some True] row True by (force simp: retained_def)+
      then show ?thesis using r right ingested_refl Inr Some True by (simp add: ingest_def Let_def ingest_total_def)
    next
      case False
      have c: "quarantine_conflict ob (ob_observation_id (ir_observation x)) (ob_content_hash (ir_observation x)) db =
          (Inr (), db')" "s' = s\<lparr>is_conflicted := is_conflicted s + 1\<rparr>"
        using e ingest_one_conflicts [OF r Inr Some False, of mode s]
        by (auto simp: andthen_def ret_def split: ingest_error.splits if_splits prod.splits sum.splits)
      have "pg_inbox db' = pg_inbox db \<and> ingested db db' \<and> retained db' ob"
        using quarantine_effect [of ob "ob_observation_id (ir_observation x)" "ob_content_hash (ir_observation x)" db] c(1) by auto
      then show ?thesis using represents_inbox [OF r, of db'] c(2) right Inr Some False
        by (simp add: ingest_def Let_def ingest_total_def)
    qed
  qed
qed

lemma ingest_loop_effect:
  assumes "represents db store" "ingest_loop rt mode obs s db = (Inr s', db')"
  shows "represents db' (deliver rt obs store) \<and> ingested db db' \<and> (\<forall>ob \<in> set obs. retained db' ob \<and> hash_right rt ob) \<and>
    is_inserted s' - is_inserted s = int (length (pg_inbox db')) - int (length (pg_inbox db)) \<and>
    ingest_total s' = ingest_total s + int (length obs)"
  using assms
proof (induction obs arbitrary: db store s)
  case Nil
  then show ?case by (simp add: ret_def deliver_def ingested_refl)
next
  case (Cons ob obs)
  obtain s1 db1 where one: "ingest_one rt mode ob s db = (Inr s1, db1)" and rest: "ingest_loop rt mode obs s1 db1 = (Inr s', db')"
    using Cons.prems(2) by (auto simp: result_simps)
  note e = ingest_one_effect [OF Cons.prems(1) one]
  have d: "deliver rt obs (snd (ingest rt ob store)) = deliver rt (ob # obs) store" by (simp add: deliver_def)
  have ih: "represents db' (deliver rt (ob # obs) store) \<and> ingested db1 db' \<and> (\<forall>ob \<in> set obs. retained db' ob \<and> hash_right rt ob) \<and>
      is_inserted s' - is_inserted s1 = int (length (pg_inbox db')) - int (length (pg_inbox db1)) \<and>
      ingest_total s' = ingest_total s1 + int (length obs)"
    using Cons.IH [OF conjunct1 [OF e] rest] unfolding d .
  moreover have "retained db' ob" using e ih retained_mono by blast
  moreover have "ingested db db'" using e ih ingested_trans by blast
  ultimately show ?case using e by simp
qed

lemma transaction_simps:
  "m db = (Inr x, db') \<Longrightarrow> transaction m db = (Inr x, db')" "fst (m db) = Inl e \<Longrightarrow> transaction m db = (Inl e, db)"
  by (auto simp: transaction_def split: prod.splits)

lemma transaction_Inr: "transaction m db = (Inr x, db') \<longleftrightarrow> m db = (Inr x, db')"
  by (auto simp: transaction_def split: prod.splits sum.splits)

lemma transaction_Inl: "transaction m db = (Inl e, db') \<longleftrightarrow> fst (m db) = Inl e \<and> db' = db"
  by (auto simp: transaction_def split: prod.splits sum.splits)

section \<open>Properties\<close>

text \<open>C17: on tables that represent a store of the reference inbox, a batch of observations whose integers fit
  their columns does what the reference does: it raises the error of the first delivery that the reference
  refuses, and then leaves every table as it was, or returns the numbers of inserted and replayed deliveries,
  and then the tables represent the resulting store.\<close>

theorem adapter_refines_inbox:
  assumes "represents db store" and "\<forall>ob \<in> set observations. storable ob"
  shows "case ingest_batch rt observations store of
      (Inl e, _) \<Rightarrow> ingest_observations rt ''raise'' observations db = (Inl (IngestError e), db)
    | (Inr outcomes, store') \<Rightarrow> \<exists>db'. represents db' store' \<and> db' = db\<lparr>pg_inbox := pg_inbox db'\<rparr> \<and>
        ingest_observations rt ''raise'' observations db =
          (Inr \<lparr>is_inserted = count_outcome INGEST_INSERTED outcomes,
             is_replayed = count_outcome INGEST_IDEMPOTENT_REPLAY outcomes, is_conflicted = 0\<rparr>, db')"
proof -
  let ?s = "\<lparr>is_inserted = 0, is_replayed = 0, is_conflicted = 0\<rparr> :: IngestSummary"
  have m: "ingest_observations rt ''raise'' observations = transaction (ingest_loop rt ''raise'' observations ?s)"
    by (simp add: ingest_observations_def)
  note loop = ingest_loop_raise [OF assms, of rt ?s]
  obtain r store' where b: "ingest_batch rt observations store = (r, store')" by (cases "ingest_batch rt observations store")
  show ?thesis
  proof (cases r)
    case (Inl e)
    then show ?thesis using loop b unfolding m by (simp add: transaction_simps(2))
  next
    case (Inr outcomes)
    then show ?thesis using loop b unfolding m
      by (auto simp: counted_def intro!: transaction_simps(1))
  qed
qed

text \<open>C18: whatever the mode, a batch that returns has kept every delivery: each has a right fingerprint and
  is in the inbox with its content, or in quarantine under its identifier; the three counters add up to the deliveries; the inbox
  is that of the reference, so no row was overwritten; and the tables only grew. A batch that raises changes
  nothing.\<close>

theorem ingestion_keeps_every_delivery:
  assumes "represents db store" and "ingest_observations rt mode observations db = (result, db')"
  shows "case result of
      Inl e \<Rightarrow> db' = db
    | Inr summary \<Rightarrow> represents db' (deliver rt observations store) \<and> ingested db db' \<and>
        (\<forall>ob \<in> set observations. hash_right rt ob \<and> retained db' ob) \<and>
        ingest_total summary = int (length observations) \<and>
        is_inserted summary = int (length (pg_inbox db')) - int (length (pg_inbox db))"
proof (cases result)
  case (Inl e)
  then show ?thesis using assms(2) by (auto simp: ingest_observations_def raise_def transaction_Inl split: if_splits)
next
  case (Inr summary)
  then have "ingest_loop rt mode observations \<lparr>is_inserted = 0, is_replayed = 0, is_conflicted = 0\<rparr> db = (Inr summary, db')"
    using assms(2) by (auto simp: ingest_observations_def raise_def transaction_Inr split: if_splits)
  from ingest_loop_effect [OF assms(1) this] show ?thesis using Inr by (simp add: ingest_total_def)
qed

section \<open>A concrete batch\<close>

definition empty_tables :: PgDb where
  "empty_tables = \<lparr>pg_inbox = [], pg_conflicts = [], pg_states = [], pg_runs = [], pg_breaks = []\<rparr>"

lemma empty_represents: "represents empty_tables []"
  by (simp add: represents_def empty_tables_def keyed_def)

lemma timed_batch:
  "ingest_batch flat_runtime [timed_observation, redelivered_observation] [] =
    (Inr [INGEST_INSERTED, INGEST_IDEMPOTENT_REPLAY], snd (ingest flat_runtime timed_observation []))"
proof -
  have h: "check_hash flat_runtime timed_observation = Inr (ob_content_hash timed_observation)"
    "check_hash flat_runtime redelivered_observation = Inr (ob_content_hash redelivered_observation)"
    using timed_hash_right by (simp_all add: hash_right_def)
  have "ob_content_hash timed_observation = ob_content_hash redelivered_observation" by (simp add: timed_defs)
  then show ?thesis by (simp add: ingest_def h Let_def timed_same_key andthen_def ret_def)
qed

lemma timed_storable: "\<forall>ob \<in> set [timed_observation, redelivered_observation]. storable ob"
  by (simp add: storable_def pg_integer_def timed_defs)

lemma timed_quarantine:
  "\<exists>s. fst (ingest_observations flat_runtime ''quarantine'' [timed_observation, redelivered_observation] empty_tables) = Inr s"
proof -
  have h: "check_hash flat_runtime timed_observation = Inr (ob_content_hash timed_observation)"
    "check_hash flat_runtime redelivered_observation = Inr (ob_content_hash redelivered_observation)"
    using timed_hash_right by (simp_all add: hash_right_def)
  have st: "storable timed_observation" using timed_storable by simp
  have new: "map_of ([] :: InboxStore) (identity_key timed_observation) = None" by simp
  note one = ingest_one_inserts [OF empty_represents h(1) new st]
  have r: "represents (empty_tables\<lparr>pg_inbox := pg_inbox empty_tables @ [pg_row timed_observation]\<rparr>)
      ([] @ [(identity_key timed_observation, \<lparr>ir_observation = timed_observation, ir_identity_key = identity_key timed_observation\<rparr>)])"
    by (rule represents_insert [OF empty_represents])
  have "ob_content_hash timed_observation = ob_content_hash redelivered_observation" by (simp add: timed_defs)
  then have two: "ingest_one flat_runtime mode redelivered_observation s
      (empty_tables\<lparr>pg_inbox := pg_inbox empty_tables @ [pg_row timed_observation]\<rparr>) =
      (Inr (s\<lparr>is_replayed := is_replayed s + 1\<rparr>), empty_tables\<lparr>pg_inbox := pg_inbox empty_tables @ [pg_row timed_observation]\<rparr>)" for mode s
    using ingest_one_replays [OF r h(2), where r = "\<lparr>ir_observation = timed_observation,
      ir_identity_key = identity_key timed_observation\<rparr>"] by (simp add: timed_same_key)
  show ?thesis
    by (simp add: ingest_observations_def transaction_def andthen_def one two ret_def)
qed

theorem adapter_refines_inbox_witness:
  "\<exists>db'. ingest_observations flat_runtime ''raise'' [timed_observation, redelivered_observation] empty_tables =
    (Inr \<lparr>is_inserted = 1, is_replayed = 1, is_conflicted = 0\<rparr>, db') \<and>
    represents db' (snd (ingest flat_runtime timed_observation []))"
  using adapter_refines_inbox [OF empty_represents timed_storable, of flat_runtime, unfolded timed_batch]
  by (auto simp: count_outcome_def)

theorem ingestion_keeps_every_delivery_witness:
  "retained (snd (ingest_observations flat_runtime ''quarantine'' [timed_observation, redelivered_observation] empty_tables))
     timed_observation \<and>
   retained (snd (ingest_observations flat_runtime ''quarantine'' [timed_observation, redelivered_observation] empty_tables))
     redelivered_observation"
proof -
  have "\<exists>s. fst (ingest_observations flat_runtime ''quarantine'' [timed_observation, redelivered_observation] empty_tables) = Inr s"
    using timed_quarantine by blast
  then show ?thesis
    using ingestion_keeps_every_delivery [OF empty_represents, of flat_runtime "''quarantine''" "[timed_observation, redelivered_observation]"]
    by (cases "ingest_observations flat_runtime ''quarantine'' [timed_observation, redelivered_observation] empty_tables") auto
qed

end
