(* ===== verification/Assembler.thy ===== *)
theory Assembler
  imports Inbox Contract_Policies
begin

text \<open>
  \<open>packages/persistence/assembler.py\<close>: the policy-enforced construction of the versioned canonical
  state of a trade. A field selection is a dict from field names to observations; the resolver computes
  it from the packaged source-of-truth policy, and the assembler recomputes it and refuses any other.
\<close>

section \<open>The packaged policy\<close>

fun owner_str :: "FieldOwner \<Rightarrow> string" where
  "owner_str EXECUTION_OR_TRADE_CAPTURE = ''EXECUTION_OR_TRADE_CAPTURE''"
| "owner_str OWNER_CONFIRMATION = ''CONFIRMATION''"
| "owner_str BOOKING_READ_BACK = ''BOOKING_READ_BACK''"
| "owner_str LINKAGE_RULE = ''LINKAGE_RULE''"

fun conflict_outcome_str :: "ConflictOutcome \<Rightarrow> string" where
  "conflict_outcome_str EMIT_BREAK_NO_SILENT_OVERWRITE = ''EMIT_BREAK_NO_SILENT_OVERWRITE''"
| "conflict_outcome_str RETAIN_SOURCE_ONLY = ''RETAIN_SOURCE_ONLY''"
| "conflict_outcome_str CONFLICT_REQUIRE_LINKAGE_REVIEW = ''REQUIRE_LINKAGE_REVIEW''"

definition field_rule_json :: "SourceOfTruthFieldRule \<Rightarrow> json" where
  "field_rule_json r = JObj [
     (''field_path'', JStr (sr_field_path r)),
     (''owner'', JStr (owner_str (sr_owner r))),
     (''trusted_sources'', JList (map (JStr \<circ> source_system_str) (sr_trusted_sources r))),
     (''source_precedence'', JList (map (JStr \<circ> source_system_str) (sr_source_precedence r))),
     (''secondary_sources'', JList (map (JStr \<circ> source_system_str) (sr_secondary_sources r))),
     (''conflict_outcome'', JStr (conflict_outcome_str (sr_conflict_outcome r)))]"

definition policy_json :: "SourceOfTruthPolicy \<Rightarrow> json" where
  "policy_json p = JObj [
     (''policy_version'', JStr (sp_policy_version p)),
     (''scope'', JStr (sp_scope p)),
     (''field_rules'', JList (map field_rule_json (sp_field_rules p)))]"

text \<open>\<open>source-of-truth-policy.json\<close>: who owns a field, in the order of the document.\<close>

definition booking_last :: "SourceSystem list" where
  "booking_last = [FIX_EXECUTION, FIX_TRADE_CAPTURE, FPML_CONFIRMATION, MOCK_LEGACY_BOOKING]"

definition trade_field_rule :: "CanonicalField \<Rightarrow> SourceOfTruthFieldRule" where
  "trade_field_rule f = \<lparr>
     sr_field_path = ''/payload/'' @ field_name f, sr_owner = EXECUTION_OR_TRADE_CAPTURE,
     sr_trusted_sources = [FIX_EXECUTION, FIX_TRADE_CAPTURE], sr_source_precedence = booking_last,
     sr_secondary_sources = [FPML_CONFIRMATION, MOCK_LEGACY_BOOKING],
     sr_conflict_outcome = EMIT_BREAK_NO_SILENT_OVERWRITE\<rparr>"

definition mvp_source_of_truth_policy :: SourceOfTruthPolicy where
  "mvp_source_of_truth_policy = \<lparr>
     sp_policy_version = ''1.0.0'', sp_scope = ''MVP_SYNTHETIC_FX'',
     sp_field_rules =
       map trade_field_rule [F_product_type, F_quoted_rate, F_settlement_rule_version, F_base_currency,
         F_terms_currency, F_side, F_base_amount, F_terms_amount, F_trade_date, F_value_date] @
       [\<lparr>sr_field_path = ''/payload/lifecycle_status'', sr_owner = OWNER_CONFIRMATION,
          sr_trusted_sources = [FPML_CONFIRMATION],
          sr_source_precedence = [FPML_CONFIRMATION, MOCK_LEGACY_BOOKING, FIX_TRADE_CAPTURE, FIX_EXECUTION],
          sr_secondary_sources = [MOCK_LEGACY_BOOKING, FIX_TRADE_CAPTURE, FIX_EXECUTION],
          sr_conflict_outcome = EMIT_BREAK_NO_SILENT_OVERWRITE\<rparr>] @
       map trade_field_rule [F_counterparty_id, F_book_id] @
       [\<lparr>sr_field_path = ''/payload/confirmation_status'', sr_owner = OWNER_CONFIRMATION,
          sr_trusted_sources = [FPML_CONFIRMATION], sr_source_precedence = [FPML_CONFIRMATION],
          sr_secondary_sources = [], sr_conflict_outcome = RETAIN_SOURCE_ONLY\<rparr>,
        \<lparr>sr_field_path = ''/payload/booking_status'', sr_owner = BOOKING_READ_BACK,
          sr_trusted_sources = [MOCK_LEGACY_BOOKING], sr_source_precedence = [MOCK_LEGACY_BOOKING],
          sr_secondary_sources = [], sr_conflict_outcome = RETAIN_SOURCE_ONLY\<rparr>,
        \<lparr>sr_field_path = ''/linkage/trade_id'', sr_owner = LINKAGE_RULE,
          sr_trusted_sources = booking_last, sr_source_precedence = booking_last,
          sr_secondary_sources = [], sr_conflict_outcome = CONFLICT_REQUIRE_LINKAGE_REVIEW\<rparr>]\<rparr>"

definition load_mvp_source_of_truth_policy :: "py_error + SourceOfTruthPolicy" where
  "load_mvp_source_of_truth_policy = mk_SourceOfTruthPolicy mvp_source_of_truth_policy"

definition policy_content_hash :: "runtime \<Rightarrow> SourceOfTruthPolicy \<Rightarrow> string" where
  "policy_content_hash rt p = sha256_tag rt (dumps (policy_json p))"

definition validate_policy :: "runtime \<Rightarrow> SourceOfTruthPolicy \<Rightarrow> py_error + unit" where
  "validate_policy rt p =
     (if sp_policy_version p \<noteq> ''1.0.0''
      then Inl (ValueError (''unsupported source-of-truth policy version: expected=1.0.0 received='' @ sp_policy_version p))
      else ebind load_mvp_source_of_truth_policy (\<lambda>approved.
        if policy_content_hash rt p \<noteq> policy_content_hash rt approved
        then Inl (ValueError ''source-of-truth policy content is not the packaged approved policy'')
        else Inr ()))"

section \<open>The locked source set\<close>

text \<open>\<open>_source_reference\<close>.\<close>

definition selection_reference :: "Observation \<Rightarrow> string \<times> ObservationKind \<times> SourceSystem \<times> string \<times> string" where
  "selection_reference ob =
     (ob_observation_id ob, ob_kind ob, ob_source_system ob, ob_source_version ob, ob_content_hash ob)"

definition version_number :: "Observation \<Rightarrow> int" where
  "version_number ob = int (nat_of_digits (ob_source_version ob))"

definition locked_key :: "Observation \<Rightarrow> string \<times> string \<times> string \<times> int \<times> string \<times> string" where
  "locked_key ob = (kind_str (ob_kind ob), source_system_str (ob_source_system ob), ob_source_business_key ob,
     version_number ob, ob_observation_id ob, ob_content_hash ob)"

definition scope_of :: "Observation \<Rightarrow> string \<times> string \<times> string" where
  "scope_of ob = (ob_tenant_id ob, ob_portfolio_id ob, ob_correlation_id ob)"

definition locked_source_set :: "runtime \<Rightarrow> Observation list \<Rightarrow> py_error + Observation list" where
  "locked_source_set rt observations =
     (if observations = [] then Inl (ValueError ''source_observations must not be empty'')
      else ebind (emap (check_hash rt) observations) (\<lambda>_.
        checked ([(has_dups (map ob_observation_id observations),
            ValueError ''source_observations observation IDs must be unique'')] @
          map (\<lambda>ob. (scope_of ob \<noteq> scope_of (hd observations),
            ValueError ''source_observations must remain inside one tenant/portfolio/correlation scope'')) (tl observations))
          (sort_key locked_key observations)))"

section \<open>Field selection\<close>

definition eligible_for_trade :: "Observation \<Rightarrow> string \<Rightarrow> bool" where
  "eligible_for_trade ob trade_id \<longleftrightarrow>
     ob_source_business_key ob = trade_id \<or> fx_source_trade_id (ob_payload ob) = trade_id"

definition candidate_key :: "Observation \<Rightarrow> int \<times> string \<times> string" where
  "candidate_key ob = (- version_number ob, ob_observation_id ob, ob_content_hash ob)"

fun by_precedence :: "SourceSystem list \<Rightarrow> Observation list \<Rightarrow> Observation option" where
  "by_precedence [] eligible = None"
| "by_precedence (system # systems) eligible =
     (let candidates = filter (\<lambda>ob. ob_source_system ob = system) eligible in
      if candidates = [] then by_precedence systems eligible
      else Some (hd (sort_key candidate_key candidates)))"

definition field_path_of :: "CanonicalField \<Rightarrow> string" where
  "field_path_of f = ''/payload/'' @ field_name f"

definition resolved_observation ::
    "CanonicalField \<Rightarrow> string \<Rightarrow> Observation list \<Rightarrow> SourceOfTruthPolicy \<Rightarrow> py_error + Observation" where
  "resolved_observation f trade_id sources policy =
     (case List.find (\<lambda>r. sr_field_path r = field_path_of f) (sp_field_rules policy) of
        None \<Rightarrow> Inl (ValueError (''source-of-truth policy has no rule for '' @ field_path_of f))
      | Some rule \<Rightarrow>
          (case by_precedence (sr_source_precedence rule) (filter (\<lambda>ob. eligible_for_trade ob trade_id) sources) of
             None \<Rightarrow> Inl (ValueError (''no policy-authorised source is available for canonical field '' @ field_path_of f))
           | Some ob \<Rightarrow> Inr ob))"

type_synonym FieldSelection = "(string \<times> Observation) list"

definition resolve_field_selection ::
    "runtime \<Rightarrow> string \<Rightarrow> Observation list \<Rightarrow> SourceOfTruthPolicy \<Rightarrow> py_error + FieldSelection" where
  "resolve_field_selection rt trade_id observations policy =
     ebind (validate_policy rt policy) (\<lambda>_.
     ebind (locked_source_set rt observations) (\<lambda>locked.
     emap (\<lambda>f. ebind (resolved_observation f trade_id locked policy) (\<lambda>ob. Inr (field_name f, ob))) CANONICAL_FIELD_NAMES))"

text \<open>\<open>selection[name]\<close>.\<close>

definition selected :: "FieldSelection \<Rightarrow> CanonicalField \<Rightarrow> Observation" where
  "selected selection f = the (map_of selection (field_name f))"

section \<open>The parts of the state\<close>

definition canonical_fields_from_selection :: "FieldSelection \<Rightarrow> py_error + CanonicalFields" where
  "canonical_fields_from_selection selection = (let payload = (\<lambda>f. ob_payload (selected selection f)) in
     mk_CanonicalFields \<lparr>
       cf_product_type = fx_product_type (payload F_product_type),
       cf_settlement_rule_version = fx_settlement_rule_version (payload F_settlement_rule_version),
       cf_base_currency = fx_base_currency (payload F_base_currency),
       cf_terms_currency = fx_terms_currency (payload F_terms_currency),
       cf_side = fx_side (payload F_side),
       cf_base_amount = fx_base_amount (payload F_base_amount),
       cf_terms_amount = fx_terms_amount (payload F_terms_amount),
       cf_quoted_rate = fx_quoted_rate (payload F_quoted_rate),
       cf_trade_date = fx_trade_date (payload F_trade_date),
       cf_value_date = fx_value_date (payload F_value_date),
       cf_lifecycle_status = fx_lifecycle_status (payload F_lifecycle_status),
       cf_counterparty_id = fx_counterparty_id (payload F_counterparty_id),
       cf_book_id = fx_book_id (payload F_book_id)\<rparr>)"

definition field_provenance_of :: "FieldSelection \<Rightarrow> SourceOfTruthPolicy \<Rightarrow> CanonicalField \<Rightarrow> FieldProvenance" where
  "field_provenance_of selection policy f = (let ob = selected selection f in \<lparr>
     fp_source_type = ob_kind ob, fp_source_system = ob_source_system ob,
     fp_source_tenant_id = ob_tenant_id ob, fp_source_portfolio_id = ob_portfolio_id ob,
     fp_source_observation_id = ob_observation_id ob, fp_source_observation_entity_version = ob_entity_version ob,
     fp_source_version = ob_source_version ob, fp_field_path = field_path_of f,
     fp_normalisation_rule_id = ''ts10-explicit-field-selection'', fp_normalisation_rule_version = ''1.0.0'',
     fp_resolution_rule_version = sp_policy_version policy,
     fp_observed_at = ob_event_time ob, fp_effective_at = ob_effective_time ob, fp_ingested_at = ob_ingest_time ob,
     fp_conflict_status =
       (case List.find (\<lambda>r. sr_field_path r = field_path_of f) (sp_field_rules policy) of
          Some rule \<Rightarrow> if ob_source_system ob \<in> set (sr_trusted_sources rule) then SELECTED else SECONDARY_SUPPORTING
        | None \<Rightarrow> SECONDARY_SUPPORTING)\<rparr>)"

definition field_provenance_map :: "FieldSelection \<Rightarrow> SourceOfTruthPolicy \<Rightarrow> py_error + FieldProvenanceMap" where
  "field_provenance_map selection policy = mk_FieldProvenanceMap (field_provenance_of selection policy)"

text \<open>\<open>_validate_consistent_observation_identity\<close>: the hash first seen of every identifier.\<close>

fun consistent_identity :: "runtime \<Rightarrow> (string \<times> string) list \<Rightarrow> Observation list \<Rightarrow> py_error + unit" where
  "consistent_identity rt seen [] = Inr ()"
| "consistent_identity rt seen (ob # obs) = ebind (check_hash rt ob) (\<lambda>_.
     case map_of seen (ob_observation_id ob) of
       None \<Rightarrow> consistent_identity rt ((ob_observation_id ob, ob_content_hash ob) # seen) obs
     | Some h \<Rightarrow>
         if h \<noteq> ob_content_hash ob
         then Inl (ValueError (''field_selection contains inconsistent envelopes for observation_id='' @ ob_observation_id ob))
         else consistent_identity rt seen obs)"

definition source_version_item :: "Observation \<Rightarrow> SourceVersionSetItem" where
  "source_version_item ob = \<lparr>
     si_observation_id = ob_observation_id ob, si_observation_kind = ob_kind ob, si_source_system = ob_source_system ob,
     si_source_tenant_id = ob_tenant_id ob, si_source_portfolio_id = ob_portfolio_id ob,
     si_source_version = ob_source_version ob, si_content_hash = ob_content_hash ob\<rparr>"

definition source_version_set :: "Observation list \<Rightarrow> py_error + SourceVersionSetItem list" where
  "source_version_set sources = emap (\<lambda>ob. mk_SourceVersionSetItem (source_version_item ob)) sources"

definition amount_json :: "DecimalAmount \<Rightarrow> json" where
  "amount_json x = JObj [(''currency'', JStr (da_currency x)), (''value'', JStr (da_value x)), (''scale'', JInt (da_scale x))]"

definition rate_json :: "DecimalRate \<Rightarrow> json" where
  "rate_json x = JObj [(''value'', JStr (dr_value x)), (''scale'', JInt (dr_scale x)),
     (''orientation'', JStr ''TERMS_CURRENCY_PER_BASE_CURRENCY'')]"

definition canonical_fields_json :: "CanonicalFields \<Rightarrow> json" where
  "canonical_fields_json s = JObj [
     (''product_type'', JStr (product_str (cf_product_type s))),
     (''settlement_rule_version'', JStr (cf_settlement_rule_version s)),
     (''base_currency'', JStr (cf_base_currency s)),
     (''terms_currency'', JStr (cf_terms_currency s)),
     (''side'', JStr (side_str (cf_side s))),
     (''base_amount'', amount_json (cf_base_amount s)),
     (''terms_amount'', amount_json (cf_terms_amount s)),
     (''quoted_rate'', rate_json (cf_quoted_rate s)),
     (''trade_date'', JStr (date_isoformat (cf_trade_date s))),
     (''value_date'', JStr (date_isoformat (cf_value_date s))),
     (''lifecycle_status'', JStr (lifecycle_str (cf_lifecycle_status s))),
     (''counterparty_id'', JStr (cf_counterparty_id s)),
     (''book_id'', JStr (cf_book_id s))]"

definition version_item_json :: "SourceVersionSetItem \<Rightarrow> json" where
  "version_item_json i = JObj [
     (''observation_id'', JStr (si_observation_id i)),
     (''observation_kind'', JStr (kind_str (si_observation_kind i))),
     (''source_system'', JStr (source_system_str (si_source_system i))),
     (''source_tenant_id'', JStr (si_source_tenant_id i)),
     (''source_portfolio_id'', JStr (si_source_portfolio_id i)),
     (''source_version'', JStr (si_source_version i)),
     (''content_hash'', JStr (si_content_hash i))]"

text \<open>\<open>_content_hash\<close>.\<close>

definition state_content_hash :: "runtime \<Rightarrow> CanonicalFields \<Rightarrow> SourceVersionSetItem list \<Rightarrow> string" where
  "state_content_hash rt state items = sha256_tag rt (dumps (JObj [
     (''state'', canonical_fields_json state), (''source_version_set'', JList (map version_item_json items))]))"

text \<open>\<open>max(...)\<close> of the ingest times: the first of the latest.\<close>

fun latest :: "datetime \<Rightarrow> datetime list \<Rightarrow> datetime" where
  "latest t [] = t"
| "latest t (u # us) = latest (if instant t < instant u then u else t) us"

definition source_watermark_of :: "Observation list \<Rightarrow> datetime" where
  "source_watermark_of sources = latest (ob_ingest_time (hd sources)) (map ob_ingest_time (tl sources))"

section \<open>Assembly\<close>

definition field_keys :: "string list" where
  "field_keys = map field_name CANONICAL_FIELD_NAMES"

definition selection_error :: "CanonicalField \<Rightarrow> py_error" where
  "selection_error f = ValueError (''source-of-truth selection is not authorised: field='' @ field_name f)"

definition assemble_canonical_state ::
    "runtime \<Rightarrow> string \<Rightarrow> int \<Rightarrow> FieldSelection \<Rightarrow> Observation list \<Rightarrow> SourceOfTruthPolicy \<Rightarrow> string \<Rightarrow> Actor \<Rightarrow>
       py_error + CanonicalTradeState" where
  "assemble_canonical_state rt trade_id canonical_state_version selection source_observations policy correlation_id actor =
     ebind (checked [
       (\<not> set field_keys \<subseteq> set (map fst selection),
          KeyError (''field_selection is missing required canonical fields: '' @
            py_list_str (sorted_minus field_keys (map fst selection)))),
       (\<not> set (map fst selection) \<subseteq> set field_keys,
          KeyError (''field_selection has unrecognised canonical fields: '' @
            py_list_str (sorted_minus (map fst selection) field_keys)))] ()) (\<lambda>_.
     ebind (validate_policy rt policy) (\<lambda>_.
     ebind (locked_source_set rt source_observations) (\<lambda>locked.
     ebind (consistent_identity rt [] (map snd selection)) (\<lambda>_.
     ebind (resolve_field_selection rt trade_id locked policy) (\<lambda>expected.
     ebind (checked (map (\<lambda>f. (selection_reference (selected selection f) \<noteq> selection_reference (selected expected f),
         selection_error f)) CANONICAL_FIELD_NAMES) ()) (\<lambda>_.
     ebind (canonical_fields_from_selection expected) (\<lambda>state.
     ebind (field_provenance_map expected policy) (\<lambda>field_provenance.
     ebind (source_version_set locked) (\<lambda>items.
     if correlation_id \<noteq> ob_correlation_id (hd locked)
     then Inl (ValueError ''canonical correlation_id must match the locked source observation set'')
     else mk_CanonicalTradeState \<lparr>
       cs_trade_id = trade_id, cs_entity_version = 1, cs_canonical_state_version = canonical_state_version,
       cs_tenant_id = ob_tenant_id (hd locked), cs_portfolio_id = ob_portfolio_id (hd locked),
       cs_correlation_id = correlation_id, cs_content_hash = state_content_hash rt state items,
       cs_as_of_time = source_watermark_of locked, cs_source_watermark = source_watermark_of locked,
       cs_source_version_set = items, cs_actor = actor, cs_state = state,
       cs_field_provenance = field_provenance\<rparr>)))))))))"

lemma mvp_policy_accepted: "load_mvp_source_of_truth_policy = Inr mvp_source_of_truth_policy"
  unfolding load_mvp_source_of_truth_policy_def by code_simp

section \<open>Lemmas\<close>

lemma validate_policy_mvp [simp]: "validate_policy rt mvp_source_of_truth_policy = Inr ()"
  by (simp add: validate_policy_def mvp_policy_accepted) (simp add: mvp_source_of_truth_policy_def)

lemma locked_source_set_Inr:
  assumes "locked_source_set rt obs = Inr l"
  shows "l = sort_key locked_key obs" and "obs \<noteq> []" and "\<And>ob. ob \<in> set obs \<Longrightarrow> hash_right rt ob"
    and "distinct (map ob_observation_id obs)" and "\<And>a b. a \<in> set obs \<Longrightarrow> b \<in> set obs \<Longrightarrow> scope_of a = scope_of b"
proof -
  have e: "obs \<noteq> []" "\<exists>hs. emap (check_hash rt) obs = Inr hs"
    and c: "l = sort_key locked_key obs" "distinct (map ob_observation_id obs)"
      "\<And>ob. ob \<in> set (tl obs) \<Longrightarrow> scope_of ob = scope_of (hd obs)"
    using assms by (auto simp: locked_source_set_def result_simps check_simps first_error_map_None split: if_splits)
  show "l = sort_key locked_key obs" "obs \<noteq> []" "distinct (map ob_observation_id obs)" using e c by simp_all
  show "hash_right rt ob" if "ob \<in> set obs" for ob
    using e(2) emap_Inr_total [OF _ that] unfolding hash_right_iff by blast
  have "scope_of a = scope_of (hd obs)" if "a \<in> set obs" for a
    using that c(3) e(1) by (cases obs) auto
  then show "\<And>a b. a \<in> set obs \<Longrightarrow> b \<in> set obs \<Longrightarrow> scope_of a = scope_of b" by metis
qed

lemma locked_source_set_returns:
  assumes "obs \<noteq> []" "\<And>ob. ob \<in> set obs \<Longrightarrow> hash_right rt ob" "distinct (map ob_observation_id obs)"
    "\<And>a b. a \<in> set obs \<Longrightarrow> b \<in> set obs \<Longrightarrow> scope_of a = scope_of b"
  shows "locked_source_set rt obs = Inr (sort_key locked_key obs)"
proof -
  have "\<exists>hs. emap (check_hash rt) obs = Inr hs"
    by (rule emap_returns) (use assms(2) in \<open>simp add: hash_right_iff\<close>)
  moreover have "scope_of ob = scope_of (hd obs)" if "ob \<in> set (tl obs)" for ob
    using assms(1,4) that by (cases obs) auto
  ultimately show ?thesis using assms(1,3)
    by (auto simp: locked_source_set_def check_simps first_error_map_None)
qed

lemma locked_again:
  assumes "locked_source_set rt obs = Inr l"
  shows "locked_source_set rt l = Inr l"
proof -
  note L = locked_source_set_Inr [OF assms]
  have set: "set l = set obs" by (simp add: L(1))
  have d: "distinct (map ob_observation_id l)"
  proof -
    have "mset (map ob_observation_id l) = mset (map ob_observation_id obs)" by (simp only: mset_map L(1) mset_sort)
    then show ?thesis using L(4) by (metis mset_eq_imp_distinct_iff)
  qed
  have "sort_key locked_key l = l" unfolding L(1) by (rule sort_key_id_if_sorted) simp
  then show ?thesis
    using locked_source_set_returns [of l rt] L(2,3,5) d set by (metis set_empty)
qed

text \<open>What the walk over the precedence has to find: a source of the first system in the precedence that has an
  eligible one, of the highest version number, and among those with the least identifier (and hash).\<close>

definition preferred :: "SourceSystem list \<Rightarrow> Observation list \<Rightarrow> Observation \<Rightarrow> bool" where
  "preferred systems eligible ob \<longleftrightarrow> ob \<in> set eligible \<and>
     (\<exists>pre post. systems = pre @ ob_source_system ob # post \<and> (\<forall>x \<in> set eligible. ob_source_system x \<notin> set pre)) \<and>
     (\<forall>x \<in> set eligible. ob_source_system x = ob_source_system ob \<longrightarrow>
        nat_of_digits (ob_source_version x) < nat_of_digits (ob_source_version ob) \<or>
        nat_of_digits (ob_source_version x) = nat_of_digits (ob_source_version ob) \<and>
        (ob_observation_id ob, ob_content_hash ob) \<le> (ob_observation_id x, ob_content_hash x))"

lemma candidate_key_le:
  "candidate_key ob \<le> candidate_key x \<longleftrightarrow>
     nat_of_digits (ob_source_version x) < nat_of_digits (ob_source_version ob) \<or>
     nat_of_digits (ob_source_version x) = nat_of_digits (ob_source_version ob) \<and>
     (ob_observation_id ob, ob_content_hash ob) \<le> (ob_observation_id x, ob_content_hash x)"
  by (auto simp: candidate_key_def version_number_def)

lemma by_precedence_Some:
  "by_precedence systems eligible = Some ob \<Longrightarrow> preferred systems eligible ob"
proof (induction systems)
  case (Cons s systems)
  let ?c = "filter (\<lambda>ob. ob_source_system ob = s) eligible"
  show ?case
  proof (cases "?c = []")
    case True
    then have none: "\<forall>x \<in> set eligible. ob_source_system x \<noteq> s" by (simp add: filter_empty_conv)
    have "preferred systems eligible ob" using Cons True by (simp add: Let_def)
    then obtain pre post where "systems = pre @ ob_source_system ob # post"
      "\<forall>x \<in> set eligible. ob_source_system x \<notin> set pre" and p: "ob \<in> set eligible"
      "\<forall>x \<in> set eligible. ob_source_system x = ob_source_system ob \<longrightarrow> candidate_key ob \<le> candidate_key x"
      unfolding preferred_def candidate_key_le by blast
    then have "s # systems = (s # pre) @ ob_source_system ob # post"
      "\<forall>x \<in> set eligible. ob_source_system x \<notin> set (s # pre)" using none by auto
    then show ?thesis unfolding preferred_def candidate_key_le [symmetric] using p by blast
  next
    case False
    then have ob: "ob = hd (sort_key candidate_key ?c)" using Cons.prems by (simp add: Let_def)
    have "ob \<in> set ?c" unfolding ob by (rule hd_sort_key_mem [OF False])
    moreover have "candidate_key ob \<le> candidate_key x" if "x \<in> set ?c" for x
      unfolding ob by (rule hd_sort_key_min [OF False that])
    ultimately have "ob \<in> set eligible" "ob_source_system ob = s"
      "\<forall>x \<in> set eligible. ob_source_system x = s \<longrightarrow> candidate_key ob \<le> candidate_key x" by auto
    then show ?thesis unfolding preferred_def candidate_key_le [symmetric] by (intro conjI exI [of _ "[]"] exI [of _ systems]) auto
  qed
qed simp

lemma by_precedence_None: "by_precedence systems eligible = None \<longleftrightarrow> (\<forall>x \<in> set eligible. ob_source_system x \<notin> set systems)"
  by (induction systems) (auto simp: Let_def filter_empty_conv)

definition eligible_sources :: "string \<Rightarrow> Observation list \<Rightarrow> Observation list" where
  "eligible_sources trade_id sources = filter (\<lambda>ob. eligible_for_trade ob trade_id) sources"

lemma resolved_observation_Inr:
  assumes "resolved_observation f trade_id sources policy = Inr ob"
  obtains rule where "rule \<in> set (sp_field_rules policy)" "sr_field_path rule = field_path_of f"
    "by_precedence (sr_source_precedence rule) (eligible_sources trade_id sources) = Some ob"
  using assms by (auto simp: resolved_observation_def eligible_sources_def split: option.splits dest: find_Some_D)

lemma field_name_inj [simp]: "field_name f = field_name g \<longleftrightarrow> f = g"
  by (cases f; cases g) simp_all

lemma resolve_field_selection_Inr:
  assumes "resolve_field_selection rt trade_id obs policy = Inr selection"
  obtains l where "validate_policy rt policy = Inr ()" "locked_source_set rt obs = Inr l" "map fst selection = field_keys"
    "\<And>f. resolved_observation f trade_id l policy = Inr (selected selection f)"
proof -
  obtain l where l: "validate_policy rt policy = Inr ()" "locked_source_set rt obs = Inr l"
    and m: "emap (\<lambda>f. ebind (resolved_observation f trade_id l policy) (\<lambda>ob. Inr (field_name f, ob))) CANONICAL_FIELD_NAMES = Inr selection"
    using assms by (auto simp: resolve_field_selection_def result_simps)
  have g: "map fst sel = map field_name fs \<and> (\<forall>f \<in> set fs. \<exists>ob. resolved_observation f trade_id l policy = Inr ob \<and> map_of sel (field_name f) = Some ob)"
    if "emap (\<lambda>f. ebind (resolved_observation f trade_id l policy) (\<lambda>ob. Inr (field_name f, ob))) fs = Inr sel" for fs sel
    using that by (induction fs arbitrary: sel) (fastforce simp: result_simps)+
  show thesis
  proof (rule that [OF l])
    show "map fst selection = field_keys" using g [OF m] by (simp add: field_keys_def)
    show "resolved_observation f trade_id l policy = Inr (selected selection f)" for f
      using g [OF m] canonical_field_listed [of f] by (auto simp: selected_def)
  qed
qed

fun same_field :: "CanonicalField \<Rightarrow> CanonicalFields \<Rightarrow> FxPayload \<Rightarrow> bool" where
  "same_field F_product_type s p = (cf_product_type s = fx_product_type p)"
| "same_field F_settlement_rule_version s p = (cf_settlement_rule_version s = fx_settlement_rule_version p)"
| "same_field F_base_currency s p = (cf_base_currency s = fx_base_currency p)"
| "same_field F_terms_currency s p = (cf_terms_currency s = fx_terms_currency p)"
| "same_field F_side s p = (cf_side s = fx_side p)"
| "same_field F_base_amount s p = (cf_base_amount s = fx_base_amount p)"
| "same_field F_terms_amount s p = (cf_terms_amount s = fx_terms_amount p)"
| "same_field F_quoted_rate s p = (cf_quoted_rate s = fx_quoted_rate p)"
| "same_field F_trade_date s p = (cf_trade_date s = fx_trade_date p)"
| "same_field F_value_date s p = (cf_value_date s = fx_value_date p)"
| "same_field F_lifecycle_status s p = (cf_lifecycle_status s = fx_lifecycle_status p)"
| "same_field F_counterparty_id s p = (cf_counterparty_id s = fx_counterparty_id p)"
| "same_field F_book_id s p = (cf_book_id s = fx_book_id p)"

lemma mk_CanonicalFields_same: "mk_CanonicalFields x = Inr s \<Longrightarrow> s = x"
  by (auto simp: mk_CanonicalFields_def result_simps)

lemma mk_CanonicalTradeState_same: "mk_CanonicalTradeState x = Inr s \<Longrightarrow> s = x"
  by (auto simp: mk_CanonicalTradeState_def result_simps)

lemma fields_from_selection:
  "canonical_fields_from_selection selection = Inr state \<Longrightarrow> same_field f state (ob_payload (selected selection f))"
  by (cases f) (auto simp: canonical_fields_from_selection_def Let_def dest: mk_CanonicalFields_same)

lemma emap_items:
  "emap (\<lambda>ob. mk_SourceVersionSetItem (source_version_item ob)) obs = Inr items \<Longrightarrow> items = map source_version_item obs"
  by (induction obs arbitrary: items) (auto simp: result_simps mk_SourceVersionSetItem_def check_simps)

lemma preferred_set: "set xs = set ys \<Longrightarrow> preferred systems xs ob \<longleftrightarrow> preferred systems ys ob"
  by (simp add: preferred_def)

lemma assemble_parts:
  assumes "assemble_canonical_state rt trade_id v selection obs policy corr actor = Inr s"
  obtains l expected state provenance where "locked_source_set rt obs = Inr l"
    "resolve_field_selection rt trade_id l policy = Inr expected"
    "canonical_fields_from_selection expected = Inr state" "provenance = field_provenance_of expected policy"
    "mk_CanonicalTradeState s = Inr s" "cs_trade_id s = trade_id" "cs_correlation_id s = corr"
    "cs_source_version_set s = map source_version_item l" "cs_state s = state" "cs_field_provenance s = provenance"
    "consistent_identity rt [] (map snd selection) = Inr ()" "set (map fst selection) = set field_keys"
    "\<And>f. selection_reference (selected selection f) = selection_reference (selected expected f)"
    "corr = ob_correlation_id (hd l)"
proof -
  obtain l expected state provenance items where keys: "set (map fst selection) = set field_keys"
    and p: "locked_source_set rt obs = Inr l"
    "resolve_field_selection rt trade_id l policy = Inr expected"
    "canonical_fields_from_selection expected = Inr state" "field_provenance_map expected policy = Inr provenance"
    "source_version_set l = Inr items" "consistent_identity rt [] (map snd selection) = Inr ()"
    "first_error (map (\<lambda>f. (selection_reference (selected selection f) \<noteq> selection_reference (selected expected f),
         selection_error f)) CANONICAL_FIELD_NAMES) = None" "corr = ob_correlation_id (hd l)"
    and mk: "mk_CanonicalTradeState \<lparr>
       cs_trade_id = trade_id, cs_entity_version = 1, cs_canonical_state_version = v,
       cs_tenant_id = ob_tenant_id (hd l), cs_portfolio_id = ob_portfolio_id (hd l),
       cs_correlation_id = corr, cs_content_hash = state_content_hash rt state items,
       cs_as_of_time = source_watermark_of l, cs_source_watermark = source_watermark_of l,
       cs_source_version_set = items, cs_actor = actor, cs_state = state,
       cs_field_provenance = provenance\<rparr> = Inr s"
    using assms by (auto simp: assemble_canonical_state_def result_simps check_simps simp del: set_map split: if_splits)
  have items: "items = map source_version_item l" using p(5) unfolding source_version_set_def by (rule emap_items)
  have prov: "provenance = field_provenance_of expected policy"
    using p(4) by (auto simp: field_provenance_map_def mk_FieldProvenanceMap_def result_simps check_simps)
  show thesis
    by (rule that [OF p(1,2,3) prov])
      (use mk_CanonicalTradeState_same [OF mk] mk p(6,8) p(7) [unfolded first_error_map_None] keys canonical_field_listed items in simp_all)
qed

section \<open>Properties\<close>

lemma consistent_identity_right: "consistent_identity rt seen obs = Inr () \<Longrightarrow> ob \<in> set obs \<Longrightarrow> hash_right rt ob"
  by (induction rt seen obs rule: consistent_identity.induct)
    (auto simp: result_simps hash_right_iff split: option.splits if_splits)

lemma selection_of_field:
  assumes "set (map fst selection) = set field_keys"
  shows "selected selection f \<in> set (map snd selection)"
proof -
  have "field_name f \<in> set (map fst selection)" using assms canonical_field_listed [of f] by (simp add: field_keys_def)
  then show ?thesis
    unfolding selected_def by (metis (no_types, lifting) image_iff list.set_map map_of_SomeD map_of_eq_None_iff option.collapse snd_conv)
qed

text \<open>C19: an assembled canonical state passes its contract and locks the whole source set, and every one of
  its fields is the value that the observation named in the field's provenance reports, which is the policy's
  choice: no eligible source comes from a system with a higher precedence for the field, and none of the
  same system is a later version. The caller asked for exactly this: its selection has the thirteen canonical
  fields, and the observation that it selects for a field has a right fingerprint and the identifier, kind, source
  system, version and fingerprint of that choice.\<close>

theorem assembled_state_is_authoritative:
  assumes "assemble_canonical_state rt trade_id v selection sources policy corr actor = Inr s"
  shows "mk_CanonicalTradeState s = Inr s \<and> cs_trade_id s = trade_id \<and>
    mset (cs_source_version_set s) = mset (map source_version_item sources) \<and>
    set (map fst selection) = set (map field_name CANONICAL_FIELD_NAMES) \<and>
    (\<forall>f. \<exists>ob rule. rule \<in> set (sp_field_rules policy) \<and> sr_field_path rule = ''/payload/'' @ field_name f \<and>
       preferred (sr_source_precedence rule) (eligible_sources trade_id sources) ob \<and>
       hash_right rt (selected selection f) \<and>
       ob_observation_id (selected selection f) = ob_observation_id ob \<and>
       ob_kind (selected selection f) = ob_kind ob \<and>
       ob_source_system (selected selection f) = ob_source_system ob \<and>
       ob_source_version (selected selection f) = ob_source_version ob \<and>
       ob_content_hash (selected selection f) = ob_content_hash ob \<and>
       same_field f (cs_state s) (ob_payload ob) \<and>
       fp_source_observation_id (cs_field_provenance s f) = ob_observation_id ob \<and>
       fp_source_system (cs_field_provenance s f) = ob_source_system ob \<and>
       fp_source_version (cs_field_provenance s f) = ob_source_version ob)"
proof (rule assemble_parts [OF assms])
  fix l expected state provenance
  assume l: "locked_source_set rt sources = Inr l" and r: "resolve_field_selection rt trade_id l policy = Inr expected"
    and st: "canonical_fields_from_selection expected = Inr state" and pr: "provenance = field_provenance_of expected policy"
    and s: "mk_CanonicalTradeState s = Inr s" "cs_trade_id s = trade_id" "cs_source_version_set s = map source_version_item l"
      "cs_state s = state" "cs_field_provenance s = provenance"
    and sel: "consistent_identity rt [] (map snd selection) = Inr ()" "set (map fst selection) = set field_keys"
      "\<And>f. selection_reference (selected selection f) = selection_reference (selected expected f)"
  have asked: "hash_right rt (selected selection f) \<and>
      ob_observation_id (selected selection f) = ob_observation_id (selected expected f) \<and>
      ob_kind (selected selection f) = ob_kind (selected expected f) \<and>
      ob_source_system (selected selection f) = ob_source_system (selected expected f) \<and>
      ob_source_version (selected selection f) = ob_source_version (selected expected f) \<and>
      ob_content_hash (selected selection f) = ob_content_hash (selected expected f)" for f
    using sel(3) [of f] consistent_identity_right [OF sel(1) selection_of_field [OF sel(2)]]
    by (simp add: selection_reference_def)
  have lock: "l = sort_key locked_key sources" by (rule locked_source_set_Inr [OF l])
  obtain l' where l': "locked_source_set rt l = Inr l'" "\<And>f. resolved_observation f trade_id l' policy = Inr (selected expected f)"
    by (rule resolve_field_selection_Inr [OF r]) (rule that)
  have "l' = l" using l'(1) locked_again [OF l] by simp
  have f: "\<exists>rule. rule \<in> set (sp_field_rules policy) \<and> sr_field_path rule = field_path_of f \<and>
      preferred (sr_source_precedence rule) (eligible_sources trade_id sources) (selected expected f)" for f
  proof (rule resolved_observation_Inr [OF l'(2) [of f]])
    fix rule assume a: "rule \<in> set (sp_field_rules policy)" "sr_field_path rule = field_path_of f"
      "by_precedence (sr_source_precedence rule) (eligible_sources trade_id l') = Some (selected expected f)"
    have "set (eligible_sources trade_id l') = set (eligible_sources trade_id sources)"
      by (simp add: eligible_sources_def \<open>l' = l\<close> lock)
    then have "preferred (sr_source_precedence rule) (eligible_sources trade_id sources) (selected expected f)"
      using by_precedence_Some [OF a(3)] preferred_set by metis
    then show ?thesis using a by blast
  qed
  have "mset (cs_source_version_set s) = mset (map source_version_item sources)"
    by (simp only: s(3) lock mset_map mset_sort)
  moreover have "same_field f (cs_state s) (ob_payload (selected expected f)) \<and>
      fp_source_observation_id (cs_field_provenance s f) = ob_observation_id (selected expected f) \<and>
      fp_source_system (cs_field_provenance s f) = ob_source_system (selected expected f) \<and>
      fp_source_version (cs_field_provenance s f) = ob_source_version (selected expected f)" for f
    using fields_from_selection [OF st] by (simp add: s pr field_provenance_of_def Let_def)
  ultimately show ?thesis using s(1,2) f asked sel(2) unfolding field_path_of_def field_keys_def by blast
qed

section \<open>What the packaged policy selects\<close>

text \<open>The contract of a source set for a trade: accepted observations with right fingerprints and different
  identifiers in one scope, one of which belongs to the trade.\<close>

definition sources_ok :: "runtime \<Rightarrow> string \<Rightarrow> Observation list \<Rightarrow> bool" where
  "sources_ok rt trade_id sources \<longleftrightarrow>
     (\<forall>ob \<in> set sources. validate_observation ob = Inr ob \<and> hash_right rt ob) \<and>
     distinct (map ob_observation_id sources) \<and>
     (\<forall>a \<in> set sources. \<forall>b \<in> set sources. scope_of a = scope_of b) \<and>
     (\<exists>ob \<in> set sources. eligible_for_trade ob trade_id)"

definition lifecycle_precedence :: "SourceSystem list" where
  "lifecycle_precedence = [FPML_CONFIRMATION, MOCK_LEGACY_BOOKING, FIX_TRADE_CAPTURE, FIX_EXECUTION]"

definition mvp_precedence :: "CanonicalField \<Rightarrow> SourceSystem list" where
  "mvp_precedence f = (if f = F_lifecycle_status then lifecycle_precedence else booking_last)"

text \<open>The choice of the packaged policy.\<close>

definition mvp_choice :: "string \<Rightarrow> Observation list \<Rightarrow> CanonicalField \<Rightarrow> Observation" where
  "mvp_choice trade_id sources f =
     the (by_precedence (mvp_precedence f) (eligible_sources trade_id (sort_key locked_key sources)))"

lemma every_system: "s \<in> set booking_last" "s \<in> set lifecycle_precedence" "s \<in> set (mvp_precedence f)"
  by (cases s; simp add: booking_last_def lifecycle_precedence_def mvp_precedence_def)+

lemma field_path_inj: "field_path_of f = field_path_of g \<longleftrightarrow> f = g"
  by (simp add: field_path_of_def)

lemma trade_rule_fields: "sr_field_path (trade_field_rule f) = field_path_of f" "sr_source_precedence (trade_field_rule f) = booking_last"
  by (simp_all add: trade_field_rule_def field_path_of_def)

lemma lifecycle_path: "''/payload/lifecycle_status'' = field_path_of F_lifecycle_status"
  by (simp add: field_path_of_def)

lemma mvp_rule_of:
  obtains rule where "List.find (\<lambda>r. sr_field_path r = field_path_of f) (sp_field_rules mvp_source_of_truth_policy) = Some rule"
    "sr_source_precedence rule = mvp_precedence f"
proof -
  have "map_option sr_source_precedence (List.find (\<lambda>r. sr_field_path r = field_path_of f)
      (sp_field_rules mvp_source_of_truth_policy)) = Some (mvp_precedence f)"
    unfolding mvp_source_of_truth_policy_def lifecycle_path SourceOfTruthPolicy.simps mvp_precedence_def
    by (cases f) (simp_all only: list.map append.simps find.simps trade_rule_fields field_path_inj if_True if_False
      simp_thms CanonicalField.distinct SourceOfTruthFieldRule.simps option.map lifecycle_precedence_def)
  then show thesis using that by auto
qed

lemma resolved_mvp:
  "resolved_observation f trade_id sources mvp_source_of_truth_policy =
     (case by_precedence (mvp_precedence f) (eligible_sources trade_id sources) of
        None \<Rightarrow> Inl (ValueError (''no policy-authorised source is available for canonical field '' @ field_path_of f))
      | Some ob \<Rightarrow> Inr ob)"
proof (rule mvp_rule_of [of f])
  fix rule assume "List.find (\<lambda>r. sr_field_path r = field_path_of f) (sp_field_rules mvp_source_of_truth_policy) = Some rule"
    "sr_source_precedence rule = mvp_precedence f"
  then show ?thesis by (simp add: resolved_observation_def eligible_sources_def)
qed

lemma sources_locked:
  assumes "sources_ok rt trade_id sources"
  shows "locked_source_set rt sources = Inr (sort_key locked_key sources)"
    and "locked_source_set rt (sort_key locked_key sources) = Inr (sort_key locked_key sources)"
proof -
  show l: "locked_source_set rt sources = Inr (sort_key locked_key sources)"
  proof (rule locked_source_set_returns)
    show "sources \<noteq> []" using assms unfolding sources_ok_def by (metis empty_iff empty_set)
  qed (use assms [unfolded sources_ok_def] in blast)+
  show "locked_source_set rt (sort_key locked_key sources) = Inr (sort_key locked_key sources)" by (rule locked_again [OF l])
qed

lemma mvp_choice_made:
  assumes "sources_ok rt trade_id sources"
  shows "by_precedence (mvp_precedence f) (eligible_sources trade_id (sort_key locked_key sources)) = Some (mvp_choice trade_id sources f)"
    and "mvp_choice trade_id sources f \<in> set sources"
proof -
  let ?e = "eligible_sources trade_id (sort_key locked_key sources)"
  have "\<exists>ob \<in> set ?e. ob_source_system ob \<in> set (mvp_precedence f)"
    using assms every_system(3) by (auto simp: sources_ok_def eligible_sources_def)
  then obtain ob where ob: "by_precedence (mvp_precedence f) ?e = Some ob" using by_precedence_None by fastforce
  then show b: "by_precedence (mvp_precedence f) ?e = Some (mvp_choice trade_id sources f)" by (simp add: mvp_choice_def)
  show "mvp_choice trade_id sources f \<in> set sources"
    using by_precedence_Some [OF b] by (simp add: preferred_def eligible_sources_def)
qed

lemma mvp_choice_trade: "f \<noteq> F_lifecycle_status \<Longrightarrow> mvp_choice trade_id sources f = mvp_choice trade_id sources F_side"
  by (simp add: mvp_choice_def mvp_precedence_def)

definition mvp_selection :: "string \<Rightarrow> Observation list \<Rightarrow> FieldSelection" where
  "mvp_selection trade_id sources = map (\<lambda>f. (field_name f, mvp_choice trade_id sources f)) CANONICAL_FIELD_NAMES"

lemma selected_mvp [simp]: "selected (mvp_selection trade_id sources) f = mvp_choice trade_id sources f"
proof -
  have "map_of (map (\<lambda>f. (field_name f, g f)) fs) (field_name f) = Some (g f)" if "f \<in> set fs" for fs and g :: "CanonicalField \<Rightarrow> Observation"
    using that by (induction fs) auto
  then show ?thesis using canonical_field_listed [of f] by (simp add: selected_def mvp_selection_def)
qed

lemma resolve_mvp:
  assumes "sources_ok rt trade_id sources"
  shows "resolve_field_selection rt trade_id (sort_key locked_key sources) mvp_source_of_truth_policy =
    Inr (mvp_selection trade_id sources)"
    and "resolve_field_selection rt trade_id sources mvp_source_of_truth_policy = Inr (mvp_selection trade_id sources)"
proof -
  have "emap (\<lambda>f. ebind (resolved_observation f trade_id (sort_key locked_key sources) mvp_source_of_truth_policy)
      (\<lambda>ob. Inr (field_name f, ob))) CANONICAL_FIELD_NAMES = Inr (mvp_selection trade_id sources)"
    unfolding mvp_selection_def
    by (rule emap_total) (simp add: resolved_mvp mvp_choice_made(1) [OF assms])
  then show "resolve_field_selection rt trade_id (sort_key locked_key sources) mvp_source_of_truth_policy =
      Inr (mvp_selection trade_id sources)"
    and "resolve_field_selection rt trade_id sources mvp_source_of_truth_policy = Inr (mvp_selection trade_id sources)"
    using sources_locked [OF assms] by (simp_all add: resolve_field_selection_def)
qed

lemma accepted_identifiers:
  assumes "validate_observation ob = Inr x"
  shows "is_identifier (ob_observation_id ob)" "is_tenant_id (ob_tenant_id ob)" "is_portfolio_id (ob_portfolio_id ob)"
    "is_correlation_id (ob_correlation_id ob)" "is_source_version (ob_source_version ob)" "is_sha256_hash (ob_content_hash ob)"
    "ob_entity_version ob = 1" "aware (ob_event_time ob)" "aware (ob_effective_time ob)" "aware (ob_ingest_time ob)"
  using validate_observation_Inr(2,6) [OF assms]
  by (auto simp: Observation_fields_def validate_time_and_supersession_def check_simps result_simps)

lemma item_accepted:
  assumes "validate_observation ob = Inr x"
  shows "mk_SourceVersionSetItem (source_version_item ob) = Inr (source_version_item ob)"
  using accepted_identifiers [OF assms]
  by (simp add: mk_SourceVersionSetItem_def source_version_item_def check_simps ob_source_system_def)

lemma provenance_accepted:
  assumes "validate_observation (selected selection f) = Inr x" "is_semantic_version (sp_policy_version policy)"
  shows "mk_FieldProvenance (field_provenance_of selection policy f) = Inr (field_provenance_of selection policy f)"
proof -
  have "is_field_path (field_path_of f)"
    unfolding field_path_of_def by (cases f) (simp_all only: field_name.simps, code_simp+)
  moreover have "is_identifier ''ts10-explicit-field-selection''" "is_semantic_version ''1.0.0''" by code_simp+
  ultimately show ?thesis using accepted_identifiers [OF assms(1)] assms(2)
    by (simp add: mk_FieldProvenance_def field_provenance_of_def Let_def check_simps ob_source_system_def)
qed

lemma latest_mem: "latest t us \<in> set (t # us)"
proof (induction us arbitrary: t)
  case (Cons a us)
  show ?case using Cons [of a] Cons [of t] by auto
qed simp

lemma latest_max: "\<forall>u \<in> set (t # us). instant u \<le> instant (latest t us)"
proof (induction us arbitrary: t)
  case (Cons a us)
  define m where "m = (if instant t < instant a then a else t)"
  have "instant t \<le> instant m" "instant a \<le> instant m" by (auto simp: m_def)
  moreover have "\<forall>u \<in> set (m # us). instant u \<le> instant (latest m us)" by (rule Cons.IH)
  ultimately show ?case unfolding latest.simps m_def [symmetric] by fastforce
qed simp

lemma watermark_max:
  assumes "ob \<in> set sources"
  shows "instant (ob_ingest_time ob) \<le> instant (source_watermark_of sources)"
    and "\<exists>x \<in> set sources. source_watermark_of sources = ob_ingest_time x"
proof -
  obtain a as where s: "sources = a # as" using assms by (cases sources) auto
  show "instant (ob_ingest_time ob) \<le> instant (source_watermark_of sources)"
    unfolding source_watermark_of_def s list.sel using latest_max [of "ob_ingest_time a" "map ob_ingest_time as"] assms s by auto
  show "\<exists>x \<in> set sources. source_watermark_of sources = ob_ingest_time x"
    using latest_mem [of "ob_ingest_time a" "map ob_ingest_time as"] by (auto simp: source_watermark_of_def s)
qed

lemma mvp_fields_accepted:
  assumes "sources_ok rt trade_id sources"
  obtains state where "canonical_fields_from_selection (mvp_selection trade_id sources) = Inr state"
    "mk_CanonicalFields state = Inr state"
proof -
  let ?t = "mvp_choice trade_id sources F_side"
  have v: "validate_observation ?t = Inr ?t" using assms mvp_choice_made(2) [OF assms] by (simp add: sources_ok_def)
  note c = mvp_choice_trade [of F_product_type] mvp_choice_trade [of F_settlement_rule_version] mvp_choice_trade [of F_base_currency]
    mvp_choice_trade [of F_terms_currency] mvp_choice_trade [of F_base_amount] mvp_choice_trade [of F_terms_amount]
    mvp_choice_trade [of F_quoted_rate] mvp_choice_trade [of F_trade_date] mvp_choice_trade [of F_value_date]
    mvp_choice_trade [of F_counterparty_id] mvp_choice_trade [of F_book_id]
  have f: "FxPayload_fields (ob_payload ?t) = Inr ()" "validate_currency_and_dates (ob_payload ?t) = Inr ()"
    using validate_observation_Inr(3,4) [OF v] by simp_all
  define p where "p = ob_payload ?t"
  define state where "state = \<lparr>
     cf_product_type = fx_product_type p, cf_settlement_rule_version = fx_settlement_rule_version p,
     cf_base_currency = fx_base_currency p, cf_terms_currency = fx_terms_currency p, cf_side = fx_side p,
     cf_base_amount = fx_base_amount p, cf_terms_amount = fx_terms_amount p, cf_quoted_rate = fx_quoted_rate p,
     cf_trade_date = fx_trade_date p, cf_value_date = fx_value_date p,
     cf_lifecycle_status = fx_lifecycle_status (ob_payload (mvp_choice trade_id sources F_lifecycle_status)),
     cf_counterparty_id = fx_counterparty_id p, cf_book_id = fx_book_id p\<rparr>"
  have state: "canonical_fields_from_selection (mvp_selection trade_id sources) = mk_CanonicalFields state"
    by (simp add: canonical_fields_from_selection_def Let_def c state_def p_def)
  have mk: "mk_CanonicalFields state = Inr state"
    using f unfolding p_def [symmetric]
    by (auto simp: state_def FxPayload_fields_def validate_currency_and_dates_def mk_CanonicalFields_def check_simps result_simps)
  show thesis using that state mk by simp
qed

lemma consistent_identity_returns:
  "(\<And>ob. ob \<in> set obs \<Longrightarrow> hash_right rt ob \<and> ob_content_hash ob = h (ob_observation_id ob)) \<Longrightarrow>
   (\<And>i x. (i, x) \<in> set seen \<Longrightarrow> x = h i) \<Longrightarrow> consistent_identity rt seen obs = Inr ()"
proof (induction rt seen obs rule: consistent_identity.induct)
  case (2 rt seen ob obs)
  have ob: "hash_right rt ob" "ob_content_hash ob = h (ob_observation_id ob)" using 2(3) by simp_all
  obtain c where c: "check_hash rt ob = Inr c" using ob(1) unfolding hash_right_iff by blast
  show ?case
  proof (cases "map_of seen (ob_observation_id ob)")
    case None
    have "consistent_identity rt ((ob_observation_id ob, ob_content_hash ob) # seen) obs = Inr ()"
      by (rule 2(1) [OF c None]) (use 2(3,4) ob in auto)
    then show ?thesis by (simp add: c None)
  next
    case (Some x)
    then have "x = ob_content_hash ob" using 2(4) map_of_SomeD [OF Some] ob(2) by simp
    moreover from this have "consistent_identity rt seen obs = Inr ()"
      by (intro 2(2) [OF c Some]) (use 2(3,4) in auto)
    ultimately show ?thesis by (simp add: c Some)
  qed
qed simp

lemma hash_of_identifier:
  assumes "distinct (map ob_observation_id sources)"
  obtains h where "\<And>ob. ob \<in> set sources \<Longrightarrow> ob_content_hash ob = h (ob_observation_id ob)"
proof -
  have "inj_on ob_observation_id (set sources)" using assms by (simp add: distinct_map)
  then have "ob_content_hash ob = ob_content_hash (the_inv_into (set sources) ob_observation_id (ob_observation_id ob))"
    if "ob \<in> set sources" for ob
    using that by (simp add: the_inv_into_f_f)
  then show thesis by (rule that)
qed

lemma selection_value:
  assumes "set (map fst selection) = set field_keys" "distinct (map fst selection)" "ob \<in> set (map snd selection)"
  obtains f where "ob = selected selection f"
proof -
  obtain k where k: "(k, ob) \<in> set selection" using assms(3) by auto
  then have "k \<in> set field_keys" using assms(1) by force
  then obtain f where f: "k = field_name f" by (auto simp: field_keys_def)
  have "map_of selection k = Some ob" using k assms(2) by simp
  then show thesis using that [of f] by (simp add: selected_def f)
qed

lemma find_item:
  assumes "distinct (map ob_observation_id sources)" "ob \<in> set sources"
  shows "List.find (\<lambda>i. si_observation_id i = ob_observation_id ob) (rev (map source_version_item sources)) = Some (source_version_item ob)"
proof -
  obtain i where i: "List.find (\<lambda>i. si_observation_id i = ob_observation_id ob) (rev (map source_version_item sources)) = Some i"
    "i \<in> set (rev (map source_version_item sources))" "si_observation_id i = ob_observation_id ob"
    by (rule find_by_key [of "ob_observation_id ob" si_observation_id "rev (map source_version_item sources)"])
      (use assms(2) in \<open>auto simp: source_version_item_def image_iff\<close>)
  then obtain x where "x \<in> set sources" "i = source_version_item x" by auto
  moreover from this have "ob_observation_id x = ob_observation_id ob" using i(3) by (simp add: source_version_item_def)
  ultimately have "x = ob" using assms by (auto dest: inj_onD simp: distinct_map)
  with i(1) \<open>i = source_version_item x\<close> show ?thesis by simp
qed

definition mvp_state :: "runtime \<Rightarrow> string \<Rightarrow> int \<Rightarrow> Observation list \<Rightarrow> CanonicalFields \<Rightarrow> Actor \<Rightarrow> CanonicalTradeState" where
  "mvp_state rt trade_id v sources state actor = (let l = sort_key locked_key sources; items = map source_version_item l in \<lparr>
     cs_trade_id = trade_id, cs_entity_version = 1, cs_canonical_state_version = v,
     cs_tenant_id = ob_tenant_id (hd l), cs_portfolio_id = ob_portfolio_id (hd l),
     cs_correlation_id = ob_correlation_id (hd l), cs_content_hash = state_content_hash rt state items,
     cs_as_of_time = source_watermark_of l, cs_source_watermark = source_watermark_of l,
     cs_source_version_set = items, cs_actor = actor, cs_state = state,
     cs_field_provenance = field_provenance_of (mvp_selection trade_id sources) mvp_source_of_truth_policy\<rparr>)"

lemma mvp_provenance_accepted:
  assumes "sources_ok rt trade_id sources"
  shows "mk_FieldProvenanceMap (field_provenance_of (mvp_selection trade_id sources) mvp_source_of_truth_policy) =
    Inr (field_provenance_of (mvp_selection trade_id sources) mvp_source_of_truth_policy)"
proof -
  have v: "validate_observation (mvp_choice trade_id sources f) = Inr (mvp_choice trade_id sources f)" for f
    using assms mvp_choice_made(2) [OF assms] by (simp add: sources_ok_def)
  have "is_semantic_version (sp_policy_version mvp_source_of_truth_policy)"
    unfolding mvp_source_of_truth_policy_def SourceOfTruthPolicy.simps by code_simp
  then have "\<exists>ps. emap (\<lambda>f. mk_FieldProvenance (field_provenance_of (mvp_selection trade_id sources) mvp_source_of_truth_policy f)) CANONICAL_FIELD_NAMES = Inr ps"
    using provenance_accepted [of "mvp_selection trade_id sources"] v by (intro emap_returns) auto
  then show ?thesis
    by (auto simp: mk_FieldProvenanceMap_def check_simps first_error_map_None field_provenance_of_def field_path_of_def Let_def)
qed

lemma mvp_state_accepted:
  assumes ok: "sources_ok rt trade_id sources" and sha: "\<And>b. is_sha256_hash (sha256_tag rt b)"
    and "is_identifier trade_id" "1 \<le> v" "mk_Actor actor = Inr actor" "mk_CanonicalFields state = Inr state"
  shows "mk_CanonicalTradeState (mvp_state rt trade_id v sources state actor) = Inr (mvp_state rt trade_id v sources state actor)"
proof -
  let ?l = "sort_key locked_key sources"
  let ?prov = "field_provenance_of (mvp_selection trade_id sources) mvp_source_of_truth_policy"
  have ne: "sources \<noteq> []" using ok unfolding sources_ok_def by (metis empty_iff empty_set)
  then have hd: "hd ?l \<in> set sources" by (rule hd_sort_key_mem)
  have v: "validate_observation ob = Inr ob" if "ob \<in> set sources" for ob using ok that by (simp add: sources_ok_def)
  note I = accepted_identifiers [OF v [OF hd]]
  have scope: "ob_tenant_id ob = ob_tenant_id (hd ?l)" "ob_portfolio_id ob = ob_portfolio_id (hd ?l)" if "ob \<in> set sources" for ob
  proof -
    have "scope_of ob = scope_of (hd ?l)" using ok that hd unfolding sources_ok_def by blast
    then show "ob_tenant_id ob = ob_tenant_id (hd ?l)" "ob_portfolio_id ob = ob_portfolio_id (hd ?l)" by (simp_all add: scope_of_def)
  qed
  have d: "distinct (map ob_observation_id sources)" using ok by (simp add: sources_ok_def)
  have dl: "distinct (map ob_observation_id ?l)"
  proof -
    have "mset (map ob_observation_id ?l) = mset (map ob_observation_id sources)" by (simp only: mset_map mset_sort)
    then show ?thesis using d by (metis mset_eq_imp_distinct_iff)
  qed
  have ids: "map si_observation_id (map source_version_item ?l) = map ob_observation_id ?l"
    by (simp add: source_version_item_def)
  note c = mvp_choice_made(2) [OF ok]
  have aware: "aware (source_watermark_of ?l)"
    using watermark_max(2) [of "hd ?l" ?l] hd accepted_identifiers(10) [OF v] by (auto simp: hd)
  have items: "\<exists>is. emap mk_SourceVersionSetItem (map source_version_item ?l) = Inr is"
    by (rule emap_returns) (use item_accepted [OF v] in auto)
  have f: "CanonicalTradeState_fields (mvp_state rt trade_id v sources state actor) = Inr ()"
    using assms(3-6) I aware items mvp_provenance_accepted [OF ok] sha ne
    by (auto simp: CanonicalTradeState_fields_def mvp_state_def Let_def state_content_hash_def check_simps result_simps)
  have s1: "validate_provenance_scope ?prov (ob_tenant_id (hd ?l)) (ob_portfolio_id (hd ?l)) = Inr ()"
    using scope [OF c] by (simp add: validate_provenance_scope_def check_simps first_error_map_None field_provenance_of_def Let_def)
  have pc: "first_error (provenance_checks (map source_version_item ?l) ?prov (Some (source_watermark_of ?l)) f) = None" for f
  proof -
    let ?c = "mvp_choice trade_id sources f"
    have id: "fp_source_observation_id (?prov f) = ob_observation_id ?c" by (simp add: field_provenance_of_def Let_def)
    have "List.find (\<lambda>i. si_observation_id i = fp_source_observation_id (?prov f)) (rev (map source_version_item ?l)) = Some (source_version_item ?c)"
      unfolding id by (rule find_item [OF dl]) (simp add: c)
    moreover have "instant (ob_ingest_time ?c) \<le> instant (source_watermark_of ?l)" by (rule watermark_max(1)) (simp add: c)
    ultimately show ?thesis unfolding provenance_checks_def Let_def
      by (simp add: check_simps) (simp add: field_provenance_of_def source_version_item_def Let_def)
  qed
  have s2: "validate_source_version_set_scope (map source_version_item ?l) ?prov (ob_tenant_id (hd ?l)) (ob_portfolio_id (hd ?l)) (Some (source_watermark_of ?l)) = Inr ()"
    unfolding validate_source_version_set_scope_def ids
    by (simp add: check_simps first_error_append_None first_error_concat_None first_error_map_None dl pc del: map_map)
      (use scope in \<open>auto simp: source_version_item_def\<close>)
  show ?thesis unfolding mk_CanonicalTradeState_def f using s1 s2
    by (simp add: mvp_state_def Let_def check_simps result_simps)
qed

lemma policy_selection_state:
  assumes ok: "sources_ok rt trade_id sources" and sha: "\<And>b. is_sha256_hash (sha256_tag rt b)"
    and ids: "is_identifier trade_id" "1 \<le> v" "mk_Actor actor = Inr actor" and keys: "distinct (map fst selection)"
    and c: "set (map fst selection) = set (map field_name CANONICAL_FIELD_NAMES) \<and> corr \<in> ob_correlation_id ` set sources \<and>
     (\<forall>f. hash_right rt (selected selection f) \<and>
       selection_reference (selected selection f) = selection_reference (mvp_choice trade_id sources f))"
  obtains state where "canonical_fields_from_selection (mvp_selection trade_id sources) = Inr state"
    "assemble_canonical_state rt trade_id v selection sources mvp_source_of_truth_policy corr actor =
      Inr (mvp_state rt trade_id v sources state actor)"
proof -
  have k: "set (map fst selection) = set field_keys" using c by (simp add: field_keys_def)
  have ne: "sources \<noteq> []" using ok unfolding sources_ok_def by (metis empty_iff empty_set)
  have corr: "corr = ob_correlation_id (hd (sort_key locked_key sources))"
  proof -
    obtain ob where "ob \<in> set sources" "corr = ob_correlation_id ob" using c by blast
    moreover have "scope_of ob = scope_of (hd (sort_key locked_key sources))" if "ob \<in> set sources" for ob
      using ok that hd_sort_key_mem [OF ne] unfolding sources_ok_def by blast
    ultimately show ?thesis by (simp add: scope_of_def)
  qed
  obtain h where h: "\<And>ob. ob \<in> set sources \<Longrightarrow> ob_content_hash ob = h (ob_observation_id ob)"
    by (rule hash_of_identifier [of sources]) (use ok in \<open>auto simp: sources_ok_def\<close>)
  have consistent: "consistent_identity rt [] (map snd selection) = Inr ()"
  proof (rule consistent_identity_returns [where h = h])
    fix ob assume "ob \<in> set (map snd selection)"
    then obtain f where f: "ob = selected selection f" by (rule selection_value [OF k keys])
    have "selection_reference ob = selection_reference (mvp_choice trade_id sources f)" "hash_right rt ob" using c f by simp_all
    then show "hash_right rt ob \<and> ob_content_hash ob = h (ob_observation_id ob)"
      using h [OF mvp_choice_made(2) [OF ok, of f]] by (simp add: selection_reference_def)
  qed simp
  obtain state where state: "canonical_fields_from_selection (mvp_selection trade_id sources) = Inr state"
    "mk_CanonicalFields state = Inr state" by (rule mvp_fields_accepted [OF ok])
  have items: "source_version_set (sort_key locked_key sources) = Inr (map source_version_item (sort_key locked_key sources))"
    unfolding source_version_set_def by (rule emap_total) (use ok item_accepted in \<open>auto simp: sources_ok_def\<close>)
  have refs: "checked (map (\<lambda>f. (selection_reference (selected selection f) \<noteq> selection_reference (selected (mvp_selection trade_id sources) f),
         selection_error f)) CANONICAL_FIELD_NAMES) () = Inr ()"
    using c by (simp add: checked_Inr first_error_map_None)
  have dom: "checked [(\<not> set field_keys \<subseteq> set (map fst selection), a), (\<not> set (map fst selection) \<subseteq> set field_keys, b)] () = Inr ()"
    for a b :: py_error
    using k by (simp add: check_simps del: set_map)
  have "assemble_canonical_state rt trade_id v selection sources mvp_source_of_truth_policy corr actor =
      Inr (mvp_state rt trade_id v sources state actor)"
    unfolding assemble_canonical_state_def dom
    using mvp_state_accepted [OF ok sha ids state(2)]
    by (simp add: sources_locked(1) [OF ok] consistent resolve_mvp(1) [OF ok] refs [simplified] state(1) items
        field_provenance_map_def mvp_provenance_accepted [OF ok] corr) (simp add: mvp_state_def Let_def)
  with state(1) show ?thesis by (rule that)
qed

lemma policy_selection_assembles:
  assumes "sources_ok rt trade_id sources" and "\<And>b. is_sha256_hash (sha256_tag rt b)"
    and "is_identifier trade_id" "1 \<le> v" "mk_Actor actor = Inr actor" and "distinct (map fst selection)"
    and "set (map fst selection) = set (map field_name CANONICAL_FIELD_NAMES) \<and> corr \<in> ob_correlation_id ` set sources \<and>
     (\<forall>f. hash_right rt (selected selection f) \<and>
       selection_reference (selected selection f) = selection_reference (mvp_choice trade_id sources f))"
  shows "\<exists>s. assemble_canonical_state rt trade_id v selection sources mvp_source_of_truth_policy corr actor = Inr s"
  by (rule policy_selection_state [OF assms]) blast

lemma assembled_selection:
  assumes ok: "sources_ok rt trade_id sources"
    and "assemble_canonical_state rt trade_id v selection sources mvp_source_of_truth_policy corr actor = Inr s"
  shows "set (map fst selection) = set (map field_name CANONICAL_FIELD_NAMES) \<and> corr \<in> ob_correlation_id ` set sources \<and>
     (\<forall>f. hash_right rt (selected selection f) \<and>
       selection_reference (selected selection f) = selection_reference (mvp_choice trade_id sources f))"
proof -
  obtain l expected where p: "locked_source_set rt sources = Inr l"
    "resolve_field_selection rt trade_id l mvp_source_of_truth_policy = Inr expected"
    "consistent_identity rt [] (map snd selection) = Inr ()" "set (map fst selection) = set field_keys"
    "\<And>f. selection_reference (selected selection f) = selection_reference (selected expected f)"
    "corr = ob_correlation_id (hd l)"
    by (rule assemble_parts [OF assms(2)]) blast
  have l: "l = sort_key locked_key sources" and ne: "sources \<noteq> []" by (rule locked_source_set_Inr [OF p(1)])+
  have e: "expected = mvp_selection trade_id sources" using p(2) resolve_mvp(1) [OF ok] l by simp
  have "corr \<in> ob_correlation_id ` set sources" using hd_sort_key_mem [OF ne, of locked_key] by (simp add: p(6) l)
  moreover have "hash_right rt (selected selection f)" for f
    by (rule consistent_identity_right [OF p(3) selection_of_field [OF p(4)]])
  ultimately show ?thesis using p(4,5) by (simp add: e field_keys_def)
qed

text \<open>The canonical state that a choice of one source per field stands for, part by part.\<close>

definition provenance_of_choice :: "CanonicalField \<Rightarrow> Observation \<Rightarrow> FieldProvenance" where
  "provenance_of_choice f ob = \<lparr>
     fp_source_type = ob_kind ob, fp_source_system = ob_source_system ob,
     fp_source_tenant_id = ob_tenant_id ob, fp_source_portfolio_id = ob_portfolio_id ob,
     fp_source_observation_id = ob_observation_id ob, fp_source_observation_entity_version = ob_entity_version ob,
     fp_source_version = ob_source_version ob, fp_field_path = ''/payload/'' @ field_name f,
     fp_normalisation_rule_id = ''ts10-explicit-field-selection'', fp_normalisation_rule_version = ''1.0.0'',
     fp_resolution_rule_version = ''1.0.0'',
     fp_observed_at = ob_event_time ob, fp_effective_at = ob_effective_time ob, fp_ingested_at = ob_ingest_time ob,
     fp_conflict_status =
       (if ob_source_system ob \<in> (if f = F_lifecycle_status then {FPML_CONFIRMATION} else {FIX_EXECUTION, FIX_TRADE_CAPTURE})
        then SELECTED else SECONDARY_SUPPORTING)\<rparr>"

definition state_of_choice ::
    "runtime \<Rightarrow> Observation list \<Rightarrow> (CanonicalField \<Rightarrow> Observation) \<Rightarrow> CanonicalTradeState \<Rightarrow> bool" where
  "state_of_choice rt sources choice s \<longleftrightarrow>
     (\<forall>f. same_field f (cs_state s) (ob_payload (choice f)) \<and> cs_field_provenance s f = provenance_of_choice f (choice f)) \<and>
     cs_source_version_set s = map source_version_item (sort_key locked_key sources) \<and>
     cs_content_hash s = state_content_hash rt (cs_state s) (cs_source_version_set s) \<and>
     (\<forall>ob \<in> set sources. cs_tenant_id s = ob_tenant_id ob \<and> cs_portfolio_id s = ob_portfolio_id ob \<and>
        cs_correlation_id s = ob_correlation_id ob \<and> instant (ob_ingest_time ob) \<le> instant (cs_source_watermark s)) \<and>
     cs_source_watermark s \<in> ob_ingest_time ` set sources \<and> cs_as_of_time s = cs_source_watermark s \<and>
     cs_entity_version s = 1"

lemma trade_rule_trusted: "sr_trusted_sources (trade_field_rule f) = [FIX_EXECUTION, FIX_TRADE_CAPTURE]"
  by (simp add: trade_field_rule_def)

lemma mvp_provenance_of_choice:
  "field_provenance_of (mvp_selection trade_id sources) mvp_source_of_truth_policy f =
    provenance_of_choice f (mvp_choice trade_id sources f)"
proof -
  have "map_option (\<lambda>r. set (sr_trusted_sources r)) (List.find (\<lambda>r. sr_field_path r = field_path_of f)
      (sp_field_rules mvp_source_of_truth_policy)) =
    Some (if f = F_lifecycle_status then {FPML_CONFIRMATION} else {FIX_EXECUTION, FIX_TRADE_CAPTURE})"
    unfolding mvp_source_of_truth_policy_def lifecycle_path SourceOfTruthPolicy.simps
    by (cases f) (simp_all only: list.map append.simps find.simps trade_rule_fields field_path_inj if_True if_False
      simp_thms CanonicalField.distinct SourceOfTruthFieldRule.simps option.map trade_rule_trusted list.set)
  moreover have "sp_policy_version mvp_source_of_truth_policy = ''1.0.0''" by (simp add: mvp_source_of_truth_policy_def)
  ultimately show ?thesis
    by (auto simp: field_provenance_of_def provenance_of_choice_def Let_def field_path_of_def split: option.splits)
qed

lemma mvp_state_of_choice:
  assumes ok: "sources_ok rt trade_id sources"
    and "canonical_fields_from_selection (mvp_selection trade_id sources) = Inr state"
  shows "state_of_choice rt sources (mvp_choice trade_id sources) (mvp_state rt trade_id v sources state actor)"
proof -
  have ne: "sources \<noteq> []" using ok unfolding sources_ok_def by (metis empty_iff empty_set)
  have hd: "hd (sort_key locked_key sources) \<in> set sources" by (rule hd_sort_key_mem [OF ne])
  have "scope_of (hd (sort_key locked_key sources)) = scope_of ob" if "ob \<in> set sources" for ob
    using ok hd that unfolding sources_ok_def by blast
  moreover have "same_field f state (ob_payload (mvp_choice trade_id sources f))" for f
    using fields_from_selection [OF assms(2), of f] by simp
  moreover have "instant (ob_ingest_time ob) \<le> instant (source_watermark_of (sort_key locked_key sources))"
    if "ob \<in> set sources" for ob
    by (rule watermark_max(1)) (simp add: that)
  moreover have "source_watermark_of (sort_key locked_key sources) \<in> ob_ingest_time ` set sources"
    using watermark_max(2) [of "hd (sort_key locked_key sources)" "sort_key locked_key sources"] hd by auto
  ultimately show ?thesis
    by (simp add: state_of_choice_def mvp_state_def Let_def mvp_provenance_of_choice scope_of_def)
qed

lemma mvp_choice_preferred:
  assumes "sources_ok rt trade_id sources"
  shows "preferred (mvp_precedence f) (eligible_sources trade_id sources) (mvp_choice trade_id sources f)"
proof -
  have "set (eligible_sources trade_id (sort_key locked_key sources)) = set (eligible_sources trade_id sources)"
    by (simp add: eligible_sources_def)
  from preferred_set [OF this] show ?thesis using by_precedence_Some [OF mvp_choice_made(1) [OF assms]] by blast
qed

text \<open>C20: for a well-formed source set under the packaged policy the resolver returns, for every canonical field, the
  policy's choice: of the sources of the trade, the one of the first system in the field's precedence that has one,
  with the highest version. The assembler returns a canonical state exactly for the selections of the thirteen
  canonical fields whose every observation has a right fingerprint and the reference of that choice, inside the
  correlation of the sources. Then it is the canonical state of the sources: every field has the value and the
  provenance of its choice, the locked sources are all listed, the hash is that of the fields and the source list,
  the watermark is the latest ingest time, and version, trade and actor are as requested. Any other selection is
  refused.\<close>

theorem assembly_accepts_exactly_the_policy_selection:
  assumes ok: "sources_ok rt trade_id sources" and sha: "\<And>b. is_sha256_hash (sha256_tag rt b)"
    and ids: "is_identifier trade_id" "1 \<le> v" "mk_Actor actor = Inr actor" and keys: "distinct (map fst selection)"
  shows "\<exists>choice. (\<forall>f. preferred (mvp_precedence f) (eligible_sources trade_id sources) (choice f)) \<and>
    resolve_field_selection rt trade_id sources mvp_source_of_truth_policy =
      Inr (map (\<lambda>f. (field_name f, choice f)) CANONICAL_FIELD_NAMES) \<and>
    (if set (map fst selection) = set (map field_name CANONICAL_FIELD_NAMES) \<and> corr \<in> ob_correlation_id ` set sources \<and>
       (\<forall>f. hash_right rt (selected selection f) \<and>
         selection_reference (selected selection f) = selection_reference (choice f))
     then \<exists>s. assemble_canonical_state rt trade_id v selection sources mvp_source_of_truth_policy corr actor = Inr s \<and>
       state_of_choice rt sources choice s \<and> cs_trade_id s = trade_id \<and> cs_canonical_state_version s = v \<and> cs_actor s = actor
     else \<exists>e. assemble_canonical_state rt trade_id v selection sources mvp_source_of_truth_policy corr actor = Inl e)"
proof (intro exI [of _ "mvp_choice trade_id sources"] conjI allI)
  show "preferred (mvp_precedence f) (eligible_sources trade_id sources) (mvp_choice trade_id sources f)" for f
    by (rule mvp_choice_preferred [OF ok])
  show "resolve_field_selection rt trade_id sources mvp_source_of_truth_policy =
      Inr (map (\<lambda>f. (field_name f, mvp_choice trade_id sources f)) CANONICAL_FIELD_NAMES)"
    using resolve_mvp(2) [OF ok] by (simp add: mvp_selection_def)
next
  let ?run = "assemble_canonical_state rt trade_id v selection sources mvp_source_of_truth_policy corr actor"
  let ?asked = "set (map fst selection) = set (map field_name CANONICAL_FIELD_NAMES) \<and> corr \<in> ob_correlation_id ` set sources \<and>
     (\<forall>f. hash_right rt (selected selection f) \<and>
       selection_reference (selected selection f) = selection_reference (mvp_choice trade_id sources f))"
  show "if ?asked then \<exists>s. ?run = Inr s \<and> state_of_choice rt sources (mvp_choice trade_id sources) s \<and> cs_trade_id s = trade_id \<and>
      cs_canonical_state_version s = v \<and> cs_actor s = actor else \<exists>e. ?run = Inl e"
  proof (cases ?asked)
    case True
    obtain state where "canonical_fields_from_selection (mvp_selection trade_id sources) = Inr state"
      "?run = Inr (mvp_state rt trade_id v sources state actor)"
      by (rule policy_selection_state [OF ok sha ids keys True])
    moreover from this(1) have "state_of_choice rt sources (mvp_choice trade_id sources) (mvp_state rt trade_id v sources state actor)"
      by (rule mvp_state_of_choice [OF ok])
    moreover have "cs_trade_id x = trade_id \<and> cs_canonical_state_version x = v \<and> cs_actor x = actor"
      if "x = mvp_state rt trade_id v sources state actor" for x
      by (simp add: that mvp_state_def Let_def)
    ultimately show ?thesis unfolding if_P [OF True] by blast
  next
    case False
    then have "?run \<noteq> Inr s" for s using assembled_selection [OF ok] by blast
    then show ?thesis unfolding if_not_P [OF False] by (cases ?run) auto
  qed
qed

section \<open>A concrete assembly\<close>

lemma flat_sha: "is_sha256_hash (sha256_tag flat_runtime b)"
proof -
  have "is_sha256_hash sample_hash" by code_simp
  then show ?thesis by (simp add: sha256_tag_def flat_runtime_def sample_hash_def)
qed

lemma timed_sources_ok: "sources_ok flat_runtime ''trade_0001'' [timed_observation]"
  by (simp add: sources_ok_def timed_observation_valid timed_hash_right eligible_for_trade_def) (simp add: timed_defs)

definition sample_actor :: Actor where
  "sample_actor = \<lparr>identity_type = SYSTEM, actor_id = ''assembler''\<rparr>"

lemma sample_ids: "is_identifier ''trade_0001''" "mk_Actor sample_actor = Inr sample_actor"
  by code_simp+

lemma mvp_selection_keys: "map fst (mvp_selection trade_id sources) = map field_name CANONICAL_FIELD_NAMES"
  "distinct (map fst (mvp_selection trade_id sources))"
proof -
  show k: "map fst (mvp_selection trade_id sources) = map field_name CANONICAL_FIELD_NAMES" by (simp add: mvp_selection_def)
  have "distinct CANONICAL_FIELD_NAMES" by (simp add: CANONICAL_FIELD_NAMES_def)
  then show "distinct (map fst (mvp_selection trade_id sources))" unfolding k by (simp add: distinct_map inj_on_def)
qed

lemma timed_selection_chosen:
  "set (map fst (mvp_selection ''trade_0001'' [timed_observation])) = set (map field_name CANONICAL_FIELD_NAMES) \<and>
   ''corr_0001'' \<in> ob_correlation_id ` set [timed_observation] \<and>
   (\<forall>f. hash_right flat_runtime (selected (mvp_selection ''trade_0001'' [timed_observation]) f) \<and>
     selection_reference (selected (mvp_selection ''trade_0001'' [timed_observation]) f) =
       selection_reference (mvp_choice ''trade_0001'' [timed_observation] f))"
proof -
  have "''corr_0001'' = ob_correlation_id timed_observation" by (simp add: timed_defs)
  then show ?thesis
    using mvp_choice_made(2) [OF timed_sources_ok] timed_hash_right(1) unfolding mvp_selection_keys(1) by simp
qed

theorem assembled_state_is_authoritative_witness:
  "\<exists>s. assemble_canonical_state flat_runtime ''trade_0001'' 1 (mvp_selection ''trade_0001'' [timed_observation])
      [timed_observation] mvp_source_of_truth_policy ''corr_0001'' sample_actor = Inr s \<and>
    mk_CanonicalTradeState s = Inr s \<and> mset (cs_source_version_set s) = {#source_version_item timed_observation#}"
proof -
  obtain s where s: "assemble_canonical_state flat_runtime ''trade_0001'' 1 (mvp_selection ''trade_0001'' [timed_observation])
      [timed_observation] mvp_source_of_truth_policy ''corr_0001'' sample_actor = Inr s"
    using policy_selection_assembles [OF timed_sources_ok flat_sha sample_ids(1) order_refl sample_ids(2) mvp_selection_keys(2)
        timed_selection_chosen] by blast
  then show ?thesis using assembled_state_is_authoritative [OF s] by simp
qed

lemma timed_choice:
  assumes "\<forall>f. preferred (mvp_precedence f) (eligible_sources ''trade_0001'' [timed_observation]) (choice f)"
  shows "choice f = timed_observation"
proof -
  have "choice f \<in> set (eligible_sources ''trade_0001'' [timed_observation])" using assms by (simp only: preferred_def)
  then show ?thesis by (simp add: eligible_sources_def split: if_splits)
qed

theorem assembly_accepts_exactly_the_policy_selection_witness:
  "\<exists>s. assemble_canonical_state flat_runtime ''trade_0001'' 1 (mvp_selection ''trade_0001'' [timed_observation])
      [timed_observation] mvp_source_of_truth_policy ''corr_0001'' sample_actor = Inr s \<and>
    cf_counterparty_id (cs_state s) = fx_counterparty_id (ob_payload timed_observation) \<and>
    cs_source_watermark s = ob_ingest_time timed_observation"
proof -
  obtain choice where c: "\<forall>f. preferred (mvp_precedence f) (eligible_sources ''trade_0001'' [timed_observation]) (choice f)"
    "if set (map fst (mvp_selection ''trade_0001'' [timed_observation])) = set (map field_name CANONICAL_FIELD_NAMES) \<and>
       ''corr_0001'' \<in> ob_correlation_id ` set [timed_observation] \<and>
       (\<forall>f. hash_right flat_runtime (selected (mvp_selection ''trade_0001'' [timed_observation]) f) \<and>
         selection_reference (selected (mvp_selection ''trade_0001'' [timed_observation]) f) = selection_reference (choice f))
     then \<exists>s. assemble_canonical_state flat_runtime ''trade_0001'' 1 (mvp_selection ''trade_0001'' [timed_observation])
         [timed_observation] mvp_source_of_truth_policy ''corr_0001'' sample_actor = Inr s \<and>
       state_of_choice flat_runtime [timed_observation] choice s \<and> cs_trade_id s = ''trade_0001'' \<and>
       cs_canonical_state_version s = 1 \<and> cs_actor s = sample_actor
     else \<exists>e. assemble_canonical_state flat_runtime ''trade_0001'' 1 (mvp_selection ''trade_0001'' [timed_observation])
         [timed_observation] mvp_source_of_truth_policy ''corr_0001'' sample_actor = Inl e"
    using assembly_accepts_exactly_the_policy_selection [OF timed_sources_ok flat_sha sample_ids(1) order_refl sample_ids(2)
        mvp_selection_keys(2) [of "''trade_0001''" "[timed_observation]"], of "''corr_0001''"] by blast
  have same: "choice f = mvp_choice ''trade_0001'' [timed_observation] f" for f
    using timed_choice [OF c(1)] mvp_choice_made(2) [OF timed_sources_ok, of f] by simp
  obtain s where s: "assemble_canonical_state flat_runtime ''trade_0001'' 1 (mvp_selection ''trade_0001'' [timed_observation])
      [timed_observation] mvp_source_of_truth_policy ''corr_0001'' sample_actor = Inr s"
    "state_of_choice flat_runtime [timed_observation] choice s"
    using c(2) unfolding same using timed_selection_chosen by auto
  have "same_field F_counterparty_id (cs_state s) (ob_payload (choice F_counterparty_id))"
    "cs_source_watermark s \<in> ob_ingest_time ` set [timed_observation]"
    using s(2) unfolding state_of_choice_def by blast+
  with s(1) show ?thesis by (simp add: timed_choice [OF c(1)])
qed

end
