(* ===== verification/Service.thy ===== *)
theory Service
  imports Adapter Assembler Recon_Total
begin

text \<open>
  \<open>apps/api/service.py\<close>: the service layer that composes the adapter, the assembler and the engine. A row
  of the inbox and a quarantined document are the observations they hold, and \<open>model_validate\<close> is their
  validation; the corpus of the generator, the clock and the random tokens are arguments.
\<close>

section \<open>Scope\<close>

definition DEMO_TENANT_ID :: string where
  "DEMO_TENANT_ID = ''tenant_demo''"

definition DEMO_PORTFOLIO_IDS :: "string list" where
  "DEMO_PORTFOLIO_IDS = [''portfolio_london'', ''portfolio_sydney'']"

definition ASSEMBLER_ACTOR :: Actor where
  "ASSEMBLER_ACTOR = \<lparr>identity_type = SYSTEM, actor_id = ''canonical_assembler''\<rparr>"

definition LINKAGE_ACTOR :: Actor where
  "LINKAGE_ACTOR = \<lparr>identity_type = SYSTEM, actor_id = ''linkage_engine''\<rparr>"

definition REMEDIATION_ACTOR :: Actor where
  "REMEDIATION_ACTOR = \<lparr>identity_type = SYSTEM, actor_id = ''remediation_executor''\<rparr>"

datatype service_error = Raised py_error | FromAdapter pg_error | DemoScopeError

type_synonym 'a service = "(PgDb, service_error, 'a) call"

abbreviation adapter :: "(PgDb, pg_error, 'a) call \<Rightarrow> 'a service" where
  "adapter m \<equiv> translate FromAdapter m"

definition computed :: "py_error + 'a \<Rightarrow> 'a service" where
  "computed r = lift_result (case r of Inl e \<Rightarrow> Inl (Raised e) | Inr x \<Rightarrow> Inr x)"

definition in_demo_scope :: "Observation \<Rightarrow> bool" where
  "in_demo_scope ob \<longleftrightarrow> ob_tenant_id ob = DEMO_TENANT_ID \<and> ob_portfolio_id ob \<in> set DEMO_PORTFOLIO_IDS"

fun validate_corpus :: "Observation list \<Rightarrow> service_error + Observation list" where
  "validate_corpus [] = Inr []"
| "validate_corpus (raw # raws) =
     (if \<not> in_demo_scope raw then Inl DemoScopeError
      else case validate_observation raw of
        Inl e \<Rightarrow> Inl (Raised e)
      | Inr ob \<Rightarrow> ebind (validate_corpus raws) (\<lambda>obs. Inr (ob # obs)))"

definition load_demo_corpus :: "runtime \<Rightarrow> Observation list \<Rightarrow> IngestSummary service" where
  "load_demo_corpus rt corpus = andthen (lift_result (validate_corpus corpus))
     (\<lambda>observations. adapter (ingest_observations rt ''quarantine'' observations))"

section \<open>One lineage group\<close>

text \<open>\<open>max(xs, key=f)\<close>: the first of the greatest.\<close>

definition first_max :: "('a \<Rightarrow> int) \<Rightarrow> 'a \<Rightarrow> 'a list \<Rightarrow> 'a" where
  "first_max f x xs = foldl (\<lambda>best y. if f best < f y then y else best) x xs"

text \<open>\<open>Counter(xs).most_common(1)[0][0]\<close>.\<close>

definition most_common :: "string list \<Rightarrow> py_error + string" where
  "most_common xs = (case firsts id xs of
     [] \<Rightarrow> Inl (IndexError ''list index out of range'')
   | k # ks \<Rightarrow> Inr (first_max (\<lambda>y. int (length (filter (\<lambda>x. x = y) xs))) k ks))"

definition superseded_ids :: "Observation list \<Rightarrow> string set" where
  "superseded_ids grp = {i. Some i \<in> ob_supersedes_observation_id ` set grp \<and> i \<noteq> []}"

definition active_observations :: "Observation list \<Rightarrow> Observation list" where
  "active_observations grp = filter (\<lambda>raw. ob_observation_id raw \<notin> superseded_ids grp) grp"

definition linkage_base :: "string \<Rightarrow> CanonicalTradeState \<Rightarrow> Observation list \<Rightarrow> LinkageDecision" where
  "linkage_base run_id canonical observations = \<lparr>
     ld_decision_id = ''decision_'' @ run_id, ld_entity_version = 1,
     ld_tenant_id = cs_tenant_id canonical, ld_portfolio_id = cs_portfolio_id canonical,
     ld_correlation_id = cs_correlation_id canonical, ld_content_hash = ''sha256:'' @ replicate 64 CHR ''1'',
     ld_created_at = cs_source_watermark canonical, ld_actor = LINKAGE_ACTOR,
     ld_source_observation_id = ob_observation_id (hd observations), ld_deterministic_rule_version = ''1.0.0'',
     ld_decision = LINK_ACCEPTED, ld_candidate_links = [], ld_chosen_trade_id = None,
     ld_reason_code = EXACT_DETERMINISTIC_KEY\<rparr>"

definition candidate_link :: "CanonicalTradeState \<Rightarrow> nat \<Rightarrow> string \<Rightarrow> string \<Rightarrow> CandidateLink" where
  "candidate_link canonical number digits trade_id = \<lparr>
     cl_trade_id = trade_id, cl_tenant_id = cs_tenant_id canonical, cl_portfolio_id = cs_portfolio_id canonical,
     cl_match_key = ''match_key_'' @ zfill 3 number, cl_match_rule_version = ''1.0.0'',
     cl_evidence_hash = ''sha256:'' @ concat (replicate 64 digits)\<rparr>"

definition linkage_decision ::
    "string \<Rightarrow> string \<Rightarrow> CanonicalTradeState \<Rightarrow> Observation list \<Rightarrow> py_error + LinkageDecision" where
  "linkage_decision run_id trade_id canonical observations = (
     let base = linkage_base run_id canonical observations;
         distinct_payload_trades = sort (remdups (map (\<lambda>ob. fx_source_trade_id (ob_payload ob)) observations)) in
     if 4 < length observations \<and> 1 < length distinct_payload_trades
     then ebind (emap (\<lambda>(i, c). mk_CandidateLink (candidate_link canonical i (int_str (int i + 2)) c))
            (enumerate 0 distinct_payload_trades)) (\<lambda>candidates.
          mk_LinkageDecision (base\<lparr>ld_decision := LINK_AMBIGUOUS, ld_candidate_links := candidates,
            ld_reason_code := MULTIPLE_ELIGIBLE_CANDIDATES\<rparr>))
     else if \<exists>ob \<in> set observations. ob_source_business_key ob \<noteq> trade_id
     then mk_LinkageDecision (base\<lparr>ld_decision := LINK_UNMATCHED, ld_reason_code := NO_ELIGIBLE_CANDIDATE\<rparr>)
     else ebind (mk_CandidateLink (candidate_link canonical 1 ''2'' trade_id)) (\<lambda>link.
          mk_LinkageDecision (base\<lparr>ld_candidate_links := [link], ld_chosen_trade_id := Some trade_id\<rparr>)))"

text \<open>The context that is reconciled.\<close>

definition group_context ::
    "string \<Rightarrow> CanonicalTradeState \<Rightarrow> Observation list \<Rightarrow> LinkageDecision \<Rightarrow> ReconciliationContext" where
  "group_context run_id canonical observations linkage = \<lparr>
     cx_reconciliation_run_id = run_id, cx_run_version = 1, cx_canonical_state = canonical,
     cx_source_observations = observations, cx_evaluated_at = None, cx_linkage_decision = Some linkage,
     cx_post_action_verification = None\<rparr>"

definition indexed_run_id :: "string \<Rightarrow> nat \<Rightarrow> string" where
  "indexed_run_id run_id index = run_id @ ''_'' @ zfill 4 index"

definition reconcile_lineage_group ::
    "runtime \<Rightarrow> ReconciliationConfig \<Rightarrow> SourceOfTruthPolicy \<Rightarrow> string \<Rightarrow> nat \<Rightarrow> int \<Rightarrow> Observation list \<Rightarrow>
       py_error + CanonicalTradeState \<times> ReconciliationRun" where
  "reconcile_lineage_group rt cfg policy run_id index version grp =
     ebind (emap validate_observation (active_observations grp)) (\<lambda>observations.
     ebind (most_common (map ob_source_business_key observations)) (\<lambda>trade_id.
     ebind (resolve_field_selection rt trade_id observations policy) (\<lambda>selection.
     ebind (assemble_canonical_state rt trade_id version selection observations policy
       (ob_correlation_id (hd observations)) ASSEMBLER_ACTOR) (\<lambda>canonical.
     ebind (linkage_decision (indexed_run_id run_id index) trade_id canonical observations) (\<lambda>linkage.
     ebind (mk_ReconciliationContext (group_context (indexed_run_id run_id index) canonical observations linkage)) (\<lambda>cx.
     ebind (run \<lparr>en_runtime = rt, en_config = cfg\<rparr> cx None) (\<lambda>result.
     Inr (canonical, result))))))))"

section \<open>A run over all trades\<close>

text \<open>\<open>strftime("%Y%m%d%H%M%S")\<close>.\<close>

definition run_stamp :: "datetime \<Rightarrow> string" where
  "run_stamp t = (let w = wall_clock t; (y, m, d) = ord2ymd (w div us_per_day); s = w mod us_per_day div 1000000 in
     int_str y @ zfill 2 (nat m) @ zfill 2 (nat d) @ zfill 2 (nat (s div 3600)) @ zfill 2 (nat (s div 60 mod 60)) @
     zfill 2 (nat (s mod 60)))"

definition scoped_documents :: "PgDb \<Rightarrow> Observation list" where
  "scoped_documents db = observation_documents DEMO_TENANT_ID DEMO_PORTFOLIO_IDS db @
     conflict_documents DEMO_TENANT_ID DEMO_PORTFOLIO_IDS db"

text \<open>\<open>sorted(by_lineage.items())\<close>.\<close>

definition lineage_groups :: "Observation list \<Rightarrow> Observation list list" where
  "lineage_groups raws = map (\<lambda>lineage. filter (\<lambda>raw. ob_lineage_group_id raw = lineage) raws)
     (sort (remdups (map ob_lineage_group_id raws)))"

text \<open>The counters, by portfolio.\<close>

record Tally =
  ta_states :: "CanonicalTradeState list"
  ta_breaks :: "string \<Rightarrow> TradeBreak list"
  ta_clean :: "string \<Rightarrow> int"
  ta_broken :: "string \<Rightarrow> int"
  ta_trades :: "string \<Rightarrow> int"

definition empty_tally :: Tally where
  "empty_tally = \<lparr>ta_states = [], ta_breaks = (\<lambda>_. []), ta_clean = (\<lambda>_. 0), ta_broken = (\<lambda>_. 0), ta_trades = (\<lambda>_. 0)\<rparr>"

definition tally_group ::
    "runtime \<Rightarrow> ReconciliationConfig \<Rightarrow> SourceOfTruthPolicy \<Rightarrow> string \<Rightarrow> nat \<times> Observation list \<Rightarrow> Tally \<Rightarrow> py_error + Tally" where
  "tally_group rt cfg policy run_id = (\<lambda>(index, grp) t.
     ebind (reconcile_lineage_group rt cfg policy run_id index 1 grp) (\<lambda>(canonical, result).
     let p = cs_portfolio_id canonical;
         t = t\<lparr>ta_states := ta_states t @ [canonical], ta_trades := (ta_trades t)(p := ta_trades t p + 1)\<rparr> in
     Inr (if rn_breaks result \<noteq> []
       then t\<lparr>ta_broken := (ta_broken t)(p := ta_broken t p + 1), ta_breaks := (ta_breaks t)(p := ta_breaks t p @ rn_breaks result)\<rparr>
       else t\<lparr>ta_clean := (ta_clean t)(p := ta_clean t p + 1)\<rparr>)))"

text \<open>\<open>sum(counter.values())\<close>, over the portfolios of the states.\<close>

definition over_portfolios :: "Tally \<Rightarrow> (string \<Rightarrow> int) \<Rightarrow> int" where
  "over_portfolios t counter = sum_list (map counter (remdups (map cs_portfolio_id (ta_states t))))"

definition run_row ::
    "runtime \<Rightarrow> ReconciliationConfig \<Rightarrow> string \<Rightarrow> datetime \<Rightarrow> Observation list \<Rightarrow> Tally \<Rightarrow> string \<Rightarrow> RunRow" where
  "run_row rt cfg run_id started_at raws t portfolio_id = \<lparr>
     rw_run_id = run_id, rw_run_version = 1, rw_tenant_id = DEMO_TENANT_ID, rw_portfolio_id = portfolio_id,
     rw_config_id = cg_config_id cfg, rw_config_version = cg_config_version cfg,
     rw_config_hash = config_content_hash rt cfg, rw_detection_rule_version = cg_detection_rule_version cfg,
     rw_trades_evaluated = ta_trades t portfolio_id,
     rw_observations_ingested = int (length (filter (\<lambda>raw. ob_portfolio_id raw = portfolio_id) raws)),
     rw_clean_trades = ta_clean t portfolio_id, rw_broken_trades = ta_broken t portfolio_id,
     rw_break_count = int (length (ta_breaks t portfolio_id)), rw_status = ''COMPLETED'',
     rw_started_at = started_at, rw_completed_at = started_at\<rparr>"

fun persist_runs ::
    "(string \<Rightarrow> datetime) \<Rightarrow> (string \<Rightarrow> RunRow) \<Rightarrow> (string \<Rightarrow> TradeBreak list) \<Rightarrow> string list \<Rightarrow> unit service" where
  "persist_runs now row breaks [] = ret ()"
| "persist_runs now row breaks (p # ps) =
     andthen (adapter (persist_run (now p) (row p) (breaks p))) (\<lambda>_. persist_runs now row breaks ps)"

record RunOutcome =
  ro_run_id :: string
  ro_trades_evaluated :: int
  ro_clean_trades :: int
  ro_broken_trades :: int
  ro_break_count :: int
  ro_config_hash :: string

text \<open>\<open>now\<close> gives the time at which the row of a portfolio is written.\<close>

definition run_reconciliation :: "runtime \<Rightarrow> datetime \<Rightarrow> (string \<Rightarrow> datetime) \<Rightarrow> RunOutcome service" where
  "run_reconciliation rt started_at now = andthen (get scoped_documents) (\<lambda>raws.
     if raws = [] then raise (Raised (ValueError ''no observations ingested; load demo data first'')) else
     andthen (computed load_mvp_source_of_truth_policy) (\<lambda>policy.
     andthen (computed fixture_config) (\<lambda>cfg.
     let run_id = ''run_'' @ run_stamp started_at in
     andthen (computed (efold (tally_group rt cfg policy run_id) (enumerate 0 (lineage_groups raws)) empty_tally)) (\<lambda>t.
     andthen (adapter (persist_canonical_states (ta_states t))) (\<lambda>_.
     andthen (persist_runs now (run_row rt cfg run_id started_at raws t) (ta_breaks t) DEMO_PORTFOLIO_IDS) (\<lambda>_.
     ret \<lparr>ro_run_id = run_id, ro_trades_evaluated = int (length (ta_states t)),
       ro_clean_trades = over_portfolios t (ta_clean t), ro_broken_trades = over_portfolios t (ta_broken t),
       ro_break_count = over_portfolios t (\<lambda>p. int (length (ta_breaks t p))),
       ro_config_hash = config_content_hash rt cfg\<rparr>))))))"

section \<open>Feeding a correction back\<close>

text \<open>The row of an observation as a mapping: the columns are typed, the payload is the stored JSON document.\<close>

definition row_document :: "runtime \<Rightarrow> Observation \<Rightarrow> (string \<times> pyval) list" where
  "row_document rt ob = map (\<lambda>(k, v). (k, if k = ''payload'' then json_value rt v else v)) (dump_observation ob)"

text \<open>\<open>mapping[key] = value\<close> of a key that is present.\<close>

definition with_entry :: "string \<Rightarrow> 'v \<Rightarrow> (string \<times> 'v) list \<Rightarrow> (string \<times> 'v) list" where
  "with_entry key v = map (\<lambda>(k, w). (k, if k = key then v else w))"

text \<open>\<open>json.dumps(value, default=str)\<close> of a value of the payload; \<open>str\<close> of a date-time separates date and time
  by a space.\<close>

fun fingerprint_json :: "runtime \<Rightarrow> pyval \<Rightarrow> json" where
  "fingerprint_json rt PNone = JNull"
| "fingerprint_json rt (PBool b) = JBool b"
| "fingerprint_json rt (PInt i) = JInt i"
| "fingerprint_json rt (PFloat x) = JFloat (float_repr rt x)"
| "fingerprint_json rt (PStr s) = JStr s"
| "fingerprint_json rt (PDatetime t) = JStr (map (\<lambda>c. if c = CHR ''T'' then CHR '' '' else c) (isoformat t))"
| "fingerprint_json rt (PDate d) = JStr (date_isoformat d)"
| "fingerprint_json rt (PList xs) = JList (map (fingerprint_json rt) xs)"
| "fingerprint_json rt (PMap kvs) = JObj (map (\<lambda>(k, v). (k, fingerprint_json rt v)) kvs)"

text \<open>The corrected payload document: \<open>payload[field_name]\<close> must be a mapping with a value.\<close>

definition corrected_payload ::
    "runtime \<Rightarrow> Observation \<Rightarrow> string \<Rightarrow> string \<Rightarrow> int \<Rightarrow> datetime \<Rightarrow> py_error + (string \<times> pyval) list" where
  "corrected_payload rt prior name approved_value version now = (
     let payload = map (\<lambda>(k, v). (k, json_value rt v)) (dump_fx (ob_payload prior) @ dump_source (ob_source prior)) in
     case map_of payload name of
       None \<Rightarrow> Inl (KeyError name)
     | Some (PMap amount) \<Rightarrow>
         (if ''value'' \<notin> fst ` set amount
          then Inl (ValueError (''payload field '' @ name @ '' is not a correctable amount field''))
          else Inr (with_entry ''last_updated_time'' (PDatetime now) (with_entry ''booking_version'' (PInt version)
            (with_entry name (PMap (with_entry ''value'' (PStr approved_value) amount)) payload))))
     | Some _ \<Rightarrow> Inl (ValueError (''payload field '' @ name @ '' is not a correctable amount field'')))"

definition fingerprint_of :: "runtime \<Rightarrow> (string \<times> pyval) list \<Rightarrow> string" where
  "fingerprint_of rt payload = sha256_tag rt (dumps (JObj (map (\<lambda>(k, v). (k, fingerprint_json rt v))
     (filter (\<lambda>(k, v). k \<noteq> ''record_fingerprint'') payload))))"

definition corrected_document ::
    "runtime \<Rightarrow> Observation \<Rightarrow> datetime \<Rightarrow> string \<Rightarrow> string \<Rightarrow> (string \<times> pyval) list \<Rightarrow> (string \<times> pyval) list" where
  "corrected_document rt prior now observation_id event_id payload =
     with_entry ''payload'' (PMap (with_entry ''record_fingerprint'' (PStr (fingerprint_of rt payload)) payload))
     (with_entry ''supersession_reason'' (PStr ''CORRECTION'')
     (with_entry ''supersedes_observation_id'' (PStr (ob_observation_id prior))
     (with_entry ''actor'' (dump_actor REMEDIATION_ACTOR)
     (with_entry ''ingest_time'' (PDatetime now)
     (with_entry ''effective_time'' (PDatetime now)
     (with_entry ''event_time'' (PDatetime now)
     (with_entry ''source_sequence'' (PInt (ob_source_sequence prior + 1))
     (with_entry ''source_version'' (PStr (int_str (version_number prior + 1)))
     (with_entry ''source_event_id'' (PStr event_id)
     (with_entry ''observation_id'' (PStr observation_id) (row_document rt prior)))))))))))"

text \<open>What \<open>model_validate\<close> reads from the corrected document.\<close>

definition correct_fx :: "string \<Rightarrow> string \<Rightarrow> FxPayload \<Rightarrow> FxPayload" where
  "correct_fx name v x =
     (if name = ''base_amount'' then x\<lparr>fx_base_amount := (fx_base_amount x)\<lparr>da_value := v\<rparr>\<rparr>
      else if name = ''terms_amount'' then x\<lparr>fx_terms_amount := (fx_terms_amount x)\<lparr>da_value := v\<rparr>\<rparr>
      else if name = ''quoted_rate'' then x\<lparr>fx_quoted_rate := (fx_quoted_rate x)\<lparr>dr_value := v\<rparr>\<rparr>
      else x)"

fun correct_booking :: "int \<Rightarrow> datetime \<Rightarrow> string \<Rightarrow> SourcePayload \<Rightarrow> SourcePayload" where
  "correct_booking version now fingerprint (BookingSource d) =
     BookingSource (d\<lparr>booking_version := version, last_updated_time := now, record_fingerprint := fingerprint\<rparr>)"
| "correct_booking version now fingerprint src = src"

fun booking_version_of :: "SourcePayload \<Rightarrow> int" where
  "booking_version_of (BookingSource d) = booking_version d"
| "booking_version_of src = 0"

definition corrected_observation ::
    "Observation \<Rightarrow> string \<Rightarrow> string \<Rightarrow> datetime \<Rightarrow> string \<Rightarrow> string \<Rightarrow> string \<Rightarrow> string \<Rightarrow> Observation" where
  "corrected_observation prior name approved_value now observation_id event_id fingerprint content_hash =
     prior\<lparr>ob_observation_id := observation_id, ob_source_event_id := event_id,
       ob_source_version := int_str (version_number prior + 1), ob_source_sequence := ob_source_sequence prior + 1,
       ob_event_time := now, ob_effective_time := now, ob_ingest_time := now, ob_actor := REMEDIATION_ACTOR,
       ob_supersedes_observation_id := Some (ob_observation_id prior), ob_supersession_reason := Some CORRECTION,
       ob_content_hash := content_hash, ob_payload := correct_fx name approved_value (ob_payload prior),
       ob_source := correct_booking (booking_version_of (ob_source prior) + 1) now fingerprint (ob_source prior)\<rparr>"

definition booking_candidates :: "string \<Rightarrow> PgDb \<Rightarrow> Observation list" where
  "booking_candidates trade_id db = filter (\<lambda>raw. ob_kind raw = BOOKING \<and> ob_source_business_key raw = trade_id)
     (observation_documents DEMO_TENANT_ID DEMO_PORTFOLIO_IDS db)"

text \<open>\<open>now\<close> is the clock; the two identifiers carry the random tokens.\<close>

definition ingest_corrected_booking_observation ::
    "runtime \<Rightarrow> datetime \<Rightarrow> string \<Rightarrow> string \<Rightarrow> string \<Rightarrow> string \<Rightarrow> string \<Rightarrow> string service" where
  "ingest_corrected_booking_observation rt now observation_id event_id trade_id field_path approved_value =
     (if \<not> starts_with field_path ''/payload/'' then raise (Raised (ValueError (''unsupported field_path '' @ field_path))) else
      let name = remove_prefix field_path ''/payload/'' in
      andthen (get (booking_candidates trade_id)) (\<lambda>candidates. case candidates of
        [] \<Rightarrow> raise (Raised (ValueError (''no BOOKING observation found for trade_id='' @ trade_id)))
      | c # cs \<Rightarrow>
        let prior = first_max version_number c cs in
        andthen (computed (corrected_payload rt prior name approved_value
          (booking_version_of (ob_source prior) + 1) now)) (\<lambda>payload.
        andthen (computed (compute_observation_content_hash rt
          (corrected_document rt prior now observation_id event_id payload))) (\<lambda>content_hash.
        andthen (computed (validate_observation (corrected_observation prior name approved_value now
          observation_id event_id (fingerprint_of rt payload) content_hash))) (\<lambda>observation.
        andthen (adapter (ingest_observations rt ''raise'' [observation])) (\<lambda>_.
        ret observation_id))))))"

section \<open>Reconciling one trade again\<close>

definition trade_documents :: "string \<Rightarrow> PgDb \<Rightarrow> Observation list" where
  "trade_documents trade_id db = filter (\<lambda>raw. eligible_for_trade raw trade_id) (scoped_documents db)"

record RerunOutcome =
  rr_trade_id :: string
  rr_canonical_state_version :: int
  rr_result :: RunResult
  rr_break_families :: "string list"
  rr_breaks :: "TradeBreak list"
  rr_content_hash :: string
  rr_evaluated_at :: datetime

definition next_state_version :: "string \<Rightarrow> string \<Rightarrow> PgDb \<Rightarrow> int" where
  "next_state_version portfolio_id trade_id db =
     (case canonical_state_document DEMO_TENANT_ID [portfolio_id] trade_id db of
        None \<Rightarrow> 1 | Some s \<Rightarrow> cs_canonical_state_version s + 1)"

definition rerun_trade_reconciliation :: "runtime \<Rightarrow> datetime \<Rightarrow> string \<Rightarrow> RerunOutcome service" where
  "rerun_trade_reconciliation rt evaluated_at trade_id = andthen (get (trade_documents trade_id)) (\<lambda>grp.
     if grp = [] then raise (Raised (ValueError (''no observations found for trade_id='' @ trade_id))) else
     andthen (get (next_state_version (ob_portfolio_id (hd grp)) trade_id)) (\<lambda>version.
     andthen (computed load_mvp_source_of_truth_policy) (\<lambda>policy.
     andthen (computed fixture_config) (\<lambda>cfg.
     andthen (computed (reconcile_lineage_group rt cfg policy (''rerun_'' @ run_stamp evaluated_at) 0 version grp))
       (\<lambda>(canonical, result).
     andthen (adapter (persist_canonical_states [canonical])) (\<lambda>_.
     ret \<lparr>rr_trade_id = trade_id, rr_canonical_state_version = version, rr_result = rn_result result,
       rr_break_families = sort (remdups (map (\<lambda>b. family_str (tb_family b)) (rn_breaks result))),
       rr_breaks = rn_breaks result, rr_content_hash = cs_content_hash canonical,
       rr_evaluated_at = evaluated_at\<rparr>))))))"

section \<open>The summary\<close>

record Summary =
  su_total_observations :: int
  su_total_trades :: int
  su_broken_trades :: int
  su_clean_trades :: int
  su_total_breaks :: int
  su_breaks_by_family :: "(BreakFamily \<times> int) list"
  su_trades_by_product :: "(ProductType \<times> int) list"
  su_latest_run_id :: "string option"
  su_latest_run_completed_at :: "datetime option"
  su_config_hash :: "string option"

definition build_summary :: "PgDb \<Rightarrow> Summary" where
  "build_summary db = (
     let total = observation_count DEMO_TENANT_ID DEMO_PORTFOLIO_IDS db;
         products = product_counts DEMO_TENANT_ID DEMO_PORTFOLIO_IDS db in
     case latest_completed_run_id DEMO_TENANT_ID DEMO_PORTFOLIO_IDS db of
       None \<Rightarrow> \<lparr>su_total_observations = total, su_total_trades = 0, su_broken_trades = 0, su_clean_trades = 0,
         su_total_breaks = 0, su_breaks_by_family = [], su_trades_by_product = products, su_latest_run_id = None,
         su_latest_run_completed_at = None, su_config_hash = None\<rparr>
     | Some run_id \<Rightarrow> (let portfolio_runs = runs_by_run_id DEMO_TENANT_ID DEMO_PORTFOLIO_IDS run_id db in \<lparr>
         su_total_observations = total,
         su_total_trades = sum_list (map rw_trades_evaluated portfolio_runs),
         su_broken_trades = sum_list (map rw_broken_trades portfolio_runs),
         su_clean_trades = sum_list (map rw_clean_trades portfolio_runs),
         su_total_breaks = sum_list (map rw_break_count portfolio_runs),
         su_breaks_by_family = break_family_counts DEMO_TENANT_ID DEMO_PORTFOLIO_IDS (Some run_id) db,
         su_trades_by_product = products, su_latest_run_id = Some run_id,
         su_latest_run_completed_at = Some (latest (rw_completed_at (hd portfolio_runs)) (map rw_completed_at (tl portfolio_runs))),
         su_config_hash = Some (rw_config_hash (hd portfolio_runs))\<rparr>))"

section \<open>Lemmas\<close>

lemma computed_simps [simp, result_simps]:
  "computed (Inr x) s = (Inr x, s)" "computed (Inl e) s = (Inl (Raised e), s)"
  by (simp_all add: computed_def)

lemma computed_Inr [result_simps]: "computed r s = (Inr x, t) \<longleftrightarrow> r = Inr x \<and> t = s"
  by (cases r) auto

lemma computed_state: "computed r s = (q, t) \<Longrightarrow> t = s"
  by (cases r) auto

lemma active_subset: "set (active_observations grp) \<subseteq> set grp"
  by (auto simp: active_observations_def)

lemma first_max_mem: "first_max f x xs \<in> set (x # xs)"
proof (induction xs arbitrary: x)
  case (Cons y ys)
  then show ?case using Cons [of x] Cons [of y] by (auto simp: first_max_def)
qed (simp add: first_max_def)

lemma first_max_ge: "f x \<le> f (first_max f x xs)"
proof (induction xs arbitrary: x)
  case (Cons z zs)
  have e: "first_max f x (z # zs) = first_max f (if f x < f z then z else x) zs" by (simp add: first_max_def)
  show ?case unfolding e using Cons [of z] Cons [of x] by (auto intro: order_trans [rotated] less_imp_le)
qed (simp add: first_max_def)

lemma first_max_greatest: "y \<in> set (x # xs) \<Longrightarrow> f y \<le> f (first_max f x xs)"
proof (induction xs arbitrary: x)
  case (Cons z zs)
  define w where "w = (if f x < f z then z else x)"
  have e: "first_max f x (z # zs) = first_max f w zs" by (simp add: first_max_def w_def)
  have w: "f x \<le> f w" "f z \<le> f w" by (simp_all add: w_def)
  show ?case
  proof (cases "y \<in> set zs")
    case True
    then show ?thesis unfolding e by (intro Cons.IH) simp
  next
    case False
    then have "f y \<le> f w" using Cons.prems w by auto
    also have "\<dots> \<le> f (first_max f w zs)" by (rule first_max_ge)
    finally show ?thesis unfolding e .
  qed
qed (simp add: first_max_def)

lemma most_common_all:
  assumes "xs \<noteq> []" "\<forall>x \<in> set xs. x = k"
  shows "most_common xs = Inr k"
proof -
  have k: "set (firsts id xs) = {k}" using firsts_set(2) [of id xs] assms by (cases xs) auto
  have "distinct (firsts id xs)" using firsts_distinct [of id xs] by simp
  then have "length (firsts id xs) = 1" using distinct_card [of "firsts id xs"] unfolding k by simp
  then have "firsts id xs = [k]" using k by (cases "firsts id xs") auto
  then show ?thesis by (simp add: most_common_def first_max_def)
qed

lemma validated_group:
  assumes "emap validate_observation grp = Inr obs"
  shows "obs = grp" and "ob \<in> set grp \<Longrightarrow> validate_observation ob = Inr ob"
proof -
  show "obs = grp" using assms validate_observation_Inr(1)
    by (induction grp arbitrary: obs) (auto simp: result_simps)
  show "ob \<in> set grp \<Longrightarrow> validate_observation ob = Inr ob"
    using emap_Inr_total [OF assms] validate_observation_Inr(1) by blast
qed

text \<open>A run on an accepted context reports the violated families.\<close>

lemma reconcile_lineage_group_Inr:
  assumes "reconcile_lineage_group rt cfg policy run_id index version grp = Inr (canonical, r)"
  obtains linkage cx where
    "most_common (map ob_source_business_key (active_observations grp)) = Inr (cs_trade_id canonical)"
    "mk_CanonicalTradeState canonical = Inr canonical"
    "mset (cs_source_version_set canonical) = mset (map source_version_item (active_observations grp))"
    "cs_tenant_id canonical = ob_tenant_id (hd (active_observations grp))"
    "cs_portfolio_id canonical = ob_portfolio_id (hd (active_observations grp))"
    "active_observations grp \<noteq> []"
    "linkage_decision (indexed_run_id run_id index) (cs_trade_id canonical) canonical (active_observations grp) = Inr linkage"
    "cx = group_context (indexed_run_id run_id index) canonical (active_observations grp) linkage"
    "mk_ReconciliationContext cx = Inr cx" "run \<lparr>en_runtime = rt, en_config = cfg\<rparr> cx None = Inr r"
proof -
  obtain observations trade_id selection linkage cx where
    o: "emap validate_observation (active_observations grp) = Inr observations"
    and t: "most_common (map ob_source_business_key observations) = Inr trade_id"
    and s: "assemble_canonical_state rt trade_id version selection observations policy
      (ob_correlation_id (hd observations)) ASSEMBLER_ACTOR = Inr canonical"
    and l: "linkage_decision (indexed_run_id run_id index) trade_id canonical observations = Inr linkage"
    and c: "mk_ReconciliationContext (group_context (indexed_run_id run_id index) canonical observations linkage) = Inr cx"
    and r: "run \<lparr>en_runtime = rt, en_config = cfg\<rparr> cx None = Inr r"
    using assms by (auto simp: reconcile_lineage_group_def result_simps)
  have o': "observations = active_observations grp" by (rule validated_group(1) [OF o])
  have cx: "cx = group_context (indexed_run_id run_id index) canonical observations linkage" by (rule context_accepted(1) [OF c])
  obtain locked where k: "locked_source_set rt observations = Inr locked" "mk_CanonicalTradeState canonical = Inr canonical"
    "cs_trade_id canonical = trade_id" "cs_source_version_set canonical = map source_version_item locked"
    using assemble_parts [OF s] by metis
  note lock = locked_source_set_Inr [OF k(1)]
  have m: "mset (cs_source_version_set canonical) = mset (map source_version_item observations)"
    by (simp add: k(4) lock(1))
  have sc: "ob_tenant_id (hd observations) = cs_tenant_id canonical" "ob_portfolio_id (hd observations) = cs_portfolio_id canonical"
  proof -
    have "hd observations \<in> set (cx_source_observations cx)" using lock(2) by (simp add: cx group_context_def)
    from context_accepted(6) [OF c [folded cx] this]
    show "ob_tenant_id (hd observations) = cs_tenant_id canonical" "ob_portfolio_id (hd observations) = cs_portfolio_id canonical"
      by (simp_all add: observation_scope_checks_def Let_def check_simps canonical_scope_def cx group_context_def)
  qed
  show ?thesis
    by (rule that) (use t l c r k(2,3) lock(2) m sc cx in \<open>simp_all add: o'\<close>)
qed

text \<open>A group whose sources are well formed and identify the trade.\<close>

definition linked_sources :: "runtime \<Rightarrow> string \<Rightarrow> Observation list \<Rightarrow> bool" where
  "linked_sources rt trade_id obs \<longleftrightarrow> sources_ok rt trade_id obs \<and>
     (\<forall>ob \<in> set obs. ob_source_business_key ob = trade_id \<and> fx_source_trade_id (ob_payload ob) = trade_id) \<and>
     (\<forall>a \<in> set obs. \<forall>b \<in> set obs. fx_product_type (ob_payload a) = fx_product_type (ob_payload b))"

text \<open>When the sources of a group do not identify one trade.\<close>

definition unlinked :: "string \<Rightarrow> Observation list \<Rightarrow> bool" where
  "unlinked trade_id obs \<longleftrightarrow>
     4 < length obs \<and> 1 < card ((\<lambda>ob. fx_source_trade_id (ob_payload ob)) ` set obs) \<or>
     (\<exists>ob \<in> set obs. ob_source_business_key ob \<noteq> trade_id)"

lemma linkage_decision_invalid:
  assumes "linkage_decision run_id (cs_trade_id canonical) canonical obs = Inr linkage"
  shows "linkage_invalid (group_context rid canonical obs linkage) \<longleftrightarrow> unlinked (cs_trade_id canonical) obs"
proof -
  have n: "length (sort (remdups (map (\<lambda>ob. fx_source_trade_id (ob_payload ob)) obs))) =
      card ((\<lambda>ob. fx_source_trade_id (ob_payload ob)) ` set obs)"
    by (simp add: length_remdups_card_conv)
  have same: "mk_LinkageDecision d = Inr e \<Longrightarrow> e = d" "mk_CandidateLink c = Inr c' \<Longrightarrow> c' = c" for d e c c'
    by (auto simp: mk_LinkageDecision_def mk_CandidateLink_def result_simps check_simps)
  consider "4 < length obs \<and> 1 < card ((\<lambda>ob. fx_source_trade_id (ob_payload ob)) ` set obs)"
    | "\<not> (4 < length obs \<and> 1 < card ((\<lambda>ob. fx_source_trade_id (ob_payload ob)) ` set obs))"
      "\<exists>ob \<in> set obs. ob_source_business_key ob \<noteq> cs_trade_id canonical"
    | "\<not> unlinked (cs_trade_id canonical) obs" unfolding unlinked_def by blast
  then show ?thesis
  proof cases
    case 1
    then have "ld_decision linkage = LINK_AMBIGUOUS"
      using assms unfolding linkage_decision_def Let_def n by (auto simp: result_simps dest!: same)
    then show ?thesis using 1 by (simp add: linkage_invalid_def group_context_def unlinked_def)
  next
    case 2
    have "linkage_decision run_id (cs_trade_id canonical) canonical obs = mk_LinkageDecision
        ((linkage_base run_id canonical obs)\<lparr>ld_decision := LINK_UNMATCHED, ld_reason_code := NO_ELIGIBLE_CANDIDATE\<rparr>)"
      unfolding linkage_decision_def Let_def n by (simp only: 2 if_True if_False simp_thms)
    then have "mk_LinkageDecision ((linkage_base run_id canonical obs)\<lparr>ld_decision := LINK_UNMATCHED,
        ld_reason_code := NO_ELIGIBLE_CANDIDATE\<rparr>) = Inr linkage" using assms by (simp only:)
    from same(1) [OF this] have "ld_decision linkage = LINK_UNMATCHED" by simp
    then show ?thesis using 2 by (auto simp: linkage_invalid_def group_context_def unlinked_def)
  next
    case 3
    then have "linkage = (linkage_base run_id canonical obs)\<lparr>ld_candidate_links := [candidate_link canonical 1 ''2'' (cs_trade_id canonical)],
        ld_chosen_trade_id := Some (cs_trade_id canonical)\<rparr>"
      using assms unfolding linkage_decision_def Let_def n unlinked_def by (auto simp: result_simps dest!: same)
    then show ?thesis using 3 by (simp add: linkage_invalid_def group_context_def linkage_base_def candidate_link_def)
  qed
qed

lemma superseded_inactive:
  assumes "b \<in> set grp" "ob_supersedes_observation_id b = Some i" "i \<noteq> []"
  shows "i \<notin> ob_observation_id ` set (active_observations grp)"
proof -
  have "Some i \<in> ob_supersedes_observation_id ` set grp" using assms(1,2) by (metis image_eqI)
  then show ?thesis using assms(3) by (auto simp: active_observations_def superseded_ids_def)
qed

section \<open>Properties\<close>

text \<open>C14: reconciling a lineage group never uses a superseded revision: the canonical state lists exactly the
  revisions that no other delivery of the group supersedes, and the run reports exactly the break families that
  these violate. The linkage family is among them exactly when a source is filed under another trade, or when
  more than four sources name different trades.\<close>

theorem lineage_group_verdict:
  assumes "reconcile_lineage_group rt cfg policy run_id index version grp = Inr (canonical, r)"
  shows "mset (cs_source_version_set canonical) = mset (map source_version_item (active_observations grp)) \<and>
    (\<forall>b \<in> set grp. \<forall>i. ob_supersedes_observation_id b = Some i \<and> i \<noteq> [] \<longrightarrow>
      i \<notin> si_observation_id ` set (cs_source_version_set canonical)) \<and>
    (\<exists>linkage. linkage_decision (indexed_run_id run_id index) (cs_trade_id canonical) canonical (active_observations grp) = Inr linkage \<and>
      (let cx = group_context (indexed_run_id run_id index) canonical (active_observations grp) linkage in
       tb_family ` set (rn_breaks r) = {F. violated \<lparr>en_runtime = rt, en_config = cfg\<rparr> cx F})) \<and>
    (AMBIGUOUS_OR_UNMATCHED_LINKAGE \<in> tb_family ` set (rn_breaks r) \<longleftrightarrow>
      unlinked (cs_trade_id canonical) (active_observations grp)) \<and>
    (rn_result r = PASS \<longleftrightarrow> rn_breaks r = [])"
proof (rule reconcile_lineage_group_Inr [OF assms])
  fix linkage cx
  assume m: "mset (cs_source_version_set canonical) = mset (map source_version_item (active_observations grp))"
    and l: "linkage_decision (indexed_run_id run_id index) (cs_trade_id canonical) canonical (active_observations grp) = Inr linkage"
    and cx: "cx = group_context (indexed_run_id run_id index) canonical (active_observations grp) linkage"
    and c: "mk_ReconciliationContext cx = Inr cx" and r: "run \<lparr>en_runtime = rt, en_config = cfg\<rparr> cx None = Inr r"
  note v = run_verdict [OF c r]
  have "set (cs_source_version_set canonical) = source_version_item ` set (active_observations grp)"
    using arg_cong [OF m, of set_mset] by simp
  then have ids: "si_observation_id ` set (cs_source_version_set canonical) = ob_observation_id ` set (active_observations grp)"
    by (simp add: image_image source_version_item_def)
  have u: "AMBIGUOUS_OR_UNMATCHED_LINKAGE \<in> tb_family ` set (rn_breaks r) \<longleftrightarrow> unlinked (cs_trade_id canonical) (active_observations grp)"
    unfolding v(1) using linkage_decision_invalid [OF l] by (simp add: cx)
  show ?thesis unfolding ids using m l v u superseded_inactive by (auto simp: Let_def cx)
qed

lemma linkage_accepted:
  assumes "mk_CanonicalTradeState canonical = Inr s" "is_identifier (''decision_'' @ run_id)" "is_identifier trade_id"
    and "obs \<noteq> []" "is_identifier (ob_observation_id (hd obs))"
    and "\<forall>ob \<in> set obs. ob_source_business_key ob = trade_id \<and> fx_source_trade_id (ob_payload ob) = trade_id"
  shows "linkage_decision run_id trade_id canonical obs = Inr ((linkage_base run_id canonical obs)\<lparr>
      ld_candidate_links := [candidate_link canonical 1 ''2'' trade_id], ld_chosen_trade_id := Some trade_id\<rparr>)"
    and "mk_LinkageDecision ((linkage_base run_id canonical obs)\<lparr>
      ld_candidate_links := [candidate_link canonical 1 ''2'' trade_id], ld_chosen_trade_id := Some trade_id\<rparr>) =
      Inr ((linkage_base run_id canonical obs)\<lparr>
      ld_candidate_links := [candidate_link canonical 1 ''2'' trade_id], ld_chosen_trade_id := Some trade_id\<rparr>)"
proof -
  have c: "is_tenant_id (cs_tenant_id canonical)" "is_portfolio_id (cs_portfolio_id canonical)"
    "is_correlation_id (cs_correlation_id canonical)" "aware (cs_source_watermark canonical)"
    using assms(1) by (auto simp: mk_CanonicalTradeState_def CanonicalTradeState_fields_def result_simps check_simps)
  have k: "is_identifier (''match_key_'' @ zfill 3 1)" "is_semantic_version ''1.0.0''"
    "is_sha256_hash (''sha256:'' @ concat (replicate 64 ''2''))" "is_sha256_hash (''sha256:'' @ replicate 64 CHR ''1'')"
    "mk_Actor LINKAGE_ACTOR = Inr LINKAGE_ACTOR"
    by code_simp+
  have link: "mk_CandidateLink (candidate_link canonical 1 ''2'' trade_id) = Inr (candidate_link canonical 1 ''2'' trade_id)"
    using c k assms(3) by (simp add: mk_CandidateLink_def candidate_link_def check_simps)
  define link_c where "link_c = candidate_link canonical 1 ''2'' trade_id"
  have lc: "cl_trade_id link_c = trade_id" "cl_tenant_id link_c = cs_tenant_id canonical"
    "cl_portfolio_id link_c = cs_portfolio_id canonical" by (simp_all add: link_c_def candidate_link_def)
  define L where "L = (linkage_base run_id canonical obs)\<lparr>ld_candidate_links := [link_c], ld_chosen_trade_id := Some trade_id\<rparr>"
  have L: "ld_decision_id L = ''decision_'' @ run_id" "ld_entity_version L = 1" "ld_tenant_id L = cs_tenant_id canonical"
    "ld_portfolio_id L = cs_portfolio_id canonical" "ld_correlation_id L = cs_correlation_id canonical"
    "ld_content_hash L = ''sha256:'' @ replicate 64 CHR ''1''" "ld_created_at L = cs_source_watermark canonical"
    "ld_actor L = LINKAGE_ACTOR" "ld_source_observation_id L = ob_observation_id (hd obs)"
    "ld_deterministic_rule_version L = ''1.0.0''" "ld_decision L = LINK_ACCEPTED" "ld_candidate_links L = [link_c]"
    "ld_chosen_trade_id L = Some trade_id" "ld_reason_code L = EXACT_DETERMINISTIC_KEY"
    by (simp_all add: L_def linkage_base_def)
  have "LinkageDecision_fields L = Inr ()"
    unfolding LinkageDecision_fields_def L using assms(2,3,5) c k link [folded link_c_def]
    by (simp add: checked_def first_error.simps opt_identifier_def del: append.simps)
  moreover have "validate_decision_shape L = Inr ()"
    unfolding validate_decision_shape_def scope_mismatches_def L by (simp add: check_simps lc)
  ultimately have "mk_LinkageDecision L = Inr L" by (simp add: mk_LinkageDecision_def)
  then show d: "mk_LinkageDecision ((linkage_base run_id canonical obs)\<lparr>
      ld_candidate_links := [candidate_link canonical 1 ''2'' trade_id], ld_chosen_trade_id := Some trade_id\<rparr>) =
      Inr ((linkage_base run_id canonical obs)\<lparr>
      ld_candidate_links := [candidate_link canonical 1 ''2'' trade_id], ld_chosen_trade_id := Some trade_id\<rparr>)"
    unfolding L_def link_c_def .
  have "set (map (\<lambda>ob. fx_source_trade_id (ob_payload ob)) obs) = {trade_id}" using assms(4,6) by (cases obs) auto
  then have "length (sort (remdups (map (\<lambda>ob. fx_source_trade_id (ob_payload ob)) obs))) = 1"
    by (simp add: length_remdups_card_conv del: set_map)
  moreover have "\<not> (\<exists>ob \<in> set obs. ob_source_business_key ob \<noteq> trade_id)" using assms(6) by blast
  ultimately show "linkage_decision run_id trade_id canonical obs = Inr ((linkage_base run_id canonical obs)\<lparr>
      ld_candidate_links := [candidate_link canonical 1 ''2'' trade_id], ld_chosen_trade_id := Some trade_id\<rparr>)"
    unfolding linkage_decision_def Let_def by (simp add: link d del: One_nat_def)
qed

lemma group_context_accepted:
  assumes ls: "linked_sources rt trade_id obs" and s: "mk_CanonicalTradeState canonical = Inr canonical"
    and state: "canonical = mvp_state rt trade_id version obs state actor"
      "canonical_fields_from_selection (mvp_selection trade_id obs) = Inr state"
    and ids: "is_identifier run_id" and link: "mk_LinkageDecision linkage = Inr linkage"
    and L: "linkage = (linkage_base run_id canonical obs)\<lparr>
      ld_candidate_links := [candidate_link canonical 1 ''2'' trade_id], ld_chosen_trade_id := Some trade_id\<rparr>"
  shows "mk_ReconciliationContext (group_context run_id canonical obs linkage) = Inr (group_context run_id canonical obs linkage)"
proof -
  define l where "l = sort_key locked_key obs"
  have ok: "sources_ok rt trade_id obs" using ls by (simp add: linked_sources_def)
  have ne: "obs \<noteq> []" using ok unfolding sources_ok_def by (metis empty_iff empty_set)
  then have hd: "hd l \<in> set obs" unfolding l_def by (rule hd_sort_key_mem)
  have sel: "cs_trade_id canonical = trade_id" "cs_state canonical = state" "canonical_scope canonical = scope_of (hd l)"
    "cs_source_watermark canonical = source_watermark_of l" "cs_source_version_set canonical = map source_version_item l"
    by (simp_all add: state(1) mvp_state_def Let_def canonical_scope_def scope_of_def l_def)
  have scope: "scope_of ob = canonical_scope canonical" if "ob \<in> set obs" for ob
    using ok that hd unfolding sources_ok_def sel(3) by blast
  have valid: "validate_observation ob = Inr ob" if "ob \<in> set obs" for ob using ok that by (simp add: sources_ok_def)
  have choice: "mvp_choice trade_id obs f \<in> set obs" for f by (rule mvp_choice_made(2) [OF ok])
  have trade: "fx_source_trade_id (ob_payload ob) = cs_trade_id canonical" if "ob \<in> set obs" for ob
    using ls that unfolding linked_sources_def sel(1) by blast
  have rule: "fx_settlement_rule_version (ob_payload ob) = ''1.0.0''" if "ob \<in> set obs" for ob
    using validate_observation_Inr(3) [OF valid [OF that]] by (auto simp: FxPayload_fields_def check_simps result_simps)
  have product: "fx_product_type (ob_payload ob) = fx_product_type (ob_payload (mvp_choice trade_id obs F_product_type))"
    if "ob \<in> set obs" for ob
    using ls that choice unfolding linked_sources_def by blast
  have fields: "fx_product_type (ob_payload ob) = cf_product_type (cs_state canonical) \<and>
      fx_settlement_rule_version (ob_payload ob) = cf_settlement_rule_version (cs_state canonical)" if "ob \<in> set obs" for ob
    using fields_from_selection [OF state(2), of F_product_type] fields_from_selection [OF state(2), of F_settlement_rule_version]
      product [OF that] rule [OF that] rule [OF choice [of F_settlement_rule_version]] by (simp add: sel(2))
  have water: "instant (ob_ingest_time ob) \<le> instant (cs_source_watermark canonical)" if "ob \<in> set obs" for ob
    using watermark_max(1) [of ob l] that by (simp add: sel(4) l_def)
  have keys: "set (map observation_key obs) = set (map item_key (cs_source_version_set canonical))"
    by (simp add: sel(5) l_def image_image item_key_def source_version_item_def observation_key_def)
  have per: "first_error (observation_scope_checks (group_context run_id canonical obs linkage) ob) = None" if "ob \<in> set obs" for ob
    using scope [OF that] trade [OF that] fields [OF that] water [OF that]
    by (simp add: observation_scope_checks_def Let_def check_simps scope_of_def group_context_def)
  have dist: "\<not> has_dups (map ob_observation_id obs)" using ok by (simp add: has_dups_iff sources_ok_def)
  have "validate_context_scope (group_context run_id canonical obs linkage) = Inr (group_context run_id canonical obs linkage)"
  proof -
    have "ld_source_observation_id linkage \<in> set (map ob_observation_id obs)" using ne by (simp add: L linkage_base_def)
    moreover have "(ld_tenant_id linkage, ld_portfolio_id linkage, ld_correlation_id linkage) = canonical_scope canonical"
      by (simp add: L linkage_base_def canonical_scope_def)
    ultimately show ?thesis using dist keys per
      unfolding validate_context_scope_def Let_def checked_Inr
      by (simp add: check_simps first_error_concat_None group_context_def)
  qed
  moreover have "emap validate_observation obs = Inr obs" using emap_total [of obs validate_observation id] valid by simp
  ultimately show ?thesis
    using s link ne ids
    by (simp add: mk_ReconciliationContext_def group_context_def checked_def first_error.simps mk_opt_def)
qed

text \<open>When an agreeing group can be reconciled: the configuration is in force when the sources arrive.\<close>

definition in_force :: "ReconciliationConfig \<Rightarrow> Observation list \<Rightarrow> bool" where
  "in_force cfg obs \<longleftrightarrow> (\<forall>ob \<in> set obs. instant (cg_effective_from cfg) \<le> instant (ob_ingest_time ob) \<and>
     opt_ok (\<lambda>t. instant (ob_ingest_time ob) < instant t) (cg_effective_to cfg) \<and>
     (\<forall>k. case arrival_rule cfg (fx_product_type (ob_payload ob)) k of Inl _ \<Rightarrow> True
       | Inr rule \<Rightarrow> \<not> isl (add_seconds (ob_ingest_time ob) (aw_window_seconds rule))))"

lemma linked_group_reconciled:
  assumes ls: "linked_sources rt trade_id (active_observations grp)" and hex: "hex_digest (sha256_hexdigest rt)"
    and ids: "is_identifier (indexed_run_id run_id index)" "is_identifier (''decision_'' @ indexed_run_id run_id index)"
    and v: "1 \<le> version"
  obtains state canonical linkage where
    "canonical = mvp_state rt trade_id version (active_observations grp) state ASSEMBLER_ACTOR"
    "canonical_fields_from_selection (mvp_selection trade_id (active_observations grp)) = Inr state"
    "mk_ReconciliationContext (group_context (indexed_run_id run_id index) canonical (active_observations grp) linkage) =
      Inr (group_context (indexed_run_id run_id index) canonical (active_observations grp) linkage)"
    "linkage_decision (indexed_run_id run_id index) trade_id canonical (active_observations grp) = Inr linkage"
    "reconcile_lineage_group rt cfg mvp_source_of_truth_policy run_id index version grp =
      ebind (run \<lparr>en_runtime = rt, en_config = cfg\<rparr>
        (group_context (indexed_run_id run_id index) canonical (active_observations grp) linkage) None)
        (\<lambda>result. Inr (canonical, result))"
proof -
  define obs where "obs = active_observations grp"
  have ok: "sources_ok rt trade_id obs" using ls by (simp add: linked_sources_def obs_def)
  have ne: "obs \<noteq> []" using ok unfolding sources_ok_def by (metis empty_iff empty_set)
  then have hd: "hd obs \<in> set obs" by simp
  have valid: "validate_observation ob = Inr ob" if "ob \<in> set obs" for ob using ok that by (simp add: sources_ok_def)
  have key: "ob_source_business_key ob = trade_id" if "ob \<in> set obs" for ob
    using ls that unfolding linked_sources_def obs_def by blast
  have trade: "is_identifier trade_id" "is_identifier (ob_observation_id (hd obs))"
    using validate_observation_Inr(2) [OF valid [OF hd]] key [OF hd]
    by (auto simp: Observation_fields_def check_simps result_simps)
  have sha: "is_sha256_hash (sha256_tag rt b)" for b
    using hex_digest.tagged_hash_valid [OF hex] by (simp add: sha256_tag_def)
  have actor: "mk_Actor ASSEMBLER_ACTOR = Inr ASSEMBLER_ACTOR" by code_simp
  have choice: "set (map fst (mvp_selection trade_id obs)) = set (map field_name CANONICAL_FIELD_NAMES) \<and>
      ob_correlation_id (hd obs) \<in> ob_correlation_id ` set obs \<and>
      (\<forall>f. hash_right rt (selected (mvp_selection trade_id obs) f) \<and>
        selection_reference (selected (mvp_selection trade_id obs) f) = selection_reference (mvp_choice trade_id obs f))"
    using hd ok mvp_choice_made(2) [OF ok] unfolding mvp_selection_keys(1) by (auto simp: sources_ok_def)
  obtain state where state: "canonical_fields_from_selection (mvp_selection trade_id obs) = Inr state"
    "assemble_canonical_state rt trade_id version (mvp_selection trade_id obs) obs mvp_source_of_truth_policy
      (ob_correlation_id (hd obs)) ASSEMBLER_ACTOR = Inr (mvp_state rt trade_id version obs state ASSEMBLER_ACTOR)"
    by (rule policy_selection_state [OF ok sha trade(1) v actor mvp_selection_keys(2) choice])
  define canonical where "canonical = mvp_state rt trade_id version obs state ASSEMBLER_ACTOR"
  have "mk_CanonicalFields state = Inr state"
    using state(1) mk_CanonicalFields_same unfolding canonical_fields_from_selection_def Let_def by metis
  then have s: "mk_CanonicalTradeState canonical = Inr canonical"
    unfolding canonical_def by (rule mvp_state_accepted [OF ok sha trade(1) v actor])
  have linked: "\<forall>ob \<in> set obs. ob_source_business_key ob = trade_id \<and> fx_source_trade_id (ob_payload ob) = trade_id"
    using ls unfolding linked_sources_def obs_def by blast
  note link = linkage_accepted [OF s ids(2) trade(1) ne trade(2) linked]
  have cx: "mk_ReconciliationContext (group_context (indexed_run_id run_id index) canonical obs linkage) =
      Inr (group_context (indexed_run_id run_id index) canonical obs linkage)"
    if "linkage = (linkage_base (indexed_run_id run_id index) canonical obs)\<lparr>
      ld_candidate_links := [candidate_link canonical 1 ''2'' trade_id], ld_chosen_trade_id := Some trade_id\<rparr>" for linkage
    using group_context_accepted [OF ls [folded obs_def] s canonical_def state(1) ids(1) _ that] link(2) that by simp
  have "emap validate_observation obs = Inr obs" using emap_total [of obs validate_observation id] valid by simp
  moreover have "most_common (map ob_source_business_key obs) = Inr trade_id"
    using most_common_all [of "map ob_source_business_key obs" trade_id] ne key by auto
  ultimately have "reconcile_lineage_group rt cfg mvp_source_of_truth_policy run_id index version grp =
      ebind (run \<lparr>en_runtime = rt, en_config = cfg\<rparr> (group_context (indexed_run_id run_id index) canonical obs
        ((linkage_base (indexed_run_id run_id index) canonical obs)\<lparr>
          ld_candidate_links := [candidate_link canonical 1 ''2'' trade_id], ld_chosen_trade_id := Some trade_id\<rparr>)) None)
        (\<lambda>result. Inr (canonical, result))"
    unfolding reconcile_lineage_group_def obs_def [symmetric]
    by (simp only: ebind_simps resolve_mvp(2) [OF ok] state(2) canonical_def [symmetric] link(1) cx)
  then show ?thesis
    by (rule that [folded obs_def, OF canonical_def state(1) cx [OF refl] link(1)])
qed

text \<open>Two sources whose values of an economic field are within the tolerance of the configuration.\<close>

definition within_rule :: "ReconciliationConfig \<Rightarrow> string \<Rightarrow> Observation \<Rightarrow> Observation \<Rightarrow> bool" where
  "within_rule cfg path a b \<longleftrightarrow>
     (case (decimal_rule cfg (fx_product_type (ob_payload a)) path, field_value a path, field_value b path) of
        (Inr rule, Inr v, Inr w) \<Rightarrow> (case (parse_decimal v, parse_decimal w) of
            (Some x, Some y) \<Rightarrow> within_tolerance x y (dt_tolerance rule) \<noteq> Inr False
          | _ \<Rightarrow> True)
      | _ \<Rightarrow> True)"

text \<open>Sources that agree: the required kinds are there, no revision is contradicted, currencies, side and dates are
  the same, amounts and rates are within tolerance, and every source has the status that is expected of it.\<close>

definition agreeing :: "ReconciliationConfig \<Rightarrow> Observation list \<Rightarrow> bool" where
  "agreeing cfg obs \<longleftrightarrow>
     {EXECUTION, CONFIRMATION, BOOKING} \<subseteq> ob_kind ` set obs \<and>
     (\<forall>a \<in> set obs. \<forall>b \<in> set obs.
        (ob_kind a = ob_kind b \<and> ob_source_version a = ob_source_version b \<longrightarrow> ob_content_hash a = ob_content_hash b) \<and>
        (\<forall>path \<in> set (map fst CURRENCY_FIELDS @ map fst DATE_FIELDS). field_value a path = field_value b path) \<and>
        (\<forall>path \<in> set ECONOMIC_FIELDS. within_rule cfg path a b)) \<and>
     (\<forall>ob \<in> set obs. case lifecycle_rule cfg (ob_kind ob) of Inl _ \<Rightarrow> True
        | Inr rule \<Rightarrow> ls_expected_status rule = fx_lifecycle_status (ob_payload ob))"

lemma agreeing_parts:
  assumes "agreeing cfg obs" "a \<in> set obs" "b \<in> set obs"
  shows "ob_kind a = ob_kind b \<Longrightarrow> ob_source_version a = ob_source_version b \<Longrightarrow> ob_content_hash a = ob_content_hash b"
    and "path \<in> set (map fst CURRENCY_FIELDS) \<union> set (map fst DATE_FIELDS) \<Longrightarrow> field_value a path = field_value b path"
    and "path \<in> set ECONOMIC_FIELDS \<Longrightarrow> within_rule cfg path a b"
    and "lifecycle_rule cfg (ob_kind a) = Inr rule \<Longrightarrow> ls_expected_status rule = fx_lifecycle_status (ob_payload a)"
    and "k \<noteq> TRADE_CAPTURE \<Longrightarrow> \<exists>ob \<in> set obs. ob_kind ob = k"
proof -
  have p: "(ob_kind a = ob_kind b \<and> ob_source_version a = ob_source_version b \<longrightarrow> ob_content_hash a = ob_content_hash b) \<and>
      (\<forall>path \<in> set (map fst CURRENCY_FIELDS @ map fst DATE_FIELDS). field_value a path = field_value b path) \<and>
      (\<forall>path \<in> set ECONOMIC_FIELDS. within_rule cfg path a b)"
    using assms unfolding agreeing_def by blast
  show "ob_kind a = ob_kind b \<Longrightarrow> ob_source_version a = ob_source_version b \<Longrightarrow> ob_content_hash a = ob_content_hash b"
    using p by blast
  show "path \<in> set (map fst CURRENCY_FIELDS) \<union> set (map fst DATE_FIELDS) \<Longrightarrow> field_value a path = field_value b path"
    using p unfolding set_append by blast
  show "path \<in> set ECONOMIC_FIELDS \<Longrightarrow> within_rule cfg path a b" using p by blast
  have "case lifecycle_rule cfg (ob_kind a) of Inl _ \<Rightarrow> True | Inr rule \<Rightarrow> ls_expected_status rule = fx_lifecycle_status (ob_payload a)"
    using assms(1,2) unfolding agreeing_def by blast
  then show "lifecycle_rule cfg (ob_kind a) = Inr rule \<Longrightarrow> ls_expected_status rule = fx_lifecycle_status (ob_payload a)" by simp
  have "{EXECUTION, CONFIRMATION, BOOKING} \<subseteq> ob_kind ` set obs" using assms(1) unfolding agreeing_def by blast
  then have "k \<noteq> TRADE_CAPTURE \<Longrightarrow> k \<in> ob_kind ` set obs" by (cases k) simp_all
  then show "k \<noteq> TRADE_CAPTURE \<Longrightarrow> \<exists>ob \<in> set obs. ob_kind ob = k" by (metis image_iff)
qed

lemma agreeing_violates_nothing:
  assumes ag: "agreeing cfg obs" and ls: "linked_sources rt trade_id obs"
    and product: "\<And>ob. ob \<in> set obs \<Longrightarrow> fx_product_type (ob_payload ob) = cf_product_type (cs_state canonical)"
    and link: "linkage_decision rid trade_id canonical obs = Inr linkage" and tid: "cs_trade_id canonical = trade_id"
  shows "\<not> violated \<lparr>en_runtime = rt, en_config = cfg\<rparr> (group_context rid canonical obs linkage) F"
proof -
  let ?cx = "group_context rid canonical obs linkage"
  let ?en = "\<lparr>en_runtime = rt, en_config = cfg\<rparr>"
  have cx [simp]: "cx_source_observations ?cx = obs" "cx_canonical_state ?cx = canonical" "cx_post_action_verification ?cx = None"
    by (simp_all add: group_context_def)
  have linked: "ob_source_business_key ob = trade_id \<and> fx_source_trade_id (ob_payload ob) = trade_id" if "ob \<in> set obs" for ob
    using ls that unfolding linked_sources_def by blast
  note part = agreeing_parts [OF ag]
  show ?thesis
  proof (cases F)
    case MISSING_REQUIRED_SOURCE
    have "\<not> source_overdue ?en ?cx k" for k
    proof (cases "k = TRADE_CAPTURE")
      case False
      have "obs \<noteq> []" using ls unfolding linked_sources_def sources_ok_def by (metis empty_iff empty_set)
      then have "hd obs \<in> set obs" by simp
      then show ?thesis using part(5) [OF _ _ False] by (auto simp: source_overdue_def)
    qed (simp add: source_overdue_def)
    then show ?thesis using MISSING_REQUIRED_SOURCE by simp
  next
    case AMBIGUOUS_OR_UNMATCHED_LINKAGE
    have "(\<lambda>ob. fx_source_trade_id (ob_payload ob)) ` set obs \<subseteq> {trade_id}" using linked by blast
    then have "card ((\<lambda>ob. fx_source_trade_id (ob_payload ob)) ` set obs) \<le> 1" using card_mono [of "{trade_id}"] by fastforce
    then have "\<not> unlinked trade_id obs" using linked unfolding unlinked_def by fastforce
    then show ?thesis using AMBIGUOUS_OR_UNMATCHED_LINKAGE linkage_decision_invalid [of rid canonical obs linkage rid] link by (simp add: tid)
  next
    case DUPLICATE_SOURCE_CONFLICT_FAMILY
    show ?thesis using part(1) unfolding DUPLICATE_SOURCE_CONFLICT_FAMILY violated.simps content_conflict_def cx by blast
  next
    case CURRENCY_PAIR_OR_SIDE_MISMATCH
    show ?thesis using part(2) unfolding CURRENCY_PAIR_OR_SIDE_MISMATCH violated.simps fields_disagree_def authority_def cx by blast
  next
    case TRADE_OR_VALUE_DATE_MISMATCH
    show ?thesis using part(2) unfolding TRADE_OR_VALUE_DATE_MISMATCH violated.simps fields_disagree_def authority_def cx by blast
  next
    case ECONOMIC_VALUE_MISMATCH
    have "\<not> field_outside_tolerance ?en ?cx path" if "path \<in> set ECONOMIC_FIELDS" for path
    proof
      assume "field_outside_tolerance ?en ?cx path"
      then obtain base ob rule v w x y where o: "base \<in> set obs" "ob \<in> set obs"
        "decimal_rule cfg (cf_product_type (cs_state canonical)) path = Inr rule" "field_value base path = Inr v"
        "field_value ob path = Inr w" "parse_decimal v = Some x" "parse_decimal w = Some y"
        "within_tolerance x y (dt_tolerance rule) = Inr False"
        unfolding field_outside_tolerance_def authority_def by auto
      from part(3) [OF o(1,2) that] o(3-) product [OF o(1)] show False by (simp add: within_rule_def)
    qed
    then show ?thesis using ECONOMIC_VALUE_MISMATCH by (simp add: outside_tolerance_def)
  next
    case LIFECYCLE_STATUS_MISMATCH
    show ?thesis using part(4) unfolding LIFECYCLE_STATUS_MISMATCH violated.simps lifecycle_inconsistent_def cx by force
  next
    case POST_ACTION_VERIFICATION_FAILURE
    then show ?thesis by (simp add: action_unverified_def)
  qed
qed

lemma agreeing_group_passes:
  assumes ls: "linked_sources rt trade_id (active_observations grp)" and hex: "hex_digest (sha256_hexdigest rt)"
    and ids: "is_identifier (indexed_run_id run_id index)" "is_identifier (''decision_'' @ indexed_run_id run_id index)"
    and v: "1 \<le> version" and cfg: "mk_ReconciliationConfig cfg = Inr cfg" and force: "in_force cfg (active_observations grp)"
    and ag: "agreeing cfg (active_observations grp)"
  shows "\<exists>canonical r. reconcile_lineage_group rt cfg mvp_source_of_truth_policy run_id index version grp = Inr (canonical, r) \<and>
    cs_trade_id canonical = trade_id \<and> cs_canonical_state_version canonical = version \<and> rn_result r = PASS \<and> rn_breaks r = []"
proof (rule linked_group_reconciled [OF ls hex ids v])
  fix state canonical linkage
  let ?obs = "active_observations grp"
  let ?cx = "group_context (indexed_run_id run_id index) canonical ?obs linkage"
  assume c: "canonical = mvp_state rt trade_id version ?obs state ASSEMBLER_ACTOR"
    and cx: "mk_ReconciliationContext ?cx = Inr ?cx"
    and link: "linkage_decision (indexed_run_id run_id index) trade_id canonical ?obs = Inr linkage"
    and e: "reconcile_lineage_group rt cfg mvp_source_of_truth_policy run_id index version grp =
      ebind (run \<lparr>en_runtime = rt, en_config = cfg\<rparr> ?cx None) (\<lambda>result. Inr (canonical, result))"
  have sel: "cs_trade_id canonical = trade_id" "cs_canonical_state_version canonical = version"
    "cs_source_watermark canonical = source_watermark_of (sort_key locked_key ?obs)" by (simp_all add: c mvp_state_def Let_def)
  have product: "fx_product_type (ob_payload ob) = cf_product_type (cs_state canonical)" if "ob \<in> set ?obs" for ob
    using context_accepted(6) [OF cx, of ob] that by (simp add: observation_scope_checks_def Let_def check_simps group_context_def)
  have "?obs \<noteq> []" using context_accepted(7) [OF cx] by (simp add: group_context_def)
  then have "hd ?obs \<in> set (sort_key locked_key ?obs)" by simp
  then obtain x where x: "x \<in> set ?obs" "cs_source_watermark canonical = ob_ingest_time x"
    unfolding sel(3) using watermark_max(2) by (metis set_sort)
  have now: "effective_evaluated_at ?cx = ob_ingest_time x" "cx_canonical_state ?cx = canonical"
    using x(2) by (simp_all add: effective_evaluated_at_def group_context_def)
  have force_x: "instant (cg_effective_from cfg) \<le> instant (ob_ingest_time x) \<and>
      opt_ok (\<lambda>t. instant (ob_ingest_time x) < instant t) (cg_effective_to cfg) \<and>
      (\<forall>k. case arrival_rule cfg (fx_product_type (ob_payload x)) k of Inl _ \<Rightarrow> True
         | Inr rule \<Rightarrow> \<not> isl (add_seconds (ob_ingest_time x) (aw_window_seconds rule)))"
    using force x(1) unfolding in_force_def by blast
  then have f: "instant (cg_effective_from cfg) \<le> instant (ob_ingest_time x)"
    "opt_ok (\<lambda>t. instant (ob_ingest_time x) < instant t) (cg_effective_to cfg)" by simp_all
  have d: "\<not> isl (add_seconds (ob_ingest_time x) (aw_window_seconds rule))"
    if "arrival_rule cfg (fx_product_type (ob_payload x)) k = Inr rule" for k rule
    using force_x that by (metis old.sum.simps(6))
  have "\<exists>r. run \<lparr>en_runtime = rt, en_config = cfg\<rparr> ?cx None = Inr r \<and> rn_result r = PASS \<and> rn_breaks r = []"
  proof (rule clean_run [OF cx])
    show "\<exists>t. add_seconds (cs_source_watermark (cx_canonical_state ?cx)) (aw_window_seconds rule) = Inr t"
      if "arrival_rule (en_config \<lparr>en_runtime = rt, en_config = cfg\<rparr>) (cf_product_type (cs_state (cx_canonical_state ?cx))) k = Inr rule" for k rule
      using d [of k rule] that product [OF x(1)] unfolding now x(2) by (metis engine.select_convs(2) sum.collapse(2))
    show "\<not> violated \<lparr>en_runtime = rt, en_config = cfg\<rparr> ?cx F" for F
      by (rule agreeing_violates_nothing [OF ag ls product link sel(1)])
  qed (use cfg hex f(1,2) in \<open>simp_all add: now\<close>)
  then show ?thesis using sel(1,2) unfolding e by auto
qed

text \<open>The next version of a state is new.\<close>

lemma next_state_version_new:
  assumes "s \<in> set (pg_states db)" "cs_tenant_id s = DEMO_TENANT_ID" "cs_portfolio_id s = p" "cs_trade_id s = trade_id"
  shows "cs_canonical_state_version s < next_state_version p trade_id db"
proof -
  define xs where "xs = filter (\<lambda>s. cs_tenant_id s = DEMO_TENANT_ID \<and> cs_portfolio_id s = p \<and> cs_trade_id s = trade_id) (pg_states db)"
  have nv: "next_state_version p trade_id db = (case first_row (\<lambda>s. - cs_canonical_state_version s) xs of
      None \<Rightarrow> 1 | Some s \<Rightarrow> cs_canonical_state_version s + 1)"
    by (simp add: next_state_version_def canonical_state_document_def xs_def)
  have mem: "s \<in> set xs" using assms by (simp add: xs_def)
  then have ne: "xs \<noteq> []" by auto
  have "- cs_canonical_state_version (hd (sort_key (\<lambda>s. - cs_canonical_state_version s) xs)) \<le> - cs_canonical_state_version s"
    by (rule hd_sort_key_min [OF ne mem])
  moreover have "first_row (\<lambda>s. - cs_canonical_state_version s) xs = Some (hd (sort_key (\<lambda>s. - cs_canonical_state_version s) xs))"
    using ne by (cases "sort_key (\<lambda>s. - cs_canonical_state_version s) xs") (auto simp: first_row_def)
  ultimately show ?thesis by (simp add: nv)
qed

lemma next_state_version_pos: "\<forall>s \<in> set (pg_states db). 1 \<le> cs_canonical_state_version s \<Longrightarrow> 1 \<le> next_state_version p trade_id db"
proof -
  assume pos: "\<forall>s \<in> set (pg_states db). 1 \<le> cs_canonical_state_version s"
  define xs where "xs = filter (\<lambda>s. cs_tenant_id s = DEMO_TENANT_ID \<and> cs_portfolio_id s = p \<and> cs_trade_id s = trade_id) (pg_states db)"
  have nv: "next_state_version p trade_id db = (case first_row (\<lambda>s. - cs_canonical_state_version s) xs of
      None \<Rightarrow> 1 | Some s \<Rightarrow> cs_canonical_state_version s + 1)"
    by (simp add: next_state_version_def canonical_state_document_def xs_def)
  show ?thesis
  proof (cases "sort_key (\<lambda>s. - cs_canonical_state_version s) xs")
    case Nil
    then show ?thesis by (simp add: nv first_row_def)
  next
    case (Cons s ss)
    then have "s \<in> set (sort_key (\<lambda>s. - cs_canonical_state_version s) xs)" by simp
    then have "1 \<le> cs_canonical_state_version s" using pos by (simp add: xs_def)
    then show ?thesis using Cons by (simp add: nv first_row_def)
  qed
qed

lemma scoped_documents_demo: "ob \<in> set (scoped_documents db) \<Longrightarrow> in_demo_scope ob"
  by (auto simp: scoped_documents_def observation_documents_def conflict_documents_def in_demo_scope_def)

text \<open>C15: when the current revisions of a trade are well formed, identify it and agree, reconciling the trade again
  returns \<open>PASS\<close> without breaks and appends exactly the next version of its canonical state; nothing else is
  written.\<close>

theorem rerun_of_agreeing_trade_passes:
  assumes ls: "linked_sources rt trade_id (active_observations (trade_documents trade_id db))"
    and hex: "hex_digest (sha256_hexdigest rt)"
    and ids: "is_identifier (indexed_run_id (''rerun_'' @ run_stamp evaluated_at) 0)"
      "is_identifier (''decision_'' @ indexed_run_id (''rerun_'' @ run_stamp evaluated_at) 0)"
    and cfg: "fixture_config = Inr cfg" and force: "in_force cfg (active_observations (trade_documents trade_id db))"
    and ag: "agreeing cfg (active_observations (trade_documents trade_id db))"
    and states: "\<forall>s \<in> set (pg_states db). 1 \<le> cs_canonical_state_version s"
    and version: "version = next_state_version (ob_portfolio_id (hd (trade_documents trade_id db))) trade_id db" "pg_integer version"
    and one: "\<forall>a \<in> set (trade_documents trade_id db). \<forall>b \<in> set (trade_documents trade_id db). ob_portfolio_id a = ob_portfolio_id b"
  shows "\<exists>canonical out. rerun_trade_reconciliation rt evaluated_at trade_id db =
      (Inr out, db\<lparr>pg_states := pg_states db @ [pg_state canonical]\<rparr>) \<and>
    cs_trade_id canonical = trade_id \<and> cs_canonical_state_version canonical = version \<and>
    rr_result out = PASS \<and> rr_break_families out = [] \<and> rr_canonical_state_version out = version"
proof -
  define grp where "grp = trade_documents trade_id db"
  have config: "mk_ReconciliationConfig cfg = Inr cfg"
    using cfg config_accepted(1) unfolding fixture_config_def by blast
  have v1: "1 \<le> version" unfolding version(1) by (rule next_state_version_pos [OF states])
  obtain canonical r where r: "reconcile_lineage_group rt cfg mvp_source_of_truth_policy (''rerun_'' @ run_stamp evaluated_at) 0 version grp =
      Inr (canonical, r)" "cs_trade_id canonical = trade_id" "cs_canonical_state_version canonical = version"
      "rn_result r = PASS" "rn_breaks r = []"
    using agreeing_group_passes [OF ls hex ids v1 config force ag] unfolding grp_def by blast
  obtain linkage cx where g: "active_observations grp \<noteq> []" "mk_CanonicalTradeState canonical = Inr canonical"
      "cs_tenant_id canonical = ob_tenant_id (hd (active_observations grp))"
      "cs_portfolio_id canonical = ob_portfolio_id (hd (active_observations grp))"
    by (rule reconcile_lineage_group_Inr [OF r(1)]) blast
  have hd: "hd (active_observations grp) \<in> set grp" using g(1) active_subset [of grp] by (meson hd_in_set subsetD)
  then have ne: "grp \<noteq> []" by auto
  then have "hd grp \<in> set grp" by simp
  then have p: "cs_portfolio_id canonical = ob_portfolio_id (hd grp)" using one hd unfolding g(4) grp_def [symmetric] by blast
  have "hd (active_observations grp) \<in> set (scoped_documents db)" using hd by (simp add: grp_def trade_documents_def)
  then have t: "cs_tenant_id canonical = DEMO_TENANT_ID" using scoped_documents_demo g(3) by (simp add: in_demo_scope_def)
  have new: "state_key canonical \<notin> state_key ` set (pg_states db)"
  proof
    assume "state_key canonical \<in> state_key ` set (pg_states db)"
    then obtain s where s: "s \<in> set (pg_states db)" "state_key s = state_key canonical" by force
    then have "cs_canonical_state_version s < next_state_version (ob_portfolio_id (hd grp)) trade_id db"
      using t p r(2) by (intro next_state_version_new) (auto simp: state_key_def)
    then show False using s(2) r(3) version(1) by (simp add: state_key_def grp_def)
  qed
  have "cs_entity_version canonical = 1"
    using r(1) by (auto simp: reconcile_lineage_group_def assemble_canonical_state_def result_simps split: if_splits
        dest!: mk_CanonicalTradeState_same)
  then have "pg_integer (cs_entity_version canonical)" by (simp add: pg_integer_def)
  then have stored: "persist_canonical_states [canonical] db = (Inr 1, db\<lparr>pg_states := pg_states db @ [pg_state canonical]\<rparr>)"
    using new version(2) r(3) by (simp add: persist_canonical_states_def transaction_def)
  have "rerun_trade_reconciliation rt evaluated_at trade_id db =
      (Inr \<lparr>rr_trade_id = trade_id, rr_canonical_state_version = version, rr_result = rn_result r,
       rr_break_families = sort (remdups (map (\<lambda>b. family_str (tb_family b)) (rn_breaks r))),
       rr_breaks = rn_breaks r, rr_content_hash = cs_content_hash canonical,
       rr_evaluated_at = evaluated_at\<rparr>, db\<lparr>pg_states := pg_states db @ [pg_state canonical]\<rparr>)"
    using ne r(1) unfolding rerun_trade_reconciliation_def grp_def version(1)
    by (simp add: mvp_policy_accepted cfg andthen_def translate_def stored)
  then show ?thesis using r by auto
qed

lemma corrected_kind: "ob_kind prior = BOOKING \<Longrightarrow> ob_kind (corrected_observation prior name v now oid eid fp h) = BOOKING"
  by (cases "ob_source prior") (auto simp: corrected_observation_def ob_kind_def)

lemma corrected_version:
  "version_number (corrected_observation prior name v now oid eid fp h) = version_number prior + 1"
proof -
  have "0 \<le> version_number prior + 1" by (simp add: version_number_def)
  then have "int_str (version_number prior + 1) = digits_of (nat (version_number prior + 1))" by (simp add: int_str_def)
  then show ?thesis using \<open>0 \<le> version_number prior + 1\<close> by (simp add: corrected_observation_def version_number_def)
qed

lemma booking_candidate:
  "raw \<in> set (booking_candidates trade_id db) \<longleftrightarrow>
     raw \<in> set (pg_inbox db) \<and> in_demo_scope raw \<and> ob_kind raw = BOOKING \<and> ob_source_business_key raw = trade_id"
  by (auto simp: booking_candidates_def observation_documents_def in_demo_scope_def)

text \<open>The revision of a correction has a version of its own.\<close>

lemma corrected_key_new:
  assumes "prior \<in> set (booking_candidates trade_id db)"
    and "\<And>c. c \<in> set (booking_candidates trade_id db) \<Longrightarrow> version_number c \<le> version_number prior"
    and "row \<in> set (pg_inbox db)"
  shows "identity_key row \<noteq> identity_key (corrected_observation prior name v now oid eid fp h)"
proof
  define ob where "ob = corrected_observation prior name v now oid eid fp h"
  assume "identity_key row = identity_key (corrected_observation prior name v now oid eid fp h)"
  then have k: "identity_key row = identity_key ob" by (simp add: ob_def)
  have "ob_kind ob = BOOKING" using assms(1) corrected_kind by (simp add: ob_def booking_candidate)
  then have "row \<in> set (booking_candidates trade_id db)"
    using assms(1,3) k by (simp add: booking_candidate identity_key_def in_demo_scope_def) (simp add: ob_def corrected_observation_def)
  then have "version_number row \<le> version_number prior" by (rule assms(2))
  moreover have "version_number row = version_number ob" using k by (simp add: identity_key_def version_number_def)
  ultimately show False by (simp add: ob_def corrected_version)
qed

lemma correctable_field:
  assumes "corrected_payload rt prior name v version now = Inr payload" "ob_kind prior = BOOKING"
  shows "name \<in> {''base_amount'', ''terms_amount'', ''quoted_rate''}"
proof (rule ccontr)
  assume n: "name \<notin> {''base_amount'', ''terms_amount'', ''quoted_rate''}"
  obtain d where d: "ob_source prior = BookingSource d" using assms(2) by (cases "ob_source prior") (auto simp: ob_kind_def)
  define entries where "entries = dump_fx (ob_payload prior) @ dump_source (ob_source prior)"
  have "\<forall>(k, w) \<in> set entries. k \<in> {''base_amount'', ''terms_amount'', ''quoted_rate''} \<or> (\<forall>kvs. json_value rt w \<noteq> PMap kvs)"
    by (auto simp: entries_def dump_fx_def d json_value_def dump_optional_def split: option.splits)
  moreover obtain amount where "map_of (map (\<lambda>(k, w). (k, json_value rt w)) entries) name = Some (PMap amount)"
    using assms(1) by (auto simp: corrected_payload_def Let_def entries_def split: option.splits pyval.splits)
  then have "(name, PMap amount) \<in> set (map (\<lambda>(k, w). (k, json_value rt w)) entries)" by (rule map_of_SomeD)
  then obtain w where "(name, w) \<in> set entries" "json_value rt w = PMap amount" by auto
  ultimately show False using n by fastforce
qed

text \<open>What the current revisions of a trade become when a revision replaces its predecessor.\<close>

lemma active_after_revision:
  assumes "set docs' = insert ob (set docs)" "ob_supersedes_observation_id ob = Some i" "i \<noteq> []" "ob_observation_id ob \<noteq> i"
    and "\<forall>x \<in> set docs. ob_supersedes_observation_id x \<noteq> Some (ob_observation_id ob)"
  shows "set (active_observations docs') = insert ob {x \<in> set (active_observations docs). ob_observation_id x \<noteq> i}"
proof -
  have "superseded_ids docs' = insert i (superseded_ids docs)"
    using assms(1,2,3) by (auto simp: superseded_ids_def)
  moreover have "ob_observation_id ob \<notin> superseded_ids docs" using assms(5) by (auto simp: superseded_ids_def)
  ultimately show ?thesis using assms(1,4) by (auto simp: active_observations_def)
qed

lemma adapter_Inl [result_simps]: "adapter m s = (Inl e, t) \<longleftrightarrow> (\<exists>x. e = FromAdapter x \<and> m s = (Inl x, t))"
  by (auto simp: translate_def split: prod.splits sum.splits)

lemma ingestion_rolled_back: "ingest_observations rt mode obs db = (Inl e, db') \<Longrightarrow> db' = db"
  by (auto simp: ingest_observations_def raise_def transaction_Inl split: if_splits)

lemma prefix_removed: "starts_with s p \<Longrightarrow> s = p @ remove_prefix s p"
  by (metis append_take_drop_id starts_with_def remove_prefix_def)

lemma insert_new_revision:
  assumes "ingest_observations rt ''raise'' [ob] db = (Inr s, db')" "\<forall>row \<in> set (pg_inbox db). identity_key row \<noteq> identity_key ob"
  shows "hash_right rt ob \<and> db' = db\<lparr>pg_inbox := pg_inbox db @ [pg_row ob]\<rparr>"
proof -
  obtain s1 where one: "ingest_one rt ''raise'' ob \<lparr>is_inserted = 0, is_replayed = 0, is_conflicted = 0\<rparr> db = (Inr s1, db')"
    using assms(1) by (auto simp: ingest_observations_def transaction_Inr result_simps)
  obtain h where h: "check_hash rt ob = Inr h" using one by (cases "check_hash rt ob") (auto simp: ingest_one_def)
  have "List.find (\<lambda>row. identity_key row = identity_key ob) (pg_inbox db) = None" using assms(2) by (simp add: find_None_iff)
  then have "db' = db\<lparr>pg_inbox := pg_inbox db @ [pg_row ob]\<rparr>"
    using one h by (auto simp: ingest_one_def insert_observation_def andthen_def ret_def split: if_splits)
  then show ?thesis using h by (auto simp: hash_right_iff)
qed

lemma scoped_documents_set: "ob \<in> set (scoped_documents db) \<longleftrightarrow>
    in_demo_scope ob \<and> (ob \<in> set (pg_inbox db) \<or> ob \<in> cw_observation ` set (pg_conflicts db))"
  by (auto simp: scoped_documents_def observation_documents_def conflict_documents_def in_demo_scope_def)

text \<open>C13: a correction that returns has appended one booking revision and written nothing else, and one that
  raises has written nothing. The revision is accepted and carries the right fingerprint; it supersedes the latest
  booking of the trade, has the next version, and differs from it in its economic terms only by the approved value
  of the named amount. From then on the trade is reconciled with the new revision in place of the superseded one.\<close>

theorem correction_replaces_booking:
  assumes run: "ingest_corrected_booking_observation rt now oid eid trade_id path v db = (res, db')"
    and fresh: "\<forall>x \<in> set (scoped_documents db). ob_observation_id x \<noteq> oid \<and> ob_supersedes_observation_id x \<noteq> Some oid"
  shows "case res of
      Inl e \<Rightarrow> db' = db
    | Inr i \<Rightarrow> i = oid \<and> (\<exists>prior name ob. prior \<in> set (booking_candidates trade_id db) \<and>
        (\<forall>c \<in> set (booking_candidates trade_id db). version_number c \<le> version_number prior) \<and>
        path = ''/payload/'' @ name \<and> name \<in> {''base_amount'', ''terms_amount'', ''quoted_rate''} \<and>
        validate_observation ob = Inr ob \<and> hash_right rt ob \<and> ob_kind ob = BOOKING \<and> ob_source_business_key ob = trade_id \<and>
        ob_observation_id ob = oid \<and> ob_supersedes_observation_id ob = Some (ob_observation_id prior) \<and>
        version_number ob = version_number prior + 1 \<and> ob_payload ob = correct_fx name v (ob_payload prior) \<and>
        db' = db\<lparr>pg_inbox := pg_inbox db @ [pg_row ob]\<rparr> \<and>
        set (active_observations (trade_documents trade_id db')) = insert (pg_row ob)
          {x \<in> set (active_observations (trade_documents trade_id db)). ob_observation_id x \<noteq> ob_observation_id prior})"
proof (cases res)
  case (Inl e)
  have "db' = db"
    using run Inl unfolding ingest_corrected_booking_observation_def Let_def
    by (auto simp: result_simps raise_def split: if_splits list.splits dest: computed_state ingestion_rolled_back)
  then show ?thesis using Inl by simp
next
  case (Inr i)
  let ?name = "remove_prefix path ''/payload/''"
  have pre: "starts_with path ''/payload/''"
    using run Inr by (auto simp: ingest_corrected_booking_observation_def raise_def split: if_splits)
  obtain c cs where cs: "booking_candidates trade_id db = c # cs"
    using run Inr pre by (cases "booking_candidates trade_id db") (auto simp: ingest_corrected_booking_observation_def Let_def)
  define prior where "prior = first_max version_number c cs"
  have prior: "prior \<in> set (booking_candidates trade_id db)"
    unfolding prior_def cs by (rule first_max_mem)
  have greatest: "\<And>c. c \<in> set (booking_candidates trade_id db) \<Longrightarrow> version_number c \<le> version_number prior"
    unfolding prior_def cs by (rule first_max_greatest)
  obtain payload h observation s where p: "corrected_payload rt prior ?name v (booking_version_of (ob_source prior) + 1) now = Inr payload"
    and o: "validate_observation (corrected_observation prior ?name v now oid eid (fingerprint_of rt payload) h) = Inr observation"
    and s: "ingest_observations rt ''raise'' [observation] db = (Inr s, db')" and i: "i = oid"
    using run Inr pre cs unfolding ingest_corrected_booking_observation_def Let_def
    by (auto simp: result_simps prior_def)
  define ob where "ob = corrected_observation prior ?name v now oid eid (fingerprint_of rt payload) h"
  have ob: "observation = ob" "validate_observation ob = Inr ob" using o validate_observation_Inr(1) by (auto simp: ob_def)
  have new: "\<forall>row \<in> set (pg_inbox db). identity_key row \<noteq> identity_key ob"
    using corrected_key_new [OF prior greatest] by (simp add: ob_def)
  have db: "hash_right rt ob" "db' = db\<lparr>pg_inbox := pg_inbox db @ [pg_row ob]\<rparr>"
    using insert_new_revision [OF s [unfolded ob(1)] new] by simp_all
  have booking: "in_demo_scope prior" "ob_kind prior = BOOKING" "ob_source_business_key prior = trade_id" "prior \<in> set (pg_inbox db)"
    using prior by (simp_all add: booking_candidate)
  have terms: "ob_kind ob = BOOKING" "ob_source_business_key ob = trade_id" "ob_observation_id ob = oid" "in_demo_scope ob"
    "ob_supersedes_observation_id ob = Some (ob_observation_id prior)" "version_number ob = version_number prior + 1"
    "ob_payload ob = correct_fx ?name v (ob_payload prior)"
    using booking corrected_kind corrected_version by (simp_all add: ob_def) (simp_all add: corrected_observation_def in_demo_scope_def)
  have ne: "ob_observation_id prior \<noteq> []"
    using validate_observation_Inr(2) [OF ob(2)] terms(5)
    by (auto simp: Observation_fields_def check_simps result_simps opt_identifier_def is_identifier_def)
  have docs: "set (trade_documents trade_id db') = insert (pg_row ob) (set (trade_documents trade_id db))"
    using terms(2,4) by (auto simp: trade_documents_def scoped_documents_set db(2) eligible_for_trade_def pg_row_def in_demo_scope_def)
  have "prior \<in> set (scoped_documents db)" using booking by (simp add: scoped_documents_set)
  then have "oid \<noteq> ob_observation_id prior" using fresh by blast
  moreover have "\<forall>x \<in> set (trade_documents trade_id db). ob_supersedes_observation_id x \<noteq> Some oid"
    using fresh by (simp add: trade_documents_def)
  ultimately have active: "set (active_observations (trade_documents trade_id db')) = insert (pg_row ob)
      {x \<in> set (active_observations (trade_documents trade_id db)). ob_observation_id x \<noteq> ob_observation_id prior}"
    using terms(3,5) ne by (intro active_after_revision [OF docs]) (simp_all add: pg_row_def)
  have "path = ''/payload/'' @ ?name" by (rule prefix_removed [OF pre])
  then show ?thesis
    using prior greatest correctable_field [OF p booking(2)] ob(2) db terms active i
    unfolding Inr sum.case by blast
qed

end
