(* ===== verification/Service_Run.thy ===== *)
theory Service_Run
  imports Service
begin

text \<open>
  What a run over all trades leaves in the tables, and what the summary reports of it: the counters of the run,
  the rows it persists, and the selection of the latest run.
\<close>

section \<open>The counters of a run\<close>

definition tally_ok :: "Tally \<Rightarrow> bool" where
  "tally_ok t \<longleftrightarrow> cs_portfolio_id ` set (ta_states t) \<subseteq> set DEMO_PORTFOLIO_IDS \<and>
     (\<forall>p. ta_trades t p = int (length (filter (\<lambda>s. cs_portfolio_id s = p) (ta_states t))) \<and>
       int (length (filter (\<lambda>s. cs_portfolio_id s = p) (ta_states t))) = ta_clean t p + ta_broken t p \<and> 0 \<le> ta_clean t p \<and> 0 \<le> ta_broken t p \<and>
       (p \<notin> cs_portfolio_id ` set (ta_states t) \<longrightarrow> ta_breaks t p = []) \<and>
       (\<forall>b \<in> set (ta_breaks t p). tb_tenant_id b = DEMO_TENANT_ID \<and> tb_portfolio_id b = p))"

lemma run_breaks_bound:
  assumes "run en cx actor = Inr r" "b \<in> set (rn_breaks r)"
  shows "tb_tenant_id b = cs_tenant_id (cx_canonical_state cx)" "tb_portfolio_id b = cs_portfolio_id (cx_canonical_state cx)"
proof -
  obtain refs found where r: "mk_ReconciliationRun (en_runtime en) r = Inr r"
    and d: "r = (run_draft en cx (case actor of Some a \<Rightarrow> a | None \<Rightarrow> default_actor) refs (sort_key break_order found))
       \<lparr>rn_content_hash := rn_content_hash r\<rparr>"
    using run_Inr [OF assms(1)] by metis
  have "first_error (break_binding_checks r b) = None"
    using r assms(2) by (auto simp: mk_ReconciliationRun_def validate_result_shape_def result_simps check_simps first_error_concat_None)
  then have "tb_tenant_id b = rn_tenant_id r" "tb_portfolio_id b = rn_portfolio_id r"
    by (simp_all add: break_binding_checks_def check_simps)
  moreover have "rn_tenant_id r = cs_tenant_id (cx_canonical_state cx)" "rn_portfolio_id r = cs_portfolio_id (cx_canonical_state cx)"
    by (subst d, simp add: run_draft_def Let_def)+
  ultimately show "tb_tenant_id b = cs_tenant_id (cx_canonical_state cx)" "tb_portfolio_id b = cs_portfolio_id (cx_canonical_state cx)"
    by simp_all
qed

lemma tally_group_ok:
  assumes ok: "tally_ok t" and step: "tally_group rt cfg policy run_id (index, grp) t = Inr t'"
    and scope: "\<forall>ob \<in> set grp. in_demo_scope ob"
  shows "tally_ok t' \<and> length (ta_states t') = Suc (length (ta_states t))"
proof -
  obtain canonical r where r: "reconcile_lineage_group rt cfg policy run_id index 1 grp = Inr (canonical, r)"
    using step by (auto simp: tally_group_def result_simps)
  obtain linkage cx where g: "active_observations grp \<noteq> []"
      "cs_tenant_id canonical = ob_tenant_id (hd (active_observations grp))"
      "cs_portfolio_id canonical = ob_portfolio_id (hd (active_observations grp))"
      "cx = group_context (indexed_run_id run_id index) canonical (active_observations grp) linkage"
      "run \<lparr>en_runtime = rt, en_config = cfg\<rparr> cx None = Inr r"
    by (rule reconcile_lineage_group_Inr [OF r]) blast
  have "hd (active_observations grp) \<in> set grp" using g(1) active_subset [of grp] by (meson hd_in_set subsetD)
  then have demo: "cs_tenant_id canonical = DEMO_TENANT_ID" "cs_portfolio_id canonical \<in> set DEMO_PORTFOLIO_IDS"
    using scope unfolding g(2,3) in_demo_scope_def by blast+
  have bound: "tb_tenant_id b = DEMO_TENANT_ID \<and> tb_portfolio_id b = cs_portfolio_id canonical" if "b \<in> set (rn_breaks r)" for b
    using run_breaks_bound [OF g(5) that] demo(1) by (simp add: g(4) group_context_def)
  have t': "t' = (let p = cs_portfolio_id canonical;
      t = t\<lparr>ta_states := ta_states t @ [canonical], ta_trades := (ta_trades t)(p := ta_trades t p + 1)\<rparr> in
      if rn_breaks r \<noteq> []
      then t\<lparr>ta_broken := (ta_broken t)(p := ta_broken t p + 1), ta_breaks := (ta_breaks t)(p := ta_breaks t p @ rn_breaks r)\<rparr>
      else t\<lparr>ta_clean := (ta_clean t)(p := ta_clean t p + 1)\<rparr>)"
    using step r by (auto simp: tally_group_def Let_def)
  show ?thesis
    using ok demo(2) bound unfolding t' tally_ok_def Let_def
    by (cases "rn_breaks r = []") (auto split: if_splits)
qed

lemma lineage_groups_scope: "grp \<in> set (lineage_groups raws) \<Longrightarrow> set grp \<subseteq> set raws"
  by (auto simp: lineage_groups_def)

lemma tally_groups_ok:
  assumes "efold (tally_group rt cfg policy run_id) gs t = Inr t'" "tally_ok t" "\<forall>(i, grp) \<in> set gs. \<forall>ob \<in> set grp. in_demo_scope ob"
  shows "tally_ok t' \<and> length (ta_states t') = length (ta_states t) + length gs"
  using assms
proof (induction gs arbitrary: t)
  case (Cons g gs)
  obtain i grp where g: "g = (i, grp)" by (cases g)
  obtain t1 where t1: "tally_group rt cfg policy run_id (i, grp) t = Inr t1" "efold (tally_group rt cfg policy run_id) gs t1 = Inr t'"
    using Cons.prems(1) by (auto simp: g result_simps)
  have scope: "\<forall>ob \<in> set grp. in_demo_scope ob" using Cons.prems(3) by (simp add: g)
  note s = tally_group_ok [OF Cons.prems(2) t1(1) scope]
  have "tally_ok t' \<and> length (ta_states t') = length (ta_states t1) + length gs"
    using Cons.prems(3) by (intro Cons.IH [OF t1(2) conjunct1 [OF s]]) simp
  then show ?case using s by simp
qed simp

lemma run_tally_ok:
  assumes "efold (tally_group rt cfg policy run_id) (enumerate 0 (lineage_groups raws)) empty_tally = Inr t"
    and "\<forall>ob \<in> set raws. in_demo_scope ob"
  shows "tally_ok t \<and> length (ta_states t) = length (lineage_groups raws)"
proof -
  have "tally_ok empty_tally" by (simp add: tally_ok_def empty_tally_def)
  moreover have "\<forall>(i, grp) \<in> set (enumerate 0 (lineage_groups raws)). \<forall>ob \<in> set grp. in_demo_scope ob"
    using assms(2) lineage_groups_scope by (auto simp: in_set_enumerate_eq) (metis nth_mem subsetD)
  ultimately show ?thesis using tally_groups_ok [OF assms(1)] by (simp add: empty_tally_def)
qed

lemma over_demo_portfolios:
  assumes "tally_ok t" "\<And>p. p \<notin> cs_portfolio_id ` set (ta_states t) \<Longrightarrow> f p = 0"
  shows "over_portfolios t f = sum_list (map f DEMO_PORTFOLIO_IDS)"
proof -
  let ?ps = "map cs_portfolio_id (ta_states t)"
  have "over_portfolios t f = sum f (set ?ps)"
    unfolding over_portfolios_def by (subst sum_list_distinct_conv_sum_set) simp_all
  also have "\<dots> = sum f (set DEMO_PORTFOLIO_IDS)"
    using assms by (intro sum.mono_neutral_left) (auto simp: tally_ok_def)
  also have "\<dots> = sum_list (map f DEMO_PORTFOLIO_IDS)"
    by (rule sum_list_distinct_conv_sum_set [symmetric]) (simp add: DEMO_PORTFOLIO_IDS_def)
  finally show ?thesis .
qed

lemma tally_at:
  assumes "tally_ok t"
  shows "ta_trades t p = int (length (filter (\<lambda>s. cs_portfolio_id s = p) (ta_states t)))"
    and "ta_trades t p = ta_clean t p + ta_broken t p" and "0 \<le> ta_clean t p" and "0 \<le> ta_broken t p"
    and "p \<notin> cs_portfolio_id ` set (ta_states t) \<Longrightarrow> ta_breaks t p = []"
    and "b \<in> set (ta_breaks t p) \<Longrightarrow> tb_tenant_id b = DEMO_TENANT_ID \<and> tb_portfolio_id b = p"
proof -
  have a: "ta_trades t p = int (length (filter (\<lambda>s. cs_portfolio_id s = p) (ta_states t))) \<and>
       int (length (filter (\<lambda>s. cs_portfolio_id s = p) (ta_states t))) = ta_clean t p + ta_broken t p \<and> 0 \<le> ta_clean t p \<and> 0 \<le> ta_broken t p \<and>
       (p \<notin> cs_portfolio_id ` set (ta_states t) \<longrightarrow> ta_breaks t p = []) \<and>
       (\<forall>b \<in> set (ta_breaks t p). tb_tenant_id b = DEMO_TENANT_ID \<and> tb_portfolio_id b = p)"
    using assms unfolding tally_ok_def by blast
  show "ta_trades t p = int (length (filter (\<lambda>s. cs_portfolio_id s = p) (ta_states t)))"
    "0 \<le> ta_clean t p" "0 \<le> ta_broken t p" using a by blast+
  show "ta_trades t p = ta_clean t p + ta_broken t p" using a by simp
  show "p \<notin> cs_portfolio_id ` set (ta_states t) \<Longrightarrow> ta_breaks t p = []" using a by blast
  show "b \<in> set (ta_breaks t p) \<Longrightarrow> tb_tenant_id b = DEMO_TENANT_ID \<and> tb_portfolio_id b = p" using a by blast
qed

lemma tally_zero:
  assumes "tally_ok t" "p \<notin> cs_portfolio_id ` set (ta_states t)"
  shows "ta_clean t p = 0" "ta_broken t p = 0" "ta_trades t p = 0" "ta_breaks t p = []"
proof -
  note a = tally_at [OF assms(1), where p = p]
  have "filter (\<lambda>s. cs_portfolio_id s = p) (ta_states t) = []" using assms(2) by (auto simp: filter_empty_conv)
  then show "ta_trades t p = 0" unfolding a(1) by simp
  then show "ta_clean t p = 0" "ta_broken t p = 0" using a(2,3,4) by linarith+
  show "ta_breaks t p = []" by (rule a(5) [OF assms(2)])
qed

lemma tally_total:
  assumes "tally_ok t"
  shows "int (length (ta_states t)) = sum_list (map (ta_trades t) DEMO_PORTFOLIO_IDS)"
proof -
  have n: "length (filter (\<lambda>s. cs_portfolio_id s = p) xs) + length (filter (\<lambda>s. cs_portfolio_id s = q) xs) = length xs"
    if "cs_portfolio_id ` set xs \<subseteq> {p, q}" "p \<noteq> q" for p q :: string and xs :: "CanonicalTradeState list"
    using that(1) by (induction xs) (use that(2) in auto)
  have "cs_portfolio_id ` set (ta_states t) \<subseteq> {''portfolio_london'', ''portfolio_sydney''}"
    using assms by (simp add: tally_ok_def DEMO_PORTFOLIO_IDS_def)
  from n [OF this] show ?thesis
    by (simp add: tally_at(1) [OF assms] DEMO_PORTFOLIO_IDS_def)
qed

section \<open>The rows of a run\<close>

definition stored_run :: "datetime \<Rightarrow> RunRow \<Rightarrow> TradeBreak list \<Rightarrow> RunRow" where
  "stored_run now r breaks = r\<lparr>rw_break_count := int (length breaks), rw_started_at := pg_timestamp (rw_started_at r),
     rw_completed_at := pg_timestamp now\<rparr>"

definition stored_breaks :: "RunRow \<Rightarrow> TradeBreak list \<Rightarrow> BreakRow list" where
  "stored_breaks r breaks = map (\<lambda>b. \<lparr>kw_run_id = rw_run_id r, kw_break = b, kw_config_hash = rw_config_hash r\<rparr>) breaks"

lemma insert_breaks_Inr:
  "insert_breaks run_id config_hash breaks db = (Inr (), db') \<Longrightarrow>
    db' = db\<lparr>pg_breaks := pg_breaks db @ map (\<lambda>b. \<lparr>kw_run_id = run_id, kw_break = b, kw_config_hash = config_hash\<rparr>) breaks\<rparr>"
proof (induction breaks arbitrary: db)
  case (Cons b breaks)
  let ?row = "\<lparr>kw_run_id = run_id, kw_break = b, kw_config_hash = config_hash\<rparr>"
  obtain db1 where d: "insert_break ?row db = (Inr (), db1)" "insert_breaks run_id config_hash breaks db1 = (Inr (), db')"
    using Cons.prems by (auto simp: result_simps)
  have "db1 = db\<lparr>pg_breaks := pg_breaks db @ [?row]\<rparr>" using d(1) by (auto simp: insert_break_def split: if_splits)
  then show ?case using Cons.IH [OF d(2)] by simp
qed simp

lemma persist_run_Inr:
  assumes "persist_run now r breaks db = (Inr (), db')"
  shows "db' = db\<lparr>pg_runs := pg_runs db @ [stored_run now r breaks], pg_breaks := pg_breaks db @ stored_breaks r breaks\<rparr>"
proof -
  obtain db1 where d: "insert_run (r\<lparr>rw_break_count := int (length breaks), rw_completed_at := now\<rparr>) db = (Inr (), db1)"
    "insert_breaks (rw_run_id r) (rw_config_hash r) breaks db1 = (Inr (), db')"
    using assms by (auto simp: persist_run_def transaction_Inr result_simps)
  have "db1 = db\<lparr>pg_runs := pg_runs db @ [stored_run now r breaks]\<rparr>"
    using d(1) by (auto simp: insert_run_def stored_run_def split: if_splits)
  then show ?thesis using insert_breaks_Inr [OF d(2)] by (simp add: stored_breaks_def)
qed

lemma persist_runs_Inr:
  "persist_runs now row breaks ps db = (Inr (), db') \<Longrightarrow>
    db' = db\<lparr>pg_runs := pg_runs db @ map (\<lambda>p. stored_run (now p) (row p) (breaks p)) ps,
      pg_breaks := pg_breaks db @ concat (map (\<lambda>p. stored_breaks (row p) (breaks p)) ps)\<rparr>"
proof (induction ps arbitrary: db)
  case (Cons p ps)
  obtain db1 where d: "persist_run (now p) (row p) (breaks p) db = (Inr (), db1)" "persist_runs now row breaks ps db1 = (Inr (), db')"
    using Cons.prems by (auto simp: result_simps)
  show ?case using Cons.IH [OF d(2)] persist_run_Inr [OF d(1)] by simp
qed simp

lemma persist_states_keeps:
  "persist_states_loop states n db = (r, db') \<Longrightarrow> \<exists>xs. db' = db\<lparr>pg_states := pg_states db @ xs\<rparr>"
proof (induction states arbitrary: n db)
  case Nil
  then show ?case by (auto simp: ret_def intro: exI [of _ "[]"])
next
  case (Cons s states)
  show ?case
  proof (cases "state_key s \<in> state_key ` set (pg_states db)")
    case True
    then show ?thesis using Cons by simp
  next
    case False
    note new = False
    show ?thesis
    proof (cases "\<not> pg_integer (cs_entity_version s) \<or> \<not> pg_integer (cs_canonical_state_version s)")
      case True
      then show ?thesis using Cons.prems new by (auto split: if_splits intro: exI [of _ "[]"])
    next
      case False
      then have "persist_states_loop states (n + 1) (db\<lparr>pg_states := pg_states db @ [pg_state s]\<rparr>) = (r, db')"
        using Cons.prems new by simp
      from Cons.IH [OF this] show ?thesis by auto
    qed
  qed
qed

lemma persist_canonical_states_keeps:
  "persist_canonical_states states db = (Inr n, db') \<Longrightarrow> \<exists>xs. db' = db\<lparr>pg_states := pg_states db @ xs\<rparr>"
  by (auto simp: persist_canonical_states_def transaction_Inr dest: persist_states_keeps)

section \<open>The latest run\<close>

lemma insort_key_append: "\<forall>y \<in> set ys. k x \<le> k y \<Longrightarrow> insort_key k x (xs @ ys) = insort_key k x xs @ ys"
  by (induction xs) (auto simp: insort_is_Cons)

lemma sort_key_append_sorted:
  assumes "\<forall>x \<in> set xs. \<forall>y \<in> set ys. k x \<le> k y"
  shows "sort_key k (xs @ ys) = sort_key k xs @ sort_key k ys"
  using assms by (induction xs) (simp_all add: insort_key_append)

lemma latest_first_new:
  assumes "\<forall>r \<in> set old. \<forall>n \<in> set new. instant (rw_completed_at r) \<le> instant (rw_completed_at n)" and "new \<noteq> []"
  shows "\<exists>n ns. n \<in> set new \<and> latest_first (old @ new) = n # ns"
proof -
  have "latest_first (old @ new) = sort_key (\<lambda>r. - instant (rw_completed_at r)) (rev new) @ sort_key (\<lambda>r. - instant (rw_completed_at r)) (rev old)"
    unfolding latest_first_def rev_append using assms(1) by (intro sort_key_append_sorted) simp
  moreover obtain n ns where n: "sort_key (\<lambda>r. - instant (rw_completed_at r)) (rev new) = n # ns"
    using assms(2) by (cases "sort_key (\<lambda>r. - instant (rw_completed_at r)) (rev new)") auto
  moreover have "n \<in> set new" using arg_cong [OF n, of set] by auto
  ultimately show ?thesis by auto
qed

lemma family_counts_total:
  "sum_list (map snd (map (\<lambda>f. (f, int (length (filter (\<lambda>r. tb_family (kw_break r) = f) rs))))
     (filter (\<lambda>f. \<exists>r \<in> set rs. tb_family (kw_break r) = f) BREAK_FAMILY_ORDER))) = int (length rs)"
proof -
  have skip: "sum_list (map (\<lambda>f. int (length (filter (\<lambda>r. tb_family (kw_break r) = f) rs)))
      (filter (\<lambda>f. \<exists>r \<in> set rs. tb_family (kw_break r) = f) fs)) =
    sum_list (map (\<lambda>f. int (length (filter (\<lambda>r. tb_family (kw_break r) = f) rs))) fs)" for fs
    by (induction fs) (auto simp: filter_empty_conv)
  have "sum_list (map (\<lambda>f. int (length (filter (\<lambda>r. tb_family (kw_break r) = f) rs))) BREAK_FAMILY_ORDER) = int (length rs)"
  proof (induction rs)
    case (Cons r rs)
    have "sum_list (map (\<lambda>f. int (length (filter (\<lambda>x. tb_family (kw_break x) = f) (r # rs)))) fs) =
        sum_list (map (\<lambda>f. int (length (filter (\<lambda>x. tb_family (kw_break x) = f) rs))) fs) + int (count_list fs (tb_family (kw_break r)))" for fs
      by (induction fs) auto
    moreover have "count_list BREAK_FAMILY_ORDER f = 1" for f by (cases f) (simp_all add: BREAK_FAMILY_ORDER_def)
    ultimately show ?case using Cons by simp
  qed (simp add: BREAK_FAMILY_ORDER_def)
  then show ?thesis using skip by (simp add: comp_def)
qed

lemma run_reconciliation_Inr:
  assumes "run_reconciliation rt started_at now db = (Inr out, db')"
  obtains cfg t xs where "fixture_config = Inr cfg" "tally_ok t" "length (ta_states t) = length (lineage_groups (scoped_documents db))"
    "ro_run_id out = ''run_'' @ run_stamp started_at" "ro_trades_evaluated out = int (length (ta_states t))"
    "ro_clean_trades out = sum_list (map (ta_clean t) DEMO_PORTFOLIO_IDS)"
    "ro_broken_trades out = sum_list (map (ta_broken t) DEMO_PORTFOLIO_IDS)"
    "ro_break_count out = sum_list (map (\<lambda>p. int (length (ta_breaks t p))) DEMO_PORTFOLIO_IDS)"
    "ro_config_hash out = config_content_hash rt cfg"
    "db' = db\<lparr>pg_states := pg_states db @ xs,
      pg_runs := pg_runs db @ map (\<lambda>p. stored_run (now p)
        (run_row rt cfg (ro_run_id out) started_at (scoped_documents db) t p) (ta_breaks t p)) DEMO_PORTFOLIO_IDS,
      pg_breaks := pg_breaks db @ concat (map (\<lambda>p. stored_breaks
        (run_row rt cfg (ro_run_id out) started_at (scoped_documents db) t p) (ta_breaks t p)) DEMO_PORTFOLIO_IDS)\<rparr>"
proof -
  let ?raws = "scoped_documents db"
  let ?id = "''run_'' @ run_stamp started_at"
  obtain policy cfg t n db1 where c: "fixture_config = Inr cfg"
    and t: "efold (tally_group rt cfg policy ?id) (enumerate 0 (lineage_groups ?raws)) empty_tally = Inr t"
    and s: "persist_canonical_states (ta_states t) db = (Inr n, db1)"
    and r: "persist_runs now (run_row rt cfg ?id started_at ?raws t) (ta_breaks t) DEMO_PORTFOLIO_IDS db1 = (Inr (), db')"
    and out: "out = \<lparr>ro_run_id = ?id, ro_trades_evaluated = int (length (ta_states t)),
       ro_clean_trades = over_portfolios t (ta_clean t), ro_broken_trades = over_portfolios t (ta_broken t),
       ro_break_count = over_portfolios t (\<lambda>p. int (length (ta_breaks t p))),
       ro_config_hash = config_content_hash rt cfg\<rparr>"
    using assms unfolding run_reconciliation_def Let_def by (auto simp: result_simps raise_def split: if_splits)
  have ok: "tally_ok t" "length (ta_states t) = length (lineage_groups ?raws)"
    using run_tally_ok [OF t] scoped_documents_demo by blast+
  obtain xs where xs: "db1 = db\<lparr>pg_states := pg_states db @ xs\<rparr>" using persist_canonical_states_keeps [OF s] by blast
  show ?thesis
    by (rule that [OF c ok]) (use tally_zero [OF ok(1)] persist_runs_Inr [OF r] xs in
      \<open>simp_all add: out over_demo_portfolios [OF ok(1)]\<close>)
qed

text \<open>C16: after a completed run whose identifier is new and whose clock is not behind the stored runs, the summary
  is that of this run: its identifier and configuration, one trade per lineage group, each either clean or
  broken, and as many breaks as the run returned, which the counts by family add up to. No earlier run is mixed in.\<close>

theorem summary_reports_the_run:
  assumes run: "run_reconciliation rt started_at now db = (Inr out, db')"
    and fresh: "\<forall>r \<in> set (pg_runs db). rw_run_id r \<noteq> ro_run_id out" "\<forall>b \<in> set (pg_breaks db). kw_run_id b \<noteq> ro_run_id out"
    and clock: "\<forall>r \<in> set (pg_runs db). \<forall>p. instant (rw_completed_at r) \<le> instant (now p)"
  shows "su_latest_run_id (build_summary db') = Some (ro_run_id out) \<and>
    su_config_hash (build_summary db') = Some (ro_config_hash out) \<and>
    su_total_trades (build_summary db') = ro_trades_evaluated out \<and>
    su_clean_trades (build_summary db') = ro_clean_trades out \<and>
    su_broken_trades (build_summary db') = ro_broken_trades out \<and>
    su_total_breaks (build_summary db') = ro_break_count out \<and>
    sum_list (map snd (su_breaks_by_family (build_summary db'))) = ro_break_count out \<and>
    ro_trades_evaluated out = int (length (lineage_groups (scoped_documents db))) \<and>
    ro_trades_evaluated out = ro_clean_trades out + ro_broken_trades out"
proof (rule run_reconciliation_Inr [OF run])
  fix cfg t xs
  let ?raws = "scoped_documents db"
  let ?row = "run_row rt cfg (ro_run_id out) started_at ?raws t"
  let ?runs = "map (\<lambda>p. stored_run (now p) (?row p) (ta_breaks t p)) DEMO_PORTFOLIO_IDS"
  let ?breaks = "concat (map (\<lambda>p. stored_breaks (?row p) (ta_breaks t p)) DEMO_PORTFOLIO_IDS)"
  assume ok: "tally_ok t" and n: "length (ta_states t) = length (lineage_groups ?raws)"
    and out: "ro_trades_evaluated out = int (length (ta_states t))"
      "ro_clean_trades out = sum_list (map (ta_clean t) DEMO_PORTFOLIO_IDS)"
      "ro_broken_trades out = sum_list (map (ta_broken t) DEMO_PORTFOLIO_IDS)"
      "ro_break_count out = sum_list (map (\<lambda>p. int (length (ta_breaks t p))) DEMO_PORTFOLIO_IDS)"
      "ro_config_hash out = config_content_hash rt cfg"
    and db': "db' = db\<lparr>pg_states := pg_states db @ xs, pg_runs := pg_runs db @ ?runs, pg_breaks := pg_breaks db @ ?breaks\<rparr>"
  have scope: "in_run_scope DEMO_TENANT_ID DEMO_PORTFOLIO_IDS r \<and> rw_status r = ''COMPLETED'' \<and> rw_run_id r = ro_run_id out"
    if "r \<in> set ?runs" for r
    using that by (auto simp: in_run_scope_def stored_run_def run_row_def)
  have "\<forall>r \<in> set (filter P (pg_runs db)). \<forall>m \<in> set ?runs. instant (rw_completed_at r) \<le> instant (rw_completed_at m)" for P
    using clock by (auto simp: stored_run_def pg_timestamp_def)
  moreover have "?runs \<noteq> []" by (simp add: DEMO_PORTFOLIO_IDS_def)
  ultimately have first: "\<exists>m ms. m \<in> set ?runs \<and> latest_first (filter P (pg_runs db) @ ?runs) = m # ms" for P
    by (rule latest_first_new)
  have keep: "filter (\<lambda>r. in_run_scope DEMO_TENANT_ID DEMO_PORTFOLIO_IDS r \<and> rw_status r = ''COMPLETED'') ?runs = ?runs"
    using scope by (subst filter_id_conv) blast
  obtain m ms where m: "m \<in> set ?runs" "latest_first (filter (\<lambda>r. in_run_scope DEMO_TENANT_ID DEMO_PORTFOLIO_IDS r \<and>
      rw_status r = ''COMPLETED'') (pg_runs db) @ ?runs) = m # ms" using first by blast
  have latest: "latest_completed_run_id DEMO_TENANT_ID DEMO_PORTFOLIO_IDS db' = Some (ro_run_id out)"
  proof -
    have "pg_runs db' = pg_runs db @ ?runs" by (simp add: db')
    then show ?thesis using m(2) scope [OF m(1)] unfolding latest_completed_run_id_def by (simp only: filter_append keep) simp
  qed
  have runs: "runs_by_run_id DEMO_TENANT_ID DEMO_PORTFOLIO_IDS (ro_run_id out) db' = ?runs"
  proof -
    have old: "filter (\<lambda>r. in_run_scope DEMO_TENANT_ID DEMO_PORTFOLIO_IDS r \<and> rw_run_id r = ro_run_id out) (pg_runs db) = []"
      using fresh(1) by (auto simp: filter_empty_conv)
    have new: "filter (\<lambda>r. in_run_scope DEMO_TENANT_ID DEMO_PORTFOLIO_IDS r \<and> rw_run_id r = ro_run_id out) ?runs = ?runs"
      using scope by (subst filter_id_conv) blast
    have "sort_key rw_portfolio_id ?runs = ?runs"
      by (simp add: DEMO_PORTFOLIO_IDS_def stored_run_def run_row_def)
    moreover have "pg_runs db' = pg_runs db @ ?runs" by (simp add: db')
    ultimately show ?thesis unfolding runs_by_run_id_def by (simp only: filter_append old new append_Nil)
  qed
  have counts: "sum_list (map snd (break_family_counts DEMO_TENANT_ID DEMO_PORTFOLIO_IDS (Some (ro_run_id out)) db')) = ro_break_count out"
  proof -
    let ?keep = "\<lambda>r. in_break_scope DEMO_TENANT_ID DEMO_PORTFOLIO_IDS r \<and> clause (Some (ro_run_id out)) (kw_run_id r)"
    have ne: "ro_run_id out \<noteq> []" using run_reconciliation_Inr [OF run] by fastforce
    have old: "filter ?keep (pg_breaks db) = []"
      using fresh(2) ne by (auto simp: filter_empty_conv clause_def)
    have "?keep r" if "r \<in> set ?breaks" for r
      using that tally_at(6) [OF ok] by (auto simp: in_break_scope_def stored_breaks_def run_row_def clause_def)
    then have new: "filter ?keep ?breaks = ?breaks" by (subst filter_id_conv) blast
    have "pg_breaks db' = pg_breaks db @ ?breaks" by (simp add: db')
    then have rows: "filter ?keep (pg_breaks db') = ?breaks" by (simp only: filter_append old new append_Nil)
    have "int (length ?breaks) = ro_break_count out"
      by (simp add: out(4) length_concat stored_breaks_def DEMO_PORTFOLIO_IDS_def)
    then show ?thesis unfolding break_family_counts_def Let_def rows family_counts_total .
  qed
  have trades: "int (length (ta_states t)) = sum_list (map (ta_clean t) DEMO_PORTFOLIO_IDS) + sum_list (map (ta_broken t) DEMO_PORTFOLIO_IDS)"
    using tally_total [OF ok] tally_at(2) [OF ok] by (simp add: DEMO_PORTFOLIO_IDS_def)
  show ?thesis
    unfolding build_summary_def latest Let_def runs option.case Summary.simps counts
    using trades out n tally_total [OF ok]
    by (simp add: DEMO_PORTFOLIO_IDS_def stored_run_def run_row_def)
qed

end
