(* ===== verification/Service_Sample.thy ===== *)
theory Service_Sample
  imports Service_Run
begin

text \<open>
  Concrete data for the service: four agreeing sources of one trade in the inbox, with a digest that is constant,
  and a booking of the same trade whose amount is wrong and is then corrected.
\<close>

section \<open>Sources\<close>

definition demo_row :: "string \<Rightarrow> LifecycleStatus \<Rightarrow> SourcePayload \<Rightarrow> Observation" where
  "demo_row observation_id status src = timed_observation\<lparr>ob_observation_id := observation_id,
     ob_portfolio_id := ''portfolio_london'', ob_payload := sample_fx\<lparr>fx_lifecycle_status := status\<rparr>, ob_source := src\<rparr>"

definition demo_execution :: Observation where
  "demo_execution = demo_row ''obs_exec_1'' NEW (ExecutionSource \<lparr>execution_id = ''exec_0001'',
     execution_type = EVENT_NEW, execution_status = EXECUTED, execution_time = noon, order_id = None\<rparr>)"

definition demo_capture :: Observation where
  "demo_capture = demo_row ''obs_capture_1'' CAPTURED (TradeCaptureSource \<lparr>capture_id = ''cap_0001'',
     capture_type = EVENT_NEW, capture_status = CAPTURE_CAPTURED, capture_time = noon, execution_reference = ''exec_0001''\<rparr>)"

definition demo_confirmation :: Observation where
  "demo_confirmation = demo_row ''obs_conf_1'' CONFIRMED (ConfirmationSource \<lparr>
     confirmation_id = ''conf_0001'', cp_confirmation_reference = ''confref_0001'',
     confirmation_status = AFFIRMED, confirmation_time = noon\<rparr>)"

definition demo_booking :: Observation where
  "demo_booking = demo_row ''obs_book_1'' BOOKED (BookingSource \<lparr>booking_record_id = ''book_0001'',
     booking_version = 1, booking_status = BOOKING_BOOKED, last_updated_time = noon,
     bp_confirmation_reference = None, record_fingerprint = sample_hash\<rparr>)"

definition demo_sources :: "Observation list" where
  "demo_sources = [demo_booking, demo_capture, demo_confirmation, demo_execution]"

definition demo_db :: PgDb where
  "demo_db = empty_tables\<lparr>pg_inbox := demo_sources\<rparr>"

lemmas demo_defs = demo_execution_def demo_capture_def demo_confirmation_def demo_booking_def demo_row_def timed_defs

lemma demo_valid: "ob \<in> set demo_sources \<Longrightarrow> validate_observation ob = Inr ob"
proof -
  have "validate_observation demo_booking = Inr demo_booking" "validate_observation demo_capture = Inr demo_capture"
    "validate_observation demo_confirmation = Inr demo_confirmation" "validate_observation demo_execution = Inr demo_execution"
    by code_simp+
  then show "ob \<in> set demo_sources \<Longrightarrow> validate_observation ob = Inr ob" by (auto simp: demo_sources_def)
qed

lemma demo_hash_right: "ob \<in> set demo_sources \<Longrightarrow> hash_right flat_runtime ob"
proof -
  have "times_in_range ob \<and> ob_content_hash ob = sample_hash" if "ob \<in> set demo_sources" for ob
    using that by (auto simp: demo_sources_def demo_defs times_in_range_def utc_range_def)
  then show "ob \<in> set demo_sources \<Longrightarrow> hash_right flat_runtime ob" using flat_hash_right demo_valid by blast
qed

lemma demo_active: "active_observations demo_sources = demo_sources"
  by (auto simp: active_observations_def superseded_ids_def demo_sources_def demo_defs)

lemma demo_documents: "scoped_documents demo_db = demo_sources" "trade_documents ''trade_0001'' demo_db = demo_sources"
  by code_simp+

lemma demo_linked: "linked_sources flat_runtime ''trade_0001'' demo_sources"
proof -
  have e: "\<forall>ob \<in> set demo_sources. ob_source_business_key ob = ''trade_0001'' \<and> fx_source_trade_id (ob_payload ob) = ''trade_0001''"
    "\<forall>ob \<in> set demo_sources. fx_product_type (ob_payload ob) = FX_SPOT"
    "\<forall>ob \<in> set demo_sources. scope_of ob = (''tenant_demo'', ''portfolio_london'', ''corr_0001'')"
    "distinct (map ob_observation_id demo_sources)"
    by code_simp+
  have ne: "demo_booking \<in> set demo_sources" by (simp add: demo_sources_def)
  then have "sources_ok flat_runtime ''trade_0001'' demo_sources"
    using e(1,3,4) demo_valid demo_hash_right unfolding sources_ok_def eligible_for_trade_def by (metis (no_types, lifting))
  then show ?thesis using e(1,2) unfolding linked_sources_def by (metis (no_types, lifting))
qed

definition demo_config :: ReconciliationConfig where
  "demo_config = projr fixture_config"

lemma demo_config: "fixture_config = Inr demo_config"
proof -
  have "\<not> isl fixture_config" by code_simp
  then show ?thesis by (simp add: demo_config_def)
qed

lemma demo_deadline:
  "case arrival_rule demo_config FX_SPOT k of Inl _ \<Rightarrow> True | Inr rule \<Rightarrow> \<not> isl (add_seconds noon (aw_window_seconds rule))"
  by (cases k; simp only:; code_simp)

lemma demo_force: "in_force demo_config demo_sources"
proof -
  have ob: "ob_ingest_time ob = noon" "fx_product_type (ob_payload ob) = FX_SPOT" if "ob \<in> set demo_sources" for ob
    using that by (auto simp: demo_sources_def demo_defs)
  have "instant (cg_effective_from demo_config) \<le> instant noon"
    "opt_ok (\<lambda>t. instant noon < instant t) (cg_effective_to demo_config)" by code_simp+
  then have "instant (cg_effective_from demo_config) \<le> instant (ob_ingest_time ob) \<and>
      opt_ok (\<lambda>t. instant (ob_ingest_time ob) < instant t) (cg_effective_to demo_config) \<and>
      (\<forall>k. case arrival_rule demo_config (fx_product_type (ob_payload ob)) k of Inl _ \<Rightarrow> True
         | Inr rule \<Rightarrow> \<not> isl (add_seconds (ob_ingest_time ob) (aw_window_seconds rule)))" if "ob \<in> set demo_sources" for ob
    using demo_deadline unfolding ob [OF that] by blast
  then show ?thesis unfolding in_force_def by blast
qed

lemma demo_values:
  "\<forall>a \<in> set demo_sources. \<forall>path \<in> set (map fst CURRENCY_FIELDS @ map fst DATE_FIELDS @ ECONOMIC_FIELDS).
     field_value a path = field_value demo_booking path"
  by code_simp

lemma demo_within: "\<forall>path \<in> set ECONOMIC_FIELDS. within_rule demo_config path demo_booking demo_booking"
  by code_simp

lemma demo_statuses: "\<forall>ob \<in> set demo_sources. case lifecycle_rule demo_config (ob_kind ob) of Inl _ \<Rightarrow> True
     | Inr rule \<Rightarrow> ls_expected_status rule = fx_lifecycle_status (ob_payload ob)"
  by code_simp

lemma demo_kinds: "{EXECUTION, CONFIRMATION, BOOKING} \<subseteq> ob_kind ` set demo_sources"
  by code_simp

lemma demo_agreeing: "agreeing demo_config demo_sources"
proof -
  have ob: "ob_content_hash a = sample_hash" "fx_product_type (ob_payload a) = FX_SPOT" if "a \<in> set demo_sources" for a
    using that by (auto simp: demo_sources_def demo_defs)
  have v: "field_value a path = field_value b path"
    if "a \<in> set demo_sources" "b \<in> set demo_sources" "path \<in> set (map fst CURRENCY_FIELDS @ map fst DATE_FIELDS @ ECONOMIC_FIELDS)" for a b path
    using demo_values that by metis
  have w: "within_rule demo_config path a b" if "a \<in> set demo_sources" "b \<in> set demo_sources" "path \<in> set ECONOMIC_FIELDS" for a b path
  proof -
    have m: "demo_booking \<in> set demo_sources" by (simp add: demo_sources_def)
    have p: "path \<in> set (map fst CURRENCY_FIELDS @ map fst DATE_FIELDS @ ECONOMIC_FIELDS)" using that(3) by simp
    have "within_rule demo_config path a b = within_rule demo_config path demo_booking demo_booking"
      unfolding within_rule_def v [OF that(1) m p] v [OF that(2) m p] ob(2) [OF that(1)] ob(2) [OF m] by (rule refl)
    then show ?thesis using demo_within that(3) by blast
  qed
  have pair: "(ob_kind a = ob_kind b \<and> ob_source_version a = ob_source_version b \<longrightarrow> ob_content_hash a = ob_content_hash b) \<and>
      (\<forall>path \<in> set (map fst CURRENCY_FIELDS @ map fst DATE_FIELDS). field_value a path = field_value b path) \<and>
      (\<forall>path \<in> set ECONOMIC_FIELDS. within_rule demo_config path a b)" if "a \<in> set demo_sources" "b \<in> set demo_sources" for a b
  proof (intro conjI impI ballI)
    show "ob_content_hash a = ob_content_hash b" using ob(1) that by simp
    show "within_rule demo_config path a b" if "path \<in> set ECONOMIC_FIELDS" for path by (rule w [OF \<open>a \<in> _\<close> \<open>b \<in> _\<close> that])
    fix path assume "path \<in> set (map fst CURRENCY_FIELDS @ map fst DATE_FIELDS)"
    then show "field_value a path = field_value b path" by (intro v [OF that]) auto
  qed
  show ?thesis
    unfolding agreeing_def by (intro conjI demo_kinds demo_statuses ballI pair)
qed

section \<open>Reconciling the trade\<close>

lemma flat_digest: "hex_digest (sha256_hexdigest flat_runtime)"
  by unfold_locales (auto simp: flat_runtime_def is_hex_def)

lemma demo_run_ids:
  "is_identifier (indexed_run_id (''rerun_'' @ run_stamp noon) 0)"
  "is_identifier (''decision_'' @ indexed_run_id (''rerun_'' @ run_stamp noon) 0)"
  by code_simp+

theorem rerun_of_agreeing_trade_passes_witness:
  "\<exists>out. fst (rerun_trade_reconciliation flat_runtime noon ''trade_0001'' demo_db) = Inr out \<and>
    rr_result out = PASS \<and> rr_canonical_state_version out = 1"
proof -
  have v: "1 = next_state_version (ob_portfolio_id (hd (trade_documents ''trade_0001'' demo_db))) ''trade_0001'' demo_db"
    by (simp add: next_state_version_def canonical_state_document_def first_row_def demo_db_def empty_tables_def)
  have one: "\<forall>a \<in> set (trade_documents ''trade_0001'' demo_db). \<forall>b \<in> set (trade_documents ''trade_0001'' demo_db).
      ob_portfolio_id a = ob_portfolio_id b"
    unfolding demo_documents by (simp add: demo_sources_def demo_defs)
  have states: "\<forall>s \<in> set (pg_states demo_db). 1 \<le> cs_canonical_state_version s" by (simp add: demo_db_def empty_tables_def)
  have int: "pg_integer 1" by (simp add: pg_integer_def)
  show ?thesis
    using rerun_of_agreeing_trade_passes [OF _ flat_digest demo_run_ids demo_config _ _ states v int one]
      demo_linked demo_force demo_agreeing unfolding demo_documents demo_active by auto
qed

theorem lineage_group_verdict_witness:
  "\<exists>canonical r. reconcile_lineage_group flat_runtime demo_config mvp_source_of_truth_policy ''run_1'' 0 1 demo_sources = Inr (canonical, r) \<and>
    mset (cs_source_version_set canonical) = mset (map source_version_item demo_sources) \<and>
    AMBIGUOUS_OR_UNMATCHED_LINKAGE \<notin> tb_family ` set (rn_breaks r)"
proof -
  have ids: "is_identifier (indexed_run_id ''run_1'' 0)" "is_identifier (''decision_'' @ indexed_run_id ''run_1'' 0)" by code_simp+
  have cfg: "mk_ReconciliationConfig demo_config = Inr demo_config"
  proof -
    obtain d where d: "mk_ReconciliationConfig d = Inr demo_config" using demo_config unfolding fixture_config_def by blast
    then show ?thesis using config_accepted(1) [OF d] by simp
  qed
  obtain canonical r where r: "reconcile_lineage_group flat_runtime demo_config mvp_source_of_truth_policy ''run_1'' 0 1 demo_sources = Inr (canonical, r)"
    "rn_breaks r = []"
    using agreeing_group_passes [OF _ flat_digest ids order_refl cfg, where trade_id = "''trade_0001''" and grp = demo_sources] demo_linked demo_force demo_agreeing
    unfolding demo_active by blast
  then show ?thesis using lineage_group_verdict [OF r(1)] unfolding demo_active by auto
qed

lemma demo_config_accepted: "mk_ReconciliationConfig demo_config = Inr demo_config"
proof -
  obtain d where d: "mk_ReconciliationConfig d = Inr demo_config" using demo_config unfolding fixture_config_def by blast
  then show ?thesis using config_accepted(1) [OF d] by simp
qed

lemma demo_reconciled:
  assumes "is_identifier (indexed_run_id run_id 0)" "is_identifier (''decision_'' @ indexed_run_id run_id 0)"
  obtains canonical r where
    "reconcile_lineage_group flat_runtime demo_config mvp_source_of_truth_policy run_id 0 1 demo_sources = Inr (canonical, r)"
    "cs_portfolio_id canonical = ''portfolio_london''" "cs_canonical_state_version canonical = 1"
    "cs_entity_version canonical = 1" "rn_breaks r = []"
proof -
  obtain canonical r where r: "reconcile_lineage_group flat_runtime demo_config mvp_source_of_truth_policy run_id 0 1 demo_sources = Inr (canonical, r)"
    "rn_breaks r = []" "cs_canonical_state_version canonical = 1"
    using agreeing_group_passes [OF _ flat_digest assms order_refl demo_config_accepted, where trade_id = "''trade_0001''" and grp = demo_sources]
      demo_linked demo_force demo_agreeing unfolding demo_active by blast
  have p: "cs_portfolio_id canonical = ob_portfolio_id (hd (active_observations demo_sources))"
    by (rule reconcile_lineage_group_Inr [OF r(1)]) blast
  have "cs_entity_version canonical = 1"
    using r(1) by (auto simp: reconcile_lineage_group_def assemble_canonical_state_def result_simps split: if_splits
        dest!: mk_CanonicalTradeState_same)
  moreover have "ob_portfolio_id (hd demo_sources) = ''portfolio_london''" by (simp add: demo_sources_def demo_defs)
  ultimately show ?thesis using that [OF r(1) _ r(3) _ r(2)] p unfolding demo_active by simp
qed

lemma demo_groups: "lineage_groups demo_sources = [demo_sources]"
  by code_simp

lemma demo_counts: "pg_integer (int (length (filter (\<lambda>raw. ob_portfolio_id raw = p) demo_sources)))"
proof -
  have "length (filter (\<lambda>raw. ob_portfolio_id raw = p) demo_sources) \<le> 4"
    using length_filter_le [of "\<lambda>raw. ob_portfolio_id raw = p" demo_sources] by (simp add: demo_sources_def)
  then show ?thesis by (simp add: pg_integer_def)
qed

lemma demo_run:
  "\<exists>out db'. run_reconciliation flat_runtime noon (\<lambda>_. noon) demo_db = (Inr out, db') \<and> ro_trades_evaluated out = 1"
proof -
  define run_id where "run_id = ''run_'' @ run_stamp noon"
  have ids: "is_identifier (indexed_run_id run_id 0)" "is_identifier (''decision_'' @ indexed_run_id run_id 0)"
    unfolding run_id_def by code_simp+
  obtain canonical r where r:
    "reconcile_lineage_group flat_runtime demo_config mvp_source_of_truth_policy run_id 0 1 demo_sources = Inr (canonical, r)"
    "cs_portfolio_id canonical = ''portfolio_london''" "cs_canonical_state_version canonical = 1"
    "cs_entity_version canonical = 1" "rn_breaks r = []"
    by (rule demo_reconciled [OF ids])
  define t where "t = empty_tally\<lparr>ta_states := [canonical], ta_trades := (\<lambda>p. if p = ''portfolio_london'' then 1 else 0),
    ta_clean := (\<lambda>p. if p = ''portfolio_london'' then 1 else 0)\<rparr>"
  have tally: "efold (tally_group flat_runtime demo_config mvp_source_of_truth_policy run_id) (enumerate 0 [demo_sources]) empty_tally = Inr t"
    by (simp add: tally_group_def r Let_def t_def empty_tally_def fun_upd_def cong: if_cong)
  have int: "pg_integer 1" "pg_integer 0" by (simp_all add: pg_integer_def)
  define db1 where "db1 = demo_db\<lparr>pg_states := [pg_state canonical]\<rparr>"
  have states: "persist_canonical_states (ta_states t) demo_db = (Inr 1, db1)"
    using int r(3,4) by (simp add: persist_canonical_states_def transaction_def t_def demo_db_def empty_tables_def db1_def)
  have states': "adapter (persist_canonical_states (ta_states t)) demo_db = (Inr 1, db1)"
    by (simp add: translate_def states)
  let ?row = "run_row flat_runtime demo_config run_id noon demo_sources t"
  have insert: "persist_run noon (?row p) (ta_breaks t p) db =
      (Inr (), db\<lparr>pg_runs := pg_runs db @ [stored_run noon (?row p) (ta_breaks t p)]\<rparr>)"
    if "\<forall>x \<in> set (pg_runs db). rw_portfolio_id x \<noteq> p" for db p
  proof -
    have key: "(DEMO_TENANT_ID, p, run_id, 1) \<notin> run_key ` set (pg_runs db)" using that by (auto simp: run_key_def)
    show ?thesis
      using int demo_counts [of p] key
      by (simp add: persist_run_def transaction_def andthen_def insert_run_def run_row_def stored_run_def run_key_def t_def empty_tally_def ret_def)
  qed
  have "\<exists>db'. persist_runs (\<lambda>_. noon) ?row (ta_breaks t) DEMO_PORTFOLIO_IDS db1 = (Inr (), db')"
  proof -
    let ?db2 = "db1\<lparr>pg_runs := pg_runs db1 @ [stored_run noon (?row ''portfolio_london'') (ta_breaks t ''portfolio_london'')]\<rparr>"
    have none: "pg_runs db1 = []" by (simp add: db1_def demo_db_def empty_tables_def)
    have "persist_run noon (?row ''portfolio_london'') (ta_breaks t ''portfolio_london'') db1 = (Inr (), ?db2)"
      by (rule insert) (simp add: none)
    moreover have "\<forall>x \<in> set (pg_runs ?db2). rw_portfolio_id x \<noteq> ''portfolio_sydney''"
      by (simp add: none stored_run_def run_row_def)
    from insert [OF this] have "\<exists>db'. persist_run noon (?row ''portfolio_sydney'') (ta_breaks t ''portfolio_sydney'') ?db2 = (Inr (), db')" by blast
    ultimately show ?thesis by (auto simp: DEMO_PORTFOLIO_IDS_def andthen_def translate_def)
  qed
  then obtain db' where runs: "persist_runs (\<lambda>_. noon) ?row (ta_breaks t) DEMO_PORTFOLIO_IDS db1 = (Inr (), db')" by blast
  have "demo_sources \<noteq> []" by (simp add: demo_sources_def)
  then have "run_reconciliation flat_runtime noon (\<lambda>_. noon) demo_db =
      (Inr \<lparr>ro_run_id = run_id, ro_trades_evaluated = int (length (ta_states t)),
       ro_clean_trades = over_portfolios t (ta_clean t), ro_broken_trades = over_portfolios t (ta_broken t),
       ro_break_count = over_portfolios t (\<lambda>p. int (length (ta_breaks t p))),
       ro_config_hash = config_content_hash flat_runtime demo_config\<rparr>, db')"
    unfolding run_reconciliation_def Let_def run_id_def [symmetric]
    by (simp add: andthen_def demo_documents demo_groups mvp_policy_accepted demo_config tally states' runs
        del: enumerate_simps efold.simps)
  then show ?thesis by (simp add: t_def)
qed

theorem summary_reports_the_run_witness:
  "\<exists>out. fst (run_reconciliation flat_runtime noon (\<lambda>_. noon) demo_db) = Inr out \<and>
    su_total_trades (build_summary (snd (run_reconciliation flat_runtime noon (\<lambda>_. noon) demo_db))) = 1 \<and>
    su_latest_run_id (build_summary (snd (run_reconciliation flat_runtime noon (\<lambda>_. noon) demo_db))) = Some (ro_run_id out)"
proof -
  obtain out db' where o: "run_reconciliation flat_runtime noon (\<lambda>_. noon) demo_db = (Inr out, db')" "ro_trades_evaluated out = 1"
    using demo_run by blast
  show ?thesis using summary_reports_the_run [OF o(1)] o by (simp add: demo_db_def empty_tables_def)
qed

section \<open>A corrected booking\<close>

definition wrong_booking :: Observation where
  "wrong_booking = demo_booking\<lparr>ob_payload := (ob_payload demo_booking)\<lparr>fx_base_amount :=
     \<lparr>da_currency = ''EUR'', da_value = ''1000100.00'', da_scale = 2\<rparr>\<rparr>\<rparr>"

definition wrong_db :: PgDb where
  "wrong_db = empty_tables\<lparr>pg_inbox := [wrong_booking, demo_capture, demo_confirmation, demo_execution]\<rparr>"

definition amended_payload :: "(string \<times> pyval) list" where
  "amended_payload = projr (corrected_payload flat_runtime wrong_booking ''base_amount'' ''1000000.00'' 2 noon)"

definition amended_booking :: Observation where
  "amended_booking = corrected_observation wrong_booking ''base_amount'' ''1000000.00'' noon ''obs_correction_1''
     ''evt_correction_1'' sample_hash sample_hash"

lemma flat_tag: "sha256_tag flat_runtime b = sample_hash"
  by (simp add: sha256_tag_def flat_runtime_def sample_hash_def)

lemma amended_payload: "corrected_payload flat_runtime wrong_booking ''base_amount'' ''1000000.00'' 2 noon = Inr amended_payload"
proof -
  have "\<not> isl (corrected_payload flat_runtime wrong_booking ''base_amount'' ''1000000.00'' 2 noon)" by code_simp
  then show ?thesis by (simp add: amended_payload_def)
qed

lemma amended_hash:
  "compute_observation_content_hash flat_runtime (corrected_document flat_runtime wrong_booking noon ''obs_correction_1''
     ''evt_correction_1'' amended_payload) = Inr sample_hash"
proof -
  have "\<not> isl (canonical_observation_document flat_runtime (corrected_document flat_runtime wrong_booking noon ''obs_correction_1''
     ''evt_correction_1'' amended_payload))"
    unfolding corrected_document_def fingerprint_of_def flat_tag by code_simp
  then obtain d where "canonical_observation_document flat_runtime (corrected_document flat_runtime wrong_booking noon ''obs_correction_1''
     ''evt_correction_1'' amended_payload) = Inr d" by (metis sum.collapse(2))
  then show ?thesis by (simp add: compute_observation_content_hash_def canonical_observation_bytes_def flat_tag)
qed

lemma amended_valid: "validate_observation amended_booking = Inr amended_booking"
  by code_simp

lemma amended_key: "\<forall>row \<in> set (pg_inbox wrong_db). identity_key row \<noteq> identity_key amended_booking"
  by code_simp

lemma amended_hash_right: "hash_right flat_runtime amended_booking"
proof -
  have "times_in_range amended_booking \<and> ob_content_hash amended_booking = sample_hash"
    by (simp add: amended_booking_def corrected_observation_def wrong_booking_def demo_defs times_in_range_def utc_range_def)
  then show ?thesis using flat_hash_right [OF amended_valid] by blast
qed

lemma wrong_candidates: "booking_candidates ''trade_0001'' wrong_db = [wrong_booking]"
  by code_simp

lemma correction_made:
  "ingest_corrected_booking_observation flat_runtime noon ''obs_correction_1'' ''evt_correction_1'' ''trade_0001''
     ''/payload/base_amount'' ''1000000.00'' wrong_db =
   (Inr ''obs_correction_1'', wrong_db\<lparr>pg_inbox := pg_inbox wrong_db @ [pg_row amended_booking]\<rparr>)"
proof -
  have path: "starts_with ''/payload/base_amount'' ''/payload/''" "remove_prefix ''/payload/base_amount'' ''/payload/'' = ''base_amount''"
    by code_simp+
  have v: "booking_version_of (ob_source wrong_booking) + 1 = 2" by (simp add: wrong_booking_def demo_defs)
  obtain h where h: "check_hash flat_runtime amended_booking = Inr h" using amended_hash_right by (auto simp: hash_right_iff)
  have "List.find (\<lambda>row. identity_key row = identity_key amended_booking) (pg_inbox wrong_db) = None"
    using amended_key by (auto simp: find_None_iff)
  moreover have "pg_integer (ob_entity_version amended_booking)" "pg_integer (ob_source_sequence amended_booking)" "ob_entity_version amended_booking = 1"
    by (simp_all add: pg_integer_def amended_booking_def corrected_observation_def wrong_booking_def demo_defs)
  moreover have "identity_key amended_booking \<notin> identity_key ` set (pg_inbox wrong_db)" using amended_key by auto
  ultimately have one: "ingest_one flat_runtime ''raise'' amended_booking s wrong_db =
      (Inr (s\<lparr>is_inserted := is_inserted s + 1\<rparr>), wrong_db\<lparr>pg_inbox := pg_inbox wrong_db @ [pg_row amended_booking]\<rparr>)" for s
    using h by (simp add: ingest_one_def insert_observation_def andthen_def)
  have ingest: "ingest_observations flat_runtime ''raise'' [amended_booking] wrong_db =
      (Inr \<lparr>is_inserted = 1, is_replayed = 0, is_conflicted = 0\<rparr>, wrong_db\<lparr>pg_inbox := pg_inbox wrong_db @ [pg_row amended_booking]\<rparr>)"
    by (simp add: ingest_observations_def transaction_def andthen_def one)
  have fp: "fingerprint_of flat_runtime amended_payload = sample_hash" by (simp add: fingerprint_of_def flat_tag)
  have max: "first_max version_number wrong_booking [] = wrong_booking" by (simp add: first_max_def)
  show ?thesis
    unfolding ingest_corrected_booking_observation_def Let_def
    by (simp add: path andthen_def wrong_candidates max v amended_payload amended_hash fp amended_booking_def [symmetric] amended_valid
        translate_def ingest del: One_nat_def)
qed

theorem correction_replaces_booking_witness:
  "set (active_observations (trade_documents ''trade_0001'' (snd (ingest_corrected_booking_observation flat_runtime noon
     ''obs_correction_1'' ''evt_correction_1'' ''trade_0001'' ''/payload/base_amount'' ''1000000.00'' wrong_db)))) =
   {pg_row amended_booking, demo_capture, demo_confirmation, demo_execution}"
proof -
  have fresh: "\<forall>x \<in> set (scoped_documents wrong_db). ob_observation_id x \<noteq> ''obs_correction_1'' \<and>
      ob_supersedes_observation_id x \<noteq> Some ''obs_correction_1''"
    by code_simp
  have docs: "trade_documents ''trade_0001'' wrong_db = [wrong_booking, demo_capture, demo_confirmation, demo_execution]"
    by code_simp
  have active: "active_observations (trade_documents ''trade_0001'' wrong_db) = [wrong_booking, demo_capture, demo_confirmation, demo_execution]"
    unfolding docs by (simp add: active_observations_def superseded_ids_def wrong_booking_def demo_defs)
  have "\<exists>prior ob. prior \<in> set (booking_candidates ''trade_0001'' wrong_db) \<and>
      wrong_db\<lparr>pg_inbox := pg_inbox wrong_db @ [pg_row amended_booking]\<rparr> = wrong_db\<lparr>pg_inbox := pg_inbox wrong_db @ [pg_row ob]\<rparr> \<and>
      set (active_observations (trade_documents ''trade_0001'' (wrong_db\<lparr>pg_inbox := pg_inbox wrong_db @ [pg_row amended_booking]\<rparr>))) =
        insert (pg_row ob) {x \<in> set (active_observations (trade_documents ''trade_0001'' wrong_db)). ob_observation_id x \<noteq> ob_observation_id prior}"
    using correction_replaces_booking [OF correction_made fresh] by (simp only: sum.case) blast
  then obtain prior ob where p: "prior = wrong_booking"
    "wrong_db\<lparr>pg_inbox := pg_inbox wrong_db @ [pg_row amended_booking]\<rparr> = wrong_db\<lparr>pg_inbox := pg_inbox wrong_db @ [pg_row ob]\<rparr>"
    "set (active_observations (trade_documents ''trade_0001'' (wrong_db\<lparr>pg_inbox := pg_inbox wrong_db @ [pg_row amended_booking]\<rparr>))) =
        insert (pg_row ob) {x \<in> set (active_observations (trade_documents ''trade_0001'' wrong_db)). ob_observation_id x \<noteq> ob_observation_id prior}"
    unfolding wrong_candidates by auto
  have "pg_row ob = pg_row amended_booking" using arg_cong [OF p(2), of pg_inbox] by simp
  moreover have "{x \<in> set [wrong_booking, demo_capture, demo_confirmation, demo_execution]. ob_observation_id x \<noteq> ob_observation_id wrong_booking} =
      {demo_capture, demo_confirmation, demo_execution}"
  proof -
    have "ob_observation_id wrong_booking = ''obs_book_1''" "ob_observation_id demo_capture = ''obs_capture_1''"
      "ob_observation_id demo_confirmation = ''obs_conf_1''" "ob_observation_id demo_execution = ''obs_exec_1''"
      by (simp_all add: wrong_booking_def demo_defs)
    then show ?thesis by auto
  qed
  ultimately show ?thesis using p(3) unfolding p(1) active correction_made by simp
qed

end
