(* ===== verification/Oracle.thy ===== *)
theory Oracle
  imports Recon_Correct Observation_Hash Inbox
begin

text \<open>
  \<open>packages/oracle/evaluator.py\<close> and \<open>packages/oracle/models.py\<close>: the second evaluation of the eight break
  families, which reads JSON documents instead of models and shares no code with the engine. A mapping is the list
  of its entries, \<open>m.get(key)\<close> is \<open>map_of m key\<close>; every lookup that may raise is a branch.
\<close>

section \<open>Python values of JSON\<close>

text \<open>\<open>repr(value)\<close>.\<close>

fun json_repr :: "json \<Rightarrow> string"
  and json_reprs :: "json list \<Rightarrow> string"
  and json_member_reprs :: "(string \<times> json) list \<Rightarrow> string" where
  "json_repr JNull = ''None''"
| "json_repr (JBool b) = (if b then ''True'' else ''False'')"
| "json_repr (JInt i) = int_str i"
| "json_repr (JFloat r) = r"
| "json_repr (JStr s) = py_repr s"
| "json_repr (JList xs) = ''['' @ json_reprs xs @ '']''"
| "json_repr (JObj kvs) = ''{'' @ json_member_reprs kvs @ ''}''"
| "json_reprs [] = []"
| "json_reprs (x # xs) = json_repr x @ (if xs = [] then [] else '', '' @ json_reprs xs)"
| "json_member_reprs [] = []"
| "json_member_reprs ((k, v) # kvs) =
     py_repr k @ '': '' @ json_repr v @ (if kvs = [] then [] else '', '' @ json_member_reprs kvs)"

text \<open>\<open>str(value)\<close> and \<open>bool(value)\<close>.\<close>

definition json_str :: "json \<Rightarrow> string" where
  "json_str v = (case v of JStr s \<Rightarrow> s | _ \<Rightarrow> json_repr v)"

definition zero_float :: "string \<Rightarrow> bool" where
  "zero_float r \<longleftrightarrow> (case parse_decimal r of Some (Fin c _) \<Rightarrow> c = 0 | _ \<Rightarrow> False)"

fun truthy :: "json \<Rightarrow> bool" where
  "truthy JNull = False"
| "truthy (JBool b) = b"
| "truthy (JInt i) = (i \<noteq> 0)"
| "truthy (JFloat r) = (\<not> zero_float r)"
| "truthy (JStr s) = (s \<noteq> [])"
| "truthy (JList xs) = (xs \<noteq> [])"
| "truthy (JObj kvs) = (kvs \<noteq> [])"

text \<open>\<open>int(text)\<close> and \<open>int(value)\<close>. From \<open>2 ^ 53\<close> on the shortest decimal of a float need not be its value, which
  is then the multiple of the unit in the last place nearest to it.\<close>

definition int_of_text :: "string \<Rightarrow> int option" where
  "int_of_text raw = (
     let t = py_strip raw; signed = t \<noteq> [] \<and> hd t \<in> {CHR ''-'', CHR ''+''};
         body = (if signed then tl t else t); digits = filter (\<lambda>c. c \<noteq> CHR ''_'') body in
     if body = [] \<or> \<not> list_all is_digit digits \<or> hd body = CHR ''_'' \<or> last body = CHR ''_'' \<or>
        (CHR ''_'', CHR ''_'') \<in> set (zip body (tl body))
     then None
     else Some (if signed \<and> hd t = CHR ''-'' then - int (nat_of_digits digits) else int (nat_of_digits digits)))"

definition ulp :: "int \<Rightarrow> int" where
  "ulp n = 2 ^ (length (takeWhile (\<lambda>k. 2 ^ k \<le> n) [0..<1100]) - 53)"

definition int_of_float :: "string \<Rightarrow> py_error + int" where
  "int_of_float r = (case parse_decimal r of
     Some (Fin c e) \<Rightarrow>
       (let n = \<bar>c\<bar> * 10 ^ nat e div 10 ^ nat (- e);
            m = (if n < 2 ^ 53 then n else round_coefficient n (ulp n) * ulp n) in
        Inr (if c < 0 then - m else m))
   | Some (Infty _) \<Rightarrow> Inl (OverflowError ''cannot convert float infinity to integer'')
   | _ \<Rightarrow> Inl (ValueError ''cannot convert float NaN to integer''))"

definition json_int :: "json \<Rightarrow> py_error + int" where
  "json_int v = (case v of
     JBool b \<Rightarrow> Inr (if b then 1 else 0)
   | JInt i \<Rightarrow> Inr i
   | JFloat r \<Rightarrow> int_of_float r
   | JStr s \<Rightarrow> (case int_of_text s of Some i \<Rightarrow> Inr i | None \<Rightarrow> Inl (ValueError ''invalid literal for int()''))
   | _ \<Rightarrow> Inl (TypeError ''int() argument must be a string, a bytes-like object or a real number''))"

section \<open>Reading documents\<close>

type_synonym document = "(string \<times> json) list"

text \<open>\<open>mapping.get(key, default)\<close>.\<close>

definition get_or :: "json \<Rightarrow> document \<Rightarrow> string \<Rightarrow> json" where
  "get_or other doc name = (case map_of doc name of Some v \<Rightarrow> v | None \<Rightarrow> other)"

text \<open>\<open>_string\<close>.\<close>

definition oracle_string :: "document \<Rightarrow> string \<Rightarrow> py_error + string" where
  "oracle_string m key = (let v = get_or JNull m key in
     if v = JNull then Inl (ValueError (''missing required oracle field: '' @ key)) else Inr (json_str v))"

definition oracle_strings :: "document \<Rightarrow> string list \<Rightarrow> py_error + string list" where
  "oracle_strings m = emap (oracle_string m)"

text \<open>\<open>_sequence\<close>.\<close>

definition oracle_sequence :: "json \<Rightarrow> json list" where
  "oracle_sequence v = (case v of JList xs \<Rightarrow> xs | _ \<Rightarrow> [])"

text \<open>\<open>_parse_time\<close>.\<close>

definition oracle_time :: "string \<Rightarrow> py_error + datetime" where
  "oracle_time s = ebind (parsed_timestamp s) (\<lambda>t.
     if \<not> aware t then Inl (ValueError ''oracle timestamps must include a timezone offset'') else Inr t)"

text \<open>\<open>_field_value\<close>.\<close>

definition oracle_value :: "document \<Rightarrow> string \<Rightarrow> py_error + string" where
  "oracle_value observation path = (let leaf = after_last_slash path in
     case map_of observation ''payload'' of
       Some (JObj payload) \<Rightarrow>
         (case map_of payload leaf of
            None \<Rightarrow> Inl (ValueError (''observation does not contain '' @ path))
          | Some (JObj kvs) \<Rightarrow> Inr (json_str (case map_of kvs ''value'' of Some v \<Rightarrow> v | None \<Rightarrow> JObj kvs))
          | Some v \<Rightarrow> Inr (json_str v))
     | _ \<Rightarrow> Inl (ValueError (''observation does not contain '' @ path)))"

text \<open>\<open>_ordered_observations\<close>: the keys of all observations are computed before any comparison.\<close>

definition kind_rank :: "string \<Rightarrow> int" where
  "kind_rank k = (case map_of [(''EXECUTION'', 1), (''TRADE_CAPTURE'', 2), (''CONFIRMATION'', 3), (''BOOKING'', 4)] k of
     Some r \<Rightarrow> r | None \<Rightarrow> 99)"

definition oracle_order :: "document \<Rightarrow> py_error + int \<times> int \<times> string \<times> string \<times> string" where
  "oracle_order ob =
     ebind (oracle_string ob ''observation_kind'') (\<lambda>k.
     ebind (json_int (get_or (JInt 0) ob ''source_sequence'')) (\<lambda>n.
     ebind (oracle_string ob ''observation_id'') (\<lambda>i.
     ebind (oracle_string ob ''source_version'') (\<lambda>v.
     ebind (oracle_string ob ''content_hash'') (\<lambda>h. Inr (kind_rank k, n, i, v, h))))))"

definition oracle_ordered :: "document list \<Rightarrow> py_error + document list" where
  "oracle_ordered obs = ebind (emap (\<lambda>ob. ebind (oracle_order ob) (\<lambda>k. Inr (k, ob))) obs) (\<lambda>keyed.
     Inr (map snd (sort_key fst keyed)))"

text \<open>\<open>_ordered_observations(observations)[0]["observation_id"]\<close>.\<close>

definition first_id :: "document list \<Rightarrow> py_error + string" where
  "first_id obs = ebind (oracle_ordered obs) (\<lambda>os. case os of
     [] \<Rightarrow> Inl (IndexError ''tuple index out of range'') | ob # _ \<Rightarrow> oracle_string ob ''observation_id'')"

text \<open>\<open>_authoritative\<close>.\<close>

definition oracle_authority :: "document list \<Rightarrow> document \<Rightarrow> string \<Rightarrow> py_error + document" where
  "oracle_authority obs canonical path = (case map_of canonical ''field_provenance'' of
     Some (JObj provenance) \<Rightarrow>
       (let reference = get_or JNull provenance path;
            source_id = (case reference of JObj r \<Rightarrow> get_or JNull r ''source_observation_id'' | _ \<Rightarrow> reference) in
        case source_id of
          JStr i \<Rightarrow> ebind (efind (\<lambda>ob. ebind (oracle_string ob ''observation_id'') (\<lambda>j. Inr (j = i))) obs) (\<lambda>found.
            case found of
              Some ob \<Rightarrow> Inr ob
            | None \<Rightarrow> Inl (ValueError (''canonical provenance references unavailable observation: '' @ i)))
        | _ \<Rightarrow> Inl (ValueError (''canonical provenance is missing for '' @ path)))
   | _ \<Rightarrow> Inl (ValueError ''canonical field_provenance is required''))"

text \<open>\<open>_window_seconds\<close> and \<open>_decimal_rule\<close>: the first rule of a product with a second key.\<close>

fun matching_rule :: "string \<Rightarrow> string \<Rightarrow> string \<Rightarrow> json list \<Rightarrow> py_error + document option" where
  "matching_rule product key_name key [] = Inr None"
| "matching_rule product key_name key (JObj rule # rules) =
     ebind (oracle_string rule ''product_type'') (\<lambda>p.
     if p \<noteq> product then matching_rule product key_name key rules
     else ebind (oracle_string rule key_name) (\<lambda>k.
       if k = key then Inr (Some rule) else matching_rule product key_name key rules))"
| "matching_rule product key_name key (_ # rules) = matching_rule product key_name key rules"

definition window_seconds :: "json \<Rightarrow> string \<Rightarrow> string \<Rightarrow> py_error + int" where
  "window_seconds rules product k = ebind (matching_rule product ''observation_kind'' k (oracle_sequence rules)) (\<lambda>found.
     case found of
       Some rule \<Rightarrow> json_int (get_or (JInt 0) rule ''window_seconds'')
     | None \<Rightarrow> Inl (ValueError (''missing arrival-window rule for '' @ product @ ''/'' @ k)))"

definition oracle_decimal_rule :: "json \<Rightarrow> string \<Rightarrow> string \<Rightarrow> py_error + string \<times> decimal" where
  "oracle_decimal_rule rules product path = ebind (matching_rule product ''field_path'' path (oracle_sequence rules)) (\<lambda>found.
     case found of
       None \<Rightarrow> Inl (ValueError (''missing decimal rule for '' @ product @ ''/'' @ path))
     | Some rule \<Rightarrow> (case map_of rule ''tolerance'' of
         Some (JObj tolerance) \<Rightarrow>
           ebind (oracle_string tolerance ''mode'') (\<lambda>mode. let v = get_or JNull tolerance ''value'' in
             if v = JNull then Inr (mode, Fin 0 0)
             else ebind (signal (parse_decimal (json_str v))) (\<lambda>allowed. Inr (mode, allowed)))
       | _ \<Rightarrow> Inl (ValueError ''decimal rule tolerance is required'')))"

text \<open>\<open>_decimal\<close> and \<open>_within_tolerance\<close>.\<close>

definition oracle_decimal :: "string \<Rightarrow> py_error + decimal" where
  "oracle_decimal v = (case parse_decimal v of
     Some d \<Rightarrow> Inr d | None \<Rightarrow> Inl (ValueError (''invalid decimal value: '' @ v)))"

definition oracle_within :: "decimal \<Rightarrow> decimal \<Rightarrow> string \<times> decimal \<Rightarrow> py_error + bool" where
  "oracle_within expected observed rule = (case rule of (mode, allowed) \<Rightarrow>
     ebind (signal (dec_sub observed expected)) (\<lambda>d.
     ebind (signal (dec_abs d)) (\<lambda>difference.
     if mode = ''NONE'' then signal (dec_eq difference (Fin 0 0))
     else if mode = ''ABSOLUTE_DECIMAL'' then signal (dec_le difference allowed)
     else if mode = ''RELATIVE_DECIMAL'' then
       ebind (signal (dec_abs expected)) (\<lambda>a.
       ebind (signal (dec_mul a allowed)) (\<lambda>limit. signal (dec_le difference limit)))
     else Inl (ValueError (''unsupported decimal tolerance mode: '' @ mode)))))"

section \<open>Facts\<close>

definition BREAK_FAMILIES :: "string list" where
  "BREAK_FAMILIES = [''MISSING_REQUIRED_SOURCE'', ''AMBIGUOUS_OR_UNMATCHED_LINKAGE'', ''DUPLICATE_SOURCE_CONFLICT'',
     ''CURRENCY_PAIR_OR_SIDE_MISMATCH'', ''ECONOMIC_VALUE_MISMATCH'', ''TRADE_OR_VALUE_DATE_MISMATCH'',
     ''LIFECYCLE_STATUS_MISMATCH'', ''POST_ACTION_VERIFICATION_FAILURE'']"

definition REQUIRED_SOURCE_KINDS :: "string list" where
  "REQUIRED_SOURCE_KINDS = [''EXECUTION'', ''CONFIRMATION'', ''BOOKING'']"

definition ORACLE_ECONOMIC_FIELDS :: "string list" where
  "ORACLE_ECONOMIC_FIELDS = [''/payload/base_amount'', ''/payload/terms_amount'', ''/payload/quoted_rate'']"

definition ORACLE_DATE_FIELDS :: "string list" where
  "ORACLE_DATE_FIELDS = [''/payload/trade_date'', ''/payload/value_date'']"

definition ORACLE_ACTION_FIELDS :: "string list" where
  "ORACLE_ACTION_FIELDS = [''/payload/book_id'', ''/payload/lifecycle_status'', ''/payload/booking_version'',
     ''/payload/record_fingerprint'']"

record OracleFact =
  of_family :: string
  of_field_path :: string
  of_expected_value :: string
  of_observed_value :: string
  of_source_observation_ids :: "string list"

text \<open>\<open>_missing_source_facts\<close>, its loop body for one kind.\<close>

definition missing_source_fact ::
    "document list \<Rightarrow> json \<Rightarrow> string \<Rightarrow> datetime \<Rightarrow> datetime \<Rightarrow> string list \<Rightarrow> string \<Rightarrow> py_error + OracleFact list" where
  "missing_source_fact obs rules product watermark evaluated available k =
     (if k \<in> set available then Inr []
      else ebind (window_seconds rules product k) (\<lambda>window.
           ebind (add_seconds watermark window) (\<lambda>expected_by.
           if instant evaluated < instant expected_by then Inr []
           else ebind (first_id obs) (\<lambda>i. Inr [\<lparr>of_family = ''MISSING_REQUIRED_SOURCE'',
             of_field_path = ''/source/'' @ lower k @ ''_observation'', of_expected_value = ''present'',
             of_observed_value = ''absent_after_watermark'', of_source_observation_ids = [i]\<rparr>]))))"

definition missing_source_facts :: "document list \<Rightarrow> document \<Rightarrow> document \<Rightarrow> string \<Rightarrow> py_error + OracleFact list" where
  "missing_source_facts obs canonical config evaluated_at =
     ebind (emap (\<lambda>ob. oracle_string ob ''observation_kind'') obs) (\<lambda>available.
     ebind (oracle_string canonical ''product_type'') (\<lambda>product.
     ebind (ebind (oracle_string canonical ''source_watermark'') oracle_time) (\<lambda>watermark.
     ebind (oracle_time evaluated_at) (\<lambda>evaluated.
     econcat (emap (missing_source_fact obs (get_or (JList []) config ''arrival_windows'') product watermark evaluated available)
       REQUIRED_SOURCE_KINDS)))))"

text \<open>\<open>_linkage_facts\<close>; \<open>candidate_outside\<close> is the test of its \<open>any\<close>.\<close>

definition candidate_outside :: "document \<Rightarrow> json \<Rightarrow> py_error + bool" where
  "candidate_outside canonical candidate = (case candidate of
     JObj c \<Rightarrow>
       ebind (oracle_string c ''tenant_id'') (\<lambda>t.
       ebind (oracle_string canonical ''tenant_id'') (\<lambda>t'.
       if t \<noteq> t' then Inr True
       else ebind (oracle_string c ''portfolio_id'') (\<lambda>p.
            ebind (oracle_string canonical ''portfolio_id'') (\<lambda>p'. Inr (p \<noteq> p')))))
   | _ \<Rightarrow> Inr True)"

definition linkage_candidates :: "document option \<Rightarrow> json list" where
  "linkage_candidates decision = (case decision of
     None \<Rightarrow> [] | Some d \<Rightarrow> oracle_sequence (get_or (JList []) d ''candidate_links''))"

definition decision_invalid :: "document \<Rightarrow> string \<Rightarrow> document \<Rightarrow> py_error + bool" where
  "decision_invalid canonical trade_id d =
     ebind (efind (candidate_outside canonical) (linkage_candidates (Some d))) (\<lambda>outside.
     if outside \<noteq> None then Inr True
     else ebind (oracle_string d ''decision'') (\<lambda>s. Inr (
       s \<in> {''REJECTED'', ''UNMATCHED'', ''AMBIGUOUS'', ''CROSS_SCOPE_REJECTED''} \<or>
       get_or JNull d ''chosen_trade_id'' \<noteq> JStr trade_id \<or>
       length (linkage_candidates (Some d)) \<noteq> 1)))"

definition linkage_facts :: "document list \<Rightarrow> document \<Rightarrow> document option \<Rightarrow> py_error + OracleFact list" where
  "linkage_facts obs canonical decision =
     ebind (oracle_string canonical ''trade_id'') (\<lambda>trade_id.
     ebind (case decision of None \<Rightarrow> Inr True | Some d \<Rightarrow> decision_invalid canonical trade_id d) (\<lambda>invalid.
     if \<not> invalid then Inr []
     else let n = length (linkage_candidates decision); count = int_str (int n) in
       ebind (first_id obs) (\<lambda>i. Inr [\<lparr>of_family = ''AMBIGUOUS_OR_UNMATCHED_LINKAGE'',
         of_field_path = ''/linkage/trade_id'', of_expected_value = ''1'',
         of_observed_value = (if count = ''1'' then ''0'' else count), of_source_observation_ids = [i]\<rparr>])))"

text \<open>\<open>_duplicate_facts\<close>: the groups in the order of their first members.\<close>

definition duplicate_fact :: "document list \<Rightarrow> py_error + OracleFact list" where
  "duplicate_fact grp =
     ebind (emap (\<lambda>ob. oracle_string ob ''content_hash'') grp) (\<lambda>hashes.
     if length (remdups hashes) < 2 then Inr []
     else ebind (oracle_ordered grp) (\<lambda>ordered.
          ebind (oracle_string (ordered ! 0) ''content_hash'') (\<lambda>expected.
          ebind (oracle_string (ordered ! 1) ''content_hash'') (\<lambda>observed.
          ebind (emap (\<lambda>ob. oracle_string ob ''observation_id'') ordered) (\<lambda>ids.
          Inr [\<lparr>of_family = ''DUPLICATE_SOURCE_CONFLICT'', of_field_path = ''/source/content_hash'',
            of_expected_value = expected, of_observed_value = observed, of_source_observation_ids = ids\<rparr>])))))"

definition oracle_groups :: "document list \<Rightarrow> py_error + document list list" where
  "oracle_groups obs =
     ebind (emap (\<lambda>ob. ebind (oracle_strings ob [''observation_kind'', ''source_business_key'', ''source_version''])
       (\<lambda>k. Inr (k, ob))) obs) (\<lambda>keyed.
     Inr (map (\<lambda>k. map snd (filter (\<lambda>x. fst x = k) keyed)) (map fst (firsts fst keyed))))"

definition duplicate_facts :: "document list \<Rightarrow> py_error + OracleFact list" where
  "duplicate_facts obs = ebind (oracle_groups obs) (\<lambda>groups. econcat (emap duplicate_fact groups))"

text \<open>
  The loop that \<open>_comparison_facts\<close>, \<open>_economic_facts\<close> and \<open>_date_facts\<close> run over the observations other than
  the authoritative one, with the test by which a value passes.
\<close>

definition first_difference ::
    "document list \<Rightarrow> document \<Rightarrow> string \<Rightarrow> string \<Rightarrow> string \<Rightarrow> (string \<Rightarrow> py_error + bool) \<Rightarrow> py_error + OracleFact list" where
  "first_difference obs baseline family path expected passes =
     ebind (oracle_ordered obs) (\<lambda>ordered.
     ebind (efind (\<lambda>observed.
       ebind (oracle_string observed ''observation_id'') (\<lambda>i.
       ebind (oracle_string baseline ''observation_id'') (\<lambda>j.
       if i = j then Inr False
       else ebind (oracle_value observed path) (\<lambda>v. ebind (passes v) (\<lambda>ok. Inr (\<not> ok)))))) ordered) (\<lambda>found.
     case found of
       None \<Rightarrow> Inr []
     | Some observed \<Rightarrow>
         ebind (oracle_value observed path) (\<lambda>v.
         ebind (oracle_string baseline ''observation_id'') (\<lambda>j.
         ebind (oracle_string observed ''observation_id'') (\<lambda>i.
         Inr [\<lparr>of_family = family, of_field_path = path, of_expected_value = expected, of_observed_value = v,
           of_source_observation_ids = [j, i]\<rparr>])))))"

definition comparison_facts :: "document list \<Rightarrow> document \<Rightarrow> string \<Rightarrow> string \<Rightarrow> py_error + OracleFact list" where
  "comparison_facts obs canonical family path =
     ebind (oracle_authority obs canonical path) (\<lambda>baseline.
     ebind (oracle_value baseline path) (\<lambda>expected.
     first_difference obs baseline family path expected (\<lambda>v. Inr (v = expected))))"

text \<open>\<open>str(Decimal)\<close>: in plain notation from an adjusted exponent of \<open>-6\<close>, else in scientific notation. The sign of
  a zero is not kept.\<close>

definition decimal_str :: "decimal \<Rightarrow> string" where
  "decimal_str x = (case x of
     Fin c e \<Rightarrow>
       (let digits = int_str \<bar>c\<bar>; n = int (length digits); left = e + n;
            dot = (if e \<le> 0 \<and> - 6 < left then left else 1);
            number = (if dot \<le> 0 then ''0.'' @ replicate (nat (- dot)) CHR ''0'' @ digits
              else if n \<le> dot then digits @ replicate (nat (dot - n)) CHR ''0''
              else take (nat dot) digits @ ''.'' @ drop (nat dot) digits) in
        (if c < 0 then ''-'' else '''') @ number @
        (if left = dot then [] else ''E'' @ (if dot < left then ''+'' else ''-'') @ int_str \<bar>left - dot\<bar>))
   | Infty s \<Rightarrow> if s then ''-Infinity'' else ''Infinity''
   | QNaN \<Rightarrow> ''NaN''
   | SNaN \<Rightarrow> ''sNaN'')"

definition economic_fact :: "document list \<Rightarrow> document \<Rightarrow> json \<Rightarrow> string \<Rightarrow> py_error + OracleFact list" where
  "economic_fact obs canonical rules path =
     ebind (oracle_authority obs canonical path) (\<lambda>baseline.
     ebind (ebind (oracle_value baseline path) oracle_decimal) (\<lambda>expected.
     ebind (oracle_string canonical ''product_type'') (\<lambda>product.
     ebind (oracle_decimal_rule rules product path) (\<lambda>tolerance.
     first_difference obs baseline ''ECONOMIC_VALUE_MISMATCH'' path (decimal_str expected)
       (\<lambda>v. ebind (oracle_decimal v) (\<lambda>observed. oracle_within expected observed tolerance))))))"

definition economic_facts :: "document list \<Rightarrow> document \<Rightarrow> document \<Rightarrow> py_error + OracleFact list" where
  "economic_facts obs canonical config =
     econcat (emap (economic_fact obs canonical (get_or (JList []) config ''decimal_tolerances'')) ORACLE_ECONOMIC_FIELDS)"

definition date_facts :: "document list \<Rightarrow> document \<Rightarrow> py_error + OracleFact list" where
  "date_facts obs canonical = econcat (emap (comparison_facts obs canonical ''TRADE_OR_VALUE_DATE_MISMATCH'') ORACLE_DATE_FIELDS)"

text \<open>\<open>_lifecycle_facts\<close>: of two rules for a kind the later one counts.\<close>

fun expected_statuses :: "json list \<Rightarrow> py_error + (string \<times> string) list" where
  "expected_statuses [] = Inr []"
| "expected_statuses (JObj rule # rules) =
     ebind (oracle_string rule ''observation_kind'') (\<lambda>k.
     ebind (oracle_string rule ''expected_status'') (\<lambda>s.
     ebind (expected_statuses rules) (\<lambda>rest. Inr (rest @ [(k, s)]))))"
| "expected_statuses (_ # rules) = expected_statuses rules"

definition lifecycle_facts :: "document list \<Rightarrow> document \<Rightarrow> py_error + OracleFact list" where
  "lifecycle_facts obs config =
     ebind (emap (\<lambda>ob. oracle_value ob ''/payload/lifecycle_status'') obs) (\<lambda>statuses.
     if length (remdups statuses) = 1 \<and> hd statuses \<in> {''AMENDED'', ''CANCELLED''} then Inr []
     else
       ebind (expected_statuses (oracle_sequence (get_or (JList []) config ''lifecycle_expected_statuses''))) (\<lambda>expected.
       ebind (oracle_ordered obs) (\<lambda>ordered.
       ebind (efind (\<lambda>ob.
         ebind (oracle_string ob ''observation_kind'') (\<lambda>k.
         ebind (oracle_value ob ''/payload/lifecycle_status'') (\<lambda>s. Inr (map_of expected k \<noteq> Some s)))) ordered) (\<lambda>found.
       case found of
         None \<Rightarrow> Inr []
       | Some ob \<Rightarrow>
           ebind (oracle_string ob ''observation_kind'') (\<lambda>k.
           ebind (oracle_value ob ''/payload/lifecycle_status'') (\<lambda>s.
           ebind (oracle_string ob ''observation_id'') (\<lambda>i.
           Inr [\<lparr>of_family = ''LIFECYCLE_STATUS_MISMATCH'', of_field_path = ''/payload/lifecycle_status'',
             of_expected_value = (case map_of expected k of
               Some e \<Rightarrow> if e = [] then ''configured_expected_status'' else e | None \<Rightarrow> ''configured_expected_status''),
             of_observed_value = s, of_source_observation_ids = [i]\<rparr>])))))))"

text \<open>\<open>_post_action_facts\<close>: the listed changes, the differences of the two bookings on fields that are not listed, and
  a stand-in when the read-back failed or the break remains without any difference.\<close>

type_synonym change = "string \<times> string \<times> string \<times> string list"

fun listed_changes :: "document \<Rightarrow> json list \<Rightarrow> py_error + change list" where
  "listed_changes pre [] = Inr []"
| "listed_changes pre (JObj item # items) =
     ebind (oracle_string item ''field_path'') (\<lambda>path.
     ebind (oracle_string item ''expected_value'') (\<lambda>e.
     ebind (oracle_string item ''observed_value'') (\<lambda>v.
     ebind (oracle_string pre ''observation_id'') (\<lambda>i.
     ebind (listed_changes pre items) (\<lambda>rest. Inr ((path, e, v, [i]) # rest))))))"
| "listed_changes pre (_ # items) = Inl (ValueError ''changed_fields must contain mappings'')"

definition add_difference :: "document \<Rightarrow> document \<Rightarrow> string \<Rightarrow> change list \<Rightarrow> py_error + change list" where
  "add_difference pre post path changed =
     ebind (oracle_value pre path) (\<lambda>e.
     ebind (oracle_value post path) (\<lambda>v.
     if e \<noteq> v \<and> path \<notin> fst ` set changed
     then ebind (oracle_string pre ''observation_id'') (\<lambda>i.
          ebind (oracle_string post ''observation_id'') (\<lambda>j. Inr (changed @ [(path, e, v, [i, j])])))
     else Inr changed))"

definition unreadable :: "document \<Rightarrow> py_error + change list" where
  "unreadable pre =
     ebind (oracle_value pre ''/payload/book_id'') (\<lambda>e.
     ebind (oracle_string pre ''observation_id'') (\<lambda>i.
     Inr [(''/payload/book_id'', e, ''readback_unavailable'', [i])]))"

definition post_action_facts :: "document option \<Rightarrow> py_error + OracleFact list" where
  "post_action_facts verification = (case verification of
     None \<Rightarrow> Inr []
   | Some m \<Rightarrow> (case get_or JNull m ''pre_action'' of
       JObj pre \<Rightarrow>
         ebind (listed_changes pre (oracle_sequence (get_or (JList []) m ''changed_fields''))) (\<lambda>changed.
         ebind (case get_or JNull m ''post_action'' of
             JObj post \<Rightarrow> efold (add_difference pre post) ORACLE_ACTION_FIELDS changed
           | _ \<Rightarrow> Inr changed) (\<lambda>changed.
         let readback = truthy (get_or (JBool True) m ''readback_available'');
             remaining = truthy (get_or (JBool False) m ''original_break_remaining'') in
         ebind (if changed = [] \<and> (\<not> readback \<or> remaining) then unreadable pre else Inr changed) (\<lambda>changed.
         Inr (map (\<lambda>(path, e, v, ids). \<lparr>of_family = ''POST_ACTION_VERIFICATION_FAILURE'', of_field_path = path,
           of_expected_value = e, of_observed_value = v, of_source_observation_ids = ids\<rparr>) changed))))
     | _ \<Rightarrow> Inl (ValueError ''post-action verification requires pre_action'')))"

section \<open>The evaluation of documents\<close>

record OracleResult =
  or_oracle_version :: string
  or_product_type :: string
  or_source_watermark :: string
  or_source_observation_ids :: "string list"
  or_config_hash :: string
  or_families :: "string list"
  or_facts :: "OracleFact list"

definition oracle_verdict :: "OracleResult \<Rightarrow> string" where
  "oracle_verdict r = (if or_families r \<noteq> [] then ''BREAKS_DETECTED'' else ''PASS'')"

text \<open>\<open>as_dict\<close> of a fact and of a result.\<close>

definition fact_dict :: "OracleFact \<Rightarrow> json" where
  "fact_dict f = JObj [
     (''family'', JStr (of_family f)), (''field_path'', JStr (of_field_path f)),
     (''expected_value'', JStr (of_expected_value f)), (''observed_value'', JStr (of_observed_value f)),
     (''source_observation_ids'', JList (map JStr (of_source_observation_ids f)))]"

definition result_dict :: "OracleResult \<Rightarrow> json" where
  "result_dict r = JObj [
     (''oracle_version'', JStr (or_oracle_version r)), (''product_type'', JStr (or_product_type r)),
     (''source_watermark'', JStr (or_source_watermark r)),
     (''source_observation_ids'', JList (map JStr (or_source_observation_ids r))),
     (''config_hash'', JStr (or_config_hash r)), (''result'', JStr (oracle_verdict r)),
     (''families'', JList (map JStr (or_families r))), (''facts'', JList (map fact_dict (or_facts r)))]"

text \<open>\<open>_validate_input\<close>.\<close>

definition SCOPE_KEYS :: "string list" where
  "SCOPE_KEYS = [''tenant_id'', ''portfolio_id'', ''correlation_id'']"

definition validate_delivery :: "document \<Rightarrow> string list \<Rightarrow> document \<Rightarrow> py_error + unit" where
  "validate_delivery canonical scope ob =
     ebind (oracle_strings ob SCOPE_KEYS) (\<lambda>s.
     if s \<noteq> scope then Inl (ValueError ''oracle source observations must remain in canonical scope'')
     else ebind (ebind (oracle_string ob ''ingest_time'') oracle_time) (\<lambda>t.
          ebind (ebind (oracle_string canonical ''source_watermark'') oracle_time) (\<lambda>w.
          if instant w < instant t then Inl (ValueError ''oracle source observation arrives after canonical watermark'')
          else Inr ())))"

definition document_mappings :: "json list \<Rightarrow> document list" where
  "document_mappings xs = concat (map (\<lambda>x. case x of JObj m \<Rightarrow> [m] | _ \<Rightarrow> []) xs)"

definition validate_sources :: "document list \<Rightarrow> document \<Rightarrow> py_error + unit" where
  "validate_sources obs canonical = (case get_or JNull canonical ''source_version_set'' of
     JList refs \<Rightarrow>
       ebind (emap (\<lambda>ob. oracle_strings ob
         [''observation_id'', ''observation_kind'', ''source_system'', ''source_version'', ''content_hash'']) obs) (\<lambda>actual.
       ebind (emap (\<lambda>ref. oracle_strings ref
         [''source_observation_id'', ''observation_kind'', ''source_system'', ''source_version'', ''content_hash''])
         (document_mappings refs)) (\<lambda>expected.
       if set actual \<noteq> set expected
       then Inl (ValueError ''oracle source observations must equal canonical source_version_set'') else Inr ()))
   | _ \<Rightarrow> Inl (ValueError ''canonical source_version_set is required''))"

definition validate_input ::
    "document list \<Rightarrow> document \<Rightarrow> document \<Rightarrow> document option \<Rightarrow> py_error + unit" where
  "validate_input obs canonical config decision =
     ebind (checked [
       (obs = [], ValueError ''oracle requires at least one source observation''),
       (fst ` set canonical \<inter> {''reconciliation_run'', ''breaks'', ''break_ids'', ''result''} \<noteq> {},
          ValueError ''oracle input must not contain production evaluator output'')] ()) (\<lambda>_.
     ebind (oracle_string canonical ''source_watermark'') (\<lambda>watermark.
     ebind (checked [(watermark = [], ValueError ''canonical source_watermark is required'')] ()) (\<lambda>_.
     ebind (emap (\<lambda>ob. oracle_string ob ''observation_id'') obs) (\<lambda>source_ids.
     ebind (checked [(has_dups source_ids, ValueError ''oracle source observation IDs must be unique'')] ()) (\<lambda>_.
     ebind (oracle_strings canonical SCOPE_KEYS) (\<lambda>scope.
     ebind (emap (validate_delivery canonical scope) obs) (\<lambda>_.
     ebind (validate_sources obs canonical) (\<lambda>_.
     ebind (case decision of
         None \<Rightarrow> Inr ()
       | Some d \<Rightarrow> (let v = get_or JNull d ''source_observation_id'' in
           if v \<noteq> JNull \<and> json_str v \<notin> set source_ids
           then Inl (ValueError ''oracle linkage decision must reference the source set'') else Inr ())) (\<lambda>_.
     if \<not> truthy (get_or JNull config ''config_id'') \<or> \<not> truthy (get_or JNull config ''config_version'')
     then Inl (ValueError ''oracle config identity is required'') else Inr ())))))))))"

text \<open>The facts in the order in which \<open>_evaluate_mappings\<close> collects them.\<close>

definition oracle_facts ::
    "document list \<Rightarrow> document \<Rightarrow> document \<Rightarrow> document option \<Rightarrow> document option \<Rightarrow> string \<Rightarrow> py_error + OracleFact list" where
  "oracle_facts obs canonical config decision verification evaluation_time =
     ebind (missing_source_facts obs canonical config evaluation_time) (\<lambda>missing.
     ebind (linkage_facts obs canonical decision) (\<lambda>linkage.
     ebind (duplicate_facts obs) (\<lambda>duplicates.
     ebind (econcat (emap (comparison_facts obs canonical ''CURRENCY_PAIR_OR_SIDE_MISMATCH'')
       [''/payload/base_currency'', ''/payload/terms_currency'', ''/payload/side''])) (\<lambda>exact.
     ebind (economic_facts obs canonical config) (\<lambda>economic.
     ebind (date_facts obs canonical) (\<lambda>dates.
     ebind (lifecycle_facts obs config) (\<lambda>lifecycle.
     ebind (post_action_facts verification) (\<lambda>action.
     Inr (missing @ linkage @ duplicates @ exact @ economic @ dates @ lifecycle @ action)))))))))"

definition fact_families :: "OracleFact list \<Rightarrow> string list" where
  "fact_families facts = filter (\<lambda>f. f \<in> of_family ` set facts) BREAK_FAMILIES"

definition fact_order :: "OracleFact \<Rightarrow> nat \<times> string \<times> string list" where
  "fact_order f = (length (takeWhile (\<lambda>x. x \<noteq> of_family f) BREAK_FAMILIES), of_field_path f, of_source_observation_ids f)"

definition evaluate_mappings ::
    "runtime \<Rightarrow> document list \<Rightarrow> document \<Rightarrow> document \<Rightarrow> document option \<Rightarrow> document option \<Rightarrow> string option \<Rightarrow>
       py_error + OracleResult" where
  "evaluate_mappings rt obs canonical config decision verification evaluated_at =
     ebind (validate_input obs canonical config decision) (\<lambda>_.
     ebind (oracle_string canonical ''product_type'') (\<lambda>product.
     ebind (oracle_string canonical ''source_watermark'') (\<lambda>watermark.
     let evaluation_time = (case evaluated_at of Some t \<Rightarrow> if t = [] then watermark else t | None \<Rightarrow> watermark) in
     ebind (oracle_facts obs canonical config decision verification evaluation_time) (\<lambda>facts.
     ebind (oracle_ordered obs) (\<lambda>ordered.
     ebind (emap (\<lambda>ob. oracle_string ob ''observation_id'') ordered) (\<lambda>ids.
     Inr \<lparr>or_oracle_version = ''1.0.0'', or_product_type = product, or_source_watermark = watermark,
       or_source_observation_ids = ids, or_config_hash = sha256_tag rt (dumps (JObj config)),
       or_families = fact_families facts, or_facts = sort_key fact_order facts\<rparr>))))))"

section \<open>The typed boundary\<close>

text \<open>
  \<open>OraclePostAction\<close> has the fields of the engine's verification. Its bookings are typed, so that a document of
  another kind is not accepted.
\<close>

record OraclePostAction =
  op_action_instruction_hash :: string
  op_pre_action :: Observation
  op_post_action :: "Observation option"
  op_changed_fields :: "ChangedField list"
  op_readback_available :: bool
  op_original_break_remaining :: bool

definition mk_OracleChangedField :: "ChangedField \<Rightarrow> py_error + ChangedField" where
  "mk_OracleChangedField c = checked [
     (ch_field_path c \<notin> set ORACLE_ACTION_FIELDS, ValueError ''field_path''),
     (ch_expected_value c = [], ValueError ''expected_value''),
     (ch_observed_value c = [], ValueError ''observed_value'')] c"

definition booking_typed :: "Observation \<Rightarrow> py_error + Observation" where
  "booking_typed ob = (if ob_kind ob \<noteq> BOOKING then Inl (ValueError ''observation_kind'') else validate_observation ob)"

definition mk_OraclePostAction :: "OraclePostAction \<Rightarrow> py_error + OraclePostAction" where
  "mk_OraclePostAction v =
     ebind (checked [(\<not> is_sha256_hash (op_action_instruction_hash v), ValueError ''action_instruction_hash'')] ()) (\<lambda>_.
     ebind (booking_typed (op_pre_action v)) (\<lambda>_.
     ebind (mk_opt booking_typed (op_post_action v)) (\<lambda>_.
     ebind (emap mk_OracleChangedField (op_changed_fields v)) (\<lambda>_.
     checked [
       (\<not> opt_ok (\<lambda>p. action_scope p = action_scope (op_pre_action v)) (op_post_action v),
          ValueError ''pre_action and post_action must identify one scoped trade''),
       (op_readback_available v \<and> op_post_action v = None, ValueError ''readback_available requires post_action''),
       (has_dups (map (\<lambda>f. (ch_field_path f, ch_expected_value f, ch_observed_value f)) (op_changed_fields v)),
          ValueError ''changed_fields must be unique'')] v))))"

record OracleContext =
  oc_canonical_state :: CanonicalTradeState
  oc_source_observations :: "Observation list"
  oc_evaluated_at :: "datetime option"
  oc_linkage_decision :: "LinkageDecision option"
  oc_post_action :: "OraclePostAction option"

definition oracle_evaluated_at :: "OracleContext \<Rightarrow> datetime" where
  "oracle_evaluated_at oc = (case oc_evaluated_at oc of
     Some t \<Rightarrow> t | None \<Rightarrow> cs_source_watermark (oc_canonical_state oc))"

definition delivery_boundary :: "CanonicalTradeState \<Rightarrow> Observation \<Rightarrow> (bool \<times> py_error) list" where
  "delivery_boundary canonical ob = [
     ((ob_tenant_id ob, ob_portfolio_id ob, ob_correlation_id ob) \<noteq> canonical_scope canonical,
        ValueError ''source_observations must remain inside canonical scope''),
     (instant (cs_source_watermark canonical) < instant (ob_ingest_time ob),
        ValueError ''source_observations must not arrive after source_watermark'')]"

definition validate_input_boundary :: "OracleContext \<Rightarrow> py_error + OracleContext" where
  "validate_input_boundary oc = (
     let canonical = oc_canonical_state oc; source_ids = map ob_observation_id (oc_source_observations oc) in
     checked (
       (case oc_evaluated_at oc of None \<Rightarrow> [] | Some t \<Rightarrow> [
          (\<not> aware t, ValueError ''evaluated_at must include a timezone offset''),
          (instant t < instant (cs_source_watermark canonical),
             ValueError ''evaluated_at must not precede source_watermark'')]) @ [
       (has_dups source_ids, ValueError ''source_observations observation IDs must be unique''),
       (set (map observation_key (oc_source_observations oc)) \<noteq> set (map item_key (cs_source_version_set canonical)),
          ValueError ''source_observations must equal source_version_set exactly'')] @
       concat (map (delivery_boundary canonical) (oc_source_observations oc)) @
       (case oc_linkage_decision oc of None \<Rightarrow> [] | Some d \<Rightarrow> [
          (ld_source_observation_id d \<notin> set source_ids, ValueError ''linkage_decision must reference the exact source set'')]) @
       (case oc_post_action oc of None \<Rightarrow> [] | Some v \<Rightarrow> [
          (ob_observation_id (op_pre_action v) \<notin> set source_ids, ValueError ''pre_action must reference the exact source set''),
          (\<not> opt_ok (\<lambda>p. ob_observation_id p \<in> set source_ids) (op_post_action v),
             ValueError ''post_action must reference the exact source set'')])) oc)"

definition mk_OracleContext :: "OracleContext \<Rightarrow> py_error + OracleContext" where
  "mk_OracleContext oc =
     ebind (mk_CanonicalTradeState (oc_canonical_state oc)) (\<lambda>_.
     ebind (checked [(oc_source_observations oc = [], ValueError ''source_observations'')] ()) (\<lambda>_.
     ebind (emap validate_observation (oc_source_observations oc)) (\<lambda>_.
     ebind (mk_opt mk_LinkageDecision (oc_linkage_decision oc)) (\<lambda>_.
     ebind (mk_opt mk_OraclePostAction (oc_post_action oc)) (\<lambda>_.
     validate_input_boundary oc)))))"

section \<open>Models as documents\<close>

text \<open>\<open>model_dump(mode="json")\<close>.\<close>

fun json_mode :: "runtime \<Rightarrow> pyval \<Rightarrow> json" where
  "json_mode rt PNone = JNull"
| "json_mode rt (PBool b) = JBool b"
| "json_mode rt (PInt i) = JInt i"
| "json_mode rt (PFloat x) = JFloat (float_repr rt x)"
| "json_mode rt (PStr s) = JStr s"
| "json_mode rt (PDatetime t) = JStr (datetime_json rt t)"
| "json_mode rt (PDate d) = JStr (date_isoformat d)"
| "json_mode rt (PList xs) = JList (map (json_mode rt) xs)"
| "json_mode rt (PMap kvs) = JObj (map (\<lambda>(k, v). (k, json_mode rt v)) kvs)"

definition observation_doc :: "runtime \<Rightarrow> Observation \<Rightarrow> document" where
  "observation_doc rt ob = map (\<lambda>(k, v). (k, json_mode rt v)) (dump_observation ob)"

fun linkage_reason_str :: "LinkageReason \<Rightarrow> string" where
  "linkage_reason_str EXACT_DETERMINISTIC_KEY = ''EXACT_DETERMINISTIC_KEY''"
| "linkage_reason_str NO_ELIGIBLE_CANDIDATE = ''NO_ELIGIBLE_CANDIDATE''"
| "linkage_reason_str MULTIPLE_ELIGIBLE_CANDIDATES = ''MULTIPLE_ELIGIBLE_CANDIDATES''"
| "linkage_reason_str TENANT_OR_PORTFOLIO_SCOPE_MISMATCH = ''TENANT_OR_PORTFOLIO_SCOPE_MISMATCH''"
| "linkage_reason_str HUMAN_REJECTED = ''HUMAN_REJECTED''"

definition candidate_doc :: "CandidateLink \<Rightarrow> json" where
  "candidate_doc c = JObj [
     (''trade_id'', JStr (cl_trade_id c)), (''tenant_id'', JStr (cl_tenant_id c)),
     (''portfolio_id'', JStr (cl_portfolio_id c)), (''match_key'', JStr (cl_match_key c)),
     (''match_rule_version'', JStr (cl_match_rule_version c)), (''evidence_hash'', JStr (cl_evidence_hash c))]"

definition linkage_doc :: "runtime \<Rightarrow> LinkageDecision \<Rightarrow> document" where
  "linkage_doc rt d = [
     (''schema_version'', JStr ''1.0.0''),
     (''decision_id'', JStr (ld_decision_id d)), (''entity_version'', JInt (ld_entity_version d)),
     (''tenant_id'', JStr (ld_tenant_id d)), (''portfolio_id'', JStr (ld_portfolio_id d)),
     (''correlation_id'', JStr (ld_correlation_id d)), (''content_hash'', JStr (ld_content_hash d)),
     (''created_at'', JStr (datetime_json rt (ld_created_at d))), (''actor'', actor_json (ld_actor d)),
     (''source_observation_id'', JStr (ld_source_observation_id d)),
     (''deterministic_rule_version'', JStr (ld_deterministic_rule_version d)),
     (''decision'', JStr (linkage_str (ld_decision d))),
     (''candidate_links'', JList (map candidate_doc (ld_candidate_links d))),
     (''chosen_trade_id'', json_opt JStr (ld_chosen_trade_id d)),
     (''reason_code'', JStr (linkage_reason_str (ld_reason_code d)))]"

definition changed_field_doc :: "ChangedField \<Rightarrow> json" where
  "changed_field_doc c = JObj [(''field_path'', JStr (ch_field_path c)),
     (''expected_value'', JStr (ch_expected_value c)), (''observed_value'', JStr (ch_observed_value c))]"

definition post_action_doc :: "runtime \<Rightarrow> OraclePostAction \<Rightarrow> document" where
  "post_action_doc rt v = [
     (''action_instruction_hash'', JStr (op_action_instruction_hash v)),
     (''pre_action'', JObj (observation_doc rt (op_pre_action v))),
     (''post_action'', json_opt (\<lambda>p. JObj (observation_doc rt p)) (op_post_action v)),
     (''changed_fields'', JList (map changed_field_doc (op_changed_fields v))),
     (''readback_available'', JBool (op_readback_available v)),
     (''original_break_remaining'', JBool (op_original_break_remaining v))]"

section \<open>The evaluation of a context\<close>

definition provenance_doc :: "CanonicalTradeState \<Rightarrow> json" where
  "provenance_doc canonical = JObj (map (\<lambda>f. (''/payload/'' @ field_name f,
     JObj [(''source_observation_id'', JStr (fp_source_observation_id (cs_field_provenance canonical f)))]))
     [F_product_type, F_settlement_rule_version, F_base_currency, F_terms_currency, F_side, F_base_amount,
      F_terms_amount, F_quoted_rate, F_trade_date, F_value_date, F_lifecycle_status, F_counterparty_id, F_book_id])"

text \<open>Of two observations with one identifier \<open>observations_by_id\<close> holds the later one.\<close>

definition reference_doc :: "Observation list \<Rightarrow> SourceVersionSetItem \<Rightarrow> py_error + json" where
  "reference_doc observations i = (case List.find (\<lambda>ob. ob_observation_id ob = si_observation_id i) (rev observations) of
     None \<Rightarrow> Inl (KeyError (si_observation_id i))
   | Some ob \<Rightarrow> Inr (JObj [
       (''source_observation_id'', JStr (si_observation_id i)),
       (''observation_kind'', JStr (kind_str (si_observation_kind i))),
       (''source_system'', JStr (source_system_str (si_source_system i))),
       (''source_business_key'', JStr (ob_source_business_key ob)),
       (''source_version'', JStr (si_source_version i)), (''content_hash'', JStr (si_content_hash i))]))"

definition canonical_doc :: "CanonicalTradeState \<Rightarrow> json list \<Rightarrow> document" where
  "canonical_doc canonical references = [
     (''tenant_id'', JStr (cs_tenant_id canonical)), (''portfolio_id'', JStr (cs_portfolio_id canonical)),
     (''correlation_id'', JStr (cs_correlation_id canonical)), (''trade_id'', JStr (cs_trade_id canonical)),
     (''product_type'', JStr (product_str (cf_product_type (cs_state canonical)))),
     (''source_watermark'', JStr (isoformat (cs_source_watermark canonical))),
     (''field_provenance'', provenance_doc canonical), (''source_version_set'', JList references)]"

definition fixture_oracle_config :: document where
  "fixture_oracle_config = (let products = [''FX_SPOT'', ''FX_FORWARD''];
     kinds = [(''EXECUTION'', ''FIX_EXECUTION''), (''CONFIRMATION'', ''FPML_CONFIRMATION''), (''BOOKING'', ''MOCK_LEGACY_BOOKING'')] in [
     (''config_id'', JStr ''ts12_fixture_oracle_policy''), (''config_version'', JStr ''1.0.0''),
     (''arrival_windows'', JList [JObj [(''product_type'', JStr p), (''observation_kind'', JStr k),
        (''source_system'', JStr s), (''window_seconds'', JInt 0)]. p \<leftarrow> products, (k, s) \<leftarrow> kinds]),
     (''decimal_tolerances'', JList [JObj [(''product_type'', JStr p), (''field_path'', JStr path),
        (''tolerance'', JObj [(''mode'', JStr ''ABSOLUTE_DECIMAL''),
          (''value'', JStr (if path = ''/payload/quoted_rate'' then ''0.0001'' else ''0.01''))])].
        p \<leftarrow> products, path \<leftarrow> ORACLE_ECONOMIC_FIELDS]),
     (''lifecycle_expected_statuses'', JList [JObj [(''observation_kind'', JStr k), (''expected_status'', JStr s)].
        (k, s) \<leftarrow> [(''EXECUTION'', ''NEW''), (''TRADE_CAPTURE'', ''CAPTURED''), (''CONFIRMATION'', ''CONFIRMED''),
          (''BOOKING'', ''BOOKED'')]])])"

definition evaluate_context :: "runtime \<Rightarrow> OracleContext \<Rightarrow> py_error + OracleResult" where
  "evaluate_context rt oc = (let canonical = oc_canonical_state oc in
     ebind (emap (reference_doc (oc_source_observations oc)) (cs_source_version_set canonical)) (\<lambda>references.
     evaluate_mappings rt (map (observation_doc rt) (oc_source_observations oc)) (canonical_doc canonical references)
       fixture_oracle_config (map_option (linkage_doc rt) (oc_linkage_decision oc))
       (map_option (post_action_doc rt) (oc_post_action oc)) (Some (isoformat (oracle_evaluated_at oc)))))"

text \<open>\<open>evaluate\<close>: of a context, or else of the mappings, which must all be given.\<close>

definition oracle_evaluate ::
    "runtime \<Rightarrow> OracleContext option \<Rightarrow> document list option \<Rightarrow> document option \<Rightarrow> document option \<Rightarrow> document option \<Rightarrow>
       document option \<Rightarrow> string option \<Rightarrow> py_error + OracleResult" where
  "oracle_evaluate rt context obs canonical config decision verification evaluated_at = (case context of
     Some oc \<Rightarrow> evaluate_context rt oc
   | None \<Rightarrow> (case (obs, canonical, config) of
       (Some os, Some c, Some cfg) \<Rightarrow> evaluate_mappings rt os c cfg decision verification evaluated_at
     | _ \<Rightarrow> Inl (TypeError ''mapping evaluation requires source_observations, canonical_state, and config'')))"

end
