(* ===== verification/Oracle_Agrees.thy ===== *)
theory Oracle_Agrees
  imports Oracle Recon_Total
begin

text \<open>
  The oracle and the engine give the same verdict: on the documents of an accepted context every fact function of
  the oracle returns, and reports its family exactly when the specification \<open>violated\<close> of the engine's families holds.
\<close>

section \<open>The documents of observations\<close>

lemma emap_comp: "emap f (map g xs) = emap (f \<circ> g) xs"
  by (induction xs) simp_all

lemma efind_map: "efind p (map g xs) = ebind (efind (p \<circ> g) xs) (\<lambda>r. Inr (map_option g r))"
  by (induction xs) (auto intro!: ebind_cong simp: ebind_assoc)

lemma sort_key_map: "sort_key f (map g xs) = map g (sort_key (f \<circ> g) xs)"
proof -
  have "insort_key f (g x) (map g ys) = map g (insort_key (f \<circ> g) x ys)" for x ys by (induction ys) simp_all
  then show ?thesis by (induction xs) simp_all
qed

lemma observation_doc_strings [simp]:
  "oracle_string (observation_doc rt ob) ''observation_id'' = Inr (ob_observation_id ob)"
  "oracle_string (observation_doc rt ob) ''observation_kind'' = Inr (kind_str (ob_kind ob))"
  "oracle_string (observation_doc rt ob) ''tenant_id'' = Inr (ob_tenant_id ob)"
  "oracle_string (observation_doc rt ob) ''portfolio_id'' = Inr (ob_portfolio_id ob)"
  "oracle_string (observation_doc rt ob) ''correlation_id'' = Inr (ob_correlation_id ob)"
  "oracle_string (observation_doc rt ob) ''source_system'' = Inr (source_system_str (ob_source_system ob))"
  "oracle_string (observation_doc rt ob) ''source_business_key'' = Inr (ob_source_business_key ob)"
  "oracle_string (observation_doc rt ob) ''source_version'' = Inr (ob_source_version ob)"
  "oracle_string (observation_doc rt ob) ''content_hash'' = Inr (ob_content_hash ob)"
  "oracle_string (observation_doc rt ob) ''ingest_time'' = Inr (datetime_json rt (ob_ingest_time ob))"
  "get_or d (observation_doc rt ob) ''source_sequence'' = JInt (ob_source_sequence ob)"
  by (simp_all add: oracle_string_def get_or_def observation_doc_def dump_observation_def json_str_def)

lemma observation_doc_payload:
  "map_of (observation_doc rt ob) ''payload'' =
    Some (JObj (map (\<lambda>(k, v). (k, json_mode rt v)) (dump_fx (ob_payload ob) @ dump_source (ob_source ob))))"
  by (simp add: observation_doc_def dump_observation_def)

lemma kind_rank_str [simp]: "kind_rank (kind_str k) = observation_rank k"
  by (cases k) (simp_all add: kind_rank_def)

lemma oracle_order_doc [simp]: "oracle_order (observation_doc rt ob) = Inr (order_key ob)"
  by (simp add: oracle_order_def order_key_def json_int_def)

lemma oracle_ordered_docs [simp]:
  "oracle_ordered (map (observation_doc rt) obs) = Inr (map (observation_doc rt) (ordered_observations obs))"
proof -
  have "emap (\<lambda>ob. ebind (oracle_order ob) (\<lambda>k. Inr (k, ob))) (map (observation_doc rt) obs) =
      Inr (map (\<lambda>ob. (order_key ob, observation_doc rt ob)) obs)"
    unfolding emap_comp by (rule emap_total) simp
  then show ?thesis by (simp add: oracle_ordered_def ordered_observations_def sort_key_map comp_def)
qed

lemma first_id_docs: "obs \<noteq> [] \<Longrightarrow> \<exists>i. first_id (map (observation_doc rt) obs) = Inr i"
proof -
  assume "obs \<noteq> []"
  then obtain x xs where "ordered_observations obs = x # xs"
    by (metis ordered_observations_set list.exhaust set_empty)
  then show ?thesis by (simp add: first_id_def)
qed

text \<open>The values that the oracle reads are those that the engine reads.\<close>

lemma action_leaf [simp]:
  "after_last_slash ''/payload/book_id'' = ''book_id''"
  "after_last_slash ''/payload/booking_version'' = ''booking_version''"
  "after_last_slash ''/payload/record_fingerprint'' = ''record_fingerprint''"
  "after_last_slash ''/payload/lifecycle_status'' = ''lifecycle_status''"
  by code_simp+

lemma oracle_value_compared [simp]:
  "oracle_value (observation_doc rt ob) ''/payload/base_currency'' = field_value ob ''/payload/base_currency''"
  "oracle_value (observation_doc rt ob) ''/payload/terms_currency'' = field_value ob ''/payload/terms_currency''"
  "oracle_value (observation_doc rt ob) ''/payload/side'' = field_value ob ''/payload/side''"
  "oracle_value (observation_doc rt ob) ''/payload/base_amount'' = field_value ob ''/payload/base_amount''"
  "oracle_value (observation_doc rt ob) ''/payload/terms_amount'' = field_value ob ''/payload/terms_amount''"
  "oracle_value (observation_doc rt ob) ''/payload/quoted_rate'' = field_value ob ''/payload/quoted_rate''"
  "oracle_value (observation_doc rt ob) ''/payload/trade_date'' = field_value ob ''/payload/trade_date''"
  "oracle_value (observation_doc rt ob) ''/payload/value_date'' = field_value ob ''/payload/value_date''"
  "oracle_value (observation_doc rt ob) ''/payload/book_id'' = field_value ob ''/payload/book_id''"
  "oracle_value (observation_doc rt ob) ''/payload/lifecycle_status'' = field_value ob ''/payload/lifecycle_status''"
  by (simp_all add: oracle_value_def field_value_def observation_doc_payload dump_fx_def dump_amount_def dump_rate_def json_str_def)

lemma oracle_value_booking:
  assumes "ob_kind ob = BOOKING" and "path \<in> set ORACLE_ACTION_FIELDS"
  shows "oracle_value (observation_doc rt ob) path = field_value ob path"
proof -
  obtain d where d: "ob_source ob = BookingSource d"
    using assms(1) by (cases "ob_source ob") (simp_all add: ob_kind_def)
  have "oracle_value (observation_doc rt ob) ''/payload/booking_version'' = field_value ob ''/payload/booking_version''"
    "oracle_value (observation_doc rt ob) ''/payload/record_fingerprint'' = field_value ob ''/payload/record_fingerprint''"
    by (simp_all add: oracle_value_def field_value_def observation_doc_payload dump_fx_def d json_str_def)
  with assms(2) show ?thesis by (auto simp: ORACLE_ACTION_FIELDS_def)
qed

lemma oracle_value_path: "path \<in> set compared_paths \<Longrightarrow> oracle_value (observation_doc rt ob) path = field_value ob path"
  by (auto simp: CURRENCY_FIELDS_def DATE_FIELDS_def ECONOMIC_FIELDS_def)

lemma canonical_doc_strings [simp]:
  "oracle_string (canonical_doc s refs) ''tenant_id'' = Inr (cs_tenant_id s)"
  "oracle_string (canonical_doc s refs) ''portfolio_id'' = Inr (cs_portfolio_id s)"
  "oracle_string (canonical_doc s refs) ''correlation_id'' = Inr (cs_correlation_id s)"
  "oracle_string (canonical_doc s refs) ''trade_id'' = Inr (cs_trade_id s)"
  "oracle_string (canonical_doc s refs) ''product_type'' = Inr (product_str (cf_product_type (cs_state s)))"
  "oracle_string (canonical_doc s refs) ''source_watermark'' = Inr (isoformat (cs_source_watermark s))"
  "map_of (canonical_doc s refs) ''field_provenance'' = Some (provenance_doc s)"
  "get_or d (canonical_doc s refs) ''source_version_set'' = JList refs"
  by (simp_all add: oracle_string_def get_or_def canonical_doc_def json_str_def)

lemma provenance_of_paths [simp]:
  "provenance_of cx ''/payload/base_currency'' = Some (cs_field_provenance (cx_canonical_state cx) F_base_currency)"
  "provenance_of cx ''/payload/terms_currency'' = Some (cs_field_provenance (cx_canonical_state cx) F_terms_currency)"
  "provenance_of cx ''/payload/side'' = Some (cs_field_provenance (cx_canonical_state cx) F_side)"
  "provenance_of cx ''/payload/base_amount'' = Some (cs_field_provenance (cx_canonical_state cx) F_base_amount)"
  "provenance_of cx ''/payload/terms_amount'' = Some (cs_field_provenance (cx_canonical_state cx) F_terms_amount)"
  "provenance_of cx ''/payload/quoted_rate'' = Some (cs_field_provenance (cx_canonical_state cx) F_quoted_rate)"
  "provenance_of cx ''/payload/trade_date'' = Some (cs_field_provenance (cx_canonical_state cx) F_trade_date)"
  "provenance_of cx ''/payload/value_date'' = Some (cs_field_provenance (cx_canonical_state cx) F_value_date)"
  by (simp_all add: provenance_of_def CANONICAL_FIELD_NAMES_def)

lemma provenance_lookup:
  assumes "provenance_doc s = JObj kvs"
  shows "get_or JNull kvs ''/payload/base_currency'' = JObj [(''source_observation_id'', JStr (fp_source_observation_id (cs_field_provenance s F_base_currency)))]"
    and "get_or JNull kvs ''/payload/terms_currency'' = JObj [(''source_observation_id'', JStr (fp_source_observation_id (cs_field_provenance s F_terms_currency)))]"
    and "get_or JNull kvs ''/payload/side'' = JObj [(''source_observation_id'', JStr (fp_source_observation_id (cs_field_provenance s F_side)))]"
    and "get_or JNull kvs ''/payload/base_amount'' = JObj [(''source_observation_id'', JStr (fp_source_observation_id (cs_field_provenance s F_base_amount)))]"
    and "get_or JNull kvs ''/payload/terms_amount'' = JObj [(''source_observation_id'', JStr (fp_source_observation_id (cs_field_provenance s F_terms_amount)))]"
    and "get_or JNull kvs ''/payload/quoted_rate'' = JObj [(''source_observation_id'', JStr (fp_source_observation_id (cs_field_provenance s F_quoted_rate)))]"
    and "get_or JNull kvs ''/payload/trade_date'' = JObj [(''source_observation_id'', JStr (fp_source_observation_id (cs_field_provenance s F_trade_date)))]"
    and "get_or JNull kvs ''/payload/value_date'' = JObj [(''source_observation_id'', JStr (fp_source_observation_id (cs_field_provenance s F_value_date)))]"
  using assms by (auto simp: provenance_doc_def get_or_def)

lemma compared_path_cases:
  assumes "path \<in> set compared_paths"
  shows "path \<in> {''/payload/base_currency'', ''/payload/terms_currency'', ''/payload/side'', ''/payload/trade_date'',
    ''/payload/value_date'', ''/payload/base_amount'', ''/payload/terms_amount'', ''/payload/quoted_rate''}"
  using assms by (simp add: CURRENCY_FIELDS_def DATE_FIELDS_def ECONOMIC_FIELDS_def)

lemma provenance_entry:
  assumes "path \<in> set compared_paths"
  shows "\<exists>p kvs. provenance_of cx path = Some p \<and> provenance_doc (cx_canonical_state cx) = JObj kvs \<and>
    get_or JNull kvs path = JObj [(''source_observation_id'', JStr (fp_source_observation_id p))]"
proof -
  obtain kvs where kvs: "provenance_doc (cx_canonical_state cx) = JObj kvs" by (simp add: provenance_doc_def)
  note l = provenance_lookup [OF kvs]
  show ?thesis using compared_path_cases [OF assms] l unfolding kvs by (elim insertE emptyE) (simp_all only: provenance_of_paths, blast+)
qed

lemma oracle_authority_doc:
  assumes "authoritative_observation cx obs path = Inr base" and "path \<in> set compared_paths"
  shows "oracle_authority (map (observation_doc rt) obs) (canonical_doc (cx_canonical_state cx) refs) path =
    Inr (observation_doc rt base)"
proof -
  obtain p kvs where p: "provenance_of cx path = Some p" "provenance_doc (cx_canonical_state cx) = JObj kvs"
    "get_or JNull kvs path = JObj [(''source_observation_id'', JStr (fp_source_observation_id p))]"
    using provenance_entry [OF assms(2)] by blast
  have f: "List.find (\<lambda>ob. ob_observation_id ob = fp_source_observation_id p) obs = Some base"
    using assms(1) by (auto simp: authoritative_observation_def p(1) split: option.splits)
  have "efind (\<lambda>ob. ebind (oracle_string ob ''observation_id'') (\<lambda>j. Inr (j = fp_source_observation_id p)))
      (map (observation_doc rt) obs) = Inr (Some (observation_doc rt base))"
    unfolding efind_map by (subst efind_total [of _ _ "\<lambda>ob. ob_observation_id ob = fp_source_observation_id p"]) (simp_all add: f)
  then show ?thesis by (simp add: oracle_authority_def p(2,3)) (simp add: get_or_def)
qed

section \<open>What a fact function reports\<close>

definition reports :: "string \<Rightarrow> bool \<Rightarrow> py_error + OracleFact list \<Rightarrow> bool" where
  "reports family P r \<longleftrightarrow> (\<exists>facts. r = Inr facts \<and> of_family ` set facts = (if P then {family} else {}))"

lemma reports_Nil [intro]: "\<not> P \<Longrightarrow> reports family P (Inr [])"
  by (simp add: reports_def)

lemma reports_fact [intro]: "P \<Longrightarrow> of_family f = family \<Longrightarrow> reports family P (Inr [f])"
  by (simp add: reports_def)

lemma reports_econcat:
  assumes "\<And>x. x \<in> set xs \<Longrightarrow> reports family (P x) (f x)"
  shows "reports family (\<exists>x \<in> set xs. P x) (econcat (emap f xs))"
  using assms
proof (induction xs)
  case Nil
  then show ?case by (auto simp: econcat_def)
next
  case (Cons x xs)
  obtain a where a: "f x = Inr a" "of_family ` set a = (if P x then {family} else {})"
    using Cons.prems [of x] by (auto simp: reports_def)
  obtain b where b: "econcat (emap f xs) = Inr b" "of_family ` set b = (if \<exists>x \<in> set xs. P x then {family} else {})"
    using Cons by (auto simp: reports_def)
  have "econcat (emap f (x # xs)) = Inr (a @ b)"
    using b(1) by (auto simp: econcat_def a(1) ebind_eq_Inr)
  then show ?case using a(2) b(2) by (simp add: reports_def image_Un)
qed

text \<open>The loop over the other observations: it reports when one of them fails the test.\<close>

lemma reports_first_difference:
  assumes obs: "\<And>ob. ob \<in> set obs \<Longrightarrow> \<exists>v. oracle_value (observation_doc rt ob) path = Inr v \<and> passes v = Inr (good ob)"
  shows "reports family (\<exists>ob \<in> set obs. ob_observation_id ob \<noteq> ob_observation_id base \<and> \<not> good ob)
    (first_difference (map (observation_doc rt) obs) (observation_doc rt base) family path expected passes)"
proof -
  define q where "q ob \<longleftrightarrow> ob_observation_id ob \<noteq> ob_observation_id base \<and> \<not> good ob" for ob
  define p where "p observed = ebind (oracle_string observed ''observation_id'') (\<lambda>i.
       ebind (oracle_string (observation_doc rt base) ''observation_id'') (\<lambda>j.
       if i = j then Inr False
       else ebind (oracle_value observed path) (\<lambda>v. ebind (passes v) (\<lambda>ok. Inr (\<not> ok)))))" for observed
  have "(p \<circ> observation_doc rt) ob = Inr (q ob)" if "ob \<in> set (ordered_observations obs)" for ob
    using obs [of ob] that by (auto simp: p_def q_def)
  then have found: "efind p (map (observation_doc rt) (ordered_observations obs)) =
      Inr (map_option (observation_doc rt) (List.find q (ordered_observations obs)))"
    unfolding efind_map by (subst efind_total [of _ _ q]) simp_all
  have fd: "first_difference (map (observation_doc rt) obs) (observation_doc rt base) family path expected passes =
      (case map_option (observation_doc rt) (List.find q (ordered_observations obs)) of
         None \<Rightarrow> Inr []
       | Some observed \<Rightarrow>
           ebind (oracle_value observed path) (\<lambda>v.
           ebind (oracle_string (observation_doc rt base) ''observation_id'') (\<lambda>j.
           ebind (oracle_string observed ''observation_id'') (\<lambda>i.
           Inr [\<lparr>of_family = family, of_field_path = path, of_expected_value = expected, of_observed_value = v,
             of_source_observation_ids = [j, i]\<rparr>]))))"
    unfolding first_difference_def oracle_ordered_docs ebind_simps p_def [symmetric] found ..
  show ?thesis
  proof (cases "List.find q (ordered_observations obs)")
    case None
    then have "\<not> (\<exists>ob \<in> set obs. q ob)" by (auto simp: find_None_iff)
    then show ?thesis unfolding q_def [symmetric]
      unfolding fd None by (simp add: reports_Nil)
  next
    case (Some ob)
    then have ob: "ob \<in> set obs" "q ob" by (auto dest: find_Some_D)
    obtain v where "oracle_value (observation_doc rt ob) path = Inr v" using obs [OF ob(1)] by blast
    then show ?thesis using ob unfolding q_def [symmetric]
      unfolding fd Some by (auto simp: reports_def)
  qed
qed

section \<open>The families\<close>

lemma authority_same_id:
  assumes cx: "mk_ReconciliationContext cx = Inr cx'" and "base \<in> set (cx_source_observations cx)"
    and "ob \<in> set (cx_source_observations cx)"
  shows "ob_observation_id ob \<noteq> ob_observation_id base \<longleftrightarrow> ob \<noteq> base"
  using unique_observation [OF cx, of ob base] assms by auto

lemma comparison_reports:
  assumes cx: "mk_ReconciliationContext cx = Inr cx'" and path: "path \<in> set compared_paths"
  shows "reports family (fields_disagree cx [path])
    (comparison_facts (map (observation_doc rt) (cx_source_observations cx)) (canonical_doc (cx_canonical_state cx) refs) family path)"
proof -
  let ?obs = "cx_source_observations cx"
  obtain base where base: "authoritative_observation cx ?obs path = Inr base"
    using authoritative_total [OF cx path] by blast
  note auth = authoritative_Inr [OF base refl]
  obtain v where v: "field_value base path = Inr v" using compared_field_value [OF path] by blast
  have val: "oracle_value (observation_doc rt ob) path = field_value ob path" for ob
    by (rule oracle_value_path [OF path])
  have r: "reports family (\<exists>ob \<in> set ?obs. ob_observation_id ob \<noteq> ob_observation_id base \<and> \<not> (field_value ob path = Inr v))
      (first_difference (map (observation_doc rt) ?obs) (observation_doc rt base) family path v (\<lambda>w. Inr (w = v)))"
    by (rule reports_first_difference) (use compared_field_value [OF path] val in \<open>fastforce\<close>)
  have "(\<exists>ob \<in> set ?obs. ob_observation_id ob \<noteq> ob_observation_id base \<and> \<not> (field_value ob path = Inr v)) \<longleftrightarrow>
      fields_disagree cx [path]"
  proof -
    have mem: "base \<in> set ?obs" using auth by (simp add: authority_def)
    have "(\<exists>ob \<in> set ?obs. ob_observation_id ob \<noteq> ob_observation_id base \<and> \<not> (field_value ob path = Inr v)) \<longleftrightarrow>
        (\<exists>ob \<in> set ?obs. field_value ob path \<noteq> field_value base path)"
      using authority_same_id [OF cx mem] unfolding v by (metis v)
    then show ?thesis by (simp add: fields_disagree_def authority_iff [OF cx auth] Bex_def)
  qed
  then show ?thesis using r by (simp add: comparison_facts_def oracle_authority_doc [OF base path] val v)
qed

lemma reports_cong: "reports family P r \<Longrightarrow> P \<longleftrightarrow> Q \<Longrightarrow> reports family Q r"
  by simp

lemma exact_reports:
  assumes cx: "mk_ReconciliationContext cx = Inr cx'" and paths: "set paths \<subseteq> set compared_paths"
  shows "reports family (fields_disagree cx paths) (econcat (emap (comparison_facts
    (map (observation_doc rt) (cx_source_observations cx)) (canonical_doc (cx_canonical_state cx) refs) family) paths))"
proof -
  have "reports family (\<exists>path \<in> set paths. fields_disagree cx [path]) (econcat (emap (comparison_facts
    (map (observation_doc rt) (cx_source_observations cx)) (canonical_doc (cx_canonical_state cx) refs) family) paths))"
    by (rule reports_econcat) (use comparison_reports [OF cx] paths in blast)
  then show ?thesis by (rule reports_cong) (simp add: fields_disagree_list [of cx paths])
qed

subsection \<open>Economic values\<close>

definition fixture_tolerance :: "string \<Rightarrow> string" where
  "fixture_tolerance path = (if path = ''/payload/quoted_rate'' then ''0.0001'' else ''0.01'')"

lemma fixture_tolerance_parses:
  "parse_decimal (fixture_tolerance path) = Some (if path = ''/payload/quoted_rate'' then Fin 1 (- 4) else Fin 1 (- 2))"
proof -
  have "parse_decimal ''0.0001'' = Some (Fin 1 (- 4))" "parse_decimal ''0.01'' = Some (Fin 1 (- 2))" by code_simp+
  then show ?thesis by (simp add: fixture_tolerance_def)
qed

lemma oracle_fixture_rule:
  assumes "path \<in> set ECONOMIC_FIELDS"
  shows "oracle_decimal_rule (get_or (JList []) fixture_oracle_config ''decimal_tolerances'') (product_str product) path =
    Inr (''ABSOLUTE_DECIMAL'', if path = ''/payload/quoted_rate'' then Fin 1 (- 4) else Fin 1 (- 2))"
proof -
  let ?rules = "get_or (JList []) fixture_oracle_config ''decimal_tolerances''"
  have "oracle_decimal_rule ?rules ''FX_SPOT'' ''/payload/base_amount'' = Inr (''ABSOLUTE_DECIMAL'', Fin 1 (- 2))"
    "oracle_decimal_rule ?rules ''FX_SPOT'' ''/payload/terms_amount'' = Inr (''ABSOLUTE_DECIMAL'', Fin 1 (- 2))"
    "oracle_decimal_rule ?rules ''FX_SPOT'' ''/payload/quoted_rate'' = Inr (''ABSOLUTE_DECIMAL'', Fin 1 (- 4))"
    "oracle_decimal_rule ?rules ''FX_FORWARD'' ''/payload/base_amount'' = Inr (''ABSOLUTE_DECIMAL'', Fin 1 (- 2))"
    "oracle_decimal_rule ?rules ''FX_FORWARD'' ''/payload/terms_amount'' = Inr (''ABSOLUTE_DECIMAL'', Fin 1 (- 2))"
    "oracle_decimal_rule ?rules ''FX_FORWARD'' ''/payload/quoted_rate'' = Inr (''ABSOLUTE_DECIMAL'', Fin 1 (- 4))"
    by code_simp+
  moreover have "path \<in> {''/payload/base_amount'', ''/payload/terms_amount'', ''/payload/quoted_rate''}"
    using assms by (simp add: ECONOMIC_FIELDS_def)
  ultimately show ?thesis by (cases product) auto
qed

lemma engine_fixture_tolerance:
  assumes "fixture_config = Inr cfg" and "path \<in> set ECONOMIC_FIELDS"
  shows "\<exists>rule. decimal_rule cfg product path = Inr rule \<and>
    dt_tolerance rule = \<lparr>to_mode = ABSOLUTE_DECIMAL, to_value = Some (fixture_tolerance path)\<rparr>"
proof -
  obtain d where d: "mk_ReconciliationConfig d = Inr cfg" "cg_decimal_tolerances d =
      map (\<lambda>(p, path). \<lparr>dt_product_type = p, dt_field_path = path, dt_tolerance = \<lparr>to_mode = ABSOLUTE_DECIMAL,
        to_value = Some (if path \<noteq> ''/payload/quoted_rate'' then ''0.01'' else ''0.0001'')\<rparr>, dt_rule_version = ''1.0.0''\<rparr>)
      expected_tolerance_keys"
    using assms(1) unfolding fixture_config_def by fastforce
  have cfg: "cfg = d" by (rule config_accepted(1) [OF d(1)])
  obtain r where r: "r \<in> set (cg_decimal_tolerances d)" "decimal_rule d product path = Inr r" "dt_field_path r = path"
    using decimal_rule_total [OF d(1) assms(2)] by blast
  have "dt_tolerance r = \<lparr>to_mode = ABSOLUTE_DECIMAL, to_value = Some (fixture_tolerance (dt_field_path r))\<rparr>"
    using r(1) unfolding d(2) by (auto simp: fixture_tolerance_def)
  with r cfg show ?thesis by blast
qed

lemma fixture_accepted: "fixture_config = Inr cfg \<Longrightarrow> mk_ReconciliationConfig cfg = Inr cfg"
  unfolding fixture_config_def using config_accepted(1) by blast

lemma economic_reports:
  assumes cx: "mk_ReconciliationContext cx = Inr cx" and cfg: "fixture_config = Inr cfg"
    and path: "path \<in> set ECONOMIC_FIELDS"
  shows "reports ''ECONOMIC_VALUE_MISMATCH'' (field_outside_tolerance \<lparr>en_runtime = rt', en_config = cfg\<rparr> cx path)
    (economic_fact (map (observation_doc rt) (cx_source_observations cx)) (canonical_doc (cx_canonical_state cx) refs)
      (get_or (JList []) fixture_oracle_config ''decimal_tolerances'') path)"
proof -
  let ?obs = "cx_source_observations cx" and ?product = "cf_product_type (cs_state (cx_canonical_state cx))"
  have compared: "path \<in> set compared_paths" using path by simp
  obtain base where base: "authoritative_observation cx ?obs path = Inr base"
    using authoritative_total [OF cx compared] by blast
  note auth = authoritative_Inr [OF base refl]
  have mem: "base \<in> set ?obs" using auth by (simp add: authority_def)
  have val: "oracle_value (observation_doc rt ob) path = field_value ob path" for ob
    by (rule oracle_value_path [OF compared])
  have "\<exists>v x. field_value ob path = Inr v \<and> parse_decimal v = Some x \<and> (\<exists>c e. x = Fin c e)" if "ob \<in> set ?obs" for ob
    using economic_value_parses [OF _ path, of ob] context_accepted(3) [OF cx that] by blast
  then obtain v x where v: "\<And>ob. ob \<in> set ?obs \<Longrightarrow>
      field_value ob path = Inr (v ob) \<and> parse_decimal (v ob) = Some (x ob) \<and> (\<exists>c e. x ob = Fin c e)" by metis
  obtain rule where rule: "decimal_rule cfg ?product path = Inr rule"
    "dt_tolerance rule = \<lparr>to_mode = ABSOLUTE_DECIMAL, to_value = Some (fixture_tolerance path)\<rparr>"
    using engine_fixture_tolerance [OF cfg path] by blast
  define allowed where "allowed = (if path = ''/payload/quoted_rate'' then Fin 1 (- 4) else Fin 1 (- 2))"
  have same: "oracle_within a b (''ABSOLUTE_DECIMAL'', allowed) = within_tolerance a b (dt_tolerance rule)" for a b
    by (simp add: oracle_within_def within_tolerance_def rule(2) fixture_tolerance_parses allowed_def signal_def)
  have total: "\<exists>ok. within_tolerance (x base) (x ob) (dt_tolerance rule) = Inr ok" if "ob \<in> set ?obs" for ob
  proof -
    have t: "mk_BreakTolerance (dt_tolerance rule) = Inr (dt_tolerance rule)"
      using decimal_rule_total [OF fixture_accepted [OF cfg] path, of ?product] rule(1) by auto
    show ?thesis using v [OF that] v [OF mem] within_tolerance_total [OF t] by force
  qed
  define good where "good ob \<longleftrightarrow> within_tolerance (x base) (x ob) (dt_tolerance rule) = Inr True" for ob
  have r: "reports ''ECONOMIC_VALUE_MISMATCH'' (\<exists>ob \<in> set ?obs. ob_observation_id ob \<noteq> ob_observation_id base \<and> \<not> good ob)
      (first_difference (map (observation_doc rt) ?obs) (observation_doc rt base) ''ECONOMIC_VALUE_MISMATCH'' path
        (decimal_str (x base)) (\<lambda>w. ebind (oracle_decimal w) (\<lambda>y. oracle_within (x base) y (''ABSOLUTE_DECIMAL'', allowed))))"
  proof (rule reports_first_difference)
    fix ob assume "ob \<in> set ?obs"
    then show "\<exists>w. oracle_value (observation_doc rt ob) path = Inr w \<and>
        ebind (oracle_decimal w) (\<lambda>y. oracle_within (x base) y (''ABSOLUTE_DECIMAL'', allowed)) = Inr (good ob)"
      using v [of ob] total [of ob] by (auto simp: val oracle_decimal_def same good_def)
  qed
  have "(\<exists>ob \<in> set ?obs. ob_observation_id ob \<noteq> ob_observation_id base \<and> \<not> good ob) \<longleftrightarrow>
      (\<exists>ob \<in> set ?obs. ob \<noteq> base \<and> within_tolerance (x base) (x ob) (dt_tolerance rule) = Inr False)"
  proof -
    have "ob_observation_id ob \<noteq> ob_observation_id base \<and> \<not> good ob \<longleftrightarrow>
        ob \<noteq> base \<and> within_tolerance (x base) (x ob) (dt_tolerance rule) = Inr False" if "ob \<in> set ?obs" for ob
      using authority_same_id [OF cx mem that] total [OF that] by (auto simp: good_def)
    then show ?thesis by blast
  qed
  also have "\<dots> \<longleftrightarrow> field_outside_tolerance \<lparr>en_runtime = rt', en_config = cfg\<rparr> cx path"
  proof -
    have "ob \<in> set ?obs \<Longrightarrow> (\<exists>w y. field_value ob path = Inr w \<and> parse_decimal w = Some y \<and>
        within_tolerance (x base) y (dt_tolerance rule) = Inr False) \<longleftrightarrow>
        within_tolerance (x base) (x ob) (dt_tolerance rule) = Inr False" for ob
      using v [of ob] by auto
    moreover have "field_outside_tolerance \<lparr>en_runtime = rt', en_config = cfg\<rparr> cx path \<longleftrightarrow>
        (\<exists>ob. ob \<in> set ?obs \<and> ob \<noteq> base \<and> (\<exists>w y. field_value ob path = Inr w \<and> parse_decimal w = Some y \<and>
          within_tolerance (x base) y (dt_tolerance rule) = Inr False))"
      unfolding field_outside_tolerance_def using v [OF mem] rule(1) by (simp add: authority_iff [OF cx auth])
    ultimately show ?thesis by blast
  qed
  finally have viol: "(\<exists>ob \<in> set ?obs. ob_observation_id ob \<noteq> ob_observation_id base \<and> \<not> good ob) \<longleftrightarrow>
      field_outside_tolerance \<lparr>en_runtime = rt', en_config = cfg\<rparr> cx path" .
  have "economic_fact (map (observation_doc rt) ?obs) (canonical_doc (cx_canonical_state cx) refs)
      (get_or (JList []) fixture_oracle_config ''decimal_tolerances'') path =
      first_difference (map (observation_doc rt) ?obs) (observation_doc rt base) ''ECONOMIC_VALUE_MISMATCH'' path
        (decimal_str (x base)) (\<lambda>w. ebind (oracle_decimal w) (\<lambda>y. oracle_within (x base) y (''ABSOLUTE_DECIMAL'', allowed)))"
    unfolding economic_fact_def oracle_authority_doc [OF base compared] allowed_def
    using v [OF mem] by (simp add: val oracle_decimal_def oracle_fixture_rule [OF path])
  with r viol show ?thesis by simp
qed

subsection \<open>Missing sources\<close>

lemma oracle_time_isoformat: "clock_ok t \<Longrightarrow> oracle_time (isoformat t) = Inr t"
  using parsed_isoformat [of t] by (auto simp: oracle_time_def clock_ok_def aware_def split: option.splits)

lemma oracle_time_json:
  assumes "clock_ok t" and "json_text_of s t"
  shows "oracle_time s = Inr t"
  using json_text_parses [OF assms] assms(1) by (auto simp: oracle_time_def clock_ok_def aware_def split: option.splits)

lemma add_no_seconds: "clock_ok t \<Longrightarrow> add_seconds t 0 = Inr t"
  by (simp add: add_seconds_def clock_ok_def)

definition required_kinds :: "ObservationKind list" where
  "required_kinds = [EXECUTION, CONFIRMATION, BOOKING]"

lemma oracle_fixture_window:
  assumes "k \<in> set required_kinds"
  shows "window_seconds (get_or (JList []) fixture_oracle_config ''arrival_windows'') (product_str product) (kind_str k) = Inr 0"
proof -
  let ?rules = "get_or (JList []) fixture_oracle_config ''arrival_windows''"
  have "window_seconds ?rules ''FX_SPOT'' ''EXECUTION'' = Inr 0" "window_seconds ?rules ''FX_SPOT'' ''CONFIRMATION'' = Inr 0"
    "window_seconds ?rules ''FX_SPOT'' ''BOOKING'' = Inr 0" "window_seconds ?rules ''FX_FORWARD'' ''EXECUTION'' = Inr 0"
    "window_seconds ?rules ''FX_FORWARD'' ''CONFIRMATION'' = Inr 0" "window_seconds ?rules ''FX_FORWARD'' ''BOOKING'' = Inr 0"
    by code_simp+
  then show ?thesis using assms by (cases product) (auto simp: required_kinds_def)
qed

lemma engine_fixture_window:
  assumes "fixture_config = Inr cfg" and "k \<noteq> TRADE_CAPTURE"
  shows "\<exists>rule. arrival_rule cfg product k = Inr rule \<and> aw_window_seconds rule = 0"
proof -
  obtain d where d: "mk_ReconciliationConfig d = Inr cfg" "\<forall>r \<in> set (cg_arrival_windows d). aw_window_seconds r = 0"
    using assms(1) unfolding fixture_config_def by fastforce
  have cfg: "cfg = d" by (rule config_accepted(1) [OF d(1)])
  then show ?thesis using arrival_rule_total [OF d(1) assms(2), of product] d(2) by blast
qed

lemma missing_reports:
  assumes cx: "mk_ReconciliationContext cx = Inr cx" and cfg: "fixture_config = Inr cfg"
    and w: "clock_ok (cs_source_watermark (cx_canonical_state cx))" and e: "clock_ok (effective_evaluated_at cx)"
  shows "reports ''MISSING_REQUIRED_SOURCE'' (\<exists>k. source_overdue \<lparr>en_runtime = rt', en_config = cfg\<rparr> cx k)
    (missing_source_facts (map (observation_doc rt) (cx_source_observations cx)) (canonical_doc (cx_canonical_state cx) refs)
      fixture_oracle_config (isoformat (effective_evaluated_at cx)))"
proof -
  let ?obs = "cx_source_observations cx" and ?w = "cs_source_watermark (cx_canonical_state cx)"
    and ?product = "cf_product_type (cs_state (cx_canonical_state cx))"
  define absent where "absent k \<longleftrightarrow> (\<forall>ob \<in> set ?obs. ob_kind ob \<noteq> k)" for k
  have available: "emap (\<lambda>ob. oracle_string ob ''observation_kind'') (map (observation_doc rt) ?obs) =
      Inr (map (kind_str \<circ> ob_kind) ?obs)"
    unfolding emap_comp by (rule emap_total) simp
  have overdue: "source_overdue \<lparr>en_runtime = rt', en_config = cfg\<rparr> cx k \<longleftrightarrow> k \<in> set required_kinds \<and> absent k" for k
  proof (cases "k = TRADE_CAPTURE")
    case False
    then obtain rule where "arrival_rule cfg ?product k = Inr rule" "aw_window_seconds rule = 0"
      using engine_fixture_window [OF cfg] by blast
    moreover have "k \<in> set required_kinds" using False by (cases k) (simp_all add: required_kinds_def)
    ultimately show ?thesis using False context_accepted(8) [OF cx]
      by (simp add: source_overdue_def absent_def add_no_seconds [OF w])
  qed (simp add: source_overdue_def required_kinds_def)
  have each: "reports ''MISSING_REQUIRED_SOURCE'' (absent k)
      (missing_source_fact (map (observation_doc rt) ?obs) (get_or (JList []) fixture_oracle_config ''arrival_windows'')
        (product_str ?product) ?w (effective_evaluated_at cx) (map (kind_str \<circ> ob_kind) ?obs) (kind_str k))"
    if k: "k \<in> set required_kinds" for k
  proof (cases "absent k")
    case True
    obtain i where i: "first_id (map (observation_doc rt) ?obs) = Inr i"
      using first_id_docs context_accepted(7) [OF cx] by blast
    have "kind_str k \<notin> set (map (kind_str \<circ> ob_kind) ?obs)" using True by (auto simp: absent_def)
    then show ?thesis using True context_accepted(8) [OF cx]
      by (simp add: missing_source_fact_def oracle_fixture_window [OF k] add_no_seconds [OF w] i reports_fact del: set_map)
  next
    case False
    then have "kind_str k \<in> set (map (kind_str \<circ> ob_kind) ?obs)" by (auto simp: absent_def)
    then show ?thesis using False by (simp add: missing_source_fact_def reports_Nil del: set_map)
  qed
  have kinds: "REQUIRED_SOURCE_KINDS = map kind_str required_kinds"
    by (simp add: REQUIRED_SOURCE_KINDS_def required_kinds_def)
  have "reports ''MISSING_REQUIRED_SOURCE'' (\<exists>k \<in> set required_kinds. absent k) (econcat (emap
      (missing_source_fact (map (observation_doc rt) ?obs) (get_or (JList []) fixture_oracle_config ''arrival_windows'')
        (product_str ?product) ?w (effective_evaluated_at cx) (map (kind_str \<circ> ob_kind) ?obs) \<circ> kind_str) required_kinds))"
    by (rule reports_econcat) (simp add: each)
  then show ?thesis
    unfolding missing_source_facts_def available canonical_doc_strings ebind_simps oracle_time_isoformat [OF w]
      oracle_time_isoformat [OF e] kinds emap_comp [of _ kind_str] overdue Bex_def .
qed

subsection \<open>Linkage\<close>

lemma candidate_doc_outside:
  "candidate_outside (canonical_doc s refs) (candidate_doc c) =
    Inr ((cl_tenant_id c, cl_portfolio_id c) \<noteq> (cs_tenant_id s, cs_portfolio_id s))"
proof -
  have "oracle_string [(''trade_id'', JStr (cl_trade_id c)), (''tenant_id'', JStr (cl_tenant_id c)),
     (''portfolio_id'', JStr (cl_portfolio_id c)), (''match_key'', JStr (cl_match_key c)),
     (''match_rule_version'', JStr (cl_match_rule_version c)), (''evidence_hash'', JStr (cl_evidence_hash c))] key =
     (if key = ''tenant_id'' then Inr (cl_tenant_id c) else Inr (cl_portfolio_id c))"
    if "key = ''tenant_id'' \<or> key = ''portfolio_id''" for key
    using that by (auto simp: oracle_string_def get_or_def json_str_def)
  then show ?thesis by (auto simp: candidate_outside_def candidate_doc_def)
qed

lemma linkage_doc_entries:
  "linkage_candidates (Some (linkage_doc rt d)) = map candidate_doc (ld_candidate_links d)"
  "oracle_string (linkage_doc rt d) ''decision'' = Inr (linkage_str (ld_decision d))"
  "get_or JNull (linkage_doc rt d) ''chosen_trade_id'' = json_opt JStr (ld_chosen_trade_id d)"
  "get_or JNull (linkage_doc rt d) ''source_observation_id'' = JStr (ld_source_observation_id d)"
  by (simp_all add: linkage_candidates_def linkage_doc_def get_or_def oracle_string_def oracle_sequence_def json_str_def)

lemma linkage_reports:
  assumes cx: "mk_ReconciliationContext cx = Inr cx"
  shows "reports ''AMBIGUOUS_OR_UNMATCHED_LINKAGE'' (linkage_invalid cx)
    (linkage_facts (map (observation_doc rt) (cx_source_observations cx)) (canonical_doc (cx_canonical_state cx) refs)
      (map_option (linkage_doc rt) (cx_linkage_decision cx)))"
proof -
  let ?s = "cx_canonical_state cx"
  obtain i where i: "first_id (map (observation_doc rt) (cx_source_observations cx)) = Inr i"
    using first_id_docs context_accepted(7) [OF cx] by blast
  have invalid: "(case map_option (linkage_doc rt) (cx_linkage_decision cx) of None \<Rightarrow> Inr True
      | Some d \<Rightarrow> decision_invalid (canonical_doc ?s refs) (cs_trade_id ?s) d) = Inr (linkage_invalid cx)"
  proof (cases "cx_linkage_decision cx")
    case (Some d)
    define out where "out c \<longleftrightarrow> (cl_tenant_id c, cl_portfolio_id c) \<noteq> (cs_tenant_id ?s, cs_portfolio_id ?s)" for c :: CandidateLink
    have f: "efind (candidate_outside (canonical_doc ?s refs)) (map candidate_doc (ld_candidate_links d)) =
        Inr (map_option candidate_doc (List.find out (ld_candidate_links d)))"
      unfolding efind_map by (subst efind_total [of _ _ out]) (simp_all add: candidate_doc_outside out_def)
    have n: "List.find out (ld_candidate_links d) \<noteq> None \<longleftrightarrow> list_ex out (ld_candidate_links d)"
      by (auto simp: find_None_iff list_ex_iff)
    have v: "linkage_str (ld_decision d) \<in> {''REJECTED'', ''UNMATCHED'', ''AMBIGUOUS'', ''CROSS_SCOPE_REJECTED''} \<longleftrightarrow>
        ld_decision d \<in> {LINK_REJECTED, LINK_UNMATCHED, LINK_AMBIGUOUS, LINK_CROSS_SCOPE_REJECTED}"
      by (cases "ld_decision d") simp_all
    have t: "json_opt JStr (ld_chosen_trade_id d) \<noteq> JStr (cs_trade_id ?s) \<longleftrightarrow> ld_chosen_trade_id d \<noteq> Some (cs_trade_id ?s)"
      by (auto simp: json_opt_def split: option.splits)
    show ?thesis
      using n unfolding Some option.map option.case decision_invalid_def linkage_doc_entries f ebind_simps v t linkage_invalid_def
        out_def [abs_def] length_map by (auto simp: map_option_case split: option.splits)
  qed (simp add: linkage_invalid_def)
  show ?thesis
  proof (cases "linkage_invalid cx")
    case True
    with invalid i show ?thesis by (simp add: linkage_facts_def Let_def reports_fact)
  next
    case False
    with invalid show ?thesis by (simp add: linkage_facts_def reports_Nil)
  qed
qed

subsection \<open>Duplicates\<close>

lemma duplicate_reports_group:
  "reports ''DUPLICATE_SOURCE_CONFLICT'' (group_conflict grp) (duplicate_fact (map (observation_doc rt) grp))"
proof -
  have hashes: "emap (\<lambda>ob. oracle_string ob ''content_hash'') (map (observation_doc rt) grp) = Inr (map ob_content_hash grp)"
    unfolding emap_comp by (rule emap_total) simp
  have short: "length (remdups (map ob_content_hash grp)) < 2 \<longleftrightarrow> \<not> group_conflict grp"
    by (auto simp: remdups_short group_conflict_def)
  show ?thesis
  proof (cases "group_conflict grp")
    case True
    then have "2 \<le> length (remdups (map ob_content_hash grp))" using short by linarith
    also have "\<dots> \<le> length (map ob_content_hash grp)" by (rule length_remdups_leq)
    finally have "0 < length (ordered_observations grp)" and len: "1 < length (ordered_observations grp)"
      by (auto simp: ordered_observations_def)
    then have len: "0 < length (ordered_observations grp)" "1 < length (ordered_observations grp)" by linarith+
    have ids: "emap (\<lambda>ob. oracle_string ob ''observation_id'') (map (observation_doc rt) (ordered_observations grp)) =
        Inr (map ob_observation_id (ordered_observations grp))"
      unfolding emap_comp by (rule emap_total) simp
    show ?thesis using True len
      by (simp add: duplicate_fact_def hashes short ids nth_map reports_fact del: emap.simps)
  qed (simp add: duplicate_fact_def hashes short reports_Nil)
qed

lemma some_group:
  "(\<exists>k \<in> f ` S. \<exists>a \<in> S. \<exists>b \<in> S. f a = k \<and> f b = k \<and> P a \<noteq> P b) \<longleftrightarrow> (\<exists>a \<in> S. \<exists>b \<in> S. f a = f b \<and> P a \<noteq> P b)"
proof
  assume "\<exists>a \<in> S. \<exists>b \<in> S. f a = f b \<and> P a \<noteq> P b"
  then obtain a b where "a \<in> S" "b \<in> S" "f b = f a" "P a \<noteq> P b" by metis
  then show "\<exists>k \<in> f ` S. \<exists>a \<in> S. \<exists>b \<in> S. f a = k \<and> f b = k \<and> P a \<noteq> P b"
    by (intro bexI [of _ "f a"] bexI [of _ a] bexI [of _ b] conjI refl imageI)
next
  assume "\<exists>k \<in> f ` S. \<exists>a \<in> S. \<exists>b \<in> S. f a = k \<and> f b = k \<and> P a \<noteq> P b"
  then obtain a b where "a \<in> S" "b \<in> S" "f a = f b" "P a \<noteq> P b" by metis
  then show "\<exists>a \<in> S. \<exists>b \<in> S. f a = f b \<and> P a \<noteq> P b" by (intro bexI [of _ a] bexI [of _ b] conjI)
qed

lemma duplicate_reports:
  "reports ''DUPLICATE_SOURCE_CONFLICT'' (content_conflict cx)
    (duplicate_facts (map (observation_doc rt) (cx_source_observations cx)))"
proof -
  let ?obs = "cx_source_observations cx"
  define key where "key ob = [kind_str (ob_kind ob), ob_source_business_key ob, ob_source_version ob]" for ob
  define keys where "keys = map fst (firsts fst (map (\<lambda>ob. (key ob, observation_doc rt ob)) ?obs))"
  have keyset: "set keys = key ` set ?obs" by (simp add: keys_def firsts_set(2) image_image)
  have keyed: "emap (\<lambda>ob. ebind (oracle_strings ob [''observation_kind'', ''source_business_key'', ''source_version''])
      (\<lambda>k. Inr (k, ob))) (map (observation_doc rt) ?obs) = Inr (map (\<lambda>ob. (key ob, observation_doc rt ob)) ?obs)"
    unfolding emap_comp by (rule emap_total) (simp add: oracle_strings_def key_def)
  have grp: "map snd (filter (\<lambda>x. fst x = k) (map (\<lambda>ob. (key ob, observation_doc rt ob)) ?obs)) =
      map (observation_doc rt) (filter (\<lambda>ob. key ob = k) ?obs)" for k
    by (simp add: filter_map comp_def)
  have groups: "oracle_groups (map (observation_doc rt) ?obs) =
      Inr (map (\<lambda>k. map (observation_doc rt) (filter (\<lambda>ob. key ob = k) ?obs)) keys)"
    unfolding oracle_groups_def keyed ebind_simps grp keys_def ..
  have "reports ''DUPLICATE_SOURCE_CONFLICT'' (\<exists>k \<in> set keys. group_conflict (filter (\<lambda>ob. key ob = k) ?obs))
      (econcat (emap (duplicate_fact \<circ> (\<lambda>k. map (observation_doc rt) (filter (\<lambda>ob. key ob = k) ?obs))) keys))"
    by (rule reports_econcat) (simp add: duplicate_reports_group)
  moreover have "(\<exists>k \<in> set keys. group_conflict (filter (\<lambda>ob. key ob = k) ?obs)) \<longleftrightarrow> content_conflict cx"
  proof -
    have c: "content_conflict cx \<longleftrightarrow> (\<exists>a \<in> set ?obs. \<exists>b \<in> set ?obs. key a = key b \<and> ob_content_hash a \<noteq> ob_content_hash b)"
      by (simp add: content_conflict_def key_def)
    have g: "group_conflict (filter (\<lambda>ob. key ob = k) ?obs) \<longleftrightarrow>
        (\<exists>a \<in> set ?obs. \<exists>b \<in> set ?obs. key a = k \<and> key b = k \<and> ob_content_hash a \<noteq> ob_content_hash b)" for k
      by (auto simp: group_conflict_def)
    show ?thesis unfolding keyset c g by (rule some_group)
  qed
  ultimately show ?thesis by (simp add: duplicate_facts_def groups emap_comp)
qed

subsection \<open>Lifecycle\<close>

definition fixture_statuses :: "(string \<times> string) list" where
  "fixture_statuses = [(''BOOKING'', ''BOOKED''), (''CONFIRMATION'', ''CONFIRMED''), (''TRADE_CAPTURE'', ''CAPTURED''),
     (''EXECUTION'', ''NEW'')]"

lemma oracle_fixture_statuses:
  "expected_statuses (oracle_sequence (get_or (JList []) fixture_oracle_config ''lifecycle_expected_statuses'')) =
    Inr fixture_statuses"
  by code_simp

lemma engine_fixture_status:
  assumes "fixture_config = Inr cfg"
  shows "\<exists>rule. lifecycle_rule cfg k = Inr rule \<and>
    map_of fixture_statuses (kind_str k) = Some (lifecycle_str (ls_expected_status rule))"
proof -
  obtain d where d: "mk_ReconciliationConfig d = Inr cfg" "cg_lifecycle_expected_statuses d = default_lifecycle_rules"
    using assms unfolding fixture_config_def by fastforce
  have cfg: "cfg = d" by (rule config_accepted(1) [OF d(1)])
  show ?thesis
    by (cases k) (simp_all add: cfg lifecycle_rule_def d(2) default_lifecycle_rules_def lifecycle_rule_of_def fixture_statuses_def)
qed

text \<open>The oracle also reports a single observation whose status is not the expected one; the engine compares a pair.\<close>

definition lone_unexpected :: "engine \<Rightarrow> ReconciliationContext \<Rightarrow> bool" where
  "lone_unexpected en cx \<longleftrightarrow> (\<exists>ob. cx_source_observations cx = [ob] \<and>
     fx_lifecycle_status (ob_payload ob) \<notin> {AMENDED, CANCELLED} \<and>
     (\<exists>rule. lifecycle_rule (en_config en) (ob_kind ob) = Inr rule \<and>
       ls_expected_status rule \<noteq> fx_lifecycle_status (ob_payload ob)))"

lemma field_status: "field_value ob ''/payload/lifecycle_status'' = Inr (status_of ob)"
  by (simp add: field_value_def status_of_def)

lemma lifecycle_str_iff: "lifecycle_str a = lifecycle_str b \<longleftrightarrow> a = b"
  by (cases a; cases b) simp_all

lemma lifecycle_or_lone:
  assumes cx: "mk_ReconciliationContext cx = Inr cx"
  shows "lifecycle_inconsistent en cx \<or> lone_unexpected en cx \<longleftrightarrow>
    \<not> (\<exists>s \<in> {AMENDED, CANCELLED}. \<forall>ob \<in> set (cx_source_observations cx). fx_lifecycle_status (ob_payload ob) = s) \<and>
    (\<exists>ob \<in> set (cx_source_observations cx). \<exists>rule. lifecycle_rule (en_config en) (ob_kind ob) = Inr rule \<and>
        ls_expected_status rule \<noteq> fx_lifecycle_status (ob_payload ob))"
proof (cases "\<exists>a \<in> set (cx_source_observations cx). \<exists>b \<in> set (cx_source_observations cx). a \<noteq> b")
  case True
  then have "\<not> lone_unexpected en cx" by (auto simp: lone_unexpected_def)
  then show ?thesis using True by (simp add: lifecycle_inconsistent_def)
next
  case False
  obtain x xs where x: "cx_source_observations cx = x # xs" using context_accepted(7) [OF cx] by (cases "cx_source_observations cx") auto
  have "distinct (x # xs)" using context_accepted(4) [OF cx] unfolding x distinct_map by blast
  then have xs: "xs = []" using False unfolding x by (cases xs) auto
  show ?thesis using False by (auto simp: lifecycle_inconsistent_def lone_unexpected_def x xs)
qed

lemma lifecycle_reports:
  assumes cx: "mk_ReconciliationContext cx = Inr cx" and cfg: "fixture_config = Inr cfg"
    and en: "en = \<lparr>en_runtime = rt', en_config = cfg\<rparr>"
  shows "reports ''LIFECYCLE_STATUS_MISMATCH'' (lifecycle_inconsistent en cx \<or> lone_unexpected en cx)
    (lifecycle_facts (map (observation_doc rt) (cx_source_observations cx)) fixture_oracle_config)"
proof -
  let ?obs = "cx_source_observations cx"
  let ?uniform = "\<exists>s \<in> {AMENDED, CANCELLED}. \<forall>ob \<in> set ?obs. fx_lifecycle_status (ob_payload ob) = s"
  define bad where "bad ob \<longleftrightarrow> map_of fixture_statuses (kind_str (ob_kind ob)) \<noteq> Some (status_of ob)" for ob
  have statuses: "emap (\<lambda>ob. oracle_value ob ''/payload/lifecycle_status'') (map (observation_doc rt) ?obs) = Inr (map status_of ?obs)"
    unfolding emap_comp by (rule emap_total) (simp add: field_status)
  have bad: "bad ob \<longleftrightarrow> (\<exists>rule. lifecycle_rule (en_config en) (ob_kind ob) = Inr rule \<and>
      ls_expected_status rule \<noteq> fx_lifecycle_status (ob_payload ob))" for ob
    using engine_fixture_status [OF cfg, of "ob_kind ob"] by (auto simp: bad_def en status_of_def lifecycle_str_iff)
  note verdict = lifecycle_or_lone [OF cx, of en, folded bad]
  have uniform: "length (remdups (map status_of ?obs)) = 1 \<and> hd (map status_of ?obs) \<in> {''AMENDED'', ''CANCELLED''} \<longleftrightarrow> ?uniform"
    by (rule uniform_statuses [OF context_accepted(7) [OF cx]])
  have found: "efind (\<lambda>ob. ebind (oracle_string ob ''observation_kind'') (\<lambda>k. ebind (oracle_value ob ''/payload/lifecycle_status'')
      (\<lambda>s. Inr (map_of fixture_statuses k \<noteq> Some s)))) (map (observation_doc rt) (ordered_observations ?obs)) =
      Inr (map_option (observation_doc rt) (List.find bad (ordered_observations ?obs)))"
    unfolding efind_map by (subst efind_total [of _ _ bad]) (simp_all add: field_status bad_def)
  show ?thesis
  proof (cases ?uniform)
    case True
    then have "lifecycle_facts (map (observation_doc rt) ?obs) fixture_oracle_config = Inr []"
      unfolding lifecycle_facts_def statuses ebind_simps uniform by simp
    then show ?thesis unfolding verdict using True by (auto simp: reports_Nil)
  next
    case False
    show ?thesis
    proof (cases "List.find bad (ordered_observations ?obs)")
      case None
      then have "\<not> (\<exists>ob \<in> set ?obs. bad ob)" by (auto simp: find_None_iff)
      moreover have "lifecycle_facts (map (observation_doc rt) ?obs) fixture_oracle_config = Inr []"
        unfolding lifecycle_facts_def statuses ebind_simps uniform oracle_fixture_statuses oracle_ordered_docs found None
        using False by simp
      ultimately show ?thesis unfolding verdict by (auto simp: reports_Nil)
    next
      case (Some ob)
      then have "ob \<in> set ?obs" "bad ob" by (auto dest: find_Some_D)
      moreover have "\<exists>f. lifecycle_facts (map (observation_doc rt) ?obs) fixture_oracle_config = Inr [f] \<and>
          of_family f = ''LIFECYCLE_STATUS_MISMATCH''"
        unfolding lifecycle_facts_def statuses ebind_simps uniform oracle_fixture_statuses oracle_ordered_docs found Some
        using False by (simp add: field_status)
      ultimately show ?thesis unfolding verdict using False by (auto simp: reports_def)
    qed
  qed
qed

subsection \<open>Post-action verification\<close>

definition action_view :: "PostActionVerification \<Rightarrow> OraclePostAction" where
  "action_view v = \<lparr>op_action_instruction_hash = pv_action_instruction_hash v, op_pre_action = pv_pre_action v,
     op_post_action = pv_post_action v, op_changed_fields = pv_changed_fields v,
     op_readback_available = pv_readback_available v, op_original_break_remaining = pv_original_break_remaining v\<rparr>"

lemma action_fields_same: "ORACLE_ACTION_FIELDS = map fst POST_ACTION_FIELDS"
  by (simp add: ORACLE_ACTION_FIELDS_def POST_ACTION_FIELDS_def)

lemma listed_changes_docs:
  "listed_changes (observation_doc rt pre) (map changed_field_doc cs) =
    Inr (map (\<lambda>c. (ch_field_path c, ch_expected_value c, ch_observed_value c, [ob_observation_id pre])) cs)"
proof (induction cs)
  case (Cons c cs)
  have "oracle_string [(''field_path'', JStr a), (''expected_value'', JStr b), (''observed_value'', JStr d)] ''field_path'' = Inr a"
    "oracle_string [(''field_path'', JStr a), (''expected_value'', JStr b), (''observed_value'', JStr d)] ''expected_value'' = Inr b"
    "oracle_string [(''field_path'', JStr a), (''expected_value'', JStr b), (''observed_value'', JStr d)] ''observed_value'' = Inr d"
    for a b d by (simp_all add: oracle_string_def get_or_def json_str_def)
  with Cons show ?case by (simp add: changed_field_doc_def)
qed simp

lemma differences_docs:
  assumes "ob_kind pre = BOOKING" and "ob_kind post = BOOKING" and "set paths \<subseteq> set ORACLE_ACTION_FIELDS"
  shows "\<exists>res. efold (add_difference (observation_doc rt pre) (observation_doc rt post)) paths changed = Inr res \<and>
    (res = [] \<longleftrightarrow> changed = [] \<and> (\<forall>path \<in> set paths. field_value pre path = field_value post path))"
  using assms(3)
proof (induction paths arbitrary: changed)
  case (Cons path paths)
  then have p: "path \<in> set ORACLE_ACTION_FIELDS" by simp
  note val = oracle_value_booking [OF assms(1) p, of rt] oracle_value_booking [OF assms(2) p, of rt]
  obtain e w where e: "field_value pre path = Inr e" "field_value post path = Inr w"
    using booking_field_value [OF assms(1), of path] booking_field_value [OF assms(2), of path] p
    by (auto simp: action_fields_same)
  obtain next_changed where n: "add_difference (observation_doc rt pre) (observation_doc rt post) path changed = Inr next_changed"
    "next_changed = [] \<longleftrightarrow> changed = [] \<and> e = w"
  proof (cases "e \<noteq> w \<and> path \<notin> fst ` set changed")
    case True
    then show thesis
      by (intro that [of "changed @ [(path, e, w, [ob_observation_id pre, ob_observation_id post])]"])
        (auto simp: add_difference_def val e)
  next
    case False
    then show thesis by (intro that [of changed]) (auto simp: add_difference_def val e)
  qed
  show ?case using Cons.IH [of next_changed] Cons.prems n e by auto
qed simp

lemma post_action_doc_entries:
  "get_or JNull (post_action_doc rt v) ''pre_action'' = JObj (observation_doc rt (op_pre_action v))"
  "get_or JNull (post_action_doc rt v) ''post_action'' = json_opt (\<lambda>p. JObj (observation_doc rt p)) (op_post_action v)"
  "get_or (JList []) (post_action_doc rt v) ''changed_fields'' = JList (map changed_field_doc (op_changed_fields v))"
  "get_or d (post_action_doc rt v) ''readback_available'' = JBool (op_readback_available v)"
  "get_or d (post_action_doc rt v) ''original_break_remaining'' = JBool (op_original_break_remaining v)"
  by (simp_all add: post_action_doc_def get_or_def)

lemma accepted_action:
  assumes "mk_ReconciliationContext cx = Inr cx" and "cx_post_action_verification cx = Some v"
  shows "ob_kind (pv_pre_action v) = BOOKING" and "opt_ok (\<lambda>p. ob_kind p = BOOKING) (pv_post_action v)"
    and "mk_PostActionVerification v = Inr v"
proof -
  obtain v' where v': "mk_PostActionVerification v = Inr v'"
    using assms by (auto simp: mk_ReconciliationContext_def mk_opt_def result_simps)
  then have c: "validate_action_observations v = Inr v'"
    by (auto simp: mk_PostActionVerification_def ebind_eq_Inr)
  then show "ob_kind (pv_pre_action v) = BOOKING" and "opt_ok (\<lambda>p. ob_kind p = BOOKING) (pv_post_action v)"
    by (simp_all add: validate_action_observations_def check_simps)
  have "v' = v" using c by (simp add: validate_action_observations_def check_simps)
  with v' show "mk_PostActionVerification v = Inr v" by simp
qed

lemma action_reports:
  assumes cx: "mk_ReconciliationContext cx = Inr cx"
  shows "reports ''POST_ACTION_VERIFICATION_FAILURE'' (action_unverified cx)
    (post_action_facts (map_option (post_action_doc rt) (map_option action_view (cx_post_action_verification cx))))"
proof (cases "cx_post_action_verification cx")
  case None
  then show ?thesis by (auto simp: post_action_facts_def action_unverified_def)
next
  case (Some v)
  note k = accepted_action [OF cx Some]
  let ?pre = "pv_pre_action v"
  define listed where "listed = map (\<lambda>c. (ch_field_path c, ch_expected_value c, ch_observed_value c, [ob_observation_id ?pre])) (pv_changed_fields v)"
  define found where "found = (case json_opt (\<lambda>p. JObj (observation_doc rt p)) (pv_post_action v) of
      JObj post \<Rightarrow> efold (add_difference (observation_doc rt ?pre) post) ORACLE_ACTION_FIELDS listed | _ \<Rightarrow> Inr listed)"
  obtain changed where changed: "found = Inr changed" "changed = [] \<longleftrightarrow> pv_changed_fields v = [] \<and>
      (\<forall>post. pv_post_action v = Some post \<longrightarrow> (\<forall>path \<in> set ORACLE_ACTION_FIELDS. field_value ?pre path = field_value post path))"
  proof (cases "pv_post_action v")
    case None
    then show thesis using that by (simp add: found_def json_opt_def listed_def)
  next
    case (Some post)
    then have "ob_kind post = BOOKING" using k(2) by (simp add: opt_ok_def)
    from differences_docs [OF k(1) this order_refl, of rt listed] Some show thesis
      using that by (auto simp: found_def json_opt_def listed_def)
  qed
  obtain stand_in where s: "unreadable (observation_doc rt ?pre) = Inr [stand_in]"
    by (simp add: unreadable_def field_value_def)
  define all where "all = (if changed = [] \<and> (\<not> pv_readback_available v \<or> pv_original_break_remaining v) then [stand_in] else changed)"
  have facts: "post_action_facts (map_option (post_action_doc rt) (map_option action_view (cx_post_action_verification cx))) =
      Inr (map (\<lambda>(path, e, w, ids). \<lparr>of_family = ''POST_ACTION_VERIFICATION_FAILURE'', of_field_path = path,
        of_expected_value = e, of_observed_value = w, of_source_observation_ids = ids\<rparr>) all)"
    using changed(1) s
    by (simp add: Some post_action_facts_def post_action_doc_entries action_view_def oracle_sequence_def listed_changes_docs
        listed_def [symmetric] found_def [symmetric] all_def Let_def)
  have "all \<noteq> [] \<longleftrightarrow> action_unverified cx"
    unfolding all_def action_unverified_def using changed(2) by (auto simp: Some action_fields_same)
  then show ?thesis unfolding facts by (cases all) (auto simp: reports_def split: prod.splits)
qed

section \<open>The verdicts agree\<close>

definition oracle_view :: "ReconciliationContext \<Rightarrow> OracleContext" where
  "oracle_view cx = \<lparr>oc_canonical_state = cx_canonical_state cx, oc_source_observations = cx_source_observations cx,
     oc_evaluated_at = cx_evaluated_at cx, oc_linkage_decision = cx_linkage_decision cx,
     oc_post_action = map_option action_view (cx_post_action_verification cx)\<rparr>"

lemma oracle_view_time: "oracle_evaluated_at (oracle_view cx) = effective_evaluated_at cx"
  by (cases "cx_evaluated_at cx") (simp_all add: oracle_evaluated_at_def oracle_view_def effective_evaluated_at_def)

text \<open>What the engine accepts the oracle accepts.\<close>

lemma action_view_accepted:
  assumes "mk_PostActionVerification v = Inr v"
  shows "mk_OraclePostAction (action_view v) = Inr (action_view v)"
proof -
  have c: "validate_action_observations v = Inr v"
    and hash: "is_sha256_hash (pv_action_instruction_hash v)"
    and pre: "\<exists>x. validate_observation (pv_pre_action v) = Inr x"
    and post: "\<exists>x. mk_opt validate_observation (pv_post_action v) = Inr x"
    and ch: "\<exists>x. emap mk_ChangedField (pv_changed_fields v) = Inr x"
    using assms by (auto simp: mk_PostActionVerification_def result_simps check_simps)
  note parts = c [unfolded validate_action_observations_def check_simps]
  have "mk_OracleChangedField = mk_ChangedField"
    by (simp add: fun_eq_iff mk_OracleChangedField_def mk_ChangedField_def ORACLE_ACTION_FIELDS_def POST_ACTION_FIELD_PATHS_def)
  moreover have "\<exists>x. mk_opt booking_typed (pv_post_action v) = Inr x"
    using post parts by (cases "pv_post_action v") (auto simp: mk_opt_def booking_typed_def opt_ok_def)
  moreover have "\<exists>x. booking_typed (pv_pre_action v) = Inr x" using pre parts by (simp add: booking_typed_def)
  ultimately show ?thesis
    using hash ch parts by (auto simp: mk_OraclePostAction_def action_view_def checked_def first_error.simps)
qed

lemma oracle_view_accepted:
  assumes cx: "mk_ReconciliationContext cx = Inr cx"
  shows "mk_OracleContext (oracle_view cx) = Inr (oracle_view cx)"
proof -
  have v: "validate_context_scope cx = Inr cx" and ld: "\<exists>x. mk_opt mk_LinkageDecision (cx_linkage_decision cx) = Inr x"
    using cx by (auto simp: mk_ReconciliationContext_def result_simps)
  have obs: "emap validate_observation (cx_source_observations cx) = Inr (map (\<lambda>ob. ob) (cx_source_observations cx))"
    by (rule emap_total) (rule context_accepted(3) [OF cx])
  have act: "\<exists>x. mk_opt mk_OraclePostAction (map_option action_view (cx_post_action_verification cx)) = Inr x"
    using action_view_accepted accepted_action(3) [OF cx]
    by (cases "cx_post_action_verification cx") (auto simp: mk_opt_def)
  have "validate_input_boundary (oracle_view cx) = Inr (oracle_view cx)"
    using v
    by (auto simp: validate_input_boundary_def validate_context_scope_def Let_def check_simps first_error_concat_None
      oracle_view_def delivery_boundary_def observation_scope_checks_def action_view_def split: option.splits)
  then show ?thesis
    using ld act context_accepted(2,7) [OF cx] obs
    by (auto simp: mk_OracleContext_def oracle_view_def checked_def first_error.simps)
qed

text \<open>Times as the oracle reads them: of the documented form and with an offset of less than a day.\<close>

definition readable_times :: "runtime \<Rightarrow> ReconciliationContext \<Rightarrow> bool" where
  "readable_times rt cx \<longleftrightarrow> clock_ok (cs_source_watermark (cx_canonical_state cx)) \<and> clock_ok (effective_evaluated_at cx) \<and>
     (\<forall>ob \<in> set (cx_source_observations cx). clock_ok (ob_ingest_time ob) \<and>
        json_text_of (datetime_json rt (ob_ingest_time ob)) (ob_ingest_time ob))"

lemma scope_keys_docs:
  "oracle_strings (observation_doc rt ob) SCOPE_KEYS = Inr [ob_tenant_id ob, ob_portfolio_id ob, ob_correlation_id ob]"
  "oracle_strings (canonical_doc s refs) SCOPE_KEYS = Inr [cs_tenant_id s, cs_portfolio_id s, cs_correlation_id s]"
  by (simp_all add: oracle_strings_def SCOPE_KEYS_def)

definition key_list :: "source_key \<Rightarrow> string list" where
  "key_list key = (case key of (i, k, system, version, hash) \<Rightarrow> [i, kind_str k, source_system_str system, version, hash])"

lemma source_system_str_iff: "source_system_str a = source_system_str b \<longleftrightarrow> a = b"
  by (cases a; cases b) simp_all

lemma key_list_inj: "key_list a = key_list b \<longleftrightarrow> a = b"
  by (cases a; cases b) (auto simp: key_list_def source_system_str_iff)

lemma references_list:
  assumes "\<And>i. i \<in> set items \<Longrightarrow> \<exists>m. reference_doc obs i = Inr (JObj m) \<and> oracle_strings m names = Inr (g i)"
  shows "\<exists>refs. emap (reference_doc obs) items = Inr refs \<and>
    emap (\<lambda>ref. oracle_strings ref names) (document_mappings refs) = Inr (map g items)"
  using assms
proof (induction items)
  case Nil
  then show ?case by (simp add: document_mappings_def)
next
  case (Cons i items)
  obtain m where m: "reference_doc obs i = Inr (JObj m)" "oracle_strings m names = Inr (g i)"
    using Cons.prems [of i] by auto
  obtain refs where r: "emap (reference_doc obs) items = Inr refs"
    "emap (\<lambda>ref. oracle_strings ref names) (document_mappings refs) = Inr (map g items)"
    using Cons by auto
  have "document_mappings (JObj m # refs) = m # document_mappings refs" by (simp add: document_mappings_def)
  with m r show ?case by simp
qed

abbreviation reference_keys :: "string list" where
  "reference_keys \<equiv> [''source_observation_id'', ''observation_kind'', ''source_system'', ''source_version'', ''content_hash'']"

lemma references_doc:
  assumes cx: "mk_ReconciliationContext cx = Inr cx"
  shows "\<exists>refs. emap (reference_doc (cx_source_observations cx)) (cs_source_version_set (cx_canonical_state cx)) = Inr refs \<and>
    emap (\<lambda>ref. oracle_strings ref reference_keys) (document_mappings refs) =
      Inr (map (\<lambda>i. key_list (item_key i)) (cs_source_version_set (cx_canonical_state cx)))"
proof (rule references_list)
  fix i assume i: "i \<in> set (cs_source_version_set (cx_canonical_state cx))"
  let ?obs = "cx_source_observations cx"
  have "item_key i \<in> observation_key ` set ?obs" using context_accepted(5) [OF cx] i by simp
  then obtain ob where "ob \<in> set (rev ?obs)" "ob_observation_id ob = si_observation_id i"
    by (auto simp: item_key_def observation_key_def)
  then have "List.find (\<lambda>ob. ob_observation_id ob = si_observation_id i) (rev ?obs) \<noteq> None"
    by (auto simp: find_None_iff)
  then show "\<exists>m. reference_doc ?obs i = Inr (JObj m) \<and> oracle_strings m reference_keys = Inr (key_list (item_key i))"
    by (auto simp: reference_doc_def oracle_strings_def oracle_string_def get_or_def json_str_def key_list_def item_key_def)
qed

lemma validate_delivery_doc:
  assumes cx: "mk_ReconciliationContext cx = Inr cx" and times: "readable_times rt cx"
    and ob: "ob \<in> set (cx_source_observations cx)"
  shows "validate_delivery (canonical_doc (cx_canonical_state cx) refs)
    [cs_tenant_id (cx_canonical_state cx), cs_portfolio_id (cx_canonical_state cx), cs_correlation_id (cx_canonical_state cx)]
    (observation_doc rt ob) = Inr ()"
proof -
  have t: "oracle_time (datetime_json rt (ob_ingest_time ob)) = Inr (ob_ingest_time ob)"
    "oracle_time (isoformat (cs_source_watermark (cx_canonical_state cx))) = Inr (cs_source_watermark (cx_canonical_state cx))"
    using times ob oracle_time_json oracle_time_isoformat by (auto simp: readable_times_def)
  have "\<not> instant (cs_source_watermark (cx_canonical_state cx)) < instant (ob_ingest_time ob)"
    "ob_tenant_id ob = cs_tenant_id (cx_canonical_state cx)" "ob_portfolio_id ob = cs_portfolio_id (cx_canonical_state cx)"
    "ob_correlation_id ob = cs_correlation_id (cx_canonical_state cx)"
    using context_accepted(6) [OF cx ob] by (auto simp: observation_scope_checks_def Let_def check_simps canonical_scope_def)
  with t show ?thesis by (simp add: validate_delivery_def scope_keys_docs)
qed

lemma validate_input_doc:
  assumes cx: "mk_ReconciliationContext cx = Inr cx" and times: "readable_times rt cx"
    and refs: "emap (\<lambda>ref. oracle_strings ref reference_keys) (document_mappings refs) =
      Inr (map (\<lambda>i. key_list (item_key i)) (cs_source_version_set (cx_canonical_state cx)))"
  shows "validate_input (map (observation_doc rt) (cx_source_observations cx)) (canonical_doc (cx_canonical_state cx) refs)
    fixture_oracle_config (map_option (linkage_doc rt) (cx_linkage_decision cx)) = Inr ()"
proof -
  let ?obs = "cx_source_observations cx" and ?s = "cx_canonical_state cx"
  have ids: "emap (\<lambda>ob. oracle_string ob ''observation_id'') (map (observation_doc rt) ?obs) = Inr (map ob_observation_id ?obs)"
    unfolding emap_comp by (rule emap_total) simp
  obtain us where deliveries: "emap (validate_delivery (canonical_doc ?s refs) [cs_tenant_id ?s, cs_portfolio_id ?s, cs_correlation_id ?s])
      (map (observation_doc rt) ?obs) = Inr us"
    unfolding emap_comp using emap_total [of ?obs _ "\<lambda>_. ()"] validate_delivery_doc [OF cx times] by (metis comp_apply)
  have actual: "emap (\<lambda>ob. oracle_strings ob [''observation_id'', ''observation_kind'', ''source_system'', ''source_version'', ''content_hash''])
      (map (observation_doc rt) ?obs) = Inr (map (\<lambda>ob. key_list (observation_key ob)) ?obs)"
    unfolding emap_comp by (rule emap_total) (simp add: oracle_strings_def key_list_def observation_key_def)
  have "set (map (\<lambda>ob. key_list (observation_key ob)) ?obs) = key_list ` (observation_key ` set ?obs)" by (simp add: image_image)
  also have "\<dots> = set (map (\<lambda>i. key_list (item_key i)) (cs_source_version_set ?s))"
    unfolding context_accepted(5) [OF cx] by (simp add: image_image)
  finally have sources: "validate_sources (map (observation_doc rt) ?obs) (canonical_doc ?s refs) = Inr ()"
    unfolding validate_sources_def canonical_doc_strings json.case actual refs ebind_simps by simp
  have linked: "ld_source_observation_id d \<in> ob_observation_id ` set ?obs" if "cx_linkage_decision cx = Some d" for d
    using cx that by (auto simp: mk_ReconciliationContext_def result_simps validate_context_scope_def Let_def check_simps)
  have watermark: "isoformat (cs_source_watermark ?s) \<noteq> []"
    by (simp add: isoformat_def date_isoformat_def Let_def split: prod.splits)
  have forbidden: "fst ` set (canonical_doc ?s refs) \<inter> {''reconciliation_run'', ''breaks'', ''break_ids'', ''result''} = {}"
    by (simp add: canonical_doc_def)
  have identity: "truthy (get_or JNull fixture_oracle_config ''config_id'')" "truthy (get_or JNull fixture_oracle_config ''config_version'')"
    by (simp_all add: fixture_oracle_config_def get_or_def)
  have link: "(case map_option (linkage_doc rt) (cx_linkage_decision cx) of None \<Rightarrow> Inr ()
      | Some d \<Rightarrow> (let v = get_or JNull d ''source_observation_id'' in
          if v \<noteq> JNull \<and> json_str v \<notin> set (map ob_observation_id ?obs)
          then Inl (ValueError ''oracle linkage decision must reference the source set'') else Inr ())) = Inr ()"
    using linked by (simp add: linkage_doc_entries json_str_def split: option.splits)
  show ?thesis
    unfolding validate_input_def scope_keys_docs ids canonical_doc_strings ebind_simps deliveries sources link forbidden
    using watermark identity context_accepted(4,7) [OF cx] by (simp add: checked_def first_error.simps)
qed

text \<open>All facts of a context.\<close>

definition oracle_violates :: "engine \<Rightarrow> ReconciliationContext \<Rightarrow> BreakFamily \<Rightarrow> bool" where
  "oracle_violates en cx F \<longleftrightarrow> violated en cx F \<or> F = LIFECYCLE_STATUS_MISMATCH \<and> lone_unexpected en cx"

lemma economic_all_reports:
  assumes cx: "mk_ReconciliationContext cx = Inr cx" and cfg: "fixture_config = Inr cfg"
  shows "reports ''ECONOMIC_VALUE_MISMATCH'' (outside_tolerance \<lparr>en_runtime = rt', en_config = cfg\<rparr> cx)
    (economic_facts (map (observation_doc rt) (cx_source_observations cx)) (canonical_doc (cx_canonical_state cx) refs) fixture_oracle_config)"
proof -
  have same: "ORACLE_ECONOMIC_FIELDS = ECONOMIC_FIELDS" by (simp add: ORACLE_ECONOMIC_FIELDS_def ECONOMIC_FIELDS_def)
  show ?thesis unfolding economic_facts_def same outside_tolerance_def
    by (rule reports_econcat) (rule economic_reports [OF cx cfg])
qed

lemma oracle_facts_families:
  assumes cx: "mk_ReconciliationContext cx = Inr cx" and cfg: "fixture_config = Inr cfg" and times: "readable_times rt cx"
    and en: "en = \<lparr>en_runtime = rt', en_config = cfg\<rparr>"
  shows "\<exists>facts. oracle_facts (map (observation_doc rt) (cx_source_observations cx)) (canonical_doc (cx_canonical_state cx) refs)
      fixture_oracle_config (map_option (linkage_doc rt) (cx_linkage_decision cx))
      (map_option (post_action_doc rt) (map_option action_view (cx_post_action_verification cx)))
      (isoformat (effective_evaluated_at cx)) = Inr facts \<and>
    of_family ` set facts = family_str ` {F. oracle_violates en cx F}"
proof -
  let ?docs = "map (observation_doc rt) (cx_source_observations cx)" and ?c = "canonical_doc (cx_canonical_state cx) refs"
  have paths: "set [''/payload/base_currency'', ''/payload/terms_currency'', ''/payload/side''] \<subseteq> set compared_paths"
    "set ORACLE_DATE_FIELDS \<subseteq> set compared_paths"
    by (simp_all add: CURRENCY_FIELDS_def DATE_FIELDS_def ORACLE_DATE_FIELDS_def)
  have names: "map fst CURRENCY_FIELDS = [''/payload/base_currency'', ''/payload/terms_currency'', ''/payload/side'']"
    "map fst DATE_FIELDS = ORACLE_DATE_FIELDS"
    by (simp_all add: CURRENCY_FIELDS_def DATE_FIELDS_def ORACLE_DATE_FIELDS_def)
  have w: "clock_ok (cs_source_watermark (cx_canonical_state cx))" "clock_ok (effective_evaluated_at cx)"
    using times by (simp_all add: readable_times_def)
  obtain f1 where f1: "missing_source_facts ?docs ?c fixture_oracle_config (isoformat (effective_evaluated_at cx)) = Inr f1"
    "of_family ` set f1 = (if violated en cx MISSING_REQUIRED_SOURCE then {family_str MISSING_REQUIRED_SOURCE} else {})"
    using missing_reports [OF cx cfg w, where rt = rt and rt' = rt' and refs = refs] by (auto simp: reports_def en)
  obtain f2 where f2: "linkage_facts ?docs ?c (map_option (linkage_doc rt) (cx_linkage_decision cx)) = Inr f2"
    "of_family ` set f2 = (if violated en cx AMBIGUOUS_OR_UNMATCHED_LINKAGE then {family_str AMBIGUOUS_OR_UNMATCHED_LINKAGE} else {})"
    using linkage_reports [OF cx, of rt refs] by (auto simp: reports_def)
  obtain f3 where f3: "duplicate_facts ?docs = Inr f3"
    "of_family ` set f3 = (if violated en cx DUPLICATE_SOURCE_CONFLICT_FAMILY then {family_str DUPLICATE_SOURCE_CONFLICT_FAMILY} else {})"
    using duplicate_reports [of cx rt] by (auto simp: reports_def)
  obtain f4 where f4: "econcat (emap (comparison_facts ?docs ?c ''CURRENCY_PAIR_OR_SIDE_MISMATCH'')
      [''/payload/base_currency'', ''/payload/terms_currency'', ''/payload/side'']) = Inr f4"
    "of_family ` set f4 = (if violated en cx CURRENCY_PAIR_OR_SIDE_MISMATCH then {family_str CURRENCY_PAIR_OR_SIDE_MISMATCH} else {})"
    using exact_reports [OF cx paths(1), of "''CURRENCY_PAIR_OR_SIDE_MISMATCH''" rt refs]
    unfolding reports_def violated.simps names family_str.simps by metis
  obtain f5 where f5: "economic_facts ?docs ?c fixture_oracle_config = Inr f5"
    "of_family ` set f5 = (if violated en cx ECONOMIC_VALUE_MISMATCH then {family_str ECONOMIC_VALUE_MISMATCH} else {})"
    using economic_all_reports [OF cx cfg, where rt = rt and rt' = rt' and refs = refs] unfolding en by (auto simp: reports_def)
  obtain f6 where f6: "date_facts ?docs ?c = Inr f6"
    "of_family ` set f6 = (if violated en cx TRADE_OR_VALUE_DATE_MISMATCH then {family_str TRADE_OR_VALUE_DATE_MISMATCH} else {})"
    using exact_reports [OF cx paths(2), of "''TRADE_OR_VALUE_DATE_MISMATCH''" rt refs]
    unfolding reports_def violated.simps names family_str.simps date_facts_def by metis
  obtain f7 where f7: "lifecycle_facts ?docs fixture_oracle_config = Inr f7"
    "of_family ` set f7 = (if oracle_violates en cx LIFECYCLE_STATUS_MISMATCH then {family_str LIFECYCLE_STATUS_MISMATCH} else {})"
    using lifecycle_reports [OF cx cfg en, where rt = rt] by (auto simp: reports_def oracle_violates_def)
  obtain f8 where f8: "post_action_facts (map_option (post_action_doc rt) (map_option action_view (cx_post_action_verification cx))) = Inr f8"
    "of_family ` set f8 = (if violated en cx POST_ACTION_VERIFICATION_FAILURE then {family_str POST_ACTION_VERIFICATION_FAILURE} else {})"
    using action_reports [OF cx, of rt] by (auto simp: reports_def)
  let ?facts = "f1 @ f2 @ f3 @ f4 @ f5 @ f6 @ f7 @ f8"
  have facts: "oracle_facts ?docs ?c fixture_oracle_config (map_option (linkage_doc rt) (cx_linkage_decision cx))
      (map_option (post_action_doc rt) (map_option action_view (cx_post_action_verification cx)))
      (isoformat (effective_evaluated_at cx)) = Inr ?facts"
    unfolding oracle_facts_def f1 f2 f3 f4 f5 f6 f7 f8 ebind_simps ..
  define G where "G F = (if oracle_violates en cx F then {family_str F} else {})" for F
  have image: "of_family ` set ?facts = G MISSING_REQUIRED_SOURCE \<union> G AMBIGUOUS_OR_UNMATCHED_LINKAGE \<union>
      G DUPLICATE_SOURCE_CONFLICT_FAMILY \<union> G CURRENCY_PAIR_OR_SIDE_MISMATCH \<union> G ECONOMIC_VALUE_MISMATCH \<union>
      G TRADE_OR_VALUE_DATE_MISMATCH \<union> G LIFECYCLE_STATUS_MISMATCH \<union> G POST_ACTION_VERIFICATION_FAILURE"
    unfolding set_append image_Un f1(2) f2(2) f3(2) f4(2) f5(2) f6(2) f7(2) f8(2) Un_assoc G_def
    by (simp add: oracle_violates_def)
  have "G F \<subseteq> of_family ` set ?facts" for F unfolding image by (cases F) auto
  moreover have "of_family ` set ?facts \<subseteq> (\<Union>F. G F)" unfolding image by blast
  moreover have "(\<Union>F. G F) = family_str ` {F. oracle_violates en cx F}" by (auto simp: G_def)
  ultimately show ?thesis using facts by (intro exI [of _ ?facts]) blast
qed

lemma family_str_iff: "family_str F = family_str G \<longleftrightarrow> F = G"
  by (cases F; cases G) simp_all

lemma families_listed:
  assumes "of_family ` set facts = family_str ` S"
  shows "fact_families facts = map family_str (filter (\<lambda>F. F \<in> S) BREAK_FAMILY_ORDER)"
proof -
  have inj: "family_str F \<in> family_str ` S \<longleftrightarrow> F \<in> S" for F by (auto simp: family_str_iff)
  have names: "BREAK_FAMILIES = map family_str BREAK_FAMILY_ORDER" by (simp add: BREAK_FAMILIES_def BREAK_FAMILY_ORDER_def)
  show ?thesis unfolding fact_families_def assms names filter_map comp_def inj ..
qed

lemma evaluate_context_families:
  assumes cx: "mk_ReconciliationContext cx = Inr cx" and cfg: "fixture_config = Inr (en_config en)" and times: "readable_times rt cx"
  shows "\<exists>res. evaluate_context rt (oracle_view cx) = Inr res \<and>
    or_families res = map family_str (filter (oracle_violates en cx) BREAK_FAMILY_ORDER)"
proof -
  let ?docs = "map (observation_doc rt) (cx_source_observations cx)"
  obtain refs where refs: "emap (reference_doc (cx_source_observations cx)) (cs_source_version_set (cx_canonical_state cx)) = Inr refs"
    and keys: "emap (\<lambda>ref. oracle_strings ref reference_keys) (document_mappings refs) =
      Inr (map (\<lambda>i. key_list (item_key i)) (cs_source_version_set (cx_canonical_state cx)))"
    using references_doc [OF cx] by blast
  have en: "en = \<lparr>en_runtime = en_runtime en, en_config = en_config en\<rparr>" by simp
  obtain facts where facts: "oracle_facts ?docs (canonical_doc (cx_canonical_state cx) refs) fixture_oracle_config
      (map_option (linkage_doc rt) (cx_linkage_decision cx))
      (map_option (post_action_doc rt) (map_option action_view (cx_post_action_verification cx)))
      (isoformat (effective_evaluated_at cx)) = Inr facts"
    and fam: "of_family ` set facts = family_str ` {F. oracle_violates en cx F}"
    using oracle_facts_families [OF cx cfg times en] by blast
  have ids: "emap (\<lambda>ob. oracle_string ob ''observation_id'') (map (observation_doc rt) (ordered_observations (cx_source_observations cx))) =
      Inr (map ob_observation_id (ordered_observations (cx_source_observations cx)))"
    unfolding emap_comp by (rule emap_total) simp
  have time: "isoformat (effective_evaluated_at cx) \<noteq> []"
    by (simp add: isoformat_def date_isoformat_def Let_def split: prod.splits)
  have view: "oc_canonical_state (oracle_view cx) = cx_canonical_state cx" "oc_source_observations (oracle_view cx) = cx_source_observations cx"
    "oc_linkage_decision (oracle_view cx) = cx_linkage_decision cx"
    "oc_post_action (oracle_view cx) = map_option action_view (cx_post_action_verification cx)"
    by (simp_all add: oracle_view_def)
  show ?thesis
    unfolding evaluate_context_def Let_def view refs ebind_simps oracle_view_time evaluate_mappings_def
      validate_input_doc [OF cx times keys] canonical_doc_strings option.case if_not_P [OF time] facts oracle_ordered_docs ids
    using families_listed [OF fam] by simp
qed

section \<open>Properties\<close>

text \<open>C4: the oracle confirms the engine. Every context that the engine accepts the oracle accepts; its evaluation
  returns, and lists, in the order of the taxonomy, exactly the families that the source set violates under the
  fixture configuration. So when a run of the engine returns, the two report the same families and the same result.
  The one exception is a single observation with an unexpected status, which only the oracle reports.\<close>

theorem oracle_confirms_engine:
  assumes cx: "mk_ReconciliationContext cx = Inr cx" and cfg: "fixture_config = Inr (en_config en)" and times: "readable_times rt cx"
  shows "mk_OracleContext (oracle_view cx) = Inr (oracle_view cx) \<and>
    (\<exists>res. oracle_evaluate rt (Some (oracle_view cx)) None None None None None None = Inr res \<and>
      or_families res = map family_str (filter (\<lambda>F. violated en cx F \<or> F = LIFECYCLE_STATUS_MISMATCH \<and> lone_unexpected en cx)
        BREAK_FAMILY_ORDER) \<and>
      (\<forall>r. run en cx None = Inr r \<and> \<not> lone_unexpected en cx \<longrightarrow>
        set (or_families res) = family_str ` tb_family ` set (rn_breaks r) \<and> oracle_verdict res = run_result_str (rn_result r)))"
proof -
  obtain res where res: "evaluate_context rt (oracle_view cx) = Inr res"
    and f: "or_families res = map family_str (filter (oracle_violates en cx) BREAK_FAMILY_ORDER)"
    using evaluate_context_families [OF cx cfg times] by blast
  have agree: "set (or_families res) = family_str ` tb_family ` set (rn_breaks r) \<and> oracle_verdict res = run_result_str (rn_result r)"
    if r: "run en cx None = Inr r" and lone: "\<not> lone_unexpected en cx" for r
  proof -
    note v = run_verdict [OF cx r]
    have "set BREAK_FAMILY_ORDER = UNIV"
    proof -
      have "F \<in> set BREAK_FAMILY_ORDER" for F by (cases F) (simp_all add: BREAK_FAMILY_ORDER_def)
      then show ?thesis by blast
    qed
    then have s: "set (or_families res) = family_str ` tb_family ` set (rn_breaks r)"
      using lone by (simp add: f v(1) oracle_violates_def)
    have "rn_result r = PASS \<longleftrightarrow> or_families res = []"
      using arg_cong [OF s, of "\<lambda>S. S = {}"] v(2) by simp
    then have "oracle_verdict res = run_result_str (rn_result r)" by (cases "rn_result r") (auto simp: oracle_verdict_def)
    with s show ?thesis by simp
  qed
  moreover have "oracle_evaluate rt (Some (oracle_view cx)) None None None None None None = Inr res"
    using res by (simp add: oracle_evaluate_def)
  ultimately show ?thesis
    using oracle_view_accepted [OF cx] f unfolding oracle_violates_def [abs_def] by blast
qed

end
