(* ===== verification/Oracle_Sample.thy ===== *)
theory Oracle_Sample
  imports Oracle_Agrees Service_Sample Recon_Sample
begin

text \<open>
  The oracle on concrete data: the four agreeing sources of the service's sample, which both evaluators pass.
\<close>

lemma group_watermark:
  assumes "reconcile_lineage_group rt cfg policy run_id index version grp = Inr (canonical, r)"
  shows "\<exists>ob \<in> set (active_observations grp). cs_source_watermark canonical = ob_ingest_time ob"
proof -
  obtain observations trade_id selection where
    o: "emap validate_observation (active_observations grp) = Inr observations"
    and s: "assemble_canonical_state rt trade_id version selection observations policy
      (ob_correlation_id (hd observations)) ASSEMBLER_ACTOR = Inr canonical"
    using assms by (auto simp: reconcile_lineage_group_def result_simps)
  have o': "observations = active_observations grp" by (rule validated_group(1) [OF o])
  obtain l where l: "locked_source_set rt observations = Inr l" and w: "cs_source_watermark canonical = source_watermark_of l"
    using s by (auto simp: assemble_canonical_state_def result_simps check_simps simp del: set_map split: if_splits
      dest!: mk_CanonicalTradeState_same)
  note lock = locked_source_set_Inr [OF l]
  have "set l = set observations" by (simp add: lock(1))
  moreover from this have "hd observations \<in> set l" using lock(2) by simp
  ultimately show ?thesis using watermark_max(2) [of "hd observations" l] w o' by auto
qed

definition stamped_runtime :: runtime where
  "stamped_runtime = plain_runtime\<lparr>datetime_json := isoformat\<rparr>"

theorem oracle_confirms_engine_witness:
  "\<exists>cx r res. run \<lparr>en_runtime = Inbox.flat_runtime, en_config = demo_config\<rparr> cx None = Inr r \<and>
    cx_source_observations cx = demo_sources \<and> rn_result r = PASS \<and>
    oracle_evaluate stamped_runtime (Some (oracle_view cx)) None None None None None None = Inr res \<and> oracle_verdict res = ''PASS''"
proof -
  have ids: "is_identifier (indexed_run_id ''run_1'' 0)" "is_identifier (''decision_'' @ indexed_run_id ''run_1'' 0)" by code_simp+
  obtain canonical r where r: "reconcile_lineage_group Inbox.flat_runtime demo_config mvp_source_of_truth_policy ''run_1'' 0 1 demo_sources = Inr (canonical, r)"
    "rn_breaks r = []"
    using agreeing_group_passes [OF _ flat_digest ids order_refl demo_config_accepted, where trade_id = "''trade_0001''" and grp = demo_sources]
      demo_linked demo_force demo_agreeing
    unfolding demo_active by blast
  obtain linkage cx where cx: "cx = group_context (indexed_run_id ''run_1'' 0) canonical demo_sources linkage"
    and ok: "mk_ReconciliationContext cx = Inr cx" "run \<lparr>en_runtime = Inbox.flat_runtime, en_config = demo_config\<rparr> cx None = Inr r"
    using reconcile_lineage_group_Inr [OF r(1)] unfolding demo_active by metis
  have times: "clock_ok (ob_ingest_time ob)" if "ob \<in> set demo_sources" for ob
    using that by (auto simp: demo_sources_def demo_defs clock_ok_def wall_clock_def)
  obtain x where x: "x \<in> set demo_sources" "cs_source_watermark canonical = ob_ingest_time x"
    using group_watermark [OF r(1)] unfolding demo_active by blast
  have readable: "readable_times stamped_runtime cx"
    using times [OF x(1)] times x(2)
    by (auto simp: readable_times_def cx group_context_def effective_evaluated_at_def json_text_of_def stamped_runtime_def)
  have pass: "rn_result r = PASS" using run_verdict(2) [OF ok] r(2) by simp
  have lone: "\<not> lone_unexpected \<lparr>en_runtime = Inbox.flat_runtime, en_config = demo_config\<rparr> cx"
    by (simp add: lone_unexpected_def cx group_context_def demo_sources_def)
  have cfg: "fixture_config = Inr (en_config \<lparr>en_runtime = Inbox.flat_runtime, en_config = demo_config\<rparr>)" using demo_config by simp
  obtain res where "oracle_evaluate stamped_runtime (Some (oracle_view cx)) None None None None None None = Inr res"
    "oracle_verdict res = run_result_str (rn_result r)"
    using oracle_confirms_engine [OF ok(1) cfg readable] ok(2) lone by blast
  then show ?thesis using ok(2) pass by (intro exI [of _ cx] exI [of _ r] exI [of _ res]) (simp add: cx group_context_def)
qed

end
