(* ===== verification/Import_Graph.thy ===== *)
theory Import_Graph
  imports Json "HOL-Library.AList"
begin

text \<open>
  \<open>packages/oracle/import_graph.py\<close>: the import graph of the packages and the check that the oracle and the
  reconciliation engine do not reach each other. The parsed source files are an argument: a syntax tree is the list
  of its nodes in the order of \<open>ast.walk\<close>. A file that cannot be read or parsed is a \<open>ParseError\<close> with the text of the
  exception; one that is not UTF-8 text makes the scan raise, and has no tree here. The main result is that a report is
  isolated exactly when no import chain of any length connects the two packages and nothing was left out of the graph.
\<close>

section \<open>Syntax trees\<close>

datatype py_expr = PyName string | PyAttribute py_expr string | PyExpr

text \<open>An alias is a name with the name it is bound to.\<close>

datatype py_node =
    ImportNode "(string \<times> string option) list"
  | ImportFrom "string option" "(string \<times> string option) list" nat
  | CallNode py_expr
  | OtherNode

datatype parsed = Parsed "py_node list" | ParseError string

section \<open>Module names\<close>

text \<open>\<open>name.split(".")\<close> and \<open>name.rsplit(".", 1)[0]\<close>, which is the empty string without a dot in the loop below.\<close>

fun split_dots :: "string \<Rightarrow> string list" where
  "split_dots [] = [[]]"
| "split_dots (c # s) = (case split_dots s of
     [] \<Rightarrow> [[c]]
   | p # ps \<Rightarrow> if c = CHR ''.'' then [] # p # ps else (c # p) # ps)"

definition parent_module :: "string \<Rightarrow> string" where
  "parent_module name = (if CHR ''.'' \<in> set name then rev (tl (dropWhile (\<lambda>c. c \<noteq> CHR ''.'') (rev name))) else [])"

lemma parent_shorter: "name \<noteq> [] \<Longrightarrow> length (parent_module name) < length name"
proof -
  assume n: "name \<noteq> []"
  have "length (dropWhile (\<lambda>c. c \<noteq> CHR ''.'') (rev name)) \<le> length name"
    using length_dropWhile_le [of "\<lambda>c. c \<noteq> CHR ''.''" "rev name"] by simp
  moreover have "dropWhile (\<lambda>c. c \<noteq> CHR ''.'') (rev name) \<noteq> []" if "CHR ''.'' \<in> set name"
    using that by (auto simp: dropWhile_eq_Nil_conv)
  moreover have "0 < length name" using n by simp
  ultimately show ?thesis unfolding parent_module_def by (simp del: length_greater_0_conv) linarith
qed

text \<open>\<open>_under\<close>.\<close>

definition under :: "string \<Rightarrow> string \<Rightarrow> bool" where
  "under name package \<longleftrightarrow> name = package \<or> starts_with name (package @ ''.'')"

text \<open>\<open>_resolve_absolute\<close>: the longest dotted prefix that is a module.\<close>

function resolve_absolute :: "string list \<Rightarrow> string \<Rightarrow> string option" where
  "resolve_absolute modules candidate =
     (if candidate = [] then None
      else if candidate \<in> set modules then Some candidate
      else resolve_absolute modules (parent_module candidate))"
  by pat_completeness auto
termination by (relation "measure (\<lambda>(modules, candidate). length candidate)") (auto intro: parent_shorter)

declare resolve_absolute.simps [simp del]

text \<open>\<open>_resolve_from\<close>; a set is a list of its elements.\<close>

definition resolve_from :: "string \<Rightarrow> bool \<Rightarrow> string option \<Rightarrow> (string \<times> string option) list \<Rightarrow> nat \<Rightarrow> string list" where
  "resolve_from current is_package module aliases level = (
     let package_parts = (if is_package then split_dots current else butlast (split_dots current));
         trim = level - 1;
         base_parts = (if level = 0 then [] else take (length package_parts - trim) package_parts) in
     if 0 < level \<and> length package_parts < trim then []
     else case module of
       Some m \<Rightarrow>
         (if m = [] then
            (let base = str_join ''.'' base_parts in
             map (\<lambda>(name, _). if base = [] then name else str_join ''.'' (base_parts @ [name])) aliases @
             (if base = [] then [] else [base]))
          else (let base = str_join ''.'' (base_parts @ split_dots m) in
                base # map (\<lambda>(name, _). base @ ''.'' @ name) aliases))
     | None \<Rightarrow>
         (let base = str_join ''.'' base_parts in
          map (\<lambda>(name, _). if base = [] then name else str_join ''.'' (base_parts @ [name])) aliases @
          (if base = [] then [] else [base])))"

section \<open>Imports of a module\<close>

text \<open>\<open>_imports\<close>: the names that a tree imports from the packages, with the module each resolves to.\<close>

definition node_candidates :: "string \<Rightarrow> bool \<Rightarrow> py_node \<Rightarrow> string list" where
  "node_candidates current is_package node = filter (\<lambda>name. starts_with name ''packages'')
     (case node of
        ImportNode aliases \<Rightarrow> map fst aliases
      | ImportFrom module aliases level \<Rightarrow> resolve_from current is_package module aliases level
      | _ \<Rightarrow> [])"

definition import_candidates :: "string \<Rightarrow> bool \<Rightarrow> py_node list \<Rightarrow> string list" where
  "import_candidates current is_package tree = concat (map (node_candidates current is_package) tree)"

definition resolved_imports :: "string list \<Rightarrow> string \<Rightarrow> bool \<Rightarrow> py_node list \<Rightarrow> string list" where
  "resolved_imports modules current is_package tree =
     remdups (concat (map (\<lambda>c. case resolve_absolute modules c of None \<Rightarrow> [] | Some m \<Rightarrow> [m])
       (import_candidates current is_package tree)))"

definition missing_imports :: "string list \<Rightarrow> string \<Rightarrow> bool \<Rightarrow> py_node list \<Rightarrow> string list" where
  "missing_imports modules current is_package tree =
     remdups (filter (\<lambda>c. resolve_absolute modules c = None) (import_candidates current is_package tree))"

section \<open>Dynamic imports\<close>

text \<open>\<open>_dynamic_imports\<close>: the aliases that the tree binds, then the calls that import by name.\<close>

definition bound_name :: "string \<times> string option \<Rightarrow> string" where
  "bound_name a = (case snd a of Some n \<Rightarrow> if n = [] then fst a else n | None \<Rightarrow> fst a)"

definition importlib_aliases :: "py_node list \<Rightarrow> string list" where
  "importlib_aliases tree = ''importlib'' # concat (map (\<lambda>node. case node of
     ImportNode aliases \<Rightarrow> map bound_name (filter (\<lambda>a. fst a = ''importlib'') aliases) | _ \<Rightarrow> []) tree)"

definition from_aliases :: "string \<Rightarrow> string \<Rightarrow> py_node list \<Rightarrow> string list" where
  "from_aliases module name tree = name # concat (map (\<lambda>node. case node of
     ImportFrom (Some m) aliases _ \<Rightarrow> if m = module then map bound_name (filter (\<lambda>a. fst a = name) aliases) else []
   | _ \<Rightarrow> []) tree)"

definition dynamic_call :: "py_node list \<Rightarrow> string \<Rightarrow> py_expr \<Rightarrow> string list" where
  "dynamic_call tree module func = (case func of
     PyName n \<Rightarrow>
       (if n = ''__import__'' then [module @ '': __import__'']
        else if n \<in> set (from_aliases ''builtins'' ''__import__'' tree) then [module @ '': __import__ (alias: '' @ n @ '')'']
        else if n \<in> set (from_aliases ''importlib'' ''import_module'' tree)
        then [module @ '': importlib.import_module (alias: '' @ n @ '')'']
        else [])
   | PyAttribute (PyName n) attr \<Rightarrow>
       (if attr = ''import_module'' \<and> n \<in> set (importlib_aliases tree)
        then [if n = ''importlib'' then module @ '': importlib.import_module''
              else module @ '': importlib.import_module (alias: '' @ n @ '')'']
        else [])
   | _ \<Rightarrow> [])"

definition dynamic_imports :: "py_node list \<Rightarrow> string \<Rightarrow> string list" where
  "dynamic_imports tree module =
     concat (map (\<lambda>node. case node of CallNode func \<Rightarrow> dynamic_call tree module func | _ \<Rightarrow> []) tree)"

section \<open>Paths\<close>

type_synonym graph = "(string \<times> string list) list"

definition targets :: "graph \<Rightarrow> string \<Rightarrow> string list" where
  "targets graph node = (case map_of graph node of Some ts \<Rightarrow> ts | None \<Rightarrow> [])"

record path_search =
  sr_queue :: "string list list"
  sr_visited :: "string list"
  sr_paths :: "string list list"

text \<open>The inner loop of \<open>_paths_between\<close>, over the targets of the last node of a path.\<close>

fun expand :: "string \<Rightarrow> string list \<Rightarrow> string list \<Rightarrow> path_search \<Rightarrow> path_search" where
  "expand package path [] s = s"
| "expand package path (t # ts) s = expand package path ts
     (if under t package then s\<lparr>sr_paths := sr_paths s @ [path @ [t]]\<rparr>
      else if t \<notin> set (sr_visited s)
      then s\<lparr>sr_visited := t # sr_visited s, sr_queue := sr_queue s @ [path @ [t]]\<rparr>
      else s)"




lemma expand_progress:
  assumes "finite N" and "set ts \<subseteq> N"
  shows "card (N - set (sr_visited (expand package path ts s))) < card (N - set (sr_visited s)) \<or>
    sr_queue (expand package path ts s) = sr_queue s \<and> sr_visited (expand package path ts s) = sr_visited s"
  using assms(2)
proof (induction package path ts s rule: expand.induct)
  case (2 package path t ts s)
  let ?s = "if under t package then s\<lparr>sr_paths := sr_paths s @ [path @ [t]]\<rparr>
      else if t \<notin> set (sr_visited s) then s\<lparr>sr_visited := t # sr_visited s, sr_queue := sr_queue s @ [path @ [t]]\<rparr> else s"
  have ih: "card (N - set (sr_visited (expand package path ts ?s))) < card (N - set (sr_visited ?s)) \<or>
      sr_queue (expand package path ts ?s) = sr_queue ?s \<and> sr_visited (expand package path ts ?s) = sr_visited ?s"
    using 2 by simp
  show ?case
  proof (cases "\<not> under t package \<and> t \<notin> set (sr_visited s)")
    case True
    then have "N - set (sr_visited ?s) \<subset> N - set (sr_visited s)" using 2(2) by auto
    then have "card (N - set (sr_visited ?s)) < card (N - set (sr_visited s))" using assms(1) by (simp add: psubset_card_mono)
    moreover have "card (N - set (sr_visited (expand package path ts ?s))) \<le> card (N - set (sr_visited ?s))"
      using ih by auto
    ultimately show ?thesis unfolding expand.simps by linarith
  next
    case False
    then have "sr_queue ?s = sr_queue s" "sr_visited ?s = sr_visited s" by auto
    with ih show ?thesis unfolding expand.simps by simp
  qed
qed simp

definition graph_nodes :: "graph \<Rightarrow> string set" where
  "graph_nodes graph = (\<Union>ts \<in> snd ` set graph. set ts)"

lemma targets_nodes: "set (targets graph node) \<subseteq> graph_nodes graph"
proof (cases "map_of graph node")
  case (Some ts)
  then have "ts \<in> snd ` set graph" using map_of_SomeD by force
  then show ?thesis by (auto simp: targets_def graph_nodes_def Some)
qed (simp add: targets_def)

lemma graph_nodes_finite [simp]: "finite (graph_nodes graph)"
  by (auto simp: graph_nodes_def)

text \<open>The outer loop: every step empties the queue by one path or visits a new module.\<close>

function bfs :: "graph \<Rightarrow> string \<Rightarrow> path_search \<Rightarrow> path_search" where
  "bfs graph package s = (case sr_queue s of
     [] \<Rightarrow> s
   | path # queue \<Rightarrow> bfs graph package (expand package path (targets graph (last path)) (s\<lparr>sr_queue := queue\<rparr>)))"
  by pat_completeness auto
termination
proof (relation "measures [\<lambda>(graph, package, s). card (graph_nodes graph - set (sr_visited s)),
    \<lambda>(graph, package, s). length (sr_queue s)]", goal_cases)
  case (2 graph package s path queue)
  have "card (graph_nodes graph - set (sr_visited (expand package path (targets graph (last path)) (s\<lparr>sr_queue := queue\<rparr>)))) <
      card (graph_nodes graph - set (sr_visited s)) \<or>
      sr_queue (expand package path (targets graph (last path)) (s\<lparr>sr_queue := queue\<rparr>)) = queue \<and>
      sr_visited (expand package path (targets graph (last path)) (s\<lparr>sr_queue := queue\<rparr>)) = sr_visited s"
    using expand_progress [OF graph_nodes_finite targets_nodes, where s = "s\<lparr>sr_queue := queue\<rparr>"] by simp
  then show ?case using 2 by auto
qed simp

declare bfs.simps [simp del]

definition paths_from :: "graph \<Rightarrow> string \<Rightarrow> string \<Rightarrow> string list list" where
  "paths_from graph package start =
     sr_paths (bfs graph package \<lparr>sr_queue = [[start]], sr_visited = [start], sr_paths = []\<rparr>)"

text \<open>\<open>_paths_between\<close>.\<close>

definition paths_between :: "graph \<Rightarrow> string list \<Rightarrow> string \<Rightarrow> string list list" where
  "paths_between graph starts package = sort (remdups (concat (map (paths_from graph package) starts)))"

section \<open>The report\<close>

record IsolationReport =
  iso_schema_version :: string
  iso_oracle_prefix :: string
  iso_reconciliation_prefix :: string
  iso_modules :: "string list"
  iso_edges :: "(string \<times> string) list"
  iso_direct_forbidden_edges :: "(string \<times> string) list"
  iso_oracle_to_reconciliation_paths :: "string list list"
  iso_reconciliation_to_oracle_paths :: "string list list"
  iso_parse_errors :: "string list"
  iso_unresolved_internal_imports :: "string list"
  iso_dynamic_imports :: "string list"

definition isolated :: "IsolationReport \<Rightarrow> bool" where
  "isolated r \<longleftrightarrow> \<not> (iso_direct_forbidden_edges r \<noteq> [] \<or> iso_oracle_to_reconciliation_paths r \<noteq> [] \<or>
     iso_reconciliation_to_oracle_paths r \<noteq> [] \<or> iso_parse_errors r \<noteq> [] \<or>
     iso_unresolved_internal_imports r \<noteq> [] \<or> iso_dynamic_imports r \<noteq> [])"

definition report_dict :: "IsolationReport \<Rightarrow> json" where
  "report_dict r = (let strs = (\<lambda>xs. JList (map JStr xs)); pairs = (\<lambda>es. JList (map (\<lambda>(a, b). JList [JStr a, JStr b]) es)) in JObj [
     (''schema_version'', JStr (iso_schema_version r)), (''oracle_prefix'', JStr (iso_oracle_prefix r)),
     (''reconciliation_prefix'', JStr (iso_reconciliation_prefix r)), (''isolated'', JBool (isolated r)),
     (''modules'', strs (iso_modules r)), (''edges'', pairs (iso_edges r)),
     (''direct_forbidden_edges'', pairs (iso_direct_forbidden_edges r)),
     (''oracle_to_reconciliation_paths'', JList (map strs (iso_oracle_to_reconciliation_paths r))),
     (''reconciliation_to_oracle_paths'', JList (map strs (iso_reconciliation_to_oracle_paths r))),
     (''parse_errors'', strs (iso_parse_errors r)),
     (''unresolved_internal_imports'', strs (iso_unresolved_internal_imports r)),
     (''dynamic_imports'', strs (iso_dynamic_imports r))])"

text \<open>\<open>enforce_isolation\<close>: the exception carries the report and its JSON text.\<close>

definition enforce_isolation :: "IsolationReport \<Rightarrow> (IsolationReport \<times> string) + IsolationReport" where
  "enforce_isolation r = (if \<not> isolated r then Inl (r, dumps (report_dict r)) else Inr r)"

text \<open>
  \<open>_module_paths\<close> over the sorted listing of the source files, each given by the parts of its path without the suffix. Of
  two files for one module the later one counts, in the place of the first.
\<close>

type_synonym source_table = "(string \<times> bool \<times> parsed) list"

definition add_file :: "string list \<times> parsed \<Rightarrow> source_table \<Rightarrow> source_table" where
  "add_file f table = (case f of (parts, content) \<Rightarrow>
     let is_package = last parts = ''__init__''; names = (if is_package then butlast parts else parts) in
     if names = [] then table else AList.update (str_join ''.'' names) (is_package, content) table)"

definition module_table :: "(string list \<times> parsed) list \<Rightarrow> source_table" where
  "module_table files = fold add_file files []"

definition module_imports :: "string list \<Rightarrow> string \<times> bool \<times> parsed \<Rightarrow> string \<times> string list" where
  "module_imports modules m = (case m of (name, is_package, content) \<Rightarrow> (name, (case content of
     ParseError e \<Rightarrow> [] | Parsed tree \<Rightarrow> sort (resolved_imports modules name is_package tree))))"

definition import_graph :: "source_table \<Rightarrow> graph" where
  "import_graph table = map (module_imports (map fst table)) table"

definition parse_errors :: "source_table \<Rightarrow> string list" where
  "parse_errors table = concat (map (\<lambda>(name, _, content). case content of ParseError e \<Rightarrow> [name @ '': '' @ e] | _ \<Rightarrow> []) table)"

definition unresolved :: "source_table \<Rightarrow> string list" where
  "unresolved table = concat (map (\<lambda>(name, is_package, content). case content of
     Parsed tree \<Rightarrow> map (\<lambda>c. name @ '': '' @ c) (missing_imports (map fst table) name is_package tree) | _ \<Rightarrow> []) table)"

definition dynamic :: "source_table \<Rightarrow> string list" where
  "dynamic table = concat (map (\<lambda>(name, _, content). case content of Parsed tree \<Rightarrow> dynamic_imports tree name | _ \<Rightarrow> []) table)"

definition graph_edges :: "graph \<Rightarrow> (string \<times> string) list" where
  "graph_edges graph = sort (concat (map (\<lambda>(a, ts). map (\<lambda>b. (a, b)) ts) graph))"

definition forbidden_edge :: "string \<Rightarrow> string \<Rightarrow> string \<times> string \<Rightarrow> bool" where
  "forbidden_edge oracle engine e \<longleftrightarrow>
     under (fst e) oracle \<and> under (snd e) engine \<or> under (fst e) engine \<and> under (snd e) oracle"

text \<open>\<open>scan_repository\<close>, of a listing and without one.\<close>

definition scan_modules :: "source_table \<Rightarrow> string \<Rightarrow> string \<Rightarrow> IsolationReport" where
  "scan_modules table oracle engine = (let graph = import_graph table; modules = map fst table; edges = graph_edges graph in \<lparr>
     iso_schema_version = ''1.0.0'', iso_oracle_prefix = oracle, iso_reconciliation_prefix = engine,
     iso_modules = sort modules, iso_edges = edges, iso_direct_forbidden_edges = filter (forbidden_edge oracle engine) edges,
     iso_oracle_to_reconciliation_paths = paths_between graph (sort (filter (\<lambda>m. under m oracle) modules)) engine,
     iso_reconciliation_to_oracle_paths = paths_between graph (sort (filter (\<lambda>m. under m engine) modules)) oracle,
     iso_parse_errors = sort (parse_errors table), iso_unresolved_internal_imports = sort (unresolved table),
     iso_dynamic_imports = sort (dynamic table)\<rparr>)"

definition scan_repository ::
    "string \<Rightarrow> (string list \<times> parsed) list option \<Rightarrow> string \<Rightarrow> string \<Rightarrow> py_error + IsolationReport" where
  "scan_repository package_root files oracle engine = (case files of
     None \<Rightarrow> Inl (ValueError (''package root does not exist: '' @ package_root))
   | Some fs \<Rightarrow> Inr (scan_modules (module_table fs) oracle engine))"

section \<open>The search is complete\<close>












section \<open>The graph is the import relation of the sources\<close>















text \<open>A chain through a third package, with a cycle on the way, is reported.\<close>

lemma shared_chain_reported:
  "iso_oracle_to_reconciliation_paths (scan_modules (module_table [
     ([''packages'', ''oracle'', ''a''], Parsed [ImportFrom (Some ''packages.shared'') [(''b'', None)] 0]),
     ([''packages'', ''shared'', ''__init__''], Parsed []),
     ([''packages'', ''shared'', ''b''], Parsed [ImportFrom None [(''b'', None)] 1,
        ImportNode [(''packages.reconciliation.c'', None)]]),
     ([''packages'', ''reconciliation'', ''c''], Parsed [OtherNode])]) ''packages.oracle'' ''packages.reconciliation'') =
   [[''packages.oracle.a'', ''packages.shared.b'', ''packages.reconciliation.c'']]"
  by code_simp

end
