(* ===== verification/Spec2Isabelle.thy ===== *)
theory Spec2Isabelle
  imports Remediation_Api Contract_Policies Recon_Sample Service_Sample Oracle_Sample Import_Graph
begin

text \<open>
  TradeOps Sentinel reconciles the records that four source systems keep of one foreign-exchange
  trade (a FIX execution, a trade capture, an FpML confirmation and a legacy booking) and lets an
  operator correct a booking under dual control. This development is a shallow embedding of its
  Python packages with the theorems that make them correct.

  \<^bold>\<open>Parts of the program and their theories.\<close>
  Source observations are validated against the contracts (\<open>packages/contracts/models.py\<close>) and
  fingerprinted (\<open>contracts/hashing.py\<close>), are stored by an inbox that never overwrites
  (\<open>packages/persistence\<close>), are grouped by lineage and resolved into a canonical state
  (\<open>persistence/assembler.py\<close>), and are reconciled by a pure engine (\<open>packages/reconciliation\<close>)
  that emits breaks; \<open>apps/api/service.py\<close> composes these steps over the PostgreSQL tables. A break
  that a booking correction can repair goes through the remediation flow (\<open>packages/remediation\<close>,
  \<open>apps/api/main.py\<close>): triage with an AI recommendation that a policy engine gates, approval by a
  maker and a checker, a signed action envelope, an executor that writes the legacy record at most
  once, the correction fed back as a new booking revision, a rerun of the trade, an evidence pack.

    \<^item> \<open>Prelude\<close>, \<open>Json\<close>, \<open>Calendar\<close>, \<open>Decimals\<close>, \<open>Runtime\<close>: what the sources use of Python: exceptions
      as values of \<open>py_error + 'a\<close> with \<open>ebind\<close>, \<open>emap\<close>, \<open>efold\<close>, \<open>efind\<close>; ordered validator checks
      (\<open>checked\<close>); strings of code points below 256; \<open>json.dumps\<close> with sorted keys and its
      injectivity; dates, aware date-times and their ISO texts; \<open>decimal.Decimal\<close>; digests.
    \<^item> \<open>Remediation_Models\<close>, \<open>Remediation_Policy\<close> (with retrieval and the deterministic provider),
      \<open>Remediation_Envelope\<close>, \<open>Remediation_Store\<close>, \<open>Remediation_Executor\<close> (with the legacy adapter),
      \<open>Remediation_Case\<close> (triage and evidence), \<open>Remediation_Api\<close> (handlers and their traces).
    \<^item> \<open>Contract_Types\<close>, \<open>Contract_Observations\<close>, \<open>Contract_Canonical\<close>, \<open>Contract_Policies\<close>,
      \<open>Break_Taxonomy\<close>, \<open>Trade_Break\<close>, \<open>Break_Json\<close>: \<open>packages/contracts/models.py\<close>. A pydantic model
      is a record, and \<open>mk_Model\<close> is its construction: the field patterns, then the validators, in
      order, each a branch that raises.
    \<^item> \<open>Recon_Config\<close>, \<open>Recon_Models\<close>, \<open>Recon_Engine\<close>: \<open>packages/reconciliation\<close>; \<open>Recon_Correct\<close> and
      \<open>Recon_Total\<close>: its specification and theorems; \<open>Recon_Sample\<close>: concrete runs.
    \<^item> \<open>Sha256\<close>, \<open>Iso_Time\<close>, \<open>Observation_Hash\<close>: the digest as FIPS 180-4 computes it on 32-bit words,
      the parser of ISO timestamps, and \<open>contracts/hashing.py\<close>: the canonical document of an
      observation, its bytes, the fingerprint and its check.
    \<^item> \<open>Inbox\<close> (\<open>persistence/inbox.py\<close>), \<open>Assembler\<close> (\<open>persistence/assembler.py\<close> with the packaged
      policy), \<open>Adapter\<close> (\<open>persistence/adapter.py\<close>: the tables as lists of rows with their keys, a
      method as a transaction that rolls back when it raises).
    \<^item> \<open>Service\<close>, \<open>Service_Run\<close>: \<open>apps/api/service.py\<close>, and what its three entry points do to the
      tables; \<open>Service_Sample\<close>: concrete runs over a constant digest.
    \<^item> \<open>Oracle\<close>: \<open>packages/oracle/evaluator.py\<close> and \<open>oracle/models.py\<close> over JSON documents;
      \<open>Oracle_Agrees\<close>: the agreement of the oracle with the engine; \<open>Oracle_Sample\<close>: a concrete context.
    \<^item> \<open>Import_Graph\<close>: \<open>packages/oracle/import_graph.py\<close>: import resolution over syntax trees, the breadth-first
      search for import chains and the isolation report.

  \<^bold>\<open>State and effects.\<close> The remediation tables are a record of association lists; a store method
  is a function on it in a state-and-error monad (\<open>call\<close>), so that a handler that raises keeps the
  writes it had committed. A sequence of API requests is a trace of such handlers. The engine and
  the contracts are pure. What lies outside the sources (the remote model, the clock, the renderings
  of pydantic-core) is an argument: the record \<open>runtime\<close> or a parameter of the handler.

  \<^bold>\<open>What is proved.\<close>
    \<^item> Remediation: no correction is applied without an eligible recommendation and two distinct
      approvers, whatever requests arrive; the exact condition of an applied correction and of an
      eligible recommendation, and what the offline provider leads to; a replay writes nothing unless
      another correction of the record was applied in between; every change of an envelope is refused;
      built envelopes verify until they expire; the order of the executor's outcomes; the tables
      keep their keys unique and only grow.
    \<^item> Contracts: a break that is resolved by a reconciliation pass carries a proof of agreeing sources; accepted
      breaks compare sources of their own scope; the lifecycle matrix and the finite histories it
      admits; provenance of canonical fields; the shape of linkage decisions and observations; the
      identity and source-of-truth policies are the approved tables.
    \<^item> Reconciliation: a validated configuration answers every lookup; a run reports exactly the
      families that the source set violates, stated as the specification \<open>violated\<close> over a set of
      observations; a source set without violations is reconciled to a pass; the result does not
      depend on the order of the observations; the run envelope is sound. Two source sets are given
      on which the code raises instead of reporting a break.
    \<^item> Oracle: the second evaluator, which reads documents and shares no code with the engine, returns on
      every context the engine accepts and reports the same families and result; it differs only on a
      single observation with an unexpected status. The import check that keeps the two apart reports
      isolation exactly when no chain of imports connects them and no import is hidden from it.
    \<^item> Hashing: deliveries that differ in content differ in their canonical bytes, whatever the zone
      their instants are written in, so that a fingerprint identifies the content up to a collision
      of the digest.
    \<^item> Persistence: the inbox keeps the first delivery of every identity; an assembled state takes
      every field from the authoritative source in its newest version, and is assembled for exactly
      the selection of those sources; the adapter simulates the
      reference inbox, and quarantine keeps every delivery.
    \<^item> Service: a lineage group is reconciled without superseded revisions and reports exactly what
      the others violate; a correction appends one valid revision that replaces the booking it
      corrects; the rerun of a trade whose sources agree passes; the summary is that of the latest run.

  \<^bold>\<open>Bounds.\<close> No definition uses fuel: loops are structural recursions or have termination proofs.
  Integers are Python's unbounded integers. Decimal operations round to the 28 digits of the default
  context; exponents beyond the limits of the context are not modelled.

  \<^bold>\<open>Not modelled.\<close> The scenario generator and the action contracts; the corpus that the service loads and the parsed
  source files that the import check reads are arguments. Opening database connections, migrations and the append-only
  triggers are left to the database. The dashboard, the repository scripts and the wiring of the web
  framework are presentation and I/O. The remote model provider is a parameter.
\<close>

end
